(* ===== verification/Prelude.thy ===== *)
theory Prelude imports Main "HOL-Library.List_Lexorder" "HOL-Library.Char_ord" begin

text \<open>
  What the component theories share: Python values and dictionaries as stored in JSON columns,
  results of fallible operations as sums, tables of rows as lists, and the lemma collections
  the component proofs use.

  \<^item> A Python \<open>dict\<close> of a JSON column is an association list whose keys are strings;
    \<open>dget\<close> is \<open>dict.get\<close>.
  \<^item> An operation that raises has type \<open>error + value\<close>; \<open>ebind\<close> is "continue unless it raised",
    \<open>raise_if\<close> is \<open>if cond: raise error\<close>.
  \<^item> A database table is the list of its rows in insertion order. \<open>tget\<close> is
    \<open>query.filter(key == k).first()\<close>, \<open>tput\<close> writes a changed row back, \<open>tadd\<close> inserts,
    \<open>tdel\<close> deletes, \<open>twhere\<close> is an \<open>UPDATE ... WHERE\<close>.
  \<^item> Dates and times are integers (days or seconds); the clock is an argument of every operation
    that reads it.
\<close>

named_theorems row_simps "reading a table after it was written"

type_synonym time = int

subsection \<open>Python values\<close>

datatype pyval =
    PNone
  | PBool bool
  | PInt int
  | PStr string
  | PList "pyval list"
  | PDict "(string \<times> pyval) list"

type_synonym pydict = "(string \<times> pyval) list"

definition dget :: "pydict \<Rightarrow> string \<Rightarrow> pyval" where
  "dget d k = (case map_of d k of None \<Rightarrow> PNone | Some v \<Rightarrow> v)"

definition dhas :: "pydict \<Rightarrow> string \<Rightarrow> bool" where
  "dhas d k \<longleftrightarrow> map_of d k \<noteq> None"

definition py_opt_int :: "int option \<Rightarrow> pyval" where
  "py_opt_int x = (case x of None \<Rightarrow> PNone | Some i \<Rightarrow> PInt i)"

definition py_opt_str :: "string option \<Rightarrow> pyval" where
  "py_opt_str x = (case x of None \<Rightarrow> PNone | Some s \<Rightarrow> PStr s)"

text \<open>\<open>isinstance(v, int)\<close> is also true of Python's booleans.\<close>

fun py_is_int :: "pyval \<Rightarrow> bool" where
  "py_is_int (PInt _) = True"
| "py_is_int (PBool _) = True"
| "py_is_int _ = False"

fun py_int_of :: "pyval \<Rightarrow> int option" where
  "py_int_of (PInt i) = Some i"
| "py_int_of (PBool b) = Some (if b then 1 else 0)"
| "py_int_of _ = None"

lemma py_int_of_iff: "(\<exists>i. py_int_of v = Some i) \<longleftrightarrow> py_is_int v"
  by (cases v) auto

lemma dget_Cons [simp]: "dget ((k, v) # d) k' = (if k' = k then v else dget d k')"
  by (simp add: dget_def)

lemma dget_Nil [simp]: "dget [] k = PNone"
  by (simp add: dget_def)

lemma dhas_Cons [simp]: "dhas ((k, v) # d) k' \<longleftrightarrow> k' = k \<or> dhas d k'"
  by (simp add: dhas_def)

lemma dhas_Nil [simp]: "\<not> dhas [] k"
  by (simp add: dhas_def)

lemma dget_map_key: "dget (map (\<lambda>k. (k, f k)) ks) k = (if k \<in> set ks then f k else PNone)"
  by (induction ks) auto

lemma dhas_map_key: "dhas (map (\<lambda>k. (k, f k)) ks) k \<longleftrightarrow> k \<in> set ks"
  by (induction ks) auto

text \<open>\<open>d[k] = v\<close> keeps the position of an existing key; \<open>d.update(e)\<close> stores the items of \<open>e\<close> in turn.\<close>

fun dset :: "pydict \<Rightarrow> string \<Rightarrow> pyval \<Rightarrow> pydict" where
  "dset [] k v = [(k, v)]"
| "dset ((k', v') # d) k v = (if k' = k then (k, v) # d else (k', v') # dset d k v)"

fun dupdate :: "pydict \<Rightarrow> pydict \<Rightarrow> pydict" where
  "dupdate d [] = d"
| "dupdate d ((k, v) # e) = dupdate (dset d k v) e"

lemma dget_dset [simp]: "dget (dset d k v) k' = (if k' = k then v else dget d k')"
  by (induction d k v rule: dset.induct) auto

lemma dhas_dset [simp]: "dhas (dset d k v) k' \<longleftrightarrow> k' = k \<or> dhas d k'"
  by (induction d k v rule: dset.induct) auto

lemma dhas_dupdate [simp]: "dhas (dupdate d e) k \<longleftrightarrow> dhas d k \<or> dhas e k"
  by (induction d e rule: dupdate.induct) auto

text \<open>Decimal notation of integers, Python's \<open>str(int)\<close>.\<close>

definition digit_char :: "nat \<Rightarrow> char" where
  "digit_char n = char_of (48 + n)"

fun show_nat :: "nat \<Rightarrow> string" where
  "show_nat n = (if n < 10 then [digit_char n] else show_nat (n div 10) @ [digit_char (n mod 10)])"

declare show_nat.simps [simp del]

definition show_int :: "int \<Rightarrow> string" where
  "show_int i = (if i < 0 then CHR ''-'' # show_nat (nat (- i)) else show_nat (nat i))"

definition is_digit :: "char \<Rightarrow> bool" where
  "is_digit c \<longleftrightarrow> (let n = of_char c :: nat in 48 \<le> n \<and> n \<le> 57)"

definition digits_value :: "string \<Rightarrow> int" where
  "digits_value s = foldl (\<lambda>n c. 10 * n + (of_char c - 48)) 0 s"

lemma of_char_digit: "n < 10 \<Longrightarrow> of_char (digit_char n) = 48 + n"
  by (simp add: digit_char_def)

lemma of_char_digit_int: "n < 10 \<Longrightarrow> of_char (digit_char n) = 48 + int n"
  by (metis of_char_digit of_nat_add of_nat_numeral of_nat_of_char)

lemma is_digit_digit_char: "n < 10 \<Longrightarrow> is_digit (digit_char n)"
  by (simp add: is_digit_def of_char_digit)

lemma digits_value_snoc: "digits_value (s @ [c]) = 10 * digits_value s + (of_char c - 48)"
  by (simp add: digits_value_def)

lemma digits_value_pad: "digits_value (replicate k CHR ''0'' @ s) = digits_value s"
  by (induction k) (simp_all add: digits_value_def)

lemma show_nat_digits: "list_all is_digit (show_nat n) \<and> show_nat n \<noteq> []"
proof (induction n rule: show_nat.induct)
  case (1 n)
  then show ?case
    by (subst (1 2) show_nat.simps) (auto simp: is_digit_digit_char)
qed

lemma digits_value_show: "digits_value (show_nat n) = int n"
proof (induction n rule: show_nat.induct)
  case (1 n)
  show ?case
  proof (cases "n < 10")
    case True
    then show ?thesis
      by (subst show_nat.simps) (simp add: digits_value_def of_char_digit_int)
  next
    case False
    have "10 * int (n div 10) + int (n mod 10) = int n"
      by (metis mult_div_mod_eq of_nat_add of_nat_mult of_nat_numeral)
    with "1" False show ?thesis
      by (subst show_nat.simps) (simp add: digits_value_snoc of_char_digit_int)
  qed
qed

lemma show_nat_inj: "show_nat m = show_nat n \<longleftrightarrow> m = n"
  by (metis digits_value_show of_nat_eq_iff)

lemma show_nat_no_minus: "show_nat n \<noteq> CHR ''-'' # s"
  using show_nat_digits [of n] by (auto simp: is_digit_def)

lemma show_int_inj: "show_int i = show_int j \<longleftrightarrow> i = j"
  using show_nat_no_minus by (auto simp: show_int_def show_nat_inj dest: sym)

text \<open>
  \<open>str(v)\<close>. The text of a list or dictionary (Python's \<open>repr\<close>) is the argument \<open>rp\<close>: the code
  calls \<open>str\<close> on scalar codes and ids, and no result about it depends on the text of a container.
\<close>

fun py_str :: "(pyval \<Rightarrow> string) \<Rightarrow> pyval \<Rightarrow> string" where
  "py_str rp PNone = ''None''"
| "py_str rp (PBool b) = (if b then ''True'' else ''False'')"
| "py_str rp (PInt i) = show_int i"
| "py_str rp (PStr s) = s"
| "py_str rp v = rp v"

text \<open>\<open>str.strip\<close> on Latin-1 text.\<close>

definition py_space :: "char \<Rightarrow> bool" where
  "py_space c \<longleftrightarrow> (let n = of_char c :: nat in
     (9 \<le> n \<and> n \<le> 13) \<or> (28 \<le> n \<and> n \<le> 32) \<or> n = 133 \<or> n = 160)"

definition py_strip :: "string \<Rightarrow> string" where
  "py_strip s = rev (dropWhile py_space (rev (dropWhile py_space s)))"

text \<open>\<open>str.upper\<close> and \<open>str.isascii\<close>, the first on ASCII text.\<close>

definition upper_char :: "char \<Rightarrow> char" where
  "upper_char c = (let n = of_char c :: nat in if 97 \<le> n \<and> n \<le> 122 then char_of (n - 32) else c)"

definition is_ascii :: "string \<Rightarrow> bool" where
  "is_ascii s \<longleftrightarrow> list_all (\<lambda>c. (of_char c :: nat) < 128) s"

subsection \<open>Results of operations that may raise\<close>

definition ebind :: "'e + 'a \<Rightarrow> ('a \<Rightarrow> 'e + 'b) \<Rightarrow> 'e + 'b" where
  "ebind m f = (case m of Inl e \<Rightarrow> Inl e | Inr x \<Rightarrow> f x)"

definition raise_if :: "bool \<Rightarrow> 'e \<Rightarrow> 'e + unit" where
  "raise_if b e = (if b then Inl e else Inr ())"

definition some_or :: "'e \<Rightarrow> 'a option \<Rightarrow> 'e + 'a" where
  "some_or e x = (case x of None \<Rightarrow> Inl e | Some v \<Rightarrow> Inr v)"

lemma ebind_Inl [simp]: "ebind (Inl e) f = Inl e"
  by (simp add: ebind_def)

lemma ebind_Inr [simp]: "ebind (Inr x) f = f x"
  by (simp add: ebind_def)

lemma ebind_eq_Inr [simp]: "ebind m f = Inr y \<longleftrightarrow> (\<exists>x. m = Inr x \<and> f x = Inr y)"
  by (cases m) auto

lemma ebind_InrE:
  assumes "ebind m f = Inr y"
  obtains x where "m = Inr x" and "f x = Inr y"
  using assms by auto

lemma ebind_eq_Inl: "ebind m f = Inl e \<longleftrightarrow> m = Inl e \<or> (\<exists>x. m = Inr x \<and> f x = Inl e)"
  by (cases m) auto

lemma raise_if_True [simp]: "b \<Longrightarrow> raise_if b e = Inl e"
  by (simp add: raise_if_def)

lemma raise_if_False [simp]: "\<not> b \<Longrightarrow> raise_if b e = Inr ()"
  by (simp add: raise_if_def)

lemma raise_if_eq_Inr [simp]: "raise_if b e = Inr u \<longleftrightarrow> \<not> b"
  by (simp add: raise_if_def)

lemma raise_if_eq_Inl [simp]: "raise_if b e = Inl e' \<longleftrightarrow> b \<and> e' = e"
  by (auto simp: raise_if_def)

lemma some_or_simps [simp]: "some_or e None = Inl e" "some_or e (Some v) = Inr v"
  by (simp_all add: some_or_def)

lemma some_or_eq_Inr [simp]: "some_or e x = Inr v \<longleftrightarrow> x = Some v"
  by (cases x) auto

lemma some_or_eq_Inl [simp]: "some_or e x = Inl e' \<longleftrightarrow> x = None \<and> e' = e"
  by (cases x) auto

text \<open>\<open>try: m except IntegrityError: raise e\<close>, where \<open>Inl ()\<close> is the constraint violation.\<close>

definition rescue :: "'e \<Rightarrow> unit + 'a \<Rightarrow> 'e + 'a" where
  "rescue e m = (case m of Inl _ \<Rightarrow> Inl e | Inr x \<Rightarrow> Inr x)"

lemma rescue_simps [simp]: "rescue e (Inl u) = Inl e" "rescue e (Inr x) = Inr x"
  by (simp_all add: rescue_def)

lemma rescue_eq_Inr [simp]: "rescue e m = Inr x \<longleftrightarrow> m = Inr x"
  by (cases m) auto

lemma rescue_eq_Inl [simp]: "rescue e m = Inl e' \<longleftrightarrow> m = Inl () \<and> e' = e"
  by (cases m) auto

text \<open>A concrete call that does not raise returns its value; for evaluated instances.\<close>

lemma Inr_projr: "\<not> isl m \<Longrightarrow> m = Inr (projr m)"
  by (cases m) simp_all

lemma Inr_projr_pair: "\<not> isl m \<Longrightarrow> m = Inr (fst (projr m), snd (projr m))"
  by (cases m) simp_all

lemma run_case:
  "(case m of Inl _ \<Rightarrow> False | Inr (x, d) \<Rightarrow> P x d) \<Longrightarrow>
   m = Inr (fst (projr m), snd (projr m)) \<and> P (fst (projr m)) (snd (projr m))"
  by (cases m) auto

subsection \<open>Tables\<close>

definition tget :: "('r \<Rightarrow> 'k) \<Rightarrow> 'k \<Rightarrow> 'r list \<Rightarrow> 'r option" where
  "tget key k t = find (\<lambda>r. key r = k) t"

definition tput :: "('r \<Rightarrow> 'k) \<Rightarrow> 'r \<Rightarrow> 'r list \<Rightarrow> 'r list" where
  "tput key r t = map (\<lambda>x. if key x = key r then r else x) t"

definition tdel :: "('r \<Rightarrow> 'k) \<Rightarrow> 'k \<Rightarrow> 'r list \<Rightarrow> 'r list" where
  "tdel key k t = filter (\<lambda>r. key r \<noteq> k) t"

definition twhere :: "('r \<Rightarrow> bool) \<Rightarrow> ('r \<Rightarrow> 'r) \<Rightarrow> 'r list \<Rightarrow> 'r list" where
  "twhere p f t = map (\<lambda>r. if p r then f r else r) t"

lemma tget_Nil [simp]: "tget key k [] = None"
  by (simp add: tget_def)

lemma tget_Cons: "tget key k (r # t) = (if key r = k then Some r else tget key k t)"
  by (simp add: tget_def)

lemma tget_Some_iff:
  "distinct (map key t) \<Longrightarrow> tget key k t = Some r \<longleftrightarrow> r \<in> set t \<and> key r = k"
proof (induction t)
  case Nil
  show ?case by simp
next
  case (Cons a t)
  then show ?case by (force simp: tget_Cons)
qed

lemma tget_SomeD: "tget key k t = Some r \<Longrightarrow> r \<in> set t \<and> key r = k"
  by (auto simp: tget_def find_Some_iff)

lemma tget_None_iff: "tget key k t = None \<longleftrightarrow> k \<notin> key ` set t"
  by (auto simp: tget_def find_None_iff)

lemma tget_append [row_simps]:
  "tget key k (t @ [r]) = (case tget key k t of Some x \<Rightarrow> Some x | None \<Rightarrow> if key r = k then Some r else None)"
  by (induction t) (auto simp: tget_Cons)

lemma tget_tput [row_simps]:
  "tget key k (tput key r t) =
     (case tget key k t of None \<Rightarrow> None | Some x \<Rightarrow> Some (if key r = k then r else x))"
  by (induction t) (auto simp: tget_Cons tput_def)

lemma tget_tdel [row_simps]: "tget key k (tdel key k' t) = (if k = k' then None else tget key k t)"
  by (induction t) (auto simp: tget_Cons tdel_def)

lemma tget_twhere:
  "(\<And>r. key (f r) = key r) \<Longrightarrow>
   tget key k (twhere p f t) = map_option (\<lambda>r. if p r then f r else r) (tget key k t)"
  by (induction t) (auto simp: tget_Cons twhere_def)

lemma keys_tput [simp]: "map key (tput key r t) = map key t"
  by (induction t) (auto simp: tput_def)

lemma keys_twhere: "(\<And>r. key (f r) = key r) \<Longrightarrow> map key (twhere p f t) = map key t"
  by (induction t) (auto simp: twhere_def)

lemma distinct_tdel: "distinct (map key t) \<Longrightarrow> distinct (map key (tdel key k t))"
  by (induction t) (auto simp: tdel_def)

lemma set_tdel: "set (tdel key k t) = {r \<in> set t. key r \<noteq> k}"
  by (auto simp: tdel_def)

lemma set_twhere: "set (twhere p f t) = {r \<in> set t. \<not> p r} \<union> f ` {r \<in> set t. p r}"
  by (auto simp: twhere_def)

lemma twhere_E:
  assumes "x \<in> set (twhere p f t)"
  obtains "x \<in> set t" "\<not> p x" | r where "r \<in> set t" "p r" "x = f r"
  using assms by (auto simp: set_twhere)

lemma set_tput_subset: "set (tput key r t) \<subseteq> insert r (set t)"
  by (auto simp: tput_def)

lemma length_tput [simp]: "length (tput key r t) = length t"
  by (simp add: tput_def)

lemma tput_absent: "key r \<notin> key ` set t \<Longrightarrow> tput key r t = t"
  by (induction t) (auto simp: tput_def)

lemma tput_mem: "r' \<in> set (tput key r t) \<Longrightarrow> r' = r \<or> (r' \<in> set t \<and> key r' \<noteq> key r)"
  by (auto simp: tput_def split: if_splits)

end
