(* ===== verification/Errors.thy ===== *)
theory Errors imports Prelude begin

text \<open>
  The application's exceptions (\<^verbatim>\<open>app/core/exceptions.py\<close>) and their conversion into HTTP responses
  (\<^verbatim>\<open>app/core/exception_handlers.py\<close>).

  \<open>err_class\<close> lists the exception classes, \<open>base_class\<close> is the class each one extends,
  \<open>mro\<close> is Python's method resolution order (single inheritance: the chain of bases), \<open>class_code\<close>
  is the class attribute \<open>code\<close> after inheritance. An exception in flight is an \<open>app_error\<close>
  record: its class, the message it was raised with (the name of the constant of
  \<^verbatim>\<open>app/core/error_messages.py\<close>; \<open>None\<close> for the class default), the current resource of a version
  conflict, and the OAuth fields of \<open>McpOAuthError\<close>.
\<close>

subsection \<open>The class hierarchy\<close>

datatype err_class =
    AppError | BadRequestError | SharedFileUnavailableError | RequirementPdfExportError
  | ArtifactReleaseTooLargeError | FixedApprovalTooLargeError | DemoLimitError
  | UnauthorizedError | AuthenticationRequiredError | TokenExpiredError | InvalidTokenError
  | ForbiddenError | MfaRequiredError | MfaInvalidError | MfaUnavailableError
  | CsrfTokenInvalidError | PasswordChangeRequiredError | InitialPasswordExpiredError
  | InitialPasswordReuseError | NotFoundError | ConflictError | DuplicateResourceError
  | FixedApprovalScopeConflictError | FixedApprovalMigratedError
  | SpecificationUnresolvedCommentsError | SpecificationReviewFieldsError
  | ObjectiveProjectionUpgradeError | VersionConflictError | LastProjectAdminRequiredError
  | InvalidCredentialsError | EmailAlreadyRegisteredError | EmailUnavailableError
  | LocalEmailCaptureError | AccountActionInvalidError | AccountActionRateLimitedError
  | McpOAuthError

fun base_class :: "err_class \<Rightarrow> err_class option" where
  "base_class AppError = None"
| "base_class RequirementPdfExportError = Some BadRequestError"
| "base_class FixedApprovalTooLargeError = Some ArtifactReleaseTooLargeError"
| "base_class AuthenticationRequiredError = Some UnauthorizedError"
| "base_class TokenExpiredError = Some UnauthorizedError"
| "base_class InvalidTokenError = Some UnauthorizedError"
| "base_class MfaRequiredError = Some ForbiddenError"
| "base_class MfaInvalidError = Some BadRequestError"
| "base_class CsrfTokenInvalidError = Some ForbiddenError"
| "base_class PasswordChangeRequiredError = Some ForbiddenError"
| "base_class InitialPasswordExpiredError = Some ForbiddenError"
| "base_class InitialPasswordReuseError = Some BadRequestError"
| "base_class DuplicateResourceError = Some ConflictError"
| "base_class FixedApprovalScopeConflictError = Some ConflictError"
| "base_class FixedApprovalMigratedError = Some ConflictError"
| "base_class SpecificationUnresolvedCommentsError = Some ConflictError"
| "base_class SpecificationReviewFieldsError = Some BadRequestError"
| "base_class ObjectiveProjectionUpgradeError = Some ConflictError"
| "base_class VersionConflictError = Some ConflictError"
| "base_class LastProjectAdminRequiredError = Some ConflictError"
| "base_class InvalidCredentialsError = Some UnauthorizedError"
| "base_class EmailAlreadyRegisteredError = Some BadRequestError"
| "base_class LocalEmailCaptureError = Some EmailUnavailableError"
| "base_class AccountActionInvalidError = Some BadRequestError"
| "base_class _ = Some AppError"

text \<open>The depth of a class below \<open>AppError\<close> bounds the chain of bases.\<close>

definition class_depth :: "err_class \<Rightarrow> nat" where
  "class_depth c =
     (case base_class c of None \<Rightarrow> 0
      | Some b \<Rightarrow> (case base_class b of None \<Rightarrow> 1 | Some _ \<Rightarrow> 2))"

lemma base_class_depth: "base_class c = Some b \<Longrightarrow> class_depth b < class_depth c"
  by (cases c) (auto simp: class_depth_def)

function mro :: "err_class \<Rightarrow> err_class list" where
  "mro c = (case base_class c of None \<Rightarrow> [c] | Some b \<Rightarrow> c # mro b)"
  by pat_completeness auto
termination
  by (relation "measure class_depth") (auto simp: base_class_depth)

declare mro.simps [simp del]

definition is_subclass :: "err_class \<Rightarrow> err_class \<Rightarrow> bool" where
  "is_subclass c d \<longleftrightarrow> d \<in> set (mro c)"

fun class_code :: "err_class \<Rightarrow> string" where
  "class_code AppError = ''APP_ERROR''"
| "class_code BadRequestError = ''BAD_REQUEST''"
| "class_code SharedFileUnavailableError = ''SHARED_FILE_UNAVAILABLE''"
| "class_code RequirementPdfExportError = ''REQUIREMENT_PDF_UNSUPPORTED_CONTENT''"
| "class_code ArtifactReleaseTooLargeError = ''ARTIFACT_RELEASE_TOO_LARGE''"
| "class_code FixedApprovalTooLargeError = ''FIXED_APPROVAL_TOO_LARGE''"
| "class_code DemoLimitError = ''DEMO_LIMIT_REACHED''"
| "class_code UnauthorizedError = ''UNAUTHORIZED''"
| "class_code AuthenticationRequiredError = ''AUTHENTICATION_REQUIRED''"
| "class_code TokenExpiredError = ''TOKEN_EXPIRED''"
| "class_code InvalidTokenError = ''INVALID_TOKEN''"
| "class_code ForbiddenError = ''FORBIDDEN''"
| "class_code MfaRequiredError = ''MFA_REQUIRED''"
| "class_code MfaInvalidError = ''MFA_INVALID''"
| "class_code MfaUnavailableError = ''MFA_UNAVAILABLE''"
| "class_code CsrfTokenInvalidError = ''CSRF_TOKEN_INVALID''"
| "class_code PasswordChangeRequiredError = ''PASSWORD_CHANGE_REQUIRED''"
| "class_code InitialPasswordExpiredError = ''INITIAL_PASSWORD_EXPIRED''"
| "class_code InitialPasswordReuseError = ''INITIAL_PASSWORD_REUSE''"
| "class_code NotFoundError = ''NOT_FOUND''"
| "class_code ConflictError = ''CONFLICT''"
| "class_code DuplicateResourceError = ''DUPLICATE_RESOURCE''"
| "class_code FixedApprovalScopeConflictError = ''APPROVAL_SCOPE_CONFLICT''"
| "class_code FixedApprovalMigratedError = ''APPROVAL_MIGRATED''"
| "class_code SpecificationUnresolvedCommentsError = ''SPECIFICATION_UNRESOLVED_COMMENTS''"
| "class_code SpecificationReviewFieldsError = ''SPECIFICATION_REVIEW_FIELDS_REQUIRED''"
| "class_code ObjectiveProjectionUpgradeError = ''OBJECTIVE_PROJECTION_UPGRADE_REQUIRED''"
| "class_code VersionConflictError = ''VERSION_CONFLICT''"
| "class_code LastProjectAdminRequiredError = ''LAST_PROJECT_ADMIN_REQUIRED''"
| "class_code InvalidCredentialsError = ''INVALID_CREDENTIALS''"
| "class_code EmailAlreadyRegisteredError = ''EMAIL_ALREADY_REGISTERED''"
| "class_code EmailUnavailableError = ''EMAIL_UNAVAILABLE''"
| "class_code LocalEmailCaptureError = ''EMAIL_UNAVAILABLE''"
| "class_code AccountActionInvalidError = ''ACCOUNT_ACTION_INVALID''"
| "class_code AccountActionRateLimitedError = ''RATE_LIMITED''"
| "class_code McpOAuthError = ''MCP_OAUTH_ERROR''"

text \<open>
  The class attribute \<open>message\<close>, by the name of the constant of \<^verbatim>\<open>error_messages.py\<close> it is
  bound to. Two classes have an inline text instead of a constant (\<open>DemoLimitError\<close>,
  \<open>McpOAuthError\<close>) and are given the name of their code; \<open>RequirementPdfExportError\<close> is always
  raised with a formatted message.
\<close>

fun class_message :: "err_class \<Rightarrow> string" where
  "class_message AppError = ''APPLICATION_ERROR''"
| "class_message ArtifactReleaseTooLargeError = ''ARTIFACT_TOO_LARGE''"
| "class_message CsrfTokenInvalidError = ''INVALID_CSRF_TOKEN''"
| "class_message FixedApprovalScopeConflictError = ''FIXED_APPROVAL_INVALID''"
| "class_message FixedApprovalMigratedError = ''FIXED_APPROVAL_MIGRATED''"
| "class_message ObjectiveProjectionUpgradeError = ''OBJECTIVE_PROJECTION_UPGRADE''"
| "class_message AccountActionRateLimitedError = ''ACCOUNT_ACTION_RATE_LIMITED''"
| "class_message RequirementPdfExportError = ''BAD_REQUEST''"
| "class_message c = class_code c"

subsection \<open>Exceptions in flight\<close>

record app_error =
  err_cls :: err_class
  err_msg :: "string option"
  err_current :: pydict
  err_oauth :: string
  err_oauth_status :: int

definition raise_cls :: "err_class \<Rightarrow> app_error" where
  "raise_cls c = \<lparr>err_cls = c, err_msg = None, err_current = [], err_oauth = '''', err_oauth_status = 0\<rparr>"

definition raise_msg :: "err_class \<Rightarrow> string \<Rightarrow> app_error" where
  "raise_msg c m = (raise_cls c)\<lparr>err_msg := Some m\<rparr>"

definition version_conflict :: "pydict \<Rightarrow> app_error" where
  "version_conflict cur = (raise_cls VersionConflictError)\<lparr>err_current := cur\<rparr>"

definition mcp_oauth_error :: "string \<Rightarrow> int \<Rightarrow> app_error" where
  "mcp_oauth_error e st =
     (raise_cls McpOAuthError)\<lparr>err_oauth := e, err_oauth_status := st\<rparr>"

lemma err_cls_simps [simp]:
  "err_cls (raise_cls c) = c" "err_cls (raise_msg c m) = c"
  "err_cls (version_conflict cur) = VersionConflictError"
  by (simp_all add: raise_cls_def raise_msg_def version_conflict_def)

subsection \<open>Conversion into responses\<close>

fun error_status_map :: "err_class \<Rightarrow> int option" where
  "error_status_map SharedFileUnavailableError = Some 503"
| "error_status_map ArtifactReleaseTooLargeError = Some 413"
| "error_status_map MfaUnavailableError = Some 503"
| "error_status_map DemoLimitError = Some 429"
| "error_status_map EmailUnavailableError = Some 503"
| "error_status_map AccountActionRateLimitedError = Some 429"
| "error_status_map BadRequestError = Some 400"
| "error_status_map UnauthorizedError = Some 401"
| "error_status_map ForbiddenError = Some 403"
| "error_status_map NotFoundError = Some 404"
| "error_status_map ConflictError = Some 409"
| "error_status_map _ = None"

fun first_status :: "err_class list \<Rightarrow> int" where
  "first_status [] = 500"
| "first_status (c # cs) = (case error_status_map c of Some s \<Rightarrow> s | None \<Rightarrow> first_status cs)"

definition get_status_code :: "app_error \<Rightarrow> int" where
  "get_status_code e = first_status (mro (err_cls e))"

text \<open>The request is read only for its cookies: \<open>cookies\<close> is the list of cookie names.\<close>

definition should_delete_auth_cookie :: "string \<Rightarrow> string list \<Rightarrow> app_error \<Rightarrow> bool" where
  "should_delete_auth_cookie auth_cookie cookies e \<longleftrightarrow>
     auth_cookie \<in> set cookies \<and>
     (is_subclass (err_cls e) TokenExpiredError \<or> is_subclass (err_cls e) InvalidTokenError)"

record error_response =
  resp_status :: int
  resp_content :: pydict
  resp_headers :: "(string \<times> string) list"
  resp_deleted_cookies :: "string list"

text \<open>\<open>self.message = message or self.message\<close>: no message, or an empty one, is the class's.\<close>

definition err_message :: "app_error \<Rightarrow> pyval" where
  "err_message e = PStr (case err_msg e of None \<Rightarrow> class_message (err_cls e)
     | Some m \<Rightarrow> if m = [] then class_message (err_cls e) else m)"

definition app_error_handler :: "string \<Rightarrow> string \<Rightarrow> string list \<Rightarrow> app_error \<Rightarrow> error_response" where
  "app_error_handler auth_cookie csrf_cookie cookies e =
     (if is_subclass (err_cls e) McpOAuthError then
        \<lparr>resp_status = err_oauth_status e,
         resp_content = [(''error'', PStr (err_oauth e)), (''error_description'', err_message e)],
         resp_headers = [(''Cache-Control'', ''no-store''), (''Pragma'', ''no-cache'')],
         resp_deleted_cookies = []\<rparr>
      else
        \<lparr>resp_status = get_status_code e,
         resp_content = [(''message'', err_message e), (''code'', PStr (class_code (err_cls e)))] @
           (if is_subclass (err_cls e) VersionConflictError
            then [(''current'', PDict (err_current e))] else []),
         resp_headers =
           (if is_subclass (err_cls e) AccountActionRateLimitedError
            then [(''Retry-After'', ''60'')] else []),
         resp_deleted_cookies =
           (if should_delete_auth_cookie auth_cookie cookies e
            then [auth_cookie, csrf_cookie] else [])\<rparr>)"

subsection \<open>Properties of the hierarchy\<close>

lemma mro_unfold: "mro c = c # (case base_class c of None \<Rightarrow> [] | Some b \<Rightarrow> mro b)"
  by (subst mro.simps) (auto split: option.splits)

lemma is_subclass_iff:
  "is_subclass c d \<longleftrightarrow> d = c \<or> (case base_class c of None \<Rightarrow> False | Some b \<Rightarrow> is_subclass b d)"
  by (simp add: is_subclass_def mro_unfold [of c] split: option.splits)

lemma is_subclass_refl [simp]: "is_subclass c c"
  by (simp add: is_subclass_iff)

lemma first_status_mro:
  "first_status (mro c) =
     (case error_status_map c of Some s \<Rightarrow> s
      | None \<Rightarrow> (case base_class c of None \<Rightarrow> 500 | Some b \<Rightarrow> first_status (mro b)))"
  by (subst mro_unfold) (auto split: option.splits)

lemma is_subclass_trans: "is_subclass c d \<Longrightarrow> is_subclass d e \<Longrightarrow> is_subclass c e"
proof (induction c rule: mro.induct)
  case (1 c)
  then show ?case by (auto simp: is_subclass_iff [of c] split: option.splits)
qed

lemma is_subclass_AppError: "is_subclass c AppError"
proof (induction c rule: mro.induct)
  case (1 c)
  show ?case
  proof (cases "base_class c")
    case None
    then have "c = AppError" by (cases c) auto
    then show ?thesis by simp
  next
    case (Some b)
    with "1" show ?thesis by (simp add: is_subclass_iff [of c])
  qed
qed

lemmas class_split = is_subclass_iff first_status_mro

lemma is_subclass_token:
  "is_subclass c TokenExpiredError \<or> is_subclass c InvalidTokenError \<longleftrightarrow>
     c = TokenExpiredError \<or> c = InvalidTokenError"
  by (cases c) (simp_all add: is_subclass_iff)

lemma is_subclass_conflict: "is_subclass c VersionConflictError \<longleftrightarrow> c = VersionConflictError"
  by (cases c) (simp_all add: is_subclass_iff)

lemma is_subclass_oauth: "is_subclass c McpOAuthError \<longleftrightarrow> c = McpOAuthError"
  by (cases c) (simp_all add: is_subclass_iff)

lemma first_status_401: "first_status (mro c) = 401 \<longleftrightarrow> is_subclass c UnauthorizedError"
  by (cases c) (simp_all add: class_split)

lemma first_status_403: "first_status (mro c) = 403 \<longleftrightarrow> is_subclass c ForbiddenError"
  by (cases c) (simp_all add: class_split)

lemma first_status_409: "first_status (mro c) = 409 \<longleftrightarrow> is_subclass c ConflictError"
  by (cases c) (simp_all add: class_split)

lemma first_status_range:
  "first_status (mro c) \<in> {400, 401, 403, 404, 409, 413, 429, 500, 503}"
  by (cases c) (simp_all add: class_split)

subsection \<open>What the client sees\<close>

text \<open>
  the handler deletes the authentication and CSRF cookies of a client exactly when it sent
  the authentication cookie and its token was expired or invalid, and then the response is a 401;
  no other failure (a missing permission, a failed login, a conflict) logs the browser out.
\<close>

theorem handler_cookie_deletion:
  "resp_deleted_cookies (app_error_handler a c cookies e) =
     (if a \<in> set cookies \<and> err_cls e \<in> {TokenExpiredError, InvalidTokenError}
         \<and> resp_status (app_error_handler a c cookies e) = 401
      then [a, c] else [])"
  by (cases "err_cls e")
     (simp_all add: app_error_handler_def should_delete_auth_cookie_def is_subclass_token
        is_subclass_oauth get_status_code_def class_split)


end
