(* ===== verification/Change_Log.thy ===== *)
theory Change_Log imports Errors begin

text \<open>
  The change history shared by tasks and requirements: \<^verbatim>\<open>app/services/change_log_formatter.py\<close>
  (diffing two snapshots, the entry to store, formatting for the API) and the configuration of
  the requirement and task histories (\<^verbatim>\<open>app/services/requirement_change_log.py\<close>,
  \<^verbatim>\<open>app/services/task.py\<close>). The labels of the tables are Japanese texts in the code; a label is
  represented by its code, since only the presence of a code in the table affects the result.
\<close>

subsection \<open>Diffing snapshots\<close>

definition build_changed_field_snapshots ::
  "pydict \<Rightarrow> pydict \<Rightarrow> string list \<Rightarrow> string list \<times> pydict \<times> pydict" where
  "build_changed_field_snapshots before after candidate_fields =
     (let changed_fields =
            sort (filter (\<lambda>f. dget before f \<noteq> dget after f) (remdups candidate_fields))
      in (changed_fields,
          map (\<lambda>f. (f, dget before f)) changed_fields,
          map (\<lambda>f. (f, dget after f)) changed_fields))"

record change_log_entry =
  cl_action :: string
  cl_field_name :: "string option"
  cl_old_value :: "pydict option"
  cl_new_value :: "pydict option"

definition build_update_change_log_entry ::
  "string list \<Rightarrow> pydict \<Rightarrow> pydict \<Rightarrow> string \<Rightarrow> (string \<times> string) list \<Rightarrow> change_log_entry option" where
  "build_update_change_log_entry updated_fields old_values new_values default_action field_action_map =
     (case updated_fields of
        [] \<Rightarrow> None
      | f # rest \<Rightarrow>
          (case (rest, map_of field_action_map f) of
             ([], Some action) \<Rightarrow>
               Some \<lparr>cl_action = action, cl_field_name = Some f,
                     cl_old_value = Some [(f, dget old_values f)],
                     cl_new_value = Some [(f, dget new_values f)]\<rparr>
           | _ \<Rightarrow>
               Some \<lparr>cl_action = default_action, cl_field_name = None,
                     cl_old_value = Some [(''snapshot'', PDict old_values)],
                     cl_new_value = Some [(''updated_fields'', PList (map PStr updated_fields)),
                                          (''snapshot'', PDict new_values)]\<rparr>))"

subsection \<open>The formatter\<close>

record change_log_config =
  action_map :: "(string \<times> string) list"
  target_type_map :: "(string \<times> string) list"
  field_value_labels :: "(string \<times> (string \<times> string) list) list"
  field_names :: "string list"
  user_id_fields :: "string list"

record log_user =
  lu_id :: int
  lu_name :: string

definition dots_to_underscores :: "string \<Rightarrow> string" where
  "dots_to_underscores s = map (\<lambda>c. if c = CHR ''.'' then CHR ''_'' else c) s"

definition normalize_action :: "change_log_config \<Rightarrow> string \<Rightarrow> string" where
  "normalize_action cfg action =
     (case map_of (action_map cfg) action of Some a \<Rightarrow> a | None \<Rightarrow> dots_to_underscores action)"

definition normalize_target_type :: "change_log_config \<Rightarrow> string \<Rightarrow> string" where
  "normalize_target_type cfg t =
     (case map_of (target_type_map cfg) t of Some a \<Rightarrow> a | None \<Rightarrow> t)"

definition normalize_field_name :: "change_log_config \<Rightarrow> string option \<Rightarrow> string option" where
  "normalize_field_name cfg field_name =
     (case field_name of
        None \<Rightarrow> None
      | Some f \<Rightarrow>
          if CHR '','' \<in> set f then None
          else if field_names cfg \<noteq> [] \<and> f \<notin> set (field_names cfg) then None
          else Some f)"

fun normalize_updated_fields :: "change_log_config \<Rightarrow> string list \<Rightarrow> string list" where
  "normalize_updated_fields cfg [] = []"
| "normalize_updated_fields cfg (f # fs) =
     (case normalize_field_name cfg (Some f) of
        Some n \<Rightarrow> n # normalize_updated_fields cfg fs
      | None \<Rightarrow> normalize_updated_fields cfg fs)"

text \<open>
  \<open>{value: key for key, value in m.items()}\<close>: the last key of a repeated value wins.
\<close>

definition reverse_map :: "(string \<times> string) list \<Rightarrow> string \<Rightarrow> string option" where
  "reverse_map m v = map_of (rev (map (\<lambda>(k, w). (w, k)) m)) v"

definition to_storage_action :: "change_log_config \<Rightarrow> string option \<Rightarrow> string option" where
  "to_storage_action cfg action =
     (case action of
        None \<Rightarrow> None
      | Some a \<Rightarrow> Some (case reverse_map (action_map cfg) a of Some k \<Rightarrow> k | None \<Rightarrow> a))"

definition to_storage_target_type :: "change_log_config \<Rightarrow> string option \<Rightarrow> string option" where
  "to_storage_target_type cfg target_type =
     (case target_type of
        None \<Rightarrow> None
      | Some t \<Rightarrow> Some (case reverse_map (target_type_map cfg) t of Some k \<Rightarrow> k | None \<Rightarrow> t))"

definition format_code_label_value ::
  "(pyval \<Rightarrow> string) \<Rightarrow> pyval \<Rightarrow> (string \<times> string) list \<Rightarrow> pyval" where
  "format_code_label_value rp value labels =
     (if value = PNone then PNone
      else (let code = py_str rp value in
        PDict [(''code'', PStr code),
               (''label'', PStr (case map_of labels code of Some l \<Rightarrow> l | None \<Rightarrow> code))]))"

text \<open>\<open>users_by_id\<close> is keyed by integers; a boolean looks up 0 or 1, as in Python.\<close>

definition format_user_id_label_value ::
  "(pyval \<Rightarrow> string) \<Rightarrow> pyval \<Rightarrow> (int \<times> log_user) list \<Rightarrow> pyval" where
  "format_user_id_label_value rp value users_by_id =
     (if value = PNone then PNone
      else (let user = Option.bind (py_int_of value) (map_of users_by_id) in
        PDict [(''id'', value),
               (''label'', PStr (case user of Some u \<Rightarrow> lu_name u | None \<Rightarrow> py_str rp value))]))"

definition format_change_log_value ::
  "(pyval \<Rightarrow> string) \<Rightarrow> change_log_config \<Rightarrow> string \<Rightarrow> pyval \<Rightarrow> (int \<times> log_user) list
   \<Rightarrow> (string \<times> (pyval \<Rightarrow> pyval)) list \<Rightarrow> pyval" where
  "format_change_log_value rp cfg field_name value users_by_id value_formatters =
     (case map_of value_formatters field_name of
        Some f \<Rightarrow> f value
      | None \<Rightarrow>
          (case map_of (field_value_labels cfg) field_name of
             Some labels \<Rightarrow> format_code_label_value rp value labels
           | None \<Rightarrow>
               if field_name \<in> set (user_id_fields cfg)
               then format_user_id_label_value rp value users_by_id
               else value))"

definition extract_change_value ::
  "(pyval \<Rightarrow> string) \<Rightarrow> change_log_config \<Rightarrow> pydict option \<Rightarrow> string option
   \<Rightarrow> (int \<times> log_user) list \<Rightarrow> (string \<times> (pyval \<Rightarrow> pyval)) list \<Rightarrow> pyval" where
  "extract_change_value rp cfg value field_name users_by_id value_formatters =
     (case value of
        None \<Rightarrow> PNone
      | Some d \<Rightarrow>
          (case field_name of
             Some f \<Rightarrow> if dhas d f
                        then format_change_log_value rp cfg f (dget d f) users_by_id value_formatters
                        else PDict d
           | None \<Rightarrow> PDict d))"

text \<open>Collected ids are \<open>None\<close> or integers (a boolean is the integer Python treats it as).\<close>

definition collect_field_ids :: "pydict \<Rightarrow> string list \<Rightarrow> int option list" where
  "collect_field_ids value user_fields =
     concat (map (\<lambda>f. case py_int_of (dget value f) of Some i \<Rightarrow> [Some i] | None \<Rightarrow> []) user_fields)"

fun collect_user_ids ::
  "change_log_config \<Rightarrow> (string option \<times> pydict option) list \<Rightarrow> int option list" where
  "collect_user_ids cfg [] = []"
| "collect_user_ids cfg ((field_name, None) # rest) = collect_user_ids cfg rest"
| "collect_user_ids cfg ((field_name, Some value) # rest) =
     (case field_name of
        Some f \<Rightarrow> if f \<in> set (user_id_fields cfg) \<and> dhas value f
                   then [py_int_of (dget value f)] else []
      | None \<Rightarrow> []) @
     collect_field_ids value (user_id_fields cfg) @
     collect_user_ids cfg rest"

subsection \<open>The two configurations\<close>

definition same_labels :: "string list \<Rightarrow> (string \<times> string) list" where
  "same_labels codes = map (\<lambda>c. (c, c)) codes"

definition requirement_action_map :: "(string \<times> string) list" where
  "requirement_action_map =
     [(''comment.created'', ''comment_created''), (''comment.updated'', ''comment_updated''),
      (''comment.deleted'', ''comment_deleted''), (''comment.resolved'', ''comment_resolved''),
      (''comment.reopened'', ''comment_reopened''), (''approval.requested'', ''approval_requested''),
      (''approval.approved'', ''approval_approved''), (''approval.rejected'', ''approval_rejected'')]"

definition requirement_target_type_map :: "(string \<times> string) list" where
  "requirement_target_type_map =
     [(''comment'', ''requirement_comment''), (''detail'', ''requirement_detail''),
      (''document'', ''requirement_document''), (''link'', ''requirement_link''),
      (''open_issue'', ''requirement_open_issue''), (''relation'', ''requirement_relation''),
      (''requirement_item'', ''requirement''), (''review'', ''requirement_review''),
      (''section'', ''requirement_section'')]"

definition requirement_change_log_formatter :: change_log_config where
  "requirement_change_log_formatter =
     \<lparr>action_map = requirement_action_map,
      target_type_map = requirement_target_type_map,
      field_value_labels =
        [(''status'', same_labels [''draft'', ''review'', ''approved'', ''rejected'', ''open'',
                                   ''resolved'', ''closed'', ''requested'', ''pending'']),
         (''priority'', same_labels [''must'', ''should'', ''could'', ''wont'']),
         (''requirement_type'', same_labels [''functional'', ''non_functional'', ''business'',
                                             ''system'', ''constraint''])],
      field_names =
        [''title'', ''document_code'', ''status'', ''purpose'', ''project_goal'', ''project_scope'',
         ''project_completion_criteria'', ''author_id'', ''reviewer_id'', ''approver_id'',
         ''sort_order'', ''requirement_code'', ''requirement_type'', ''category'', ''description'',
         ''rationale'', ''acceptance_criteria'', ''priority'', ''source'', ''owner_id'',
         ''issue_code'', ''assignee_id'', ''due_date'', ''body'', ''is_resolved''],
      user_id_fields = [''author_id'', ''reviewer_id'', ''approver_id'', ''owner_id'', ''assignee_id'']\<rparr>"

text \<open>The actions and target types \<open>RequirementChangeLogService.record\<close> is called with.\<close>

definition requirement_actions :: "string list" where
  "requirement_actions =
     [''comment.created'', ''comment.deleted'', ''comment.reopened'', ''comment.resolved'',
      ''comment.updated'', ''created'', ''updated'', ''deleted'', ''exported'',
      ''promoted_to_requirement'', ''sorted'']"

definition requirement_target_types :: "string list" where
  "requirement_target_types =
     [''comment'', ''detail'', ''document'', ''link'', ''open_issue'', ''relation'',
      ''requirement_item'', ''review'', ''section'']"

definition task_action_map :: "(string \<times> string) list" where
  "task_action_map =
     [(''status.changed'', ''status_changed''), (''assignee.changed'', ''assignee_changed''),
      (''schedule.changed'', ''schedule_changed''), (''progress.changed'', ''progress_changed''),
      (''comment.created'', ''comment_created''), (''comment.updated'', ''comment_updated''),
      (''comment.deleted'', ''comment_deleted''), (''comment.resolved'', ''comment_resolved''),
      (''comment.reopened'', ''comment_reopened''), (''relation.created'', ''updated''),
      (''relation.deleted'', ''updated''), (''dependency.created'', ''updated''),
      (''dependency.updated'', ''updated''), (''dependency.deleted'', ''updated''),
      (''moved'', ''updated'')]"

definition task_change_log_formatter :: change_log_config where
  "task_change_log_formatter =
     \<lparr>action_map = task_action_map,
      target_type_map = [(''task'', ''task''), (''task_comment'', ''task_comment'')],
      field_value_labels =
        [(''status'', same_labels [''backlog'', ''todo'', ''in_progress'', ''resolved'', ''in_review'',
                                   ''returned'', ''done'', ''blocked'', ''cancelled'']),
         (''priority'', same_labels [''critical'', ''high'', ''medium'', ''low'']),
         (''task_type'', same_labels [''bug'', ''frontend'', ''backend'', ''database'',
                                      ''infrastructure'', ''security'', ''test'', ''review'',
                                      ''investigation'', ''documentation'', ''other''])],
      field_names =
        [''phase_assignment'', ''estimated_basis'', ''actual_basis'', ''task_code'', ''title'',
         ''description'', ''status'', ''priority'', ''task_type'', ''assignee_id'', ''reporter_id'',
         ''start_date'', ''due_date'', ''actual_start_date'', ''actual_end_date'',
         ''estimated_minutes'', ''actual_minutes'', ''progress_percent'', ''parent_task_id'',
         ''sort_order'', ''tags'', ''requirements'', ''body'', ''is_resolved''],
      user_id_fields = [''assignee_id'', ''reporter_id'']\<rparr>"

subsection \<open>Lemmas on snapshots\<close>

lemma changed_fields_set:
  "set (fst (build_changed_field_snapshots before after cand)) =
     {f \<in> set cand. dget before f \<noteq> dget after f}"
  by (auto simp: build_changed_field_snapshots_def Let_def)

lemma snapshots_apply:
  assumes "build_changed_field_snapshots before after cand = (fs, old, new)"
  shows "dget old f = (if f \<in> set fs then dget before f else PNone)"
    and "dget new f = (if f \<in> set fs then dget after f else PNone)"
    and "dhas old f \<longleftrightarrow> f \<in> set fs" and "dhas new f \<longleftrightarrow> f \<in> set fs"
  using assms
  by (auto simp: build_changed_field_snapshots_def Let_def dget_map_key dhas_map_key)

lemma entry_none_iff: "build_update_change_log_entry fs o_v n_v d m = None \<longleftrightarrow> fs = []"
  by (auto simp: build_update_change_log_entry_def split: list.splits option.splits)

lemma entry_records_fields:
  assumes "build_update_change_log_entry fs o_v n_v d m = Some e"
  shows "cl_field_name e = Some f \<longleftrightarrow> fs = [f] \<and> map_of m f \<noteq> None"
  using assms
  by (auto simp: build_update_change_log_entry_def split: list.splits option.splits)

text \<open>
  Replaying an entry: the new value of a single-field entry is stored under its field, that of a
  general one under \<open>snapshot\<close>.
\<close>

definition entry_new :: "change_log_entry \<Rightarrow> string \<Rightarrow> pyval option" where
  "entry_new e f =
     (case (cl_field_name e, cl_new_value e) of
        (Some g, Some d) \<Rightarrow> if f = g then Some (dget d f) else None
      | (None, Some d) \<Rightarrow>
          (case dget d ''snapshot'' of PDict s \<Rightarrow> map_of s f | _ \<Rightarrow> None)
      | _ \<Rightarrow> None)"

definition entry_old :: "change_log_entry \<Rightarrow> string \<Rightarrow> pyval option" where
  "entry_old e f =
     (case (cl_field_name e, cl_old_value e) of
        (Some g, Some d) \<Rightarrow> if f = g then Some (dget d f) else None
      | (None, Some d) \<Rightarrow>
          (case dget d ''snapshot'' of PDict s \<Rightarrow> map_of s f | _ \<Rightarrow> None)
      | _ \<Rightarrow> None)"

lemma map_of_pairs: "map_of (map (\<lambda>f. (f, g f)) fs) f = (if f \<in> set fs then Some (g f) else None)"
  by (induction fs) auto

lemma dget_pairs [simp]: "dget (map (\<lambda>f. (f, g f)) fs) f = (if f \<in> set fs then g f else PNone)"
  by (simp add: dget_def map_of_pairs)

lemma entry_replay:
  assumes "build_update_change_log_entry fs (map (\<lambda>f. (f, a f)) fs) (map (\<lambda>f. (f, b f)) fs) d m = Some e"
  shows "entry_old e f = (if f \<in> set fs then Some (a f) else None)"
    and "entry_new e f = (if f \<in> set fs then Some (b f) else None)"
  using assms
  by (auto simp: build_update_change_log_entry_def entry_old_def entry_new_def map_of_pairs
      split: list.splits option.splits)

text \<open>
  the history entry stored for an update is faithful. It is missing exactly when no candidate
  field changed; otherwise the old (new) value it records for a field is the field's value in the
  snapshot before (after) the update for every changed candidate field, and it records nothing
  for any other field, whichever of the two shapes (single field, snapshot) was stored.
\<close>

theorem change_entry_faithful:
  "case build_changed_field_snapshots before after cand of (fs, old, new) \<Rightarrow>
     (case build_update_change_log_entry fs old new d m of
        None \<Rightarrow> filter (\<lambda>f. dget before f \<noteq> dget after f) cand = []
      | Some e \<Rightarrow>
          entry_old e f = (if f \<in> set cand \<and> dget before f \<noteq> dget after f
                           then Some (dget before f) else None) \<and>
          entry_new e f = (if f \<in> set cand \<and> dget before f \<noteq> dget after f
                           then Some (dget after f) else None))"
proof -
  obtain fs old new where b: "build_changed_field_snapshots before after cand = (fs, old, new)"
    by (metis prod_cases3)
  then have eqs: "old = map (\<lambda>f. (f, dget before f)) fs" "new = map (\<lambda>f. (f, dget after f)) fs"
    by (auto simp: build_changed_field_snapshots_def Let_def)
  have "set fs = {f \<in> set cand. dget before f \<noteq> dget after f}"
    using changed_fields_set [of before after cand] b by simp
  note changed = this
  show ?thesis
  proof (cases "build_update_change_log_entry fs old new d m")
    case None
    then have "fs = []" by (simp add: entry_none_iff)
    with changed have "filter (\<lambda>f. dget before f \<noteq> dget after f) cand = []"
      by (auto simp: filter_empty_conv)
    with None b show ?thesis by simp
  next
    case (Some e)
    then show ?thesis
      using entry_replay [OF Some [unfolded eqs]] changed b by simp
  qed
qed

subsection \<open>Filtering the history by an API code\<close>

lemma reverse_map_inverts:
  assumes "distinct (map snd m)" and "(k, v) \<in> set m"
  shows "reverse_map m v = Some k"
proof -
  let ?r = "rev (map (\<lambda>(k, w). (w, k)) m)"
  have "map fst ?r = rev (map snd m)"
    by (induction m) auto
  then have "distinct (map fst ?r)"
    using assms(1) by simp
  moreover have "(v, k) \<in> set ?r"
    using assms(2) by force
  ultimately show ?thesis
    by (simp add: reverse_map_def)
qed

lemma reverse_map_None: "v \<notin> snd ` set m \<Longrightarrow> reverse_map m v = None"
  by (force simp: reverse_map_def map_of_eq_None_iff)

lemma dots_to_underscores_id: "CHR ''.'' \<notin> set a \<Longrightarrow> dots_to_underscores a = a"
  by (induction a) (auto simp: dots_to_underscores_def)

text \<open>
  filtering a history by the code the API shows for an entry finds that entry: for every
  configuration whose action codes are distinct, every action that is a key of its action map, or
  has no dot and is not itself one of the codes, is recovered from its displayed code. The
  requirement history is such a configuration, for every action it records.
\<close>

theorem storage_action_roundtrip:
  assumes "distinct (map snd (action_map cfg))" and "distinct (map fst (action_map cfg))"
    and "a \<in> fst ` set (action_map cfg) \<or> (CHR ''.'' \<notin> set a \<and> a \<notin> snd ` set (action_map cfg))"
  shows "to_storage_action cfg (Some (normalize_action cfg a)) = Some a"
proof (cases "map_of (action_map cfg) a")
  case None
  then have "a \<notin> fst ` set (action_map cfg)"
    by (simp add: map_of_eq_None_iff)
  with assms(3) None show ?thesis
    by (simp add: to_storage_action_def normalize_action_def dots_to_underscores_id
        reverse_map_None)
next
  case (Some v)
  then have "(a, v) \<in> set (action_map cfg)"
    by (rule map_of_SomeD)
  with assms(1) Some show ?thesis
    by (simp add: to_storage_action_def normalize_action_def reverse_map_inverts)
qed

theorem storage_action_roundtrip_witness:
  "to_storage_action requirement_change_log_formatter
     (Some (normalize_action requirement_change_log_formatter ''approval.rejected'')) =
   Some ''approval.rejected''"
  by (rule storage_action_roundtrip)
     (simp_all add: requirement_change_log_formatter_def requirement_action_map_def)

text \<open>
  Every action and every target type the requirement history records survives the translation
  to its API code and back.
\<close>

theorem requirement_history_codes_invertible:
  "map (\<lambda>a. to_storage_action requirement_change_log_formatter
        (Some (normalize_action requirement_change_log_formatter a)))
     (requirement_actions @ [''approval.requested'', ''approval.approved'', ''approval.rejected'']) =
   map Some (requirement_actions @ [''approval.requested'', ''approval.approved'', ''approval.rejected'']) \<and>
   map (\<lambda>t. to_storage_target_type requirement_change_log_formatter
        (Some (normalize_target_type requirement_change_log_formatter t)))
     requirement_target_types = map Some requirement_target_types"
  by (simp add: requirement_actions_def requirement_target_types_def to_storage_action_def
      to_storage_target_type_def normalize_action_def normalize_target_type_def
      requirement_change_log_formatter_def requirement_action_map_def
      requirement_target_type_map_def reverse_map_def dots_to_underscores_def)

end
