(* ===== verification/Conflict.thy ===== *)
theory Conflict imports Errors begin

text \<open>
  Optimistic locking: \<^verbatim>\<open>app/services/conflict.py\<close> and the contract every versioned resource of the
  backend (boards, columns, dependencies, sections, tasks) shares.

  A client reads a resource with its version and sends the version back with its change. The
  locale \<open>versioned\<close> states what an update operation promises: a version other than the current
  one is refused with a version conflict, an accepted update moves the version one up and leaves
  every other resource's version alone. From these laws alone it follows that no update is lost
  and that a stale request stays refused whatever happens in between; the theories of the
  resources interpret the locale on their own update operation.
\<close>

definition raise_if_version_conflict :: "int \<Rightarrow> int \<Rightarrow> pydict \<Rightarrow> app_error + unit" where
  "raise_if_version_conflict current_version requested_version current =
     raise_if (current_version \<noteq> requested_version) (version_conflict current)"

definition build_conflict_current :: "(string \<Rightarrow> pyval) \<Rightarrow> string list \<Rightarrow> pydict option \<Rightarrow> pydict" where
  "build_conflict_current resource attrs extra =
     (let current = map (\<lambda>f. (f, resource f)) attrs
      in case extra of None \<Rightarrow> current | Some e \<Rightarrow> dupdate current e)"

text \<open>
  The handler of an \<open>IntegrityError\<close>: the transaction is rolled back (the database is the
  committed one, which the caller holds) and the duplicate is raised.
\<close>

definition raise_duplicate_after_rollback :: "string \<Rightarrow> unit + 'a \<Rightarrow> app_error + 'a" where
  "raise_duplicate_after_rollback message =
     rescue (raise_msg DuplicateResourceError message)"

lemma raise_if_version_conflict_Inr [simp]:
  "raise_if_version_conflict v w c = Inr u \<longleftrightarrow> v = w"
  by (simp add: raise_if_version_conflict_def)

lemma raise_if_version_conflict_same [simp]: "raise_if_version_conflict v v c = Inr ()"
  by (simp add: raise_if_version_conflict_def)

lemma raise_if_version_conflict_stale [simp]:
  "v \<noteq> w \<Longrightarrow> raise_if_version_conflict v w c = Inl (version_conflict c)"
  by (simp add: raise_if_version_conflict_def)

lemma dhas_conflict_current:
  "f \<in> set attrs \<Longrightarrow> dhas (build_conflict_current r attrs extra) f"
  by (simp add: build_conflict_current_def Let_def dhas_map_key split: option.splits)

subsection \<open>The contract of a versioned resource\<close>

text \<open>Requests of several clients in the order the database serves them; refused ones change nothing.\<close>

fun serve :: "('k \<Rightarrow> 'i \<Rightarrow> 'db \<Rightarrow> app_error + 'r \<times> 'db) \<Rightarrow> 'db \<Rightarrow> ('k \<times> 'i) list \<Rightarrow> 'db" where
  "serve upd db [] = db"
| "serve upd db ((k, i) # rs) =
     (case upd k i db of Inl e \<Rightarrow> serve upd db rs | Inr (r, db') \<Rightarrow> serve upd db' rs)"

fun accepted :: "('k \<Rightarrow> 'i \<Rightarrow> 'db \<Rightarrow> app_error + 'r \<times> 'db) \<Rightarrow> 'k \<Rightarrow> 'db \<Rightarrow> ('k \<times> 'i) list \<Rightarrow> nat" where
  "accepted upd k db [] = 0"
| "accepted upd k db ((k', i) # rs) =
     (case upd k' i db of
        Inl e \<Rightarrow> accepted upd k db rs
      | Inr (r, db') \<Rightarrow> (if k' = k then 1 else 0) + accepted upd k db' rs)"

locale versioned =
  fixes ver :: "'k \<Rightarrow> 'db \<Rightarrow> int option"
    and upd :: "'k \<Rightarrow> 'i \<Rightarrow> 'db \<Rightarrow> app_error + 'r \<times> 'db"
    and req :: "'i \<Rightarrow> int"
  assumes stale: "ver k db = Some v \<Longrightarrow> req i \<noteq> v \<Longrightarrow> \<exists>c. upd k i db = Inl (version_conflict c)"
    and absent: "ver k db = None \<Longrightarrow> \<exists>e. upd k i db = Inl e \<and> err_cls e = NotFoundError"
    and bump: "upd k i db = Inr (r, db') \<Longrightarrow> ver k db' = Some (req i + 1)"
    and frame: "upd k i db = Inr (r, db') \<Longrightarrow> k' \<noteq> k \<Longrightarrow> ver k' db' = ver k' db"
begin

lemma accepted_current:
  assumes u: "upd k i db = Inr (r, db')"
  shows "ver k db = Some (req i)"
proof (cases "ver k db")
  case None
  with absent [of k db i] u show ?thesis by auto
next
  case (Some v)
  with stale [of k db v i] u show ?thesis by auto
qed

lemma no_lost_update:
  assumes "upd k i db = Inr (r, db')" and "req j = req i"
  shows "\<exists>c. upd k j db' = Inl (version_conflict c)"
  using bump [OF assms(1)] assms(2) by (intro stale) auto

lemma serve_version:
  "ver k db = Some v \<Longrightarrow> ver k (serve upd db rs) = Some (v + int (accepted upd k db rs))"
proof (induction rs arbitrary: db v)
  case Nil
  then show ?case by simp
next
  case (Cons q rs)
  obtain k' i where q: "q = (k', i)" by (cases q)
  show ?case
  proof (cases "upd k' i db")
    case (Inl e)
    with Cons q show ?thesis by simp
  next
    case (Inr p)
    obtain r db' where p: "upd k' i db = Inr (r, db')"
      using Inr by (cases p) simp
    show ?thesis
    proof (cases "k' = k")
      case True
      with p Cons.prems have "ver k db' = Some (v + 1)"
        using bump accepted_current by fastforce
      from Cons.IH [OF this] True p q show ?thesis by simp
    next
      case False
      with p Cons.prems have "ver k db' = Some v"
        using frame by fastforce
      from Cons.IH [OF this] False p q show ?thesis by simp
    qed
  qed
qed

lemma stale_forever:
  assumes "ver k db = Some v" and "req i < v"
  shows "\<exists>c. upd k i (serve upd db rs) = Inl (version_conflict c)"
  using serve_version [OF assms(1), of rs] assms(2) by (intro stale) auto

lemma at_most_one_winner:
  assumes "upd k i db = Inr (r, db')" and "req j = req i"
  shows "\<exists>c. upd k j (serve upd db' rs) = Inl (version_conflict c)"
  using bump [OF assms(1)] assms(2) by (intro stale_forever) auto

end

end
