(* ===== verification/Task_Model.thy ===== *)
theory Task_Model imports Conflict Change_Log begin

text \<open>
  The rows of the task tables (\<^verbatim>\<open>app/models/task.py\<close>) and the part of the database the task
  services read and write, with the repository operations they share: the change log
  (\<^verbatim>\<open>app/repositories/task_change_log.py\<close>) and the lookup of a task.

  A date is a number of days and a timestamp a number of seconds; \<open>now\<close> is the transaction's
  clock. Ids come from the table's sequence: \<open>db_seq\<close> is the last one handed out. \<open>db_projects\<close>
  holds the ids of the undeleted projects, \<open>db_requirements\<close> the project of each requirement;
  both are owned by other services. A field of a partial update is a \<open>patch\<close>: absent from
  \<open>model_fields_set\<close>, sent as null, or sent with a value.
\<close>

datatype 'a patch = Unset | Null | Set 'a

definition is_set :: "'a patch \<Rightarrow> bool" where
  "is_set p \<longleftrightarrow> (case p of Unset \<Rightarrow> False | _ \<Rightarrow> True)"

text \<open>The value read from a field of the request: null and absent both read as \<open>None\<close>.\<close>

definition patch_value :: "'a patch \<Rightarrow> 'a option" where
  "patch_value p = (case p of Set x \<Rightarrow> Some x | _ \<Rightarrow> None)"

text \<open>Writing a patched field: a nullable column takes null, a NOT NULL column refuses it.\<close>

definition set_nullable :: "'a patch \<Rightarrow> 'a option \<Rightarrow> 'a option" where
  "set_nullable p old = (case p of Unset \<Rightarrow> old | Null \<Rightarrow> None | Set x \<Rightarrow> Some x)"

definition set_required :: "'a patch \<Rightarrow> 'a \<Rightarrow> 'a" where
  "set_required p old = (case p of Set x \<Rightarrow> x | _ \<Rightarrow> old)"

lemma is_set_simps [simp]: "\<not> is_set Unset" "is_set Null" "is_set (Set x)"
  by (simp_all add: is_set_def)

lemma patch_value_simps [simp]:
  "patch_value Unset = None" "patch_value Null = None" "patch_value (Set x) = Some x"
  by (simp_all add: patch_value_def)

lemma set_nullable_simps [simp]:
  "set_nullable Unset v = v" "set_nullable Null v = None" "set_nullable (Set x) v = Some x"
  by (simp_all add: set_nullable_def)

lemma set_required_simps [simp]:
  "set_required Unset v = v" "set_required Null v = v" "set_required (Set x) v = x"
  by (simp_all add: set_required_def)

subsection \<open>Rows\<close>

record task =
  tk_id :: int
  tk_project_id :: int
  tk_parent_task_id :: "int option"
  tk_phase_scope :: string
  tk_phase_id :: "int option"
  tk_estimated_basis :: string
  tk_actual_basis :: string
  tk_task_code :: string
  tk_title :: string
  tk_description :: "string option"
  tk_task_type :: string
  tk_status :: string
  tk_priority :: string
  tk_assignee_id :: "int option"
  tk_reporter_id :: "int option"
  tk_start_date :: "int option"
  tk_due_date :: "int option"
  tk_actual_start_date :: "int option"
  tk_actual_end_date :: "int option"
  tk_progress_percent :: int
  tk_estimated_minutes :: "int option"
  tk_actual_minutes :: "int option"
  tk_sort_order :: int
  tk_tags :: "string list"
  tk_version :: int
  tk_created_by :: "int option"
  tk_updated_by :: "int option"
  tk_created_at :: time
  tk_updated_at :: time
  tk_deleted_at :: "time option"

record task_dependency =
  dp_id :: int
  dp_predecessor_task_id :: int
  dp_successor_task_id :: int
  dp_dependency_type :: string
  dp_lag_days :: int
  dp_version :: int
  dp_created_by :: "int option"
  dp_created_at :: time
  dp_updated_at :: time

record board =
  bd_id :: int
  bd_project_id :: int
  bd_name :: string
  bd_description :: "string option"
  bd_board_type :: string
  bd_version :: int
  bd_created_by :: "int option"
  bd_updated_by :: "int option"
  bd_created_at :: time
  bd_updated_at :: time
  bd_deleted_at :: "time option"

record board_column =
  bc_id :: int
  bc_board_id :: int
  bc_name :: string
  bc_status_key :: string
  bc_sort_order :: int
  bc_wip_limit :: "int option"
  bc_is_done_column :: bool
  bc_version :: int
  bc_created_at :: time
  bc_updated_at :: time
  bc_deleted_at :: "time option"

record task_change_log =
  tl_id :: int
  tl_project_id :: int
  tl_target_type :: string
  tl_target_id :: int
  tl_action :: string
  tl_field_name :: "string option"
  tl_old_value :: "pydict option"
  tl_new_value :: "pydict option"
  tl_reason :: "string option"
  tl_changed_by :: "int option"
  tl_changed_at :: time

text \<open>
  Rows of other services the task services read: a phase (\<open>ph_archived_at\<close> set when archived), a
  custom task type, a task's requirement relation; and the rows they add: an audit event and a
  notification (\<open>nt_event_key\<close> with the recipient is unique).
\<close>

record task_phase =
  ph_id :: int
  ph_project_id :: int
  ph_name :: string
  ph_archived_at :: "time option"

record task_type_row =
  ty_project_id :: int
  ty_key :: string
  ty_is_active :: bool

record task_relation =
  rl_id :: int
  rl_requirement_id :: int
  rl_task_id :: int
  rl_relation_type :: string
  rl_created_by :: "int option"
  rl_created_at :: time

record audit_event =
  au_event_type :: string
  au_actor_user_id :: "int option"
  au_project_id :: int
  au_resource_type :: string
  au_resource_id :: int
  au_metadata :: pydict

record notice =
  nt_recipient :: int
  nt_type :: string
  nt_actor :: "int option"
  nt_project_id :: int
  nt_target_type :: string
  nt_target_id :: int
  nt_event_key :: string
  nt_title :: string
  nt_excerpt :: "string option"
  nt_context :: pydict

text \<open>
  \<open>db_members\<close> are the (project, user) pairs of active members, \<open>db_readers\<close> those that may read
  the project's tasks, \<open>db_test_issues\<close> the ids of the tasks some test case links as its issue.
\<close>

record task_db =
  db_projects :: "int list"
  db_requirements :: "(int \<times> int) list"
  db_tasks :: "task list"
  db_deps :: "task_dependency list"
  db_boards :: "board list"
  db_columns :: "board_column list"
  db_relations :: "task_relation list"
  db_phases :: "task_phase list"
  db_task_types :: "task_type_row list"
  db_members :: "(int \<times> int) list"
  db_readers :: "(int \<times> int) list"
  db_test_issues :: "int list"
  db_task_logs :: "task_change_log list"
  db_audit :: "audit_event list"
  db_notices :: "notice list"
  db_seq :: int

text \<open>
  An \<open>IntegrityError\<close> no handler catches: the request ends in a 500, as an application error of
  no more specific class does.
\<close>

definition integrity_error :: app_error where
  "integrity_error = raise_msg AppError ''IntegrityError''"

subsection \<open>Shared repository operations\<close>

definition task_get_by_id :: "task_db \<Rightarrow> int \<Rightarrow> task option" where
  "task_get_by_id db task_id =
     find (\<lambda>t. tk_id t = task_id \<and> tk_deleted_at t = None) (db_tasks db)"

definition task_put :: "task \<Rightarrow> task_db \<Rightarrow> task_db" where
  "task_put t db = db\<lparr>db_tasks := tput tk_id t (db_tasks db)\<rparr>"

definition change_log_create ::
  "time \<Rightarrow> int \<Rightarrow> string \<Rightarrow> int \<Rightarrow> string \<Rightarrow> string option \<Rightarrow> pydict option \<Rightarrow> pydict option
   \<Rightarrow> string option \<Rightarrow> int option \<Rightarrow> task_db \<Rightarrow> task_db" where
  "change_log_create now project_id target_type target_id action field_name old_value new_value
     reason changed_by db =
     (let i = db_seq db + 1 in
      db\<lparr>db_seq := i,
         db_task_logs := db_task_logs db @
           [\<lparr>tl_id = i, tl_project_id = project_id, tl_target_type = target_type,
             tl_target_id = target_id, tl_action = action, tl_field_name = field_name,
             tl_old_value = old_value, tl_new_value = new_value, tl_reason = reason,
             tl_changed_by = changed_by, tl_changed_at = now\<rparr>]\<rparr>)"

lemma change_log_frame [simp]:
  "db_projects (change_log_create n p tt ti a f ov nv r c db) = db_projects db"
  "db_requirements (change_log_create n p tt ti a f ov nv r c db) = db_requirements db"
  "db_tasks (change_log_create n p tt ti a f ov nv r c db) = db_tasks db"
  "db_deps (change_log_create n p tt ti a f ov nv r c db) = db_deps db"
  "db_boards (change_log_create n p tt ti a f ov nv r c db) = db_boards db"
  "db_columns (change_log_create n p tt ti a f ov nv r c db) = db_columns db"
  "db_relations (change_log_create n p tt ti a f ov nv r c db) = db_relations db"
  "db_phases (change_log_create n p tt ti a f ov nv r c db) = db_phases db"
  "db_audit (change_log_create n p tt ti a f ov nv r c db) = db_audit db"
  "db_notices (change_log_create n p tt ti a f ov nv r c db) = db_notices db"
  "db_seq (change_log_create n p tt ti a f ov nv r c db) = db_seq db + 1"
  by (simp_all add: change_log_create_def Let_def)

lemma task_get_change_log [simp]:
  "task_get_by_id (change_log_create n p tt ti a f ov nv r c db) k = task_get_by_id db k"
  by (simp add: task_get_by_id_def)

lemma task_get_by_idD:
  "task_get_by_id db k = Some t \<Longrightarrow> t \<in> set (db_tasks db) \<and> tk_id t = k \<and> tk_deleted_at t = None"
  by (auto simp: task_get_by_id_def find_Some_iff)

lemma task_get_by_id_iff:
  "distinct (map tk_id (db_tasks db)) \<Longrightarrow>
   task_get_by_id db k = Some t \<longleftrightarrow> t \<in> set (db_tasks db) \<and> tk_id t = k \<and> tk_deleted_at t = None"
proof
  assume d: "distinct (map tk_id (db_tasks db))"
    and t: "t \<in> set (db_tasks db) \<and> tk_id t = k \<and> tk_deleted_at t = None"
  then obtain t' where t': "task_get_by_id db k = Some t'"
    by (cases "task_get_by_id db k") (auto simp: task_get_by_id_def find_None_iff)
  with t task_get_by_idD [OF t'] d have "t' = t"
    by (metis map_of_eq_Some_iff tget_Some_iff option.inject)
  with t' show "task_get_by_id db k = Some t" by simp
qed (blast dest: task_get_by_idD)

text \<open>A small project for the concrete instances: an open task and a database holding some.\<close>

definition sample_task :: "int \<Rightarrow> task" where
  "sample_task i =
     \<lparr>tk_id = i, tk_project_id = 1, tk_parent_task_id = None, tk_phase_scope = ''unclassified'',
      tk_phase_id = None, tk_estimated_basis = ''own'', tk_actual_basis = ''own'',
      tk_task_code = ''T'' @ show_int i, tk_title = ''task'', tk_description = None,
      tk_task_type = ''task'', tk_status = ''todo'', tk_priority = ''medium'', tk_assignee_id = None,
      tk_reporter_id = None, tk_start_date = None, tk_due_date = None, tk_actual_start_date = None,
      tk_actual_end_date = None, tk_progress_percent = 0, tk_estimated_minutes = None,
      tk_actual_minutes = None, tk_sort_order = 0, tk_tags = [], tk_version = 1,
      tk_created_by = None, tk_updated_by = None, tk_created_at = 0, tk_updated_at = 0,
      tk_deleted_at = None\<rparr>"

definition sample_db :: "task list \<Rightarrow> task_db" where
  "sample_db ts =
     \<lparr>db_projects = [1], db_requirements = [(50, 1)], db_tasks = ts, db_deps = [], db_boards = [],
      db_columns = [], db_relations = [], db_phases = [], db_task_types = [],
      db_members = [(1, 7)], db_readers = [(1, 7)], db_test_issues = [], db_task_logs = [],
      db_audit = [], db_notices = [], db_seq = 100\<rparr>"

end
