(* ===== verification/Task_Dependency.thy ===== *)
theory Task_Dependency imports Task_Model begin

text \<open>
  Dependencies between tasks: \<^verbatim>\<open>app/services/task_dependency.py\<close> over
  \<^verbatim>\<open>app/repositories/task_dependency.py\<close>.

  The main results: the depth-first search \<open>creates_cycle\<close> terminates and decides reachability in
  the dependency graph, so that creating dependencies keeps the graph acyclic in every reachable
  state; updates follow the optimistic-locking contract; the tasks reported as blocked are those
  with an unfinished undeleted predecessor.
\<close>

subsection \<open>Requests and repository\<close>

record dependency_create =
  dc_predecessor_task_id :: int
  dc_successor_task_id :: int
  dc_dependency_type :: string
  dc_lag_days :: int

record dependency_update =
  du_version :: int
  du_dependency_type :: "string option"
  du_lag_days :: "int option"

definition dep_get_by_id :: "task_db \<Rightarrow> int \<Rightarrow> task_dependency option" where
  "dep_get_by_id db dependency_id = tget dp_id dependency_id (db_deps db)"

definition list_successors :: "task_dependency list \<Rightarrow> int \<Rightarrow> task_dependency list" where
  "list_successors deps task_id = filter (\<lambda>d. dp_predecessor_task_id d = task_id) deps"

definition list_by_task :: "task_db \<Rightarrow> int \<Rightarrow> task_dependency list" where
  "list_by_task db task_id =
     sort_key dp_id (filter (\<lambda>d. dp_predecessor_task_id d = task_id \<or> dp_successor_task_id d = task_id)
                       (db_deps db))"

definition list_deps_by_project :: "task_db \<Rightarrow> int \<Rightarrow> task_dependency list" where
  "list_deps_by_project db project_id =
     sort_key dp_id (filter (\<lambda>d. \<exists>t \<in> set (db_tasks db). tk_id t = dp_successor_task_id d \<and>
                                   tk_project_id t = project_id \<and> tk_deleted_at t = None)
                       (db_deps db))"

definition blocked_task_ids :: "task_db \<Rightarrow> int list \<Rightarrow> int list" where
  "blocked_task_ids db task_ids =
     remdups (map dp_successor_task_id
       (filter (\<lambda>d. dp_successor_task_id d \<in> set task_ids \<and>
                    dp_dependency_type d = ''finish_to_start'' \<and>
                    (\<exists>t \<in> set (db_tasks db). tk_id t = dp_predecessor_task_id d \<and>
                       tk_deleted_at t = None \<and> tk_status t \<noteq> ''done''))
          (db_deps db)))"

text \<open>The unique constraint \<open>uq_task_dependencies\<close>, over the rows with another id.\<close>

definition dep_unique_violation :: "task_dependency \<Rightarrow> task_dependency list \<Rightarrow> bool" where
  "dep_unique_violation d deps \<longleftrightarrow>
     (\<exists>e \<in> set deps. dp_id e \<noteq> dp_id d \<and>
        dp_predecessor_task_id e = dp_predecessor_task_id d \<and>
        dp_successor_task_id e = dp_successor_task_id d \<and>
        dp_dependency_type e = dp_dependency_type d)"

text \<open>\<open>Inl ()\<close> is the \<open>IntegrityError\<close> of the insert.\<close>

definition dep_create :: "time \<Rightarrow> dependency_create \<Rightarrow> int option \<Rightarrow> task_db \<Rightarrow> unit + task_dependency \<times> task_db" where
  "dep_create now dependency_in actor_id db =
     (let i = db_seq db + 1;
          d = \<lparr>dp_id = i, dp_predecessor_task_id = dc_predecessor_task_id dependency_in,
               dp_successor_task_id = dc_successor_task_id dependency_in,
               dp_dependency_type = dc_dependency_type dependency_in,
               dp_lag_days = dc_lag_days dependency_in, dp_version = 1,
               dp_created_by = actor_id, dp_created_at = now, dp_updated_at = now\<rparr>
      in if dep_unique_violation d (db_deps db) then Inl ()
         else Inr (d, db\<lparr>db_deps := db_deps db @ [d], db_seq := i\<rparr>))"

definition dep_update :: "time \<Rightarrow> task_dependency \<Rightarrow> dependency_update \<Rightarrow> task_db \<Rightarrow> unit + task_dependency \<times> task_db" where
  "dep_update now dependency dependency_in db =
     (let d1 = (case du_dependency_type dependency_in of None \<Rightarrow> dependency
                | Some ty \<Rightarrow> dependency\<lparr>dp_dependency_type := ty\<rparr>);
          d2 = (case du_lag_days dependency_in of None \<Rightarrow> d1 | Some l \<Rightarrow> d1\<lparr>dp_lag_days := l\<rparr>);
          d3 = d2\<lparr>dp_version := dp_version d2 + 1, dp_updated_at := now\<rparr>
      in if dep_unique_violation d3 (db_deps db) then Inl ()
         else Inr (d3, db\<lparr>db_deps := tput dp_id d3 (db_deps db)\<rparr>))"

definition dep_delete :: "task_dependency \<Rightarrow> task_db \<Rightarrow> task_db" where
  "dep_delete dependency db = db\<lparr>db_deps := tdel dp_id (dp_id dependency) (db_deps db)\<rparr>"

subsection \<open>The service\<close>

definition get_task :: "task_db \<Rightarrow> int \<Rightarrow> app_error + task" where
  "get_task db task_id =
     some_or (raise_msg NotFoundError ''TASK_NOT_FOUND'') (task_get_by_id db task_id)"

definition validate_dependency :: "task \<Rightarrow> task \<Rightarrow> string \<Rightarrow> app_error + unit" where
  "validate_dependency predecessor successor dependency_type =
     (let invalid = raise_msg BadRequestError ''TASK_DEPENDENCY_INVALID'' in
      ebind (raise_if (tk_id predecessor = tk_id successor) invalid) (\<lambda>_.
      ebind (raise_if (tk_project_id predecessor \<noteq> tk_project_id successor) invalid) (\<lambda>_.
      ebind (raise_if (dependency_type \<noteq> ''finish_to_start'') invalid) (\<lambda>_.
      raise_if (tk_parent_task_id predecessor = Some (tk_id successor) \<or>
                tk_parent_task_id successor = Some (tk_id predecessor)) invalid))))"

text \<open>
  The loop of \<open>_creates_cycle\<close>. The stack is kept with its top first, so \<open>stack.extend(xs)\<close> puts
  \<open>rev xs\<close> in front.
\<close>

function cycle_search :: "task_dependency list \<Rightarrow> int \<Rightarrow> int list \<Rightarrow> int set \<Rightarrow> bool" where
  "cycle_search deps predecessor [] visited = False"
| "cycle_search deps predecessor (current # stack) visited =
     (if current = predecessor then True
      else if current \<in> visited then cycle_search deps predecessor stack visited
      else cycle_search deps predecessor
             (rev (map dp_successor_task_id (list_successors deps current)) @ stack)
             (insert current visited))"
  by pat_completeness auto

lemma list_successors_Nil:
  "current \<notin> set (map dp_predecessor_task_id deps) \<Longrightarrow> list_successors deps current = []"
  by (auto simp: list_successors_def filter_empty_conv)

lemma unvisited_shrinks:
  "current \<notin> visited \<Longrightarrow> current \<in> A \<Longrightarrow> finite A \<Longrightarrow>
   card (A - insert current visited) < card (A - visited)"
  by (rule psubset_card_mono) auto

lemma unvisited_same: "current \<notin> A \<Longrightarrow> A - insert current visited = A - visited"
  by auto

termination cycle_search
proof (relation "measures [\<lambda>(deps, p, stack, visited).
           card (set (map dp_predecessor_task_id deps) - visited),
         \<lambda>(deps, p, stack, visited). length stack]")
  fix deps :: "task_dependency list" and p current :: int and stack :: "int list" and visited :: "int set"
  assume new: "current \<notin> visited"
  let ?S = "set (map dp_predecessor_task_id deps)"
  show "((deps, p, rev (map dp_successor_task_id (list_successors deps current)) @ stack,
          insert current visited), deps, p, current # stack, visited)
        \<in> measures [\<lambda>(deps, p, stack, visited). card (set (map dp_predecessor_task_id deps) - visited),
             \<lambda>(deps, p, stack, visited). length stack]"
  proof (cases "current \<in> ?S")
    case True
    then show ?thesis using unvisited_shrinks [OF new True] by simp
  next
    case False
    then show ?thesis
      using unvisited_same [OF False, of visited] list_successors_Nil [OF False] by simp
  qed
qed simp_all

definition creates_cycle :: "task_db \<Rightarrow> int \<Rightarrow> int \<Rightarrow> bool" where
  "creates_cycle db predecessor_task_id successor_task_id =
     cycle_search (db_deps db) predecessor_task_id [successor_task_id] {}"

definition record_dependency_change ::
  "time \<Rightarrow> int \<Rightarrow> string \<Rightarrow> int \<Rightarrow> pydict option \<Rightarrow> int option \<Rightarrow> task_db \<Rightarrow> task_db" where
  "record_dependency_change now project_id action target_id new_value changed_by db =
     change_log_create now project_id ''dependency'' target_id action None None new_value None
       changed_by db"

definition create_dependency ::
  "time \<Rightarrow> dependency_create \<Rightarrow> int option \<Rightarrow> task_db \<Rightarrow> app_error + task_dependency \<times> task_db" where
  "create_dependency now dependency_in actor_id db =
     ebind (get_task db (dc_predecessor_task_id dependency_in)) (\<lambda>predecessor.
     ebind (get_task db (dc_successor_task_id dependency_in)) (\<lambda>successor.
     ebind (validate_dependency predecessor successor (dc_dependency_type dependency_in)) (\<lambda>_.
     ebind (raise_if (creates_cycle db (tk_id predecessor) (tk_id successor))
              (raise_msg BadRequestError ''TASK_DEPENDENCY_CYCLE'')) (\<lambda>_.
     ebind (raise_duplicate_after_rollback ''DUPLICATE_RESOURCE''
              (dep_create now dependency_in actor_id db)) (\<lambda>(dependency, db1).
     Inr (dependency,
           record_dependency_change now (tk_project_id successor) ''dependency.created''
             (dp_id dependency)
             (Some [(''predecessor_task_id'', PInt (tk_id predecessor)),
                    (''successor_task_id'', PInt (tk_id successor)),
                    (''dependency_type'', PStr (dp_dependency_type dependency))])
             actor_id db1))))))"

definition list_dependencies :: "task_db \<Rightarrow> int \<Rightarrow> app_error + task_dependency list" where
  "list_dependencies db task_id = ebind (get_task db task_id) (\<lambda>_. Inr (list_by_task db task_id))"

definition get_dependency :: "task_db \<Rightarrow> int \<Rightarrow> app_error + task_dependency" where
  "get_dependency db dependency_id =
     some_or (raise_msg NotFoundError ''TASK_DEPENDENCY_NOT_FOUND'') (dep_get_by_id db dependency_id)"

definition dependency_field :: "task_dependency \<Rightarrow> string \<Rightarrow> pyval" where
  "dependency_field d f =
     (if f = ''id'' then PInt (dp_id d)
      else if f = ''predecessor_task_id'' then PInt (dp_predecessor_task_id d)
      else if f = ''successor_task_id'' then PInt (dp_successor_task_id d)
      else if f = ''dependency_type'' then PStr (dp_dependency_type d)
      else if f = ''lag_days'' then PInt (dp_lag_days d)
      else if f = ''version'' then PInt (dp_version d)
      else if f = ''created_by'' then py_opt_int (dp_created_by d)
      else if f = ''created_at'' then PInt (dp_created_at d)
      else if f = ''updated_at'' then PInt (dp_updated_at d)
      else PNone)"

definition dependency_conflict_fields :: "string list" where
  "dependency_conflict_fields =
     [''id'', ''predecessor_task_id'', ''successor_task_id'', ''dependency_type'', ''lag_days'',
      ''version'', ''created_by'', ''created_at'', ''updated_at'']"

definition raise_if_dependency_version_conflict :: "task_dependency \<Rightarrow> int \<Rightarrow> app_error + unit" where
  "raise_if_dependency_version_conflict dependency requested_version =
     raise_if_version_conflict (dp_version dependency) requested_version
       (build_conflict_current (dependency_field dependency) dependency_conflict_fields None)"

definition update_dependency ::
  "time \<Rightarrow> int option \<Rightarrow> int \<Rightarrow> dependency_update \<Rightarrow> task_db \<Rightarrow> app_error + task_dependency \<times> task_db" where
  "update_dependency now actor_id dependency_id dependency_in db =
     ebind (get_dependency db dependency_id) (\<lambda>dependency.
     ebind (get_task db (dp_successor_task_id dependency)) (\<lambda>successor.
     ebind (raise_if_dependency_version_conflict dependency (du_version dependency_in)) (\<lambda>_.
     ebind (rescue integrity_error (dep_update now dependency dependency_in db)) (\<lambda>(dependency', db1).
     Inr (dependency',
           record_dependency_change now (tk_project_id successor) ''dependency.updated''
             (dp_id dependency') None actor_id db1)))))"

definition delete_dependency ::
  "time \<Rightarrow> int \<Rightarrow> int option \<Rightarrow> task_db \<Rightarrow> app_error + task_db" where
  "delete_dependency now dependency_id actor_id db =
     ebind (get_dependency db dependency_id) (\<lambda>dependency.
     ebind (get_task db (dp_successor_task_id dependency)) (\<lambda>successor.
     Inr (record_dependency_change now (tk_project_id successor) ''dependency.deleted''
            dependency_id None actor_id (dep_delete dependency db))))"

subsection \<open>The search decides reachability\<close>

definition dep_edges :: "task_dependency list \<Rightarrow> (int \<times> int) set" where
  "dep_edges deps = (\<lambda>d. (dp_predecessor_task_id d, dp_successor_task_id d)) ` set deps"

lemma dep_edges_simps [simp]:
  "dep_edges [] = {}"
  "dep_edges (deps @ [d]) = insert (dp_predecessor_task_id d, dp_successor_task_id d) (dep_edges deps)"
  by (auto simp: dep_edges_def)

lemma successors_edges:
  "x \<in> set (map dp_successor_task_id (list_successors deps c)) \<longleftrightarrow> (c, x) \<in> dep_edges deps"
  by (auto simp: list_successors_def dep_edges_def)

lemma cycle_search_sound:
  "cycle_search deps p stack visited \<Longrightarrow> \<exists>s \<in> set stack. (s, p) \<in> (dep_edges deps)\<^sup>*"
proof (induction deps p stack visited rule: cycle_search.induct)
  case (1 deps p visited)
  then show ?case by simp
next
  case (2 deps p c stack visited)
  show ?case
  proof (cases "c = p \<or> c \<in> visited")
    case True
    with "2" show ?thesis by (auto split: if_splits)
  next
    case False
    with "2" obtain s where s: "s \<in> set (rev (map dp_successor_task_id (list_successors deps c)) @ stack)"
      "(s, p) \<in> (dep_edges deps)\<^sup>*" by auto
    then consider "(c, s) \<in> dep_edges deps" | "s \<in> set stack"
      using successors_edges [of s deps c] by auto
    then show ?thesis
      using s(2) by cases (auto intro: converse_rtrancl_into_rtrancl)
  qed
qed

text \<open>When the search fails, the visited nodes end as a closed set without the target.\<close>

lemma cycle_search_closed:
  assumes "\<not> cycle_search deps p stack visited" and "p \<notin> visited"
    and "dep_edges deps `` visited \<subseteq> visited \<union> set stack"
  shows "\<exists>W. visited \<union> set stack \<subseteq> W \<and> p \<notin> W \<and> dep_edges deps `` W \<subseteq> W"
  using assms
proof (induction deps p stack visited rule: cycle_search.induct)
  case (1 deps p visited)
  then show ?case by auto
next
  case (2 deps p c stack visited)
  show ?case
  proof (cases "c \<in> visited")
    case True
    have cp: "c \<noteq> p" and search: "\<not> cycle_search deps p stack visited"
      using "2.prems"(1) True by (auto split: if_splits)
    have closed: "dep_edges deps `` visited \<subseteq> visited \<union> set stack"
      using "2.prems"(3) True by auto
    obtain W where "visited \<union> set stack \<subseteq> W" "p \<notin> W" "dep_edges deps `` W \<subseteq> W"
      using "2.IH"(1) [OF cp True search "2.prems"(2) closed] by blast
    with True show ?thesis by (intro exI [of _ W]) auto
  next
    case False
    let ?st = "rev (map dp_successor_task_id (list_successors deps c)) @ stack"
    have c: "c \<noteq> p" and search: "\<not> cycle_search deps p ?st (insert c visited)"
      using "2.prems"(1) False by (auto split: if_splits)
    have succs: "dep_edges deps `` {c} \<subseteq> set ?st"
      using successors_edges [of _ deps c] by auto
    have "dep_edges deps `` insert c visited \<subseteq> insert c visited \<union> set ?st"
      using "2.prems"(3) succs by fastforce
    then obtain W where "insert c visited \<union> set ?st \<subseteq> W" "p \<notin> W" "dep_edges deps `` W \<subseteq> W"
      using "2.IH"(2) [OF c False search] "2.prems"(2) c by blast
    then show ?thesis by (intro exI [of _ W]) auto
  qed
qed

lemma closed_rtrancl: "r `` W \<subseteq> W \<Longrightarrow> s \<in> W \<Longrightarrow> (s, x) \<in> r\<^sup>* \<Longrightarrow> x \<in> W"
  by (rotate_tac 2, induction rule: rtrancl_induct) auto

lemma creates_cycle_iff_reachable_aux:
  "creates_cycle db p s \<longleftrightarrow> (s, p) \<in> (dep_edges (db_deps db))\<^sup>*"
proof
  assume "creates_cycle db p s"
  then show "(s, p) \<in> (dep_edges (db_deps db))\<^sup>*"
    using cycle_search_sound [of "db_deps db" p "[s]" "{}"] by (simp add: creates_cycle_def)
next
  assume reach: "(s, p) \<in> (dep_edges (db_deps db))\<^sup>*"
  show "creates_cycle db p s"
  proof (rule ccontr)
    assume "\<not> creates_cycle db p s"
    then obtain W where "{s} \<subseteq> W" "p \<notin> W" "dep_edges (db_deps db) `` W \<subseteq> W"
      using cycle_search_closed [of "db_deps db" p "[s]" "{}"] by (auto simp: creates_cycle_def)
    with closed_rtrancl [OF _ _ reach] show False by blast
  qed
qed

text \<open>
  C20: \<open>_creates_cycle\<close> terminates on every dependency table and answers true exactly when the
  predecessor is already reachable from the successor, that is when the new edge would close a
  cycle.
\<close>

theorem creates_cycle_iff_reachable:
  "creates_cycle db p s \<longleftrightarrow> (s, p) \<in> (dep_edges (db_deps db))\<^sup>*"
  by (rule creates_cycle_iff_reachable_aux)

subsection \<open>What each operation does to the table\<close>

named_theorems dep_defs "unfolding the dependency operations"

lemmas [dep_defs] = create_dependency_def update_dependency_def delete_dependency_def
  dep_create_def dep_update_def dep_delete_def record_dependency_change_def Let_def
  raise_duplicate_after_rollback_def get_dependency_def get_task_def dep_get_by_id_def
  raise_if_dependency_version_conflict_def

lemma task_get_id: "task_get_by_id db k = Some t \<Longrightarrow> tk_id t = k"
  by (simp add: task_get_by_idD)

lemma create_dependency_Inr:
  assumes "create_dependency now i a db = Inr (d, db')"
  obtains p s db1 lg where "task_get_by_id db (dc_predecessor_task_id i) = Some p"
    and "task_get_by_id db (dc_successor_task_id i) = Some s"
    and "validate_dependency p s (dc_dependency_type i) = Inr ()"
    and "\<not> creates_cycle db (tk_id p) (tk_id s)"
    and "dep_create now i a db = Inr (d, db1)"
    and "db' = record_dependency_change now (tk_project_id s) ''dependency.created'' (dp_id d) lg a db1"
  using assms
  unfolding create_dependency_def get_task_def raise_duplicate_after_rollback_def
  by (elim ebind_InrE) (auto split: prod.splits)

lemma create_dependency_effect:
  assumes "create_dependency now i a db = Inr (d, db')"
  shows "db_deps db' = db_deps db @ [d]" and "dp_id d = db_seq db + 1"
    and "dp_predecessor_task_id d = dc_predecessor_task_id i"
    and "dp_successor_task_id d = dc_successor_task_id i"
    and "\<not> creates_cycle db (dc_predecessor_task_id i) (dc_successor_task_id i)"
    and "db_tasks db' = db_tasks db" and "db_seq db' = db_seq db + 2"
    and "\<not> dep_unique_violation d (db_deps db)"
  using assms
  by (auto elim!: create_dependency_Inr dest!: task_get_id
      simp: dep_create_def Let_def record_dependency_change_def change_log_create_def
      split: if_splits)

lemma update_dependency_effect:
  assumes "update_dependency now a k i db = Inr (d', db')"
  obtains d where "tget dp_id k (db_deps db) = Some d" and "dp_id d' = k"
    and "db_deps db' = tput dp_id d' (db_deps db)"
    and "dp_predecessor_task_id d' = dp_predecessor_task_id d"
    and "dp_successor_task_id d' = dp_successor_task_id d"
    and "dp_version d = du_version i" and "dp_version d' = dp_version d + 1"
    and "db_tasks db' = db_tasks db" and "db_seq db' = db_seq db + 1"
    and "\<not> dep_unique_violation d' (db_deps db)"
    and "\<exists>s. task_get_by_id db (dp_successor_task_id d) = Some s"
proof -
  obtain d s db1 where *: "tget dp_id k (db_deps db) = Some d"
    "task_get_by_id db (dp_successor_task_id d) = Some s" "dp_version d = du_version i"
    "dep_update now d i db = Inr (d', db1)"
    "db' = record_dependency_change now (tk_project_id s) ''dependency.updated'' (dp_id d') None a db1"
    using assms
    unfolding update_dependency_def get_dependency_def get_task_def dep_get_by_id_def
      raise_if_dependency_version_conflict_def
    by (elim ebind_InrE) (auto split: prod.splits)
  moreover have "dp_id d = k" using *(1) by (auto dest: tget_SomeD)
  ultimately show thesis
    by (intro that [of d])
       (auto simp: dep_update_def Let_def record_dependency_change_def change_log_create_def
          split: if_splits option.splits)
qed

lemma delete_dependency_effect:
  assumes "delete_dependency now k a db = Inr db'"
  shows "db_deps db' = tdel dp_id k (db_deps db)" and "db_tasks db' = db_tasks db"
    and "db_seq db' = db_seq db + 1"
  using assms by (auto simp: dep_defs change_log_create_def dest: tget_SomeD)

lemma dep_edges_tput:
  assumes "tget dp_id k deps = Some d" and "distinct (map dp_id deps)" and "dp_id d' = k"
    and "dp_predecessor_task_id d' = dp_predecessor_task_id d"
    and "dp_successor_task_id d' = dp_successor_task_id d"
  shows "dep_edges (tput dp_id d' deps) = dep_edges deps"
proof -
  have "(dp_predecessor_task_id (if dp_id x = dp_id d' then d' else x),
         dp_successor_task_id (if dp_id x = dp_id d' then d' else x)) =
        (dp_predecessor_task_id x, dp_successor_task_id x)" if "x \<in> set deps" for x
    using that assms tget_Some_iff [OF assms(2), of k x] by auto
  then show ?thesis
    unfolding dep_edges_def tput_def set_map image_image by (rule image_cong [OF refl])
qed

lemma dep_edges_tdel: "dep_edges (tdel dp_id k deps) \<subseteq> dep_edges deps"
  by (auto simp: dep_edges_def set_tdel)

subsection \<open>Reachable dependency tables\<close>

text \<open>
  A step is one served request of the dependency API, or any operation of another service, which
  leaves the dependency table alone and only moves the sequences forward.
\<close>

inductive dep_step :: "task_db \<Rightarrow> task_db \<Rightarrow> bool" where
  created: "create_dependency now i a db = Inr (d, db') \<Longrightarrow> dep_step db db'"
| updated: "update_dependency now a k u db = Inr (d, db') \<Longrightarrow> dep_step db db'"
| deleted: "delete_dependency now k a db = Inr db' \<Longrightarrow> dep_step db db'"
| elsewhere: "db_deps db' = db_deps db \<Longrightarrow> db_seq db \<le> db_seq db' \<Longrightarrow> dep_step db db'"

inductive dep_reachable :: "task_db \<Rightarrow> bool" where
  empty: "db_deps db = [] \<Longrightarrow> dep_reachable db"
| step: "dep_reachable db \<Longrightarrow> dep_step db db' \<Longrightarrow> dep_reachable db'"

inductive_cases dep_stepE: "dep_step db db'"

definition dep_inv :: "task_db \<Rightarrow> bool" where
  "dep_inv db \<longleftrightarrow>
     acyclic (dep_edges (db_deps db)) \<and> distinct (map dp_id (db_deps db)) \<and>
     (\<forall>d \<in> set (db_deps db). dp_id d \<le> db_seq db)"

lemma dep_inv_create:
  assumes "dep_inv db" and "create_dependency now i a db = Inr (d, db')"
  shows "dep_inv db'"
proof -
  note eff = create_dependency_effect [OF assms(2)]
  have "(dp_successor_task_id d, dp_predecessor_task_id d) \<notin> (dep_edges (db_deps db))\<^sup>*"
    using eff by (simp add: creates_cycle_iff_reachable_aux)
  then show ?thesis
    using assms(1) eff(1,2,7) by (fastforce simp: dep_inv_def acyclic_insert)
qed

lemma dep_inv_update:
  assumes "dep_inv db" and u: "update_dependency now a k i db = Inr (d', db')"
  shows "dep_inv db'"
  using u
proof (rule update_dependency_effect)
  fix d
  assume *: "tget dp_id k (db_deps db) = Some d" "dp_id d' = k"
    "db_deps db' = tput dp_id d' (db_deps db)"
    "dp_predecessor_task_id d' = dp_predecessor_task_id d"
    "dp_successor_task_id d' = dp_successor_task_id d" "db_seq db' = db_seq db + 1"
  have "k \<le> db_seq db"
    using *(1) assms(1) by (auto simp: dep_inv_def dest: tget_SomeD)
  then show ?thesis
    using assms(1) * dep_edges_tput [OF *(1) _ *(2,4,5)]
    by (force simp: dep_inv_def dest: tput_mem)
qed

lemma dep_inv_delete:
  assumes "dep_inv db" and "delete_dependency now k a db = Inr db'"
  shows "dep_inv db'"
  using assms(1) delete_dependency_effect [OF assms(2)] acyclic_subset [OF _ dep_edges_tdel]
  by (fastforce simp: dep_inv_def distinct_tdel set_tdel)

lemma dep_inv_elsewhere:
  "dep_inv db \<Longrightarrow> db_deps db' = db_deps db \<Longrightarrow> db_seq db \<le> db_seq db' \<Longrightarrow> dep_inv db'"
  by (fastforce simp: dep_inv_def)

lemma dep_inv_step: "dep_step db db' \<Longrightarrow> dep_inv db \<Longrightarrow> dep_inv db'"
  by (erule dep_stepE)
     (blast intro: dep_inv_create dep_inv_update dep_inv_delete dep_inv_elsewhere)+

lemma dep_reachable_inv: "dep_reachable db \<Longrightarrow> dep_inv db"
proof (induction rule: dep_reachable.induct)
  case (empty db)
  then show ?case by (simp add: dep_inv_def acyclic_def)
next
  case (step db db')
  then show ?case by (blast intro: dep_inv_step)
qed

text \<open>
  C22: in every state the dependency API can reach, with other services' operations and rejected
  requests interleaved in any order, the dependency graph has no cycle (so the finish-to-start
  order of the tasks is satisfiable).
\<close>

theorem reachable_deps_acyclic:
  "dep_reachable db \<Longrightarrow> acyclic (dep_edges (db_deps db))"
  by (simp add: dep_reachable_inv [unfolded dep_inv_def])

subsection \<open>When a dependency is created\<close>

lemma validate_dependency_iff:
  "validate_dependency p s ty = Inr () \<longleftrightarrow>
     tk_id p \<noteq> tk_id s \<and> tk_project_id p = tk_project_id s \<and> ty = ''finish_to_start'' \<and>
     tk_parent_task_id p \<noteq> Some (tk_id s) \<and> tk_parent_task_id s \<noteq> Some (tk_id p)"
  by (auto simp: validate_dependency_def Let_def)

lemma dep_create_iff:
  "(\<exists>d db1. dep_create now i a db = Inr (d, db1)) \<longleftrightarrow>
     (\<forall>e \<in> set (db_deps db). dp_id e \<noteq> db_seq db + 1 \<longrightarrow>
        (dp_predecessor_task_id e, dp_successor_task_id e, dp_dependency_type e) \<noteq>
        (dc_predecessor_task_id i, dc_successor_task_id i, dc_dependency_type i))"
  by (auto simp: dep_create_def Let_def dep_unique_violation_def)

lemma create_dependency_iff:
  "(\<exists>d db'. create_dependency now i a db = Inr (d, db')) \<longleftrightarrow>
     (\<exists>p s. task_get_by_id db (dc_predecessor_task_id i) = Some p \<and>
            task_get_by_id db (dc_successor_task_id i) = Some s \<and>
            validate_dependency p s (dc_dependency_type i) = Inr () \<and>
            \<not> creates_cycle db (tk_id p) (tk_id s) \<and>
            (\<exists>d db1. dep_create now i a db = Inr (d, db1)))"
  by (auto simp: create_dependency_def get_task_def raise_duplicate_after_rollback_def)

text \<open>
  a dependency is created exactly when both tasks exist undeleted in one project, differ, are
  not parent and child of each other, the type is finish-to-start, the edge closes no cycle, and
  the same dependency is not stored yet; every other request is refused without a change.
\<close>

theorem create_dependency_succeeds_iff:
  assumes "dep_reachable db"
  shows "(\<exists>d db'. create_dependency now i a db = Inr (d, db')) \<longleftrightarrow>
     (\<exists>p s. task_get_by_id db (dc_predecessor_task_id i) = Some p \<and>
            task_get_by_id db (dc_successor_task_id i) = Some s \<and>
            tk_id p \<noteq> tk_id s \<and> tk_project_id p = tk_project_id s \<and>
            dc_dependency_type i = ''finish_to_start'' \<and>
            tk_parent_task_id p \<noteq> Some (tk_id s) \<and> tk_parent_task_id s \<noteq> Some (tk_id p) \<and>
            (tk_id s, tk_id p) \<notin> (dep_edges (db_deps db))\<^sup>* \<and>
            (dc_predecessor_task_id i, dc_successor_task_id i, dc_dependency_type i) \<notin>
              (\<lambda>e. (dp_predecessor_task_id e, dp_successor_task_id e, dp_dependency_type e))
                ` set (db_deps db))"
proof -
  have fresh: "dp_id e \<noteq> db_seq db + 1" if "e \<in> set (db_deps db)" for e
    using dep_reachable_inv [OF assms] that by (auto simp: dep_inv_def)
  have "(\<exists>d db1. dep_create now i a db = Inr (d, db1)) \<longleftrightarrow>
    (dc_predecessor_task_id i, dc_successor_task_id i, dc_dependency_type i) \<notin>
      (\<lambda>e. (dp_predecessor_task_id e, dp_successor_task_id e, dp_dependency_type e))
        ` set (db_deps db)"
    unfolding dep_create_iff using fresh by (metis (no_types, lifting) image_iff)
  then show ?thesis
    unfolding create_dependency_iff validate_dependency_iff creates_cycle_iff_reachable_aux
    by (simp only: conj_assoc)
qed

subsection \<open>Updates follow the optimistic-locking contract\<close>

text \<open>
  A request on dependency \<open>k\<close> comes with its time and actor. The version is visible while the
  dependency's successor is undeleted (an update of any other dependency is a 404).
\<close>

definition serve_dep_update ::
  "int \<Rightarrow> time \<times> int option \<times> dependency_update \<Rightarrow> task_db \<Rightarrow> app_error + task_dependency \<times> task_db" where
  "serve_dep_update k q db = (case q of (now, actor, i) \<Rightarrow> update_dependency now actor k i db)"

definition dep_ver :: "int \<Rightarrow> task_db \<Rightarrow> int option" where
  "dep_ver k db =
     (case tget dp_id k (db_deps db) of
        None \<Rightarrow> None
      | Some d \<Rightarrow> (case task_get_by_id db (dp_successor_task_id d) of
                    None \<Rightarrow> None | Some _ \<Rightarrow> Some (dp_version d)))"

definition dep_req :: "time \<times> int option \<times> dependency_update \<Rightarrow> int" where
  "dep_req q = (case q of (now, actor, i) \<Rightarrow> du_version i)"

lemma task_get_cong: "db_tasks db' = db_tasks db \<Longrightarrow> task_get_by_id db' k = task_get_by_id db k"
  by (simp add: task_get_by_id_def)

lemma dep_ver_after_update:
  assumes "update_dependency now a k i db = Inr (r, db')"
  shows "dep_ver k' db' = (if k' = k then Some (du_version i + 1) else dep_ver k' db)"
  using assms
proof (rule update_dependency_effect)
  fix d
  assume "tget dp_id k (db_deps db) = Some d" "dp_id r = k" "db_deps db' = tput dp_id r (db_deps db)"
    "dp_successor_task_id r = dp_successor_task_id d" "dp_version d = du_version i"
    "dp_version r = dp_version d + 1" "db_tasks db' = db_tasks db"
    "\<exists>s. task_get_by_id db (dp_successor_task_id d) = Some s"
  moreover from this have "\<And>t. task_get_by_id db' t = task_get_by_id db t"
    by (intro task_get_cong)
  ultimately show ?thesis
    by (auto simp: dep_ver_def row_simps split: option.splits)
qed

interpretation dep: versioned dep_ver serve_dep_update dep_req
proof
  fix k db v q
  assume "dep_ver k db = Some v" "dep_req q \<noteq> v"
  then show "\<exists>c. serve_dep_update k q db = Inl (version_conflict c)"
    by (auto simp: dep_ver_def dep_req_def serve_dep_update_def update_dependency_def
        get_dependency_def dep_get_by_id_def get_task_def raise_if_dependency_version_conflict_def
        split: option.splits prod.splits)
next
  fix k db q
  assume "dep_ver k db = None"
  then show "\<exists>e. serve_dep_update k q db = Inl e \<and> err_cls e = NotFoundError"
    by (auto simp: dep_ver_def serve_dep_update_def update_dependency_def
        get_dependency_def dep_get_by_id_def get_task_def split: option.splits prod.splits)
next
  fix k q db r db' k'
  assume "serve_dep_update k q db = Inr (r, db')"
  then show "dep_ver k db' = Some (dep_req q + 1)"
    and "k' \<noteq> k \<Longrightarrow> dep_ver k' db' = dep_ver k' db"
    by (auto simp: serve_dep_update_def dep_req_def dep_ver_after_update split: prod.splits)
qed

text \<open>
  Once an update of a dependency is accepted, every other request carrying the same version is
  refused with a version conflict, however many updates (of this and of other dependencies, by
  anyone) are served in between: of the clients that read one version at most one writes.
\<close>

theorem dependency_one_winner_per_version:
  assumes "update_dependency now a k i db = Inr (d, db')" and "du_version j = du_version i"
  shows "\<exists>c. update_dependency now' a' k j (serve serve_dep_update db' rs) = Inl (version_conflict c)"
  using dep.at_most_one_winner [of k "(now, a, i)" db d db' "(now', a', j)" rs] assms
  by (simp add: serve_dep_update_def dep_req_def)

subsection \<open>Blocked tasks\<close>

lemma set_blocked_task_ids:
  "set (blocked_task_ids db ids) =
     {k \<in> set ids. \<exists>d \<in> set (db_deps db). dp_successor_task_id d = k \<and>
        dp_dependency_type d = ''finish_to_start'' \<and>
        (\<exists>t \<in> set (db_tasks db). tk_id t = dp_predecessor_task_id d \<and>
           tk_deleted_at t = None \<and> tk_status t \<noteq> ''done'')}"
  by (auto simp: blocked_task_ids_def)

lemma create_dependency_type:
  assumes "create_dependency now i a db = Inr (d, db')"
  shows "dp_dependency_type d = ''finish_to_start''"
  using assms
  by (auto elim!: create_dependency_Inr simp: validate_dependency_iff dep_create_def Let_def
      split: if_splits)

text \<open>
  creating a dependency blocks its successor exactly when the predecessor is not done, and
  leaves every other task as blocked or unblocked as it was.
\<close>

theorem create_dependency_blocks:
  assumes "create_dependency now i a db = Inr (d, db')" and "distinct (map tk_id (db_tasks db))"
    and "task_get_by_id db (dc_predecessor_task_id i) = Some p"
  shows "set (blocked_task_ids db' ids) =
           set (blocked_task_ids db ids) \<union>
           (if tk_status p = ''done'' then {} else {dc_successor_task_id i} \<inter> set ids)"
proof -
  have "(\<exists>t \<in> set (db_tasks db). tk_id t = dc_predecessor_task_id i \<and>
           tk_deleted_at t = None \<and> tk_status t \<noteq> ''done'') \<longleftrightarrow> tk_status p \<noteq> ''done''"
    using assms(2,3) task_get_by_id_iff [OF assms(2), of "dc_predecessor_task_id i"]
    by (metis option.inject)
  then show ?thesis
    unfolding set_blocked_task_ids
    using create_dependency_effect [OF assms(1)] create_dependency_type [OF assms(1)]
    by auto
qed

subsection \<open>The type check is made on creation only\<close>

text \<open>
  An update with the current version stores any dependency type, also one that creation
  refuses (\<open>_validate_dependency\<close> is not called by \<open>update_dependency\<close>); when the new type is not
  finish-to-start, the dependency no longer blocks its successor.
\<close>

theorem update_dependency_unvalidated:
  assumes "tget dp_id k (db_deps db) = Some d" and "task_get_by_id db (dp_successor_task_id d) = Some s"
    and "du_version u = dp_version d" and "du_dependency_type u = Some ty"
    and "\<not> dep_unique_violation (d\<lparr>dp_dependency_type := ty\<rparr>) (db_deps db)"
    and "ty \<noteq> ''finish_to_start''" and "dc_dependency_type i = ty"
  shows "(\<exists>d' db'. update_dependency now a k u db = Inr (d', db') \<and> dp_dependency_type d' = ty) \<and>
         \<not> (\<exists>d' db'. create_dependency now i a db = Inr (d', db'))"
proof
  have "dp_id d = k" using assms(1) by (auto dest: tget_SomeD)
  moreover have "\<not> dep_unique_violation (d\<lparr>dp_dependency_type := ty, dp_lag_days := l, dp_version := v,
      dp_updated_at := now\<rparr>) (db_deps db)" for l v
    using assms(5) by (auto simp: dep_unique_violation_def)
  moreover from this have "\<not> dep_unique_violation (d\<lparr>dp_dependency_type := ty, dp_version := v,
      dp_updated_at := now\<rparr>) (db_deps db)" for v
    by (auto simp: dep_unique_violation_def)
  ultimately show "\<exists>d' db'. update_dependency now a k u db = Inr (d', db') \<and> dp_dependency_type d' = ty"
    using assms(1-4)
    by (auto simp: update_dependency_def get_dependency_def dep_get_by_id_def get_task_def
        raise_if_dependency_version_conflict_def dep_update_def Let_def split: option.splits)
  show "\<not> (\<exists>d' db'. create_dependency now i a db = Inr (d', db'))"
    unfolding create_dependency_iff validate_dependency_iff using assms(6,7) by simp
qed

subsection \<open>Concrete instances\<close>

definition dep_db0 :: task_db where
  "dep_db0 = sample_db [sample_task 1, sample_task 2, sample_task 3]"

definition dep_in :: "int \<Rightarrow> int \<Rightarrow> dependency_create" where
  "dep_in p s = \<lparr>dc_predecessor_task_id = p, dc_successor_task_id = s,
     dc_dependency_type = ''finish_to_start'', dc_lag_days = 0\<rparr>"

definition dep_upd :: "int \<Rightarrow> string option \<Rightarrow> dependency_update" where
  "dep_upd v ty = \<lparr>du_version = v, du_dependency_type = ty, du_lag_days = Some 2\<rparr>"

definition dep_db1 :: task_db where
  "dep_db1 = snd (projr (create_dependency 5 (dep_in 1 2) (Some 7) dep_db0))"

definition dep_row1 :: task_dependency where
  "dep_row1 = fst (projr (create_dependency 5 (dep_in 1 2) (Some 7) dep_db0))"

lemma dep_db1_created: "create_dependency 5 (dep_in 1 2) (Some 7) dep_db0 = Inr (dep_row1, dep_db1)"
  by code_simp

lemma dep_db1_reachable: "dep_reachable dep_db1"
  by (rule dep_reachable.step [OF dep_reachable.empty dep_step.created [OF dep_db1_created]])
     (simp add: dep_db0_def sample_db_def)

lemma reachable_deps_acyclic_witness:
  "db_deps dep_db1 \<noteq> [] \<and> acyclic (dep_edges (db_deps dep_db1))"
  using reachable_deps_acyclic [OF dep_db1_reachable] by (auto simp: create_dependency_effect [OF dep_db1_created])

lemma create_dependency_succeeds_iff_witness:
  "(\<exists>d db'. create_dependency 6 (dep_in 2 3) None dep_db1 = Inr (d, db')) \<and>
   \<not> (\<exists>d db'. create_dependency 6 (dep_in 2 1) None dep_db1 = Inr (d, db'))"
proof -
  have "(1, 2) \<in> (dep_edges (db_deps dep_db1))\<^sup>*"
    by (auto simp: create_dependency_effect [OF dep_db1_created] dep_in_def)
  moreover have "\<exists>d db'. create_dependency 6 (dep_in 2 3) None dep_db1 = Inr (d, db')"
    by (rule exI [of _ "fst (projr (create_dependency 6 (dep_in 2 3) None dep_db1))"],
        rule exI [of _ "snd (projr (create_dependency 6 (dep_in 2 3) None dep_db1))"], code_simp)
  ultimately show ?thesis
    using create_dependency_succeeds_iff [OF dep_db1_reachable, of 6 "dep_in 2 1" None]
    by (auto simp: dep_in_def dest!: task_get_id)
qed

lemma dependency_one_winner_per_version_witness:
  "\<exists>c. update_dependency 9 None 101 (dep_upd 1 None)
     (serve serve_dep_update (snd (projr (update_dependency 8 (Some 7) 101 (dep_upd 1 None) dep_db1)))
        [(101, 8, None, dep_upd 2 None), (101, 8, None, dep_upd 1 None)]) = Inl (version_conflict c)"
  by (rule dependency_one_winner_per_version [where i = "dep_upd 1 None" and a = "Some 7" and now = 8
        and db = dep_db1 and d = "fst (projr (update_dependency 8 (Some 7) 101 (dep_upd 1 None) dep_db1))"])
     (code_simp, simp)

lemma create_dependency_blocks_witness:
  "set (blocked_task_ids dep_db1 [1, 2, 3]) =
     set (blocked_task_ids dep_db0 [1, 2, 3]) \<union> {2} \<and> 2 \<notin> set (blocked_task_ids dep_db0 [1, 2, 3])"
proof -
  have "distinct (map tk_id (db_tasks dep_db0))"
    and "task_get_by_id dep_db0 (dc_predecessor_task_id (dep_in 1 2)) = Some (sample_task 1)"
    and "2 \<notin> set (blocked_task_ids dep_db0 [1, 2, 3])"
    by code_simp+
  then show ?thesis
    using create_dependency_blocks [OF dep_db1_created, of "sample_task 1" "[1, 2, 3]"]
    by (simp add: sample_task_def dep_in_def)
qed

lemma update_dependency_unvalidated_witness:
  "\<exists>d' db'. update_dependency 9 None 101 (dep_upd 1 (Some ''whenever'')) dep_db1 = Inr (d', db') \<and>
     dp_dependency_type d' = ''whenever''"
proof -
  have "tget dp_id 101 (db_deps dep_db1) = Some dep_row1"
    and "task_get_by_id dep_db1 (dp_successor_task_id dep_row1) = Some (sample_task 2)"
    and "du_version (dep_upd 1 (Some ''whenever'')) = dp_version dep_row1"
    and "du_dependency_type (dep_upd 1 (Some ''whenever'')) = Some ''whenever''"
    and "\<not> dep_unique_violation (dep_row1\<lparr>dp_dependency_type := ''whenever''\<rparr>) (db_deps dep_db1)"
    by code_simp+
  then show ?thesis
    using update_dependency_unvalidated [where i = "(dep_in 1 2)\<lparr>dc_dependency_type := ''whenever''\<rparr>"
        and k = 101 and db = dep_db1 and u = "dep_upd 1 (Some ''whenever'')" and now = 9 and a = None]
    by fastforce
qed

end
