(* ===== verification/Numbering.thy ===== *)
theory Numbering imports Errors begin

text \<open>
  Automatic codes such as \<open>TASK-001\<close>, \<open>REQ-001\<close> and \<open>ISSUE-001\<close>: every numbered table has a query that
  takes the largest number of the codes of the form prefix and digits and casts it to PostgreSQL's 32-bit
  INTEGER, which fails for a larger number (\<open>Inl ()\<close> is that \<open>DataError\<close>), and a service that puts the next
  number after the prefix. The codes and the prefix are arguments; the tables are in their own theories.
\<close>

definition code_number :: "string \<Rightarrow> string \<Rightarrow> int option" where
  "code_number prefix code =
     (let digits = drop (length prefix) code in
      if take (length prefix) code = prefix \<and> digits \<noteq> [] \<and> list_all is_digit digits
      then Some (digits_value digits) else None)"

definition int4_max :: int where
  "int4_max = 2147483647"

definition max_code_number :: "string \<Rightarrow> string list \<Rightarrow> unit + int" where
  "max_code_number prefix codes =
     (let numbers = List.map_filter (code_number prefix) codes
      in if list_ex (\<lambda>n. int4_max < n) numbers then Inl () else Inr (fold max numbers 0))"

definition pad3 :: "string \<Rightarrow> string" where
  "pad3 s = replicate (3 - length s) CHR ''0'' @ s"

definition data_error :: app_error where
  "data_error = raise_msg AppError ''DataError''"

definition next_code :: "string \<Rightarrow> string list \<Rightarrow> app_error + string" where
  "next_code prefix codes =
     ebind (rescue data_error (max_code_number prefix codes)) (\<lambda>n. Inr (prefix @ pad3 (show_int (n + 1))))"

text \<open>A requested code is stripped; a blank one counts as none.\<close>

definition stripped_code :: "string option \<Rightarrow> string option" where
  "stripped_code code =
     (case code of None \<Rightarrow> None
      | Some c \<Rightarrow> (let stripped = py_strip c in if stripped = [] then None else Some stripped))"

subsection \<open>The next code is new\<close>

lemma code_number_generated: "0 \<le> n \<Longrightarrow> code_number prefix (prefix @ pad3 (show_int n)) = Some n"
proof -
  have "list_all is_digit (replicate k CHR ''0'')" for k
    by (induction k) (simp_all add: is_digit_def)
  moreover assume "0 \<le> n"
  ultimately show ?thesis
    using show_nat_digits [of "nat n"]
    by (simp add: code_number_def Let_def pad3_def digits_value_pad digits_value_show show_int_def)
qed

lemma fold_max_upper: "n \<in> set ns \<Longrightarrow> n \<le> fold max ns (0::int)"
  by (metis Max.set_eq_fold Max_ge List.finite_set list.set_intros(2))

lemma fold_max_nonneg: "0 \<le> fold max ns (0::int)"
  by (metis Max.set_eq_fold Max_ge List.finite_set list.set_intros(1))

lemma set_map_filter: "set (List.map_filter f xs) = {y. \<exists>x \<in> set xs. f x = Some y}"
  by (force simp: List.map_filter_def)

lemma next_code_fresh:
  assumes "next_code prefix codes = Inr code"
  shows "code \<notin> set codes"
    and "\<exists>n. code_number prefix code = Some (n + 1) \<and> (\<forall>c \<in> set codes. \<forall>m. code_number prefix c = Some m \<longrightarrow> m \<le> n)"
proof -
  define ns where "ns = List.map_filter (code_number prefix) codes"
  have code: "code = prefix @ pad3 (show_int (fold max ns 0 + 1))"
    using assms by (auto simp: next_code_def max_code_number_def Let_def ns_def split: if_splits)
  then have number: "code_number prefix code = Some (fold max ns 0 + 1)"
    by (simp add: code_number_generated fold_max_nonneg)
  have upper: "m \<le> fold max ns 0" if "c \<in> set codes" "code_number prefix c = Some m" for c m
    by (rule fold_max_upper) (use that in \<open>force simp: ns_def set_map_filter\<close>)
  show "code \<notin> set codes"
    using upper [OF _ number] by fastforce
  show "\<exists>n. code_number prefix code = Some (n + 1) \<and> (\<forall>c \<in> set codes. \<forall>m. code_number prefix c = Some m \<longrightarrow> m \<le> n)"
    using number upper by blast
qed

text \<open>
  One code whose number is above the 32-bit range stops the numbering of its table for as long as its row
  exists: the error is not the retried \<open>IntegrityError\<close>. Otherwise numbering succeeds.
\<close>

lemma next_code_fails_iff:
  "(\<exists>e. next_code prefix codes = Inl e) \<longleftrightarrow> (\<exists>c \<in> set codes. \<exists>n. code_number prefix c = Some n \<and> int4_max < n)"
proof -
  have "(\<exists>e. next_code prefix codes = Inl e) \<longleftrightarrow> max_code_number prefix codes = Inl ()"
    by (cases "max_code_number prefix codes") (simp_all add: next_code_def)
  also have "\<dots> \<longleftrightarrow> (\<exists>c \<in> set codes. \<exists>n. code_number prefix c = Some n \<and> int4_max < n)"
    by (auto simp: max_code_number_def Let_def list_ex_iff set_map_filter split: if_splits)
  finally show ?thesis .
qed

end
