(* ===== verification/Task_Code.thy ===== *)
theory Task_Code imports Task_Model Numbering begin

text \<open>
  Task codes: the normalisation of a requested code and the automatic numbering
  (\<open>_normalize_task_code\<close> and \<open>_generate_task_code\<close> of \<^verbatim>\<open>app/services/task.py\<close>,
  \<open>get_max_auto_task_number\<close> of \<^verbatim>\<open>app/repositories/task_item.py\<close>), with the numbers of the codes \<open>TASK-\<close>digits.
\<close>

definition normalize_task_code :: "string option \<Rightarrow> string option" where
  "normalize_task_code task_code = stripped_code task_code"

definition auto_prefix :: string where
  "auto_prefix = ''TASK-''"

definition auto_number :: "string \<Rightarrow> int option" where
  "auto_number code = code_number auto_prefix code"

definition project_codes :: "task_db \<Rightarrow> int \<Rightarrow> string list" where
  "project_codes db project_id = map tk_task_code (filter (\<lambda>t. tk_project_id t = project_id) (db_tasks db))"

definition get_max_auto_task_number :: "task_db \<Rightarrow> int \<Rightarrow> unit + int" where
  "get_max_auto_task_number db project_id = max_code_number auto_prefix (project_codes db project_id)"

definition generate_task_code :: "task_db \<Rightarrow> int \<Rightarrow> app_error + string" where
  "generate_task_code db project_id =
     ebind (rescue data_error (get_max_auto_task_number db project_id)) (\<lambda>n.
     Inr (auto_prefix @ pad3 (show_int (n + 1))))"

subsection \<open>Automatic numbering\<close>

lemma generate_task_code_next: "generate_task_code db p = next_code auto_prefix (project_codes db p)"
  by (simp add: generate_task_code_def get_max_auto_task_number_def next_code_def)

lemma in_project_codes: "c \<in> set (project_codes db p) \<longleftrightarrow> (\<exists>t \<in> set (db_tasks db). tk_project_id t = p \<and> tk_task_code t = c)"
  by (auto simp: project_codes_def)

lemma generated_fresh_aux:
  assumes "generate_task_code db p = Inr code" and "t \<in> set (db_tasks db)" and "tk_project_id t = p"
  shows "tk_task_code t \<noteq> code"
  using assms next_code_fresh(1) [of auto_prefix "project_codes db p" code]
  by (auto simp: generate_task_code_next in_project_codes)

text \<open>
  an automatically generated code is new in its project, deleted tasks included, and it is
  numbered one above every automatic code of the project, whatever codes users chose.
\<close>

theorem generated_task_code_fresh:
  assumes "generate_task_code db p = Inr code"
  shows "\<exists>n. auto_number code = Some (n + 1) \<and>
     (\<forall>t \<in> set (db_tasks db). tk_project_id t = p \<longrightarrow> tk_task_code t \<noteq> code \<and>
        (\<forall>m. auto_number (tk_task_code t) = Some m \<longrightarrow> m \<le> n))"
  using next_code_fresh(2) [of auto_prefix "project_codes db p" code] assms generated_fresh_aux [OF assms]
  by (fastforce simp: generate_task_code_next in_project_codes auto_number_def)

theorem generated_task_code_fresh_witness:
  "\<exists>n. auto_number ''TASK-002'' = Some (n + 1) \<and>
     (\<forall>t \<in> set (db_tasks (sample_db [(sample_task 1)\<lparr>tk_task_code := ''TASK-1''\<rparr>])).
        tk_project_id t = 1 \<longrightarrow> tk_task_code t \<noteq> ''TASK-002'' \<and>
        (\<forall>m. auto_number (tk_task_code t) = Some m \<longrightarrow> m \<le> n))"
  by (rule generated_task_code_fresh) code_simp

text \<open>
  One task whose code is \<open>TASK-\<close> followed by a number above the 32-bit range stops the
  automatic numbering of its project: every later generation fails with a database error that is
  not the retried \<open>IntegrityError\<close>, as long as that row exists (deleted or not). In every other
  state generation succeeds.
\<close>

theorem auto_numbering_fails_iff:
  "(\<exists>e. generate_task_code db p = Inl e) \<longleftrightarrow>
     (\<exists>t n. t \<in> set (db_tasks db) \<and> tk_project_id t = p \<and>
            auto_number (tk_task_code t) = Some n \<and> int4_max < n)"
  unfolding generate_task_code_next next_code_fails_iff auto_number_def project_codes_def by auto

end
