(* ===== verification/Task_Items.thy ===== *)
theory Task_Items imports Task_Dependency Task_Code begin

text \<open>
  Tasks: \<^verbatim>\<open>app/services/task.py\<close> over \<^verbatim>\<open>app/repositories/task_item.py\<close> and
  \<^verbatim>\<open>app/repositories/task_requirement.py\<close>, with the parts of the type, phase and notification
  services they call.

  \<open>task_env\<close> is what a request reads from outside the tables of \<open>task_db\<close>: the clock, today's date,
  and the presentation data of a task (\<open>TaskPresentationDataService\<close>: phase fields and
  requirement summaries), which only enters the body of a version conflict. \<open>env_others n\<close> is what
  other sessions commit between the numbering and the insert of the \<open>n\<close>th attempt of a creation.
  Snapshots keep a date as its day number, where the code stores its ISO text.
\<close>

record task_env =
  env_now :: time
  env_today :: int
  env_phase_fields :: "task_db \<Rightarrow> task \<Rightarrow> pydict"
  env_requirements :: "task_db \<Rightarrow> task \<Rightarrow> pyval list"
  env_others :: "nat \<Rightarrow> task_db \<Rightarrow> task_db"

subsection \<open>Requests\<close>

record phase_assignment =
  pa_kind :: string
  pa_phase_id :: "int option"

record task_create =
  tc_parent_task_id :: "int option"
  tc_task_code :: "string option"
  tc_title :: string
  tc_description :: "string option"
  tc_task_type :: string
  tc_status :: string
  tc_priority :: string
  tc_assignee_id :: "int option"
  tc_reporter_id :: "int option"
  tc_start_date :: "int option"
  tc_due_date :: "int option"
  tc_actual_start_date :: "int option"
  tc_actual_end_date :: "int option"
  tc_progress_percent :: int
  tc_estimated_minutes :: "int option"
  tc_actual_minutes :: "int option"
  tc_estimated_basis :: string
  tc_actual_basis :: string
  tc_sort_order :: int
  tc_tags :: "string list"
  tc_phase_assignment :: "phase_assignment option"
  tc_requirement_id :: "int option"
  tc_relation_type :: string

record task_update =
  tu_version :: int
  tu_phase_assignment :: "phase_assignment patch"
  tu_estimated_basis :: "string patch"
  tu_actual_basis :: "string patch"
  tu_parent_task_id :: "int patch"
  tu_task_code :: "string patch"
  tu_title :: "string patch"
  tu_description :: "string patch"
  tu_task_type :: "string patch"
  tu_status :: "string patch"
  tu_priority :: "string patch"
  tu_assignee_id :: "int patch"
  tu_reporter_id :: "int patch"
  tu_start_date :: "int patch"
  tu_due_date :: "int patch"
  tu_actual_start_date :: "int patch"
  tu_actual_end_date :: "int patch"
  tu_progress_percent :: "int patch"
  tu_estimated_minutes :: "int patch"
  tu_actual_minutes :: "int patch"
  tu_sort_order :: "int patch"
  tu_tags :: "string list patch"
  tu_change_reason :: "string option"

record task_planning_update =
  tp_version :: int
  tp_assignee_id :: "int patch"
  tp_start_date :: "int patch"
  tp_due_date :: "int patch"
  tp_estimated_minutes :: "int patch"
  tp_change_reason :: "string option"

text \<open>The patch a value read from a row amounts to when it is written back.\<close>

definition patch_of :: "'a option \<Rightarrow> 'a patch" where
  "patch_of x = (case x of None \<Rightarrow> Null | Some v \<Rightarrow> Set v)"

text \<open>\<open>model_fields_set\<close>, without \<open>version\<close> and \<open>change_reason\<close>.\<close>

definition fields_set :: "task_update \<Rightarrow> string list" where
  "fields_set u = map fst (filter snd
     [(''phase_assignment'', is_set (tu_phase_assignment u)),
      (''estimated_basis'', is_set (tu_estimated_basis u)),
      (''actual_basis'', is_set (tu_actual_basis u)),
      (''parent_task_id'', is_set (tu_parent_task_id u)),
      (''task_code'', is_set (tu_task_code u)),
      (''title'', is_set (tu_title u)),
      (''description'', is_set (tu_description u)),
      (''task_type'', is_set (tu_task_type u)),
      (''status'', is_set (tu_status u)),
      (''priority'', is_set (tu_priority u)),
      (''assignee_id'', is_set (tu_assignee_id u)),
      (''reporter_id'', is_set (tu_reporter_id u)),
      (''start_date'', is_set (tu_start_date u)),
      (''due_date'', is_set (tu_due_date u)),
      (''actual_start_date'', is_set (tu_actual_start_date u)),
      (''actual_end_date'', is_set (tu_actual_end_date u)),
      (''progress_percent'', is_set (tu_progress_percent u)),
      (''estimated_minutes'', is_set (tu_estimated_minutes u)),
      (''actual_minutes'', is_set (tu_actual_minutes u)),
      (''sort_order'', is_set (tu_sort_order u)),
      (''tags'', is_set (tu_tags u))])"

definition planning_to_update :: "task_planning_update \<Rightarrow> task_update" where
  "planning_to_update p =
     \<lparr>tu_version = tp_version p, tu_phase_assignment = Unset, tu_estimated_basis = Unset,
      tu_actual_basis = Unset, tu_parent_task_id = Unset, tu_task_code = Unset, tu_title = Unset,
      tu_description = Unset, tu_task_type = Unset, tu_status = Unset, tu_priority = Unset,
      tu_assignee_id = tp_assignee_id p, tu_reporter_id = Unset, tu_start_date = tp_start_date p,
      tu_due_date = tp_due_date p, tu_actual_start_date = Unset, tu_actual_end_date = Unset,
      tu_progress_percent = Unset, tu_estimated_minutes = tp_estimated_minutes p,
      tu_actual_minutes = Unset, tu_sort_order = Unset, tu_tags = Unset,
      tu_change_reason = tp_change_reason p\<rparr>"

subsection \<open>Repositories\<close>

text \<open>
  The constraints of the \<open>tasks\<close> table an insert or update can violate: the code is unique in its
  project (over deleted rows too), the phase columns agree, a phase is one of the same project, and
  the bases are known.
\<close>

definition task_violation :: "task \<Rightarrow> task_db \<Rightarrow> bool" where
  "task_violation t db \<longleftrightarrow>
     (\<exists>x \<in> set (db_tasks db). tk_id x \<noteq> tk_id t \<and> tk_project_id x = tk_project_id t \<and>
                              tk_task_code x = tk_task_code t) \<or>
     \<not> ((tk_phase_scope t = ''phase'' \<and> tk_phase_id t \<noteq> None) \<or>
        (tk_phase_scope t \<in> {''unclassified'', ''shared''} \<and> tk_phase_id t = None)) \<or>
     (case tk_phase_id t of None \<Rightarrow> False
      | Some ph \<Rightarrow> \<not> (\<exists>p \<in> set (db_phases db). ph_id p = ph \<and> ph_project_id p = tk_project_id t)) \<or>
     \<not> (tk_estimated_basis t \<in> {''own'', ''rollup'', ''unreviewed''} \<and>
        tk_actual_basis t \<in> {''own'', ''rollup'', ''unreviewed''})"

definition new_task :: "time \<Rightarrow> int \<Rightarrow> int \<Rightarrow> task_create \<Rightarrow> string \<Rightarrow> int option \<Rightarrow> task" where
  "new_task now task_id project_id i code actor_id =
     \<lparr>tk_id = task_id, tk_project_id = project_id, tk_parent_task_id = tc_parent_task_id i,
      tk_phase_scope = (case tc_phase_assignment i of None \<Rightarrow> ''unclassified'' | Some a \<Rightarrow> pa_kind a),
      tk_phase_id = (case tc_phase_assignment i of None \<Rightarrow> None | Some a \<Rightarrow> pa_phase_id a),
      tk_estimated_basis = tc_estimated_basis i, tk_actual_basis = tc_actual_basis i,
      tk_task_code = code, tk_title = tc_title i, tk_description = tc_description i,
      tk_task_type = tc_task_type i, tk_status = tc_status i, tk_priority = tc_priority i,
      tk_assignee_id = tc_assignee_id i, tk_reporter_id = tc_reporter_id i,
      tk_start_date = tc_start_date i, tk_due_date = tc_due_date i,
      tk_actual_start_date = tc_actual_start_date i, tk_actual_end_date = tc_actual_end_date i,
      tk_progress_percent = tc_progress_percent i, tk_estimated_minutes = tc_estimated_minutes i,
      tk_actual_minutes = tc_actual_minutes i, tk_sort_order = tc_sort_order i, tk_tags = tc_tags i,
      tk_version = 1, tk_created_by = actor_id, tk_updated_by = actor_id, tk_created_at = now,
      tk_updated_at = now, tk_deleted_at = None\<rparr>"

definition task_create_row ::
  "time \<Rightarrow> int \<Rightarrow> task_create \<Rightarrow> string \<Rightarrow> int option \<Rightarrow> task_db \<Rightarrow> unit + task \<times> task_db" where
  "task_create_row now project_id i code actor_id db =
     (let n = db_seq db + 1;
          t = new_task now n project_id i code actor_id
      in if task_violation t db then Inl ()
         else Inr (t, db\<lparr>db_tasks := db_tasks db @ [t], db_seq := n\<rparr>))"

definition get_by_project_code :: "task_db \<Rightarrow> int \<Rightarrow> string \<Rightarrow> task option" where
  "get_by_project_code db project_id code =
     find (\<lambda>t. tk_project_id t = project_id \<and> tk_task_code t = code \<and> tk_deleted_at t = None)
       (db_tasks db)"

text \<open>The attribute assignments of \<open>TaskRepository.update\<close>; \<open>violates_not_null\<close> when one writes null.\<close>

definition task_update_row :: "time \<Rightarrow> int option \<Rightarrow> task_update \<Rightarrow> task \<Rightarrow> task" where
  "task_update_row now actor_id u t =
     t\<lparr>tk_parent_task_id := set_nullable (tu_parent_task_id u) (tk_parent_task_id t),
       tk_task_code := set_required (tu_task_code u) (tk_task_code t),
       tk_title := set_required (tu_title u) (tk_title t),
       tk_description := set_nullable (tu_description u) (tk_description t),
       tk_task_type := set_required (tu_task_type u) (tk_task_type t),
       tk_status := set_required (tu_status u) (tk_status t),
       tk_priority := set_required (tu_priority u) (tk_priority t),
       tk_assignee_id := set_nullable (tu_assignee_id u) (tk_assignee_id t),
       tk_reporter_id := set_nullable (tu_reporter_id u) (tk_reporter_id t),
       tk_start_date := set_nullable (tu_start_date u) (tk_start_date t),
       tk_due_date := set_nullable (tu_due_date u) (tk_due_date t),
       tk_actual_start_date := set_nullable (tu_actual_start_date u) (tk_actual_start_date t),
       tk_actual_end_date := set_nullable (tu_actual_end_date u) (tk_actual_end_date t),
       tk_progress_percent := set_required (tu_progress_percent u) (tk_progress_percent t),
       tk_estimated_minutes := set_nullable (tu_estimated_minutes u) (tk_estimated_minutes t),
       tk_actual_minutes := set_nullable (tu_actual_minutes u) (tk_actual_minutes t),
       tk_estimated_basis := set_required (tu_estimated_basis u) (tk_estimated_basis t),
       tk_actual_basis := set_required (tu_actual_basis u) (tk_actual_basis t),
       tk_sort_order := set_required (tu_sort_order u) (tk_sort_order t),
       tk_tags := set_required (tu_tags u) (tk_tags t),
       tk_phase_scope := (case tu_phase_assignment u of Unset \<Rightarrow> tk_phase_scope t
                          | Null \<Rightarrow> ''unclassified'' | Set a \<Rightarrow> pa_kind a),
       tk_phase_id := (case tu_phase_assignment u of Unset \<Rightarrow> tk_phase_id t
                       | Null \<Rightarrow> None | Set a \<Rightarrow> pa_phase_id a),
       tk_updated_by := actor_id, tk_version := tk_version t + 1, tk_updated_at := now\<rparr>"

definition violates_not_null :: "task_update \<Rightarrow> bool" where
  "violates_not_null u \<longleftrightarrow>
     tu_task_code u = Null \<or> tu_title u = Null \<or> tu_task_type u = Null \<or> tu_status u = Null \<or>
     tu_priority u = Null \<or> tu_progress_percent u = Null \<or> tu_sort_order u = Null \<or>
     tu_tags u = Null \<or> tu_estimated_basis u = Null \<or> tu_actual_basis u = Null"

definition task_repo_update ::
  "time \<Rightarrow> int option \<Rightarrow> task_update \<Rightarrow> task \<Rightarrow> task_db \<Rightarrow> unit + task \<times> task_db" where
  "task_repo_update now actor_id u t db =
     (let t' = task_update_row now actor_id u t in
      if violates_not_null u \<or> task_violation t' db then Inl ()
      else Inr (t', task_put t' db))"

definition task_repo_move ::
  "time \<Rightarrow> task \<Rightarrow> string \<Rightarrow> int \<Rightarrow> int option \<Rightarrow> task_db \<Rightarrow> task \<times> task_db" where
  "task_repo_move now t status sort_order actor_id db =
     (let t' = t\<lparr>tk_status := status, tk_sort_order := sort_order, tk_updated_by := actor_id,
                tk_version := tk_version t + 1, tk_updated_at := now\<rparr>
      in (t', task_put t' db))"

definition task_repo_soft_delete ::
  "time \<Rightarrow> task \<Rightarrow> int option \<Rightarrow> task_db \<Rightarrow> task \<times> task_db" where
  "task_repo_soft_delete now t actor_id db =
     (let t' = t\<lparr>tk_deleted_at := Some now, tk_updated_by := actor_id,
                tk_version := tk_version t + 1, tk_updated_at := now\<rparr>
      in (t', task_put t' db))"

definition list_ids_with_children :: "task_db \<Rightarrow> int list \<Rightarrow> int list" where
  "list_ids_with_children db task_ids =
     map tk_id (filter (\<lambda>t. tk_id t \<in> set task_ids \<and> tk_deleted_at t = None \<and>
         (\<exists>c \<in> set (db_tasks db). tk_parent_task_id c = Some (tk_id t) \<and>
            tk_project_id c = tk_project_id t \<and> tk_deleted_at c = None)) (db_tasks db))"

subsection \<open>Notifications, audit and history\<close>

definition notice_create_once :: "notice \<Rightarrow> task_db \<Rightarrow> task_db" where
  "notice_create_once n db =
     (if \<exists>m \<in> set (db_notices db). nt_event_key m = nt_event_key n \<and> nt_recipient m = nt_recipient n
      then db else db\<lparr>db_notices := db_notices db @ [n]\<rparr>)"

definition task_event_key :: "int \<Rightarrow> int \<Rightarrow> string \<Rightarrow> string" where
  "task_event_key target_id version kind =
     ''task:'' @ show_int target_id @ '':v'' @ show_int version @ '':'' @ kind"

text \<open>\<open>emit\<close> for a task: the recipients other than the actor that may read the project's tasks.\<close>

definition emit_notice ::
  "int list \<Rightarrow> int option \<Rightarrow> int \<Rightarrow> string \<Rightarrow> int \<Rightarrow> int \<Rightarrow> string \<Rightarrow> pydict \<Rightarrow> string option \<Rightarrow> task_db
   \<Rightarrow> task_db" where
  "emit_notice recipient_ids actor_id project_id kind target_id version title context excerpt db =
     (let recipients = filter (\<lambda>r. Some r \<noteq> actor_id) recipient_ids;
          eligible = filter (\<lambda>r. (project_id, r) \<in> set (db_readers db)) recipients
      in fold (\<lambda>r. notice_create_once
            \<lparr>nt_recipient = r, nt_type = kind, nt_actor = actor_id, nt_project_id = project_id,
             nt_target_type = ''task'', nt_target_id = target_id,
             nt_event_key = task_event_key target_id version kind, nt_title = title,
             nt_excerpt = (case excerpt of None \<Rightarrow> None
                           | Some e \<Rightarrow> if e = [] then None else Some (take 240 e)),
             nt_context = context\<rparr>) eligible db)"

definition assignment_changed ::
  "int \<Rightarrow> int option \<Rightarrow> int \<Rightarrow> int \<Rightarrow> int option \<Rightarrow> int option \<Rightarrow> string \<Rightarrow> task_db \<Rightarrow> task_db" where
  "assignment_changed project_id actor_id target_id version previous_user_id recipient_id title db =
     (case recipient_id of
        None \<Rightarrow> db
      | Some r \<Rightarrow> if recipient_id = previous_user_id then db
                  else emit_notice [r] actor_id project_id ''assigned'' target_id version title
                         [(''document_id'', PNone)] None db)"

definition record_task_audit ::
  "string \<Rightarrow> int option \<Rightarrow> int \<Rightarrow> int \<Rightarrow> pydict \<Rightarrow> task_db \<Rightarrow> task_db" where
  "record_task_audit event_type actor_id project_id resource_id metadata db =
     db\<lparr>db_audit := db_audit db @
        [\<lparr>au_event_type = event_type, au_actor_user_id = actor_id, au_project_id = project_id,
          au_resource_type = ''task'', au_resource_id = resource_id, au_metadata = metadata\<rparr>]\<rparr>"

subsection \<open>Checks\<close>

definition ensure_project_exists :: "task_db \<Rightarrow> int \<Rightarrow> app_error + unit" where
  "ensure_project_exists db project_id =
     raise_if (project_id \<notin> set (db_projects db)) (raise_msg NotFoundError ''PROJECT_NOT_FOUND'')"

definition get_requirement_project_id :: "task_db \<Rightarrow> int \<Rightarrow> app_error + int" where
  "get_requirement_project_id db requirement_id =
     some_or (raise_msg NotFoundError ''REQUIREMENT_NOT_FOUND'')
       (map_of (db_requirements db) requirement_id)"

definition ensure_requirement_in_project :: "task_db \<Rightarrow> int \<Rightarrow> int \<Rightarrow> app_error + unit" where
  "ensure_requirement_in_project db project_id requirement_id =
     ebind (get_requirement_project_id db requirement_id) (\<lambda>p.
     raise_if (p \<noteq> project_id) (raise_msg NotFoundError ''REQUIREMENT_NOT_FOUND''))"

text \<open>
  The \<open>while\<close> loop of \<open>_creates_parent_cycle\<close>: each round visits a task not visited before, and a
  task without a row ends it.
\<close>

function parent_walk :: "task_db \<Rightarrow> int \<Rightarrow> int option \<Rightarrow> int set \<Rightarrow> bool" where
  "parent_walk db task_id None visited = False"
| "parent_walk db task_id (Some current) visited =
     (if current = task_id then True
      else if current \<in> visited then True
      else parent_walk db task_id
             (case task_get_by_id db current of None \<Rightarrow> None | Some parent \<Rightarrow> tk_parent_task_id parent)
             (insert current visited))"
  by pat_completeness auto

termination parent_walk
proof (relation "measures [\<lambda>(db, k, c, visited). card (tk_id ` set (db_tasks db) - visited),
                           \<lambda>(db, k, c, visited). case c of None \<Rightarrow> 0 | Some _ \<Rightarrow> 1]")
  fix db :: task_db and k c :: int and visited :: "int set"
  assume new: "c \<notin> visited"
  let ?ids = "tk_id ` set (db_tasks db)"
  show "((db, k, (case task_get_by_id db c of None \<Rightarrow> None | Some p \<Rightarrow> tk_parent_task_id p),
          insert c visited), db, k, Some c, visited)
        \<in> measures [\<lambda>(db, k, c, visited). card (tk_id ` set (db_tasks db) - visited),
                    \<lambda>(db, k, c, visited). case c of None \<Rightarrow> 0 | Some _ \<Rightarrow> 1]"
  proof (cases "task_get_by_id db c")
    case None
    have "card (?ids - insert c visited) \<le> card (?ids - visited)"
      by (rule card_mono) auto
    with None show ?thesis by (simp add: order.order_iff_strict)
  next
    case (Some t)
    then have "c \<in> ?ids" by (auto dest: task_get_by_idD)
    from unvisited_shrinks [OF new this] show ?thesis by simp
  qed
qed simp

definition creates_parent_cycle :: "task_db \<Rightarrow> int \<Rightarrow> int \<Rightarrow> bool" where
  "creates_parent_cycle db task_id parent_task_id = parent_walk db task_id (Some parent_task_id) {}"

definition validate_parent_task :: "task_db \<Rightarrow> int \<Rightarrow> int option \<Rightarrow> int option \<Rightarrow> app_error + unit" where
  "validate_parent_task db project_id parent_task_id task_id =
     (case parent_task_id of
        None \<Rightarrow> Inr ()
      | Some p \<Rightarrow>
          ebind (raise_if (task_id = Some p) (raise_msg BadRequestError ''TASK_PARENT_SELF_REFERENCE'')) (\<lambda>_.
          ebind (raise_if (case task_get_by_id db p of None \<Rightarrow> True
                           | Some parent \<Rightarrow> tk_project_id parent \<noteq> project_id)
                   (raise_msg NotFoundError ''TASK_PARENT_NOT_FOUND'')) (\<lambda>_.
          raise_if (case task_id of None \<Rightarrow> False | Some k \<Rightarrow> creates_parent_cycle db k p)
            (raise_msg BadRequestError ''TASK_PARENT_CYCLE''))))"

definition validate_task_state :: "string \<Rightarrow> int \<Rightarrow> app_error + unit" where
  "validate_task_state status progress_percent =
     raise_if (status = ''done'' \<and> progress_percent \<noteq> 100)
       (raise_msg BadRequestError ''TASK_DONE_PROGRESS_INVALID'')"

definition standard_task_types :: "string list" where
  "standard_task_types =
     [''other'', ''bug'', ''frontend'', ''backend'', ''database'', ''infrastructure'', ''security'',
      ''test'', ''review'', ''investigation'', ''documentation'']"

definition legacy_keys :: "task_db \<Rightarrow> int \<Rightarrow> string list" where
  "legacy_keys db project_id =
     map tk_task_type (filter (\<lambda>t. tk_project_id t = project_id \<and> tk_deleted_at t = None) (db_tasks db))"

definition task_type_get :: "task_db \<Rightarrow> int \<Rightarrow> string \<Rightarrow> task_type_row option" where
  "task_type_get db project_id key =
     find (\<lambda>r. ty_project_id r = project_id \<and> ty_key r = key) (db_task_types db)"

definition validate_task_type :: "task_db \<Rightarrow> int \<Rightarrow> string \<Rightarrow> app_error + unit" where
  "validate_task_type db project_id key =
     (if key \<in> set standard_task_types then Inr ()
      else (case task_type_get db project_id key of
              None \<Rightarrow> raise_if (key \<notin> set (legacy_keys db project_id))
                        (raise_msg BadRequestError ''TASK_TYPE_UNAVAILABLE'')
            | Some row \<Rightarrow> raise_if (\<not> ty_is_active row)
                            (raise_msg BadRequestError ''TASK_TYPE_UNAVAILABLE'')))"

definition phase_get :: "task_db \<Rightarrow> int \<Rightarrow> int \<Rightarrow> task_phase option" where
  "phase_get db project_id phase_id =
     find (\<lambda>p. ph_id p = phase_id \<and> ph_project_id p = project_id) (db_phases db)"

definition validate_assignment ::
  "task_db \<Rightarrow> int \<Rightarrow> phase_assignment option \<Rightarrow> int option \<Rightarrow> app_error + unit" where
  "validate_assignment db project_id assignment current_phase_id =
     (case assignment of
        None \<Rightarrow> Inr ()
      | Some a \<Rightarrow> (case pa_phase_id a of
          None \<Rightarrow> Inr ()
        | Some ph \<Rightarrow>
            ebind (some_or (raise_msg NotFoundError ''TASK_PHASE_NOT_FOUND'') (phase_get db project_id ph)) (\<lambda>phase.
            raise_if (ph_archived_at phase \<noteq> None \<and> current_phase_id \<noteq> Some (ph_id phase))
              (raise_msg BadRequestError ''TASK_PHASE_ARCHIVED''))))"

record date_normalization =
  dn_progress_percent :: int
  dn_actual_start_date :: "int option"
  dn_actual_end_date :: "int option"

definition normalize_task_dates ::
  "int \<Rightarrow> string \<Rightarrow> int \<Rightarrow> int option \<Rightarrow> int option \<Rightarrow> date_normalization" where
  "normalize_task_dates today status progress_percent actual_start_date actual_end_date =
     \<lparr>dn_progress_percent = (if status = ''done'' then 100 else progress_percent),
      dn_actual_start_date =
        (if status = ''in_progress'' \<and> actual_start_date = None then Some today else actual_start_date),
      dn_actual_end_date =
        (if status = ''done'' \<and> actual_end_date = None then Some today else actual_end_date)\<rparr>"

definition is_active_member :: "task_db \<Rightarrow> int \<Rightarrow> int \<Rightarrow> bool" where
  "is_active_member db project_id user_id \<longleftrightarrow> (project_id, user_id) \<in> set (db_members db)"

definition validate_planning_update :: "task_db \<Rightarrow> task \<Rightarrow> task_update \<Rightarrow> app_error + unit" where
  "validate_planning_update db t u =
     ebind (raise_if
       ((is_set (tu_start_date u) \<or> is_set (tu_due_date u)) \<and>
        (case (set_nullable (tu_start_date u) (tk_start_date t), set_nullable (tu_due_date u) (tk_due_date t)) of
           (Some s, Some d) \<Rightarrow> d < s | _ \<Rightarrow> False))
       (raise_msg BadRequestError ''TASK_PLANNING_DATES_INVALID'')) (\<lambda>_.
     raise_if
       (case tu_assignee_id u of
          Set a \<Rightarrow> Some a \<noteq> tk_assignee_id t \<and> \<not> is_active_member db (tk_project_id t) a
        | _ \<Rightarrow> False)
       (raise_msg BadRequestError ''TASK_PLANNING_ASSIGNEE_INVALID''))"

subsection \<open>The parent walk decides reachability\<close>

text \<open>The parent edges between undeleted tasks.\<close>

definition parent_edges :: "task_db \<Rightarrow> (int \<times> int) set" where
  "parent_edges db = {(c, p). \<exists>t. task_get_by_id db c = Some t \<and> tk_parent_task_id t = Some p \<and>
                                  task_get_by_id db p \<noteq> None}"

definition next_parent :: "task_db \<Rightarrow> int \<Rightarrow> int option" where
  "next_parent db c =
     (case task_get_by_id db c of None \<Rightarrow> None | Some t \<Rightarrow> tk_parent_task_id t)"

lemma parent_edges_iff:
  "(c, p) \<in> parent_edges db \<longleftrightarrow> next_parent db c = Some p \<and> task_get_by_id db p \<noteq> None"
  by (auto simp: parent_edges_def next_parent_def split: option.splits)

lemma parent_walk_Some:
  "parent_walk db k (Some c) V \<longleftrightarrow>
     c = k \<or> c \<in> V \<or> parent_walk db k (next_parent db c) (insert c V)"
  by (simp add: next_parent_def)

declare parent_walk.simps(2) [simp del]

lemma parent_edges_functional: "(c, p) \<in> parent_edges db \<Longrightarrow> (c, q) \<in> parent_edges db \<Longrightarrow> p = q"
  by (simp add: parent_edges_iff)

lemma parent_edges_from: "(c, p) \<in> (parent_edges db)\<^sup>+ \<Longrightarrow> task_get_by_id db c \<noteq> None"
  by (drule tranclD) (auto simp: parent_edges_def)

text \<open>
  The walk from an undeleted task answers true when the target is an ancestor; otherwise only a
  cycle among the undeleted tasks can make it answer true.
\<close>

lemma parent_walk_complete:
  assumes "(c, k) \<in> (parent_edges db)\<^sup>*"
  shows "parent_walk db k (Some c) V"
  using assms
proof (induction arbitrary: V rule: converse_rtrancl_induct)
  case base
  show ?case by (simp add: parent_walk_Some)
next
  case (step c p)
  then show ?case by (simp add: parent_walk_Some [of db k c] parent_edges_iff)
qed

lemma parent_walk_sound:
  assumes "parent_walk db k (Some c) V" and "task_get_by_id db k \<noteq> None" and "task_get_by_id db c \<noteq> None"
    and "\<And>v. v \<in> V \<Longrightarrow> (v, c) \<in> (parent_edges db)\<^sup>+" and "acyclic (parent_edges db)"
  shows "(c, k) \<in> (parent_edges db)\<^sup>*"
  using assms
proof (induction db k "Some c" V arbitrary: c rule: parent_walk.induct)
  case (2 db k c V)
  have "c \<notin> V" using "2.prems"(4,5) by (auto simp: acyclic_def)
  show ?case
  proof (cases "c = k")
    case False
    with "2.prems"(1) \<open>c \<notin> V\<close> have walk: "parent_walk db k (next_parent db c) (insert c V)"
      by (simp add: parent_walk_Some)
    then obtain p where p: "next_parent db c = Some p"
      by (cases "next_parent db c") auto
    with walk have walk_p: "parent_walk db k (Some p) (insert c V)" by simp
    show ?thesis
    proof (cases "task_get_by_id db p")
      case None
      with "2.prems"(2) have "p \<noteq> k" by auto
      from None "2.prems"(3) parent_edges_from "2.prems"(4) have "p \<notin> insert c V" by blast
      with walk_p \<open>p \<noteq> k\<close> None show ?thesis
        by (simp add: parent_walk_Some next_parent_def)
    next
      case (Some q)
      with p have e: "(c, p) \<in> parent_edges db" by (simp add: parent_edges_iff)
      have "(p, k) \<in> (parent_edges db)\<^sup>*"
      proof (rule "2.hyps")
        show "v \<in> insert c V \<Longrightarrow> (v, p) \<in> (parent_edges db)\<^sup>+" for v
          using e "2.prems"(4) by (auto intro: trancl.trancl_into_trancl)
      qed (use False \<open>c \<notin> V\<close> p walk_p "2.prems" Some in \<open>simp_all add: next_parent_def split: option.splits\<close>)
      with e show ?thesis by (rule converse_rtrancl_into_rtrancl)
    qed
  qed simp
qed

lemma creates_parent_cycle_iff:
  assumes "acyclic (parent_edges db)" and "task_get_by_id db k \<noteq> None" and "task_get_by_id db p \<noteq> None"
  shows "creates_parent_cycle db k p \<longleftrightarrow> (p, k) \<in> (parent_edges db)\<^sup>*"
  using parent_walk_sound [of db k p "{}"] parent_walk_complete [of p k db "{}"] assms
  by (auto simp: creates_parent_cycle_def)

end
