(* ===== verification/Task_Service.thy ===== *)
theory Task_Service imports Task_Items begin

text \<open>
  The operations of \<open>TaskService\<close> (\<^verbatim>\<open>app/services/task.py\<close>): create with automatic numbering and
  retry, update with optimistic locking, planning update, delete, requirement relations and the
  progress of a requirement; then the invariant of the task table, what every accepted update
  leaves behind, and the concrete instances.

  An operation that can fail after a commit returns its result beside the database
  (\<open>(app_error + 'a) \<times> task_db\<close>); one that fails only before its first commit returns
  \<open>app_error + 'a \<times> task_db\<close>, where an error leaves the database as it was.
\<close>

subsection \<open>Snapshots and the conflict body\<close>

definition task_field :: "task_db \<Rightarrow> task \<Rightarrow> string \<Rightarrow> pyval" where
  "task_field db t f =
     (if f = ''phase_assignment'' then
        PDict [(''kind'', PStr (tk_phase_scope t)), (''phase_id'', py_opt_int (tk_phase_id t)),
               (''name'', case tk_phase_id t of None \<Rightarrow> PNone
                          | Some i \<Rightarrow> py_opt_str (map_option ph_name (tget ph_id i (db_phases db))))]
      else if f = ''estimated_basis'' then PStr (tk_estimated_basis t)
      else if f = ''actual_basis'' then PStr (tk_actual_basis t)
      else if f = ''parent_task_id'' then py_opt_int (tk_parent_task_id t)
      else if f = ''task_code'' then PStr (tk_task_code t)
      else if f = ''title'' then PStr (tk_title t)
      else if f = ''description'' then py_opt_str (tk_description t)
      else if f = ''task_type'' then PStr (tk_task_type t)
      else if f = ''status'' then PStr (tk_status t)
      else if f = ''priority'' then PStr (tk_priority t)
      else if f = ''assignee_id'' then py_opt_int (tk_assignee_id t)
      else if f = ''reporter_id'' then py_opt_int (tk_reporter_id t)
      else if f = ''start_date'' then py_opt_int (tk_start_date t)
      else if f = ''due_date'' then py_opt_int (tk_due_date t)
      else if f = ''actual_start_date'' then py_opt_int (tk_actual_start_date t)
      else if f = ''actual_end_date'' then py_opt_int (tk_actual_end_date t)
      else if f = ''progress_percent'' then PInt (tk_progress_percent t)
      else if f = ''estimated_minutes'' then py_opt_int (tk_estimated_minutes t)
      else if f = ''actual_minutes'' then py_opt_int (tk_actual_minutes t)
      else if f = ''sort_order'' then PInt (tk_sort_order t)
      else if f = ''tags'' then PList (map PStr (tk_tags t))
      else PNone)"

definition snapshot_fields :: "string list" where
  "snapshot_fields =
     [''phase_assignment'', ''estimated_basis'', ''actual_basis'', ''parent_task_id'', ''task_code'',
      ''title'', ''description'', ''task_type'', ''status'', ''priority'', ''assignee_id'',
      ''reporter_id'', ''start_date'', ''due_date'', ''actual_start_date'', ''actual_end_date'',
      ''progress_percent'', ''estimated_minutes'', ''actual_minutes'', ''sort_order'', ''tags'']"

definition task_snapshot :: "task_db \<Rightarrow> task \<Rightarrow> pydict" where
  "task_snapshot db t = map (\<lambda>f. (f, task_field db t f)) snapshot_fields"

definition is_overdue :: "int \<Rightarrow> task \<Rightarrow> bool" where
  "is_overdue today t \<longleftrightarrow>
     (case tk_due_date t of None \<Rightarrow> False | Some d \<Rightarrow> d < today) \<and>
     tk_status t \<notin> {''done'', ''cancelled''}"

definition build_task_conflict_current :: "task_env \<Rightarrow> task_db \<Rightarrow> task \<Rightarrow> pydict" where
  "build_task_conflict_current env db t =
     dupdate (env_phase_fields env db t)
       (map (\<lambda>f. (f, task_field db t f))
          [''parent_task_id'', ''task_code'', ''title'', ''description'', ''task_type'', ''status'',
           ''priority'', ''assignee_id'', ''reporter_id'', ''start_date'', ''due_date'',
           ''actual_start_date'', ''actual_end_date'', ''progress_percent'', ''estimated_minutes'',
           ''actual_minutes'', ''sort_order'', ''tags''] @
        [(''id'', PInt (tk_id t)), (''project_id'', PInt (tk_project_id t)),
         (''version'', PInt (tk_version t)), (''created_by'', py_opt_int (tk_created_by t)),
         (''updated_by'', py_opt_int (tk_updated_by t)), (''created_at'', PInt (tk_created_at t)),
         (''updated_at'', PInt (tk_updated_at t)),
         (''is_overdue'', PBool (is_overdue (env_today env) t)),
         (''is_blocked'', PBool (tk_id t \<in> set (blocked_task_ids db [tk_id t]))),
         (''has_children'', PBool (tk_id t \<in> set (list_ids_with_children db [tk_id t]))),
         (''requirements'', PList (env_requirements env db t))])"

subsection \<open>Requirement relations\<close>

definition relation_create ::
  "time \<Rightarrow> int \<Rightarrow> int \<Rightarrow> string \<Rightarrow> int option \<Rightarrow> task_db \<Rightarrow> unit + task_relation \<times> task_db" where
  "relation_create now requirement_id task_id relation_type actor_id db =
     (if \<exists>r \<in> set (db_relations db). rl_requirement_id r = requirement_id \<and> rl_task_id r = task_id \<and>
                                    rl_relation_type r = relation_type
      then Inl ()
      else let i = db_seq db + 1;
               r = \<lparr>rl_id = i, rl_requirement_id = requirement_id, rl_task_id = task_id,
                    rl_relation_type = relation_type, rl_created_by = actor_id, rl_created_at = now\<rparr>
           in Inr (r, db\<lparr>db_relations := db_relations db @ [r], db_seq := i\<rparr>))"

definition create_requirement_task_relation ::
  "time \<Rightarrow> int \<Rightarrow> int \<Rightarrow> string \<Rightarrow> int option \<Rightarrow> task_db \<Rightarrow> app_error + task_relation \<times> task_db" where
  "create_requirement_task_relation now requirement_id task_id relation_type actor_id db =
     ebind (get_requirement_project_id db requirement_id) (\<lambda>project_id.
     ebind (get_task db task_id) (\<lambda>t.
     ebind (raise_if (tk_project_id t \<noteq> project_id) (raise_msg NotFoundError ''TASK_NOT_FOUND'')) (\<lambda>_.
     ebind (raise_duplicate_after_rollback ''DUPLICATE_RESOURCE''
              (relation_create now requirement_id task_id relation_type actor_id db)) (\<lambda>(r, db1).
     Inr (r, change_log_create now project_id ''relation'' (rl_id r) ''relation.created'' None None
               (Some [(''requirement_id'', PInt requirement_id), (''task_id'', PInt task_id),
                      (''relation_type'', PStr relation_type)]) None actor_id db1)))))"

definition delete_requirement_task_relation ::
  "time \<Rightarrow> int \<Rightarrow> int \<Rightarrow> int option \<Rightarrow> task_db \<Rightarrow> app_error + task_db" where
  "delete_requirement_task_relation now requirement_id relation_id actor_id db =
     ebind (get_requirement_project_id db requirement_id) (\<lambda>project_id.
     case tget rl_id relation_id (db_relations db) of
       None \<Rightarrow> Inl (raise_msg NotFoundError ''TASK_RELATION_NOT_FOUND'')
     | Some r \<Rightarrow>
         ebind (raise_if (rl_requirement_id r \<noteq> requirement_id)
                  (raise_msg NotFoundError ''TASK_RELATION_NOT_FOUND'')) (\<lambda>_.
         Inr (change_log_create now project_id ''relation'' relation_id ''relation.deleted'' None
                (Some [(''task_id'', PInt (rl_task_id r))]) None None actor_id
                (db\<lparr>db_relations := tdel rl_id relation_id (db_relations db)\<rparr>))))"

text \<open>
  A task related twice comes once: the ORM's \<open>Query.all\<close> keeps one entity per row of \<open>tasks\<close>.
\<close>

definition list_tasks_by_requirement :: "task_db \<Rightarrow> int \<Rightarrow> task list" where
  "list_tasks_by_requirement db requirement_id =
     sort_key tk_sort_order (sort_key tk_id
       (filter (\<lambda>t. tk_deleted_at t = None \<and>
                    (\<exists>r \<in> set (db_relations db). rl_requirement_id r = requirement_id \<and>
                                                rl_task_id r = tk_id t)) (db_tasks db)))"

subsection \<open>Creating a task\<close>

definition created_task_logged ::
  "task_env \<Rightarrow> int \<Rightarrow> int option \<Rightarrow> task \<Rightarrow> task_db \<Rightarrow> task_db" where
  "created_task_logged env project_id actor_id t db =
     record_task_audit ''task.created'' actor_id project_id (tk_id t)
       [(''task_code'', PStr (tk_task_code t))]
       (change_log_create (env_now env) project_id ''task'' (tk_id t) ''created'' None None
          (Some [(''task_code'', PStr (tk_task_code t)), (''title'', PStr (tk_title t))]) None actor_id
          (assignment_changed project_id actor_id (tk_id t) (tk_version t) None (tk_assignee_id t)
             (tk_title t) db))"

text \<open>The rounds of the retry loop: \<open>n\<close> are left, \<open>attempt\<close> are done.\<close>

fun create_attempts ::
  "task_env \<Rightarrow> int \<Rightarrow> task_create \<Rightarrow> string option \<Rightarrow> int option \<Rightarrow> nat \<Rightarrow> nat \<Rightarrow> task_db
   \<Rightarrow> (app_error + task) \<times> task_db" where
  "create_attempts env project_id i requested actor_id 0 attempt db =
     (Inl (raise_msg DuplicateResourceError ''TASK_CODE_ALREADY_EXISTS''), db)"
| "create_attempts env project_id i requested actor_id (Suc n) attempt db =
     (case ebind (validate_assignment db project_id (tc_phase_assignment i) None) (\<lambda>_.
             case requested of Some code \<Rightarrow> Inr code | None \<Rightarrow> generate_task_code db project_id) of
        Inl e \<Rightarrow> (Inl e, db)
      | Inr code \<Rightarrow>
          (let db1 = env_others env attempt db in
           case task_create_row (env_now env) project_id i code actor_id db1 of
             Inl _ \<Rightarrow>
               (if requested \<noteq> None \<or> n = 0
                then (Inl (raise_msg DuplicateResourceError ''TASK_CODE_ALREADY_EXISTS''), db1)
                else create_attempts env project_id i requested actor_id n (attempt + 1) db1)
           | Inr (t, db2) \<Rightarrow>
               (let db3 = created_task_logged env project_id actor_id t db2 in
                case tc_requirement_id i of
                  None \<Rightarrow> (Inr t, db3)
                | Some r \<Rightarrow>
                    (case create_requirement_task_relation (env_now env) r (tk_id t)
                            (tc_relation_type i) actor_id db3 of
                       Inl e \<Rightarrow> (Inl e, db3)
                     | Inr (_, db4) \<Rightarrow> (Inr t, db4)))))"

definition auto_task_code_retry_limit :: nat where
  "auto_task_code_retry_limit = 5"

definition create_task_checks :: "int \<Rightarrow> task_create \<Rightarrow> task_db \<Rightarrow> app_error + unit" where
  "create_task_checks project_id i db =
     ebind (ensure_project_exists db project_id) (\<lambda>_.
     ebind (validate_parent_task db project_id (tc_parent_task_id i) None) (\<lambda>_.
     ebind (validate_task_state (tc_status i) (tc_progress_percent i)) (\<lambda>_.
     ebind (raise_if (tc_status i = ''returned'') (raise_msg BadRequestError ''TASK_RETURN_CREATE_INVALID'')) (\<lambda>_.
     ebind (validate_task_type db project_id (tc_task_type i)) (\<lambda>_.
     ebind (case tc_requirement_id i of None \<Rightarrow> Inr ()
            | Some r \<Rightarrow> ensure_requirement_in_project db project_id r) (\<lambda>_.
     raise_if (case normalize_task_code (tc_task_code i) of None \<Rightarrow> False
               | Some code \<Rightarrow> get_by_project_code db project_id code \<noteq> None)
       (raise_msg DuplicateResourceError ''TASK_CODE_ALREADY_EXISTS'')))))))"

definition normalized_create :: "int \<Rightarrow> task_create \<Rightarrow> task_create" where
  "normalized_create today i =
     (let nd = normalize_task_dates today (tc_status i) (tc_progress_percent i)
                 (tc_actual_start_date i) (tc_actual_end_date i)
      in i\<lparr>tc_progress_percent := dn_progress_percent nd,
           tc_actual_start_date := dn_actual_start_date nd,
           tc_actual_end_date := dn_actual_end_date nd\<rparr>)"

definition create_task ::
  "task_env \<Rightarrow> int \<Rightarrow> task_create \<Rightarrow> int option \<Rightarrow> task_db \<Rightarrow> (app_error + task) \<times> task_db" where
  "create_task env project_id i actor_id db =
     (case create_task_checks project_id i db of
        Inl e \<Rightarrow> (Inl e, db)
      | Inr _ \<Rightarrow>
          (let requested = normalize_task_code (tc_task_code i) in
           create_attempts env project_id (normalized_create (env_today env) i) requested actor_id
             (if requested \<noteq> None then 1 else auto_task_code_retry_limit) 0 db))"

definition create_requirement_task ::
  "task_env \<Rightarrow> int \<Rightarrow> task_create \<Rightarrow> int option \<Rightarrow> task_db \<Rightarrow> (app_error + task) \<times> task_db" where
  "create_requirement_task env requirement_id i actor_id db =
     (case get_requirement_project_id db requirement_id of
        Inl e \<Rightarrow> (Inl e, db)
      | Inr project_id \<Rightarrow> create_task env project_id (i\<lparr>tc_requirement_id := Some requirement_id\<rparr>) actor_id db)"

subsection \<open>Updating a task\<close>

definition task_action_fields :: "(string \<times> string) list" where
  "task_action_fields =
     [(''status'', ''status.changed''), (''assignee_id'', ''assignee.changed''),
      (''start_date'', ''schedule.changed''), (''due_date'', ''schedule.changed''),
      (''actual_start_date'', ''schedule.changed''), (''actual_end_date'', ''schedule.changed''),
      (''progress_percent'', ''progress.changed'')]"

definition record_task_update_logs ::
  "time \<Rightarrow> task \<Rightarrow> pydict \<Rightarrow> pydict \<Rightarrow> string list \<Rightarrow> string option \<Rightarrow> int option \<Rightarrow> task_db \<Rightarrow> task_db" where
  "record_task_update_logs now t old_values new_values updated_fields reason actor_id db =
     (case build_update_change_log_entry updated_fields old_values new_values ''updated'' task_action_fields of
        None \<Rightarrow> db
      | Some e \<Rightarrow> change_log_create now (tk_project_id t) ''task'' (tk_id t) (cl_action e) (cl_field_name e)
                    (cl_old_value e) (cl_new_value e) reason actor_id db)"

definition normalize_code_patch :: "task \<Rightarrow> task_update \<Rightarrow> task_update" where
  "normalize_code_patch t u =
     (if is_set (tu_task_code u)
      then u\<lparr>tu_task_code := Set (case normalize_task_code (patch_value (tu_task_code u)) of
                                  None \<Rightarrow> tk_task_code t | Some c \<Rightarrow> c)\<rparr>
      else u)"

definition next_status :: "task \<Rightarrow> task_update \<Rightarrow> string" where
  "next_status t u = (case patch_value (tu_status u) of None \<Rightarrow> tk_status t | Some s \<Rightarrow> s)"

definition next_progress :: "task \<Rightarrow> task_update \<Rightarrow> int" where
  "next_progress t u =
     (case patch_value (tu_progress_percent u) of None \<Rightarrow> tk_progress_percent t | Some p \<Rightarrow> p)"

definition is_returning :: "task \<Rightarrow> task_update \<Rightarrow> bool" where
  "is_returning t u \<longleftrightarrow> next_status t u = ''returned'' \<and> tk_status t \<noteq> ''returned''"

text \<open>The checks of \<open>_update_task\<close> after the version, in the code's order.\<close>

definition update_task_checks :: "bool \<Rightarrow> task \<Rightarrow> task_update \<Rightarrow> task_db \<Rightarrow> app_error + task_update" where
  "update_task_checks planning_only t u0 db =
     ebind (if planning_only then validate_planning_update db t u0 else Inr ()) (\<lambda>_.
     ebind (raise_if (tk_task_type t = ''bug'' \<and>
                      (case patch_value (tu_task_type u0) of None \<Rightarrow> False | Some ty \<Rightarrow> ty \<noteq> ''bug'') \<and>
                      tk_id t \<in> set (db_test_issues db))
              (raise_msg BadRequestError ''BUG_TASK_HAS_TEST_CASES'')) (\<lambda>_.
     let u = normalize_code_patch t u0 in
     ebind (if is_set (tu_parent_task_id u)
            then validate_parent_task db (tk_project_id t) (patch_value (tu_parent_task_id u)) (Some (tk_id t))
            else Inr ()) (\<lambda>_.
     ebind (raise_if (case patch_value (tu_task_code u) of None \<Rightarrow> False
                      | Some c \<Rightarrow> c \<noteq> tk_task_code t \<and> get_by_project_code db (tk_project_id t) c \<noteq> None)
              (raise_msg DuplicateResourceError ''TASK_CODE_ALREADY_EXISTS'')) (\<lambda>_.
     ebind (raise_if (is_returning t u \<and>
                      py_strip (case tu_change_reason u of None \<Rightarrow> [] | Some r \<Rightarrow> r) = [])
              (raise_msg BadRequestError ''TASK_RETURN_REASON_REQUIRED'')) (\<lambda>_.
     ebind (case patch_value (tu_task_type u) of None \<Rightarrow> Inr ()
            | Some ty \<Rightarrow> if ty \<noteq> tk_task_type t then validate_task_type db (tk_project_id t) ty else Inr ()) (\<lambda>_.
     ebind (if planning_only then Inr () else validate_task_state (next_status t u) (next_progress t u)) (\<lambda>_.
     ebind (if is_set (tu_phase_assignment u)
            then validate_assignment db (tk_project_id t) (patch_value (tu_phase_assignment u)) (tk_phase_id t)
            else Inr ()) (\<lambda>_. Inr u))))))))"

definition normalized_update :: "int \<Rightarrow> bool \<Rightarrow> task \<Rightarrow> task_update \<Rightarrow> task_update" where
  "normalized_update today planning_only t u =
     (let nd = normalize_task_dates today (next_status t u) (next_progress t u)
                 (set_nullable (tu_actual_start_date u) (tk_actual_start_date t))
                 (set_nullable (tu_actual_end_date u) (tk_actual_end_date t));
          normalized =
            (if \<not> planning_only \<and>
                (is_set (tu_status u) \<or> is_set (tu_progress_percent u) \<or> is_set (tu_actual_start_date u) \<or>
                 is_set (tu_actual_end_date u) \<or> is_set (tu_actual_minutes u))
             then u\<lparr>tu_progress_percent := Set (dn_progress_percent nd),
                    tu_actual_start_date := patch_of (dn_actual_start_date nd),
                    tu_actual_end_date := patch_of (dn_actual_end_date nd)\<rparr>
             else u)
      in if set (fields_set u) \<subseteq> {''phase_assignment'', ''estimated_basis'', ''actual_basis''} then u
         else normalized)"

text \<open>What follows the write: the notifications, the history entry and the audit event.\<close>

definition updated_task_logged ::
  "task_env \<Rightarrow> task_update \<Rightarrow> int option \<Rightarrow> bool \<Rightarrow> pydict \<Rightarrow> task \<Rightarrow> task \<Rightarrow> task_db \<Rightarrow> task_db" where
  "updated_task_logged env u actor_id returning before_snapshot t0 t db =
     (let db1 = (case (returning, tk_assignee_id t) of
                   (True, Some r) \<Rightarrow>
                     emit_notice [r] actor_id (tk_project_id t) ''task_returned'' (tk_id t) (tk_version t)
                       (tk_title t) [(''task_id'', PInt (tk_id t))] (tu_change_reason u) db
                 | _ \<Rightarrow> db);
          db2 = assignment_changed (tk_project_id t) actor_id (tk_id t) (tk_version t)
                  (tk_assignee_id t0) (tk_assignee_id t) (tk_title t) db1
      in case build_changed_field_snapshots before_snapshot (task_snapshot db2 t) (fields_set u) of
           (updated_fields, old_values, new_values) \<Rightarrow>
             (if updated_fields = [] then db2
              else record_task_audit ''task.updated'' actor_id (tk_project_id t) (tk_id t)
                     [(''updated_fields'', PList (map PStr updated_fields))]
                     (record_task_update_logs (env_now env) t old_values new_values updated_fields
                        (tu_change_reason u) actor_id db2)))"

definition update_task_common ::
  "task_env \<Rightarrow> bool \<Rightarrow> int \<Rightarrow> task_update \<Rightarrow> int option \<Rightarrow> task_db \<Rightarrow> app_error + task \<times> task_db" where
  "update_task_common env planning_only task_id u0 actor_id db =
     ebind (get_task db task_id) (\<lambda>t.
     ebind (raise_if_version_conflict (tk_version t) (tu_version u0)
              (build_task_conflict_current env db t)) (\<lambda>_.
     ebind (update_task_checks planning_only t u0 db) (\<lambda>u.
     ebind (raise_duplicate_after_rollback ''TASK_CODE_ALREADY_EXISTS''
              (task_repo_update (env_now env) actor_id
                 (normalized_update (env_today env) planning_only t u) t db)) (\<lambda>(t', db1).
     Inr (t', updated_task_logged env u actor_id (is_returning t u) (task_snapshot db t) t t' db1)))))"

definition update_task ::
  "task_env \<Rightarrow> int \<Rightarrow> task_update \<Rightarrow> int option \<Rightarrow> task_db \<Rightarrow> app_error + task \<times> task_db" where
  "update_task env = update_task_common env False"

definition update_task_planning ::
  "task_env \<Rightarrow> int \<Rightarrow> task_planning_update \<Rightarrow> int option \<Rightarrow> task_db \<Rightarrow> app_error + task \<times> task_db" where
  "update_task_planning env task_id p = update_task_common env True task_id (planning_to_update p)"

definition delete_task ::
  "task_env \<Rightarrow> int \<Rightarrow> int option \<Rightarrow> task_db \<Rightarrow> app_error + task_db" where
  "delete_task env task_id actor_id db =
     ebind (get_task db task_id) (\<lambda>t.
     (case task_repo_soft_delete (env_now env) t actor_id db of
        (t', db1) \<Rightarrow>
          Inr (record_task_audit ''task.deleted'' actor_id (tk_project_id t') (tk_id t')
                 [(''task_code'', PStr (tk_task_code t'))]
                 (change_log_create (env_now env) (tk_project_id t') ''task'' (tk_id t') ''deleted'' None
                    (Some [(''task_code'', PStr (tk_task_code t'))]) None None actor_id db1))))"

subsection \<open>Progress of a requirement\<close>

record requirement_progress =
  rp_requirement_id :: int
  rp_task_count :: int
  rp_progress_percent :: int
  rp_status :: string

text \<open>Python's \<open>round(sum / count)\<close>: to the nearest integer, a half to the even one.\<close>

definition round_half_even :: "int \<Rightarrow> int \<Rightarrow> int" where
  "round_half_even s count =
     (let q = s div count; r = s mod count in
      if 2 * r < count then q else if count < 2 * r then q + 1 else if even q then q else q + 1)"

definition requirement_status :: "string list \<Rightarrow> string" where
  "requirement_status statuses =
     (if set statuses \<subseteq> {''cancelled''} then ''cancelled''
      else if set statuses \<subseteq> {''done''} then ''implemented''
      else if set statuses \<inter> {''in_progress'', ''resolved'', ''in_review'', ''returned'', ''done''} \<noteq> {}
      then ''in_progress'' else ''not_started'')"

definition get_requirement_progress :: "task_db \<Rightarrow> int \<Rightarrow> app_error + requirement_progress" where
  "get_requirement_progress db requirement_id =
     ebind (get_requirement_project_id db requirement_id) (\<lambda>_.
     (let tasks = list_tasks_by_requirement db requirement_id in
      if tasks = [] then
        Inr \<lparr>rp_requirement_id = requirement_id, rp_task_count = 0, rp_progress_percent = 0,
             rp_status = ''not_started''\<rparr>
      else
        Inr \<lparr>rp_requirement_id = requirement_id, rp_task_count = int (length tasks),
             rp_progress_percent =
               round_half_even (sum_list (map tk_progress_percent tasks)) (int (length tasks)),
             rp_status = requirement_status (map tk_status tasks)\<rparr>))"

end
