(* ===== verification/Task_Invariants.thy ===== *)
theory Task_Invariants imports Task_Service begin

text \<open>
  What the task operations preserve: the invariant \<open>task_inv\<close> of the task table, the effect of each
  operation on the table, and the states reachable by any interleaving of requests.
\<close>

subsection \<open>Frames\<close>

text \<open>\<open>same_tasks db db'\<close>: only logs, notices and sequences moved on.\<close>

definition same_tasks :: "task_db \<Rightarrow> task_db \<Rightarrow> bool" where
  "same_tasks db db' \<longleftrightarrow> db_tasks db' = db_tasks db \<and> db_seq db \<le> db_seq db' \<and>
     db_deps db' = db_deps db \<and> db_boards db' = db_boards db \<and> db_columns db' = db_columns db"

lemma same_tasks_refl [intro, simp]: "same_tasks db db"
  by (simp add: same_tasks_def)

lemma same_tasks_trans [trans]: "same_tasks a b \<Longrightarrow> same_tasks b c \<Longrightarrow> same_tasks a c"
  by (simp add: same_tasks_def)

text \<open>Each logging operation extends a database that keeps the tasks to one that does.\<close>

lemma same_tasks_log [intro]:
  "same_tasks d db \<Longrightarrow> same_tasks d (change_log_create n p tt ti a f ov nv r c db)"
  by (simp add: same_tasks_def)

lemma same_tasks_audit [intro]: "same_tasks d db \<Longrightarrow> same_tasks d (record_task_audit e a p r m db)"
  by (simp add: same_tasks_def record_task_audit_def)

lemma same_tasks_notice [intro]: "same_tasks d db \<Longrightarrow> same_tasks d (notice_create_once n db)"
  by (simp add: same_tasks_def notice_create_once_def)

lemma same_tasks_notices [intro]:
  "same_tasks d db \<Longrightarrow> same_tasks d (fold (\<lambda>r. notice_create_once (f r)) rs db)"
  by (induction rs arbitrary: db) auto

lemma same_tasks_emit [intro]: "same_tasks d db \<Longrightarrow> same_tasks d (emit_notice rs a p k ti v t c e db)"
  unfolding emit_notice_def Let_def by (rule same_tasks_notices)

lemma same_tasks_assignment [intro]:
  "same_tasks d db \<Longrightarrow> same_tasks d (assignment_changed p a ti v pu r t db)"
  by (auto simp: assignment_changed_def split: option.splits)

lemma same_tasks_update_logs [intro]:
  "same_tasks d db \<Longrightarrow> same_tasks d (record_task_update_logs now t o_v n_v fs r a db)"
  by (auto simp: record_task_update_logs_def split: option.splits)

lemma same_tasks_created: "same_tasks db (created_task_logged env p a t db)"
  unfolding created_task_logged_def by (intro same_tasks_audit same_tasks_log same_tasks_assignment same_tasks_refl)

lemma same_tasks_updated: "same_tasks db (updated_task_logged env u a ret snap t0 t db)"
  unfolding updated_task_logged_def Let_def
  by (auto split: prod.splits bool.splits option.splits intro!: same_tasks_audit same_tasks_update_logs
      same_tasks_assignment same_tasks_emit)

lemma same_tasks_relation:
  "create_requirement_task_relation now r k ty a db = Inr (x, db') \<Longrightarrow> same_tasks db db'"
  unfolding create_requirement_task_relation_def raise_duplicate_after_rollback_def
  by (elim ebind_InrE) (auto simp: relation_create_def Let_def same_tasks_def split: prod.splits if_splits)

subsection \<open>The invariant\<close>

definition task_ok :: "task \<Rightarrow> bool" where
  "task_ok t \<longleftrightarrow>
     (tk_status t = ''done'' \<longrightarrow> tk_progress_percent t = 100 \<and> tk_actual_end_date t \<noteq> None) \<and>
     (tk_status t = ''in_progress'' \<longrightarrow> tk_actual_start_date t \<noteq> None)"

definition task_table_ok :: "task_db \<Rightarrow> bool" where
  "task_table_ok db \<longleftrightarrow>
     distinct (map tk_id (db_tasks db)) \<and>
     (\<forall>t \<in> set (db_tasks db). tk_id t \<le> db_seq db) \<and>
     inj_on (\<lambda>t. (tk_project_id t, tk_task_code t)) (set (db_tasks db)) \<and>
     (\<forall>t \<in> set (db_tasks db). task_ok t) \<and>
     (\<forall>t \<in> set (db_tasks db). \<forall>p. tk_parent_task_id t = Some p \<longrightarrow>
        (\<exists>q \<in> set (db_tasks db). tk_id q = p \<and> tk_project_id q = tk_project_id t))"

definition task_inv :: "task_db \<Rightarrow> bool" where
  "task_inv db \<longleftrightarrow> task_table_ok db \<and> acyclic (parent_edges db)"

lemma parent_edges_cong: "db_tasks db' = db_tasks db \<Longrightarrow> parent_edges db' = parent_edges db"
  by (simp add: parent_edges_def task_get_by_id_def)

lemma task_inv_same_tasks: "task_inv db \<Longrightarrow> same_tasks db db' \<Longrightarrow> task_inv db'"
  using parent_edges_cong [of db' db]
  by (auto simp: task_inv_def task_table_ok_def same_tasks_def intro: order_trans)

subsection \<open>Writing one task\<close>

lemma set_tput_eq:
  assumes "distinct (map key t)" and "tget key (key r) t = Some x"
  shows "set (tput key r t) = insert r (set t - {x})"
proof -
  have x: "x \<in> set t" "key x = key r"
    using assms(2) by (auto dest: tget_SomeD)
  have "key y = key r \<longleftrightarrow> y = x" if "y \<in> set t" for y
    using that assms(2) tget_Some_iff [OF assms(1), of "key r" y] by auto
  then have "tput key r t = map (\<lambda>y. if y = x then r else y) t"
    by (simp add: tput_def)
  with x show ?thesis by auto
qed

lemma task_get_tget:
  "task_get_by_id db k = Some t \<Longrightarrow> distinct (map tk_id (db_tasks db)) \<Longrightarrow>
   tget tk_id k (db_tasks db) = Some t"
  by (simp add: tget_Some_iff task_get_by_idD)

lemma task_get_put:
  assumes "distinct (map tk_id (db_tasks db))" and "tget tk_id (tk_id t') (db_tasks db) = Some t"
  shows "task_get_by_id (task_put t' db) j =
           (if j = tk_id t' then (if tk_deleted_at t' = None then Some t' else None)
            else task_get_by_id db j)"
proof -
  have d: "distinct (map tk_id (db_tasks (task_put t' db)))"
    using assms(1) by (simp add: task_put_def)
  have s: "set (db_tasks (task_put t' db)) = insert t' (set (db_tasks db) - {t})"
    using assms by (simp add: task_put_def set_tput_eq)
  have t: "t \<in> set (db_tasks db)" "tk_id t = tk_id t'"
    using assms by (auto dest: tget_SomeD)
  have "task_get_by_id (task_put t' db) j = Some x \<longleftrightarrow>
        (if j = tk_id t' then (if tk_deleted_at t' = None then Some t' else None)
         else task_get_by_id db j) = Some x" for x
    using t assms(1) s task_get_by_id_iff [OF d, of j x] task_get_by_id_iff [OF assms(1), of j x]
    by (auto dest: eq_key_imp_eq_value simp: distinct_map inj_on_def)
  then show ?thesis
    by (metis (lifting) not_None_eq)
qed

lemma task_table_ok_put:
  assumes inv: "task_table_ok db" and t: "tget tk_id (tk_id t') (db_tasks db) = Some t"
    and proj: "tk_project_id t' = tk_project_id t" and "task_ok t'"
    and code: "\<And>x. x \<in> set (db_tasks db) \<Longrightarrow> tk_id x \<noteq> tk_id t' \<Longrightarrow> tk_project_id x = tk_project_id t' \<Longrightarrow>
                 tk_task_code x \<noteq> tk_task_code t'"
    and par: "\<And>p. tk_parent_task_id t' = Some p \<Longrightarrow> tk_parent_task_id t \<noteq> Some p \<Longrightarrow>
               \<exists>q \<in> set (db_tasks db). tk_id q = p \<and> tk_project_id q = tk_project_id t'"
  shows "task_table_ok (task_put t' db)"
proof -
  have d: "distinct (map tk_id (db_tasks db))"
    using inv by (simp add: task_table_ok_def)
  have s: "set (tput tk_id t' (db_tasks db)) = insert t' (set (db_tasks db) - {t})"
    using d t by (rule set_tput_eq)
  have mem: "t \<in> set (db_tasks db)" "tk_id t = tk_id t'"
    using t by (auto dest: tget_SomeD)
  have others: "x \<in> set (db_tasks db) - {t} \<Longrightarrow> tk_id x \<noteq> tk_id t'" for x
    using d mem by (auto simp: distinct_map inj_on_def)
  have code': "inj_on (\<lambda>t. (tk_project_id t, tk_task_code t)) (insert t' (set (db_tasks db) - {t}))"
    using inv code others by (fastforce simp: task_table_ok_def inj_on_def)
  have alive: "\<exists>q' \<in> insert t' (set (db_tasks db) - {t}). tk_id q' = tk_id q \<and> tk_project_id q' = tk_project_id q"
    if "q \<in> set (db_tasks db)" for q
    using that mem proj by (cases "q = t") auto
  have parents: "\<exists>q \<in> insert t' (set (db_tasks db) - {t}). tk_id q = p \<and> tk_project_id q = tk_project_id x"
    if "x \<in> insert t' (set (db_tasks db) - {t})" "tk_parent_task_id x = Some p" for x p
  proof -
    have "\<exists>q \<in> set (db_tasks db). tk_id q = p \<and> tk_project_id q = tk_project_id x"
    proof (cases "x = t' \<and> tk_parent_task_id t \<noteq> Some p")
      case True
      then show ?thesis using par that by auto
    next
      case False
      then have "\<exists>y \<in> set (db_tasks db). tk_parent_task_id y = Some p \<and> tk_project_id y = tk_project_id x"
        using that mem(1) proj by (cases "x = t'") auto
      then show ?thesis using inv by (fastforce simp: task_table_ok_def)
    qed
    then show ?thesis using alive by metis
  qed
  show ?thesis
    unfolding task_table_ok_def
  proof (intro conjI)
    show "inj_on (\<lambda>t. (tk_project_id t, tk_task_code t)) (set (db_tasks (task_put t' db)))"
      using code' s by (simp add: task_put_def)
    show "\<forall>x \<in> set (db_tasks (task_put t' db)). \<forall>p. tk_parent_task_id x = Some p \<longrightarrow>
        (\<exists>q \<in> set (db_tasks (task_put t' db)). tk_id q = p \<and> tk_project_id q = tk_project_id x)"
      using parents s by (simp add: task_put_def)
  qed (use inv s mem \<open>task_ok t'\<close> d in \<open>auto simp: task_put_def task_table_ok_def\<close>)
qed

text \<open>The parent edges after a write that keeps, clears or checks the parent.\<close>

lemma acyclic_put:
  assumes "acyclic (parent_edges db)" and d: "distinct (map tk_id (db_tasks db))"
    and t: "task_get_by_id db (tk_id t') = Some t"
    and p: "tk_deleted_at t' \<noteq> None \<or> tk_parent_task_id t' = tk_parent_task_id t \<or>
            (\<forall>p. tk_parent_task_id t' = Some p \<longrightarrow>
               task_get_by_id db p \<noteq> None \<and> \<not> creates_parent_cycle db (tk_id t') p)"
  shows "acyclic (parent_edges (task_put t' db))"
proof -
  note get = task_get_put [OF d task_get_tget [OF t d]]
  have sub: "(c, q) \<in> parent_edges (task_put t' db) \<Longrightarrow>
      (c, q) \<in> parent_edges db \<or>
      (c = tk_id t' \<and> tk_deleted_at t' = None \<and> tk_parent_task_id t' = Some q \<and> tk_parent_task_id t \<noteq> Some q)" for c q
    using t by (auto simp: parent_edges_def get split: if_splits)
  show ?thesis
  proof (cases "\<exists>q. tk_deleted_at t' = None \<and> tk_parent_task_id t' = Some q \<and> tk_parent_task_id t \<noteq> Some q")
    case True
    then obtain q where q: "tk_deleted_at t' = None" "tk_parent_task_id t' = Some q"
      "tk_parent_task_id t \<noteq> Some q" by blast
    with p have "task_get_by_id db q \<noteq> None" "\<not> creates_parent_cycle db (tk_id t') q" by auto
    with creates_parent_cycle_iff [OF assms(1), of "tk_id t'" q] t
    have "(q, tk_id t') \<notin> (parent_edges db)\<^sup>*" by simp
    with assms(1) have "acyclic (insert (tk_id t', q) (parent_edges db))"
      by (simp add: acyclic_insert)
    moreover have "parent_edges (task_put t' db) \<subseteq> insert (tk_id t', q) (parent_edges db)"
      using sub q by auto
    ultimately show ?thesis by (rule acyclic_subset)
  next
    case False
    then have "parent_edges (task_put t' db) \<subseteq> parent_edges db"
      using sub by auto
    with assms(1) show ?thesis by (rule acyclic_subset)
  qed
qed

subsection \<open>Effects of the operations\<close>

lemma validate_parent_task_Inr:
  assumes "validate_parent_task db project (Some p) k = Inr ()"
  shows "\<exists>q. task_get_by_id db p = Some q \<and> tk_project_id q = project"
    and "k = Some i \<Longrightarrow> \<not> creates_parent_cycle db i p"
  using assms by (auto simp: validate_parent_task_def split: option.splits)

lemma update_common_Inr:
  assumes "update_task_common env planning k u0 a db = Inr (t', db')"
  obtains t u db1 where "task_get_by_id db k = Some t" and "tu_version u0 = tk_version t"
    and "update_task_checks planning t u0 db = Inr u"
    and "task_repo_update (env_now env) a (normalized_update (env_today env) planning t u) t db = Inr (t', db1)"
    and "db' = updated_task_logged env u a (is_returning t u) (task_snapshot db t) t t' db1"
  using assms
  unfolding update_task_common_def get_task_def raise_duplicate_after_rollback_def
  by (elim ebind_InrE) (auto split: prod.splits)

lemma check_if_iff:
  "(if b then m else Inr ()) = (Inr x :: 'e + unit) \<longleftrightarrow> (b \<longrightarrow> m = Inr ())"
  "(if b then Inr () else m) = (Inr x :: 'e + unit) \<longleftrightarrow> (\<not> b \<longrightarrow> m = Inr ())"
  by simp_all

lemma update_checks_Inr:
  assumes "update_task_checks planning t u0 db = Inr u"
  shows "u = normalize_code_patch t u0"
    and "is_set (tu_parent_task_id u) \<Longrightarrow>
           validate_parent_task db (tk_project_id t) (patch_value (tu_parent_task_id u)) (Some (tk_id t)) = Inr ()"
    and "\<not> planning \<Longrightarrow> next_status t u = ''done'' \<Longrightarrow> next_progress t u = 100"
    and "is_returning t u \<Longrightarrow> \<exists>r. tu_change_reason u = Some r \<and> py_strip r \<noteq> []"
proof -
  from assms have "u = normalize_code_patch t u0 \<and>
     (is_set (tu_parent_task_id u) \<longrightarrow>
        validate_parent_task db (tk_project_id t) (patch_value (tu_parent_task_id u)) (Some (tk_id t)) = Inr ()) \<and>
     \<not> (is_returning t u \<and> py_strip (case tu_change_reason u of None \<Rightarrow> [] | Some r \<Rightarrow> r) = []) \<and>
     (\<not> planning \<longrightarrow> validate_task_state (next_status t u) (next_progress t u) = Inr ())"
    unfolding update_task_checks_def Let_def
    by (elim ebind_InrE) (simp only: raise_if_eq_Inr check_if_iff sum.inject simp_thms)
  then show "u = normalize_code_patch t u0"
    and "is_set (tu_parent_task_id u) \<Longrightarrow>
           validate_parent_task db (tk_project_id t) (patch_value (tu_parent_task_id u)) (Some (tk_id t)) = Inr ()"
    and "\<not> planning \<Longrightarrow> next_status t u = ''done'' \<Longrightarrow> next_progress t u = 100"
    and "is_returning t u \<Longrightarrow> \<exists>r. tu_change_reason u = Some r \<and> py_strip r \<noteq> []"
    by (auto simp: validate_task_state_def py_strip_def split: option.splits)
qed

text \<open>The row an update writes: status, progress and dates stay consistent.\<close>

lemma normalized_update_fields:
  "tu_parent_task_id (normalized_update today planning t u) = tu_parent_task_id u"
  "tu_status (normalized_update today planning t u) = tu_status u"
  "tu_task_code (normalized_update today planning t u) = tu_task_code u"
  "tu_assignee_id (normalized_update today planning t u) = tu_assignee_id u"
  by (simp_all add: normalized_update_def Let_def)

lemma set_nullable_patch_of [simp]: "set_nullable (patch_of x) y = x"
  by (simp add: patch_of_def split: option.splits)

lemma set_required_status:
  "u' = normalized_update today planning t u \<Longrightarrow> \<not> violates_not_null u' \<Longrightarrow>
   set_required (tu_status u') (tk_status t) = next_status t u"
  by (cases "tu_status u") (auto simp: normalized_update_fields next_status_def violates_not_null_def)

lemma named_flags: "(f, True) \<in> set xs \<Longrightarrow> f \<in> set (map fst (filter snd xs))"
  by force

lemma fields_set_members:
  "is_set (tu_status u) \<Longrightarrow> ''status'' \<in> set (fields_set u)"
  "is_set (tu_progress_percent u) \<Longrightarrow> ''progress_percent'' \<in> set (fields_set u)"
  "is_set (tu_actual_start_date u) \<Longrightarrow> ''actual_start_date'' \<in> set (fields_set u)"
  "is_set (tu_actual_end_date u) \<Longrightarrow> ''actual_end_date'' \<in> set (fields_set u)"
  "is_set (tu_actual_minutes u) \<Longrightarrow> ''actual_minutes'' \<in> set (fields_set u)"
  unfolding fields_set_def by (rule named_flags, simp)+

lemma normalized_update_cases:
  obtains (kept) "normalized_update today planning t u = u"
      and "planning \<or> (\<not> is_set (tu_status u) \<and> \<not> is_set (tu_progress_percent u) \<and>
                       \<not> is_set (tu_actual_start_date u) \<and> \<not> is_set (tu_actual_end_date u))"
  | (normalized) nd where "\<not> planning"
      and "nd = normalize_task_dates today (next_status t u) (next_progress t u)
                  (set_nullable (tu_actual_start_date u) (tk_actual_start_date t))
                  (set_nullable (tu_actual_end_date u) (tk_actual_end_date t))"
      and "normalized_update today planning t u =
             u\<lparr>tu_progress_percent := Set (dn_progress_percent nd),
               tu_actual_start_date := patch_of (dn_actual_start_date nd),
               tu_actual_end_date := patch_of (dn_actual_end_date nd)\<rparr>"
proof (cases "set (fields_set u) \<subseteq> {''phase_assignment'', ''estimated_basis'', ''actual_basis''}")
  case True
  then have "\<not> is_set (tu_status u) \<and> \<not> is_set (tu_progress_percent u) \<and>
    \<not> is_set (tu_actual_start_date u) \<and> \<not> is_set (tu_actual_end_date u)"
    using fields_set_members [of u] by auto
  with True show thesis by (intro kept) (simp_all add: normalized_update_def Let_def)
next
  case False
  let ?b = "\<not> planning \<and> (is_set (tu_status u) \<or> is_set (tu_progress_percent u) \<or>
    is_set (tu_actual_start_date u) \<or> is_set (tu_actual_end_date u) \<or> is_set (tu_actual_minutes u))"
  show thesis
  proof (cases ?b)
    case True
    then show thesis
      by (intro normalized [OF _ refl]) (simp_all only: normalized_update_def Let_def False if_False if_True simp_thms)
  next
    case no: False
    then show thesis
      by (intro kept) (simp only: normalized_update_def Let_def False no if_False, blast)
  qed
qed

lemma task_ok_updated:
  assumes "task_ok t" and "\<not> violates_not_null (normalized_update today planning t u)"
    and "\<not> planning \<Longrightarrow> next_status t u = ''done'' \<Longrightarrow> next_progress t u = 100"
    and planning: "planning \<Longrightarrow> \<not> is_set (tu_status u) \<and> \<not> is_set (tu_progress_percent u) \<and>
                       \<not> is_set (tu_actual_start_date u) \<and> \<not> is_set (tu_actual_end_date u)"
  shows "task_ok (task_update_row now a (normalized_update today planning t u) t)"
proof (rule normalized_update_cases [where today = today and planning = planning and t = t and u = u])
  assume kept: "normalized_update today planning t u = u"
    and "planning \<or> (\<not> is_set (tu_status u) \<and> \<not> is_set (tu_progress_percent u) \<and>
                       \<not> is_set (tu_actual_start_date u) \<and> \<not> is_set (tu_actual_end_date u))"
  with planning have "tu_status u = Unset \<and> tu_progress_percent u = Unset \<and>
      tu_actual_start_date u = Unset \<and> tu_actual_end_date u = Unset"
    by (auto simp: is_set_def split: patch.splits)
  with assms(1) kept show ?thesis
    by (simp add: task_ok_def task_update_row_def)
next
  fix nd
  assume nd: "nd = normalize_task_dates today (next_status t u) (next_progress t u)
                  (set_nullable (tu_actual_start_date u) (tk_actual_start_date t))
                  (set_nullable (tu_actual_end_date u) (tk_actual_end_date t))"
    and n: "normalized_update today planning t u =
             u\<lparr>tu_progress_percent := Set (dn_progress_percent nd),
               tu_actual_start_date := patch_of (dn_actual_start_date nd),
               tu_actual_end_date := patch_of (dn_actual_end_date nd)\<rparr>"
  have "set_required (tu_status u) (tk_status t) = next_status t u"
    using set_required_status [OF refl assms(2)] by (simp add: normalized_update_fields)
  then have "tk_status (task_update_row now a (normalized_update today planning t u) t) = next_status t u"
    and "tk_progress_percent (task_update_row now a (normalized_update today planning t u) t) = dn_progress_percent nd"
    and "tk_actual_start_date (task_update_row now a (normalized_update today planning t u) t) = dn_actual_start_date nd"
    and "tk_actual_end_date (task_update_row now a (normalized_update today planning t u) t) = dn_actual_end_date nd"
    by (simp_all add: n task_update_row_def)
  then show ?thesis
    unfolding task_ok_def by (simp add: nd normalize_task_dates_def)
qed

lemma update_row_frame [simp]:
  "tk_id (task_update_row now a u t) = tk_id t"
  "tk_project_id (task_update_row now a u t) = tk_project_id t"
  "tk_deleted_at (task_update_row now a u t) = tk_deleted_at t"
  "tk_version (task_update_row now a u t) = tk_version t + 1"
  "tk_parent_task_id (task_update_row now a u t) = set_nullable (tu_parent_task_id u) (tk_parent_task_id t)"
  by (simp_all add: task_update_row_def)

definition planning_ok :: "bool \<Rightarrow> task_update \<Rightarrow> bool" where
  "planning_ok planning u0 \<longleftrightarrow> (planning \<longrightarrow> (\<exists>p. u0 = planning_to_update p))"

lemma planning_unset:
  assumes "planning_ok planning u0" and planning
  shows "normalize_code_patch t u0 = u0" and "tu_status u0 = Unset" and "tu_progress_percent u0 = Unset"
    and "tu_actual_start_date u0 = Unset" and "tu_actual_end_date u0 = Unset" and "tu_parent_task_id u0 = Unset"
  using assms by (auto simp: planning_ok_def planning_to_update_def normalize_code_patch_def)

text \<open>The effect of an accepted update on the table.\<close>

lemma update_common_effect:
  assumes "update_task_common env planning k u0 a db = Inr (t', db')" and "planning_ok planning u0"
  obtains t u where "task_get_by_id db k = Some t" and "tu_version u0 = tk_version t"
    and "u = normalize_code_patch t u0"
    and "t' = task_update_row (env_now env) a (normalized_update (env_today env) planning t u) t"
    and "same_tasks (task_put t' db) db'" and "\<not> task_violation t' db"
    and "tk_id t' = k" and "tk_deleted_at t' = None" and "tk_version t' = tk_version t + 1"
    and "tk_project_id t' = tk_project_id t"
    and "task_ok t \<Longrightarrow> task_ok t'"
    and "tk_parent_task_id t' = tk_parent_task_id t \<or>
         (\<forall>p. tk_parent_task_id t' = Some p \<longrightarrow> \<not> creates_parent_cycle db k p \<and>
            (\<exists>q. task_get_by_id db p = Some q \<and> tk_project_id q = tk_project_id t))"
    and "is_returning t u \<Longrightarrow> \<exists>r. tu_change_reason u = Some r \<and> py_strip r \<noteq> []"
proof (rule update_common_Inr [OF assms(1)])
  fix t u db1
  let ?n = "normalized_update (env_today env) planning t u"
  assume t: "task_get_by_id db k = Some t" and v: "tu_version u0 = tk_version t"
    and checks: "update_task_checks planning t u0 db = Inr u"
    and upd: "task_repo_update (env_now env) a ?n t db = Inr (t', db1)"
    and db': "db' = updated_task_logged env u a (is_returning t u) (task_snapshot db t) t t' db1"
  from upd have u: "t' = task_update_row (env_now env) a ?n t" "db1 = task_put t' db"
    "\<not> violates_not_null ?n" "\<not> task_violation t' db"
    by (auto simp: task_repo_update_def Let_def split: if_splits)
  have idt: "tk_id t = k" "tk_deleted_at t = None" using t by (auto dest: task_get_by_idD)
  have un: "u = normalize_code_patch t u0" by (rule update_checks_Inr [OF checks])
  have ok: "task_ok t'" if "task_ok t"
    unfolding u(1)
  proof (rule task_ok_updated [OF that u(3)])
    show "planning \<Longrightarrow> \<not> is_set (tu_status u) \<and> \<not> is_set (tu_progress_percent u) \<and>
        \<not> is_set (tu_actual_start_date u) \<and> \<not> is_set (tu_actual_end_date u)"
      using planning_unset [OF assms(2)] un by auto
  qed (rule update_checks_Inr [OF checks])
  have par: "tk_parent_task_id t' = tk_parent_task_id t \<or>
         (\<forall>p. tk_parent_task_id t' = Some p \<longrightarrow> \<not> creates_parent_cycle db k p \<and>
            (\<exists>q. task_get_by_id db p = Some q \<and> tk_project_id q = tk_project_id t))"
  proof (cases "tu_parent_task_id u")
    case (Set p)
    then have "validate_parent_task db (tk_project_id t) (Some p) (Some (tk_id t)) = Inr ()"
      using update_checks_Inr(2) [OF checks] by simp
    from validate_parent_task_Inr [OF this] show ?thesis
      using Set idt by (simp add: u(1) normalized_update_fields)
  qed (simp_all add: u(1) normalized_update_fields)
  show thesis
    by (rule that [OF t v un u(1) _ u(4) _ _ _ _ ok par update_checks_Inr(4) [OF checks]])
       (use idt same_tasks_updated in \<open>simp_all add: u(1,2) db'\<close>)
qed

lemma update_common_inv:
  assumes "task_inv db" and "update_task_common env planning k u0 a db = Inr (t', db')" and "planning_ok planning u0"
  shows "task_inv db'"
proof (rule update_common_effect [OF assms(2,3)])
  fix t
  assume t: "task_get_by_id db k = Some t" and st: "same_tasks (task_put t' db) db'"
    and nv: "\<not> task_violation t' db" and idt: "tk_id t' = k" and "tk_project_id t' = tk_project_id t"
    and ok: "task_ok t \<Longrightarrow> task_ok t'"
    and par: "tk_parent_task_id t' = tk_parent_task_id t \<or>
         (\<forall>p. tk_parent_task_id t' = Some p \<longrightarrow> \<not> creates_parent_cycle db k p \<and>
            (\<exists>q. task_get_by_id db p = Some q \<and> tk_project_id q = tk_project_id t))"
  have inv: "task_table_ok db" "acyclic (parent_edges db)" using assms(1) by (auto simp: task_inv_def)
  have d: "distinct (map tk_id (db_tasks db))" using inv by (simp add: task_table_ok_def)
  have tt: "tget tk_id (tk_id t') (db_tasks db) = Some t" using task_get_tget [OF t d] idt by simp
  have "task_table_ok (task_put t' db)"
  proof (rule task_table_ok_put [OF inv(1) tt])
    show "task_ok t'" using ok t inv(1) by (auto simp: task_table_ok_def dest: task_get_by_idD)
    show "tk_task_code x \<noteq> tk_task_code t'"
      if "x \<in> set (db_tasks db)" "tk_id x \<noteq> tk_id t'" "tk_project_id x = tk_project_id t'" for x
      using nv that by (auto simp: task_violation_def)
    show "\<exists>q \<in> set (db_tasks db). tk_id q = p \<and> tk_project_id q = tk_project_id t'"
      if "tk_parent_task_id t' = Some p" "tk_parent_task_id t \<noteq> Some p" for p
      using par that \<open>tk_project_id t' = tk_project_id t\<close> by (auto dest: task_get_by_idD)
  qed fact
  moreover have "acyclic (parent_edges (task_put t' db))"
    by (rule acyclic_put [OF inv(2) d]) (use t idt par in auto)
  ultimately show ?thesis
    using st by (auto simp: task_inv_def intro: task_inv_same_tasks [unfolded task_inv_def, THEN conjunct1]
        task_inv_same_tasks [unfolded task_inv_def, THEN conjunct2])
qed

lemma delete_task_effect:
  assumes "delete_task env k a db = Inr db'"
  obtains t t' where "task_get_by_id db k = Some t" and "same_tasks (task_put t' db) db'"
    and "t' = t\<lparr>tk_deleted_at := Some (env_now env), tk_updated_by := a, tk_version := tk_version t + 1,
               tk_updated_at := env_now env\<rparr>"
  using assms
  unfolding delete_task_def get_task_def task_repo_soft_delete_def Let_def
  by (elim ebind_InrE) (auto intro!: same_tasks_audit same_tasks_log that)

lemma delete_task_inv:
  assumes "task_inv db" and "delete_task env k a db = Inr db'"
  shows "task_inv db'"
proof (rule delete_task_effect [OF assms(2)])
  fix t t'
  assume t: "task_get_by_id db k = Some t" and st: "same_tasks (task_put t' db) db'"
    and t': "t' = t\<lparr>tk_deleted_at := Some (env_now env), tk_updated_by := a,
                   tk_version := tk_version t + 1, tk_updated_at := env_now env\<rparr>"
  have inv: "task_table_ok db" "acyclic (parent_edges db)" using assms(1) by (auto simp: task_inv_def)
  have d: "distinct (map tk_id (db_tasks db))" using inv by (simp add: task_table_ok_def)
  have mem: "t \<in> set (db_tasks db)" "tk_id t = k" using t by (auto dest: task_get_by_idD)
  have tt: "tget tk_id (tk_id t') (db_tasks db) = Some t" using task_get_tget [OF t d] mem t' by simp
  have "task_table_ok (task_put t' db)"
  proof (rule task_table_ok_put [OF inv(1) tt])
    show "task_ok t'" using mem inv(1) by (auto simp: t' task_ok_def task_table_ok_def)
    show "tk_task_code x \<noteq> tk_task_code t'"
      if "x \<in> set (db_tasks db)" "tk_id x \<noteq> tk_id t'" "tk_project_id x = tk_project_id t'" for x
      using inv(1) mem that by (auto simp: t' task_table_ok_def inj_on_def)
  qed (auto simp: t')
  moreover have "acyclic (parent_edges (task_put t' db))"
    by (rule acyclic_put [OF inv(2) d]) (use t mem t' in auto)
  ultimately show ?thesis
    using st by (auto simp: task_inv_def intro: task_inv_same_tasks [unfolded task_inv_def, THEN conjunct1]
        task_inv_same_tasks [unfolded task_inv_def, THEN conjunct2])
qed

subsection \<open>Creation under interference\<close>

definition has_task :: "task_db \<Rightarrow> int \<Rightarrow> int \<Rightarrow> bool" where
  "has_task db k project \<longleftrightarrow> (\<exists>q \<in> set (db_tasks db). tk_id q = k \<and> tk_project_id q = project)"

text \<open>
  The rely condition on other sessions: they keep the invariant and every row (a soft delete keeps
  its row, a project never changes).
\<close>

definition env_ok :: "task_env \<Rightarrow> bool" where
  "env_ok env \<longleftrightarrow> (\<forall>n db. task_inv db \<longrightarrow> task_inv (env_others env n db) \<and>
     (\<forall>k p. has_task db k p \<longrightarrow> has_task (env_others env n db) k p))"

definition create_ok :: "task_create \<Rightarrow> bool" where
  "create_ok i \<longleftrightarrow>
     (tc_status i = ''done'' \<longrightarrow> tc_progress_percent i = 100 \<and> tc_actual_end_date i \<noteq> None) \<and>
     (tc_status i = ''in_progress'' \<longrightarrow> tc_actual_start_date i \<noteq> None)"

lemma task_inv_insert:
  assumes "task_inv db" and t: "tk_id t = db_seq db + 1" "task_ok t"
    and code: "\<And>x. x \<in> set (db_tasks db) \<Longrightarrow> tk_project_id x = tk_project_id t \<Longrightarrow> tk_task_code x \<noteq> tk_task_code t"
    and par: "\<And>p. tk_parent_task_id t = Some p \<Longrightarrow> has_task db p (tk_project_id t)"
  shows "task_inv (db\<lparr>db_tasks := db_tasks db @ [t], db_seq := db_seq db + 1\<rparr>)" (is "task_inv ?db")
proof -
  have inv: "task_table_ok db" "acyclic (parent_edges db)" using assms(1) by (auto simp: task_inv_def)
  have le: "tk_id x \<le> db_seq db" if "x \<in> set (db_tasks db)" for x
    using inv(1) that by (simp add: task_table_ok_def)
  then have new: "\<forall>x \<in> set (db_tasks db). tk_id x \<noteq> tk_id t"
    using t(1) by force
  have get: "task_get_by_id ?db k = Some x \<longleftrightarrow>
      task_get_by_id db k = Some x \<or> (k = tk_id t \<and> x = t \<and> tk_deleted_at t = None)" for k x
  proof -
    have "distinct (map tk_id (db_tasks ?db))" and d: "distinct (map tk_id (db_tasks db))"
      using inv(1) new by (auto simp: task_table_ok_def)
    from task_get_by_id_iff [OF this(1), of k x] task_get_by_id_iff [OF d, of k x]
    show ?thesis by auto
  qed
  have "task_table_ok ?db"
    unfolding task_table_ok_def
  proof (intro conjI)
    show "distinct (map tk_id (db_tasks ?db))" using inv(1) new by (auto simp: task_table_ok_def)
    show "\<forall>x \<in> set (db_tasks ?db). tk_id x \<le> db_seq ?db" using le t by force
    show "inj_on (\<lambda>t. (tk_project_id t, tk_task_code t)) (set (db_tasks ?db))"
      using inv(1) code by (fastforce simp: task_table_ok_def inj_on_def)
    show "\<forall>x \<in> set (db_tasks ?db). task_ok x" using inv(1) t by (auto simp: task_table_ok_def)
    show "\<forall>x \<in> set (db_tasks ?db). \<forall>p. tk_parent_task_id x = Some p \<longrightarrow>
        (\<exists>q \<in> set (db_tasks ?db). tk_id q = p \<and> tk_project_id q = tk_project_id x)"
      using inv(1) par by (fastforce simp: task_table_ok_def has_task_def)
  qed
  moreover have "acyclic (parent_edges ?db)"
  proof -
    have in_old: "task_get_by_id db q \<noteq> None" if "(c, q) \<in> parent_edges ?db" for c q
    proof -
      from that obtain x where "task_get_by_id ?db c = Some x" "tk_parent_task_id x = Some q"
        and q: "task_get_by_id ?db q \<noteq> None" by (auto simp: parent_edges_def)
      then have "has_task db q (tk_project_id x)"
        using get [of c x] par inv(1) by (auto simp: task_table_ok_def has_task_def dest: task_get_by_idD)
      then have "q \<noteq> tk_id t" using new by (auto simp: has_task_def)
      with q get [of q] show ?thesis by auto
    qed
    have old: "(c, q) \<in> parent_edges db" if "(c, q) \<in> parent_edges ?db" "c \<noteq> tk_id t" for c q
      using that get [of c] in_old [OF that(1)] by (auto simp: parent_edges_def)
    have no_target: "(c, tk_id t) \<notin> parent_edges ?db" for c
      using in_old [of c "tk_id t"] new by (auto dest!: task_get_by_idD)
    have "(a, b) \<in> (parent_edges db)\<^sup>+" if "(a, b) \<in> (parent_edges ?db)\<^sup>+" "a \<noteq> tk_id t" for a b
      using that
    proof (induction rule: trancl_induct)
      case (base b)
      then show ?case using old by auto
    next
      case (step b c)
      then have "b \<noteq> tk_id t" using no_target tranclD2 [OF step.hyps(1)] by auto
      with step old show ?case by (blast intro: trancl_into_trancl)
    qed
    moreover have "(tk_id t, tk_id t) \<notin> (parent_edges ?db)\<^sup>+"
      using no_target by (auto dest: tranclD2)
    ultimately show ?thesis using inv(2) unfolding acyclic_def by metis
  qed
  ultimately show ?thesis by (simp add: task_inv_def)
qed

lemma create_row_inv:
  assumes "task_inv db" and "create_ok i" and "task_create_row now project i code a db = Inr (t, db')"
    and "\<And>p. tc_parent_task_id i = Some p \<Longrightarrow> has_task db p project"
  shows "task_inv db'" and "t = new_task now (db_seq db + 1) project i code a"
    and "db_tasks db' = db_tasks db @ [t]"
proof -
  from assms(3) show t: "t = new_task now (db_seq db + 1) project i code a"
    and "db_tasks db' = db_tasks db @ [t]"
    by (auto simp: task_create_row_def Let_def split: if_splits)
  from assms(3) have db': "db' = db\<lparr>db_tasks := db_tasks db @ [t], db_seq := db_seq db + 1\<rparr>"
    and nv: "\<not> task_violation t db"
    by (auto simp: task_create_row_def Let_def split: if_splits)
  have "tk_id x \<noteq> tk_id t" if "x \<in> set (db_tasks db)" for x
    using assms(1) that by (auto simp: t new_task_def task_inv_def task_table_ok_def)
  then show "task_inv db'"
    unfolding db' using assms(1,2,4) nv
    by (intro task_inv_insert) (auto simp: t new_task_def task_ok_def create_ok_def task_violation_def)
qed

lemma create_attempts_inv:
  assumes "env_ok env" and "create_ok i"
  shows "task_inv db \<Longrightarrow> (\<And>p. tc_parent_task_id i = Some p \<Longrightarrow> has_task db p project) \<Longrightarrow>
         task_inv (snd (create_attempts env project i req a n k db))"
proof (induction n arbitrary: k db)
  case 0
  then show ?case by simp
next
  case (Suc n)
  let ?db1 = "env_others env k db"
  have inv1: "task_inv ?db1"
    and par1: "\<And>p. tc_parent_task_id i = Some p \<Longrightarrow> has_task ?db1 p project"
    using Suc.prems assms(1) by (auto simp: env_ok_def)
  show ?case
  proof (cases "ebind (validate_assignment db project (tc_phase_assignment i) None) (\<lambda>_.
             case req of Some code \<Rightarrow> Inr code | None \<Rightarrow> generate_task_code db project)")
    case (Inl e)
    with Suc.prems(1) show ?thesis by simp
  next
    case code: (Inr code)
    show ?thesis
    proof (cases "task_create_row (env_now env) project i code a ?db1")
      case (Inl u)
      with Suc.IH [OF inv1 par1] inv1 code show ?thesis by (cases req) (simp_all add: Let_def)
    next
      case (Inr r)
      obtain t db2 where r: "r = (t, db2)" by (cases r)
      let ?db3 = "created_task_logged env project a t db2"
      have "task_inv db2"
        using create_row_inv(1) [OF inv1 assms(2) Inr [unfolded r] par1] .
      then have inv3: "task_inv ?db3" using same_tasks_created task_inv_same_tasks by blast
      show ?thesis
        using inv3 code Inr r
        by (auto simp: Let_def split: option.splits sum.splits
            dest!: same_tasks_relation intro: task_inv_same_tasks)
    qed
  qed
qed

lemma create_checks_Inr:
  assumes "create_task_checks project i db = Inr u"
  shows "validate_parent_task db project (tc_parent_task_id i) None = Inr ()"
    and "create_ok (normalized_create today i)"
proof -
  from assms have v: "validate_parent_task db project (tc_parent_task_id i) None = Inr () \<and>
      validate_task_state (tc_status i) (tc_progress_percent i) = Inr ()"
    unfolding create_task_checks_def by (elim ebind_InrE) simp
  then show "validate_parent_task db project (tc_parent_task_id i) None = Inr ()" by simp
  show "create_ok (normalized_create today i)"
    by (simp add: create_ok_def normalized_create_def normalize_task_dates_def Let_def)
qed

lemma create_task_inv:
  assumes "env_ok env" and "task_inv db"
  shows "task_inv (snd (create_task env project i a db))"
proof (cases "create_task_checks project i db")
  case (Inl e)
  with assms show ?thesis by (simp add: create_task_def)
next
  case (Inr u)
  note checks = create_checks_Inr [OF Inr]
  have "has_task db p project" if "tc_parent_task_id (normalized_create (env_today env) i) = Some p" for p
    using validate_parent_task_Inr(1) [of db project p None] checks(1) that
    by (auto simp: normalized_create_def Let_def has_task_def dest: task_get_by_idD)
  from create_attempts_inv [OF assms(1) checks(2) assms(2) this]
  show ?thesis by (simp add: create_task_def Inr Let_def)
qed

end
