(* ===== verification/Task_Board.thy ===== *)
theory Task_Board imports Task_Invariants begin

text \<open>
  Boards, their columns and the move of a task between columns:
  \<^verbatim>\<open>app/services/task_board.py\<close> over \<^verbatim>\<open>app/repositories/task_board.py\<close>.

  A column's \<open>status_key\<close> is unique in its board, over soft-deleted columns too. Moving a task to
  the status \<open>returned\<close> is an ordinary task update (with its reason check and notifications); any
  other move writes the status and fills in the dates itself.
\<close>

subsection \<open>Requests\<close>

record board_create =
  bdc_name :: string
  bdc_description :: "string option"
  bdc_board_type :: string

record board_update =
  bdu_version :: int
  bdu_name :: "string patch"
  bdu_description :: "string patch"
  bdu_board_type :: "string patch"

record column_create =
  bcc_name :: string
  bcc_status_key :: string
  bcc_sort_order :: int
  bcc_wip_limit :: "int option"
  bcc_is_done_column :: bool

record column_update =
  bcu_version :: int
  bcu_name :: "string patch"
  bcu_status_key :: "string patch"
  bcu_sort_order :: "int patch"
  bcu_wip_limit :: "int patch"
  bcu_is_done_column :: "bool patch"

record task_move =
  mv_status :: string
  mv_sort_order :: int
  mv_version :: int
  mv_change_reason :: "string option"

subsection \<open>Repositories\<close>

definition board_get_by_id :: "task_db \<Rightarrow> int \<Rightarrow> board option" where
  "board_get_by_id db board_id = find (\<lambda>b. bd_id b = board_id \<and> bd_deleted_at b = None) (db_boards db)"

definition board_list_by_project :: "task_db \<Rightarrow> int \<Rightarrow> board list" where
  "board_list_by_project db project_id =
     sort_key bd_id (filter (\<lambda>b. bd_project_id b = project_id \<and> bd_deleted_at b = None) (db_boards db))"

definition board_repo_create ::
  "time \<Rightarrow> int \<Rightarrow> board_create \<Rightarrow> int option \<Rightarrow> task_db \<Rightarrow> board \<times> task_db" where
  "board_repo_create now project_id i actor_id db =
     (let n = db_seq db + 1;
          b = \<lparr>bd_id = n, bd_project_id = project_id, bd_name = bdc_name i,
               bd_description = bdc_description i, bd_board_type = bdc_board_type i, bd_version = 1,
               bd_created_by = actor_id, bd_updated_by = actor_id, bd_created_at = now,
               bd_updated_at = now, bd_deleted_at = None\<rparr>
      in (b, db\<lparr>db_boards := db_boards db @ [b], db_seq := n\<rparr>))"

definition board_put :: "board \<Rightarrow> task_db \<Rightarrow> task_db" where
  "board_put b db = db\<lparr>db_boards := tput bd_id b (db_boards db)\<rparr>"

definition board_repo_update ::
  "time \<Rightarrow> board \<Rightarrow> board_update \<Rightarrow> int option \<Rightarrow> task_db \<Rightarrow> unit + board \<times> task_db" where
  "board_repo_update now b u actor_id db =
     (let b' = b\<lparr>bd_name := set_required (bdu_name u) (bd_name b),
                 bd_description := set_nullable (bdu_description u) (bd_description b),
                 bd_board_type := set_required (bdu_board_type u) (bd_board_type b),
                 bd_updated_by := actor_id, bd_version := bd_version b + 1, bd_updated_at := now\<rparr>
      in if bdu_name u = Null \<or> bdu_board_type u = Null then Inl () else Inr (b', board_put b' db))"

definition board_repo_soft_delete :: "time \<Rightarrow> board \<Rightarrow> int option \<Rightarrow> task_db \<Rightarrow> board \<times> task_db" where
  "board_repo_soft_delete now b actor_id db =
     (let b' = b\<lparr>bd_deleted_at := Some now, bd_updated_by := actor_id, bd_version := bd_version b + 1,
                 bd_updated_at := now\<rparr>
      in (b', board_put b' db))"

definition column_violation :: "board_column \<Rightarrow> task_db \<Rightarrow> bool" where
  "column_violation c db \<longleftrightarrow>
     (\<exists>x \<in> set (db_columns db). bc_id x \<noteq> bc_id c \<and> bc_board_id x = bc_board_id c \<and>
                                bc_status_key x = bc_status_key c)"

definition column_put :: "board_column \<Rightarrow> task_db \<Rightarrow> task_db" where
  "column_put c db = db\<lparr>db_columns := tput bc_id c (db_columns db)\<rparr>"

definition column_repo_create ::
  "time \<Rightarrow> int \<Rightarrow> column_create \<Rightarrow> task_db \<Rightarrow> unit + board_column \<times> task_db" where
  "column_repo_create now board_id i db =
     (let n = db_seq db + 1;
          c = \<lparr>bc_id = n, bc_board_id = board_id, bc_name = bcc_name i, bc_status_key = bcc_status_key i,
               bc_sort_order = bcc_sort_order i, bc_wip_limit = bcc_wip_limit i,
               bc_is_done_column = bcc_is_done_column i, bc_version = 1, bc_created_at = now,
               bc_updated_at = now, bc_deleted_at = None\<rparr>
      in if column_violation c db then Inl ()
         else Inr (c, db\<lparr>db_columns := db_columns db @ [c], db_seq := n\<rparr>))"

definition column_get_by_id :: "task_db \<Rightarrow> int \<Rightarrow> board_column option" where
  "column_get_by_id db column_id =
     find (\<lambda>c. bc_id c = column_id \<and> bc_deleted_at c = None) (db_columns db)"

definition list_by_board :: "task_db \<Rightarrow> int \<Rightarrow> board_column list" where
  "list_by_board db board_id =
     sort_key bc_sort_order (sort_key bc_id
       (filter (\<lambda>c. bc_board_id c = board_id \<and> bc_deleted_at c = None) (db_columns db)))"

definition column_repo_update ::
  "time \<Rightarrow> board_column \<Rightarrow> column_update \<Rightarrow> task_db \<Rightarrow> unit + board_column \<times> task_db" where
  "column_repo_update now c u db =
     (let c' = c\<lparr>bc_name := set_required (bcu_name u) (bc_name c),
                 bc_status_key := set_required (bcu_status_key u) (bc_status_key c),
                 bc_sort_order := set_required (bcu_sort_order u) (bc_sort_order c),
                 bc_wip_limit := set_nullable (bcu_wip_limit u) (bc_wip_limit c),
                 bc_is_done_column := set_required (bcu_is_done_column u) (bc_is_done_column c),
                 bc_version := bc_version c + 1, bc_updated_at := now\<rparr>
      in if bcu_name u = Null \<or> bcu_status_key u = Null \<or> bcu_sort_order u = Null \<or>
            bcu_is_done_column u = Null \<or> column_violation c' db
         then Inl () else Inr (c', column_put c' db))"

definition column_repo_soft_delete :: "time \<Rightarrow> board_column \<Rightarrow> task_db \<Rightarrow> board_column \<times> task_db" where
  "column_repo_soft_delete now c db =
     (let c' = c\<lparr>bc_deleted_at := Some now, bc_version := bc_version c + 1, bc_updated_at := now\<rparr>
      in (c', column_put c' db))"

subsection \<open>The service: boards and columns\<close>

definition record_board_change ::
  "time \<Rightarrow> int \<Rightarrow> string \<Rightarrow> int \<Rightarrow> string \<Rightarrow> pydict option \<Rightarrow> pydict option \<Rightarrow> int option \<Rightarrow> task_db \<Rightarrow> task_db" where
  "record_board_change now project_id target_type target_id action old_value new_value changed_by db =
     change_log_create now project_id target_type target_id action None old_value new_value None changed_by db"

definition create_board ::
  "time \<Rightarrow> int \<Rightarrow> board_create \<Rightarrow> int option \<Rightarrow> task_db \<Rightarrow> app_error + board \<times> task_db" where
  "create_board now project_id i actor_id db =
     ebind (ensure_project_exists db project_id) (\<lambda>_.
     (case board_repo_create now project_id i actor_id db of
        (b, db1) \<Rightarrow> Inr (b, record_board_change now project_id ''board'' (bd_id b) ''board.created''
                              None None actor_id db1)))"

definition list_boards :: "task_db \<Rightarrow> int \<Rightarrow> app_error + board list" where
  "list_boards db project_id =
     ebind (ensure_project_exists db project_id) (\<lambda>_. Inr (board_list_by_project db project_id))"

definition get_board :: "task_db \<Rightarrow> int \<Rightarrow> app_error + board" where
  "get_board db board_id =
     some_or (raise_msg NotFoundError ''BOARD_NOT_FOUND'') (board_get_by_id db board_id)"

definition board_field :: "board \<Rightarrow> string \<Rightarrow> pyval" where
  "board_field b f =
     (if f = ''name'' then PStr (bd_name b)
      else if f = ''description'' then py_opt_str (bd_description b)
      else if f = ''board_type'' then PStr (bd_board_type b)
      else if f = ''id'' then PInt (bd_id b)
      else if f = ''project_id'' then PInt (bd_project_id b)
      else if f = ''version'' then PInt (bd_version b)
      else if f = ''created_by'' then py_opt_int (bd_created_by b)
      else if f = ''updated_by'' then py_opt_int (bd_updated_by b)
      else if f = ''created_at'' then PInt (bd_created_at b)
      else if f = ''updated_at'' then PInt (bd_updated_at b)
      else PNone)"

definition board_conflict_fields :: "string list" where
  "board_conflict_fields =
     [''name'', ''description'', ''board_type'', ''id'', ''project_id'', ''version'', ''created_by'',
      ''updated_by'', ''created_at'', ''updated_at'']"

definition update_board ::
  "time \<Rightarrow> int \<Rightarrow> board_update \<Rightarrow> int option \<Rightarrow> task_db \<Rightarrow> app_error + board \<times> task_db" where
  "update_board now board_id u actor_id db =
     ebind (get_board db board_id) (\<lambda>b.
     ebind (raise_if_version_conflict (bd_version b) (bdu_version u)
              (build_conflict_current (board_field b) board_conflict_fields None)) (\<lambda>_.
     ebind (rescue integrity_error (board_repo_update now b u actor_id db)) (\<lambda>(b', db1).
     Inr (b', record_board_change now (bd_project_id b') ''board'' (bd_id b') ''board.updated''
                None None actor_id db1))))"

definition delete_board :: "time \<Rightarrow> int \<Rightarrow> int option \<Rightarrow> task_db \<Rightarrow> app_error + task_db" where
  "delete_board now board_id actor_id db =
     ebind (get_board db board_id) (\<lambda>b.
     (case board_repo_soft_delete now b actor_id db of
        (b', db1) \<Rightarrow> Inr (record_board_change now (bd_project_id b') ''board'' (bd_id b') ''board.deleted''
                            None None actor_id db1)))"

definition create_board_column ::
  "time \<Rightarrow> int \<Rightarrow> column_create \<Rightarrow> int option \<Rightarrow> task_db \<Rightarrow> app_error + board_column \<times> task_db" where
  "create_board_column now board_id i actor_id db =
     ebind (get_board db board_id) (\<lambda>b.
     ebind (raise_duplicate_after_rollback ''DUPLICATE_RESOURCE''
              (column_repo_create now board_id i db)) (\<lambda>(c, db1).
     Inr (c, record_board_change now (bd_project_id b) ''board_column'' (bc_id c) ''column.created''
               None None actor_id db1)))"

definition list_board_columns :: "task_db \<Rightarrow> int \<Rightarrow> app_error + board_column list" where
  "list_board_columns db board_id = ebind (get_board db board_id) (\<lambda>_. Inr (list_by_board db board_id))"

definition get_board_column :: "task_db \<Rightarrow> int \<Rightarrow> app_error + board_column" where
  "get_board_column db column_id =
     some_or (raise_msg NotFoundError ''BOARD_COLUMN_NOT_FOUND'') (column_get_by_id db column_id)"

definition column_field :: "board_column \<Rightarrow> string \<Rightarrow> pyval" where
  "column_field c f =
     (if f = ''name'' then PStr (bc_name c)
      else if f = ''status_key'' then PStr (bc_status_key c)
      else if f = ''sort_order'' then PInt (bc_sort_order c)
      else if f = ''wip_limit'' then py_opt_int (bc_wip_limit c)
      else if f = ''is_done_column'' then PBool (bc_is_done_column c)
      else if f = ''id'' then PInt (bc_id c)
      else if f = ''board_id'' then PInt (bc_board_id c)
      else if f = ''version'' then PInt (bc_version c)
      else if f = ''created_at'' then PInt (bc_created_at c)
      else if f = ''updated_at'' then PInt (bc_updated_at c)
      else PNone)"

definition column_conflict_fields :: "string list" where
  "column_conflict_fields =
     [''name'', ''status_key'', ''sort_order'', ''wip_limit'', ''is_done_column'', ''id'', ''board_id'',
      ''version'', ''created_at'', ''updated_at'']"

definition update_board_column ::
  "time \<Rightarrow> int \<Rightarrow> column_update \<Rightarrow> int option \<Rightarrow> task_db \<Rightarrow> app_error + board_column \<times> task_db" where
  "update_board_column now column_id u actor_id db =
     ebind (get_board_column db column_id) (\<lambda>c.
     ebind (get_board db (bc_board_id c)) (\<lambda>b.
     ebind (raise_if_version_conflict (bc_version c) (bcu_version u)
              (build_conflict_current (column_field c) column_conflict_fields None)) (\<lambda>_.
     ebind (raise_duplicate_after_rollback ''DUPLICATE_RESOURCE''
              (column_repo_update now c u db)) (\<lambda>(c', db1).
     Inr (c', record_board_change now (bd_project_id b) ''board_column'' (bc_id c') ''column.updated''
                None None actor_id db1)))))"

definition delete_board_column :: "time \<Rightarrow> int \<Rightarrow> int option \<Rightarrow> task_db \<Rightarrow> app_error + task_db" where
  "delete_board_column now column_id actor_id db =
     ebind (get_board_column db column_id) (\<lambda>c.
     ebind (get_board db (bc_board_id c)) (\<lambda>b.
     (case column_repo_soft_delete now c db of
        (c', db1) \<Rightarrow> Inr (record_board_change now (bd_project_id b) ''board_column'' (bc_id c')
                            ''column.deleted'' None None actor_id db1))))"

subsection \<open>The service: moving a task\<close>

definition board_task_conflict_current :: "task_env \<Rightarrow> task_db \<Rightarrow> task \<Rightarrow> pydict" where
  "board_task_conflict_current env db t =
     dupdate (dupdate [(''parent_task_id'', py_opt_int (tk_parent_task_id t))] (env_phase_fields env db t))
       (map (\<lambda>f. (f, task_field db t f))
          [''task_code'', ''title'', ''description'', ''task_type'', ''status'', ''priority'',
           ''assignee_id'', ''reporter_id'', ''start_date'', ''due_date'', ''actual_start_date'',
           ''actual_end_date'', ''progress_percent'', ''estimated_minutes'', ''actual_minutes'',
           ''sort_order'', ''tags''] @
        [(''id'', PInt (tk_id t)), (''project_id'', PInt (tk_project_id t)),
         (''version'', PInt (tk_version t)), (''created_by'', py_opt_int (tk_created_by t)),
         (''updated_by'', py_opt_int (tk_updated_by t)), (''created_at'', PInt (tk_created_at t)),
         (''updated_at'', PInt (tk_updated_at t)),
         (''is_overdue'', PBool (is_overdue (env_today env) t)),
         (''is_blocked'', PBool (tk_id t \<in> set (blocked_task_ids db [tk_id t]))),
         (''requirements'', PList (env_requirements env db t))])"

definition move_to_update :: "task_move \<Rightarrow> task_update" where
  "move_to_update m =
     \<lparr>tu_version = mv_version m, tu_phase_assignment = Unset, tu_estimated_basis = Unset,
      tu_actual_basis = Unset, tu_parent_task_id = Unset, tu_task_code = Unset, tu_title = Unset,
      tu_description = Unset, tu_task_type = Unset, tu_status = Set ''returned'', tu_priority = Unset,
      tu_assignee_id = Unset, tu_reporter_id = Unset, tu_start_date = Unset, tu_due_date = Unset,
      tu_actual_start_date = Unset, tu_actual_end_date = Unset, tu_progress_percent = Unset,
      tu_estimated_minutes = Unset, tu_actual_minutes = Unset, tu_sort_order = Set (mv_sort_order m),
      tu_tags = Unset, tu_change_reason = mv_change_reason m\<rparr>"

text \<open>The dates and progress a move fills in before it writes the status.\<close>

definition moved_task :: "int \<Rightarrow> string \<Rightarrow> task \<Rightarrow> task" where
  "moved_task today status t =
     (let nd = normalize_task_dates today status
                 (if status = ''done'' then 100 else tk_progress_percent t)
                 (tk_actual_start_date t) (tk_actual_end_date t);
          t1 = (if dn_actual_start_date nd \<noteq> None then t\<lparr>tk_actual_start_date := dn_actual_start_date nd\<rparr> else t);
          t2 = (if dn_actual_end_date nd \<noteq> None then t1\<lparr>tk_actual_end_date := dn_actual_end_date nd\<rparr> else t1)
      in if dn_progress_percent nd = 100 then t2\<lparr>tk_progress_percent := 100\<rparr> else t2)"

definition move_task ::
  "task_env \<Rightarrow> int \<Rightarrow> int \<Rightarrow> task_move \<Rightarrow> int option \<Rightarrow> task_db \<Rightarrow> app_error + task \<times> task_db" where
  "move_task env board_id task_id m actor_id db =
     ebind (get_board db board_id) (\<lambda>b.
     ebind (get_task db task_id) (\<lambda>t.
     ebind (raise_if (tk_project_id t \<noteq> bd_project_id b) (raise_msg NotFoundError ''TASK_NOT_FOUND'')) (\<lambda>_.
     ebind (raise_if_version_conflict (tk_version t) (mv_version m)
              (board_task_conflict_current env db t)) (\<lambda>_.
     if mv_status m = ''returned'' \<and> tk_status t \<noteq> ''returned''
     then update_task env (tk_id t) (move_to_update m) actor_id db
     else (case task_repo_move (env_now env) (moved_task (env_today env) (mv_status m) t)
                  (mv_status m) (mv_sort_order m) actor_id db of
             (t', db1) \<Rightarrow>
               Inr (t', record_board_change (env_now env) (tk_project_id t') ''task'' (tk_id t') ''moved''
                          (Some [(''status'', PStr (tk_status t)), (''sort_order'', PInt (tk_sort_order t))])
                          (Some [(''status'', PStr (tk_status t')), (''sort_order'', PInt (tk_sort_order t'))])
                          actor_id db1))))))"

subsection \<open>Tables of the board service\<close>

lemma find_active_iff:
  assumes "distinct (map key t)"
  shows "find (\<lambda>r. key r = k \<and> P r) t = Some r \<longleftrightarrow> r \<in> set t \<and> key r = k \<and> P r"
  using assms
proof (induction t)
  case (Cons a t)
  then show ?case by (force simp: image_iff)
qed simp

definition board_tables_ok :: "task_db \<Rightarrow> bool" where
  "board_tables_ok db \<longleftrightarrow>
     distinct (map bd_id (db_boards db)) \<and> distinct (map bc_id (db_columns db)) \<and>
     (\<forall>b \<in> set (db_boards db). bd_id b \<le> db_seq db) \<and>
     (\<forall>c \<in> set (db_columns db). bc_id c \<le> db_seq db) \<and>
     distinct (map (\<lambda>c. (bc_board_id c, bc_status_key c)) (db_columns db))"

lemma board_get_by_idD:
  "board_get_by_id db k = Some b \<Longrightarrow> b \<in> set (db_boards db) \<and> bd_id b = k \<and> bd_deleted_at b = None"
  by (auto simp: board_get_by_id_def find_Some_iff)

lemma column_get_by_idD:
  "column_get_by_id db k = Some c \<Longrightarrow> c \<in> set (db_columns db) \<and> bc_id c = k \<and> bc_deleted_at c = None"
  by (auto simp: column_get_by_id_def find_Some_iff)

text \<open>Finding an active row after a write of the row itself.\<close>

lemma find_active_put:
  assumes "find (\<lambda>r. key r = k \<and> P r) t = Some r0" and "key r = k" and "P r"
  shows "find (\<lambda>r. key r = k' \<and> P r) (map (\<lambda>x. if key x = key r then r else x) t) =
           (if k' = k then Some r else find (\<lambda>r. key r = k' \<and> P r) t)"
proof (cases "k' = k")
  case True
  have "find (\<lambda>r. key r = k \<and> P r) (map (\<lambda>x. if key x = key r then r else x) t) = Some r"
    using assms by (induction t) (auto split: if_splits)
  with True show ?thesis by simp
next
  case False
  then have "find (\<lambda>r. key r = k' \<and> P r) (map (\<lambda>x. if key x = key r then r else x) t) =
      find (\<lambda>r. key r = k' \<and> P r) t"
    using assms(2) by (induction t) auto
  with False show ?thesis by simp
qed

lemma update_board_Inr:
  assumes "update_board now k u a db = Inr (b', db')"
  obtains b where "board_get_by_id db k = Some b" and "bd_version b = bdu_version u"
    and "bd_id b' = k" and "bd_deleted_at b' = None" and "bd_version b' = bdu_version u + 1"
    and "db_boards db' = tput bd_id b' (db_boards db)" and "db_columns db' = db_columns db"
proof -
  obtain b db1 where *: "board_get_by_id db k = Some b" "bd_version b = bdu_version u"
    "board_repo_update now b u a db = Inr (b', db1)"
    "db' = record_board_change now (bd_project_id b') ''board'' (bd_id b') ''board.updated'' None None a db1"
    using assms unfolding update_board_def get_board_def
    by (elim ebind_InrE) (auto split: prod.splits)
  with board_get_by_idD [OF *(1)] show thesis
    by (intro that [OF *(1,2)])
       (auto simp: board_repo_update_def Let_def board_put_def record_board_change_def split: if_splits)
qed

lemma update_board_column_Inr:
  assumes "update_board_column now k u a db = Inr (c', db')"
  obtains c b where "column_get_by_id db k = Some c" and "board_get_by_id db (bc_board_id c) = Some b"
    and "bc_version c = bcu_version u"
    and "bc_id c' = k" and "bc_deleted_at c' = None" and "bc_version c' = bcu_version u + 1"
    and "bc_board_id c' = bc_board_id c" and "\<not> column_violation c' db"
    and "db_columns db' = tput bc_id c' (db_columns db)" and "db_boards db' = db_boards db"
proof -
  obtain c b db1 where *: "column_get_by_id db k = Some c" "board_get_by_id db (bc_board_id c) = Some b"
    "bc_version c = bcu_version u" "column_repo_update now c u db = Inr (c', db1)"
    "db' = record_board_change now (bd_project_id b) ''board_column'' (bc_id c') ''column.updated'' None None a db1"
    using assms unfolding update_board_column_def get_board_def get_board_column_def raise_duplicate_after_rollback_def
    by (elim ebind_InrE) (auto split: prod.splits)
  with column_get_by_idD [OF *(1)] show thesis
    by (intro that [OF *(1,2,3)])
       (auto simp: column_repo_update_def Let_def column_put_def record_board_change_def split: if_splits)
qed

subsection \<open>Optimistic locking of boards and columns\<close>

definition board_ver :: "int \<Rightarrow> task_db \<Rightarrow> int option" where
  "board_ver k db = map_option bd_version (board_get_by_id db k)"

definition serve_board_update ::
  "int \<Rightarrow> time \<times> int option \<times> board_update \<Rightarrow> task_db \<Rightarrow> app_error + board \<times> task_db" where
  "serve_board_update k q db = (case q of (now, actor, u) \<Rightarrow> update_board now k u actor db)"

definition board_req :: "time \<times> int option \<times> board_update \<Rightarrow> int" where
  "board_req q = (case q of (now, actor, u) \<Rightarrow> bdu_version u)"

lemma board_ver_after_update:
  assumes "update_board now k u a db = Inr (b', db')"
  shows "board_ver k' db' = (if k' = k then Some (bdu_version u + 1) else board_ver k' db)"
  using assms
proof (rule update_board_Inr)
  fix b
  assume "board_get_by_id db k = Some b" "bd_id b' = k" "bd_deleted_at b' = None"
    "bd_version b' = bdu_version u + 1" "db_boards db' = tput bd_id b' (db_boards db)"
  then show ?thesis
    using find_active_put [of bd_id k "\<lambda>b. bd_deleted_at b = None" "db_boards db" b b' k']
    by (simp add: board_ver_def board_get_by_id_def tput_def)
qed

interpretation bd: versioned board_ver serve_board_update board_req
proof
  fix k db v q
  assume "board_ver k db = Some v" "board_req q \<noteq> v"
  then show "\<exists>c. serve_board_update k q db = Inl (version_conflict c)"
    by (auto simp: board_ver_def board_req_def serve_board_update_def update_board_def get_board_def
        split: prod.splits)
next
  fix k db q
  assume "board_ver k db = None"
  then show "\<exists>e. serve_board_update k q db = Inl e \<and> err_cls e = NotFoundError"
    by (auto simp: board_ver_def serve_board_update_def update_board_def get_board_def split: prod.splits)
next
  fix k q db r db' k'
  assume "serve_board_update k q db = Inr (r, db')"
  then show "board_ver k db' = Some (board_req q + 1)" and "k' \<noteq> k \<Longrightarrow> board_ver k' db' = board_ver k' db"
    by (auto simp: serve_board_update_def board_req_def board_ver_after_update split: prod.splits)
qed

text \<open>A column is visible while it and its board are undeleted.\<close>

definition column_ver :: "int \<Rightarrow> task_db \<Rightarrow> int option" where
  "column_ver k db =
     (case column_get_by_id db k of
        None \<Rightarrow> None
      | Some c \<Rightarrow> (case board_get_by_id db (bc_board_id c) of None \<Rightarrow> None | Some _ \<Rightarrow> Some (bc_version c)))"

definition serve_column_update ::
  "int \<Rightarrow> time \<times> int option \<times> column_update \<Rightarrow> task_db \<Rightarrow> app_error + board_column \<times> task_db" where
  "serve_column_update k q db = (case q of (now, actor, u) \<Rightarrow> update_board_column now k u actor db)"

definition column_req :: "time \<times> int option \<times> column_update \<Rightarrow> int" where
  "column_req q = (case q of (now, actor, u) \<Rightarrow> bcu_version u)"

lemma column_ver_after_update:
  assumes "update_board_column now k u a db = Inr (c', db')"
  shows "column_ver k' db' = (if k' = k then Some (bcu_version u + 1) else column_ver k' db)"
  using assms
proof (rule update_board_column_Inr)
  fix c b
  assume *: "column_get_by_id db k = Some c" "board_get_by_id db (bc_board_id c) = Some b" "bc_id c' = k"
    "bc_deleted_at c' = None" "bc_version c' = bcu_version u + 1" "bc_board_id c' = bc_board_id c"
    "db_columns db' = tput bc_id c' (db_columns db)" "db_boards db' = db_boards db"
  then have "column_get_by_id db' k' = (if k' = k then Some c' else column_get_by_id db k')"
    using find_active_put [of bc_id k "\<lambda>c. bc_deleted_at c = None" "db_columns db" c c' k']
    by (simp add: column_get_by_id_def tput_def)
  moreover have "board_get_by_id db' j = board_get_by_id db j" for j
    using * by (simp add: board_get_by_id_def)
  ultimately show ?thesis
    using * by (simp add: column_ver_def split: option.splits)
qed

interpretation bc: versioned column_ver serve_column_update column_req
proof
  fix k db v q
  assume "column_ver k db = Some v" "column_req q \<noteq> v"
  then show "\<exists>c. serve_column_update k q db = Inl (version_conflict c)"
    by (auto simp: column_ver_def column_req_def serve_column_update_def update_board_column_def
        get_board_def get_board_column_def split: prod.splits option.splits)
next
  fix k db q
  assume "column_ver k db = None"
  then show "\<exists>e. serve_column_update k q db = Inl e \<and> err_cls e = NotFoundError"
    by (auto simp: column_ver_def serve_column_update_def update_board_column_def get_board_def
        get_board_column_def split: prod.splits option.splits)
next
  fix k q db r db' k'
  assume "serve_column_update k q db = Inr (r, db')"
  then show "column_ver k db' = Some (column_req q + 1)"
    and "k' \<noteq> k \<Longrightarrow> column_ver k' db' = column_ver k' db"
    by (auto simp: serve_column_update_def column_req_def column_ver_after_update split: prod.splits)
qed

text \<open>
  the version of a column counts the accepted updates: after any sequence of column updates by
  any clients, of which the database accepts some and refuses the others, its version has grown by
  exactly the number of accepted updates of that column, so no accepted update was overwritten.
\<close>

theorem column_version_counts_updates:
  assumes "column_get_by_id db k = Some c" and "board_get_by_id db (bc_board_id c) = Some b"
  shows "\<exists>c'. column_get_by_id (serve serve_column_update db rs) k = Some c' \<and>
              bc_version c' = bc_version c + int (accepted serve_column_update k db rs)"
  using bc.serve_version [of k db "bc_version c" rs] assms
  by (auto simp: column_ver_def split: option.splits)

subsection \<open>A deleted column\<close>

lemma delete_board_column_Inr:
  assumes "delete_board_column now k a db = Inr db'"
  obtains c b where "column_get_by_id db k = Some c" and "board_get_by_id db (bc_board_id c) = Some b"
    and "db_columns db' = tput bc_id (c\<lparr>bc_deleted_at := Some now, bc_version := bc_version c + 1,
           bc_updated_at := now\<rparr>) (db_columns db)"
    and "db_boards db' = db_boards db" and "db_seq db \<le> db_seq db'"
  using assms
  unfolding delete_board_column_def get_board_column_def get_board_def column_repo_soft_delete_def Let_def
  by (elim ebind_InrE) (auto simp: record_board_change_def column_put_def)

text \<open>
  Deleting a column never frees its status key: it disappears from the board's list, but a
  new column with that key on the board is refused as a duplicate, since the uniqueness constraint
  counts soft-deleted rows (and the trash cannot restore columns).
\<close>

theorem deleted_column_keeps_status_key:
  assumes "delete_board_column now k a db = Inr db1" and "column_get_by_id db k = Some c"
    and "board_tables_ok db" and "bcc_status_key i = bc_status_key c"
  shows "k \<notin> bc_id ` set (list_by_board db1 (bc_board_id c)) \<and>
         (\<exists>e. create_board_column now' (bc_board_id c) i a' db1 = Inl e \<and> err_cls e = DuplicateResourceError)"
  using assms(1)
proof (rule delete_board_column_Inr)
  fix c0 :: board_column and b :: board
  let ?c = "c0\<lparr>bc_deleted_at := Some now, bc_version := bc_version c0 + 1, bc_updated_at := now\<rparr>"
  assume c0: "column_get_by_id db k = Some c0" and b: "board_get_by_id db (bc_board_id c0) = Some b"
    and cols: "db_columns db1 = tput bc_id ?c (db_columns db)" and bds: "db_boards db1 = db_boards db"
    and sq: "db_seq db \<le> db_seq db1"
  from c0 assms(2) have c: "c0 = c" by simp
  note mem = column_get_by_idD [OF assms(2)]
  have in1: "?c \<in> set (db_columns db1)"
    using mem by (auto simp: cols c tput_def)
  moreover have "bc_id ?c \<noteq> db_seq db1 + 1"
    using assms(3) mem sq by (auto simp: board_tables_ok_def c)
  moreover have "board_get_by_id db1 (bc_board_id c) = Some b"
    using b bds by (simp add: board_get_by_id_def c)
  ultimately have refused: "create_board_column now' (bc_board_id c) i a' db1 =
      Inl (raise_msg DuplicateResourceError ''DUPLICATE_RESOURCE'')"
    using assms(4)
    by (auto simp: create_board_column_def get_board_def column_repo_create_def Let_def
        column_violation_def raise_duplicate_after_rollback_def c intro!: bexI [of _ ?c])
  have gone: "bc_deleted_at x \<noteq> None" if x: "x \<in> set (db_columns db1)" "bc_id x = k" for x
  proof -
    have "bc_id ?c = k" using mem c by simp
    with tput_mem [OF x(1) [unfolded cols]] x(2) have "x = ?c" by metis
    then show ?thesis by simp
  qed
  have "k \<notin> bc_id ` set (list_by_board db1 (bc_board_id c))"
    by (auto simp: list_by_board_def dest: gone)
  with refused show ?thesis by simp
qed

subsection \<open>Moving a task\<close>

lemma moved_task_frame [simp]:
  "tk_id (moved_task d s t) = tk_id t" "tk_project_id (moved_task d s t) = tk_project_id t"
  "tk_parent_task_id (moved_task d s t) = tk_parent_task_id t"
  "tk_task_code (moved_task d s t) = tk_task_code t" "tk_version (moved_task d s t) = tk_version t"
  "tk_deleted_at (moved_task d s t) = tk_deleted_at t"
  by (simp_all add: moved_task_def Let_def)

lemma task_ok_moved:
  "task_ok (moved_task today status t\<lparr>tk_status := status, tk_sort_order := so, tk_updated_by := a,
              tk_version := v, tk_updated_at := now\<rparr>)"
  by (auto simp: task_ok_def moved_task_def normalize_task_dates_def Let_def)

lemma planning_ok_False [simp]: "planning_ok False u"
  by (simp add: planning_ok_def)

lemma move_task_Inr:
  assumes "move_task env bid k m a db = Inr (t', db')"
  obtains (returned) "update_task env k (move_to_update m) a db = Inr (t', db')"
    | (moved) t where "task_get_by_id db k = Some t" and "tk_version t = mv_version m"
        and "t' = moved_task (env_today env) (mv_status m) t\<lparr>tk_status := mv_status m,
               tk_sort_order := mv_sort_order m, tk_updated_by := a, tk_version := tk_version t + 1,
               tk_updated_at := env_now env\<rparr>"
        and "same_tasks (task_put t' db) db'"
proof -
  obtain b t where t: "task_get_by_id db k = Some t" and v: "tk_version t = mv_version m"
    and res: "(if mv_status m = ''returned'' \<and> tk_status t \<noteq> ''returned''
     then update_task env (tk_id t) (move_to_update m) a db
     else (case task_repo_move (env_now env) (moved_task (env_today env) (mv_status m) t)
                  (mv_status m) (mv_sort_order m) a db of
             (t', db1) \<Rightarrow>
               Inr (t', record_board_change (env_now env) (tk_project_id t') ''task'' (tk_id t') ''moved''
                          (Some [(''status'', PStr (tk_status t)), (''sort_order'', PInt (tk_sort_order t))])
                          (Some [(''status'', PStr (tk_status t')), (''sort_order'', PInt (tk_sort_order t'))])
                          a db1))) = Inr (t', db')"
    using assms unfolding move_task_def get_task_def get_board_def
    by (elim ebind_InrE) auto
  show thesis
  proof (cases "mv_status m = ''returned'' \<and> tk_status t \<noteq> ''returned''")
    case True
    with res t show thesis by (intro returned) (simp add: task_get_id)
  next
    case False
    with res show thesis
      by (intro moved [OF t v])
         (auto simp: task_repo_move_def Let_def record_board_change_def intro: same_tasks_log)
  qed
qed

lemma task_put_inv:
  assumes "task_inv db" and t: "task_get_by_id db (tk_id t') = Some t" and "task_ok t'"
    and "tk_project_id t' = tk_project_id t" and "tk_task_code t' = tk_task_code t"
    and "tk_parent_task_id t' = tk_parent_task_id t"
  shows "task_inv (task_put t' db)"
proof -
  have inv: "task_table_ok db" "acyclic (parent_edges db)" using assms(1) by (auto simp: task_inv_def)
  have d: "distinct (map tk_id (db_tasks db))" using inv by (simp add: task_table_ok_def)
  have mem: "t \<in> set (db_tasks db)" "tk_id t = tk_id t'" using t by (auto dest: task_get_by_idD)
  have "tk_task_code x \<noteq> tk_task_code t'"
    if "x \<in> set (db_tasks db)" "tk_id x \<noteq> tk_id t'" "tk_project_id x = tk_project_id t'" for x
    using inv(1) mem that assms(4,5) by (auto simp: task_table_ok_def inj_on_def)
  with assms(3-6) have "task_table_ok (task_put t' db)"
    by (intro task_table_ok_put [OF inv(1) task_get_tget [OF t d]]) auto
  moreover have "acyclic (parent_edges (task_put t' db))"
    by (rule acyclic_put [OF inv(2) d t]) (simp add: assms(6))
  ultimately show ?thesis by (simp add: task_inv_def)
qed

lemma move_task_inv:
  assumes "task_inv db" and "move_task env bid k m a db = Inr (t', db')"
  shows "task_inv db'"
  using assms(2)
proof (cases rule: move_task_Inr)
  case returned
  with assms(1) show ?thesis unfolding update_task_def by (rule update_common_inv) simp
next
  case (moved t)
  have "task_inv (task_put t' db)"
    by (rule task_put_inv [OF assms(1), of _ t]) (use moved task_ok_moved in \<open>simp_all add: task_get_id\<close>)
  with moved(4) show ?thesis by (rule task_inv_same_tasks [rotated])
qed

subsection \<open>Concrete instances\<close>

definition board_run :: "app_error + board \<times> task_db" where
  "board_run = create_board 5 1 \<lparr>bdc_name = ''B'', bdc_description = None, bdc_board_type = ''kanban''\<rparr>
                 (Some 7) (sample_db [])"

definition todo_column :: column_create where
  "todo_column = \<lparr>bcc_name = ''To do'', bcc_status_key = ''todo'', bcc_sort_order = 0,
                  bcc_wip_limit = None, bcc_is_done_column = False\<rparr>"

definition column_run :: "app_error + board_column \<times> task_db" where
  "column_run = create_board_column 6 101 todo_column (Some 7) (snd (projr board_run))"

definition column_db :: task_db where
  "column_db = snd (projr column_run)"

definition rename_column :: "int \<Rightarrow> column_update" where
  "rename_column v = \<lparr>bcu_version = v, bcu_name = Set ''Next'', bcu_status_key = Unset,
                      bcu_sort_order = Unset, bcu_wip_limit = Null, bcu_is_done_column = Unset\<rparr>"

lemma column_db_rows:
  "map (\<lambda>c. (bc_id c, bc_board_id c, bc_status_key c, bc_version c, bc_deleted_at c)) (db_columns column_db) =
     [(103, 101, ''todo'', 1, None)]"
  "map (\<lambda>b. (bd_id b, bd_deleted_at b)) (db_boards column_db) = [(101, None)]"
  "db_seq column_db = 104"
  by code_simp+

lemma column_db_gets:
  obtains c b where "column_get_by_id column_db 103 = Some c" and "board_get_by_id column_db (bc_board_id c) = Some b"
    and "bc_version c = 1" and "bc_status_key c = ''todo''" and "bc_board_id c = 101"
  using column_db_rows
  by (auto simp: map_eq_Cons_conv column_get_by_id_def board_get_by_id_def)

lemma column_version_counts_updates_witness:
  "\<exists>c'. column_get_by_id (serve serve_column_update column_db
          [(103, 7, None, rename_column 1), (103, 8, None, rename_column 1), (103, 9, Some 7, rename_column 2)])
        103 = Some c' \<and> bc_version c' = 3"
proof (rule column_db_gets)
  fix c :: board_column and b
  assume "column_get_by_id column_db 103 = Some c" "board_get_by_id column_db (bc_board_id c) = Some b"
    "bc_version c = 1"
  moreover have "accepted serve_column_update 103 column_db
      [(103, 7, None, rename_column 1), (103, 8, None, rename_column 1), (103, 9, Some 7, rename_column 2)] = 2"
    by code_simp
  ultimately show ?thesis
    using column_version_counts_updates [of column_db 103 c b
        "[(103, 7, None, rename_column 1), (103, 8, None, rename_column 1), (103, 9, Some 7, rename_column 2)]"]
    by simp
qed

lemma deleted_column_keeps_status_key_witness:
  "103 \<notin> bc_id ` set (list_by_board (projr (delete_board_column 9 103 None column_db)) 101) \<and>
   (\<exists>e. create_board_column 10 101 todo_column None (projr (delete_board_column 9 103 None column_db)) = Inl e \<and>
        err_cls e = DuplicateResourceError)"
proof (rule column_db_gets)
  fix c :: board_column
  assume c: "column_get_by_id column_db 103 = Some c" "bc_status_key c = ''todo''" "bc_board_id c = 101"
  have run: "delete_board_column 9 103 None column_db = Inr (projr (delete_board_column 9 103 None column_db))"
    by (rule Inr_projr) code_simp
  have "board_tables_ok column_db"
    using column_db_rows by (auto simp: board_tables_ok_def map_eq_Cons_conv)
  with deleted_column_keeps_status_key [OF run c(1), of todo_column 10 None] c show ?thesis
    by (simp add: todo_column_def)
qed

end
