(* ===== verification/Task_System.thy ===== *)
theory Task_System imports Task_Board begin

text \<open>
  The task subsystem as a whole: the states reachable by any interleaving of task, board and other
  requests, optimistic locking of tasks, and restoring a task from the trash
  (\<^verbatim>\<open>app/services/trash.py\<close>, for tasks).

  \<open>task_step\<close> is one served request; \<open>elsewhere\<close> is any operation of another service, which leaves the
  task table alone. Restoring is kept out of \<open>task_step\<close> because it does not preserve the invariant.
\<close>

subsection \<open>Reachable states\<close>

inductive task_step :: "task_db \<Rightarrow> task_db \<Rightarrow> bool" where
  created: "env_ok env \<Longrightarrow> task_step db (snd (create_task env p i a db))"
| updated: "update_task env k u a db = Inr (t, db') \<Longrightarrow> task_step db db'"
| planned: "update_task_planning env k u a db = Inr (t, db') \<Longrightarrow> task_step db db'"
| moved: "move_task env b k m a db = Inr (t, db') \<Longrightarrow> task_step db db'"
| deleted: "delete_task env k a db = Inr db' \<Longrightarrow> task_step db db'"
| elsewhere: "db_tasks db' = db_tasks db \<Longrightarrow> db_seq db \<le> db_seq db' \<Longrightarrow> task_step db db'"

inductive task_reachable :: "task_db \<Rightarrow> bool" where
  empty: "db_tasks db = [] \<Longrightarrow> task_reachable db"
| step: "task_reachable db \<Longrightarrow> task_step db db' \<Longrightarrow> task_reachable db'"

inductive_cases task_stepE: "task_step db db'"

lemma planning_ok_planning: "planning_ok True (planning_to_update p)"
  by (auto simp: planning_ok_def)

lemma task_inv_elsewhere:
  "task_inv db \<Longrightarrow> db_tasks db' = db_tasks db \<Longrightarrow> db_seq db \<le> db_seq db' \<Longrightarrow> task_inv db'"
  using parent_edges_cong [of db' db]
  by (auto simp: task_inv_def task_table_ok_def intro: order_trans)

lemma task_inv_step: "task_step db db' \<Longrightarrow> task_inv db \<Longrightarrow> task_inv db'"
proof (erule task_stepE)
  fix env p i a
  assume "task_inv db" "db' = snd (create_task env p i a db)" "env_ok env"
  then show "task_inv db'" by (simp add: create_task_inv)
next
  fix env k u a t
  assume "task_inv db" "update_task env k u a db = Inr (t, db')"
  then show "task_inv db'" unfolding update_task_def by (rule update_common_inv) simp
next
  fix env k u a t
  assume "task_inv db" "update_task_planning env k u a db = Inr (t, db')"
  then show "task_inv db'"
    unfolding update_task_planning_def by (rule update_common_inv) (rule planning_ok_planning)
qed (blast intro: move_task_inv delete_task_inv task_inv_elsewhere)+

lemma task_inv_empty: "db_tasks db = [] \<Longrightarrow> task_inv db"
  by (simp add: task_inv_def task_table_ok_def parent_edges_def task_get_by_id_def acyclic_def)

lemma task_reachable_inv: "task_reachable db \<Longrightarrow> task_inv db"
proof (induction rule: task_reachable.induct)
  case (empty db)
  then show ?case by (rule task_inv_empty)
next
  case (step db db')
  then show ?case by (blast intro: task_inv_step)
qed

text \<open>
  C30: status, progress and actual dates agree in every reachable state: a task that is done has
  progress 100 and an actual end date, a task in progress has an actual start date, whatever mix of
  creations, updates, planning updates, board moves and deletions led there.
\<close>

theorem reachable_tasks_consistent:
  assumes "task_reachable db" and "t \<in> set (db_tasks db)"
  shows "(tk_status t = ''done'' \<longrightarrow> tk_progress_percent t = 100 \<and> tk_actual_end_date t \<noteq> None) \<and>
         (tk_status t = ''in_progress'' \<longrightarrow> tk_actual_start_date t \<noteq> None)"
  using task_reachable_inv [OF assms(1)] assms(2)
  by (simp add: task_inv_def task_table_ok_def task_ok_def)

text \<open>
  C26: as long as no deleted task is restored, the parents of the undeleted tasks form no cycle, and
  a task's parent is a task of the same project.
\<close>

theorem reachable_hierarchy:
  assumes "task_reachable db"
  shows "acyclic (parent_edges db) \<and>
         (\<forall>t \<in> set (db_tasks db). \<forall>p. tk_parent_task_id t = Some p \<longrightarrow>
            (\<exists>q \<in> set (db_tasks db). tk_id q = p \<and> tk_project_id q = tk_project_id t))"
  using task_reachable_inv [OF assms] by (simp add: task_inv_def task_table_ok_def)

text \<open>
  ids and, within a project, task codes identify tasks in every reachable state, also when
  concurrent sessions take automatic codes between the numbering and the insert (deleted tasks
  keep theirs).
\<close>

theorem reachable_codes_unique:
  assumes "task_reachable db" and "t \<in> set (db_tasks db)" and "t' \<in> set (db_tasks db)"
    and "tk_id t = tk_id t' \<or> (tk_project_id t = tk_project_id t' \<and> tk_task_code t = tk_task_code t')"
  shows "t = t'"
  using task_reachable_inv [OF assms(1)] assms(2-4)
  unfolding task_inv_def task_table_ok_def distinct_map inj_on_def by blast

subsection \<open>Optimistic locking of tasks\<close>

datatype task_request =
    Edit task_env "int option" task_update
  | Plan task_env "int option" task_planning_update

fun serve_task_update :: "int \<Rightarrow> task_request \<Rightarrow> task_db \<Rightarrow> app_error + task \<times> task_db" where
  "serve_task_update k (Edit env a u) db = update_task env k u a db"
| "serve_task_update k (Plan env a p) db = update_task_planning env k p a db"

fun task_req :: "task_request \<Rightarrow> int" where
  "task_req (Edit env a u) = tu_version u"
| "task_req (Plan env a p) = tp_version p"

definition task_ver :: "int \<Rightarrow> task_db \<Rightarrow> int option" where
  "task_ver k db = map_option tk_version (task_get_by_id db k)"

lemma task_get_after_put:
  assumes "task_get_by_id db k = Some t" and "tk_id t' = k" and "tk_deleted_at t' = None"
    and "same_tasks (task_put t' db) db'"
  shows "task_get_by_id db' j = (if j = k then Some t' else task_get_by_id db j)"
  using find_active_put [of tk_id k "\<lambda>t. tk_deleted_at t = None" "db_tasks db" t t' j] assms
  by (simp add: task_get_by_id_def same_tasks_def task_put_def tput_def)

lemma task_ver_after_update:
  assumes "update_task_common env planning k u0 a db = Inr (t', db')" and "planning_ok planning u0"
  shows "task_ver j db' = (if j = k then Some (tu_version u0 + 1) else task_ver j db)"
proof (rule update_common_effect [OF assms])
  fix t
  assume "task_get_by_id db k = Some t" "tu_version u0 = tk_version t" "tk_version t' = tk_version t + 1"
    "tk_id t' = k" "tk_deleted_at t' = None" "same_tasks (task_put t' db) db'"
  then show ?thesis
    using task_get_after_put [of db k t t' db' j] by (simp add: task_ver_def)
qed

lemma update_common_stale:
  "task_ver k db = Some v \<Longrightarrow> tu_version u \<noteq> v \<Longrightarrow>
   \<exists>c. update_task_common env planning k u a db = Inl (version_conflict c)"
  by (auto simp: task_ver_def update_task_common_def get_task_def)

lemma update_common_absent:
  "task_ver k db = None \<Longrightarrow> \<exists>e. update_task_common env planning k u a db = Inl e \<and> err_cls e = NotFoundError"
  by (auto simp: task_ver_def update_task_common_def get_task_def)

lemma planning_version [simp]: "tu_version (planning_to_update p) = tp_version p"
  by (simp add: planning_to_update_def)

interpretation tk: versioned task_ver serve_task_update task_req
proof
  fix k db v q
  assume "task_ver k db = Some v" "task_req q \<noteq> v"
  then show "\<exists>c. serve_task_update k q db = Inl (version_conflict c)"
    by (cases q) (simp_all add: update_common_stale update_task_def update_task_planning_def)
next
  fix k db q
  assume "task_ver k db = None"
  then show "\<exists>e. serve_task_update k q db = Inl e \<and> err_cls e = NotFoundError"
    by (cases q) (simp_all add: update_common_absent update_task_def update_task_planning_def)
next
  fix k q db r db' k'
  assume "serve_task_update k q db = Inr (r, db')"
  then obtain env :: task_env and planning a u where
    "update_task_common env planning k u a db = Inr (r, db')" "planning_ok planning u"
    and v: "task_req q = tu_version u"
    by (cases q) (auto simp: update_task_def update_task_planning_def planning_ok_planning)
  note after = task_ver_after_update [OF this(1,2)]
  show "task_ver k db' = Some (task_req q + 1)" and "k' \<noteq> k \<Longrightarrow> task_ver k' db' = task_ver k' db"
    by (simp_all add: after v)
qed


subsection \<open>Returning a task\<close>

definition has_notice :: "task_db \<Rightarrow> int \<Rightarrow> string \<Rightarrow> bool" where
  "has_notice db r key \<longleftrightarrow> (\<exists>n \<in> set (db_notices db). nt_recipient n = r \<and> nt_event_key n = key)"

lemma has_notice_once [simp]:
  "has_notice (notice_create_once n db) r key \<longleftrightarrow>
     has_notice db r key \<or> (nt_recipient n = r \<and> nt_event_key n = key)"
  by (auto simp: has_notice_def notice_create_once_def)

lemma has_notice_emit:
  "has_notice (emit_notice [s] a p kind i v title c e db) r key \<longleftrightarrow>
     has_notice db r key \<or>
     (r = s \<and> Some s \<noteq> a \<and> (p, s) \<in> set (db_readers db) \<and> key = task_event_key i v kind)"
  by (auto simp: emit_notice_def Let_def)

lemma has_notice_frame [simp]:
  "has_notice (change_log_create n p tt ti ac f ov nv re ch db) r key = has_notice db r key"
  "has_notice (record_task_audit ev ch p res md db) r key = has_notice db r key"
  "has_notice (record_task_update_logs n t o_v n_v fs re ch db) r key = has_notice db r key"
  by (simp_all add: has_notice_def record_task_audit_def record_task_update_logs_def split: option.splits)

lemma has_notice_assignment:
  "has_notice db r key \<Longrightarrow> has_notice (assignment_changed p a i v pu ru title db) r key"
  by (auto simp: assignment_changed_def has_notice_emit split: option.splits)

lemma returned_notice:
  assumes "tk_assignee_id t = Some r" and "Some r \<noteq> a" and "(tk_project_id t, r) \<in> set (db_readers db)"
  shows "has_notice (updated_task_logged env u a True snap t0 t db) r
           (task_event_key (tk_id t) (tk_version t) ''task_returned'')"
  using assms unfolding updated_task_logged_def Let_def
  by (auto simp: has_notice_emit split: prod.splits intro!: has_notice_assignment)

text \<open>
  a task is returned only with a reason, and its assignee learns of it: an accepted update that
  turns a task's status to returned carries a non-blank reason, and leaves the assignee (other than
  the actor, and allowed to read the project) a notification of this version of the task.
\<close>

theorem returned_needs_reason:
  assumes "update_task env k u a db = Inr (t', db')" and "task_get_by_id db k = Some t"
    and "tk_status t \<noteq> ''returned''" and "tk_status t' = ''returned''"
  shows "(\<exists>r. tu_change_reason u = Some r \<and> py_strip r \<noteq> []) \<and>
         (\<forall>r. tk_assignee_id t' = Some r \<and> Some r \<noteq> a \<and> (tk_project_id t', r) \<in> set (db_readers db) \<longrightarrow>
            has_notice db' r (task_event_key k (tk_version t + 1) ''task_returned''))"
proof -
  from assms(1) have u: "update_task_common env False k u a db = Inr (t', db')" by (simp add: update_task_def)
  show ?thesis
  proof (rule update_common_Inr [OF u])
    fix t0 u' db1
    assume "task_get_by_id db k = Some t0" and checks: "update_task_checks False t0 u db = Inr u'"
      and "task_repo_update (env_now env) a (normalized_update (env_today env) False t0 u') t0 db = Inr (t', db1)"
      and db': "db' = updated_task_logged env u' a (is_returning t0 u') (task_snapshot db t0) t0 t' db1"
    with assms(2) have t: "t0 = t"
      and row: "t' = task_update_row (env_now env) a (normalized_update (env_today env) False t u') t"
      and db1: "db1 = task_put t' db"
      and nn: "\<not> violates_not_null (normalized_update (env_today env) False t u')"
      by (auto simp: task_repo_update_def Let_def split: if_splits)
    have ids: "tk_id t' = k" "tk_version t' = tk_version t + 1"
      using assms(2) by (simp_all add: row task_get_id)
    have "tk_status t' = next_status t u'"
      using set_required_status [OF refl nn] by (simp add: row task_update_row_def)
    with assms(3,4) have ret: "is_returning t u'" by (simp add: is_returning_def)
    have "has_notice db' r (task_event_key k (tk_version t + 1) ''task_returned'')"
      if "tk_assignee_id t' = Some r" "Some r \<noteq> a" "(tk_project_id t', r) \<in> set (db_readers db)" for r
      using returned_notice [of t' r a db1] that ids ret by (simp add: db' t db1 task_put_def)
    moreover have "\<exists>r. tu_change_reason u = Some r \<and> py_strip r \<noteq> []"
      using update_checks_Inr(1,4) [OF checks] t ret by (auto simp: normalize_code_patch_def split: if_splits)
    ultimately show ?thesis by blast
  qed
qed

subsection \<open>A null status\<close>

text \<open>The update that changes nothing, for requests that name a few fields.\<close>

definition no_change :: "int \<Rightarrow> task_update" where
  "no_change v =
     \<lparr>tu_version = v, tu_phase_assignment = Unset, tu_estimated_basis = Unset, tu_actual_basis = Unset,
      tu_parent_task_id = Unset, tu_task_code = Unset, tu_title = Unset, tu_description = Unset,
      tu_task_type = Unset, tu_status = Unset, tu_priority = Unset, tu_assignee_id = Unset,
      tu_reporter_id = Unset, tu_start_date = Unset, tu_due_date = Unset, tu_actual_start_date = Unset,
      tu_actual_end_date = Unset, tu_progress_percent = Unset, tu_estimated_minutes = Unset,
      tu_actual_minutes = Unset, tu_sort_order = Unset, tu_tags = Unset, tu_change_reason = None\<rparr>"

text \<open>
  A request that sends \<open>status: null\<close> (the schema allows it) for an existing task with the current
  version is refused as a duplicate task code: the NOT NULL violation of the write is caught by the
  handler meant for the unique constraint.
\<close>

theorem null_status_reported_as_duplicate:
  assumes "task_reachable db" and "task_get_by_id db k = Some t"
  shows "update_task env k ((no_change (tk_version t))\<lparr>tu_status := Null\<rparr>) a db =
           Inl (raise_msg DuplicateResourceError ''TASK_CODE_ALREADY_EXISTS'')"
proof -
  let ?u = "(no_change (tk_version t))\<lparr>tu_status := Null\<rparr>"
  have ok: "task_ok t"
    using task_reachable_inv [OF assms(1)] assms(2)
    by (auto simp: task_inv_def task_table_ok_def dest: task_get_by_idD)
  have "update_task_checks False t ?u db = Inr ?u"
    using ok by (simp add: update_task_checks_def normalize_code_patch_def no_change_def is_returning_def
        next_status_def next_progress_def validate_task_state_def task_ok_def Let_def)
  moreover have "violates_not_null (normalized_update (env_today env) False t ?u)"
    by (simp add: violates_not_null_def normalized_update_fields no_change_def)
  ultimately show ?thesis
    using assms(2)
    by (simp add: update_task_def update_task_common_def get_task_def task_repo_update_def Let_def
        raise_duplicate_after_rollback_def no_change_def)
qed

subsection \<open>Concrete instances\<close>

definition plain_env :: task_env where
  "plain_env = \<lparr>env_now = 1000, env_today = 10, env_phase_fields = \<lambda>_ _. [],
                env_requirements = \<lambda>_ _. [], env_others = \<lambda>_ db. db\<rparr>"

definition sample_create :: task_create where
  "sample_create =
     \<lparr>tc_parent_task_id = None, tc_task_code = None, tc_title = ''new'', tc_description = None,
      tc_task_type = ''other'', tc_status = ''in_progress'', tc_priority = ''medium'',
      tc_assignee_id = Some 7, tc_reporter_id = None, tc_start_date = None, tc_due_date = None,
      tc_actual_start_date = None, tc_actual_end_date = None, tc_progress_percent = 0,
      tc_estimated_minutes = None, tc_actual_minutes = None, tc_estimated_basis = ''own'',
      tc_actual_basis = ''own'', tc_sort_order = 0, tc_tags = [], tc_phase_assignment = None,
      tc_requirement_id = None, tc_relation_type = ''implements''\<rparr>"

definition one_db :: task_db where
  "one_db = snd (create_task plain_env 1 sample_create (Some 5) (sample_db []))"

definition one_task :: task where
  "one_task = hd (db_tasks one_db)"

lemma plain_env_ok: "env_ok plain_env"
  by (simp add: env_ok_def plain_env_def)

lemma one_db_reachable: "task_reachable one_db"
  unfolding one_db_def
  by (rule task_reachable.step [OF task_reachable.empty task_step.created [OF plain_env_ok]])
     (simp add: sample_db_def)

lemma one_db_tasks:
  "map (\<lambda>t. (tk_id t, tk_project_id t, tk_task_code t, tk_status t, tk_version t, tk_assignee_id t,
             tk_actual_start_date t, tk_deleted_at t)) (db_tasks one_db) =
     [(101, 1, ''TASK-001'', ''in_progress'', 1, Some 7, Some 10, None)]"
  by code_simp

lemma one_task_mem: "one_task \<in> set (db_tasks one_db)"
  and one_task_values:
    "tk_status one_task = ''in_progress'' \<and> tk_actual_start_date one_task = Some 10 \<and>
     tk_id one_task = 101 \<and> tk_version one_task = 1 \<and> tk_task_code one_task = ''TASK-001'' \<and>
     tk_assignee_id one_task = Some 7 \<and> tk_project_id one_task = 1 \<and> tk_deleted_at one_task = None"
  using one_db_tasks by (auto simp: one_task_def map_eq_Cons_conv)

lemma one_task_get: "task_get_by_id one_db 101 = Some one_task"
proof -
  have "distinct (map tk_id (db_tasks one_db))"
    using task_reachable_inv [OF one_db_reachable] by (simp add: task_inv_def task_table_ok_def)
  then show ?thesis by (simp add: task_get_by_id_iff one_task_mem one_task_values)
qed

lemma reachable_tasks_consistent_witness:
  "tk_status one_task = ''in_progress'' \<and> tk_actual_start_date one_task \<noteq> None"
  using reachable_tasks_consistent [OF one_db_reachable one_task_mem] one_task_values by simp

lemma reachable_hierarchy_witness:
  "db_tasks one_db \<noteq> [] \<and> acyclic (parent_edges one_db)"
  using reachable_hierarchy [OF one_db_reachable] one_task_mem by auto

lemma reachable_codes_unique_witness:
  "\<exists>t \<in> set (db_tasks one_db). tk_task_code t = ''TASK-001'' \<and> t = one_task"
  using reachable_codes_unique [OF one_db_reachable one_task_mem one_task_mem] one_task_mem one_task_values by blast

definition return_update :: task_update where
  "return_update = (no_change 1)\<lparr>tu_status := Set ''returned'', tu_change_reason := Some ''fix it''\<rparr>"

definition returned_run :: "app_error + task \<times> task_db" where
  "returned_run = update_task plain_env 101 return_update (Some 5) one_db"

lemma returned_run_ok:
  "case returned_run of Inl _ \<Rightarrow> False
   | Inr (t, db') \<Rightarrow> tk_status t = ''returned'' \<and> tk_assignee_id t = Some 7 \<and> tk_project_id t = 1"
  by code_simp

lemma returned_run_eq:
  "update_task plain_env 101 return_update (Some 5) one_db =
     Inr (fst (projr returned_run), snd (projr returned_run))"
  using run_case [OF returned_run_ok] by (simp add: returned_run_def)

lemma returned_run_values:
  "tk_status (fst (projr returned_run)) = ''returned'' \<and>
   tk_assignee_id (fst (projr returned_run)) = Some 7 \<and> tk_project_id (fst (projr returned_run)) = 1"
  using run_case [OF returned_run_ok] by simp

lemma one_db_readers: "(1, 7) \<in> set (db_readers one_db)"
  by code_simp


lemma returned_needs_reason_witness:
  "has_notice (snd (projr returned_run)) 7 (task_event_key 101 2 ''task_returned'')"
proof -
  have "tk_status one_task \<noteq> ''returned''" using one_task_values by simp
  from returned_needs_reason [OF returned_run_eq one_task_get this] returned_run_values one_task_values one_db_readers
  show ?thesis by simp
qed

lemma null_status_reported_as_duplicate_witness:
  "update_task plain_env 101 ((no_change (tk_version one_task))\<lparr>tu_status := Null\<rparr>) None one_db =
     Inl (raise_msg DuplicateResourceError ''TASK_CODE_ALREADY_EXISTS'')"
  by (rule null_status_reported_as_duplicate [OF one_db_reachable one_task_get])

end
