(* ===== verification/Task_Queries.thy ===== *)
theory Task_Queries imports Task_System "HOL-Library.Multiset" begin

text \<open>
  Listing tasks: \<open>filtered_query\<close>, \<open>list_paginated\<close>, \<open>list_for_gantt\<close> and \<open>list_tags\<close> of
  \<^verbatim>\<open>app/repositories/task_item.py\<close> with \<open>list_tasks\<close> of \<^verbatim>\<open>app/services/task.py\<close>, and the progress of
  a requirement.

  A SQL condition is a \<open>bool option\<close> (\<open>None\<close> is SQL's unknown) and \<open>WHERE\<close> keeps the rows whose
  condition is true. Joining the relations yields one row per relation; the ORM's \<open>Query.all\<close> returns
  each entity of a page once, while \<open>Query.count\<close> counts rows. Codes are compared by character.
\<close>

subsection \<open>SQL conditions\<close>

definition sql_or :: "bool option \<Rightarrow> bool option \<Rightarrow> bool option" where
  "sql_or a b = (if a = Some True \<or> b = Some True then Some True
                 else if a = None \<or> b = None then None else Some False)"

definition sql_and :: "bool option \<Rightarrow> bool option \<Rightarrow> bool option" where
  "sql_and a b = (if a = Some False \<or> b = Some False then Some False
                  else if a = None \<or> b = None then None else Some True)"

definition lower_ascii :: "char \<Rightarrow> char" where
  "lower_ascii c = (let n = of_char c :: nat in if 65 \<le> n \<and> n \<le> 90 then char_of (n + 32) else c)"

text \<open>\<open>LIKE\<close>: \<open>%\<close> stands for any string, \<open>_\<close> for any character, a backslash makes the next literal.\<close>

fun like_match :: "string \<Rightarrow> string \<Rightarrow> bool" where
  "like_match [] s = (s = [])"
| "like_match (p # ps) s =
     (if p = CHR ''%'' then list_ex (\<lambda>n. like_match ps (drop n s)) [0..<Suc (length s)]
      else if p = CHR ''_'' then (case s of [] \<Rightarrow> False | _ # s' \<Rightarrow> like_match ps s')
      else if p = char_of (92 :: nat) then
        (case (ps, s) of (q # ps', c # s') \<Rightarrow> q = c \<and> like_match ps' s' | _ \<Rightarrow> False)
      else (case s of [] \<Rightarrow> False | c # s' \<Rightarrow> p = c \<and> like_match ps s'))"

definition ilike :: "string \<Rightarrow> string \<Rightarrow> bool" where
  "ilike s pattern = like_match (map lower_ascii pattern) (map lower_ascii s)"

subsection \<open>The filtered query\<close>

record task_filters =
  tf_status :: "string option"
  tf_statuses :: "string list option"
  tf_exclude_statuses :: "string list option"
  tf_hierarchy :: "string option"
  tf_assignee_id :: "int option"
  tf_requirement_id :: "int option"
  tf_parent_task_id :: "int option"
  tf_root_only :: "bool option"
  tf_start_date_from :: "int option"
  tf_due_date_to :: "int option"
  tf_overdue :: "bool option"
  tf_task_type :: "string option"
  tf_priority :: "string option"
  tf_tag :: "string option"
  tf_q :: "string option"

definition has_children :: "task_db \<Rightarrow> task \<Rightarrow> bool" where
  "has_children db t \<longleftrightarrow>
     (\<exists>c \<in> set (db_tasks db). tk_parent_task_id c = Some (tk_id t) \<and>
        tk_project_id c = tk_project_id t \<and> tk_deleted_at c = None)"

definition overdue_condition :: "int \<Rightarrow> bool \<Rightarrow> task \<Rightarrow> bool option" where
  "overdue_condition today overdue t =
     (let closed = tk_status t \<in> {''done'', ''cancelled''} in
      if overdue
      then sql_and (map_option (\<lambda>d. d < today) (tk_due_date t)) (Some (\<not> closed))
      else sql_or (map_option (\<lambda>d. today \<le> d) (tk_due_date t)) (Some closed))"

definition opt_check :: "'a option \<Rightarrow> ('a \<Rightarrow> bool) \<Rightarrow> bool" where
  "opt_check x p = (case x of None \<Rightarrow> True | Some v \<Rightarrow> p v)"

definition task_matches :: "task_env \<Rightarrow> task_db \<Rightarrow> int \<Rightarrow> task_filters \<Rightarrow> task \<Rightarrow> bool" where
  "task_matches env db project_id f t \<longleftrightarrow>
     tk_project_id t = project_id \<and> tk_deleted_at t = None \<and>
     opt_check (tf_parent_task_id f) (\<lambda>p. tk_parent_task_id t = Some p) \<and>
     (tf_root_only f = Some True \<longrightarrow> tk_parent_task_id t = None) \<and>
     opt_check (tf_status f) (\<lambda>s. tk_status t = s) \<and>
     opt_check (tf_statuses f) (\<lambda>ss. tk_status t \<in> set ss) \<and>
     opt_check (tf_exclude_statuses f) (\<lambda>ss. tk_status t \<notin> set ss) \<and>
     opt_check (tf_hierarchy f) (\<lambda>h.
       (h \<in> {''parent'', ''root_parent'', ''middle_parent''} \<longrightarrow> has_children db t) \<and>
       (h \<in> {''leaf'', ''standalone''} \<longrightarrow> \<not> has_children db t) \<and>
       (h \<in> {''root_parent'', ''standalone''} \<longrightarrow> tk_parent_task_id t = None) \<and>
       (h \<in> {''middle_parent'', ''leaf''} \<longrightarrow> tk_parent_task_id t \<noteq> None)) \<and>
     opt_check (tf_task_type f) (\<lambda>ty. tk_task_type t = ty) \<and>
     opt_check (tf_priority f) (\<lambda>p. tk_priority t = p) \<and>
     opt_check (tf_assignee_id f) (\<lambda>a. tk_assignee_id t = Some a) \<and>
     opt_check (tf_tag f) (\<lambda>tag. tag \<in> set (tk_tags t)) \<and>
     opt_check (tf_start_date_from f) (\<lambda>d. map_option (\<lambda>s. d \<le> s) (tk_start_date t) = Some True) \<and>
     opt_check (tf_due_date_to f) (\<lambda>d. map_option (\<lambda>s. s \<le> d) (tk_due_date t) = Some True) \<and>
     opt_check (tf_overdue f) (\<lambda>b. overdue_condition (env_today env) b t = Some True) \<and>
     opt_check (tf_q f) (\<lambda>q. q = [] \<or>
       (let pattern = ''%'' @ q @ ''%'' in
        sql_or (Some (ilike (tk_task_code t) pattern))
          (sql_or (Some (ilike (tk_title t) pattern))
                  (map_option (\<lambda>d. ilike d pattern) (tk_description t))) = Some True))"

definition filtered_query :: "task_env \<Rightarrow> task_db \<Rightarrow> int \<Rightarrow> task_filters \<Rightarrow> task list" where
  "filtered_query env db project_id f =
     concat (map (\<lambda>t. case tf_requirement_id f of
                        None \<Rightarrow> [t]
                      | Some r \<Rightarrow> replicate (length (filter (\<lambda>x. rl_task_id x = tk_id t \<and>
                                    rl_requirement_id x = r) (db_relations db))) t)
       (filter (task_matches env db project_id f) (db_tasks db)))"

definition by_id :: "task list \<Rightarrow> task list" where
  "by_id = sort_key tk_id"

definition build_order_by :: "string option \<Rightarrow> task list \<Rightarrow> task list" where
  "build_order_by sort_name ts =
     (let dated = filter (\<lambda>t. tk_due_date t \<noteq> None) ts;
          undated = filter (\<lambda>t. tk_due_date t = None) ts;
          due = (\<lambda>t. case tk_due_date t of None \<Rightarrow> 0 | Some d \<Rightarrow> d);
          s = (case sort_name of None \<Rightarrow> [] | Some s \<Rightarrow> s)
      in if s = ''updated_desc'' then rev (sort_key tk_updated_at (by_id ts))
         else if s = ''updated_asc'' then sort_key tk_updated_at (by_id ts)
         else if s = ''code_asc'' then sort_key tk_task_code (by_id ts)
         else if s = ''code_desc'' then rev (sort_key tk_task_code (by_id ts))
         else if s = ''due_date_asc'' then sort_key due (by_id dated) @ by_id undated
         else if s = ''due_date_desc'' then rev (sort_key due (by_id dated)) @ rev (by_id undated)
         else if s = ''progress_desc'' then rev (sort_key tk_progress_percent (by_id ts))
         else sort_key tk_sort_order (by_id ts))"

definition page_rows :: "nat \<Rightarrow> nat \<Rightarrow> 'a list \<Rightarrow> 'a list" where
  "page_rows page page_size rows = take page_size (drop ((page - 1) * page_size) rows)"

definition list_paginated ::
  "task_env \<Rightarrow> task_db \<Rightarrow> int \<Rightarrow> nat \<Rightarrow> nat \<Rightarrow> string option \<Rightarrow> task_filters \<Rightarrow> task list \<times> nat" where
  "list_paginated env db project_id page page_size sort_name f =
     (let query = filtered_query env db project_id f
      in (remdups (page_rows page page_size (build_order_by sort_name query)), length query))"

definition list_tasks ::
  "task_env \<Rightarrow> task_db \<Rightarrow> int \<Rightarrow> nat \<Rightarrow> nat \<Rightarrow> string option \<Rightarrow> task_filters \<Rightarrow> app_error + task list \<times> nat" where
  "list_tasks env db project_id page page_size sort_name f =
     ebind (ensure_project_exists db project_id) (\<lambda>_.
     ebind (case tf_requirement_id f of None \<Rightarrow> Inr ()
            | Some r \<Rightarrow> ensure_requirement_in_project db project_id r) (\<lambda>_.
     ebind (raise_if (tf_parent_task_id f \<noteq> None \<and> tf_root_only f = Some True)
              (raise_msg BadRequestError ''TASK_PARENT_FILTER_CONFLICT'')) (\<lambda>_.
     ebind (validate_parent_task db project_id (tf_parent_task_id f) None) (\<lambda>_.
     Inr (list_paginated env db project_id page page_size sort_name f)))))"

definition list_tags :: "task_db \<Rightarrow> int \<Rightarrow> string list" where
  "list_tags db project_id =
     sort (remdups (filter (\<lambda>tag. tag \<noteq> [])
       (concat (map tk_tags (filter (\<lambda>t. tk_project_id t = project_id \<and> tk_deleted_at t = None) (db_tasks db))))))"

definition list_for_gantt ::
  "task_db \<Rightarrow> int \<Rightarrow> int option \<Rightarrow> int option \<Rightarrow> int option \<Rightarrow> int option \<Rightarrow> task list" where
  "list_for_gantt db project_id start_date end_date requirement_id assignee_id =
     (let nulls_last = (\<lambda>key ts. sort_key (\<lambda>t. case key t of None \<Rightarrow> 0 | Some d \<Rightarrow> d)
                          (filter (\<lambda>t. key t \<noteq> None) ts) @ filter (\<lambda>t. key t = None) ts)
      in nulls_last tk_start_date (nulls_last tk_due_date (by_id
        (filter (\<lambda>t. tk_project_id t = project_id \<and> tk_deleted_at t = None \<and>
            opt_check requirement_id (\<lambda>r. \<exists>x \<in> set (db_relations db).
              rl_requirement_id x = r \<and> rl_task_id x = tk_id t) \<and>
            opt_check assignee_id (\<lambda>a. tk_assignee_id t = Some a) \<and>
            opt_check start_date (\<lambda>s. tk_due_date t = None \<or> map_option (\<lambda>d. s \<le> d) (tk_due_date t) = Some True) \<and>
            opt_check end_date (\<lambda>e. tk_start_date t = None \<or> map_option (\<lambda>d. d \<le> e) (tk_start_date t) = Some True))
          (db_tasks db)))))"

subsection \<open>Overdue\<close>

text \<open>
  the filter \<open>overdue=true\<close> lists exactly the tasks the service reports as overdue, but
  \<open>overdue=false\<close> does not list the others: an open task without a due date, which is not overdue, is
  in neither list, because its comparison with null is unknown.
\<close>

theorem overdue_filter:
  "(overdue_condition today True t = Some True) = is_overdue today t \<and>
   (overdue_condition today False t = Some True) =
     (\<not> is_overdue today t \<and> \<not> (tk_due_date t = None \<and> tk_status t \<notin> {''done'', ''cancelled''}))"
proof (cases "tk_due_date t")
  case None
  then show ?thesis
    by (simp add: overdue_condition_def is_overdue_def sql_and_def sql_or_def Let_def)
next
  case (Some d)
  then show ?thesis
    by (auto simp: overdue_condition_def is_overdue_def sql_and_def sql_or_def Let_def)
qed

subsection \<open>Pages\<close>

lemma mset_order: "mset (build_order_by s ts) = mset ts"
proof -
  have "mset (filter (\<lambda>t. tk_due_date t \<noteq> None) ts) + mset (filter (\<lambda>t. tk_due_date t = None) ts) = mset ts"
    by (induction ts) auto
  then show ?thesis
    by (simp add: build_order_by_def by_id_def Let_def)
qed

lemma pages_cover: "concat (map (\<lambda>p. page_rows p n rows) [1..<Suc k]) = take (k * n) rows"
proof (induction k)
  case (Suc k)
  have "[1..<Suc (Suc k)] = [1..<Suc k] @ [Suc k]" by simp
  with Suc show ?case
    using take_add [of "k * n" n rows] by (simp only: map_append concat_append) (simp add: page_rows_def add.commute)
qed simp

lemma filtered_no_join:
  "tf_requirement_id f = None \<Longrightarrow>
   filtered_query env db p f = filter (task_matches env db p f) (db_tasks db)"
  by (simp add: filtered_query_def concat_map_singleton [of id, simplified])

text \<open>
  without a requirement filter the pages of a listing are an exact partition: the total is the
  number of matching tasks, and going through the pages until the total is covered shows every
  matching task exactly once, in every sort order.
\<close>

theorem pages_partition:
  assumes "task_reachable db" and "tf_requirement_id f = None" and "0 < n"
    and "snd (list_paginated env db p 1 n s f) \<le> k * n"
  shows "mset (concat (map (\<lambda>page. fst (list_paginated env db p page n s f)) [1..<Suc k])) =
         mset (filter (task_matches env db p f) (db_tasks db)) \<and>
         snd (list_paginated env db p 1 n s f) = length (filter (task_matches env db p f) (db_tasks db))"
proof -
  let ?q = "filter (task_matches env db p f) (db_tasks db)" and ?o = "build_order_by s (filter (task_matches env db p f) (db_tasks db))"
  have "distinct (db_tasks db)"
    using task_reachable_inv [OF assms(1)] by (simp add: task_inv_def task_table_ok_def distinct_map)
  then have d: "distinct ?o"
    using mset_eq_imp_distinct_iff [OF mset_order [of s ?q]] by simp
  have fst: "fst (list_paginated env db p page n s f) = page_rows page n ?o" for page
    using d by (simp add: list_paginated_def Let_def filtered_no_join [OF assms(2)] page_rows_def
        distinct_remdups_id)
  have total: "snd (list_paginated env db p page n s f) = length ?q" for page
    by (simp add: list_paginated_def Let_def filtered_no_join [OF assms(2)])
  have "length ?o = length ?q" by (metis mset_order size_mset)
  with assms(4) total have "take (k * n) ?o = ?o" by simp
  then show ?thesis
    by (simp only: fst pages_cover mset_order total)
qed

text \<open>
  With a requirement filter the total counts relations, not tasks: a task related to the
  requirement in two ways is listed once while the total says two.
\<close>

theorem requirement_filter_total_counts_relations:
  assumes "task_reachable db" and "tf_requirement_id f = Some r"
    and "ra \<in> set (db_relations db)" and "rb \<in> set (db_relations db)" and "rl_id ra \<noteq> rl_id rb"
    and "rl_requirement_id ra = r" and "rl_requirement_id rb = r" and "rl_task_id rb = rl_task_id ra"
    and "t \<in> set (db_tasks db)" and "tk_id t = rl_task_id ra" and "task_matches env db p f t"
  shows "card (set (filtered_query env db p f)) < snd (list_paginated env db p page n s f)"
proof -
  let ?q = "filtered_query env db p f"
  let ?k = "\<lambda>t. length (filter (\<lambda>x. rl_task_id x = tk_id t \<and> rl_requirement_id x = r) (db_relations db))"
  have "ra \<in> set (filter (\<lambda>x. rl_task_id x = tk_id t \<and> rl_requirement_id x = r) (db_relations db))"
    "rb \<in> set (filter (\<lambda>x. rl_task_id x = tk_id t \<and> rl_requirement_id x = r) (db_relations db))" "ra \<noteq> rb"
    using assms by auto
  then have two: "2 \<le> ?k t"
    by (cases "filter (\<lambda>x. rl_task_id x = tk_id t \<and> rl_requirement_id x = r) (db_relations db)")
       (auto simp: Suc_le_eq)
  obtain xs ys where "filter (task_matches env db p f) (db_tasks db) = xs @ t # ys"
    using assms(9,11) split_list [of t "filter (task_matches env db p f) (db_tasks db)"] by auto
  then have q: "?q = concat (map (\<lambda>t. replicate (?k t) t) xs) @ replicate (?k t) t @
                     concat (map (\<lambda>t. replicate (?k t) t) ys)"
    by (simp add: filtered_query_def assms(2))
  have "\<not> distinct ?q"
    using two by (cases "?k t") (auto simp: q)
  then have "card (set ?q) < length ?q"
    using card_length [of ?q] card_distinct [of ?q] by linarith
  then show ?thesis by (simp add: list_paginated_def Let_def)
qed

subsection \<open>Progress of a requirement\<close>

lemma sum_list_bounds:
  "(\<And>x. x \<in> set xs \<Longrightarrow> lo \<le> f x \<and> f x \<le> hi) \<Longrightarrow>
   lo * int (length xs) \<le> sum_list (map f xs) \<and> sum_list (map f xs) \<le> hi * int (length xs)"
proof (induction xs)
  case (Cons a xs)
  then have "lo * int (length xs) \<le> sum_list (map f xs) \<and> sum_list (map f xs) \<le> hi * int (length xs)"
    and "lo \<le> f a \<and> f a \<le> hi" by auto
  then show ?case by (simp add: algebra_simps)
qed simp

lemma round_half_even_bounds:
  assumes "0 < n" and "lo * n \<le> s" and "s \<le> hi * n"
  shows "lo \<le> round_half_even s n \<and> round_half_even s n \<le> hi"
proof -
  have s: "s = n * (s div n) + s mod n" and r: "0 \<le> s mod n" "s mod n < n"
    using assms(1) by simp_all
  have lo: "lo \<le> s div n"
    using zdiv_mono1 [OF assms(2,1)] assms(1) by simp
  have hi: "s div n \<le> hi"
    using zdiv_mono1 [OF assms(3,1)] assms(1) by simp
  have "s div n = hi \<Longrightarrow> s mod n = 0"
    using s r assms(3) by (simp add: mult.commute)
  then have "s mod n \<noteq> 0 \<Longrightarrow> s div n + 1 \<le> hi"
    using hi by force
  with lo hi r assms(1) show ?thesis
    by (auto simp: round_half_even_def Let_def)
qed
lemma requirement_tasks_mem:
  "t \<in> set (list_tasks_by_requirement db r) \<longleftrightarrow>
     t \<in> set (db_tasks db) \<and> tk_deleted_at t = None \<and>
     (\<exists>x \<in> set (db_relations db). rl_requirement_id x = r \<and> rl_task_id x = tk_id t)"
  by (auto simp: list_tasks_by_requirement_def)

lemma requirement_status_implemented:
  "ss \<noteq> [] \<Longrightarrow> requirement_status ss = ''implemented'' \<longleftrightarrow> set ss \<subseteq> {''done''}"
  by (cases ss) (auto simp: requirement_status_def)

lemma requirement_status_cancelled:
  "requirement_status ss = ''cancelled'' \<longleftrightarrow> set ss \<subseteq> {''cancelled''}"
  by (auto simp: requirement_status_def)

text \<open>
  the progress reported for a requirement lies between the least and the greatest progress of
  its undeleted tasks, it is "implemented" exactly when it has tasks and all are done, and then the
  progress is 100; a requirement whose tasks are all closed, some done and some cancelled, is
  reported as in progress.
\<close>

theorem requirement_progress_meaning:
  assumes "task_reachable db" and "get_requirement_progress db r = Inr p"
    and "\<forall>t \<in> set (list_tasks_by_requirement db r). lo \<le> tk_progress_percent t \<and> tk_progress_percent t \<le> hi"
  shows "(rp_task_count p = 0 \<or> (lo \<le> rp_progress_percent p \<and> rp_progress_percent p \<le> hi)) \<and>
         (rp_status p = ''implemented'' \<longleftrightarrow> list_tasks_by_requirement db r \<noteq> [] \<and>
            (\<forall>t \<in> set (list_tasks_by_requirement db r). tk_status t = ''done'')) \<and>
         (rp_status p = ''implemented'' \<longrightarrow> rp_progress_percent p = 100) \<and>
         (tk_status ` set (list_tasks_by_requirement db r) = {''done'', ''cancelled''} \<longrightarrow>
            rp_status p = ''in_progress'')"
proof (cases "list_tasks_by_requirement db r = []")
  case True
  with assms(2) show ?thesis by (auto simp: get_requirement_progress_def Let_def)
next
  case False
  let ?ts = "list_tasks_by_requirement db r"
  from False assms(2) have p: "rp_progress_percent p = round_half_even (sum_list (map tk_progress_percent ?ts)) (int (length ?ts))"
    and st: "rp_status p = requirement_status (map tk_status ?ts)"
    by (auto simp: get_requirement_progress_def Let_def)
  have len: "0 < int (length ?ts)" using False by simp
  have bounds: "lo' \<le> rp_progress_percent p \<and> rp_progress_percent p \<le> hi'"
    if "\<And>t. t \<in> set ?ts \<Longrightarrow> lo' \<le> tk_progress_percent t \<and> tk_progress_percent t \<le> hi'" for lo' hi'
    using round_half_even_bounds [OF len] sum_list_bounds [of ?ts lo' tk_progress_percent hi', OF that] p
    by auto
  have impl: "rp_status p = ''implemented'' \<longleftrightarrow> (\<forall>t \<in> set ?ts. tk_status t = ''done'')"
    using requirement_status_implemented [of "map tk_status ?ts"] False by (auto simp: st)
  have "rp_progress_percent p = 100" if "\<forall>t \<in> set ?ts. tk_status t = ''done''"
  proof -
    have "tk_progress_percent t = 100" if "t \<in> set ?ts" for t
      using that \<open>\<forall>t \<in> set ?ts. tk_status t = ''done''\<close> task_reachable_inv [OF assms(1)]
      by (auto simp: requirement_tasks_mem task_inv_def task_table_ok_def task_ok_def)
    with bounds [of 100 100] show ?thesis by force
  qed
  moreover have "rp_status p = ''in_progress''" if "tk_status ` set ?ts = {''done'', ''cancelled''}"
    using that by (simp add: st requirement_status_def)
  ultimately show ?thesis
    using bounds [of lo hi] assms(3) impl False by blast
qed

subsection \<open>Concrete instances\<close>

definition no_filter :: task_filters where
  "no_filter =
     \<lparr>tf_status = None, tf_statuses = None, tf_exclude_statuses = None, tf_hierarchy = None,
      tf_assignee_id = None, tf_requirement_id = None, tf_parent_task_id = None, tf_root_only = None,
      tf_start_date_from = None, tf_due_date_to = None, tf_overdue = None, tf_task_type = None,
      tf_priority = None, tf_tag = None, tf_q = None\<rparr>"

lemma pages_partition_witness:
  "mset (concat (map (\<lambda>page. fst (list_paginated plain_env one_db 1 page 10 (Some ''code_desc'') no_filter)) [1..<Suc 1])) =
     mset (filter (task_matches plain_env one_db 1 no_filter) (db_tasks one_db))"
proof -
  have "snd (list_paginated plain_env one_db 1 1 10 (Some ''code_desc'') no_filter) \<le> 1 * 10"
    by code_simp
  from pages_partition [OF one_db_reachable _ _ this] show ?thesis
    by (simp add: no_filter_def)
qed

definition twice_db :: task_db where
  "twice_db = one_db\<lparr>db_relations :=
     [\<lparr>rl_id = 1, rl_requirement_id = 50, rl_task_id = 101, rl_relation_type = ''implements'',
       rl_created_by = None, rl_created_at = 0\<rparr>,
      \<lparr>rl_id = 2, rl_requirement_id = 50, rl_task_id = 101, rl_relation_type = ''tests'',
       rl_created_by = None, rl_created_at = 0\<rparr>]\<rparr>"

lemma twice_reachable: "task_reachable twice_db"
  by (rule task_reachable.step [OF one_db_reachable], rule task_step.elsewhere)
     (simp_all add: twice_db_def)

lemma requirement_filter_total_counts_relations_witness:
  "card (set (filtered_query plain_env twice_db 1 (no_filter\<lparr>tf_requirement_id := Some 50\<rparr>))) <
   snd (list_paginated plain_env twice_db 1 1 10 None (no_filter\<lparr>tf_requirement_id := Some 50\<rparr>))"
proof (rule requirement_filter_total_counts_relations [OF twice_reachable, where t = one_task and r = 50
      and ra = "db_relations twice_db ! 0" and rb = "db_relations twice_db ! 1"])
  show "task_matches plain_env twice_db 1 (no_filter\<lparr>tf_requirement_id := Some 50\<rparr>) one_task"
    by (simp add: task_matches_def no_filter_def opt_check_def one_task_values)
qed (simp_all add: twice_db_def no_filter_def one_task_mem one_task_values)

lemma requirement_progress_meaning_witness:
  "\<exists>p. get_requirement_progress twice_db 50 = Inr p \<and> rp_progress_percent p = 0 \<and>
       rp_status p \<noteq> ''implemented''"
proof -
  define p where "p = projr (get_requirement_progress twice_db 50)"
  have run: "get_requirement_progress twice_db 50 = Inr p"
    unfolding p_def by (rule Inr_projr) code_simp
  have "\<forall>t \<in> set (list_tasks_by_requirement twice_db 50). 0 \<le> tk_progress_percent t \<and> tk_progress_percent t \<le> 0"
    by code_simp
  note meaning = requirement_progress_meaning [OF twice_reachable run this]
  have zero: "rp_task_count p = 0 \<or> (0 \<le> rp_progress_percent p \<and> rp_progress_percent p \<le> 0)"
    and full: "rp_status p = ''implemented'' \<longrightarrow> rp_progress_percent p = 100"
    using meaning by blast+
  have "rp_task_count p = 1" unfolding p_def by code_simp
  with zero have "rp_progress_percent p = 0" by linarith
  with full run show ?thesis by (intro exI [of _ p] conjI) (assumption, assumption, linarith)
qed

end
