(* ===== verification/Trash.thy ===== *)
theory Trash imports Task_System begin

text \<open>
  Restoring a deleted task: \<open>TrashService.summary\<close> and \<open>restore\<close> of \<^verbatim>\<open>app/services/trash.py\<close> with
  \<open>TrashRepository.get\<close>, for the kind \<open>task\<close> (which has no parent resource in \<open>RESOURCES\<close>).

  \<open>permitted\<close> is the answer of the authorisation service for the caller (\<open>task:read\<close>,
  \<open>task:delete\<close> and \<open>task:update\<close>), \<open>days\<close> the configured retention (0 keeps rows for ever), and a
  day has 86400 seconds.
\<close>

record trash_restore =
  tr_deleted_at :: time
  tr_version :: "int option"

record trash_item =
  ti_id :: int
  ti_title :: string
  ti_deleted_at :: time
  ti_expires_at :: "time option"
  ti_version :: int
  ti_can_restore :: bool
  ti_blocked_reason :: "string option"

definition trash_summary :: "int \<Rightarrow> time \<Rightarrow> task \<Rightarrow> time \<Rightarrow> time option \<Rightarrow> trash_item" where
  "trash_summary days now t deleted_at parent_deleted_at =
     (let expires_at = (if days = 0 then None else Some (deleted_at + days * 86400));
          reason = (if (case expires_at of None \<Rightarrow> False | Some e \<Rightarrow> e \<le> now) then Some ''TRASH_EXPIRED''
                    else if parent_deleted_at \<noteq> None then Some ''TRASH_PARENT_DELETED'' else None)
      in \<lparr>ti_id = tk_id t, ti_title = tk_title t, ti_deleted_at = deleted_at, ti_expires_at = expires_at,
          ti_version = tk_version t, ti_can_restore = (reason = None), ti_blocked_reason = reason\<rparr>)"

definition trash_item_body :: "trash_item \<Rightarrow> pydict" where
  "trash_item_body i =
     [(''kind'', PStr ''task''), (''id'', PStr (show_int (ti_id i))), (''title'', PStr (ti_title i)),
      (''container_id'', PNone), (''deleted_at'', PInt (ti_deleted_at i)),
      (''expires_at'', py_opt_int (ti_expires_at i)), (''version'', PInt (ti_version i)),
      (''can_restore'', PBool (ti_can_restore i)), (''blocked_reason'', py_opt_str (ti_blocked_reason i))]"

definition trash_get_task :: "task_db \<Rightarrow> int \<Rightarrow> int \<Rightarrow> task option" where
  "trash_get_task db project_id task_id =
     (if 1 \<le> task_id \<and> task_id \<le> 2147483647
      then find (\<lambda>t. tk_id t = task_id \<and> tk_project_id t = project_id) (db_tasks db)
      else None)"

definition restore_task ::
  "time \<Rightarrow> int \<Rightarrow> bool \<Rightarrow> int \<Rightarrow> int \<Rightarrow> trash_restore \<Rightarrow> int \<Rightarrow> task_db \<Rightarrow> app_error + task_db" where
  "restore_task now days permitted project_id task_id data user_id db =
     ebind (raise_if (\<not> permitted) (raise_cls ForbiddenError)) (\<lambda>_.
     ebind (some_or (raise_msg NotFoundError ''TRASH_NOT_FOUND'') (trash_get_task db project_id task_id)) (\<lambda>t.
     case tk_deleted_at t of
       None \<Rightarrow> Inl (raise_msg NotFoundError ''TRASH_NOT_FOUND'')
     | Some deleted_at \<Rightarrow>
         (let current = trash_summary days now t deleted_at None in
          ebind (raise_if (deleted_at \<noteq> tr_deleted_at data) (version_conflict (trash_item_body current))) (\<lambda>_.
          ebind (raise_if_version_conflict (tk_version t)
                   (case tr_version data of None \<Rightarrow> 0 | Some v \<Rightarrow> v) (trash_item_body current)) (\<lambda>_.
          ebind (raise_if (\<not> ti_can_restore current)
                   (raise_msg ConflictError
                      (case ti_blocked_reason current of None \<Rightarrow> '''' | Some r \<Rightarrow> r))) (\<lambda>_.
          (let t' = t\<lparr>tk_deleted_at := None, tk_version := tk_version t + 1,
                     tk_updated_by := Some user_id, tk_updated_at := now\<rparr>
           in Inr (record_task_audit ''task.restored'' (Some user_id) project_id (tk_id t')
                     [(''id'', PStr (show_int (tk_id t'))), (''version'', PInt (tk_version t'))]
                     (task_put t' db)))))))))"

subsection \<open>When a task is restored\<close>

lemma trash_can_restore:
  "ti_can_restore (trash_summary days now t d None) \<longleftrightarrow> days = 0 \<or> now < d + days * 86400"
  by (auto simp: trash_summary_def Let_def)

text \<open>
  a deleted task is restored exactly when the caller is permitted, the deletion is the one the
  caller saw (its time and the version it left), and the retention has not run out.
\<close>

theorem restore_task_iff:
  assumes "task_reachable db"
  shows "(\<exists>db'. restore_task now days permitted p k data user db = Inr db') \<longleftrightarrow>
     permitted \<and> 1 \<le> k \<and> k \<le> 2147483647 \<and>
     (\<exists>t \<in> set (db_tasks db). tk_id t = k \<and> tk_project_id t = p \<and>
        tk_deleted_at t = Some (tr_deleted_at data) \<and>
        tk_version t = (case tr_version data of None \<Rightarrow> 0 | Some v \<Rightarrow> v) \<and>
        (days = 0 \<or> now < tr_deleted_at data + days * 86400))"
proof -
  have d: "distinct (map tk_id (db_tasks db))"
    using task_reachable_inv [OF assms] by (simp add: task_inv_def task_table_ok_def)
  have get: "trash_get_task db p k = Some t \<longleftrightarrow>
      1 \<le> k \<and> k \<le> 2147483647 \<and> t \<in> set (db_tasks db) \<and> tk_id t = k \<and> tk_project_id t = p" for t
    using find_active_iff [OF d, of k "\<lambda>t. tk_project_id t = p" t] by (auto simp: trash_get_task_def)
  have "(\<exists>db'. restore_task now days permitted p k data user db = Inr db') \<longleftrightarrow>
     permitted \<and> (\<exists>t. trash_get_task db p k = Some t \<and> tk_deleted_at t = Some (tr_deleted_at data) \<and>
        tk_version t = (case tr_version data of None \<Rightarrow> 0 | Some v \<Rightarrow> v) \<and>
        ti_can_restore (trash_summary days now t (tr_deleted_at data) None))"
    (is "?l \<longleftrightarrow> ?r")
  proof
    assume ?l
    then show ?r by (auto simp: restore_task_def Let_def split: option.splits)
  next
    assume ?r
    then obtain t where "permitted" "trash_get_task db p k = Some t"
      "tk_deleted_at t = Some (tr_deleted_at data)"
      "(case tr_version data of None \<Rightarrow> 0 | Some v \<Rightarrow> v) = tk_version t"
      "ti_can_restore (trash_summary days now t (tr_deleted_at data) None)" by auto
    then show ?l by (simp add: restore_task_def Let_def)
  qed
  then show ?thesis
    unfolding get trash_can_restore by blast
qed

definition one_deleted :: task_db where
  "one_deleted = projr (delete_task plain_env 101 (Some 7) one_db)"

lemma one_deleted_run: "delete_task plain_env 101 (Some 7) one_db = Inr one_deleted"
  unfolding one_deleted_def by (rule Inr_projr) code_simp

lemma restore_task_iff_witness:
  "\<exists>db'. restore_task 2000 30 True 1 101 \<lparr>tr_deleted_at = 1000, tr_version = Some 2\<rparr> 9 one_deleted = Inr db'"
proof -
  have reach: "task_reachable one_deleted"
    by (rule task_reachable.step [OF one_db_reachable task_step.deleted [OF one_deleted_run]])
  have "\<exists>t \<in> set (db_tasks one_deleted). tk_id t = 101 \<and> tk_project_id t = 1 \<and>
      tk_deleted_at t = Some 1000 \<and> tk_version t = 2"
    by code_simp
  then show ?thesis
    by (simp add: restore_task_iff [OF reach])
qed

subsection \<open>Restoring does not check the hierarchy\<close>

text \<open>Task 2 is a child of task 1, task 3 a child of task 2.\<close>

definition chain_db :: task_db where
  "chain_db = sample_db [sample_task 1, (sample_task 2)\<lparr>tk_parent_task_id := Some 1\<rparr>,
                         (sample_task 3)\<lparr>tk_parent_task_id := Some 2\<rparr>]"

definition chain_deleted :: task_db where
  "chain_deleted = projr (delete_task plain_env 2 (Some 7) chain_db)"

definition chain_moved :: task_db where
  "chain_moved = snd (projr (update_task plain_env 1 ((no_change 1)\<lparr>tu_parent_task_id := Set 3\<rparr>)
                               (Some 7) chain_deleted))"

definition chain_restored :: task_db where
  "chain_restored = projr (restore_task 2000 30 True 1 2 \<lparr>tr_deleted_at = 1000, tr_version = Some 2\<rparr> 7 chain_moved)"

lemma chain_inv: "task_inv chain_db"
proof -
  have tasks: "db_tasks chain_db = [sample_task 1, (sample_task 2)\<lparr>tk_parent_task_id := Some 1\<rparr>,
                         (sample_task 3)\<lparr>tk_parent_task_id := Some 2\<rparr>]"
    by (simp add: chain_db_def sample_db_def)
  have "task_table_ok chain_db"
    by (simp add: task_table_ok_def tasks sample_task_def task_ok_def inj_on_def show_int_def
        show_nat.simps digit_char_def) (simp add: chain_db_def sample_db_def)
  moreover have "acyclic (parent_edges chain_db)"
    by (rule acyclicI_order [where f = id])
       (auto simp: parent_edges_def task_get_by_id_def tasks sample_task_def split: if_splits)
  ultimately show ?thesis by (simp add: task_inv_def)
qed

lemma chain_run:
  "delete_task plain_env 2 (Some 7) chain_db = Inr chain_deleted"
  "\<exists>t. update_task plain_env 1 ((no_change 1)\<lparr>tu_parent_task_id := Set 3\<rparr>) (Some 7) chain_deleted
         = Inr (t, chain_moved)"
  "restore_task 2000 30 True 1 2 \<lparr>tr_deleted_at = 1000, tr_version = Some 2\<rparr> 7 chain_moved
     = Inr chain_restored"
proof -
  show "delete_task plain_env 2 (Some 7) chain_db = Inr chain_deleted"
    unfolding chain_deleted_def by (rule Inr_projr) code_simp
  show "\<exists>t. update_task plain_env 1 ((no_change 1)\<lparr>tu_parent_task_id := Set 3\<rparr>) (Some 7) chain_deleted
         = Inr (t, chain_moved)"
    unfolding chain_moved_def by (rule exI, rule Inr_projr_pair) code_simp
  show "restore_task 2000 30 True 1 2 \<lparr>tr_deleted_at = 1000, tr_version = Some 2\<rparr> 7 chain_moved
     = Inr chain_restored"
    unfolding chain_restored_def by (rule Inr_projr) code_simp
qed

text \<open>
  restoring a task can make the hierarchy cyclic. From a sound state: delete a task in the middle
  of a chain, move the chain's root under its last task (the cycle check stops at the deleted
  task), restore the deleted task. Every request is accepted and the three tasks end as each
  other's ancestors.
\<close>

theorem restore_creates_parent_cycle:
  "\<exists>db db1 t db2 db3 env a u data. task_inv db \<and>
     delete_task env 2 a db = Inr db1 \<and>
     update_task env 1 u a db1 = Inr (t, db2) \<and>
     restore_task 2000 30 True 1 2 data 7 db2 = Inr db3 \<and>
     \<not> acyclic (parent_edges db3)"
proof -
  have "map (\<lambda>t. (tk_id t, tk_parent_task_id t, tk_deleted_at t)) (db_tasks chain_restored) =
      [(1, Some 3, None), (2, Some 1, None), (3, Some 2, None)]"
    by code_simp
  then obtain x y z where "db_tasks chain_restored = [x, y, z]"
    and "tk_id x = 1" "tk_parent_task_id x = Some 3" "tk_deleted_at x = None"
    and "tk_id y = 2" "tk_parent_task_id y = Some 1" "tk_deleted_at y = None"
    and "tk_id z = 3" "tk_parent_task_id z = Some 2" "tk_deleted_at z = None"
    by (auto simp: map_eq_Cons_conv)
  then have "(1, 3) \<in> parent_edges chain_restored" "(3, 2) \<in> parent_edges chain_restored"
    "(2, 1) \<in> parent_edges chain_restored"
    by (simp_all add: parent_edges_def task_get_by_id_def)
  then have "(1, 1) \<in> (parent_edges chain_restored)\<^sup>+"
    by (meson trancl.intros)
  then have "\<not> acyclic (parent_edges chain_restored)" by (auto simp: acyclic_def)
  with chain_run chain_inv show ?thesis by blast
qed

end
