(* ===== verification/Auth_Model.thy ===== *)
theory Auth_Model imports Errors begin

text \<open>
  The data the authentication components share: the rows of \<^verbatim>\<open>app/models/user.py\<close>,
  \<^verbatim>\<open>login_attempt.py\<close>, \<^verbatim>\<open>session.py\<close>, \<^verbatim>\<open>demo.py\<close>, \<^verbatim>\<open>account_action.py\<close>, \<^verbatim>\<open>mfa.py\<close>, \<^verbatim>\<open>mcp.py\<close>
  and \<^verbatim>\<open>review_account.py\<close> the operations read or write, as one database record.

  A request that fails after it committed something (a counted failure, an expired session
  marked revoked) keeps what it committed, so an operation has the type
  \<open>auth_db \<Rightarrow> (app_error + 'a) \<times> auth_db\<close>: the second component is the database afterwards, and a
  raise without a commit returns the database it was given. The clock, the random tokens and
  the cryptographic functions of the libraries (password hashing, HMAC, SHA-256) come with the
  environment \<open>auth_env\<close>; the properties hold for every choice of them unless they name a
  hypothesis. Identifiers that are UUIDs are strings. What the code reads from the tenant and role
  tables (\<open>ae_tenant_role tenant user\<close>, \<open>ae_review_isolated\<close>) comes with the environment too.
\<close>

subsection \<open>Rows\<close>

record auth_user =
  au_id :: int
  au_email :: string
  au_hashed_password :: string
  au_user_type :: string
  au_is_active :: bool
  au_deleted_at :: "time option"
  au_password_change_required :: bool
  au_initial_password_expires_at :: "time option"
  au_mfa_security_version :: int
  au_mfa_recovery_pending :: bool
  au_last_login_at :: "time option"
  au_version :: int
  au_updated_by :: "int option"

record login_attempt =
  la_email :: string
  la_failed_count :: int
  la_locked_until :: "time option"
  la_last_failed_at :: "time option"

record user_session =
  us_id :: string
  us_user_id :: int
  us_started_at :: time
  us_last_seen_at :: time
  us_expires_at :: time
  us_absolute_expires_at :: time
  us_revoked_at :: "time option"
  us_revoked_reason :: "string option"
  us_mfa_method :: "string option"
  us_mfa_verified_at :: "time option"
  us_mfa_security_version :: "int option"
  us_mfa_reauthenticated_at :: "time option"

record demo_session =
  ds_id :: string
  ds_tenant_id :: "int option"
  ds_user_id :: "int option"
  ds_session_id :: "string option"
  ds_expires_at :: time
  ds_absolute_expires_at :: time
  ds_status :: string
  ds_revoked_at :: "time option"
  ds_revoked_reason :: "string option"
  ds_cleanup_after :: time
  ds_cleanup_attempts :: int
  ds_cleanup_error :: "string option"
  ds_cleaned_at :: "time option"

record demo_upload =
  du_id :: string
  du_demo_id :: string
  du_key :: string
  du_byte_size :: int
  du_expires_at :: time

record demo_budget =
  db_key :: string
  db_window_start :: int
  db_count :: int

datatype action_purpose = PasswordReset | EmailChangeApprove | EmailChangeVerify

record account_action =
  aa_id :: string
  aa_user_id :: int
  aa_requested_by_id :: "int option"
  aa_tenant_id :: "int option"
  aa_purpose :: action_purpose
  aa_token_hash :: string
  aa_credential_fingerprint :: string
  aa_old_email :: string
  aa_new_email :: "string option"
  aa_expires_at :: time
  aa_sent_at :: "time option"
  aa_provider_message_id :: "string option"
  aa_consumed_at :: "time option"
  aa_revoked_at :: "time option"

record mfa_factor =
  mf_id :: string
  mf_user_id :: int
  mf_kind :: string
  mf_name :: string
  mf_secret :: "string option"
  mf_credential_id :: "string option"
  mf_public_key :: "string option"
  mf_sign_count :: int
  mf_last_step :: int
  mf_verified_at :: time
  mf_last_used_at :: "time option"
  mf_revoked_at :: "time option"

record mfa_flow =
  fl_token_hash :: string
  fl_user_id :: int
  fl_purpose :: string
  fl_security_version :: int
  fl_expires_at :: time
  fl_consumed_at :: "time option"
  fl_attempts :: int
  fl_payload :: pydict

record mfa_recovery_code =
  rc_user_id :: int
  rc_code_hash :: string
  rc_used_at :: "time option"

record mfa_recovery_request =
  rr_id :: string
  rr_user_id :: int
  rr_actor_user_id :: int
  rr_method :: string
  rr_reason :: string
  rr_token_hash :: string
  rr_security_version :: int
  rr_expires_at :: time
  rr_consumed_at :: "time option"

record mcp_connection =
  mc_id :: string
  mc_user_id :: int
  mc_revoked_at :: "time option"

record review_grant =
  rg_user_id :: int
  rg_tenant_id :: int
  rg_expires_at :: time
  rg_revoked_at :: "time option"

record auth_audit =
  ad_event :: string
  ad_actor :: "int option"
  ad_target :: "int option"
  ad_detail :: string

record auth_db =
  adb_users :: "auth_user list"
  adb_attempts :: "login_attempt list"
  adb_sessions :: "user_session list"
  adb_demos :: "demo_session list"
  adb_demo_owned :: "(int \<times> string) list"
  adb_demo_uploads :: "demo_upload list"
  adb_demo_budgets :: "demo_budget list"
  adb_tenants :: "int list"
  adb_actions :: "account_action list"
  adb_factors :: "mfa_factor list"
  adb_flows :: "mfa_flow list"
  adb_recovery_codes :: "mfa_recovery_code list"
  adb_recovery_requests :: "mfa_recovery_request list"
  adb_mcp_connections :: "mcp_connection list"
  adb_review_grants :: "review_grant list"
  adb_audits :: "auth_audit list"

record auth_env =
  ae_now :: time
  ae_login_max_failed_attempts :: int
  ae_login_lock_minutes :: int
  ae_session_idle_minutes :: int
  ae_session_absolute_minutes :: int
  ae_session_refresh_minutes :: int
  ae_account_action_expire_seconds :: int
  ae_mfa_required :: bool
  ae_demo_mode :: bool
  ae_verify_password :: "string \<Rightarrow> string \<Rightarrow> bool"
  ae_hash_password :: "string \<Rightarrow> string"
  ae_digest :: "string \<Rightarrow> string"
  ae_hmac :: "string \<Rightarrow> string"
  ae_parse_uuid :: "string \<Rightarrow> string option"
  ae_tenant_role :: "int \<Rightarrow> int \<Rightarrow> string option"
  ae_review_isolated :: "int \<Rightarrow> int \<Rightarrow> bool"

type_synonym 'a auth_result = "(app_error + 'a) \<times> auth_db"

definition aok :: "'a \<Rightarrow> auth_db \<Rightarrow> 'a auth_result" where
  "aok x db = (Inr x, db)"

definition araise :: "err_class \<Rightarrow> auth_db \<Rightarrow> 'a auth_result" where
  "araise c db = (Inl (raise_cls c), db)"

lemma aok_eq [simp]:
  "aok x db = (r, db') \<longleftrightarrow> r = Inr x \<and> db' = db" "(r, db') = aok x db \<longleftrightarrow> r = Inr x \<and> db' = db"
  "fst (aok x db) = Inr x" "snd (aok x db) = db"
  by (auto simp: aok_def)

lemma araise_eq [simp]:
  "araise c db = (r, db') \<longleftrightarrow> r = Inl (raise_cls c) \<and> db' = db"
  "(r, db') = araise c db \<longleftrightarrow> r = Inl (raise_cls c) \<and> db' = db"
  "fst (araise c db) = Inl (raise_cls c)" "snd (araise c db) = db"
  "araise c d \<noteq> aok x db'" "aok x db' \<noteq> araise c d"
  by (auto simp: araise_def aok_def)

subsection \<open>Reading and writing rows\<close>

abbreviation user_by_id :: "int \<Rightarrow> auth_db \<Rightarrow> auth_user option" where
  "user_by_id k db \<equiv> tget au_id k (adb_users db)"

abbreviation put_user :: "auth_user \<Rightarrow> auth_db \<Rightarrow> auth_db" where
  "put_user u db \<equiv> db\<lparr>adb_users := tput au_id u (adb_users db)\<rparr>"

abbreviation put_attempt :: "login_attempt \<Rightarrow> auth_db \<Rightarrow> auth_db" where
  "put_attempt a db \<equiv> db\<lparr>adb_attempts := tput la_email a (adb_attempts db)\<rparr>"

abbreviation put_session :: "user_session \<Rightarrow> auth_db \<Rightarrow> auth_db" where
  "put_session s db \<equiv> db\<lparr>adb_sessions := tput us_id s (adb_sessions db)\<rparr>"

abbreviation put_demo :: "demo_session \<Rightarrow> auth_db \<Rightarrow> auth_db" where
  "put_demo d db \<equiv> db\<lparr>adb_demos := tput ds_id d (adb_demos db)\<rparr>"

abbreviation put_action :: "account_action \<Rightarrow> auth_db \<Rightarrow> auth_db" where
  "put_action a db \<equiv> db\<lparr>adb_actions := tput aa_id a (adb_actions db)\<rparr>"

abbreviation put_flow :: "mfa_flow \<Rightarrow> auth_db \<Rightarrow> auth_db" where
  "put_flow f db \<equiv> db\<lparr>adb_flows := tput fl_token_hash f (adb_flows db)\<rparr>"

abbreviation put_factor :: "mfa_factor \<Rightarrow> auth_db \<Rightarrow> auth_db" where
  "put_factor f db \<equiv> db\<lparr>adb_factors := tput mf_id f (adb_factors db)\<rparr>"

abbreviation auth_audit_event :: "string \<Rightarrow> int option \<Rightarrow> int option \<Rightarrow> string \<Rightarrow> auth_db \<Rightarrow> auth_db" where
  "auth_audit_event event actor target detail db \<equiv>
     db\<lparr>adb_audits := adb_audits db @ [\<lparr>ad_event = event, ad_actor = actor, ad_target = target, ad_detail = detail\<rparr>]\<rparr>"

text \<open>The addresses and names compared by the code are Latin-1 text: \<open>str.lower\<close> on it.\<close>

definition lower_char :: "char \<Rightarrow> char" where
  "lower_char c = (let n = of_char c :: nat in
     if (65 \<le> n \<and> n \<le> 90) \<or> (192 \<le> n \<and> n \<le> 222 \<and> n \<noteq> 215) then char_of (n + 32) else c)"

definition py_lower :: "string \<Rightarrow> string" where
  "py_lower s = map lower_char s"

definition ends_with :: "string \<Rightarrow> string \<Rightarrow> bool" where
  "ends_with s suf \<longleftrightarrow> length suf \<le> length s \<and> drop (length s - length suf) s = suf"

subsection \<open>A concrete environment\<close>

text \<open>
  For the evaluated instances: the default settings, a readable stand-in for the password hash, and
  injective stand-ins for the digests.
\<close>

definition sample_env :: auth_env where
  "sample_env = \<lparr>ae_now = 1000, ae_login_max_failed_attempts = 5, ae_login_lock_minutes = 15,
     ae_session_idle_minutes = 30, ae_session_absolute_minutes = 480, ae_session_refresh_minutes = 10,
     ae_account_action_expire_seconds = 1800, ae_mfa_required = True, ae_demo_mode = True,
     ae_verify_password = (\<lambda>p h. h = ''h:'' @ p), ae_hash_password = (\<lambda>p. ''h:'' @ p),
     ae_digest = (\<lambda>s. ''d:'' @ s), ae_hmac = (\<lambda>s. ''m:'' @ s), ae_parse_uuid = Some, ae_tenant_role = (\<lambda>_ _. None), ae_review_isolated = (\<lambda>_ _. True)\<rparr>"

definition sample_user :: auth_user where
  "sample_user = \<lparr>au_id = 7, au_email = ''a@b'', au_hashed_password = ''h:pw'', au_user_type = ''internal'', au_is_active = True,
     au_deleted_at = None, au_password_change_required = False, au_initial_password_expires_at = None,
     au_mfa_security_version = 0, au_mfa_recovery_pending = False, au_last_login_at = None,
     au_version = 1, au_updated_by = None\<rparr>"

definition sample_auth_db :: auth_db where
  "sample_auth_db = \<lparr>adb_users = [sample_user], adb_attempts = [], adb_sessions = [], adb_demos = [],
     adb_demo_owned = [], adb_demo_uploads = [], adb_demo_budgets = [], adb_tenants = [], adb_actions = [], adb_factors = [], adb_flows = [], adb_recovery_codes = [],
     adb_recovery_requests = [], adb_mcp_connections = [], adb_review_grants = [], adb_audits = []\<rparr>"

end
