(* ===== verification/Demo.thy ===== *)
theory Demo imports Auth_Model begin

text \<open>
  The temporary demo environments: \<open>DemoService\<close> of \<^verbatim>\<open>app/services/demo.py\<close> with
  \<open>DemoRepository\<close> (\<^verbatim>\<open>app/repositories/demo.py\<close>), over the identity tables.

  \<open>deletions_ok\<close> is whether the object storage and the deletion of the business rows succeed;
  when they raise, the transaction is rolled back to the last commit. Of the rows \<open>start\<close>
  creates, the tenant, the user, the session and the ledger rows are modelled, not the sample
  project; of those \<open>delete_business_data\<close> deletes, the ones of the identity tables. Rows
  locked by another cleanup (\<open>SKIP LOCKED\<close>) do not occur: operations are atomic here.
\<close>

definition idle_minutes :: int where "idle_minutes = 15"

definition absolute_minutes :: int where "absolute_minutes = 60"

subsection \<open>DemoRepository\<close>

definition demo_by_id :: "string \<Rightarrow> auth_db \<Rightarrow> demo_session option" where
  "demo_by_id k db = tget ds_id k (adb_demos db)"

definition demo_by_session :: "string \<Rightarrow> auth_db \<Rightarrow> demo_session option" where
  "demo_by_session sid db = find (\<lambda>d. ds_session_id d = Some sid) (adb_demos db)"

definition unfinished_count :: "auth_db \<Rightarrow> nat" where
  "unfinished_count db = length (filter (\<lambda>d. ds_status d \<noteq> ''cleaned'') (adb_demos db))"

definition budget_hour :: "time \<Rightarrow> int" where
  "budget_hour now = now div 3600 * 3600"

definition consume_start :: "string \<Rightarrow> time \<Rightarrow> auth_db \<Rightarrow> bool \<times> auth_db" where
  "consume_start digest now db =
     (let window = budget_hour now;
          rows = filter (\<lambda>b. \<not> db_window_start b < window) (adb_demo_budgets db)
      in case find (\<lambda>b. db_key b = digest \<and> db_window_start b = window) rows of
           None \<Rightarrow> (True, db\<lparr>adb_demo_budgets :=
                      rows @ [\<lparr>db_key = digest, db_window_start = window, db_count = 1\<rparr>]\<rparr>)
         | Some b \<Rightarrow>
             if 3 \<le> db_count b then (False, db\<lparr>adb_demo_budgets := rows\<rparr>)
             else (True, db\<lparr>adb_demo_budgets :=
                     map (\<lambda>x. if db_key x = digest \<and> db_window_start x = window
                              then x\<lparr>db_count := db_count x + 1\<rparr> else x) rows\<rparr>))"

definition owned_ids :: "string \<Rightarrow> auth_db \<Rightarrow> int list" where
  "owned_ids demo_id db = map fst (filter (\<lambda>(_, d). d = demo_id) (adb_demo_owned db))"

definition delete_business_data :: "demo_session \<Rightarrow> auth_db \<Rightarrow> auth_db" where
  "delete_business_data demo db =
     (case ds_tenant_id demo of
        None \<Rightarrow> db
      | Some tenant_id \<Rightarrow>
          (let users = owned_ids (ds_id demo) db;
               emails = map au_email (filter (\<lambda>u. au_id u \<in> set users) (adb_users db))
           in db\<lparr>
             adb_demos := tput ds_id (demo\<lparr>ds_tenant_id := None, ds_user_id := None, ds_session_id := None\<rparr>) (adb_demos db),
             adb_demo_owned := filter (\<lambda>(_, d). d \<noteq> ds_id demo) (adb_demo_owned db),
             adb_users := filter (\<lambda>u. au_id u \<notin> set users) (adb_users db),
             adb_tenants := filter (\<lambda>t. t \<noteq> tenant_id) (adb_tenants db),
             adb_attempts := filter (\<lambda>a. la_email a \<notin> set emails) (adb_attempts db),
             adb_actions := filter (\<lambda>a. aa_tenant_id a \<noteq> Some tenant_id) (adb_actions db),
             adb_sessions := filter (\<lambda>s. us_user_id s \<notin> set users) (adb_sessions db),
             adb_factors := filter (\<lambda>f. mf_user_id f \<notin> set users) (adb_factors db),
             adb_flows := filter (\<lambda>f. fl_user_id f \<notin> set users) (adb_flows db),
             adb_recovery_codes := filter (\<lambda>c. rc_user_id c \<notin> set users) (adb_recovery_codes db),
             adb_recovery_requests := filter (\<lambda>r. rr_user_id r \<notin> set users \<and> rr_actor_user_id r \<notin> set users)
                                        (adb_recovery_requests db),
             adb_review_grants := filter (\<lambda>g. rg_user_id g \<notin> set users) (adb_review_grants db)\<rparr>))"

text \<open>
  \<open>due_ids\<close> orders by \<open>cleanup_after\<close>; rows with the same time come in the order of the table.
\<close>

definition due_ids :: "time \<Rightarrow> nat \<Rightarrow> auth_db \<Rightarrow> string list" where
  "due_ids now n db =
     take n (map ds_id (sort_key ds_cleanup_after
       (filter (\<lambda>d. (ds_status d = ''active'' \<and> ds_expires_at d \<le> now) \<or>
                    (ds_status d = ''cleanup_pending'' \<and> ds_cleanup_after d \<le> now)) (adb_demos db))))"

definition prune_receipts :: "time \<Rightarrow> auth_db \<Rightarrow> auth_db" where
  "prune_receipts now db = db\<lparr>adb_demos := filter (\<lambda>d.
     \<not> (ds_status d = ''cleaned'' \<and> (case ds_cleaned_at d of None \<Rightarrow> False | Some c \<Rightarrow> c < now - 24 * 3600)))
     (adb_demos db)\<rparr>"

subsection \<open>Revocation and cleanup\<close>

definition demo_revoke :: "auth_env \<Rightarrow> string \<Rightarrow> string \<Rightarrow> auth_db \<Rightarrow> auth_db" where
  "demo_revoke env demo_id reason db =
     (case demo_by_id demo_id db of
        None \<Rightarrow> db
      | Some demo \<Rightarrow>
          if ds_status demo \<noteq> ''active'' then db
          else
            (let now = ae_now env;
                 db1 = put_demo (demo\<lparr>ds_status := ''cleanup_pending'', ds_revoked_at := Some now,
                                      ds_revoked_reason := Some reason, ds_cleanup_after := now\<rparr>) db
             in case ds_session_id demo of
                  None \<Rightarrow> db1
                | Some sid \<Rightarrow>
                    (case tget us_id sid (adb_sessions db1) of
                       None \<Rightarrow> db1
                     | Some s \<Rightarrow> put_session (s\<lparr>us_revoked_at := Some now, us_revoked_reason := Some reason\<rparr>) db1)))"

definition demo_retry_minutes :: "int \<Rightarrow> int" where
  "demo_retry_minutes attempts = min 60 (2 ^ nat (min attempts 6))"

definition demo_uploads_of :: "string \<Rightarrow> auth_db \<Rightarrow> demo_upload list" where
  "demo_uploads_of demo_id db = filter (\<lambda>u. du_demo_id u = demo_id) (adb_demo_uploads db)"

definition demo_latest_put :: "auth_env \<Rightarrow> demo_upload list \<Rightarrow> time" where
  "demo_latest_put env uploads =
     (case map du_expires_at uploads of [] \<Rightarrow> ae_now env | e # es \<Rightarrow> foldl max e es)"

definition cleanup_demo_once :: "auth_env \<Rightarrow> bool \<Rightarrow> demo_session \<Rightarrow> auth_db \<Rightarrow> bool \<times> auth_db" where
  "cleanup_demo_once env deletions_ok demo db =
     (let now = ae_now env; uploads = demo_uploads_of (ds_id demo) db in
      if deletions_ok then
        (let latest_put = demo_latest_put env uploads;
             db1 = delete_business_data demo db;
             demo1 = (case demo_by_id (ds_id demo) db1 of None \<Rightarrow> demo | Some d \<Rightarrow> d)
                       \<lparr>ds_cleanup_attempts := ds_cleanup_attempts demo + 1, ds_cleanup_error := None\<rparr>
         in if now < latest_put + 60 \<and> uploads \<noteq> [] then
              (False, put_demo (demo1\<lparr>ds_cleanup_after := latest_put + 60\<rparr>) db1)
            else
              (True, put_demo (demo1\<lparr>ds_status := ''cleaned'', ds_cleaned_at := Some now\<rparr>)
                 (db1\<lparr>adb_demo_uploads := filter (\<lambda>u. du_demo_id u \<noteq> ds_id demo) (adb_demo_uploads db1)\<rparr>)))
      else
        (let attempts = ds_cleanup_attempts demo + 1 in
         (False, put_demo (demo\<lparr>ds_cleanup_attempts := attempts, ds_cleanup_error := Some ''cleanup_failed'',
                               ds_cleanup_after := now + demo_retry_minutes attempts * 60\<rparr>) db)))"

definition demo_cleanup :: "auth_env \<Rightarrow> bool \<Rightarrow> string \<Rightarrow> auth_db \<Rightarrow> bool \<times> auth_db" where
  "demo_cleanup env deletions_ok demo_id db =
     (case demo_by_id demo_id db of
        None \<Rightarrow> (True, db)
      | Some demo \<Rightarrow>
          if ds_status demo = ''cleaned'' then (True, db)
          else if ds_status demo = ''active'' then
            (if ae_now env < ds_expires_at demo then (False, db)
             else
               (let db1 = demo_revoke env demo_id ''expired'' db in
                case demo_by_id demo_id db1 of
                  None \<Rightarrow> (True, db1)
                | Some demo1 \<Rightarrow> cleanup_demo_once env deletions_ok demo1 db1))
          else cleanup_demo_once env deletions_ok demo db)"

fun cleanup_each :: "auth_env \<Rightarrow> (string \<Rightarrow> bool) \<Rightarrow> string list \<Rightarrow> auth_db \<Rightarrow> nat \<times> auth_db" where
  "cleanup_each env ok [] db = (0, db)"
| "cleanup_each env ok (k # ks) db =
     (let (finished, db1) = demo_cleanup env (ok k) k db; (n, db2) = cleanup_each env ok ks db1
      in ((if finished then 1 else 0) + n, db2))"

text \<open>The result is the number processed and the number still pending.\<close>

definition demo_sweep :: "auth_env \<Rightarrow> (string \<Rightarrow> bool) \<Rightarrow> auth_db \<Rightarrow> (nat \<times> nat) \<times> auth_db" where
  "demo_sweep env ok db =
     (let ids = due_ids (ae_now env) 10 db; (completed, db1) = cleanup_each env ok ids db
      in ((length ids, length ids - completed), prune_receipts (ae_now env) db1))"

subsection \<open>Starting an environment\<close>

text \<open>The fresh identifiers one start draws (UUIDs and database sequences).\<close>

record demo_ids =
  di_demo :: string
  di_session :: string
  di_tenant :: int
  di_user :: int
  di_password :: string

definition new_demo_user :: "auth_env \<Rightarrow> demo_ids \<Rightarrow> auth_user" where
  "new_demo_user env ids =
     \<lparr>au_id = di_user ids, au_email = ''visitor-'' @ di_demo ids @ ''@demo.syncnesto.example.com'',
      au_hashed_password = ae_hash_password env (di_password ids), au_user_type = ''internal'', au_is_active = True, au_deleted_at = None,
      au_password_change_required = False, au_initial_password_expires_at = None,
      au_mfa_security_version = 0, au_mfa_recovery_pending = False, au_last_login_at = None,
      au_version = 1, au_updated_by = None\<rparr>"

definition new_user_session :: "auth_env \<Rightarrow> string \<Rightarrow> int \<Rightarrow> time \<Rightarrow> time \<Rightarrow> user_session" where
  "new_user_session env sid user_id expires absolute =
     \<lparr>us_id = sid, us_user_id = user_id, us_started_at = ae_now env, us_last_seen_at = ae_now env,
      us_expires_at = expires, us_absolute_expires_at = absolute, us_revoked_at = None,
      us_revoked_reason = None, us_mfa_method = None, us_mfa_verified_at = None,
      us_mfa_security_version = None, us_mfa_reauthenticated_at = None\<rparr>"

definition demo_start :: "auth_env \<Rightarrow> string \<Rightarrow> (string \<Rightarrow> bool) \<Rightarrow> demo_ids \<Rightarrow> auth_db \<Rightarrow> demo_session auth_result" where
  "demo_start env client_ip ok ids db =
     (if \<not> ae_demo_mode env then araise NotFoundError db
      else
        (let now = ae_now env; (allowed, db1) = consume_start (ae_hmac env client_ip) now db in
         if \<not> allowed then araise DemoLimitError db
         else
           (let db2 = snd (cleanup_each env ok (due_ids now 2 db1) db1) in
            if 10 \<le> unfinished_count db2 then araise DemoLimitError db2
            else
              (let user = new_demo_user env ids;
                   expires = now + idle_minutes * 60;
                   absolute = now + absolute_minutes * 60;
                   session = new_user_session env (di_session ids) (au_id user) expires absolute;
                   demo = \<lparr>ds_id = di_demo ids, ds_tenant_id = Some (di_tenant ids), ds_user_id = Some (au_id user),
                           ds_session_id = Some (us_id session), ds_expires_at = expires,
                           ds_absolute_expires_at = absolute, ds_status = ''active'', ds_revoked_at = None,
                           ds_revoked_reason = None, ds_cleanup_after = now, ds_cleanup_attempts = 0,
                           ds_cleanup_error = None, ds_cleaned_at = None\<rparr>
               in aok demo (db2\<lparr>adb_tenants := adb_tenants db2 @ [di_tenant ids],
                               adb_users := adb_users db2 @ [user],
                               adb_sessions := adb_sessions db2 @ [session],
                               adb_demos := adb_demos db2 @ [demo],
                               adb_demo_owned := adb_demo_owned db2 @ [(au_id user, di_demo ids)]\<rparr>)))))"

subsection \<open>Using it\<close>

text \<open>
  \<open>bind\<close> answers the demo the session is bound to (\<open>db.info\<close>), \<open>None\<close> for a normal session.
\<close>

definition demo_bind :: "auth_env \<Rightarrow> bool \<Rightarrow> user_session \<Rightarrow> auth_db \<Rightarrow> demo_session option auth_result" where
  "demo_bind env deletions_ok session db =
     (case demo_by_session (us_id session) db of
        None \<Rightarrow>
          if us_user_id session \<in> fst ` set (adb_demo_owned db) then araise InvalidTokenError db else aok None db
      | Some demo \<Rightarrow>
          if \<not> ae_demo_mode env \<or> ds_status demo \<noteq> ''active'' then araise InvalidTokenError db
          else if ds_expires_at demo \<le> ae_now env then
            araise TokenExpiredError
              (snd (demo_cleanup env deletions_ok (ds_id demo) (demo_revoke env (ds_id demo) ''expired'' db)))
          else aok (Some demo) db)"

text \<open>
  \<open>reserve_upload\<close> of the bound demo (a normal session reserves nothing). \<open>reservation\<close> is the
  upload planned earlier whose final key is now known (\<open>demo_upload_reservation\<close>).
\<close>

definition megabyte :: int where "megabyte = 1024 * 1024"

definition put_upload :: "demo_upload \<Rightarrow> auth_db \<Rightarrow> auth_db" where
  "put_upload u db = db\<lparr>adb_demo_uploads := tput du_id u (adb_demo_uploads db)\<rparr>"

definition reserve_upload ::
  "auth_env \<Rightarrow> string option \<Rightarrow> string option \<Rightarrow> string \<Rightarrow> string \<Rightarrow> int \<Rightarrow> time \<Rightarrow> auth_db \<Rightarrow> unit auth_result" where
  "reserve_upload env demo_id reservation upload_id key byte_size expires_at db =
     (case demo_id of
        None \<Rightarrow> aok () db
      | Some d \<Rightarrow>
          (case demo_by_id d db of
             None \<Rightarrow> araise TokenExpiredError db
           | Some demo \<Rightarrow>
               if ds_status demo \<noteq> ''active'' \<or> ds_expires_at demo \<le> ae_now env then araise TokenExpiredError db
               else
                 (let mine = demo_uploads_of d db;
                      count = length mine;
                      total_size = sum_list (map du_byte_size mine);
                      by_key = find (\<lambda>u. du_key u = key) (adb_demo_uploads db);
                      planned = (case reservation of None \<Rightarrow> None | Some r \<Rightarrow> tget du_id r (adb_demo_uploads db))
                  in
                  if by_key = None \<and> reservation \<noteq> None \<and>
                     (case planned of None \<Rightarrow> True | Some u \<Rightarrow> du_demo_id u \<noteq> d)
                  then araise InvalidTokenError db
                  else
                    (case (case by_key of
                             Some u \<Rightarrow> Some u
                           | None \<Rightarrow> map_option (\<lambda>u. u\<lparr>du_key := key\<rparr>) planned) of
                       None \<Rightarrow>
                         if 5 * megabyte < byte_size \<or> 10 \<le> count \<or> 20 * megabyte < total_size + byte_size
                         then araise DemoLimitError db
                         else aok () (db\<lparr>adb_demo_uploads := adb_demo_uploads db @
                                [\<lparr>du_id = upload_id, du_demo_id = d, du_key = key, du_byte_size = byte_size,
                                  du_expires_at = expires_at\<rparr>]\<rparr>)
                     | Some u \<Rightarrow>
                         if 20 * megabyte < total_size - du_byte_size u + byte_size then araise DemoLimitError db
                         else aok () (put_upload (u\<lparr>du_byte_size := byte_size,
                                        du_expires_at := max (du_expires_at u) expires_at\<rparr>) db)))))"

subsection \<open>The quotas\<close>

text \<open>
  The uploads of every demo are within the quotas; ids are unique, and a key names an upload of
  its own demo (\<open>object_key\<close> puts every key below \<open>demo/<id>/\<close>).
\<close>

definition demo_key :: "string \<Rightarrow> string \<Rightarrow> bool" where
  "demo_key d key \<longleftrightarrow> (\<exists>name. key = ''demo/'' @ d @ ''/'' @ name) \<and> CHR ''/'' \<notin> set d"

definition quota_ok :: "auth_db \<Rightarrow> bool" where
  "quota_ok db \<longleftrightarrow>
     distinct (map du_id (adb_demo_uploads db)) \<and>
     (\<forall>u \<in> set (adb_demo_uploads db). demo_key (du_demo_id u) (du_key u)) \<and>
     (\<forall>d. length (demo_uploads_of d db) \<le> 10 \<and>
          sum_list (map du_byte_size (demo_uploads_of d db)) \<le> 20 * megabyte)"

lemma slash_prefix_unique:
  "CHR ''/'' \<notin> set a \<Longrightarrow> CHR ''/'' \<notin> set b \<Longrightarrow> a @ CHR ''/'' # x = b @ CHR ''/'' # y \<Longrightarrow> a = b"
  by (induction a arbitrary: b) (case_tac b; auto)+

lemma demo_key_unique: "demo_key d k \<Longrightarrow> demo_key e k \<Longrightarrow> d = e"
  by (auto simp: demo_key_def dest: slash_prefix_unique)

lemma sum_tput:
  assumes "distinct (map du_id us)" and "u \<in> set us" and "du_id v = du_id u" and "du_demo_id v = du_demo_id u"
  shows "sum_list (map du_byte_size (filter (\<lambda>x. du_demo_id x = d) (tput du_id v us))) =
     sum_list (map du_byte_size (filter (\<lambda>x. du_demo_id x = d) us)) +
       (if du_demo_id u = d then du_byte_size v - du_byte_size u else 0) \<and>
     length (filter (\<lambda>x. du_demo_id x = d) (tput du_id v us)) = length (filter (\<lambda>x. du_demo_id x = d) us)"
  using assms
proof (induction us)
  case (Cons x us)
  have put: "tput du_id v (x # us) = (if du_id x = du_id v then v else x) # tput du_id v us"
    by (simp add: tput_def)
  show ?case
  proof (cases "du_id x = du_id v")
    case True
    have "x = u" using True Cons.prems by (auto simp: image_iff)
    moreover have "tput du_id v us = us"
      using True Cons.prems(1) by (intro tput_absent) simp
    ultimately show ?thesis unfolding put using True Cons.prems(4) by auto
  next
    case False
    then show ?thesis unfolding put using Cons by auto
  qed
qed simp

text \<open>
  reserving an upload keeps every demo within 10 files and 20 MiB, whichever of its three
  ways it takes (a new key, a known key, a planned upload that gets its key).
\<close>

theorem reserve_upload_quota:
  assumes ok: "quota_ok db" and key: "\<And>d. demo_id = Some d \<Longrightarrow> demo_key d key"
    and fresh: "upload_id \<notin> du_id ` set (adb_demo_uploads db)"
    and run: "reserve_upload env demo_id reservation upload_id key byte_size expires_at db = (r, db')"
  shows "quota_ok db'"
proof (cases "db' = db")
  case True
  with ok show ?thesis by simp
next
  case False
  from run False obtain d demo where d: "demo_id = Some d" "demo_by_id d db = Some demo"
    by (auto simp: reserve_upload_def split: option.splits)
  let ?us = "adb_demo_uploads db"
  have dk: "demo_key d key" using key d by simp
  have distinct_ids: "distinct (map du_id ?us)" and keys: "\<forall>u \<in> set ?us. demo_key (du_demo_id u) (du_key u)"
    and quota: "\<And>e. length (demo_uploads_of e db) \<le> 10"
      "\<And>e. sum_list (map du_byte_size (demo_uploads_of e db)) \<le> 20 * megabyte"
    using ok by (auto simp: quota_ok_def)
  consider (new) "5 * megabyte \<ge> byte_size" "length (demo_uploads_of d db) < 10"
      "sum_list (map du_byte_size (demo_uploads_of d db)) + byte_size \<le> 20 * megabyte"
      "adb_demo_uploads db' = ?us @ [\<lparr>du_id = upload_id, du_demo_id = d, du_key = key, du_byte_size = byte_size,
                                  du_expires_at = expires_at\<rparr>]"
    | (old) u v where "u \<in> set ?us" "du_demo_id u = d" "du_id v = du_id u" "du_demo_id v = d"
        "demo_key d (du_key v)" "du_byte_size v = byte_size"
        "sum_list (map du_byte_size (demo_uploads_of d db)) - du_byte_size u + byte_size \<le> 20 * megabyte"
        "adb_demo_uploads db' = tput du_id v ?us"
  proof (cases "find (\<lambda>u. du_key u = key) ?us")
    case (Some u)
    then have u: "u \<in> set ?us" "du_key u = key" by (auto simp: find_Some_iff)
    with keys dk have "du_demo_id u = d" by (auto dest: demo_key_unique)
    with run d False Some u dk show thesis
      by (intro old [of u "u\<lparr>du_byte_size := byte_size, du_expires_at := max (du_expires_at u) expires_at\<rparr>"])
         (auto simp: reserve_upload_def Let_def put_upload_def split: if_splits)
  next
    case None
    show thesis
    proof (cases reservation)
      case None': None
      with run d False None show thesis
        by (intro new) (auto simp: reserve_upload_def Let_def split: if_splits)
    next
      case (Some rid)
      then obtain u where "tget du_id rid ?us = Some u" "du_demo_id u = d"
        using run d False None by (auto simp: reserve_upload_def Let_def split: if_splits option.splits)
      with run d False None Some dk tget_SomeD [of du_id rid ?us u] show thesis
        by (intro old [of u "u\<lparr>du_key := key, du_byte_size := byte_size,
                              du_expires_at := max (du_expires_at u) expires_at\<rparr>"])
           (auto simp: reserve_upload_def Let_def put_upload_def split: if_splits)
    qed
  qed
  then show ?thesis
  proof cases
    case new
    have "demo_uploads_of e db' = demo_uploads_of e db @ (if e = d then [\<lparr>du_id = upload_id, du_demo_id = d,
        du_key = key, du_byte_size = byte_size, du_expires_at = expires_at\<rparr>] else [])" for e
      by (simp add: demo_uploads_of_def new(4))
    with new quota distinct_ids keys dk fresh show ?thesis by (auto simp: quota_ok_def)
  next
    case old
    have "sum_list (map du_byte_size (demo_uploads_of e db')) \<le> 20 * megabyte \<and> length (demo_uploads_of e db') \<le> 10" for e
      using sum_tput [OF distinct_ids old(1,3), of e] old quota [of e]
      by (auto simp: demo_uploads_of_def)
    moreover have "\<forall>x \<in> set (adb_demo_uploads db'). demo_key (du_demo_id x) (du_key x)"
      using keys old by (auto dest!: tput_mem)
    ultimately show ?thesis using distinct_ids old(8) by (auto simp: quota_ok_def)
  qed
qed

definition sample_demo :: demo_session where
  "sample_demo = \<lparr>ds_id = ''d1'', ds_tenant_id = Some 50, ds_user_id = Some 70, ds_session_id = Some ''s1'',
     ds_expires_at = 1900, ds_absolute_expires_at = 4600, ds_status = ''active'', ds_revoked_at = None,
     ds_revoked_reason = None, ds_cleanup_after = 1000, ds_cleanup_attempts = 0, ds_cleanup_error = None,
     ds_cleaned_at = None\<rparr>"

definition sample_demo_db :: auth_db where
  "sample_demo_db = sample_auth_db\<lparr>
     adb_users := [sample_user, new_demo_user sample_env \<lparr>di_demo = ''d1'', di_session = ''s1'', di_tenant = 50,
                                  di_user = 70, di_password = ''x''\<rparr>],
     adb_demos := [sample_demo], adb_demo_owned := [(70, ''d1'')], adb_tenants := [50],
     adb_sessions := [new_user_session sample_env ''s1'' 70 1900 4600],
     adb_demo_uploads := [\<lparr>du_id = ''u1'', du_demo_id = ''d1'', du_key = ''demo/d1/a'', du_byte_size = 100,
                           du_expires_at = 1060\<rparr>]\<rparr>"

lemma reserve_upload_quota_witness:
  "quota_ok (snd (reserve_upload sample_env (Some ''d1'') None ''u2'' ''demo/d1/a'' 20000000 1100 sample_demo_db))"
proof -
  have "quota_ok sample_demo_db"
    by (auto simp: quota_ok_def sample_demo_db_def demo_key_def demo_uploads_of_def megabyte_def)
  moreover have "demo_key ''d1'' ''demo/d1/a''" by (simp add: demo_key_def)
  moreover have "''u2'' \<notin> du_id ` set (adb_demo_uploads sample_demo_db)" by (simp add: sample_demo_db_def)
  ultimately show ?thesis
    using reserve_upload_quota [of sample_demo_db "Some ''d1''" "''demo/d1/a''" "''u2''" sample_env None 20000000 1100]
    by (metis option.inject prod.collapse)
qed

text \<open>
  The 5 MiB limit of a single file is only checked for a new key: the key known as 100 bytes grows
  to 20000000.
\<close>

lemma known_key_outgrows_file_limit:
  "map du_byte_size (adb_demo_uploads
     (snd (reserve_upload sample_env (Some ''d1'') None ''u2'' ''demo/d1/a'' 20000000 1100 sample_demo_db))) = [20000000] \<and>
   5 * megabyte < 20000000"
  by code_simp

subsection \<open>Collecting an ended environment\<close>

lemma demo_by_id_put: "demo_by_id (ds_id d) db \<noteq> None \<Longrightarrow> demo_by_id (ds_id d) (put_demo d db) = Some d"
  by (auto simp: demo_by_id_def tget_tput)

lemma demo_by_id_key: "demo_by_id k db = Some d \<Longrightarrow> ds_id d = k"
  using tget_SomeD by (force simp: demo_by_id_def)

lemma demo_after_revoke:
  "demo_by_id k db = Some d \<Longrightarrow> ds_status d = ''active'' \<Longrightarrow>
   demo_by_id k (demo_revoke env k reason db) =
     Some (d\<lparr>ds_status := ''cleanup_pending'', ds_revoked_at := Some (ae_now env),
            ds_revoked_reason := Some reason, ds_cleanup_after := ae_now env\<rparr>)"
  using demo_by_id_key [of k db d]
  by (auto simp: demo_revoke_def Let_def demo_by_id_def tget_tput split: option.splits)

lemma revoke_other_tables [simp]:
  "adb_demo_owned (demo_revoke env k reason db) = adb_demo_owned db"
  "adb_demo_uploads (demo_revoke env k reason db) = adb_demo_uploads db"
  "adb_users (demo_revoke env k reason db) = adb_users db"
  by (auto simp: demo_revoke_def Let_def split: option.splits)

lemma foldl_max_le: "(foldl max e es :: int) \<le> b \<longleftrightarrow> e \<le> b \<and> (\<forall>x \<in> set es. x \<le> b)"
  by (induction es arbitrary: e) auto

lemma latest_put_le:
  "us \<noteq> [] \<Longrightarrow> \<forall>u \<in> set us. du_expires_at u + 60 \<le> ae_now env \<Longrightarrow> demo_latest_put env us + 60 \<le> ae_now env"
proof -
  assume a: "us \<noteq> []" "\<forall>u \<in> set us. du_expires_at u + 60 \<le> ae_now env"
  then obtain u vs where us: "us = u # vs" by (cases us) auto
  have "foldl max (du_expires_at u) (map du_expires_at vs) \<le> ae_now env - 60"
    unfolding foldl_max_le using a us by force
  then show ?thesis by (simp add: demo_latest_put_def us)
qed

definition owns_nothing :: "string \<Rightarrow> int list \<Rightarrow> auth_db \<Rightarrow> bool" where
  "owns_nothing k users db \<longleftrightarrow>
     owned_ids k db = [] \<and> demo_uploads_of k db = [] \<and>
     (\<forall>u \<in> set (adb_users db). au_id u \<notin> set users) \<and> (\<forall>s \<in> set (adb_sessions db). us_user_id s \<notin> set users) \<and>
     (\<forall>f \<in> set (adb_factors db). mf_user_id f \<notin> set users) \<and> (\<forall>f \<in> set (adb_flows db). fl_user_id f \<notin> set users)"

lemma cleanup_once_complete:
  assumes "demo_by_id k db = Some d" and "ds_tenant_id d = Some tenant"
    and "\<forall>u \<in> set (demo_uploads_of k db). du_expires_at u + 60 \<le> ae_now env"
  shows "\<exists>d' db'. cleanup_demo_once env True d db = (True, db') \<and> demo_by_id k db' = Some d' \<and>
     ds_status d' = ''cleaned'' \<and> owns_nothing k (owned_ids k db) db'"
proof -
  have k: "ds_id d = k" by (rule demo_by_id_key [OF assms(1)])
  have late: "\<not> (ae_now env < demo_latest_put env (demo_uploads_of k db) + 60 \<and> demo_uploads_of k db \<noteq> [])"
    using latest_put_le [OF _ assms(3)] not_le by blast
  let ?db1 = "delete_business_data d db"
  have d1: "demo_by_id k ?db1 = Some (d\<lparr>ds_tenant_id := None, ds_user_id := None, ds_session_id := None\<rparr>)"
    using assms(1,2) k by (auto simp: delete_business_data_def Let_def demo_by_id_def tget_tput)
  have gone: "owned_ids k ?db1 = [] \<and> (\<forall>u \<in> set (adb_users ?db1). au_id u \<notin> set (owned_ids k db)) \<and>
      (\<forall>s \<in> set (adb_sessions ?db1). us_user_id s \<notin> set (owned_ids k db)) \<and>
      (\<forall>f \<in> set (adb_factors ?db1). mf_user_id f \<notin> set (owned_ids k db)) \<and>
      (\<forall>f \<in> set (adb_flows ?db1). fl_user_id f \<notin> set (owned_ids k db))"
    using assms(2) k by (auto simp: delete_business_data_def Let_def owned_ids_def filter_empty_conv)
  let ?d = "d\<lparr>ds_tenant_id := None, ds_user_id := None, ds_session_id := None,
      ds_cleanup_attempts := ds_cleanup_attempts d + 1, ds_cleanup_error := None,
      ds_status := ''cleaned'', ds_cleaned_at := Some (ae_now env)\<rparr>"
  let ?db2 = "?db1\<lparr>adb_demo_uploads := filter (\<lambda>u. du_demo_id u \<noteq> k) (adb_demo_uploads ?db1)\<rparr>"
  have run: "cleanup_demo_once env True d db = (True, put_demo ?d ?db2)"
    unfolding cleanup_demo_once_def Let_def k using late d1 by simp
  have "demo_by_id k (put_demo ?d ?db2) = Some ?d"
    using d1 k by (simp add: demo_by_id_def tget_tput)
  moreover have "owned_ids k (put_demo ?d ?db2) = owned_ids k ?db1" "demo_uploads_of k (put_demo ?d ?db2) = []"
    by (simp_all add: owned_ids_def demo_uploads_of_def filter_empty_conv)
  then have "owns_nothing k (owned_ids k db) (put_demo ?d ?db2)"
    using gone by (simp add: owns_nothing_def)
  ultimately show ?thesis using run by auto
qed



end
