(* ===== verification/Evolution.thy ===== *)
theory Evolution imports Prelude begin

text \<open>
  How tables change over a history of operations.

  \<open>rows_from ev t t'\<close>: every row of \<open>t'\<close> comes from a row of \<open>t\<close> by the relation \<open>ev\<close> (rows may
  disappear, none is new). The locale \<open>evolution\<close> is the contract of such a relation; the session,
  link and flow tables of the authentication components interpret it.

  The locale \<open>one_shot\<close> is the contract of credentials that die: a table of rows with keys that are
  never issued twice, whose dead rows stay dead in every step. Its one theorem is that a key that
  is dead stays dead whatever happens.
\<close>

definition rows_from :: "('r \<Rightarrow> 'r \<Rightarrow> bool) \<Rightarrow> 'r list \<Rightarrow> 'r list \<Rightarrow> bool" where
  "rows_from ev t t' \<longleftrightarrow> (\<forall>r' \<in> set t'. \<exists>r \<in> set t. ev r r')"

locale evolution =
  fixes ev :: "'r \<Rightarrow> 'r \<Rightarrow> bool"
  assumes refl: "ev r r"
    and trans: "ev a b \<Longrightarrow> ev b c \<Longrightarrow> ev a c"
begin

lemma subset: "set t' \<subseteq> set t \<Longrightarrow> rows_from ev t t'"
  using refl by (auto simp: rows_from_def)

lemma same: "rows_from ev t t"
  by (rule subset) simp

lemma chain: "rows_from ev a b \<Longrightarrow> rows_from ev b c \<Longrightarrow> rows_from ev a c"
  unfolding rows_from_def by (meson trans)

lemma put: "r \<in> set t \<Longrightarrow> ev r r' \<Longrightarrow> rows_from ev t (tput key r' t)"
  using refl by (auto simp: rows_from_def dest!: tput_mem)

lemma where_updated: "(\<And>r. p r \<Longrightarrow> ev r (f r)) \<Longrightarrow> rows_from ev t (twhere p f t)"
  using refl by (auto simp: rows_from_def elim!: twhere_E)

lemma where_kept: "(\<And>r. p r \<Longrightarrow> ev r (f r)) \<Longrightarrow> x \<in> set t \<Longrightarrow> \<exists>y \<in> set (twhere p f t). ev x y"
  using refl by (cases "p x") (auto simp: twhere_def)

lemma filtered: "rows_from ev t (filter p t)"
  by (rule subset) auto

end

text \<open>The same with new rows, all of which satisfy \<open>new\<close>.\<close>

definition rows_grow :: "('r \<Rightarrow> 'r \<Rightarrow> bool) \<Rightarrow> ('r \<Rightarrow> bool) \<Rightarrow> 'r list \<Rightarrow> 'r list \<Rightarrow> bool" where
  "rows_grow ev new t t' \<longleftrightarrow> (\<forall>r' \<in> set t'. (\<exists>r \<in> set t. ev r r') \<or> new r')"

lemma rows_from_grow: "rows_from ev t t' \<Longrightarrow> rows_grow ev new t t'"
  by (simp add: rows_from_def rows_grow_def)

lemma rows_grow_append: "rows_from ev t t' \<Longrightarrow> new r \<Longrightarrow> rows_grow ev new t (t' @ [r])"
  by (auto simp: rows_from_def rows_grow_def)

locale one_shot =
  fixes step :: "'s \<Rightarrow> 's \<Rightarrow> bool"
    and rows :: "'s \<Rightarrow> 'r list"
    and key :: "'r \<Rightarrow> 'k"
    and dead :: "'r \<Rightarrow> bool"
    and used :: "'s \<Rightarrow> 'k set"
  assumes step_rows: "step s s' \<Longrightarrow> r' \<in> set (rows s') \<Longrightarrow>
      (\<exists>r \<in> set (rows s). key r = key r' \<and> (dead r \<longrightarrow> dead r')) \<or> key r' \<notin> used s"
    and step_used: "step s s' \<Longrightarrow> used s \<subseteq> used s'"
begin

lemma dead_step:
  assumes "step s s'" and "k \<in> used s" and "\<forall>r \<in> set (rows s). key r = k \<longrightarrow> dead r"
  shows "k \<in> used s' \<and> (\<forall>r \<in> set (rows s'). key r = k \<longrightarrow> dead r)"
  using assms step_rows step_used by blast

theorem dead_for_ever:
  assumes "step\<^sup>*\<^sup>* s s'" and "k \<in> used s" and "\<forall>r \<in> set (rows s). key r = k \<longrightarrow> dead r"
  shows "k \<in> used s' \<and> (\<forall>r \<in> set (rows s'). key r = k \<longrightarrow> dead r)"
  using assms
proof (induction rule: rtranclp_induct)
  case (step y z)
  with dead_step [of y z k] show ?case by blast
qed simp

end

end
