(* ===== verification/User_Session.thy ===== *)
theory User_Session imports Demo Evolution begin

text \<open>
  Login sessions and the authentication of a request: \<open>SessionService\<close> and its repository
  (\<^verbatim>\<open>app/services/session.py\<close>, \<^verbatim>\<open>app/repositories/session.py\<close>), \<^verbatim>\<open>app/core/auth.py\<close>, the checks
  of \<^verbatim>\<open>app/core/mfa.py\<close> and \<open>ReviewAccountService.validate\<close> (\<^verbatim>\<open>app/services/review_account.py\<close>).

  A JSON Web Token is its payload, a dictionary: signing and verifying belong to the library, so
  \<open>decode\<close> (the payload of a token whose signature is good, \<open>None\<close> for \<open>PyJWTError\<close>) is an
  argument. \<open>exp\<close> is a whole number of seconds, as the library writes it.
\<close>

subsection \<open>UserSessionRepository\<close>

definition session_by_id :: "string \<Rightarrow> auth_db \<Rightarrow> user_session option" where
  "session_by_id sid db = tget us_id sid (adb_sessions db)"

definition session_create :: "auth_env \<Rightarrow> string \<Rightarrow> auth_user \<Rightarrow> auth_db \<Rightarrow> user_session \<times> auth_db" where
  "session_create env sid user db =
     (let now = ae_now env;
          absolute_expires_at = now + ae_session_absolute_minutes env * 60;
          expires_at = now + ae_session_idle_minutes env * 60;
          s = new_user_session env sid (au_id user)
                (if absolute_expires_at < expires_at then absolute_expires_at else expires_at) absolute_expires_at
      in (s, db\<lparr>adb_sessions := adb_sessions db @ [s]\<rparr>))"

definition session_extend :: "auth_env \<Rightarrow> user_session \<Rightarrow> auth_db \<Rightarrow> user_session \<times> auth_db" where
  "session_extend env s db =
     (let now = ae_now env;
          demo = demo_by_session (us_id s) db;
          next0 = now + (case demo of None \<Rightarrow> ae_session_idle_minutes env | Some _ \<Rightarrow> idle_minutes) * 60;
          next_expires_at = (if us_absolute_expires_at s < next0 then us_absolute_expires_at s else next0);
          s' = s\<lparr>us_last_seen_at := now, us_expires_at := next_expires_at\<rparr>;
          db1 = put_session s' db
      in (s', case demo of None \<Rightarrow> db1 | Some d \<Rightarrow> put_demo (d\<lparr>ds_expires_at := next_expires_at\<rparr>) db1))"

definition session_touch :: "auth_env \<Rightarrow> user_session \<Rightarrow> auth_db \<Rightarrow> auth_db" where
  "session_touch env s db = put_session (s\<lparr>us_last_seen_at := ae_now env\<rparr>) db"

definition session_revoke :: "auth_env \<Rightarrow> user_session \<Rightarrow> string \<Rightarrow> auth_db \<Rightarrow> auth_db" where
  "session_revoke env s reason db =
     (if us_revoked_at s = None
      then put_session (s\<lparr>us_revoked_at := Some (ae_now env), us_revoked_reason := Some reason\<rparr>) db else db)"

definition revoke_all_by_user_id :: "auth_env \<Rightarrow> int \<Rightarrow> string \<Rightarrow> auth_db \<Rightarrow> nat \<times> auth_db" where
  "revoke_all_by_user_id env user_id reason db =
     (let active = (\<lambda>s. us_user_id s = user_id \<and> us_revoked_at s = None)
      in (length (filter active (adb_sessions db)),
          db\<lparr>adb_sessions := twhere active
               (\<lambda>s. s\<lparr>us_revoked_at := Some (ae_now env), us_revoked_reason := Some reason\<rparr>) (adb_sessions db)\<rparr>))"

subsection \<open>SessionService\<close>

definition access_token_payload :: "string \<Rightarrow> string \<Rightarrow> time \<Rightarrow> bool \<Rightarrow> bool \<Rightarrow> time \<Rightarrow> pydict" where
  "access_token_payload subject sid expires_at password_setup_only demo now =
     [(''sub'', PStr subject), (''exp'', PInt expires_at), (''iat'', PInt now), (''sid'', PStr sid)] @
     (if password_setup_only then [(''password_setup_only'', PBool True)] else []) @
     (if demo then [(''aud'', PStr ''syncnesto-demo'')] else [])"

definition create_session_token ::
  "auth_env \<Rightarrow> string \<Rightarrow> auth_user \<Rightarrow> string option \<Rightarrow> auth_db \<Rightarrow> (user_session \<times> pydict) \<times> auth_db" where
  "create_session_token env sid user mfa_method db =
     (let (s, db1) = session_create env sid user db;
          now = ae_now env;
          marked = (case mfa_method of None \<Rightarrow> False | Some m \<Rightarrow> m \<noteq> '''');
          s' = (if marked then s\<lparr>us_mfa_method := mfa_method, us_mfa_verified_at := Some now,
                  us_mfa_reauthenticated_at := Some now, us_mfa_security_version := Some (au_mfa_security_version user)\<rparr>
                else s);
          db2 = (if marked then put_session s' db1 else db1)
      in ((s', access_token_payload (au_email user) (us_id s') (us_expires_at s') (au_password_change_required user)
                False now), db2))"

definition get_session_id :: "auth_env \<Rightarrow> pydict \<Rightarrow> string option" where
  "get_session_id env payload = (case dget payload ''sid'' of PStr sid \<Rightarrow> ae_parse_uuid env sid | _ \<Rightarrow> None)"

definition revoke_expired_session :: "auth_env \<Rightarrow> bool \<Rightarrow> user_session \<Rightarrow> string \<Rightarrow> auth_db \<Rightarrow> auth_db" where
  "revoke_expired_session env deletions_ok s reason db =
     (case demo_by_session (us_id s) db of
        Some demo \<Rightarrow> snd (demo_cleanup env deletions_ok (ds_id demo) (demo_revoke env (ds_id demo) reason db))
      | None \<Rightarrow> session_revoke env s reason db)"

definition validate_session :: "auth_env \<Rightarrow> bool \<Rightarrow> pydict \<Rightarrow> auth_db \<Rightarrow> user_session auth_result" where
  "validate_session env deletions_ok payload db =
     (case get_session_id env payload of
        None \<Rightarrow> araise InvalidTokenError db
      | Some sid \<Rightarrow>
          (case session_by_id sid db of
             None \<Rightarrow> araise InvalidTokenError db
           | Some s \<Rightarrow>
               if us_revoked_at s \<noteq> None then
                 araise InvalidTokenError
                   (case demo_by_session (us_id s) db of
                      None \<Rightarrow> db
                    | Some demo \<Rightarrow> demo_revoke env (ds_id demo)
                        (case us_revoked_reason s of None \<Rightarrow> ''revoked'' | Some r \<Rightarrow> if r = '''' then ''revoked'' else r) db)
               else if (case py_int_of (dget payload ''exp'') of None \<Rightarrow> False | Some e \<Rightarrow> e \<le> ae_now env) then
                 araise TokenExpiredError (revoke_expired_session env deletions_ok s ''expired'' db)
               else if us_absolute_expires_at s \<le> ae_now env then
                 araise TokenExpiredError (revoke_expired_session env deletions_ok s ''absolute_expired'' db)
               else if us_expires_at s \<le> ae_now env then
                 araise TokenExpiredError (revoke_expired_session env deletions_ok s ''expired'' db)
               else aok s db))"

definition should_refresh_session :: "auth_env \<Rightarrow> user_session \<Rightarrow> bool" where
  "should_refresh_session env s \<longleftrightarrow> us_expires_at s - ae_now env \<le> ae_session_refresh_minutes env * 60"

text \<open>The refreshed cookie: its token and \<open>max_age\<close>.\<close>

definition refresh_session_cookie ::
  "auth_env \<Rightarrow> bool \<Rightarrow> auth_user \<Rightarrow> user_session \<Rightarrow> auth_db \<Rightarrow> (pydict \<times> int) \<times> auth_db" where
  "refresh_session_cookie env demo user s db =
     (let (s', db1) = session_extend env s db
      in ((access_token_payload (au_email user) (us_id s') (us_expires_at s') False demo (ae_now env),
           max 0 (us_expires_at s' - ae_now env)), db1))"

definition revoke_token_session ::
  "auth_env \<Rightarrow> (string \<Rightarrow> pydict option) \<Rightarrow> string \<Rightarrow> string \<Rightarrow> auth_db \<Rightarrow> user_session option \<times> auth_db" where
  "revoke_token_session env decode token reason db =
     (case Option.bind (decode token) (get_session_id env) of
        None \<Rightarrow> (None, db)
      | Some sid \<Rightarrow>
          (case session_by_id sid db of
             None \<Rightarrow> (None, db)
           | Some s \<Rightarrow>
               (let db1 = (case demo_by_session sid db of
                             Some demo \<Rightarrow> demo_revoke env (ds_id demo) reason db
                           | None \<Rightarrow> session_revoke env s reason db)
                in (session_by_id sid db1, db1))))"

definition revoke_user_sessions ::
  "auth_env \<Rightarrow> int \<Rightarrow> string \<Rightarrow> int option \<Rightarrow> bool \<Rightarrow> auth_db \<Rightarrow> nat \<times> auth_db" where
  "revoke_user_sessions env user_id reason actor_user_id commit db =
     (let (revoked_count, db1) = revoke_all_by_user_id env user_id reason db
      in (revoked_count,
          if 0 < revoked_count \<and> commit
          then auth_audit_event ''auth.session.revoked'' actor_user_id (Some user_id) reason db1 else db1))"

subsection \<open>Authenticating a request\<close>

definition require_verified :: "auth_env \<Rightarrow> auth_user \<Rightarrow> user_session \<Rightarrow> bool" where
  "require_verified env user s \<longleftrightarrow>
     \<not> (ae_mfa_required env \<and>
        (au_mfa_recovery_pending user \<or> us_mfa_verified_at s = None \<or>
         us_mfa_security_version s \<noteq> Some (au_mfa_security_version user) \<or>
         us_mfa_method s \<notin> {Some ''totp'', Some ''passkey'', Some ''recovery_code''}))"

definition require_recent :: "auth_env \<Rightarrow> user_session \<Rightarrow> bool" where
  "require_recent env s \<longleftrightarrow>
     (case us_mfa_reauthenticated_at s of None \<Rightarrow> False | Some t \<Rightarrow> \<not> 300 < ae_now env - t)"

text \<open>\<open>demo\<close> says that the request is of the demo realm or bound to a demo.\<close>

definition review_validate :: "auth_env \<Rightarrow> bool \<Rightarrow> auth_user \<Rightarrow> auth_db \<Rightarrow> app_error + review_grant option" where
  "review_validate env demo user db =
     (if demo then Inr None
      else case tget rg_user_id (au_id user) (adb_review_grants db) of
             None \<Rightarrow> Inr None
           | Some g \<Rightarrow>
               if rg_revoked_at g \<noteq> None \<or> rg_expires_at g \<le> ae_now env \<or> \<not> au_is_active user \<or>
                  au_deleted_at user \<noteq> None \<or> au_password_change_required user \<or>
                  au_mfa_recovery_pending user \<or> \<not> ae_review_isolated env (au_id user) (rg_tenant_id g)
               then Inl (raise_cls ForbiddenError) else Inr (Some g))"

record auth_request =
  rq_access_token :: "string option"
  rq_authorization :: "string option"
  rq_path :: string
  rq_method :: string
  rq_demo_realm :: bool

record auth_context =
  ac_user :: auth_user
  ac_session :: user_session
  ac_password_setup_only :: bool
  ac_demo :: "demo_session option"

definition extract_bearer_token :: "string option \<Rightarrow> string option" where
  "extract_bearer_token authorization =
     (case authorization of
        None \<Rightarrow> None
      | Some a \<Rightarrow>
          (let scheme = takeWhile (\<lambda>c. c \<noteq> CHR '' '') a; token = drop 1 (dropWhile (\<lambda>c. c \<noteq> CHR '' '') a)
           in if py_lower scheme \<noteq> ''bearer'' \<or> token = '''' then None else Some token))"

definition starts_with :: "string \<Rightarrow> string \<Rightarrow> bool" where
  "starts_with s pre \<longleftrightarrow> take (length pre) s = pre"

definition request_token :: "bool \<Rightarrow> auth_request \<Rightarrow> string option" where
  "request_token allow_header rq =
     (case rq_access_token rq of
        Some t \<Rightarrow> Some t
      | None \<Rightarrow> if allow_header then extract_bearer_token (rq_authorization rq) else None)"

text \<open>The part of \<open>get_authenticated_user\<close> after the session was validated and bound.\<close>

definition identify_user :: "pydict \<Rightarrow> user_session \<Rightarrow> auth_db \<Rightarrow> auth_user option" where
  "identify_user payload s db =
     (case dget payload ''sub'' of
        PStr email \<Rightarrow>
          (case find (\<lambda>u. au_email u = email \<and> au_deleted_at u = None) (adb_users db) of
             None \<Rightarrow> None
           | Some user \<Rightarrow> if au_is_active user \<and> au_id user = us_user_id s then Some user else None)
      | _ \<Rightarrow> None)"

definition finish_authentication ::
  "auth_env \<Rightarrow> auth_request \<Rightarrow> pydict \<Rightarrow> user_session \<Rightarrow> demo_session option \<Rightarrow> auth_user \<Rightarrow> auth_db \<Rightarrow>
   (auth_context \<times> (pydict \<times> int) option) auth_result" where
  "finish_authentication env rq payload s demo user db =
     (let setup_only = (dget payload ''password_setup_only'' = PBool True);
          ctx = \<lparr>ac_user = user, ac_session = s, ac_password_setup_only = setup_only, ac_demo = demo\<rparr> in
      case review_validate env (rq_demo_realm rq \<or> demo \<noteq> None) user db of
        Inl e \<Rightarrow> (Inl e, db)
      | Inr review \<Rightarrow>
          if review \<noteq> None \<and> starts_with (rq_path rq) ''/auth/'' \<and>
             \<not> (rq_path rq = ''/auth/me'' \<and> rq_method rq = ''GET'') then araise ForbiddenError db
          else if rq_access_token rq \<noteq> None \<and> \<not> setup_only \<and>
                  \<not> (demo \<noteq> None \<and> rq_path rq \<in> {''/auth/me'', ''/demo/status''}) \<and>
                  should_refresh_session env s then
            (let (cookie, db1) = refresh_session_cookie env (demo \<noteq> None) user s db in aok (ctx, Some cookie) db1)
          else aok (ctx, None) db)"

definition get_authenticated_user ::
  "auth_env \<Rightarrow> (string \<Rightarrow> pydict option) \<Rightarrow> bool \<Rightarrow> bool \<Rightarrow> auth_request \<Rightarrow> auth_db \<Rightarrow>
   (auth_context \<times> (pydict \<times> int) option) auth_result" where
  "get_authenticated_user env decode allow_header deletions_ok rq db =
     (case request_token allow_header rq of
        None \<Rightarrow> araise AuthenticationRequiredError db
      | Some token \<Rightarrow>
     case decode token of
        None \<Rightarrow> araise InvalidTokenError db
      | Some payload \<Rightarrow>
          if (dget payload ''aud'' = PStr ''syncnesto-demo'') \<noteq> rq_demo_realm rq then araise InvalidTokenError db
          else
     (case validate_session env deletions_ok payload db of
        (Inl e, db1) \<Rightarrow> (Inl e, db1)
      | (Inr s, db1) \<Rightarrow>
     case demo_bind env deletions_ok s db1 of
        (Inl e, db2) \<Rightarrow> (Inl e, db2)
      | (Inr demo, db2) \<Rightarrow>
          if rq_demo_realm rq \<and> demo = None then araise InvalidTokenError db2
          else
     case identify_user payload s db2 of
        None \<Rightarrow> araise InvalidTokenError db2
      | Some user \<Rightarrow> finish_authentication env rq payload s demo user db2))"

definition get_current_user :: "auth_env \<Rightarrow> bool \<Rightarrow> auth_context \<Rightarrow> auth_db \<Rightarrow> app_error + auth_user" where
  "get_current_user env demo_realm ctx db =
     (if au_password_change_required (ac_user ctx) \<or> ac_password_setup_only ctx
      then Inl (raise_cls PasswordChangeRequiredError)
      else if demo_realm then Inr (ac_user ctx)
      else case review_validate env (ac_demo ctx \<noteq> None) (ac_user ctx) db of
             Inl e \<Rightarrow> Inl e
           | Inr (Some _) \<Rightarrow> Inr (ac_user ctx)
           | Inr None \<Rightarrow> if require_verified env (ac_user ctx) (ac_session ctx) then Inr (ac_user ctx)
                         else Inl (raise_cls MfaRequiredError))"

subsection \<open>How session rows evolve\<close>

text \<open>
  What every operation but the creation of a session does to the table: each row that is left
  comes from a row with the same id, user and absolute limit, a revoked one stays revoked, and
  an expiry within the absolute limit stays within it.
\<close>

definition row_evolves :: "user_session \<Rightarrow> user_session \<Rightarrow> bool" where
  "row_evolves s s' \<longleftrightarrow> us_id s' = us_id s \<and> us_user_id s' = us_user_id s \<and>
     us_absolute_expires_at s' = us_absolute_expires_at s \<and>
     (us_revoked_at s \<noteq> None \<longrightarrow> us_revoked_at s' \<noteq> None) \<and>
     (us_expires_at s \<le> us_absolute_expires_at s \<longrightarrow> us_expires_at s' \<le> us_absolute_expires_at s')"

abbreviation sessions_evolve :: "user_session list \<Rightarrow> user_session list \<Rightarrow> bool" where
  "sessions_evolve \<equiv> rows_from row_evolves"

abbreviation evolves :: "auth_db \<Rightarrow> auth_db \<Rightarrow> bool" where
  "evolves db db' \<equiv> sessions_evolve (adb_sessions db) (adb_sessions db')"

interpretation ses: evolution row_evolves
  by unfold_locales (auto simp: row_evolves_def)

lemma session_by_id_mem: "session_by_id sid db = Some s \<Longrightarrow> s \<in> set (adb_sessions db) \<and> us_id s = sid"
  using tget_SomeD by (force simp: session_by_id_def)

lemma row_evolves_revoke: "row_evolves s (s\<lparr>us_revoked_at := Some now, us_revoked_reason := r\<rparr>)"
  by (simp add: row_evolves_def)

text \<open>
  The operations on sessions and demos as relations between databases. Any relation that is
  reflexive and transitive, allows a session table to evolve, allows the deletion of a demo's data and
  does not look at the other tables contains each of them.
\<close>

locale session_effect =
  fixes R :: "auth_db \<Rightarrow> auth_db \<Rightarrow> bool"
  assumes same: "adb_sessions db' = adb_sessions db \<Longrightarrow> adb_actions db' = adb_actions db \<Longrightarrow>
      adb_flows db' = adb_flows db \<Longrightarrow> R db db'"
    and chain: "R a b \<Longrightarrow> R b c \<Longrightarrow> R a c"
    and session: "sessions_evolve (adb_sessions db) t \<Longrightarrow> R db (db\<lparr>adb_sessions := t\<rparr>)"
    and deletion: "R db (delete_business_data d db)"
begin

lemma kept: "R db db"
  by (rule same) simp_all

lemma put: "s \<in> set (adb_sessions db) \<Longrightarrow> row_evolves s s' \<Longrightarrow> R db (put_session s' db)"
  by (rule session [OF ses.put])

lemma then_same:
  "R db d \<Longrightarrow> adb_sessions db' = adb_sessions d \<Longrightarrow> adb_actions db' = adb_actions d \<Longrightarrow> adb_flows db' = adb_flows d \<Longrightarrow> R db db'"
  by (rule chain [OF _ same])

lemma put_same:
  "s \<in> set (adb_sessions db) \<Longrightarrow> row_evolves s s' \<Longrightarrow> adb_sessions d = tput us_id s' (adb_sessions db) \<Longrightarrow>
   adb_actions d = adb_actions db \<Longrightarrow> adb_flows d = adb_flows db \<Longrightarrow> R db d"
  by (rule then_same [OF put]) simp_all

lemma demo_revoked: "R db (demo_revoke env k reason db)"
proof (cases "demo_by_id k db")
  case (Some demo)
  let ?db1 = "put_demo (demo\<lparr>ds_status := ''cleanup_pending'', ds_revoked_at := Some (ae_now env),
    ds_revoked_reason := Some reason, ds_cleanup_after := ae_now env\<rparr>) db"
  have "R db (put_session (s\<lparr>us_revoked_at := Some (ae_now env), us_revoked_reason := Some reason\<rparr>) ?db1)"
    if "tget us_id sid (adb_sessions db) = Some s" for sid s
    using that by (intro put_same [OF _ row_evolves_revoke]) (auto dest!: tget_SomeD)
  with Some show ?thesis
    by (auto simp: demo_revoke_def Let_def kept intro: same split: option.split)
qed (simp add: demo_revoke_def kept)

lemma cleaned_once: "R db (snd (cleanup_demo_once env ok d db))"
proof (cases ok)
  case True
  then show ?thesis
    by (intro then_same [OF deletion [of db d]]) (simp_all add: cleanup_demo_once_def Let_def)
next
  case False
  then show ?thesis
    by (intro same) (simp_all add: cleanup_demo_once_def Let_def)
qed

lemma cleaned: "R db (snd (demo_cleanup env ok k db))"
  using chain [OF demo_revoked cleaned_once]
  by (auto simp: demo_cleanup_def Let_def cleaned_once demo_revoked kept split: option.splits)

lemma cleaned_each: "R db (snd (cleanup_each env ok ks db))"
proof (induction ks arbitrary: db)
  case (Cons k ks)
  obtain f db1 where c: "demo_cleanup env (ok k) k db = (f, db1)" by fastforce
  then have "R db db1" using cleaned [of db env "ok k" k] by simp
  from chain [OF this Cons.IH] show ?case by (simp add: c Let_def case_prod_unfold)
qed (simp add: kept)

lemma swept: "R db (snd (demo_sweep env ok db))"
  by (rule then_same [OF cleaned_each [of db env ok "due_ids (ae_now env) 10 db"]])
     (simp_all add: demo_sweep_def Let_def prune_receipts_def case_prod_unfold)

lemma revoked: "s \<in> set (adb_sessions db) \<Longrightarrow> R db (session_revoke env s reason db)"
  by (auto simp: session_revoke_def kept intro: put row_evolves_revoke)

lemma revoked_all: "R db (snd (revoke_all_by_user_id env k reason db))"
  by (simp add: revoke_all_by_user_id_def Let_def session ses.where_updated row_evolves_revoke)

lemma revoked_user: "R db (snd (revoke_user_sessions env k reason a c db))"
  by (rule then_same [OF revoked_all [of db env k reason]])
     (simp_all add: revoke_user_sessions_def Let_def case_prod_unfold)

lemma extended: "s \<in> set (adb_sessions db) \<Longrightarrow> R db (snd (session_extend env s db))"
  by (rule put_same [where s' = "fst (session_extend env s db)"])
     (auto simp: session_extend_def Let_def row_evolves_def split: option.splits)

lemma revoked_expired: "s \<in> set (adb_sessions db) \<Longrightarrow> R db (revoke_expired_session env ok s reason db)"
  using chain [OF demo_revoked cleaned]
  by (auto simp: revoke_expired_session_def revoked split: option.splits)

lemma validated: "R db (snd (validate_session env ok payload db))"
  by (auto simp: validate_session_def demo_revoked kept
      dest!: session_by_id_mem intro: revoked_expired split: option.splits)

lemma bound: "R db (snd (demo_bind env ok s db))"
  using chain [OF demo_revoked cleaned]
  by (auto simp: demo_bind_def kept split: option.splits)

lemma revoked_token: "R db (snd (revoke_token_session env decode token reason db))"
  by (auto simp: revoke_token_session_def Let_def demo_revoked kept
      dest!: session_by_id_mem intro: revoked split: option.splits)

end

lemma delete_tables:
  "set (adb_sessions (delete_business_data d db)) \<subseteq> set (adb_sessions db)"
  "set (adb_flows (delete_business_data d db)) \<subseteq> set (adb_flows db)"
  by (auto simp: delete_business_data_def Let_def split: option.splits)

interpretation sev: session_effect evolves
  by unfold_locales (auto intro: ses.same ses.chain ses.subset [OF delete_tables(1)])

text \<open>A request authenticates only if its session passes every check, and nothing before it changed.\<close>

lemma validate_Inr:
  assumes "validate_session env ok payload db = (Inr s, db')"
  shows "db' = db \<and> get_session_id env payload = Some (us_id s) \<and> s \<in> set (adb_sessions db) \<and>
     us_revoked_at s = None \<and> ae_now env < us_expires_at s \<and> ae_now env < us_absolute_expires_at s \<and>
     (\<forall>e. py_int_of (dget payload ''exp'') = Some e \<longrightarrow> ae_now env < e)"
  using assms by (auto simp: validate_session_def dest!: session_by_id_mem split: option.splits if_splits)

lemma bind_Inr:
  assumes "demo_bind env ok s db = (Inr d, db')"
  shows "db' = db \<and> (\<forall>x. d = Some x \<longrightarrow> ds_status x = ''active'' \<and> ae_now env < ds_expires_at x \<and> ae_demo_mode env)"
  using assms by (auto simp: demo_bind_def split: option.splits if_splits)

lemma identify_Some:
  "identify_user payload s db = Some u \<Longrightarrow>
   u \<in> set (adb_users db) \<and> dget payload ''sub'' = PStr (au_email u) \<and> au_deleted_at u = None \<and>
   au_is_active u \<and> au_id u = us_user_id s"
  by (auto simp: identify_user_def find_Some_iff split: pyval.splits option.splits if_splits)

lemma finish_db:
  "snd (finish_authentication env rq payload s demo user db) = db \<or>
   snd (finish_authentication env rq payload s demo user db) =
     snd (refresh_session_cookie env (demo \<noteq> None) user s db)"
  by (simp add: finish_authentication_def Let_def case_prod_unfold split: sum.split)

lemma finish_Inr:
  "fst (finish_authentication env rq payload s demo user db) = Inr (ctx, cookie) \<Longrightarrow>
   ac_user ctx = user \<and> ac_session ctx = s \<and> ac_demo ctx = demo \<and>
   (ac_password_setup_only ctx \<longleftrightarrow> dget payload ''password_setup_only'' = PBool True)"
  by (auto simp: finish_authentication_def Let_def case_prod_unfold split: sum.splits if_splits)

lemma authenticated_run:
  assumes "get_authenticated_user env decode allow ok rq db = (Inr (ctx, cookie), db')"
  obtains token payload where "request_token allow rq = Some token" "decode token = Some payload"
    "validate_session env ok payload db = (Inr (ac_session ctx), db)"
    "demo_bind env ok (ac_session ctx) db = (Inr (ac_demo ctx), db)"
    "identify_user payload (ac_session ctx) db = Some (ac_user ctx)"
    "rq_demo_realm rq \<longleftrightarrow> dget payload ''aud'' = PStr ''syncnesto-demo''" "rq_demo_realm rq \<longrightarrow> ac_demo ctx \<noteq> None"
    "(Inr (ctx, cookie), db') = finish_authentication env rq payload (ac_session ctx) (ac_demo ctx) (ac_user ctx) db"
proof -
  obtain token payload s db1 d db2 u where
    1: "request_token allow rq = Some token" "decode token = Some payload"
      "(dget payload ''aud'' = PStr ''syncnesto-demo'') = rq_demo_realm rq"
    and 2: "validate_session env ok payload db = (Inr s, db1)" "demo_bind env ok s db1 = (Inr d, db2)"
    and 3: "rq_demo_realm rq \<longrightarrow> d \<noteq> None" "identify_user payload s db2 = Some u"
      "finish_authentication env rq payload s d u db2 = (Inr (ctx, cookie), db')"
    using assms
    by (auto simp: get_authenticated_user_def split: option.splits if_splits sum.splits prod.splits)
  have "db1 = db" "db2 = db" using validate_Inr [OF 2(1)] bind_Inr [OF 2(2)] by simp_all
  moreover have "ac_user ctx = u" "ac_session ctx = s" "ac_demo ctx = d"
    using finish_Inr [of env rq payload s d u db2 ctx cookie] 3 by simp_all
  ultimately show thesis using 1 2 3 by (intro that [of token payload]) auto
qed

context session_effect
begin

lemma finished: "s \<in> set (adb_sessions db) \<Longrightarrow> R db (snd (finish_authentication env rq payload s demo user db))"
  using finish_db [of env rq payload s demo user db] extended [of s db env] kept [of db]
  by (auto simp: refresh_session_cookie_def Let_def case_prod_unfold)

lemma authenticated: "R db (snd (get_authenticated_user env decode allow ok rq db))"
proof (cases "\<exists>x. fst (get_authenticated_user env decode allow ok rq db) = Inr x")
  case True
  then obtain ctx cookie db' where run: "get_authenticated_user env decode allow ok rq db = (Inr (ctx, cookie), db')"
    by (metis prod.collapse)
  then show ?thesis
  proof (rule authenticated_run)
    fix token payload
    assume v: "validate_session env ok payload db = (Inr (ac_session ctx), db)"
      and f: "(Inr (ctx, cookie), db') = finish_authentication env rq payload (ac_session ctx) (ac_demo ctx) (ac_user ctx) db"
    have "ac_session ctx \<in> set (adb_sessions db)" using validate_Inr [OF v] by simp
    from finished [OF this, of env rq payload "ac_demo ctx" "ac_user ctx"] show ?thesis by (simp add: run f [symmetric])
  qed
next
  case False
  have v: "R db db1" if "validate_session env ok payload db = (r, db1)" for payload r db1
    using validated [of db env ok payload] that by simp
  have b: "R db1 db2" if "demo_bind env ok s db1 = (r, db2)" for s db1 db2 r
    using bound [of db1 env ok s] that by simp
  have f: "R db (snd (finish_authentication env rq payload s demo user db))"
    if "validate_session env ok payload db = (Inr s, db1)" for payload s db1 demo user
    using finished validate_Inr [OF that] by blast
  show ?thesis
    unfolding get_authenticated_user_def
    by (auto simp: kept split: option.splits sum.splits prod.splits dest!: validate_Inr bind_Inr
        intro: v b chain [OF v b] finished)
qed

end

subsection \<open>What an authenticated request has\<close>

lemma extend_within_absolute:
  "us_expires_at (fst (session_extend env s db)) \<le> us_absolute_expires_at s"
  "us_id (fst (session_extend env s db)) = us_id s"
  by (simp_all add: session_extend_def Let_def)

lemma refreshed_cookie:
  assumes "refresh_session_cookie env demo user s db = ((payload, max_age), db')"
  shows "\<exists>e. dget payload ''exp'' = PInt e \<and> e \<le> us_absolute_expires_at s \<and>
     max_age = max 0 (e - ae_now env) \<and> dget payload ''sid'' = PStr (us_id s) \<and> dget payload ''sub'' = PStr (au_email user)"
  using assms extend_within_absolute [of env s db]
  by (auto simp: refresh_session_cookie_def Let_def access_token_payload_def case_prod_unfold)

text \<open>
  C34: a request is authenticated only on a live session. The session it names is stored, not
  revoked, inside its idle and its absolute limit, and belongs to the undeleted active user
  with the address in the token; a request of the demo realm needs a running demo and one of the
  normal realm no demo token. A refreshed cookie names the same session and user and never
  reaches beyond the absolute limit.
\<close>

theorem authenticated_request_live:
  assumes "get_authenticated_user env decode allow ok rq db = (Inr (ctx, cookie), db')"
  shows "ac_session ctx \<in> set (adb_sessions db) \<and> us_revoked_at (ac_session ctx) = None \<and>
     ae_now env < us_expires_at (ac_session ctx) \<and> ae_now env < us_absolute_expires_at (ac_session ctx) \<and>
     ac_user ctx \<in> set (adb_users db) \<and> au_is_active (ac_user ctx) \<and> au_deleted_at (ac_user ctx) = None \<and>
     au_id (ac_user ctx) = us_user_id (ac_session ctx) \<and>
     (case ac_demo ctx of None \<Rightarrow> \<not> rq_demo_realm rq
      | Some d \<Rightarrow> ds_status d = ''active'' \<and> ae_now env < ds_expires_at d) \<and>
     (case cookie of None \<Rightarrow> db' = db
      | Some (payload, max_age) \<Rightarrow> \<exists>e. dget payload ''exp'' = PInt e \<and> e \<le> us_absolute_expires_at (ac_session ctx) \<and>
          max_age = max 0 (e - ae_now env) \<and> dget payload ''sid'' = PStr (us_id (ac_session ctx)) \<and>
          dget payload ''sub'' = PStr (au_email (ac_user ctx)))"
  using assms
proof (rule authenticated_run)
  fix token payload
  assume v: "validate_session env ok payload db = (Inr (ac_session ctx), db)"
    and b: "demo_bind env ok (ac_session ctx) db = (Inr (ac_demo ctx), db)"
    and u: "identify_user payload (ac_session ctx) db = Some (ac_user ctx)"
    and realm: "rq_demo_realm rq \<longrightarrow> ac_demo ctx \<noteq> None"
    and f: "(Inr (ctx, cookie), db') = finish_authentication env rq payload (ac_session ctx) (ac_demo ctx) (ac_user ctx) db"
  have "case cookie of None \<Rightarrow> db' = db
      | Some (payload, max_age) \<Rightarrow> \<exists>e. dget payload ''exp'' = PInt e \<and> e \<le> us_absolute_expires_at (ac_session ctx) \<and>
          max_age = max 0 (e - ae_now env) \<and> dget payload ''sid'' = PStr (us_id (ac_session ctx)) \<and>
          dget payload ''sub'' = PStr (au_email (ac_user ctx))"
    using f refreshed_cookie
    by (fastforce simp: finish_authentication_def Let_def split: sum.splits if_splits prod.splits option.splits)
  moreover have "case ac_demo ctx of None \<Rightarrow> \<not> rq_demo_realm rq
      | Some d \<Rightarrow> ds_status d = ''active'' \<and> ae_now env < ds_expires_at d"
    using realm bind_Inr [OF b] by (auto split: option.split)
  ultimately show ?thesis
    using validate_Inr [OF v] identify_Some [OF u] by blast
qed

definition sample_login_db :: auth_db where
  "sample_login_db = sample_auth_db\<lparr>adb_sessions := [new_user_session sample_env ''s0'' 7 1500 4600]\<rparr>"

definition sample_decode :: "string \<Rightarrow> pydict option" where
  "sample_decode token = (if token = ''t'' then Some (access_token_payload ''a@b'' ''s0'' 1500 False False 1000) else None)"

definition sample_request :: auth_request where
  "sample_request = \<lparr>rq_access_token = Some ''t'', rq_authorization = None, rq_path = ''/projects'',
     rq_method = ''GET'', rq_demo_realm = False\<rparr>"

lemma authenticated_request_live_witness:
  "\<exists>ctx cookie db'. get_authenticated_user sample_env sample_decode False True sample_request sample_login_db
      = (Inr (ctx, cookie), db') \<and> us_revoked_at (ac_session ctx) = None \<and> 1000 < us_expires_at (ac_session ctx)"
proof -
  let ?r = "get_authenticated_user sample_env sample_decode False True sample_request sample_login_db"
  have "\<not> isl (fst ?r)" by code_simp
  then obtain ctx cookie where "?r = (Inr (ctx, cookie), snd ?r)"
    by (metis Inr_projr prod.collapse)
  from this authenticated_request_live [OF this] show ?thesis
    by (auto simp: sample_env_def)
qed

end
