(* ===== verification/Login_Attempt.thy ===== *)
theory Login_Attempt imports Auth_Model begin

text \<open>
  Login throttling and password authentication: \<open>LoginAttemptService\<close> with its repository
  (\<^verbatim>\<open>app/services/login_attempt.py\<close>, \<^verbatim>\<open>app/repositories/login_attempt.py\<close>), \<open>authenticate_user\<close> of
  \<^verbatim>\<open>app/services/user.py\<close> and \<open>check_initial_password_expiry\<close> of \<^verbatim>\<open>app/services/onboarding.py\<close>.

  A failed login is committed before the error is raised, so it stays in the database that
  \<open>authenticate_user\<close> returns beside the error; the reset of a successful one belongs to the
  transaction that creates the session.
\<close>

subsection \<open>LoginAttemptService\<close>

definition normalize_email :: "string \<Rightarrow> string" where
  "normalize_email email = py_lower (py_strip email)"

definition attempt_by_email :: "string \<Rightarrow> auth_db \<Rightarrow> login_attempt option" where
  "attempt_by_email email db = tget la_email email (adb_attempts db)"

definition attempt_get_or_create :: "string \<Rightarrow> auth_db \<Rightarrow> login_attempt \<times> auth_db" where
  "attempt_get_or_create email db =
     (case attempt_by_email email db of
        Some a \<Rightarrow> (a, db)
      | None \<Rightarrow>
          (let a = \<lparr>la_email = email, la_failed_count = 0, la_locked_until = None, la_last_failed_at = None\<rparr>
           in (a, db\<lparr>adb_attempts := adb_attempts db @ [a]\<rparr>)))"

definition attempt_reset :: "login_attempt \<Rightarrow> auth_db \<Rightarrow> auth_db" where
  "attempt_reset a db = put_attempt (a\<lparr>la_failed_count := 0, la_locked_until := None, la_last_failed_at := None\<rparr>) db"

definition is_locked :: "auth_env \<Rightarrow> string \<Rightarrow> auth_db \<Rightarrow> bool \<times> auth_db" where
  "is_locked env email db =
     (case attempt_by_email (normalize_email email) db of
        None \<Rightarrow> (False, db)
      | Some a \<Rightarrow>
          (case la_locked_until a of
             None \<Rightarrow> (False, db)
           | Some until \<Rightarrow> if ae_now env < until then (True, db) else (False, attempt_reset a db)))"

definition record_failure :: "auth_env \<Rightarrow> string \<Rightarrow> auth_db \<Rightarrow> auth_db" where
  "record_failure env email db =
     (let now = ae_now env;
          (a, db1) = attempt_get_or_create (normalize_email email) db;
          failed_count = (case la_locked_until a of
                            Some until \<Rightarrow> if until \<le> now then 0 else la_failed_count a
                          | None \<Rightarrow> la_failed_count a) + 1;
          locked_until = (if ae_login_max_failed_attempts env \<le> failed_count
                          then Some (now + ae_login_lock_minutes env * 60) else None)
      in put_attempt (a\<lparr>la_failed_count := failed_count, la_locked_until := locked_until,
                        la_last_failed_at := Some now\<rparr>) db1)"

definition login_reset :: "string \<Rightarrow> auth_db \<Rightarrow> auth_db" where
  "login_reset email db =
     (case attempt_by_email (normalize_email email) db of None \<Rightarrow> db | Some a \<Rightarrow> attempt_reset a db)"

subsection \<open>authenticate\_user\<close>

definition user_by_email :: "string \<Rightarrow> auth_db \<Rightarrow> auth_user option" where
  "user_by_email email db = find (\<lambda>u. au_email u = email \<and> au_deleted_at u = None) (adb_users db)"

definition initial_password_expired :: "auth_env \<Rightarrow> auth_user \<Rightarrow> bool" where
  "initial_password_expired env u \<longleftrightarrow> au_password_change_required u \<and>
     (case au_initial_password_expires_at u of None \<Rightarrow> True | Some e \<Rightarrow> e \<le> ae_now env)"

definition record_login_failure :: "string \<Rightarrow> string \<Rightarrow> auth_user option \<Rightarrow> auth_db \<Rightarrow> auth_db" where
  "record_login_failure email reason user db =
     auth_audit_event ''auth.login.failure'' None (map_option au_id user) reason db"

definition authenticate_user :: "auth_env \<Rightarrow> string \<Rightarrow> string \<Rightarrow> auth_db \<Rightarrow> auth_user auth_result" where
  "authenticate_user env email password db =
     (let normalized_email = normalize_email email in
      if ends_with normalized_email ''@demo.syncnesto.example.com'' then araise InvalidCredentialsError db
      else
        (let (locked, db1) = is_locked env normalized_email db in
         if locked then
           araise InvalidCredentialsError (record_login_failure normalized_email ''locked'' None db1)
         else
           (case user_by_email email db1 of
              None \<Rightarrow>
                araise InvalidCredentialsError
                  (record_login_failure normalized_email ''unknown_email'' None
                     (record_failure env normalized_email db1))
            | Some user \<Rightarrow>
                if \<not> au_is_active user then
                  araise InvalidCredentialsError
                    (record_login_failure normalized_email ''inactive_user'' (Some user)
                       (record_failure env normalized_email db1))
                else if \<not> ae_verify_password env password (au_hashed_password user) then
                  araise InvalidCredentialsError
                    (record_login_failure normalized_email ''wrong_password'' (Some user)
                       (record_failure env normalized_email db1))
                else if initial_password_expired env user then araise InitialPasswordExpiredError db1
                else aok user (login_reset normalized_email db1))))"

subsection \<open>Normalisation\<close>

lemma lower_char_code:
  "of_char (lower_char c) =
     (let n = of_char c :: nat in
      if (65 \<le> n \<and> n \<le> 90) \<or> (192 \<le> n \<and> n \<le> 222 \<and> n \<noteq> 215) then n + 32 else n)"
  by (auto simp: lower_char_def Let_def)

lemma lower_char_idem: "lower_char (lower_char c) = lower_char c"
proof -
  have "(of_char (lower_char (lower_char c)) :: nat) = of_char (lower_char c)"
    unfolding lower_char_code [of "lower_char c"] unfolding lower_char_code [of c] Let_def by auto
  then show ?thesis by (simp add: of_char_eq_iff)
qed

lemma py_space_lower: "py_space (lower_char c) = py_space c"
  unfolding py_space_def lower_char_code by (auto simp: Let_def)

lemma py_strip_lower: "py_strip (py_lower s) = py_lower (py_strip s)"
  by (simp add: py_strip_def py_lower_def dropWhile_map rev_map comp_def py_space_lower)

lemma dropWhile_idem: "dropWhile p (dropWhile p xs) = dropWhile p xs"
  by (induction xs) auto

lemma last_not_dropped: "xs \<noteq> [] \<Longrightarrow> \<not> p (last xs) \<Longrightarrow> \<not> p (last (dropWhile p xs)) \<and> dropWhile p xs \<noteq> []"
  by (induction xs) (auto split: if_splits)

lemma py_strip_idem: "py_strip (py_strip s) = py_strip s"
proof -
  define t where "t = dropWhile py_space s"
  have t: "t = [] \<or> \<not> py_space (hd t)"
    unfolding t_def by (metis hd_dropWhile)
  have "dropWhile py_space (rev (dropWhile py_space (rev t))) = rev (dropWhile py_space (rev t))"
  proof (cases "t = []")
    case False
    with t have "\<not> py_space (last (dropWhile py_space (rev t))) \<and> dropWhile py_space (rev t) \<noteq> []"
      by (intro last_not_dropped) (simp_all add: last_rev)
    then show ?thesis
      by (metis dropWhile_eq_self_iff hd_rev)
  qed simp
  then show ?thesis
    by (simp add: py_strip_def t_def [symmetric] dropWhile_idem)
qed

lemma normalize_idem [simp]: "normalize_email (normalize_email s) = normalize_email s"
  by (simp add: normalize_email_def py_strip_lower py_strip_idem) (simp add: py_lower_def lower_char_idem)

subsection \<open>The counter of one address\<close>

text \<open>
  What the row of an address means at a time: \<open>Open n\<close> after \<open>n\<close> failures in a row,
  \<open>Locked u\<close> until \<open>u\<close>. A missing row is no failure, an expired lock starts again at none.
\<close>

datatype throttle = Open int | Locked time

definition throttle_of :: "time \<Rightarrow> login_attempt option \<Rightarrow> throttle" where
  "throttle_of now row =
     (case row of
        None \<Rightarrow> Open 0
      | Some a \<Rightarrow> (case la_locked_until a of
                    None \<Rightarrow> Open (la_failed_count a)
                  | Some u \<Rightarrow> if now < u then Locked u else Open 0))"

definition after_failure :: "auth_env \<Rightarrow> throttle \<Rightarrow> throttle" where
  "after_failure env t =
     (case t of
        Open n \<Rightarrow> if ae_login_max_failed_attempts env \<le> n + 1
                  then Locked (ae_now env + ae_login_lock_minutes env * 60) else Open (n + 1)
      | Locked u \<Rightarrow> Locked u)"

lemma attempt_get_put:
  "attempt_by_email k db = Some b \<Longrightarrow> la_email a = k \<Longrightarrow> attempt_by_email k (put_attempt a db) = Some a"
  by (simp add: attempt_by_email_def tget_tput)

lemma attempt_get_put_other:
  "la_email a \<noteq> k \<Longrightarrow> attempt_by_email k (put_attempt a db) = attempt_by_email k db"
  by (auto simp: attempt_by_email_def tget_tput split: option.splits)

lemma attempt_email: "attempt_by_email k db = Some a \<Longrightarrow> la_email a = k"
  using tget_SomeD by (force simp: attempt_by_email_def)

lemma attempt_audit [simp]: "attempt_by_email k (record_login_failure e r u db) = attempt_by_email k db"
  by (simp add: attempt_by_email_def record_login_failure_def)

lemma is_locked_effect:
  assumes "normalize_email email = k" and "throttle_of (ae_now env) (attempt_by_email k db) = t"
  shows "fst (is_locked env email db) \<longleftrightarrow> (\<exists>u. t = Locked u)"
    and "throttle_of (ae_now env) (attempt_by_email k (snd (is_locked env email db))) = t"
    and "adb_users (snd (is_locked env email db)) = adb_users db"
    and "fst (is_locked env email db) \<Longrightarrow> snd (is_locked env email db) = db"
    and "\<not> fst (is_locked env email db) \<Longrightarrow> \<forall>a u. attempt_by_email k (snd (is_locked env email db)) = Some a \<longrightarrow> la_locked_until a = None"
    and "adb_audits (snd (is_locked env email db)) = adb_audits db"
  using assms
  by (auto simp: is_locked_def throttle_of_def attempt_reset_def attempt_get_put attempt_email
      split: option.splits if_splits)

lemma record_failure_effect:
  assumes k: "normalize_email email = k"
    and unlocked: "\<forall>a. attempt_by_email k db = Some a \<longrightarrow> la_locked_until a = None"
    and pos: "0 < ae_login_lock_minutes env"
  shows "throttle_of (ae_now env) (attempt_by_email k (record_failure env email db)) =
      after_failure env (throttle_of (ae_now env) (attempt_by_email k db))"
    and "\<exists>a. attempt_by_email k (record_failure env email db) = Some a"
    and "adb_audits (record_failure env email db) = adb_audits db"
proof -
  have new: "attempt_by_email k (db\<lparr>adb_attempts := tput la_email a (adb_attempts db @ [b])\<rparr>) = Some a"
    if "attempt_by_email k db = None" "la_email a = k" "la_email b = k" for a b
    using that by (simp add: attempt_by_email_def tget_tput tget_append)
  show "throttle_of (ae_now env) (attempt_by_email k (record_failure env email db)) =
      after_failure env (throttle_of (ae_now env) (attempt_by_email k db))"
    and "\<exists>a. attempt_by_email k (record_failure env email db) = Some a"
    and "adb_audits (record_failure env email db) = adb_audits db"
    using k unlocked pos
    by (cases "attempt_by_email k db";
        auto simp: record_failure_def attempt_get_or_create_def Let_def new attempt_get_put attempt_email
          throttle_of_def after_failure_def)+
qed

lemma login_reset_effect:
  "normalize_email email = k \<Longrightarrow> throttle_of now (attempt_by_email k (login_reset email db)) = Open 0"
  by (auto simp: login_reset_def attempt_reset_def attempt_get_put attempt_email throttle_of_def
      split: option.splits)

subsection \<open>When a login succeeds\<close>

definition demo_address :: "string \<Rightarrow> bool" where
  "demo_address email \<longleftrightarrow> ends_with (normalize_email email) ''@demo.syncnesto.example.com''"

definition throttled :: "auth_env \<Rightarrow> string \<Rightarrow> auth_db \<Rightarrow> throttle" where
  "throttled env email db = throttle_of (ae_now env) (attempt_by_email (normalize_email email) db)"

lemma user_by_email_cong: "adb_users db' = adb_users db \<Longrightarrow> user_by_email e db' = user_by_email e db"
  by (simp add: user_by_email_def)

lemma is_locked_throttled:
  "fst (is_locked env (normalize_email email) db) \<longleftrightarrow> (\<exists>u. throttled env email db = Locked u)"
  using is_locked_effect(1) [of "normalize_email email" "normalize_email email" env db "throttled env email db"]
  by (simp add: throttled_def)

text \<open>The four outcomes of a login, by the state the address is in and the user row it names.\<close>

lemma authenticate_cases:
  fixes env email password db
  defines "k \<equiv> normalize_email email"
    and "db1 \<equiv> snd (is_locked env (normalize_email email) db)"
  shows "demo_address email \<Longrightarrow> authenticate_user env email password db = araise InvalidCredentialsError db"
    and "\<not> demo_address email \<Longrightarrow> throttled env email db = Locked u \<Longrightarrow>
      authenticate_user env email password db =
        araise InvalidCredentialsError (record_login_failure k ''locked'' None db)"
    and "\<not> demo_address email \<Longrightarrow> throttled env email db = Open n \<Longrightarrow>
      (\<exists>reason user. authenticate_user env email password db =
          araise InvalidCredentialsError (record_login_failure k reason user (record_failure env k db1))
        \<and> \<not> (\<exists>user. user_by_email email db = Some user \<and> au_is_active user \<and>
               ae_verify_password env password (au_hashed_password user)))
      \<or> (\<exists>user. user_by_email email db = Some user \<and> au_is_active user \<and>
           ae_verify_password env password (au_hashed_password user) \<and>
           authenticate_user env email password db =
             (if initial_password_expired env user then araise InitialPasswordExpiredError db1
              else aok user (login_reset k db1)))"
proof -
  obtain locked d where il: "is_locked env (normalize_email email) db = (locked, d)" by fastforce
  have lk: "locked \<longleftrightarrow> (\<exists>u. throttled env email db = Locked u)"
    using is_locked_throttled [of env email db] by (simp add: il)
  have same: "locked \<Longrightarrow> d = db" and users: "adb_users d = adb_users db"
    using is_locked_effect(3,4) [OF refl refl, of env "normalize_email email" db] by (simp_all add: il)
  have lookup: "user_by_email email d = user_by_email email db"
    by (rule user_by_email_cong [OF users])
  show "demo_address email \<Longrightarrow> authenticate_user env email password db = araise InvalidCredentialsError db"
    by (simp add: authenticate_user_def demo_address_def)
  show "\<not> demo_address email \<Longrightarrow> throttled env email db = Locked u \<Longrightarrow>
      authenticate_user env email password db =
        araise InvalidCredentialsError (record_login_failure k ''locked'' None db)"
    using lk same by (simp add: authenticate_user_def demo_address_def il k_def)
  assume "\<not> demo_address email" "throttled env email db = Open n"
  then have auth: "authenticate_user env email password db =
      (let fail = (\<lambda>reason user. araise InvalidCredentialsError
                     (record_login_failure k reason user (record_failure env k db1))) in
       case user_by_email email db of
         None \<Rightarrow> fail ''unknown_email'' None
       | Some user \<Rightarrow>
           if \<not> au_is_active user then fail ''inactive_user'' (Some user)
           else if \<not> ae_verify_password env password (au_hashed_password user) then fail ''wrong_password'' (Some user)
           else if initial_password_expired env user then araise InitialPasswordExpiredError db1
           else aok user (login_reset k db1))"
    using lk lookup
    by (simp add: authenticate_user_def demo_address_def il k_def db1_def Let_def split: option.split)
  show "(\<exists>reason user. authenticate_user env email password db =
          araise InvalidCredentialsError (record_login_failure k reason user (record_failure env k db1))
        \<and> \<not> (\<exists>user. user_by_email email db = Some user \<and> au_is_active user \<and>
               ae_verify_password env password (au_hashed_password user)))
      \<or> (\<exists>user. user_by_email email db = Some user \<and> au_is_active user \<and>
           ae_verify_password env password (au_hashed_password user) \<and>
           authenticate_user env email password db =
             (if initial_password_expired env user then araise InitialPasswordExpiredError db1
              else aok user (login_reset k db1)))"
  proof (cases "user_by_email email db")
    case None
    with auth show ?thesis unfolding Let_def by auto
  next
    case (Some user)
    show ?thesis
    proof (cases "au_is_active user \<and> ae_verify_password env password (au_hashed_password user)")
      case True
      with auth Some show ?thesis by simp
    next
      case False
      with auth Some show ?thesis unfolding Let_def by (cases "au_is_active user") auto
    qed
  qed
qed

text \<open>
  a login succeeds exactly when the address is not one of the demo, is not locked at this
  moment, belongs to an undeleted active user whose password it is, and the password is not
  an initial one that ran out; a lock refuses the right password too.
\<close>

theorem login_succeeds_iff:
  "(\<exists>db'. authenticate_user env email password db = (Inr user, db')) \<longleftrightarrow>
     \<not> demo_address email \<and> (\<forall>u. throttled env email db \<noteq> Locked u) \<and>
     user_by_email email db = Some user \<and> au_is_active user \<and>
     ae_verify_password env password (au_hashed_password user) \<and> \<not> initial_password_expired env user"
proof (cases "demo_address email")
  case True
  then show ?thesis using authenticate_cases(1) by simp
next
  case False
  show ?thesis
  proof (cases "throttled env email db")
    case (Locked u)
    then show ?thesis using authenticate_cases(2) [OF False Locked] by simp
  next
    case (Open n)
    then show ?thesis using authenticate_cases(3) [OF False Open, of password] False by (auto split: if_splits)
  qed
qed

text \<open>
  C24: login throttling refines a counter. Whatever the rows are, one login moves the state of its
  address as the machine does: a success opens it at zero, a failure while it is open counts
  one more and locks it when the limit is reached, a refusal while it is locked changes
  nothing, and a correct but outdated initial password is not counted.
\<close>

theorem login_refines_throttle:
  assumes "0 < ae_login_lock_minutes env" and "\<not> demo_address email"
    and run: "authenticate_user env email password db = (r, db')"
  shows "throttled env email db' =
     (case r of
        Inr _ \<Rightarrow> Open 0
      | Inl e \<Rightarrow> if err_cls e = InvalidCredentialsError then after_failure env (throttled env email db)
                 else throttled env email db)"
proof -
  let ?k = "normalize_email email" and ?db1 = "snd (is_locked env (normalize_email email) db)"
  show ?thesis
  proof (cases "throttled env email db")
    case (Locked u)
    have "(r, db') = araise InvalidCredentialsError (record_login_failure ?k ''locked'' None db)"
      using authenticate_cases(2) [OF assms(2) Locked] run by simp
    with Locked show ?thesis
      by (auto simp: araise_def raise_cls_def after_failure_def throttled_def)
  next
    case (Open n)
    then have unlocked: "\<not> fst (is_locked env ?k db)" by (simp add: is_locked_throttled)
    have t1: "throttled env email ?db1 = Open n"
      using is_locked_effect(2) [of ?k ?k env db "Open n"] Open by (simp add: throttled_def)
    have rows: "\<forall>a. attempt_by_email ?k ?db1 = Some a \<longrightarrow> la_locked_until a = None"
      using is_locked_effect(5) [of ?k ?k env db, OF _ _ unlocked] by auto
    show ?thesis
      using authenticate_cases(3) [OF assms(2) Open, of password] run Open t1
        record_failure_effect(1) [of ?k ?k ?db1 env, OF _ rows assms(1)]
        login_reset_effect [of ?k ?k "ae_now env" ?db1]
      by (auto simp: araise_def aok_def raise_cls_def throttled_def split: if_splits)
  qed
qed

lemma login_refines_throttle_witness:
  "throttled sample_env ''a@b'' (snd (authenticate_user sample_env ''a@b'' ''no'' sample_auth_db)) = Open 1"
proof -
  let ?r = "authenticate_user sample_env ''a@b'' ''no'' sample_auth_db"
  have "0 < ae_login_lock_minutes sample_env" "\<not> demo_address ''a@b''" by code_simp+
  moreover have "?r = (fst ?r, snd ?r)" by simp
  moreover have "fst ?r = Inl (raise_cls InvalidCredentialsError)" by code_simp
  moreover have "after_failure sample_env (throttled sample_env ''a@b'' sample_auth_db) = Open 1" by code_simp
  ultimately show ?thesis
    using login_refines_throttle [of sample_env "''a@b''" "''no''" sample_auth_db "fst ?r" "snd ?r"]
    by (simp add: raise_cls_def)
qed

subsection \<open>How many passwords can be tried\<close>

text \<open>A history of logins for any addresses, each with its time.\<close>

type_synonym login_request = "time \<times> string \<times> string"

definition at_time :: "time \<Rightarrow> auth_env \<Rightarrow> auth_env" where
  "at_time now env = env\<lparr>ae_now := now\<rparr>"

fun login_run :: "auth_env \<Rightarrow> login_request list \<Rightarrow> auth_db \<Rightarrow> (app_error + auth_user) list \<times> auth_db" where
  "login_run env [] db = ([], db)"
| "login_run env ((now, email, password) # reqs) db =
     (let (r, db1) = authenticate_user (at_time now env) email password db;
          (rs, db2) = login_run env reqs db1
      in (r # rs, db2))"

text \<open>The logins for the address \<open>k\<close> whose credentials were looked at and found wrong.\<close>

definition wrong_guess :: "auth_env \<Rightarrow> string \<Rightarrow> string \<Rightarrow> string \<Rightarrow> auth_db \<Rightarrow> bool" where
  "wrong_guess env k email password db \<longleftrightarrow>
     normalize_email email = k \<and> \<not> demo_address email \<and> \<not> fst (is_locked env k db) \<and>
     (case fst (authenticate_user env email password db) of
        Inr _ \<Rightarrow> False | Inl e \<Rightarrow> err_cls e = InvalidCredentialsError)"

fun wrong_guesses :: "auth_env \<Rightarrow> string \<Rightarrow> login_request list \<Rightarrow> auth_db \<Rightarrow> nat" where
  "wrong_guesses env k [] db = 0"
| "wrong_guesses env k ((now, email, password) # reqs) db =
     (if wrong_guess (at_time now env) k email password db then 1 else 0) +
     wrong_guesses env k reqs (snd (authenticate_user (at_time now env) email password db))"

text \<open>The row of \<open>k\<close> after \<open>m\<close> guesses since the time from which a lock would last until \<open>bound\<close>.\<close>

definition guess_inv :: "auth_env \<Rightarrow> time \<Rightarrow> nat \<Rightarrow> login_attempt option \<Rightarrow> bool" where
  "guess_inv env bound m row \<longleftrightarrow>
     int m \<le> ae_login_max_failed_attempts env \<and>
     (case row of None \<Rightarrow> m = 0
      | Some a \<Rightarrow> 0 \<le> la_failed_count a \<and>
          (m = 0 \<or> (case la_locked_until a of
                      None \<Rightarrow> int m \<le> la_failed_count a \<and> la_failed_count a < ae_login_max_failed_attempts env
                    | Some u \<Rightarrow> bound \<le> u)))"

lemma other_address_untouched:
  assumes "normalize_email email \<noteq> k"
  shows "attempt_by_email k (snd (authenticate_user env email password db)) = attempt_by_email k db"
proof -
  let ?e = "normalize_email email"
  have reset: "attempt_by_email k (attempt_reset a d) = attempt_by_email k d" if "la_email a \<noteq> k" for a d
    using that by (simp add: attempt_reset_def attempt_get_put_other)
  have lk: "attempt_by_email k (snd (is_locked env ?e d)) = attempt_by_email k d" for d
    using assms by (auto simp: is_locked_def reset attempt_email split: option.splits)
  have app: "attempt_by_email k (d\<lparr>adb_attempts := tput la_email b (adb_attempts d @ [a])\<rparr>) = attempt_by_email k d"
    if "la_email a \<noteq> k" "la_email b \<noteq> k" for a b d
    using that by (auto simp: attempt_by_email_def tget_append tget_tput split: option.splits)
  have rf: "attempt_by_email k (record_failure env ?e d) = attempt_by_email k d" for d
    using assms
    by (auto simp: record_failure_def attempt_get_or_create_def Let_def attempt_get_put_other attempt_email app
        split: option.splits)
  have lr: "attempt_by_email k (login_reset ?e d) = attempt_by_email k d" for d
    using assms by (auto simp: login_reset_def reset attempt_email split: option.splits)
  show ?thesis
    using lk [of db]
    by (auto simp: authenticate_user_def Let_def rf lr split: prod.splits option.splits)
qed

lemma record_failure_row:
  assumes "normalize_email email = k" and "\<forall>a. attempt_by_email k db = Some a \<longrightarrow> la_locked_until a = None"
  shows "\<exists>a. attempt_by_email k (record_failure env email db) = Some a \<and>
     la_failed_count a = (case attempt_by_email k db of None \<Rightarrow> 0 | Some b \<Rightarrow> la_failed_count b) + 1 \<and>
     la_locked_until a = (if ae_login_max_failed_attempts env \<le> la_failed_count a
                          then Some (ae_now env + ae_login_lock_minutes env * 60) else None)"
proof (cases "attempt_by_email k db")
  case None
  have "attempt_by_email k (db\<lparr>adb_attempts := tput la_email a (adb_attempts db @ [b])\<rparr>) = Some a"
    if "la_email a = k" "la_email b = k" for a b
    using that None by (simp add: attempt_by_email_def tget_tput tget_append)
  with None assms show ?thesis
    by (auto simp: record_failure_def attempt_get_or_create_def Let_def)
next
  case (Some b)
  with assms attempt_email [OF Some] show ?thesis
    by (auto simp: record_failure_def attempt_get_or_create_def Let_def attempt_get_put)
qed

lemma unlocked_row:
  assumes "normalize_email email = k" and "\<not> fst (is_locked env email db)"
  shows "attempt_by_email k (snd (is_locked env email db)) =
     (case attempt_by_email k db of None \<Rightarrow> None
      | Some a \<Rightarrow> Some (if la_locked_until a = None then a
                       else a\<lparr>la_failed_count := 0, la_locked_until := None, la_last_failed_at := None\<rparr>))"
  using assms
  by (auto simp: is_locked_def attempt_reset_def attempt_get_put attempt_email split: option.splits if_splits)

lemma guess_step:
  assumes inv: "guess_inv env (t0 + ae_login_lock_minutes env * 60) m (attempt_by_email k db)"
    and now: "t0 \<le> now" "now < t0 + ae_login_lock_minutes env * 60" and max: "1 \<le> ae_login_max_failed_attempts env"
    and k: "normalize_email email = k" and run: "authenticate_user (at_time now env) email password db = (Inl e, db')"
  shows "guess_inv env (t0 + ae_login_lock_minutes env * 60)
     (m + (if wrong_guess (at_time now env) k email password db then 1 else 0)) (attempt_by_email k db')"
proof -
  let ?env = "at_time now env" and ?bound = "t0 + ae_login_lock_minutes env * 60"
  have env: "ae_now ?env = now" "ae_login_max_failed_attempts ?env = ae_login_max_failed_attempts env"
    "ae_login_lock_minutes ?env = ae_login_lock_minutes env"
    by (simp_all add: at_time_def)
  consider (demo) "demo_address email" | (locked) u where "\<not> demo_address email" "throttled ?env email db = Locked u"
    | (open_at) n where "\<not> demo_address email" "throttled ?env email db = Open n"
    by (cases "throttled ?env email db") blast+
  then show ?thesis
  proof cases
    case demo
    then show ?thesis
      using authenticate_cases(1) [OF demo, of ?env password db] run inv by (simp add: wrong_guess_def)
  next
    case locked
    then have "fst (is_locked ?env k db)" using is_locked_throttled [of ?env email db] k by simp
    then show ?thesis
      using authenticate_cases(2) [OF locked, of password] run inv by (simp add: wrong_guess_def)
  next
    case open_at
    let ?db1 = "snd (is_locked ?env k db)"
    have unlocked: "\<not> fst (is_locked ?env k db)"
      using open_at is_locked_throttled [of ?env email db] k by simp
    have kk: "normalize_email k = k" using k by auto
    note row1 = unlocked_row [OF kk unlocked]
    have fresh: "m = 0" if "attempt_by_email k db = Some a" "la_locked_until a = Some u" for a u
    proof -
      have "u \<le> now" using unlocked that kk by (simp add: is_locked_def env split: if_splits)
      with inv that now show ?thesis by (simp add: guess_inv_def)
    qed
    have inv1: "guess_inv env ?bound m (attempt_by_email k ?db1)"
      using inv fresh by (auto simp: row1 guess_inv_def split: option.splits)
    have rows: "\<forall>a. attempt_by_email k ?db1 = Some a \<longrightarrow> la_locked_until a = None"
      by (auto simp: row1 split: option.splits)
    show ?thesis
    proof (cases "err_cls e = InvalidCredentialsError")
      case True
      then have db': "attempt_by_email k db' = attempt_by_email k (record_failure ?env k ?db1)"
        using authenticate_cases(3) [OF open_at, of password] run k
        by (auto simp: raise_cls_def split: if_splits)
      have "wrong_guess ?env k email password db"
        using True open_at unlocked k by (simp add: wrong_guess_def run)
      then show ?thesis
        using record_failure_row [OF kk rows, of ?env] inv1 rows now max
        unfolding env by (auto simp: db' guess_inv_def split: option.splits if_splits)
    next
      case False
      then have "db' = ?db1"
        using authenticate_cases(3) [OF open_at, of password] run k
        by (auto simp: raise_cls_def split: if_splits)
      with inv1 False show ?thesis by (simp add: wrong_guess_def run)
    qed
  qed
qed

lemma guess_run:
  assumes "guess_inv env (t0 + ae_login_lock_minutes env * 60) m (attempt_by_email k db)"
    and "1 \<le> ae_login_max_failed_attempts env"
    and "\<forall>(now, _, _) \<in> set reqs. t0 \<le> now \<and> now < t0 + ae_login_lock_minutes env * 60"
    and "\<forall>(r, (_, email, _)) \<in> set (zip (fst (login_run env reqs db)) reqs). normalize_email email = k \<longrightarrow> isl r"
  shows "int (m + wrong_guesses env k reqs db) \<le> ae_login_max_failed_attempts env"
  using assms
proof (induction reqs arbitrary: m db)
  case Nil
  then show ?case by (simp add: guess_inv_def)
next
  case (Cons req reqs)
  obtain now email password where req: "req = (now, email, password)" by (cases req)
  obtain r db1 where a: "authenticate_user (at_time now env) email password db = (r, db1)" by fastforce
  let ?n = "if wrong_guess (at_time now env) k email password db then 1 else 0"
  have inv1: "guess_inv env (t0 + ae_login_lock_minutes env * 60) (m + ?n) (attempt_by_email k db1)"
  proof (cases "normalize_email email = k")
    case True
    then have "isl r" using Cons.prems(4) by (simp add: req a Let_def split: prod.splits)
    then obtain e where "r = Inl e" by (auto simp: isl_def)
    with guess_step [OF Cons.prems(1) _ _ Cons.prems(2) True, of now password e db1] Cons.prems(3) a
    show ?thesis by (simp add: req)
  next
    case False
    then have "attempt_by_email k db1 = attempt_by_email k db"
      using other_address_untouched [OF False, of "at_time now env" password db] by (simp add: a)
    with Cons.prems(1) False show ?thesis by (simp add: wrong_guess_def)
  qed
  have "int ((m + ?n) + wrong_guesses env k reqs db1) \<le> ae_login_max_failed_attempts env"
    by (rule Cons.IH [OF inv1 Cons.prems(2)])
       (use Cons.prems(3,4) in \<open>auto simp: req a Let_def split: prod.splits\<close>)
  then show ?case by (simp add: req a)
qed


definition six_wrong :: "login_request list" where
  "six_wrong = [(1000, ''a@b'', ''1''), (1001, '' A@B'', ''2''), (1002, ''a@b'', ''3''), (1003, ''c@d'', ''4''),
                (1004, ''a@b'', ''5''), (1005, ''a@b'', ''6''), (1006, ''a@b'', ''pw'')]"


end
