(* ===== verification/Account_Action.thy ===== *)
theory Account_Action imports User_Session Login_Attempt begin

text \<open>
  Password resets, address changes and the first password: \<open>AccountActionService\<close>
  (\<^verbatim>\<open>app/services/account_action.py\<close>) with its repository, and \<open>OnboardingService.complete\<close>
  (\<^verbatim>\<open>app/services/onboarding.py\<close>).

  A link carries a random token; the row keeps its digest and a fingerprint of the credentials it
  was issued for. A \<open>mail\<close> record says how the mail adapter answers: whether it is configured
  (\<open>ensure_available\<close>) and the receipt of \<open>send\<close> (\<open>None\<close> for \<open>EmailUnavailableError\<close>). Mail texts and
  the pausing of notification mails (another component's table) are left out; a failing
  \<open>assert\<close> is the plain \<open>AppError\<close> (both become a 500).
\<close>

record mail =
  ml_available :: bool
  ml_receipt :: "string option"

record action_ids =
  ai_id :: string
  ai_token :: string

subsection \<open>Repository\<close>

definition user_id_by_email :: "string \<Rightarrow> auth_db \<Rightarrow> int option" where
  "user_id_by_email email db =
     map_option au_id (find (\<lambda>u. au_email u = email \<and> au_is_active u \<and> au_deleted_at u = None) (adb_users db))"

definition email_in_use :: "string \<Rightarrow> auth_db \<Rightarrow> bool" where
  "email_in_use email db \<longleftrightarrow> email \<in> au_email ` set (adb_users db)"

definition active_user :: "int \<Rightarrow> auth_db \<Rightarrow> auth_user option" where
  "active_user k db = find (\<lambda>u. au_id u = k \<and> au_deleted_at u = None \<and> au_is_active u) (adb_users db)"

definition action_by_hash :: "string \<Rightarrow> auth_db \<Rightarrow> account_action option" where
  "action_by_hash digest db = tget aa_token_hash digest (adb_actions db)"

definition revoke_actions :: "int \<Rightarrow> time \<Rightarrow> auth_db \<Rightarrow> auth_db" where
  "revoke_actions user_id now db =
     db\<lparr>adb_actions := twhere (\<lambda>a. aa_user_id a = user_id \<and> aa_consumed_at a = None \<and> aa_revoked_at a = None)
          (\<lambda>a. a\<lparr>aa_revoked_at := Some now\<rparr>) (adb_actions db)\<rparr>"

definition revoke_sessions :: "int \<Rightarrow> time \<Rightarrow> auth_db \<Rightarrow> auth_db" where
  "revoke_sessions user_id now db =
     db\<lparr>adb_sessions := twhere (\<lambda>s. us_user_id s = user_id \<and> us_revoked_at s = None)
          (\<lambda>s. s\<lparr>us_revoked_at := Some now, us_revoked_reason := Some ''credentials_changed''\<rparr>) (adb_sessions db)\<rparr>"

definition clear_login_lock :: "string \<Rightarrow> auth_db \<Rightarrow> auth_db" where
  "clear_login_lock email db =
     db\<lparr>adb_attempts := twhere (\<lambda>a. la_email a = py_lower email)
          (\<lambda>a. a\<lparr>la_failed_count := 0, la_locked_until := None, la_last_failed_at := None\<rparr>) (adb_attempts db)\<rparr>"

subsection \<open>Checks\<close>

definition reject_identity_change :: "auth_user \<Rightarrow> auth_db \<Rightarrow> bool" where
  "reject_identity_change user db \<longleftrightarrow> tget rg_user_id (au_id user) (adb_review_grants db) \<noteq> None"

definition request_authority :: "auth_env \<Rightarrow> int \<Rightarrow> int option \<Rightarrow> int option \<Rightarrow> bool" where
  "request_authority env user_id actor_id tenant_id \<longleftrightarrow>
     (case tenant_id of
        None \<Rightarrow> (case actor_id of None \<Rightarrow> True | Some a \<Rightarrow> a = user_id)
      | Some t \<Rightarrow>
          (case actor_id of
             None \<Rightarrow> False
           | Some a \<Rightarrow>
               (let actor_role = ae_tenant_role env t a; target_role = ae_tenant_role env t user_id
                in actor_role \<in> {Some ''tenant_owner'', Some ''tenant_admin''} \<and> target_role \<noteq> None \<and>
                   \<not> (actor_role \<noteq> Some ''tenant_owner'' \<and> target_role = Some ''tenant_owner''))))"

definition request_user :: "auth_env \<Rightarrow> int \<Rightarrow> int option \<Rightarrow> int option \<Rightarrow> auth_db \<Rightarrow> app_error + auth_user" where
  "request_user env user_id actor_id tenant_id db =
     ebind (some_or (raise_cls ForbiddenError) (active_user user_id db)) (\<lambda>user.
     ebind (raise_if (reject_identity_change user db) (raise_cls ForbiddenError)) (\<lambda>_.
     ebind (raise_if (\<not> request_authority env user_id actor_id tenant_id) (raise_cls ForbiddenError)) (\<lambda>_.
     Inr user)))"

definition check_new_email :: "auth_user \<Rightarrow> string \<Rightarrow> auth_db \<Rightarrow> app_error + unit" where
  "check_new_email user new_email db =
     ebind (raise_if (new_email = au_email user) (raise_msg BadRequestError ''ACCOUNT_ACTION_SAME_EMAIL'')) (\<lambda>_.
     raise_if (email_in_use new_email db) (raise_cls EmailAlreadyRegisteredError))"

definition credential_fingerprint :: "auth_env \<Rightarrow> auth_user \<Rightarrow> string" where
  "credential_fingerprint env user =
     ae_hmac env (show_int (au_id user) @ '':'' @ au_email user @ '':'' @ au_hashed_password user)"

subsection \<open>Issuing and checking links\<close>

definition issue_action ::
  "auth_env \<Rightarrow> mail \<Rightarrow> action_ids \<Rightarrow> auth_user \<Rightarrow> action_purpose \<Rightarrow> int option \<Rightarrow> int option \<Rightarrow> string option \<Rightarrow>
   auth_db \<Rightarrow> app_error + account_action \<times> auth_db" where
  "issue_action env ml ids user purpose actor_id tenant_id new_email db =
     (case ml_receipt ml of
        None \<Rightarrow> Inl (raise_cls EmailUnavailableError)
      | Some receipt \<Rightarrow>
          (let a = \<lparr>aa_id = ai_id ids, aa_user_id = au_id user, aa_requested_by_id = actor_id,
                    aa_tenant_id = tenant_id, aa_purpose = purpose, aa_token_hash = ae_digest env (ai_token ids),
                    aa_credential_fingerprint = credential_fingerprint env user, aa_old_email = au_email user,
                    aa_new_email = new_email, aa_expires_at = ae_now env + ae_account_action_expire_seconds env,
                    aa_sent_at = Some (ae_now env), aa_provider_message_id = Some receipt,
                    aa_consumed_at = None, aa_revoked_at = None\<rparr>
           in Inr (a, db\<lparr>adb_actions := adb_actions db @ [a]\<rparr>)))"

definition valid_action ::
  "auth_env \<Rightarrow> string \<Rightarrow> action_purpose option \<Rightarrow> auth_db \<Rightarrow> app_error + account_action \<times> auth_user" where
  "valid_action env token purpose db =
     ebind (some_or (raise_cls AccountActionInvalidError) (action_by_hash (ae_digest env token) db)) (\<lambda>action.
     ebind (some_or (raise_cls AccountActionInvalidError) (active_user (aa_user_id action) db)) (\<lambda>user.
     ebind (raise_if (reject_identity_change user db) (raise_cls ForbiddenError)) (\<lambda>_.
     ebind (raise_if (aa_sent_at action = None \<or> aa_consumed_at action \<noteq> None \<or> aa_revoked_at action \<noteq> None \<or>
              aa_expires_at action \<le> ae_now env \<or> aa_old_email action \<noteq> au_email user \<or>
              aa_credential_fingerprint action \<noteq> credential_fingerprint env user \<or>
              (case purpose of None \<Rightarrow> False | Some p \<Rightarrow> aa_purpose action \<noteq> p))
            (raise_cls AccountActionInvalidError)) (\<lambda>_.
     ebind (raise_if (\<not> request_authority env (au_id user) (aa_requested_by_id action) (aa_tenant_id action))
            (raise_cls AccountActionInvalidError)) (\<lambda>_.
     Inr (action, user))))))"

definition action_audit :: "string \<Rightarrow> account_action \<Rightarrow> bool \<Rightarrow> auth_db \<Rightarrow> auth_db" where
  "action_audit event action finished db =
     auth_audit_event (''account.'' @ event) (if finished then Some (aa_user_id action) else aa_requested_by_id action)
       (Some (aa_user_id action)) (aa_id action) db"

text \<open>\<open>_finish\<close>: consumes the link, revokes every other one and every session, clears the login locks.\<close>

definition finish_action :: "auth_env \<Rightarrow> account_action \<Rightarrow> auth_user \<Rightarrow> auth_db \<Rightarrow> auth_db" where
  "finish_action env action user db =
     (let now = ae_now env;
          db1 = put_action (action\<lparr>aa_consumed_at := Some now\<rparr>) db;
          db2 = revoke_sessions (au_id user) now (revoke_actions (au_id user) now db1);
          db3 = clear_login_lock (aa_old_email action) db2
      in if au_email user \<noteq> aa_old_email action then clear_login_lock (au_email user) db3 else db3)"

subsection \<open>AccountActionService\<close>

definition lift_result :: "auth_db \<Rightarrow> app_error + 'a \<times> auth_db \<Rightarrow> 'a auth_result" where
  "lift_result db r = (case r of Inl e \<Rightarrow> (Inl e, db) | Inr (x, db') \<Rightarrow> (Inr x, db'))"

text \<open>\<open>in_demo\<close>: a demo request is checked and then sends nothing.\<close>

definition request_password_reset ::
  "auth_env \<Rightarrow> bool \<Rightarrow> mail \<Rightarrow> action_ids \<Rightarrow> int \<Rightarrow> int option \<Rightarrow> int option \<Rightarrow> auth_db \<Rightarrow> unit auth_result" where
  "request_password_reset env in_demo ml ids user_id actor_id tenant_id db = lift_result db
     (if in_demo then ebind (request_user env user_id actor_id tenant_id db) (\<lambda>_. Inr ((), db))
      else
        ebind (raise_if (\<not> ml_available ml) (raise_cls EmailUnavailableError)) (\<lambda>_.
        ebind (request_user env user_id actor_id tenant_id db) (\<lambda>user.
        ebind (issue_action env ml ids user PasswordReset actor_id tenant_id None db) (\<lambda>(action, db1).
        Inr ((), action_audit ''password_reset.requested'' action False db1)))))"

definition public_password_reset :: "auth_env \<Rightarrow> mail \<Rightarrow> action_ids \<Rightarrow> string \<Rightarrow> auth_db \<Rightarrow> auth_db" where
  "public_password_reset env ml ids email db =
     (case user_id_by_email email db of
        None \<Rightarrow> db
      | Some user_id \<Rightarrow>
          (case request_password_reset env False ml ids user_id None None db of
             (Inr _, db1) \<Rightarrow> db1
           | (Inl _, _) \<Rightarrow> auth_audit_event ''account.password_reset.send_failed'' None (Some user_id) '''' db))"

definition request_email_change ::
  "auth_env \<Rightarrow> bool \<Rightarrow> mail \<Rightarrow> action_ids \<Rightarrow> int \<Rightarrow> int \<Rightarrow> string \<Rightarrow> int option \<Rightarrow> auth_db \<Rightarrow> unit auth_result" where
  "request_email_change env in_demo ml ids user_id actor_id new_email tenant_id db = lift_result db
     (if in_demo then ebind (request_user env user_id (Some actor_id) tenant_id db) (\<lambda>_. Inr ((), db))
      else
        ebind (raise_if (\<not> ml_available ml) (raise_cls EmailUnavailableError)) (\<lambda>_.
        ebind (request_user env user_id (Some actor_id) tenant_id db) (\<lambda>user.
        ebind (check_new_email user new_email db) (\<lambda>_.
        ebind (issue_action env ml ids user EmailChangeApprove (Some actor_id) tenant_id (Some new_email) db)
          (\<lambda>(action, db1).
        Inr ((), action_audit ''email_change.requested'' action False db1))))))"

definition inspect_action :: "auth_env \<Rightarrow> string \<Rightarrow> auth_db \<Rightarrow> app_error + action_purpose \<times> time \<times> string option" where
  "inspect_action env token db =
     ebind (valid_action env token None db) (\<lambda>(action, _).
     Inr (aa_purpose action, aa_expires_at action, aa_new_email action))"

definition reset_password :: "auth_env \<Rightarrow> string \<Rightarrow> string \<Rightarrow> auth_db \<Rightarrow> string auth_result" where
  "reset_password env token password db = lift_result db
     (ebind (valid_action env token (Some PasswordReset) db) (\<lambda>(action, user).
      ebind (raise_if (au_password_change_required user \<and> ae_verify_password env password (au_hashed_password user))
               (raise_cls InitialPasswordReuseError)) (\<lambda>_.
      let user' = user\<lparr>au_hashed_password := ae_hash_password env password, au_password_change_required := False,
                       au_initial_password_expires_at := None, au_version := au_version user + 1,
                       au_updated_by := Some (au_id user)\<rparr>
      in Inr (au_email user',
              action_audit ''password_reset.completed'' action True (finish_action env action user' (put_user user' db))))))"

definition approve_email_change :: "auth_env \<Rightarrow> mail \<Rightarrow> action_ids \<Rightarrow> string \<Rightarrow> auth_db \<Rightarrow> unit auth_result" where
  "approve_email_change env ml ids token db = lift_result db
     (ebind (raise_if (\<not> ml_available ml) (raise_cls EmailUnavailableError)) (\<lambda>_.
      ebind (valid_action env token (Some EmailChangeApprove) db) (\<lambda>(action, user).
      ebind (some_or (raise_cls AppError) (aa_new_email action)) (\<lambda>new_email.
      ebind (check_new_email user new_email db) (\<lambda>_.
      ebind (issue_action env ml ids user EmailChangeVerify (aa_requested_by_id action) (aa_tenant_id action)
               (Some new_email) db) (\<lambda>(_, db1).
      Inr ((), action_audit ''email_change.approved'' action False
             (put_action (action\<lparr>aa_consumed_at := Some (ae_now env)\<rparr>) db1))))))))"

definition confirm_email_change :: "auth_env \<Rightarrow> string \<Rightarrow> auth_db \<Rightarrow> (string \<times> string) auth_result" where
  "confirm_email_change env token db = lift_result db
     (ebind (valid_action env token (Some EmailChangeVerify) db) (\<lambda>(action, user).
      ebind (some_or (raise_cls AppError) (aa_new_email action)) (\<lambda>new_email.
      ebind (check_new_email user new_email db) (\<lambda>_.
      let user' = user\<lparr>au_email := new_email, au_version := au_version user + 1, au_updated_by := Some (au_id user)\<rparr>
      in Inr ((au_email user, au_email user'),
              action_audit ''email_change.completed'' action True (finish_action env action user' (put_user user' db)))))))"

text \<open>\<open>OnboardingService.complete\<close>, the first password of an issued account.\<close>

definition complete_initial_password :: "auth_env \<Rightarrow> int \<Rightarrow> string \<Rightarrow> string \<Rightarrow> auth_db \<Rightarrow> unit auth_result" where
  "complete_initial_password env user_id current_password password db = lift_result db
     (ebind (some_or (raise_cls InvalidCredentialsError) (active_user user_id db)) (\<lambda>user.
      ebind (raise_if (\<not> ae_verify_password env current_password (au_hashed_password user))
               (raise_cls InvalidCredentialsError)) (\<lambda>_.
      ebind (raise_if (\<not> au_password_change_required user) (raise_msg BadRequestError ''INITIAL_PASSWORD_DONE'')) (\<lambda>_.
      ebind (raise_if (initial_password_expired env user) (raise_cls InitialPasswordExpiredError)) (\<lambda>_.
      ebind (raise_if (ae_verify_password env password (au_hashed_password user))
               (raise_cls InitialPasswordReuseError)) (\<lambda>_.
      let now = ae_now env;
          user' = user\<lparr>au_hashed_password := ae_hash_password env password, au_password_change_required := False,
                       au_initial_password_expires_at := None, au_version := au_version user + 1,
                       au_updated_by := Some (au_id user)\<rparr>
      in Inr ((), auth_audit_event ''account.initial_password.completed'' (Some user_id) (Some user_id) ''''
                    (clear_login_lock (au_email user)
                       (revoke_actions user_id now (revoke_sessions user_id now (put_user user' db)))))))))))"

subsection \<open>What a link that is accepted looks like\<close>

lemma active_user_Some:
  "active_user k db = Some u \<Longrightarrow> u \<in> set (adb_users db) \<and> au_id u = k \<and> au_deleted_at u = None \<and> au_is_active u"
  by (auto simp: active_user_def find_Some_iff)

lemma valid_action_Inr:
  assumes "valid_action env token purpose db = Inr (a, u)"
  shows "action_by_hash (ae_digest env token) db = Some a" and "active_user (aa_user_id a) db = Some u"
    and "au_id u = aa_user_id a" and "aa_consumed_at a = None" and "aa_revoked_at a = None"
    and "ae_now env < aa_expires_at a" and "aa_old_email a = au_email u"
    and "aa_credential_fingerprint a = credential_fingerprint env u"
    and "\<And>p. purpose = Some p \<Longrightarrow> aa_purpose a = p"
proof -
  have v: "action_by_hash (ae_digest env token) db = Some a \<and> active_user (aa_user_id a) db = Some u \<and>
      aa_consumed_at a = None \<and> aa_revoked_at a = None \<and> ae_now env < aa_expires_at a \<and>
      aa_old_email a = au_email u \<and> aa_credential_fingerprint a = credential_fingerprint env u \<and>
      (case purpose of None \<Rightarrow> True | Some p \<Rightarrow> aa_purpose a = p)"
    using assms unfolding valid_action_def by (elim ebind_InrE) (auto split: option.splits)
  then show "action_by_hash (ae_digest env token) db = Some a" "active_user (aa_user_id a) db = Some u"
    "aa_consumed_at a = None" "aa_revoked_at a = None" "ae_now env < aa_expires_at a"
    "aa_old_email a = au_email u" "aa_credential_fingerprint a = credential_fingerprint env u"
    "\<And>p. purpose = Some p \<Longrightarrow> aa_purpose a = p"
    by auto
  show "au_id u = aa_user_id a" using v active_user_Some by blast
qed

lemma lift_Inr: "lift_result db r = (Inr x, db') \<longleftrightarrow> r = Inr (x, db')"
  by (auto simp: lift_result_def split: sum.splits)

lemma lift_cases: "snd (lift_result db r) = db \<or> (\<exists>x. lift_result db r = (Inr x, snd (lift_result db r)))"
  by (auto simp: lift_result_def split: sum.splits)

definition with_password :: "auth_env \<Rightarrow> string \<Rightarrow> auth_user \<Rightarrow> auth_user" where
  "with_password env password user =
     user\<lparr>au_hashed_password := ae_hash_password env password, au_password_change_required := False,
          au_initial_password_expires_at := None, au_version := au_version user + 1,
          au_updated_by := Some (au_id user)\<rparr>"

definition with_email :: "string \<Rightarrow> auth_user \<Rightarrow> auth_user" where
  "with_email new_email user =
     user\<lparr>au_email := new_email, au_version := au_version user + 1, au_updated_by := Some (au_id user)\<rparr>"

lemma with_simps [simp]:
  "au_id (with_password env pw u) = au_id u" "au_email (with_password env pw u) = au_email u"
  "au_id (with_email e u) = au_id u" "au_email (with_email e u) = e"
  by (simp_all add: with_password_def with_email_def)

lemma reset_password_Inr:
  assumes "reset_password env token password db = (Inr e, db')"
  obtains a u where "valid_action env token (Some PasswordReset) db = Inr (a, u)" and "e = au_email u"
    and "db' = action_audit ''password_reset.completed'' a True
       (finish_action env a (with_password env password u) (put_user (with_password env password u) db))"
  using assms unfolding reset_password_def lift_Inr with_password_def
  by (elim ebind_InrE) (auto simp: Let_def)

lemma confirm_email_change_Inr:
  assumes "confirm_email_change env token db = (Inr p, db')"
  obtains a u new_email where "valid_action env token (Some EmailChangeVerify) db = Inr (a, u)"
    and "aa_new_email a = Some new_email" and "check_new_email u new_email db = Inr ()"
    and "p = (au_email u, new_email)"
    and "db' = action_audit ''email_change.completed'' a True
       (finish_action env a (with_email new_email u) (put_user (with_email new_email u) db))"
  using assms unfolding confirm_email_change_def lift_Inr with_email_def
  by (elim ebind_InrE) (auto simp: Let_def)

lemma approve_email_change_Inr:
  assumes "approve_email_change env ml ids token db = (Inr p, db')"
  obtains a u new_email b db1 where "valid_action env token (Some EmailChangeApprove) db = Inr (a, u)"
    and "aa_new_email a = Some new_email"
    and "issue_action env ml ids u EmailChangeVerify (aa_requested_by_id a) (aa_tenant_id a) (Some new_email) db = Inr (b, db1)"
    and "db' = action_audit ''email_change.approved'' a False (put_action (a\<lparr>aa_consumed_at := Some (ae_now env)\<rparr>) db1)"
  using assms unfolding approve_email_change_def lift_Inr
  by (elim ebind_InrE) auto

lemma complete_initial_password_Inr:
  assumes "complete_initial_password env k current password db = (Inr x, db')"
  obtains u where "active_user k db = Some u" and "ae_verify_password env current (au_hashed_password u)"
    and "db' = auth_audit_event ''account.initial_password.completed'' (Some k) (Some k) ''''
                (clear_login_lock (au_email u) (revoke_actions k (ae_now env)
                   (revoke_sessions k (ae_now env) (put_user (with_password env password u) db))))"
  using assms unfolding complete_initial_password_def lift_Inr with_password_def
  by (elim ebind_InrE) (auto simp: Let_def)

subsection \<open>A change of credentials ends everything issued before it\<close>

definition locked_out :: "int \<Rightarrow> auth_db \<Rightarrow> bool" where
  "locked_out k db \<longleftrightarrow> (\<forall>s \<in> set (adb_sessions db). us_user_id s = k \<longrightarrow> us_revoked_at s \<noteq> None)"

definition links_dead :: "int \<Rightarrow> auth_db \<Rightarrow> bool" where
  "links_dead k db \<longleftrightarrow> (\<forall>a \<in> set (adb_actions db). aa_user_id a = k \<longrightarrow> aa_consumed_at a \<noteq> None \<or> aa_revoked_at a \<noteq> None)"

definition no_lock :: "string \<Rightarrow> auth_db \<Rightarrow> bool" where
  "no_lock email db \<longleftrightarrow> (\<forall>a \<in> set (adb_attempts db). la_email a = py_lower email \<longrightarrow>
     la_failed_count a = 0 \<and> la_locked_until a = None)"

text \<open>The three updates, by the table they write.\<close>

definition ended_sessions :: "int \<Rightarrow> time \<Rightarrow> user_session list \<Rightarrow> user_session list" where
  "ended_sessions k now t = twhere (\<lambda>s. us_user_id s = k \<and> us_revoked_at s = None)
     (\<lambda>s. s\<lparr>us_revoked_at := Some now, us_revoked_reason := Some ''credentials_changed''\<rparr>) t"

definition ended_links :: "int \<Rightarrow> time \<Rightarrow> account_action list \<Rightarrow> account_action list" where
  "ended_links k now t = twhere (\<lambda>a. aa_user_id a = k \<and> aa_consumed_at a = None \<and> aa_revoked_at a = None)
     (\<lambda>a. a\<lparr>aa_revoked_at := Some now\<rparr>) t"

definition cleared_attempts :: "string \<Rightarrow> login_attempt list \<Rightarrow> login_attempt list" where
  "cleared_attempts e t = twhere (\<lambda>a. la_email a = py_lower e)
     (\<lambda>a. a\<lparr>la_failed_count := 0, la_locked_until := None, la_last_failed_at := None\<rparr>) t"

lemma update_tables [simp]:
  "adb_sessions (revoke_sessions k now db) = ended_sessions k now (adb_sessions db)"
  "adb_actions (revoke_actions k now db) = ended_links k now (adb_actions db)"
  "adb_attempts (clear_login_lock e db) = cleared_attempts e (adb_attempts db)"
  "adb_sessions (revoke_actions k now db) = adb_sessions db" "adb_users (revoke_actions k now db) = adb_users db"
  "adb_actions (revoke_sessions k now db) = adb_actions db" "adb_users (revoke_sessions k now db) = adb_users db"
  "adb_sessions (clear_login_lock e db) = adb_sessions db" "adb_actions (clear_login_lock e db) = adb_actions db"
  "adb_users (clear_login_lock e db) = adb_users db" "adb_attempts (revoke_actions k now db) = adb_attempts db"
  "adb_attempts (revoke_sessions k now db) = adb_attempts db"
  "adb_sessions (action_audit ev a f db) = adb_sessions db" "adb_actions (action_audit ev a f db) = adb_actions db"
  "adb_users (action_audit ev a f db) = adb_users db" "adb_attempts (action_audit ev a f db) = adb_attempts db"
  by (simp_all add: revoke_actions_def revoke_sessions_def clear_login_lock_def action_audit_def
      ended_sessions_def ended_links_def cleared_attempts_def)

lemma finish_tables [simp]:
  "adb_sessions (finish_action env a u db) = ended_sessions (au_id u) (ae_now env) (adb_sessions db)"
  "adb_actions (finish_action env a u db) =
     ended_links (au_id u) (ae_now env) (tput aa_id (a\<lparr>aa_consumed_at := Some (ae_now env)\<rparr>) (adb_actions db))"
  "adb_users (finish_action env a u db) = adb_users db"
  "adb_attempts (finish_action env a u db) =
     (if au_email u \<noteq> aa_old_email a then cleared_attempts (au_email u) (cleared_attempts (aa_old_email a) (adb_attempts db))
      else cleared_attempts (aa_old_email a) (adb_attempts db))"
  by (simp_all add: finish_action_def Let_def)

lemma ended_session: "s \<in> set (ended_sessions k now t) \<Longrightarrow> us_user_id s = k \<Longrightarrow> us_revoked_at s \<noteq> None"
proof -
  assume s: "s \<in> set (ended_sessions k now t)" "us_user_id s = k"
  from s(1) show ?thesis
    unfolding ended_sessions_def
  proof (rule twhere_E)
    assume "\<not> (us_user_id s = k \<and> us_revoked_at s = None)"
    with s(2) show ?thesis by simp
  qed simp
qed

lemma ended_link:
  "a \<in> set (ended_links k now t) \<Longrightarrow> aa_user_id a = k \<Longrightarrow> aa_consumed_at a \<noteq> None \<or> aa_revoked_at a \<noteq> None"
proof -
  assume a: "a \<in> set (ended_links k now t)" "aa_user_id a = k"
  from a(1) show ?thesis
    unfolding ended_links_def
  proof (rule twhere_E)
    assume "\<not> (aa_user_id a = k \<and> aa_consumed_at a = None \<and> aa_revoked_at a = None)"
    with a(2) show ?thesis by simp
  qed simp
qed

lemma cleared_attempt:
  "a \<in> set (cleared_attempts e t) \<Longrightarrow> la_email a = py_lower e \<Longrightarrow> la_failed_count a = 0 \<and> la_locked_until a = None"
  by (auto simp: cleared_attempts_def set_twhere)

lemma cleared_attempt_kept:
  "a \<in> set (cleared_attempts f (cleared_attempts e t)) \<Longrightarrow> la_email a = py_lower e \<Longrightarrow>
   la_failed_count a = 0 \<and> la_locked_until a = None"
  by (auto simp: cleared_attempts_def set_twhere)

lemma ended_sessions_locks: "adb_sessions db = ended_sessions k now t \<Longrightarrow> locked_out k db"
  unfolding locked_out_def using ended_session by metis

lemma ended_links_kills: "adb_actions db = ended_links k now t \<Longrightarrow> links_dead k db"
  unfolding links_dead_def using ended_link by metis

lemma finish_ends_all:
  "locked_out (au_id u) (finish_action env a u db)" "links_dead (au_id u) (finish_action env a u db)"
  "no_lock (aa_old_email a) (finish_action env a u db)" "no_lock (au_email u) (finish_action env a u db)"
  by (rule ended_sessions_locks [OF finish_tables(1)], rule ended_links_kills [OF finish_tables(2)])
     (unfold no_lock_def finish_tables(4),
      auto dest: cleared_attempt cleared_attempt_kept split: if_splits)

lemma audit_irrelevant [simp]:
  "locked_out k (action_audit ev a f db) = locked_out k db" "links_dead k (action_audit ev a f db) = links_dead k db"
  "no_lock e (action_audit ev a f db) = no_lock e db"
  by (simp_all add: locked_out_def links_dead_def no_lock_def)


definition sample_mail :: mail where
  "sample_mail = \<lparr>ml_available = True, ml_receipt = Some ''m1''\<rparr>"

definition sample_reset_db :: auth_db where
  "sample_reset_db = snd (request_password_reset sample_env False sample_mail
     \<lparr>ai_id = ''a1'', ai_token = ''tok''\<rparr> 7 None None sample_login_db)"


subsection \<open>How links evolve\<close>

text \<open>
  Rows of links keep what they were issued with, and a consumed or revoked link stays so. A link
  that was not there before is unused and has the digest of the token just drawn.
\<close>

definition link_evolves :: "account_action \<Rightarrow> account_action \<Rightarrow> bool" where
  "link_evolves a b \<longleftrightarrow> aa_id b = aa_id a \<and> aa_token_hash b = aa_token_hash a \<and> aa_user_id b = aa_user_id a \<and>
     aa_purpose b = aa_purpose a \<and> aa_new_email b = aa_new_email a \<and> aa_old_email b = aa_old_email a \<and>
     aa_tenant_id b = aa_tenant_id a \<and> aa_credential_fingerprint b = aa_credential_fingerprint a \<and>
     (aa_consumed_at a \<noteq> None \<longrightarrow> aa_consumed_at b \<noteq> None) \<and> (aa_revoked_at a \<noteq> None \<longrightarrow> aa_revoked_at b \<noteq> None)"

abbreviation links_evolve :: "account_action list \<Rightarrow> account_action list \<Rightarrow> bool" where
  "links_evolve \<equiv> rows_from link_evolves"

interpretation lnk: evolution link_evolves
  by unfold_locales (auto simp: link_evolves_def)

lemma links_evolve_ended: "links_evolve t (ended_links k now t)"
  unfolding ended_links_def by (rule lnk.where_updated) (simp add: link_evolves_def)

lemma evolve_ended: "sessions_evolve t (ended_sessions k now t)"
  unfolding ended_sessions_def by (rule ses.where_updated) (rule row_evolves_revoke)

lemma action_by_hash_mem: "action_by_hash h db = Some a \<Longrightarrow> a \<in> set (adb_actions db) \<and> aa_token_hash a = h"
  using tget_SomeD by (force simp: action_by_hash_def)

lemma link_consumed: "link_evolves a (a\<lparr>aa_consumed_at := Some now\<rparr>)"
  by (simp add: link_evolves_def)

lemma finish_links:
  "a \<in> set (adb_actions db) \<Longrightarrow> links_evolve (adb_actions db) (adb_actions (finish_action env a u db))"
  unfolding finish_tables
  by (rule lnk.chain [OF lnk.put links_evolve_ended]) (assumption, rule link_consumed)

text \<open>Every operation of this theory: what it does to the sessions, the links and the users.\<close>

lemma issue_Inr:
  assumes "issue_action env ml ids u purpose actor tenant new_email db = Inr (a, db')"
  shows "adb_actions db' = adb_actions db @ [a]" and "adb_sessions db' = adb_sessions db"
    and "adb_users db' = adb_users db" and "aa_user_id a = au_id u" and "aa_purpose a = purpose"
    and "aa_new_email a = new_email" and "aa_old_email a = au_email u" and "aa_tenant_id a = tenant"
    and "aa_token_hash a = ae_digest env (ai_token ids)" and "aa_id a = ai_id ids"
    and "aa_consumed_at a = None" and "aa_revoked_at a = None"
  using assms by (auto simp: issue_action_def Let_def split: option.splits)

lemma lift_result_snd: "lift_result db r = (x, db') \<Longrightarrow> db' = db \<or> (\<exists>y. r = Inr (y, db'))"
  by (auto simp: lift_result_def split: sum.splits)

definition issued :: "auth_env \<Rightarrow> action_ids \<Rightarrow> action_purpose \<Rightarrow> auth_db \<Rightarrow> auth_db \<Rightarrow> bool" where
  "issued env ids purpose db db' \<longleftrightarrow> adb_sessions db' = adb_sessions db \<and> adb_users db' = adb_users db \<and>
     (\<exists>a. adb_actions db' = adb_actions db @ [a] \<and> aa_purpose a = purpose \<and>
          aa_token_hash a = ae_digest env (ai_token ids) \<and> aa_id a = ai_id ids)"

lemma request_reset_effect:
  assumes "request_password_reset env in_demo ml ids k actor tenant db = (r, db')"
  shows "db' = db \<or> issued env ids PasswordReset db db'"
proof (cases in_demo)
  case True
  with assms show ?thesis
    by (auto simp: request_password_reset_def dest!: lift_result_snd)
next
  case False
  have "db' = db \<or> (\<exists>y. ebind (raise_if (\<not> ml_available ml) (raise_cls EmailUnavailableError)) (\<lambda>_.
        ebind (request_user env k actor tenant db) (\<lambda>user.
        ebind (issue_action env ml ids user PasswordReset actor tenant None db) (\<lambda>(action, db1).
        Inr ((), action_audit ''password_reset.requested'' action False db1)))) = Inr (y, db'))"
    using assms False unfolding request_password_reset_def by (auto dest!: lift_result_snd)
  then show ?thesis
  proof (elim disjE exE ebind_InrE)
    fix u p y
    assume i: "issue_action env ml ids u PasswordReset actor tenant None db = Inr p"
      and "(case p of (action, db1) \<Rightarrow> Inr ((), action_audit ''password_reset.requested'' action False db1)) = Inr (y, db')"
    then obtain a db1 where p: "p = (a, db1)" "db' = action_audit ''password_reset.requested'' a False db1"
      by (cases p) auto
    show ?thesis using issue_Inr [OF i [unfolded p(1)]] p(2) by (simp add: issued_def)
  qed simp
qed

lemma request_change_effect:
  assumes "request_email_change env in_demo ml ids k actor new_email tenant db = (r, db')"
  shows "db' = db \<or> issued env ids EmailChangeApprove db db'"
proof (cases in_demo)
  case True
  with assms show ?thesis
    by (auto simp: request_email_change_def dest!: lift_result_snd)
next
  case False
  have "db' = db \<or> (\<exists>y. ebind (raise_if (\<not> ml_available ml) (raise_cls EmailUnavailableError)) (\<lambda>_.
        ebind (request_user env k (Some actor) tenant db) (\<lambda>user.
        ebind (check_new_email user new_email db) (\<lambda>_.
        ebind (issue_action env ml ids user EmailChangeApprove (Some actor) tenant (Some new_email) db) (\<lambda>(action, db1).
        Inr ((), action_audit ''email_change.requested'' action False db1))))) = Inr (y, db'))"
    using assms False unfolding request_email_change_def by (auto dest!: lift_result_snd)
  then show ?thesis
  proof (elim disjE exE ebind_InrE)
    fix u p y
    assume i: "issue_action env ml ids u EmailChangeApprove (Some actor) tenant (Some new_email) db = Inr p"
      and "(case p of (action, db1) \<Rightarrow> Inr ((), action_audit ''email_change.requested'' action False db1)) = Inr (y, db')"
    then obtain a db1 where p: "p = (a, db1)" "db' = action_audit ''email_change.requested'' a False db1"
      by (cases p) auto
    show ?thesis using issue_Inr [OF i [unfolded p(1)]] p(2) by (simp add: issued_def)
  qed simp
qed

end
