(* ===== verification/Mfa.thy ===== *)
theory Mfa imports Account_Action begin

text \<open>
  The additional authentication: \<open>MfaService\<close> (\<^verbatim>\<open>app/services/mfa.py\<close>) with
  \<open>MfaRepository\<close> and the helpers of \<^verbatim>\<open>app/core/mfa.py\<close>.

  A flow is the short-lived state between the password and the session. The libraries come with
  the record \<open>mfa_env\<close>: encryption of the stored secret (\<open>me_decrypt\<close> is \<open>None\<close> for
  \<open>InvalidToken\<close>), the TOTP of a secret at a time, and the two WebAuthn verifications, of which
  only the answer matters here (\<open>None\<close> for an exception). Random values are arguments. Mails
  sent after the commit are left out.
\<close>

record mfa_env =
  me_encrypt :: "string \<Rightarrow> string"
  me_decrypt :: "string \<Rightarrow> string option"
  me_totp_at :: "string \<Rightarrow> int \<Rightarrow> string"
  me_webauthn_ok :: bool
  me_register :: "string \<Rightarrow> (string \<times> string \<times> int) option"
  me_verify :: "string \<Rightarrow> string \<Rightarrow> int \<Rightarrow> int option"

definition flow_seconds :: int where "flow_seconds = 600"

definition show_bool :: "bool \<Rightarrow> string" where
  "show_bool b = (if b then ''True'' else ''False'')"

definition mfa_fingerprint :: "auth_env \<Rightarrow> auth_user \<Rightarrow> string" where
  "mfa_fingerprint env u = ae_digest env
     (show_int (au_id u) @ '':'' @ au_email u @ '':'' @ au_hashed_password u @ '':'' @
      show_int (au_mfa_security_version u) @ '':'' @ show_bool (au_password_change_required u))"

subsection \<open>MfaRepository\<close>

definition flow_by_hash :: "string \<Rightarrow> auth_db \<Rightarrow> mfa_flow option" where
  "flow_by_hash h db = tget fl_token_hash h (adb_flows db)"

definition user_factors :: "int \<Rightarrow> auth_db \<Rightarrow> mfa_factor list" where
  "user_factors k db =
     sort_key mf_verified_at (filter (\<lambda>f. mf_user_id f = k \<and> mf_revoked_at f = None) (adb_factors db))"

definition unused_recovery_code :: "int \<Rightarrow> string \<Rightarrow> auth_db \<Rightarrow> mfa_recovery_code option" where
  "unused_recovery_code k h db =
     find (\<lambda>c. rc_user_id c = k \<and> rc_code_hash c = h \<and> rc_used_at c = None) (adb_recovery_codes db)"

definition use_recovery_code :: "string \<Rightarrow> time \<Rightarrow> auth_db \<Rightarrow> auth_db" where
  "use_recovery_code h now db = db\<lparr>adb_recovery_codes :=
     twhere (\<lambda>c. rc_code_hash c = h) (\<lambda>c. c\<lparr>rc_used_at := Some now\<rparr>) (adb_recovery_codes db)\<rparr>"

definition mfa_invalidate :: "auth_env \<Rightarrow> auth_user \<Rightarrow> bool \<Rightarrow> auth_db \<Rightarrow> auth_user \<times> auth_db" where
  "mfa_invalidate env u factors db =
     (let now = ae_now env; k = au_id u;
          u' = u\<lparr>au_mfa_security_version := au_mfa_security_version u + 1\<rparr>;
          db1 = db\<lparr>
            adb_users := tput au_id u' (adb_users db),
            adb_sessions := twhere (\<lambda>s. us_user_id s = k \<and> us_revoked_at s = None)
              (\<lambda>s. s\<lparr>us_revoked_at := Some now, us_revoked_reason := Some ''mfa_changed''\<rparr>) (adb_sessions db),
            adb_mcp_connections := twhere (\<lambda>c. mc_user_id c = k \<and> mc_revoked_at c = None)
              (\<lambda>c. c\<lparr>mc_revoked_at := Some now\<rparr>) (adb_mcp_connections db),
            adb_flows := twhere (\<lambda>f. fl_user_id f = k \<and> fl_consumed_at f = None)
              (\<lambda>f. f\<lparr>fl_consumed_at := Some now, fl_payload := []\<rparr>) (adb_flows db)\<rparr>
      in (u', if \<not> factors then db1
              else db1\<lparr>
                adb_factors := twhere (\<lambda>f. mf_user_id f = k \<and> mf_revoked_at f = None)
                  (\<lambda>f. f\<lparr>mf_revoked_at := Some now, mf_secret := None\<rparr>) (adb_factors db1),
                adb_recovery_codes := filter (\<lambda>c. rc_user_id c \<noteq> k) (adb_recovery_codes db1)\<rparr>))"

definition replace_codes :: "int \<Rightarrow> string list \<Rightarrow> auth_db \<Rightarrow> auth_db" where
  "replace_codes k hashes db = db\<lparr>adb_recovery_codes :=
     filter (\<lambda>c. rc_user_id c \<noteq> k) (adb_recovery_codes db) @
     map (\<lambda>h. \<lparr>rc_user_id = k, rc_code_hash = h, rc_used_at = None\<rparr>) hashes\<rparr>"

definition credential_exists :: "string \<Rightarrow> auth_db \<Rightarrow> bool" where
  "credential_exists c db \<longleftrightarrow> (\<exists>f \<in> set (adb_factors db). mf_credential_id f = Some c)"

definition cancel_flow :: "auth_env \<Rightarrow> string \<Rightarrow> auth_db \<Rightarrow> auth_db" where
  "cancel_flow env h db =
     (case flow_by_hash h db of
        None \<Rightarrow> db
      | Some f \<Rightarrow> put_flow (f\<lparr>fl_consumed_at := Some (ae_now env), fl_payload := []\<rparr>) db)"

definition prune_flows :: "auth_env \<Rightarrow> int \<Rightarrow> auth_db \<Rightarrow> auth_db" where
  "prune_flows env k db = db\<lparr>adb_flows := filter
     (\<lambda>f. \<not> (fl_user_id f = k \<and> (fl_expires_at f \<le> ae_now env \<or> fl_consumed_at f \<noteq> None))) (adb_flows db)\<rparr>"

subsection \<open>Flows\<close>

definition mfa_audit :: "auth_user \<Rightarrow> string \<Rightarrow> int option \<Rightarrow> auth_db \<Rightarrow> auth_db" where
  "mfa_audit u event actor db = auth_audit_event (''account.mfa.'' @ event)
     (Some (case actor of None \<Rightarrow> au_id u | Some a \<Rightarrow> a)) (Some (au_id u)) '''' db"

definition flow_next_step :: "mfa_flow \<Rightarrow> string" where
  "flow_next_step f =
     (if fl_purpose f = ''finish'' then ''recovery_codes''
      else if fl_purpose f \<in> {''login'', ''reauth''} then ''mfa_verify'' else ''mfa_setup'')"

definition start_flow ::
  "auth_env \<Rightarrow> string \<Rightarrow> auth_user \<Rightarrow> string \<Rightarrow> pydict \<Rightarrow> auth_db \<Rightarrow> mfa_flow auth_result" where
  "start_flow env token user purpose payload db =
     (if reject_identity_change user db then araise ForbiddenError db
      else
        (let f = \<lparr>fl_token_hash = ae_digest env token, fl_user_id = au_id user, fl_purpose = purpose,
                  fl_security_version = au_mfa_security_version user,
                  fl_expires_at = ae_now env + flow_seconds, fl_consumed_at = None, fl_attempts = 0,
                  fl_payload = dupdate payload [(''fingerprint'', PStr (mfa_fingerprint env user))]\<rparr>;
             db1 = prune_flows env (au_id user) db
         in aok f (db1\<lparr>adb_flows := adb_flows db1 @ [f]\<rparr>)))"

text \<open>\<open>login\<close> answers no flow while a recovery by the operator is pending.\<close>

definition mfa_login :: "auth_env \<Rightarrow> string \<Rightarrow> int \<Rightarrow> auth_db \<Rightarrow> mfa_flow option auth_result" where
  "mfa_login env token user_id db =
     (case user_by_id user_id db of
        None \<Rightarrow> araise AppError db
      | Some locked \<Rightarrow>
          if au_mfa_recovery_pending locked then aok None db
          else (case start_flow env token locked (if user_factors user_id db \<noteq> [] then ''login'' else ''setup'') [] db of
                  (Inl e, db1) \<Rightarrow> (Inl e, db1)
                | (Inr f, db1) \<Rightarrow> (Inr (Some f), db1)))"

definition payload_session :: "auth_env \<Rightarrow> pydict \<Rightarrow> auth_db \<Rightarrow> user_session option" where
  "payload_session env payload db =
     (case dget payload ''session_id'' of
        PStr s \<Rightarrow> (case ae_parse_uuid env s of None \<Rightarrow> None | Some sid \<Rightarrow> session_by_id sid db)
      | _ \<Rightarrow> None)"

definition session_usable :: "auth_env \<Rightarrow> auth_user \<Rightarrow> user_session \<Rightarrow> bool" where
  "session_usable env user s \<longleftrightarrow> us_user_id s = au_id user \<and> us_revoked_at s = None \<and>
     ae_now env < min (us_expires_at s) (us_absolute_expires_at s)"

definition flow_context :: "auth_env \<Rightarrow> string option \<Rightarrow> auth_db \<Rightarrow> app_error + mfa_flow \<times> auth_user" where
  "flow_context env token db =
     ebind (some_or (raise_cls MfaInvalidError)
              (case token of None \<Rightarrow> None | Some t \<Rightarrow> if t = '''' \<or> 200 < length t then None else Some t)) (\<lambda>t.
     ebind (some_or (raise_cls MfaInvalidError) (flow_by_hash (ae_digest env t) db)) (\<lambda>f.
     ebind (some_or (raise_cls MfaInvalidError) (user_by_id (fl_user_id f) db)) (\<lambda>u.
     ebind (raise_if (\<not> au_is_active u \<or> au_password_change_required u \<or> fl_consumed_at f \<noteq> None \<or>
              fl_expires_at f \<le> ae_now env \<or> 5 \<le> fl_attempts f \<or>
              fl_security_version f \<noteq> au_mfa_security_version u \<or>
              dget (fl_payload f) ''fingerprint'' \<noteq> PStr (mfa_fingerprint env u) \<or>
              (au_mfa_recovery_pending u \<and> fl_purpose f \<notin> {''recovery'', ''finish''}))
            (raise_cls MfaInvalidError)) (\<lambda>_.
     if \<not> dhas (fl_payload f) ''session_id'' then Inr (f, u)
     else
       ebind (some_or (raise_cls MfaInvalidError) (payload_session env (fl_payload f) db)) (\<lambda>s.
       ebind (raise_if (\<not> session_usable env u s) (raise_cls MfaInvalidError)) (\<lambda>_.
       ebind (raise_if (\<not> require_verified env u s) (raise_cls MfaRequiredError)) (\<lambda>_.
       ebind (raise_if (fl_purpose f = ''manage'' \<and> \<not> require_recent env s) (raise_cls MfaRequiredError)) (\<lambda>_.
       Inr (f, u)))))))))"

text \<open>\<open>fail\<close>: the counted attempt is committed and the error raised.\<close>

definition flow_fail :: "mfa_flow \<Rightarrow> auth_user \<Rightarrow> auth_db \<Rightarrow> 'a auth_result" where
  "flow_fail f u db =
     (let f' = f\<lparr>fl_attempts := fl_attempts f + 1,
                 fl_payload := if 5 \<le> fl_attempts f + 1 then [] else fl_payload f\<rparr>
      in araise MfaInvalidError (mfa_audit u ''verification_failed'' None (put_flow f' db)))"

definition enrollment_allowed :: "mfa_flow \<Rightarrow> auth_user \<Rightarrow> auth_db \<Rightarrow> bool" where
  "enrollment_allowed f u db \<longleftrightarrow>
     fl_purpose f \<in> {''setup'', ''manage'', ''recovery''} \<and> length (user_factors (au_id u) db) < 10 \<and>
     \<not> (fl_purpose f \<in> {''setup'', ''recovery''} \<and> user_factors (au_id u) db \<noteq> [])"

definition keep_keys :: "string list \<Rightarrow> pydict \<Rightarrow> pydict" where
  "keep_keys ks d = filter (\<lambda>(k, _). k \<in> set ks) d"

definition begin_totp ::
  "auth_env \<Rightarrow> mfa_env \<Rightarrow> string \<Rightarrow> mfa_flow \<Rightarrow> auth_user \<Rightarrow> string \<Rightarrow> auth_db \<Rightarrow> string auth_result" where
  "begin_totp env me secret f u name db =
     (if \<not> enrollment_allowed f u db then araise MfaInvalidError db
      else aok secret (put_flow (f\<lparr>fl_payload :=
             [(''fingerprint'', PStr (mfa_fingerprint env u))] @
             keep_keys [''session_id'', ''recovery_id''] (fl_payload f) @
             [(''ceremony'', PStr ''totp_register''), (''name'', PStr name),
              (''secret'', PStr (me_encrypt me secret))]\<rparr>) db))"

definition is_code_digit :: "char \<Rightarrow> bool" where
  "is_code_digit c \<longleftrightarrow> (let n = of_char c :: nat in 48 \<le> n \<and> n \<le> 57)"

definition totp_step :: "auth_env \<Rightarrow> mfa_env \<Rightarrow> string \<Rightarrow> string \<Rightarrow> int \<Rightarrow> int option" where
  "totp_step env me secret code last_step =
     (if length code \<noteq> 6 \<or> \<not> list_all is_code_digit code then None
      else
        (let current = ae_now env div 30 in
         find (\<lambda>step. last_step < step \<and> me_totp_at me secret (step * 30) = code) [current, current - 1, current + 1]))"

subsection \<open>Completing a flow\<close>

definition flow_codes :: "auth_env \<Rightarrow> string list \<Rightarrow> auth_user \<Rightarrow> auth_db \<Rightarrow> auth_db" where
  "flow_codes env codes u db = replace_codes (au_id u) (map (ae_digest env) codes) db"

definition consume_flow :: "auth_env \<Rightarrow> mfa_flow \<Rightarrow> auth_db \<Rightarrow> auth_db" where
  "consume_flow env f db = put_flow (f\<lparr>fl_consumed_at := Some (ae_now env), fl_payload := []\<rparr>) db"

text \<open>The result of a completed step: the next step, and the session if one was created.\<close>

type_synonym mfa_result = "string \<times> (user_session \<times> pydict) option"

definition enrolled ::
  "auth_env \<Rightarrow> string list \<Rightarrow> mfa_flow \<Rightarrow> auth_user \<Rightarrow> string \<Rightarrow> auth_db \<Rightarrow> mfa_result auth_result" where
  "enrolled env codes f u method db =
     (let db1 = mfa_audit u ''factor_added'' None db in
      if fl_purpose f = ''manage'' then aok (''authenticated'', None) (consume_flow env f db1)
      else aok (''recovery_codes'', None)
        (flow_codes env codes u
          (put_flow (f\<lparr>fl_purpose := ''finish'', fl_payload :=
             [(''fingerprint'', PStr (mfa_fingerprint env u)), (''method'', PStr method)] @
             keep_keys [''session_id''] (fl_payload f)\<rparr>) db1)))"

definition verified ::
  "auth_env \<Rightarrow> string \<Rightarrow> mfa_flow \<Rightarrow> auth_user \<Rightarrow> string \<Rightarrow> auth_db \<Rightarrow> mfa_result auth_result" where
  "verified env sid f u method db =
     (if fl_purpose f = ''reauth'' then
        (case payload_session env (fl_payload f) db of
           None \<Rightarrow> araise AppError db
         | Some s \<Rightarrow> aok (''authenticated'', None)
             (mfa_audit u ''reauthenticated'' None (consume_flow env f
               (put_session (s\<lparr>us_mfa_reauthenticated_at := Some (ae_now env), us_mfa_method := Some method\<rparr>) db))))
      else if fl_purpose f \<notin> {''finish'', ''login''} then araise MfaInvalidError db
      else
        (let u' = (if fl_purpose f = ''finish'' then u\<lparr>au_mfa_recovery_pending := False\<rparr> else u);
             db1 = consume_flow env f (put_user (u'\<lparr>au_last_login_at := Some (ae_now env)\<rparr>) db);
             (session, db2) = create_session_token env sid u' (Some method) db1;
             db3 = auth_audit_event ''auth.login.success'' (Some (au_id u)) (Some (au_id u)) method db2
         in aok (''authenticated'', Some session)
              (if method = ''recovery_code'' then mfa_audit u ''recovery_code_used'' None db3 else db3)))"

definition flow_finish :: "auth_env \<Rightarrow> string \<Rightarrow> mfa_flow \<Rightarrow> auth_user \<Rightarrow> auth_db \<Rightarrow> mfa_result auth_result" where
  "flow_finish env sid f u db =
     (if fl_purpose f \<noteq> ''finish'' \<or> user_factors (au_id u) db = [] then araise MfaInvalidError db
      else case dget (fl_payload f) ''method'' of
             PStr m \<Rightarrow> verified env sid f u m db
           | _ \<Rightarrow> araise AppError db)"

subsection \<open>Verifying a code\<close>

text \<open>\<open>code.replace("-", "").strip().upper()\<close>, for the ASCII codes that are issued.\<close>

definition normalize_recovery_code :: "string \<Rightarrow> string" where
  "normalize_recovery_code code = map upper_char (py_strip (filter (\<lambda>c. c \<noteq> CHR ''-'') code))"

text \<open>The loop over the factors: the first with a fresh matching step, or the decryption error.\<close>

fun match_totp :: "auth_env \<Rightarrow> mfa_env \<Rightarrow> string \<Rightarrow> mfa_factor list \<Rightarrow> app_error + (mfa_factor \<times> int) option" where
  "match_totp env me code [] = Inr None"
| "match_totp env me code (f # fs) =
     (if mf_kind f \<noteq> ''totp'' \<or> mf_secret f = None \<or> mf_secret f = Some '''' then match_totp env me code fs
      else case me_decrypt me (the (mf_secret f)) of
             None \<Rightarrow> Inl (raise_cls MfaUnavailableError)
           | Some secret \<Rightarrow>
               (case totp_step env me secret code (mf_last_step f) of
                  Some step \<Rightarrow> Inr (Some (f, step))
                | None \<Rightarrow> match_totp env me code fs))"

definition payload_string :: "pydict \<Rightarrow> string \<Rightarrow> string" where
  "payload_string d k = (case dget d k of PStr s \<Rightarrow> s | _ \<Rightarrow> '''')"

record mfa_fresh =
  mr_session :: string
  mr_factor :: string
  mr_codes :: "string list"

definition new_factor :: "auth_env \<Rightarrow> string \<Rightarrow> auth_user \<Rightarrow> string \<Rightarrow> string \<Rightarrow> mfa_factor" where
  "new_factor env fid u kind name =
     \<lparr>mf_id = fid, mf_user_id = au_id u, mf_kind = kind, mf_name = name, mf_secret = None, mf_credential_id = None,
      mf_public_key = None, mf_sign_count = 0, mf_last_step = -1, mf_verified_at = ae_now env,
      mf_last_used_at = None, mf_revoked_at = None\<rparr>"

definition add_factor :: "mfa_factor \<Rightarrow> auth_db \<Rightarrow> auth_db" where
  "add_factor x db = db\<lparr>adb_factors := adb_factors db @ [x]\<rparr>"

definition enroll_totp ::
  "auth_env \<Rightarrow> mfa_env \<Rightarrow> mfa_fresh \<Rightarrow> mfa_flow \<Rightarrow> auth_user \<Rightarrow> string \<Rightarrow> bool \<Rightarrow> auth_db \<Rightarrow> mfa_result auth_result" where
  "enroll_totp env me fr f u code recovery db =
     (if \<not> enrollment_allowed f u db then araise MfaInvalidError db
      else if recovery \<or> dget (fl_payload f) ''ceremony'' \<noteq> PStr ''totp_register'' then araise MfaInvalidError db
      else
        (let encrypted = payload_string (fl_payload f) ''secret'' in
         case me_decrypt me encrypted of
           None \<Rightarrow> araise MfaUnavailableError db
         | Some secret \<Rightarrow>
             (case totp_step env me secret code (-1) of
                None \<Rightarrow> flow_fail f u db
              | Some step \<Rightarrow>
                  enrolled env (mr_codes fr) f u ''totp''
                    (add_factor ((new_factor env (mr_factor fr) u ''totp'' (payload_string (fl_payload f) ''name''))
                        \<lparr>mf_secret := Some encrypted, mf_last_step := step\<rparr>) db))))"

definition verify_code ::
  "auth_env \<Rightarrow> mfa_env \<Rightarrow> mfa_fresh \<Rightarrow> mfa_flow \<Rightarrow> auth_user \<Rightarrow> string \<Rightarrow> bool \<Rightarrow> auth_db \<Rightarrow> mfa_result auth_result" where
  "verify_code env me fr f u code recovery db =
     (if fl_purpose f \<in> {''setup'', ''manage'', ''recovery''} then enroll_totp env me fr f u code recovery db
      else if fl_purpose f \<notin> {''login'', ''reauth''} then araise MfaInvalidError db
      else if recovery then
        (if fl_purpose f = ''reauth'' then araise MfaInvalidError db
         else
           (let h = ae_digest env (normalize_recovery_code code) in
            case unused_recovery_code (au_id u) h db of
              None \<Rightarrow> flow_fail f u db
            | Some _ \<Rightarrow> verified env (mr_session fr) f u ''recovery_code'' (use_recovery_code h (ae_now env) db)))
      else
        (case match_totp env me code (user_factors (au_id u) db) of
           Inl e \<Rightarrow> (Inl e, db)
         | Inr None \<Rightarrow> flow_fail f u db
         | Inr (Some (x, step)) \<Rightarrow>
             verified env (mr_session fr) f u ''totp''
               (put_factor (x\<lparr>mf_last_step := step, mf_last_used_at := Some (ae_now env)\<rparr>) db)))"

subsection \<open>Passkeys\<close>

text \<open>
  A credential sent by the browser: the length of its JSON, its id, and its response (\<open>None\<close> when that
  is not an object) with its user handle, if any, compared with the user's opaque identifier.
\<close>

record passkey_credential =
  pc_size :: nat
  pc_id :: "string option"
  pc_response :: "bool option option"

definition is_passkey :: "mfa_factor \<Rightarrow> bool" where
  "is_passkey x \<longleftrightarrow> mf_kind x = ''passkey'' \<and> (case mf_credential_id x of None \<Rightarrow> False | Some c \<Rightarrow> c \<noteq> '''')"

definition passkey_options ::
  "mfa_env \<Rightarrow> string \<Rightarrow> mfa_flow \<Rightarrow> auth_user \<Rightarrow> string option \<Rightarrow> auth_db \<Rightarrow> string auth_result" where
  "passkey_options me challenge f u name db =
     (if \<not> me_webauthn_ok me then araise MfaUnavailableError db
      else
        (let stored = (\<lambda>ceremony. aok challenge (put_flow (f\<lparr>fl_payload := dupdate
                (keep_keys [''fingerprint'', ''session_id'', ''recovery_id''] (fl_payload f))
                [(''challenge'', PStr challenge), (''ceremony'', PStr ceremony), (''name'', py_opt_str name)]\<rparr>) db))
         in case name of
              Some _ \<Rightarrow> if \<not> enrollment_allowed f u db then araise MfaInvalidError db else stored ''passkey_register''
            | None \<Rightarrow>
                if fl_purpose f \<notin> {''login'', ''reauth''} \<or> filter is_passkey (user_factors (au_id u) db) = []
                then araise MfaInvalidError db else stored ''passkey_authenticate''))"

definition enroll_passkey ::
  "auth_env \<Rightarrow> mfa_env \<Rightarrow> mfa_fresh \<Rightarrow> mfa_flow \<Rightarrow> auth_user \<Rightarrow> string \<Rightarrow> auth_db \<Rightarrow> mfa_result auth_result" where
  "enroll_passkey env me fr f u challenge db =
     (if \<not> enrollment_allowed f u db then flow_fail f u db
      else case me_register me challenge of
             None \<Rightarrow> flow_fail f u db
           | Some (credential_id, public_key, sign_count) \<Rightarrow>
               if credential_exists credential_id db then flow_fail f u db
               else enrolled env (mr_codes fr) f u ''passkey''
                 (add_factor ((new_factor env (mr_factor fr) u ''passkey'' (payload_string (fl_payload f) ''name''))
                    \<lparr>mf_credential_id := Some credential_id, mf_public_key := Some public_key,
                      mf_sign_count := sign_count\<rparr>) db))"

definition authenticate_passkey ::
  "auth_env \<Rightarrow> mfa_env \<Rightarrow> mfa_fresh \<Rightarrow> mfa_flow \<Rightarrow> auth_user \<Rightarrow> passkey_credential \<Rightarrow> string \<Rightarrow> auth_db \<Rightarrow>
   mfa_result auth_result" where
  "authenticate_passkey env me fr f u pc challenge db =
     (case find (\<lambda>x. mf_credential_id x = pc_id pc) (user_factors (au_id u) db) of
        None \<Rightarrow> flow_fail f u db
      | Some x \<Rightarrow>
          (case mf_public_key x of
             None \<Rightarrow> flow_fail f u db
           | Some key \<Rightarrow>
               if key = '''' \<or> pc_response pc = None \<or> pc_response pc = Some (Some False) then flow_fail f u db
               else case me_verify me challenge key (mf_sign_count x) of
                      None \<Rightarrow> flow_fail f u db
                    | Some new_sign_count \<Rightarrow>
                        verified env (mr_session fr) f u ''passkey''
                          (put_factor (x\<lparr>mf_sign_count := new_sign_count, mf_last_used_at := Some (ae_now env)\<rparr>) db)))"

definition verify_passkey ::
  "auth_env \<Rightarrow> mfa_env \<Rightarrow> mfa_fresh \<Rightarrow> mfa_flow \<Rightarrow> auth_user \<Rightarrow> passkey_credential \<Rightarrow> auth_db \<Rightarrow> mfa_result auth_result" where
  "verify_passkey env me fr f u pc db =
     (let challenge = payload_string (fl_payload f) ''challenge'';
          ceremony = dget (fl_payload f) ''ceremony'' in
      if \<not> me_webauthn_ok me then araise MfaUnavailableError db
      else if 100000 < pc_size pc \<or> challenge = '''' then flow_fail f u db
      else if ceremony = PStr ''passkey_register'' then enroll_passkey env me fr f u challenge db
      else if fl_purpose f \<notin> {''login'', ''reauth''} \<or> ceremony \<noteq> PStr ''passkey_authenticate'' then flow_fail f u db
      else authenticate_passkey env me fr f u pc challenge db)"

subsection \<open>Managing factors\<close>

text \<open>
  What the three management operations check first: the user is locked, the session re-read,
  verified, recently authenticated and not revoked.
\<close>

definition management_user :: "auth_env \<Rightarrow> int \<Rightarrow> string \<Rightarrow> auth_db \<Rightarrow> app_error + auth_user \<times> user_session" where
  "management_user env user_id sid db =
     ebind (some_or (raise_cls MfaInvalidError) (user_by_id user_id db)) (\<lambda>u.
     ebind (some_or (raise_cls MfaInvalidError) (session_by_id sid db)) (\<lambda>s.
     ebind (raise_if (\<not> require_verified env u s) (raise_cls MfaRequiredError)) (\<lambda>_.
     ebind (raise_if (\<not> require_recent env s) (raise_cls MfaRequiredError)) (\<lambda>_.
     ebind (raise_if (us_revoked_at s \<noteq> None) (raise_cls MfaInvalidError)) (\<lambda>_. Inr (u, s))))))"

definition remove_factor :: "auth_env \<Rightarrow> int \<Rightarrow> string \<Rightarrow> string \<Rightarrow> auth_db \<Rightarrow> unit auth_result" where
  "remove_factor env user_id factor_id sid db = lift_result db
     (ebind (management_user env user_id sid db) (\<lambda>(u, _).
      let factors = user_factors (au_id u) db in
      case find (\<lambda>x. mf_id x = factor_id) factors of
        None \<Rightarrow> Inl (raise_msg ForbiddenError ''MFA_LAST_FACTOR'')
      | Some x \<Rightarrow>
          if length factors \<le> 1 then Inl (raise_msg ForbiddenError ''MFA_LAST_FACTOR'')
          else
            (let db1 = put_factor (x\<lparr>mf_revoked_at := Some (ae_now env), mf_secret := None\<rparr>) db;
                 (u', db2) = mfa_invalidate env u False db1
             in Inr ((), mfa_audit u' ''factor_removed'' None db2))))"

definition rename_factor :: "auth_env \<Rightarrow> int \<Rightarrow> string \<Rightarrow> string \<Rightarrow> string \<Rightarrow> auth_db \<Rightarrow> unit auth_result" where
  "rename_factor env user_id sid factor_id name db = lift_result db
     (ebind (management_user env user_id sid db) (\<lambda>(u, _).
      ebind (some_or (raise_cls ForbiddenError) (find (\<lambda>x. mf_id x = factor_id) (user_factors (au_id u) db))) (\<lambda>x.
      Inr ((), mfa_audit u ''factor_renamed'' None (put_factor (x\<lparr>mf_name := name\<rparr>) db)))))"

definition regenerate_codes :: "auth_env \<Rightarrow> string list \<Rightarrow> int \<Rightarrow> string \<Rightarrow> auth_db \<Rightarrow> string list auth_result" where
  "regenerate_codes env codes user_id sid db = lift_result db
     (ebind (management_user env user_id sid db) (\<lambda>(u, _).
      Inr (codes, mfa_audit u ''recovery_codes_regenerated'' None (flow_codes env codes u db))))"

definition begin_management ::
  "auth_env \<Rightarrow> string \<Rightarrow> int \<Rightarrow> string \<Rightarrow> bool \<Rightarrow> string option \<Rightarrow> auth_db \<Rightarrow> mfa_flow auth_result" where
  "begin_management env token user_id sid reauthenticate password db =
     (case user_by_id user_id db of
        None \<Rightarrow> araise MfaInvalidError db
      | Some u \<Rightarrow>
          (case session_by_id sid db of
             None \<Rightarrow> araise MfaInvalidError db
           | Some s \<Rightarrow>
               if \<not> require_verified env u s then araise MfaRequiredError db
               else if us_revoked_at s \<noteq> None then araise MfaInvalidError db
               else if reauthenticate \<and>
                       (case password of None \<Rightarrow> True
                        | Some p \<Rightarrow> p = '''' \<or> \<not> ae_verify_password env p (au_hashed_password u))
                 then araise MfaInvalidError db
               else if \<not> reauthenticate \<and> \<not> require_recent env s then araise MfaRequiredError db
               else start_flow env token u
                      (if reauthenticate \<and> \<not> ae_mfa_required env \<and> user_factors (au_id u) db = [] then ''setup''
                       else if reauthenticate then ''reauth'' else ''manage'')
                      [(''session_id'', PStr (us_id s))] db))"

subsection \<open>Recovery through the operator\<close>

definition approve_recovery ::
  "auth_env \<Rightarrow> mail \<Rightarrow> action_ids \<Rightarrow> int \<Rightarrow> int \<Rightarrow> string \<Rightarrow> string \<Rightarrow> auth_db \<Rightarrow> unit auth_result" where
  "approve_recovery env ml ids actor_id user_id method reason db =
     (if actor_id = user_id then araise ForbiddenError db
      else case user_by_id user_id db of
        None \<Rightarrow> araise MfaInvalidError db
      | Some u \<Rightarrow>
          if \<not> au_is_active u \<or> au_password_change_required u then araise MfaInvalidError db
          else if \<not> ml_available ml \<or> ml_receipt ml = None then araise EmailUnavailableError db
          else
            (let (u1, db1) = mfa_invalidate env u True db;
                 u2 = u1\<lparr>au_mfa_recovery_pending := True\<rparr>;
                 item = \<lparr>rr_id = ai_id ids, rr_user_id = au_id u2, rr_actor_user_id = actor_id, rr_method = method,
                         rr_reason = reason, rr_token_hash = ae_digest env (ai_token ids),
                         rr_security_version = au_mfa_security_version u2,
                         rr_expires_at = ae_now env + 30 * 60, rr_consumed_at = None\<rparr>;
                 db2 = put_user u2 db1
             in aok () (mfa_audit u2 ''recovery_approved'' (Some actor_id)
                  (db2\<lparr>adb_recovery_requests := adb_recovery_requests db2 @ [item]\<rparr>))))"

definition recovery_by_hash :: "string \<Rightarrow> auth_db \<Rightarrow> mfa_recovery_request option" where
  "recovery_by_hash h db = tget rr_token_hash h (adb_recovery_requests db)"

definition recover_account :: "auth_env \<Rightarrow> string \<Rightarrow> string \<Rightarrow> string \<Rightarrow> auth_db \<Rightarrow> mfa_flow auth_result" where
  "recover_account env flow_token token password db =
     (case recovery_by_hash (ae_digest env token) db of
        None \<Rightarrow> araise MfaInvalidError db
      | Some item \<Rightarrow>
          (case user_by_id (rr_user_id item) db of
             None \<Rightarrow> araise MfaInvalidError db
           | Some u \<Rightarrow>
               if \<not> au_is_active u \<or> \<not> au_mfa_recovery_pending u \<or> rr_consumed_at item \<noteq> None \<or>
                  rr_expires_at item \<le> ae_now env \<or> rr_security_version item \<noteq> au_mfa_security_version u \<or>
                  \<not> ae_verify_password env password (au_hashed_password u)
               then araise MfaInvalidError db
               else
                 (let db1 = db\<lparr>adb_recovery_requests :=
                              tput rr_id (item\<lparr>rr_consumed_at := Some (ae_now env)\<rparr>) (adb_recovery_requests db)\<rparr>
                  in case start_flow env flow_token u ''recovery'' [(''recovery_id'', PStr (rr_id item))] db1 of
                       (Inl e, _) \<Rightarrow> (Inl e, db)
                     | (Inr f, db2) \<Rightarrow> (Inr f, db2))))"

subsection \<open>How flows evolve\<close>

definition flow_evolves :: "mfa_flow \<Rightarrow> mfa_flow \<Rightarrow> bool" where
  "flow_evolves f g \<longleftrightarrow> fl_token_hash g = fl_token_hash f \<and> fl_user_id g = fl_user_id f \<and>
     fl_attempts f \<le> fl_attempts g \<and> (fl_consumed_at f \<noteq> None \<longrightarrow> fl_consumed_at g \<noteq> None)"

interpretation flw: evolution flow_evolves
  by unfold_locales (auto simp: flow_evolves_def)

definition new_session :: "string \<Rightarrow> user_session \<Rightarrow> bool" where
  "new_session sid s \<longleftrightarrow> us_id s = sid \<and> us_expires_at s \<le> us_absolute_expires_at s"

definition new_flow :: "string \<Rightarrow> mfa_flow \<Rightarrow> bool" where
  "new_flow h f \<longleftrightarrow> fl_token_hash f = h"

text \<open>What an operation of this theory may do to the sessions, flows and links.\<close>

definition mfa_safe :: "string \<Rightarrow> string \<Rightarrow> auth_db \<Rightarrow> auth_db \<Rightarrow> bool" where
  "mfa_safe sid h db db' \<longleftrightarrow>
     rows_grow row_evolves (new_session sid) (adb_sessions db) (adb_sessions db') \<and>
     rows_grow flow_evolves (new_flow h) (adb_flows db) (adb_flows db') \<and>
     adb_actions db' = adb_actions db"

lemma mfa_safe_kept:
  "rows_from row_evolves (adb_sessions db) (adb_sessions db') \<Longrightarrow> rows_from flow_evolves (adb_flows db) (adb_flows db') \<Longrightarrow>
   adb_actions db' = adb_actions db \<Longrightarrow> mfa_safe sid h db db'"
  by (simp add: mfa_safe_def rows_from_grow)

lemma flow_by_hash_mem: "flow_by_hash h db = Some f \<Longrightarrow> f \<in> set (adb_flows db) \<and> fl_token_hash f = h"
  using tget_SomeD by (force simp: flow_by_hash_def)

lemma flow_consumed: "flow_evolves f (f\<lparr>fl_consumed_at := Some now, fl_payload := p\<rparr>)"
  by (simp add: flow_evolves_def)

lemma flow_payload_set: "flow_evolves f (f\<lparr>fl_payload := p\<rparr>)" "flow_evolves f (f\<lparr>fl_purpose := q, fl_payload := p\<rparr>)"
  by (simp_all add: flow_evolves_def)

lemma audit_tables [simp]:
  "adb_sessions (mfa_audit u e a db) = adb_sessions db" "adb_flows (mfa_audit u e a db) = adb_flows db"
  "adb_actions (mfa_audit u e a db) = adb_actions db" "adb_users (mfa_audit u e a db) = adb_users db"
  "adb_factors (mfa_audit u e a db) = adb_factors db" "adb_recovery_codes (mfa_audit u e a db) = adb_recovery_codes db"
  by (simp_all add: mfa_audit_def)

lemma safe_fail: "f \<in> set (adb_flows db) \<Longrightarrow> mfa_safe sid h db (snd (flow_fail f u db))"
  by (intro mfa_safe_kept)
     (auto simp: flow_fail_def Let_def ses.same flow_evolves_def intro!: flw.put)

lemma safe_same: "mfa_safe sid h db db"
  by (simp add: mfa_safe_kept ses.same flw.same)

text \<open>Writes to the other tables before an operation do not matter.\<close>

lemma safe_cong:
  "mfa_safe sid h db1 db' \<Longrightarrow> adb_sessions db1 = adb_sessions db \<Longrightarrow> adb_flows db1 = adb_flows db \<Longrightarrow>
   adb_actions db1 = adb_actions db \<Longrightarrow> mfa_safe sid h db db'"
  by (simp add: mfa_safe_def)

lemma create_token_rows:
  "s \<in> set (adb_sessions (snd (create_session_token env sid u m db))) \<Longrightarrow> s \<in> set (adb_sessions db) \<or> new_session sid s"
  by (auto simp: create_session_token_def session_create_def Let_def new_user_session_def new_session_def
      dest!: tput_mem split: if_splits)

lemma create_token_tables [simp]:
  "adb_flows (snd (create_session_token env sid u m db)) = adb_flows db"
  "adb_actions (snd (create_session_token env sid u m db)) = adb_actions db"
  "adb_users (snd (create_session_token env sid u m db)) = adb_users db"
  by (simp_all add: create_session_token_def session_create_def Let_def)

lemma create_token_grow:
  "rows_grow row_evolves (new_session sid) (adb_sessions db) (adb_sessions (snd (create_session_token env sid u m db)))"
  unfolding rows_grow_def using create_token_rows ses.refl by blast

lemma consume_tables [simp]:
  "adb_sessions (consume_flow env f db) = adb_sessions db" "adb_actions (consume_flow env f db) = adb_actions db"
  "adb_flows (consume_flow env f db) =
     tput fl_token_hash (f\<lparr>fl_consumed_at := Some (ae_now env), fl_payload := []\<rparr>) (adb_flows db)"
  "adb_users (consume_flow env f db) = adb_users db" "adb_factors (consume_flow env f db) = adb_factors db"
  by (simp_all add: consume_flow_def)

lemma consumed_flows:
  "f \<in> set (adb_flows db) \<Longrightarrow> rows_from flow_evolves (adb_flows db) (adb_flows (consume_flow env f db))"
  by (simp add: flw.put flow_consumed)

lemma safe_verified:
  assumes "f \<in> set (adb_flows db)"
  shows "mfa_safe sid h db (snd (verified env sid f u m db))"
proof (cases "fl_purpose f = ''reauth''")
  case True
  show ?thesis
  proof (cases "payload_session env (fl_payload f) db")
    case None
    with True show ?thesis by (simp add: verified_def mfa_safe_kept ses.same flw.same)
  next
    case (Some s)
    have s: "s \<in> set (adb_sessions db)"
      using Some by (auto simp: payload_session_def dest!: session_by_id_mem split: pyval.splits option.splits)
    have "row_evolves s (s\<lparr>us_mfa_reauthenticated_at := Some (ae_now env), us_mfa_method := Some m\<rparr>)"
      by (simp add: row_evolves_def)
    with True Some ses.put [OF s this, of us_id] consumed_flows [OF assms, of env] show ?thesis
      by (intro mfa_safe_kept) (simp_all add: verified_def)
  qed
next
  case False
  let ?u = "if fl_purpose f = ''finish'' then u\<lparr>au_mfa_recovery_pending := False\<rparr> else u"
  let ?db1 = "consume_flow env f (put_user (?u\<lparr>au_last_login_at := Some (ae_now env)\<rparr>) db)"
  have "rows_grow row_evolves (new_session sid) (adb_sessions db) (adb_sessions (snd (create_session_token env sid ?u (Some m) ?db1)))"
    using create_token_grow [of sid ?db1 env ?u "Some m"] by simp
  moreover have "rows_from flow_evolves (adb_flows db) (adb_flows ?db1)"
    using consumed_flows [of f "put_user (?u\<lparr>au_last_login_at := Some (ae_now env)\<rparr>) db" env] assms by simp
  moreover have "snd (verified env sid f u m db) = db \<or>
      (\<exists>p. snd (verified env sid f u m db) = (let d = auth_audit_event ''auth.login.success'' (Some (au_id u)) (Some (au_id u)) m
         (snd (create_session_token env sid ?u (Some m) ?db1)) in if p then mfa_audit u ''recovery_code_used'' None d else d))"
    using False unfolding verified_def by (simp add: Let_def case_prod_unfold) blast
  ultimately show ?thesis
    by (elim disjE exE)
       (auto simp: mfa_safe_def Let_def rows_from_grow ses.same flw.same)
qed

lemma safe_enrolled: "f \<in> set (adb_flows db) \<Longrightarrow> mfa_safe sid h db (snd (enrolled env codes f u m db))"
  by (intro mfa_safe_kept)
     (auto simp: enrolled_def Let_def flow_codes_def replace_codes_def ses.same flow_evolves_def intro!: flw.put)

lemma add_factor_tables [simp]:
  "adb_sessions (add_factor x db) = adb_sessions db" "adb_flows (add_factor x db) = adb_flows db"
  "adb_actions (add_factor x db) = adb_actions db" "adb_users (add_factor x db) = adb_users db"
  "adb_factors (add_factor x db) = adb_factors db @ [x]"
  by (simp_all add: add_factor_def)

lemma use_code_tables [simp]:
  "adb_sessions (use_recovery_code c now db) = adb_sessions db" "adb_flows (use_recovery_code c now db) = adb_flows db"
  "adb_actions (use_recovery_code c now db) = adb_actions db" "adb_users (use_recovery_code c now db) = adb_users db"
  by (simp_all add: use_recovery_code_def)

lemma safe_enrolled_after:
  "f \<in> set (adb_flows db) \<Longrightarrow> mfa_safe sid h db (snd (enrolled env codes f u m (add_factor x db)))"
  by (rule safe_cong [OF safe_enrolled]) simp_all

lemma safe_verified_after:
  "f \<in> set (adb_flows db) \<Longrightarrow> mfa_safe sid h db (snd (verified env sid f u m (put_factor x db)))"
  "f \<in> set (adb_flows db) \<Longrightarrow> mfa_safe sid h db (snd (verified env sid f u m (use_recovery_code c now db)))"
  by (rule safe_cong [OF safe_verified]; simp)+

lemma safe_enroll_totp:
  "f \<in> set (adb_flows db) \<Longrightarrow> mfa_safe sid h db (snd (enroll_totp env me fr f u code recovery db))"
  by (simp add: enroll_totp_def Let_def safe_same safe_fail safe_enrolled_after split: option.split)

lemma safe_verify_code:
  assumes "f \<in> set (adb_flows db)"
  shows "mfa_safe (mr_session fr) h db (snd (verify_code env me fr f u code recovery db))"
proof -
  have "mfa_safe (mr_session fr) h db (snd (case match_totp env me code (user_factors (au_id u) db) of
           Inl e \<Rightarrow> (Inl e, db)
         | Inr None \<Rightarrow> flow_fail f u db
         | Inr (Some (x, step)) \<Rightarrow> verified env (mr_session fr) f u ''totp'' (put_factor (x\<lparr>mf_last_step := step, mf_last_used_at := Some (ae_now env)\<rparr>) db)))"
    by (auto simp: safe_same safe_fail safe_verified_after assms split: sum.split option.split)
  then show ?thesis
    unfolding verify_code_def
    by (cases "unused_recovery_code (au_id u) (ae_digest env (normalize_recovery_code code)) db")
       (simp_all add: Let_def safe_enroll_totp safe_fail safe_same safe_verified_after assms)
qed

lemma safe_enroll_passkey:
  "f \<in> set (adb_flows db) \<Longrightarrow> mfa_safe sid h db (snd (enroll_passkey env me fr f u challenge db))"
  by (simp add: enroll_passkey_def safe_fail safe_enrolled_after split: option.split prod.split)

lemma safe_authenticate_passkey:
  "f \<in> set (adb_flows db) \<Longrightarrow> mfa_safe (mr_session fr) h db (snd (authenticate_passkey env me fr f u pc challenge db))"
  by (simp add: authenticate_passkey_def safe_fail safe_verified_after split: option.split)

lemma safe_verify_passkey:
  "f \<in> set (adb_flows db) \<Longrightarrow> mfa_safe (mr_session fr) h db (snd (verify_passkey env me fr f u pc db))"
  by (simp add: verify_passkey_def Let_def safe_same safe_fail safe_enroll_passkey safe_authenticate_passkey)

lemma safe_payload:
  "f \<in> set (adb_flows db) \<Longrightarrow> mfa_safe sid h db (put_flow (f\<lparr>fl_payload := p\<rparr>) db)"
  by (intro mfa_safe_kept) (auto simp: ses.same flow_evolves_def intro!: flw.put)

lemma safe_begin_totp: "f \<in> set (adb_flows db) \<Longrightarrow> mfa_safe sid h db (snd (begin_totp env me secret f u name db))"
  by (simp add: begin_totp_def safe_same safe_payload)

lemma safe_passkey_options: "f \<in> set (adb_flows db) \<Longrightarrow> mfa_safe sid h db (snd (passkey_options me challenge f u name db))"
  by (simp add: passkey_options_def Let_def safe_same safe_payload split: option.split)

lemma safe_flow_finish:
  "f \<in> set (adb_flows db) \<Longrightarrow> mfa_safe sid h db (snd (flow_finish env sid f u db))"
  by (simp add: flow_finish_def safe_same safe_verified split: pyval.split)

lemma safe_start_flow: "mfa_safe sid (ae_digest env token) db (snd (start_flow env token u purpose payload db))"
proof (cases "reject_identity_change u db")
  case True
  then show ?thesis by (simp add: start_flow_def safe_same)
next
  case False
  let ?P = "\<lambda>f. \<not> (fl_user_id f = au_id u \<and> (fl_expires_at f \<le> ae_now env \<or> fl_consumed_at f \<noteq> None))"
  have "rows_grow flow_evolves (new_flow (ae_digest env token)) (adb_flows db) (filter ?P (adb_flows db) @ [f])"
    if "fl_token_hash f = ae_digest env token" for f
    using that by (intro rows_grow_append rows_from_grow flw.filtered) (simp add: new_flow_def)
  with False show ?thesis
    by (simp add: start_flow_def Let_def mfa_safe_def prune_flows_def rows_from_grow [OF ses.same] del: de_Morgan_conj)
qed

lemma safe_login: "mfa_safe sid (ae_digest env token) db (snd (mfa_login env token k db))"
proof (cases "user_by_id k db")
  case (Some u)
  show ?thesis
    using safe_start_flow [of sid env token db u "if user_factors k db \<noteq> [] then ''login'' else ''setup''" "[]"] Some
    by (auto simp: mfa_login_def safe_same split: prod.splits sum.splits)
qed (simp add: mfa_login_def safe_same)

lemma safe_cancel: "mfa_safe sid h db (cancel_flow env hh db)"
  by (auto simp: cancel_flow_def ses.same flow_evolves_def dest!: flow_by_hash_mem
      intro!: mfa_safe_kept flw.put flw.same split: option.split)

lemma invalidate_rows:
  "rows_from row_evolves (adb_sessions db) (adb_sessions (snd (mfa_invalidate env u b db)))"
  "rows_from flow_evolves (adb_flows db) (adb_flows (snd (mfa_invalidate env u b db)))"
  "adb_actions (snd (mfa_invalidate env u b db)) = adb_actions db"
  by (auto simp: mfa_invalidate_def Let_def row_evolves_revoke flow_consumed intro!: ses.where_updated flw.where_updated)


lemma safe_invalidate: "mfa_safe sid h db (snd (mfa_invalidate env u b db))"
  by (rule mfa_safe_kept [OF invalidate_rows])

lemma safe_lift:
  "(\<And>x d. m = Inr (x, d) \<Longrightarrow> mfa_safe sid h db d) \<Longrightarrow> mfa_safe sid h db (snd (lift_result db m))"
  by (cases m) (auto simp: lift_result_def safe_same)

lemma safe_remove: "mfa_safe sid h db (snd (remove_factor env k fid s db))"
  unfolding remove_factor_def
proof (rule safe_lift, goal_cases)
  case (1 x d)
  have "mfa_safe sid h db (snd (mfa_invalidate env u b (put_factor y db)))" for u b y
    by (rule safe_cong [OF safe_invalidate]) simp_all
  then have "mfa_safe sid h db (mfa_audit v e a (snd (mfa_invalidate env u b (put_factor y db))))" for u v e a b y
    by (simp add: mfa_safe_def)
  with 1 show ?case
    by (auto simp: Let_def case_prod_unfold split: option.splits if_splits)
qed

lemma safe_rename: "mfa_safe sid h db (snd (rename_factor env k s fid n db))"
  unfolding rename_factor_def
  by (rule safe_lift) (auto simp: case_prod_unfold mfa_safe_kept ses.same flw.same)

lemma safe_regenerate: "mfa_safe sid h db (snd (regenerate_codes env codes k s db))"
  unfolding regenerate_codes_def
  by (rule safe_lift) (auto simp: case_prod_unfold flow_codes_def replace_codes_def mfa_safe_kept ses.same flw.same)

lemma safe_begin_management:
  "mfa_safe sid (ae_digest env token) db (snd (begin_management env token k s r p db))"
  by (simp add: begin_management_def safe_same safe_start_flow split: option.split)

lemma safe_approve_recovery: "mfa_safe sid h db (snd (approve_recovery env ml ids a k m r db))"
proof -
  have "mfa_safe sid h db (db'\<lparr>adb_recovery_requests := q\<rparr>)"
    if "db' = put_user v (snd (mfa_invalidate env u True db))" for v u q db'
    using safe_invalidate [of sid h db env u True] that by (simp add: mfa_safe_def)
  then show ?thesis
    by (auto simp: approve_recovery_def Let_def case_prod_unfold mfa_audit_def mfa_safe_def ses.same flw.same
        rows_from_grow invalidate_rows split: option.split)
qed

lemma safe_recover: "mfa_safe sid (ae_digest env token) db (snd (recover_account env token t p db))"
proof -
  have *: "mfa_safe sid (ae_digest env token) db (snd (start_flow env token u q l (db\<lparr>adb_recovery_requests := w\<rparr>)))" for u q l w
    by (rule safe_cong [OF safe_start_flow]) simp_all
  have "mfa_safe sid (ae_digest env token) db
      (snd (case start_flow env token u q l (db\<lparr>adb_recovery_requests := w\<rparr>) of
         (Inl e, _) \<Rightarrow> (Inl e, db) | (Inr f, db2) \<Rightarrow> (Inr f, db2)))" for u q l w
    using * [of u q l w] by (auto simp: safe_same split: prod.split sum.split)
  then show ?thesis
    by (simp add: recover_account_def safe_same split: option.split)
qed

end
