(* ===== verification/Second_Factor.thy ===== *)
theory Second_Factor imports Mfa begin

text \<open>
  What the second factor promises: an accepted code is spent, guessing is bounded, and the last
  factor cannot be removed.
\<close>

lemma user_factors_set:
  "set (user_factors k db) = {x \<in> set (adb_factors db). mf_user_id x = k \<and> mf_revoked_at x = None}"
  by (auto simp: user_factors_def)

lemma verified_Inr:
  assumes "verified env sid f u m db = (Inr r, db')"
  shows "\<exists>d. adb_flows d = adb_flows db \<and> adb_flows db' = adb_flows (consume_flow env f d) \<and>
     adb_factors db' = adb_factors db \<and> adb_recovery_codes db' = adb_recovery_codes db"
  using assms
  by (intro exI [of _ db])
     (auto simp: verified_def Let_def case_prod_unfold consume_flow_def create_session_token_def session_create_def
       split: if_splits option.splits)

lemma context_Inr:
  assumes "flow_context env token db = Inr (f, u)"
  obtains t where "token = Some t" "flow_by_hash (ae_digest env t) db = Some f" "user_by_id (fl_user_id f) db = Some u"
    "fl_consumed_at f = None" "fl_attempts f < 5" "ae_now env < fl_expires_at f"
    "fl_security_version f = au_mfa_security_version u" "au_is_active u"
  using assms by (auto simp: flow_context_def split: option.splits if_splits)

text \<open>A consumed, exhausted or absent flow opens nothing.\<close>

lemma context_dead:
  assumes "\<And>f. flow_by_hash (ae_digest env t) db = Some f \<Longrightarrow> fl_consumed_at f \<noteq> None \<or> 5 \<le> fl_attempts f"
  shows "flow_context env (Some t) db = Inl (raise_cls MfaInvalidError)"
proof (cases "flow_by_hash (ae_digest env t) db")
  case (Some f)
  with assms [OF Some] show ?thesis
    by (cases "user_by_id (fl_user_id f) db") (auto simp: flow_context_def)
qed (simp add: flow_context_def)

lemma consumed_context:
  assumes "flow_by_hash (ae_digest env t) db = Some f" and "adb_flows db' = adb_flows (consume_flow env f d)"
    and "adb_flows d = adb_flows db"
  shows "flow_context env2 (Some t') db' = Inl (raise_cls MfaInvalidError) \<or> ae_digest env2 t' \<noteq> ae_digest env t"
proof -
  have "fl_token_hash f = ae_digest env t"
    using flow_by_hash_mem [OF assms(1)] by simp
  with assms have "flow_by_hash (ae_digest env t) db' = Some (f\<lparr>fl_consumed_at := Some (ae_now env), fl_payload := []\<rparr>)"
    by (simp add: flow_by_hash_def tget_tput)
  then show ?thesis
    by (cases "ae_digest env2 t' = ae_digest env t") (auto intro!: context_dead)
qed

lemma match_totp_Some:
  "match_totp env me code fs = Inr (Some (x, step)) \<Longrightarrow>
   x \<in> set fs \<and> mf_kind x = ''totp'' \<and>
   (\<exists>secret. me_decrypt me (the (mf_secret x)) = Some secret \<and> totp_step env me secret code (mf_last_step x) = Some step)"
  by (induction fs) (auto split: option.splits if_splits)

lemma totp_step_Some:
  assumes "totp_step env me secret code l = Some step"
  shows "l < step \<and> me_totp_at me secret (step * 30) = code \<and> \<bar>step - ae_now env div 30\<bar> \<le> 1 \<and> length code = 6"
  using assms by (auto simp: totp_step_def Let_def find_Some_iff nth_Cons' split: if_splits)

text \<open>
  C28: A code that is accepted at a login or a re-authentication is spent by it. The flow it completed
  is consumed: its token opens nothing any more. A recovery code is marked used, so that no look-up
  finds it again. A TOTP code was one of the three current windows, of a window strictly
  later than the last accepted one of that factor, and that window is recorded: the same code is
  not accepted twice.
\<close>

theorem accepted_code_spent:
  assumes "flow_context env (Some t) db = Inr (f, u)" and "fl_purpose f \<in> {''login'', ''reauth''}"
    and "verify_code env me fr f u code recovery db = (Inr r, db')"
  shows "flow_context env (Some t) db' = Inl (raise_cls MfaInvalidError) \<and>
    (recovery \<longrightarrow> unused_recovery_code (au_id u) (ae_digest env (normalize_recovery_code code)) db \<noteq> None \<and>
                 unused_recovery_code (au_id u) (ae_digest env (normalize_recovery_code code)) db' = None) \<and>
    (\<not> recovery \<longrightarrow> (\<exists>x \<in> set (user_factors (au_id u) db). \<exists>step secret.
        me_decrypt me (the (mf_secret x)) = Some secret \<and> me_totp_at me secret (step * 30) = code \<and>
        \<bar>step - ae_now env div 30\<bar> \<le> 1 \<and> mf_last_step x < step \<and>
        (\<forall>y \<in> set (adb_factors db'). mf_id y = mf_id x \<longrightarrow> mf_last_step y = step)))"
proof -
  obtain flow: "flow_by_hash (ae_digest env t) db = Some f"
    using assms(1) by (auto elim!: context_Inr)
  have dead: "flow_context env (Some t) db' = Inl (raise_cls MfaInvalidError)"
    if "verified env s f u m d = (Inr r, db')" and "adb_flows d = adb_flows db" for s m d
    using verified_Inr [OF that(1)] consumed_context [OF flow, of db' _ env t] that(2) by metis
  show ?thesis
  proof (cases recovery)
    case True
    let ?h = "ae_digest env (normalize_recovery_code code)"
    from assms(2,3) True obtain c where c: "unused_recovery_code (au_id u) ?h db = Some c"
      and v: "verified env (mr_session fr) f u ''recovery_code'' (use_recovery_code ?h (ae_now env) db) = (Inr r, db')"
      by (auto simp: verify_code_def flow_fail_def Let_def split: if_splits option.splits)
    have "unused_recovery_code (au_id u) ?h db' = None"
      using verified_Inr [OF v] by (auto simp: unused_recovery_code_def use_recovery_code_def find_None_iff elim!: twhere_E)
    with True c dead [OF v] show ?thesis by simp
  next
    case False
    from assms(2,3) False obtain x step where m: "match_totp env me code (user_factors (au_id u) db) = Inr (Some (x, step))"
      and v: "verified env (mr_session fr) f u ''totp''
        (put_factor (x\<lparr>mf_last_step := step, mf_last_used_at := Some (ae_now env)\<rparr>) db) = (Inr r, db')"
      by (auto simp: verify_code_def flow_fail_def Let_def split: if_splits option.splits sum.splits)
    have "\<forall>y \<in> set (adb_factors db'). mf_id y = mf_id x \<longrightarrow> mf_last_step y = step"
      using verified_Inr [OF v] by (auto dest!: tput_mem)
    with False match_totp_Some [OF m] totp_step_Some dead [OF v] show ?thesis by (auto dest!: totp_step_Some)
  qed
qed


subsection \<open>Guessing\<close>

text \<open>One request of the verification endpoint, and how many of a list of requests find the flow open.\<close>

definition mfa_try :: "auth_env \<Rightarrow> mfa_env \<Rightarrow> mfa_fresh \<Rightarrow> string \<Rightarrow> string \<Rightarrow> bool \<Rightarrow> auth_db \<Rightarrow> mfa_result auth_result" where
  "mfa_try env me fr token code recovery db =
     (case flow_context env (Some token) db of
        Inl e \<Rightarrow> (Inl e, db)
      | Inr (f, u) \<Rightarrow> verify_code env me fr f u code recovery db)"

record mfa_guess =
  mg_time :: time
  mg_fresh :: mfa_fresh
  mg_code :: string
  mg_recovery :: bool

fun open_tries :: "auth_env \<Rightarrow> mfa_env \<Rightarrow> string \<Rightarrow> mfa_guess list \<Rightarrow> auth_db \<Rightarrow> nat" where
  "open_tries env me token [] db = 0"
| "open_tries env me token (g # gs) db =
     (let env' = env\<lparr>ae_now := mg_time g\<rparr> in
      (if isl (flow_context env' (Some token) db) then 0 else 1) +
      open_tries env me token gs (snd (mfa_try env' me (mg_fresh g) token (mg_code g) (mg_recovery g) db)))"

lemma open_tries_dead:
  "(\<And>f. flow_by_hash (ae_digest env t) db = Some f \<Longrightarrow> fl_consumed_at f \<noteq> None \<or> 5 \<le> fl_attempts f) \<Longrightarrow>
   open_tries env me t gs db = 0"
proof (induction gs)
  case (Cons g gs)
  have "flow_context (env\<lparr>ae_now := mg_time g\<rparr>) (Some t) db = Inl (raise_cls MfaInvalidError)"
    using Cons.prems by (intro context_dead) simp
  with Cons show ?case by (simp add: mfa_try_def Let_def)
qed simp

lemma match_totp_decrypts: "(\<And>s. me_decrypt me s \<noteq> None) \<Longrightarrow> \<exists>r. match_totp env me code fs = Inr r"
  by (induction fs) (auto split: option.split, metis option.distinct(1))

text \<open>A request on an open login flow is counted or completes the flow.\<close>

lemma login_try:
  assumes "flow_context env (Some t) db = Inr (f, u)" and "fl_purpose f = ''login''" and "\<And>s. me_decrypt me s \<noteq> None"
  shows "\<exists>f'. flow_by_hash (ae_digest env t) (snd (mfa_try env me fr t code recovery db)) = Some f' \<and>
    fl_purpose f' = ''login'' \<and> (fl_attempts f' = fl_attempts f + 1 \<or> fl_consumed_at f' \<noteq> None)"
proof -
  define counted where "counted d \<longleftrightarrow> (\<exists>f'. flow_by_hash (ae_digest env t) d = Some f' \<and>
    fl_purpose f' = ''login'' \<and> (fl_attempts f' = fl_attempts f + 1 \<or> fl_consumed_at f' \<noteq> None))" for d
  have flow: "flow_by_hash (ae_digest env t) db = Some f"
    using assms(1) by (auto elim!: context_Inr)
  then have h: "fl_token_hash f = ae_digest env t" by (simp add: flow_by_hash_mem)
  have failed: "counted (snd (flow_fail f u db))"
    using flow h assms(2) by (simp add: counted_def flow_fail_def Let_def flow_by_hash_def tget_tput)
  have ok: "counted (snd (verified env s f u m d))" if "adb_flows d = adb_flows db" for s m d
    using flow h assms(2) that
    by (auto simp: counted_def verified_def Let_def case_prod_unfold flow_by_hash_def consume_flow_def tget_tput
        mfa_audit_def create_session_token_def session_create_def)
  obtain r where r: "match_totp env me code (user_factors (au_id u) db) = Inr r"
    using match_totp_decrypts [OF assms(3)] by blast
  have "counted (snd (mfa_try env me fr t code recovery db))"
    using assms(1,2) r by (simp add: mfa_try_def verify_code_def Let_def failed ok split: option.split prod.split)
  then show ?thesis by (simp only: counted_def)
qed

text \<open>
  Guessing at a second factor is bounded. Of any list of verification requests with a login flow's token,
  at whatever times and whether with TOTP or recovery codes, at most five find the flow open, less the failures it has
  already counted.
\<close>

theorem mfa_guesses_bounded:
  assumes "flow_by_hash (ae_digest env t) db = Some f" and "fl_purpose f = ''login''"
    and "0 \<le> fl_attempts f" and "\<And>s. me_decrypt me s \<noteq> None"
  shows "int (open_tries env me t gs db) \<le> max 0 (5 - fl_attempts f)"
  using assms(1-3)
proof (induction gs arbitrary: db f)
  case (Cons g gs)
  let ?env = "env\<lparr>ae_now := mg_time g\<rparr>"
  let ?db = "snd (mfa_try ?env me (mg_fresh g) t (mg_code g) (mg_recovery g) db)"
  show ?case
  proof (cases "flow_context ?env (Some t) db")
    case (Inl e)
    with Cons show ?thesis by (simp add: mfa_try_def Let_def)
  next
    case (Inr fu)
    then have ctx: "flow_context ?env (Some t) db = Inr (f, snd fu)" and less: "fl_attempts f < 5"
      using Cons.prems(1) by (cases fu; auto elim!: context_Inr)+
    from login_try [OF ctx Cons.prems(2) assms(4), of "mg_fresh g" "mg_code g" "mg_recovery g"]
    obtain f' where f': "flow_by_hash (ae_digest env t) ?db = Some f'" "fl_purpose f' = ''login''"
        "fl_attempts f' = fl_attempts f + 1 \<or> fl_consumed_at f' \<noteq> None"
      by auto
    show ?thesis
    proof (cases "fl_consumed_at f' = None")
      case True
      with f' Cons.IH [of ?db f'] Cons.prems(3) less Inr show ?thesis by (simp add: Let_def)
    next
      case False
      with f' have "open_tries env me t gs ?db = 0" by (intro open_tries_dead) simp
      with Inr less show ?thesis by (simp add: Let_def)
    qed
  qed
qed simp

subsection \<open>The last factor\<close>

text \<open>
  Removing a factor never leaves the account without one. A removal that succeeds takes exactly that factor away from
  two or more, and ends every session and every pending flow of the user, so that each of them has to
  authenticate again with what is left.
\<close>

theorem last_factor_kept:
  assumes "remove_factor env k fid sid db = (Inr (), db')" and "distinct (map mf_id (adb_factors db))"
  shows "set (user_factors k db') = {x \<in> set (user_factors k db). mf_id x \<noteq> fid} \<and> user_factors k db' \<noteq> [] \<and>
    (\<forall>s \<in> set (adb_sessions db'). us_user_id s = k \<longrightarrow> us_revoked_at s \<noteq> None) \<and>
    (\<forall>f \<in> set (adb_flows db'). fl_user_id f = k \<longrightarrow> fl_consumed_at f \<noteq> None)"
proof -
  from assms(1) obtain u x where u: "au_id u = k" and x: "find (\<lambda>x. mf_id x = fid) (user_factors k db) = Some x"
    and two: "\<not> length (user_factors k db) \<le> 1"
    and db': "db' = mfa_audit (fst (mfa_invalidate env u False (put_factor (x\<lparr>mf_revoked_at := Some (ae_now env), mf_secret := None\<rparr>) db)))
       ''factor_removed'' None (snd (mfa_invalidate env u False (put_factor (x\<lparr>mf_revoked_at := Some (ae_now env), mf_secret := None\<rparr>) db)))"
    by (auto simp: remove_factor_def lift_result_def management_user_def Let_def case_prod_unfold
        dest!: tget_SomeD split: sum.splits option.splits if_splits)
  from x have id: "mf_id x = fid" by (auto simp: find_Some_iff)
  have factors: "adb_factors db' = tput mf_id (x\<lparr>mf_revoked_at := Some (ae_now env), mf_secret := None\<rparr>) (adb_factors db)"
    by (simp add: db' mfa_invalidate_def Let_def)
  have rest: "set (user_factors k db') = {x \<in> set (user_factors k db). mf_id x \<noteq> fid}"
    by (auto simp: user_factors_set factors id tput_def)
  have "distinct (map mf_id (user_factors k db))"
    using assms(2) by (auto simp: user_factors_def distinct_map intro: inj_on_subset)
  moreover have "\<not> (\<forall>y \<in> set (user_factors k db). mf_id y = fid)" if "distinct (map mf_id (user_factors k db))"
    using that two by (cases "user_factors k db" rule: remdups_adj.cases) auto
  ultimately have "user_factors k db' \<noteq> []"
    using rest by (metis (mono_tags, lifting) empty_iff list.set(1) mem_Collect_eq)
  with rest u show ?thesis
    by (auto simp: db' mfa_invalidate_def Let_def elim!: twhere_E)
qed

subsection \<open>Evaluated instances\<close>

definition sample_mfa_env :: mfa_env where
  "sample_mfa_env = \<lparr>me_encrypt = (\<lambda>s. ''e:'' @ s), me_decrypt = (\<lambda>s. Some (drop 2 s)),
     me_totp_at = (\<lambda>s t. if t = 990 then ''123456'' else ''000000''), me_webauthn_ok = True,
     me_register = (\<lambda>_. None), me_verify = (\<lambda>_ _ _. None)\<rparr>"

definition sample_factor :: "string \<Rightarrow> mfa_factor" where
  "sample_factor k = (new_factor sample_env k sample_user ''totp'' ''phone'')\<lparr>mf_secret := Some ''e:s''\<rparr>"

definition sample_fresh :: mfa_fresh where
  "sample_fresh = \<lparr>mr_session = ''s1'', mr_factor = ''f1'', mr_codes = []\<rparr>"

definition sample_session :: user_session where
  "sample_session = \<lparr>us_id = ''s0'', us_user_id = 7, us_started_at = 900, us_last_seen_at = 900,
     us_expires_at = 2000, us_absolute_expires_at = 9000, us_revoked_at = None, us_revoked_reason = None,
     us_mfa_method = Some ''totp'', us_mfa_verified_at = Some 900, us_mfa_security_version = Some 0,
     us_mfa_reauthenticated_at = Some 900\<rparr>"

definition sample_flow :: mfa_flow where
  "sample_flow = \<lparr>fl_token_hash = ''d:t'', fl_user_id = 7, fl_purpose = ''login'', fl_security_version = 0,
     fl_expires_at = 1600, fl_consumed_at = None, fl_attempts = 0,
     fl_payload = [(''fingerprint'', PStr (mfa_fingerprint sample_env sample_user))]\<rparr>"

definition sample_mfa_db :: auth_db where
  "sample_mfa_db = sample_auth_db\<lparr>adb_factors := [sample_factor ''x'', sample_factor ''y''],
     adb_flows := [sample_flow], adb_sessions := [sample_session]\<rparr>"

lemma pair_run: "\<not> isl (fst m) \<Longrightarrow> m = (Inr (projr (fst m)), snd m)"
  by (cases m) auto

lemma accepted_code_spent_witness:
  "flow_context sample_env (Some ''t'')
     (snd (verify_code sample_env sample_mfa_env sample_fresh sample_flow sample_user ''123456'' False sample_mfa_db)) =
   Inl (raise_cls MfaInvalidError)"
proof -
  let ?m = "verify_code sample_env sample_mfa_env sample_fresh sample_flow sample_user ''123456'' False sample_mfa_db"
  have ctx: "flow_context sample_env (Some ''t'') sample_mfa_db = Inr (sample_flow, sample_user)"
    by code_simp
  have "\<not> isl (fst ?m)"
    by code_simp
  from accepted_code_spent [OF ctx _ pair_run [OF this]] show ?thesis
    by (simp add: sample_flow_def)
qed

lemma mfa_guesses_bounded_witness:
  "int (open_tries sample_env sample_mfa_env ''t'' (replicate 9 \<lparr>mg_time = 1000, mg_fresh = sample_fresh, mg_code = ''000000'', mg_recovery = False\<rparr>) sample_mfa_db) \<le> 5"
proof -
  have f: "flow_by_hash (ae_digest sample_env ''t'') sample_mfa_db = Some sample_flow"
    by code_simp
  show ?thesis
    using mfa_guesses_bounded [OF f, of sample_mfa_env]
    by (simp add: sample_flow_def sample_mfa_env_def)
qed

lemma last_factor_kept_witness:
  "user_factors 7 (snd (remove_factor sample_env 7 ''x'' ''s0'' sample_mfa_db)) \<noteq> []"
proof -
  have "fst (remove_factor sample_env 7 ''x'' ''s0'' sample_mfa_db) = Inr ()"
    by code_simp
  then have "remove_factor sample_env 7 ''x'' ''s0'' sample_mfa_db =
      (Inr (), snd (remove_factor sample_env 7 ''x'' ''s0'' sample_mfa_db))"
    by (metis prod.collapse)
  moreover have "distinct (map mf_id (adb_factors sample_mfa_db))"
    by code_simp
  ultimately show ?thesis
    using last_factor_kept by blast
qed

end
