(* ===== verification/Auth_System.thy ===== *)
theory Auth_System imports Second_Factor begin

text \<open>
  The authentication components together: login and logout as the router composes them
  (\<^verbatim>\<open>app/routers/auth.py\<close>), every operation on sessions, demos, links and flows as one relation
  \<open>auth_op\<close>, and histories of operations. The random identifiers an operation draws (session ids,
  hashes of link and flow tokens) are collected in the state, so that a draw is fresh.
\<close>

subsection \<open>Login and logout\<close>

text \<open>
  \<open>login_user\<close> answers \<open>Inl\<close> a flow (\<open>None\<close> while a recovery is pending) when a second factor is needed, and
  \<open>Inr\<close> a session otherwise.
\<close>

definition login_user ::
  "auth_env \<Rightarrow> string \<Rightarrow> string \<Rightarrow> string \<Rightarrow> string \<Rightarrow> auth_db \<Rightarrow> (mfa_flow option + user_session) auth_result" where
  "login_user env sid token email password db =
     (case authenticate_user env email password db of
        (Inl e, db1) \<Rightarrow> (Inl e, db1)
      | (Inr user, db1) \<Rightarrow>
          (case review_validate env False user db1 of
             Inl e \<Rightarrow> (Inl e, db1)
           | Inr review \<Rightarrow>
               if ae_mfa_required env \<and> \<not> au_password_change_required user \<and> review = None then
                 (case mfa_login env token (au_id user) db1 of
                    (Inl e, db2) \<Rightarrow> (Inl e, db2)
                  | (Inr flow, db2) \<Rightarrow> aok (Inl flow) db2)
               else
                 (let db2 = put_user (user\<lparr>au_last_login_at := Some (ae_now env)\<rparr>) db1;
                      ((s, _), db3) = create_session_token env sid user None db2
                  in aok (Inr s) (auth_audit_event ''auth.login.success'' (Some (au_id user)) (Some (au_id user)) (us_id s) db3))))"

text \<open>\<open>demo\<close>: the request is of the demo realm.\<close>

definition logout_user ::
  "auth_env \<Rightarrow> (string \<Rightarrow> pydict option) \<Rightarrow> bool \<Rightarrow> bool \<Rightarrow> string option \<Rightarrow> string option \<Rightarrow> auth_db \<Rightarrow> auth_db" where
  "logout_user env decode ok demo access_token mfa_token db =
     (let db1 = (case mfa_token of
                   Some t \<Rightarrow> if t \<noteq> '''' \<and> \<not> demo then cancel_flow env (ae_digest env t) db else db
                 | None \<Rightarrow> db)
      in case access_token of
           None \<Rightarrow> db1
         | Some t \<Rightarrow>
             (let (s, db2) = revoke_token_session env decode t ''logout'' db1;
                  db3 = auth_audit_event ''auth.logout'' (map_option us_user_id s) (map_option us_user_id s)
                          (case s of None \<Rightarrow> '''' | Some x \<Rightarrow> us_id x) db2
              in case Option.bind s (\<lambda>x. demo_by_session (us_id x) db3) of
                   None \<Rightarrow> db3
                 | Some d \<Rightarrow> snd (demo_cleanup env ok (ds_id d) db3)))"


text \<open>Checking a password writes to the throttle and the audit log only.\<close>

definition sans_throttle :: "auth_db \<Rightarrow> auth_db" where
  "sans_throttle db = db\<lparr>adb_attempts := [], adb_audits := []\<rparr>"

lemma sans_throttle_simps [simp]:
  "sans_throttle (db\<lparr>adb_attempts := t\<rparr>) = sans_throttle db" "sans_throttle (db\<lparr>adb_audits := a\<rparr>) = sans_throttle db"
  by (simp_all add: sans_throttle_def)

lemma sans_throttle_tables:
  assumes "sans_throttle db' = sans_throttle db"
  shows "adb_users db' = adb_users db" "adb_sessions db' = adb_sessions db" "adb_actions db' = adb_actions db"
    "adb_flows db' = adb_flows db" "adb_review_grants db' = adb_review_grants db"
  using arg_cong [OF assms, of adb_users] arg_cong [OF assms, of adb_sessions] arg_cong [OF assms, of adb_actions]
    arg_cong [OF assms, of adb_flows] arg_cong [OF assms, of adb_review_grants]
  by (simp_all add: sans_throttle_def)

lemma sans_throttle_attempts [simp]:
  "sans_throttle (attempt_reset a db) = sans_throttle db"
  "sans_throttle (login_reset e db) = sans_throttle db"
  "sans_throttle (snd (is_locked env e db)) = sans_throttle db"
  "sans_throttle (record_failure env e db) = sans_throttle db"
  "sans_throttle (record_login_failure e r u db) = sans_throttle db"
  by (simp_all add: attempt_reset_def login_reset_def is_locked_def record_failure_def attempt_get_or_create_def
      record_login_failure_def Let_def split: option.split)

lemma authenticate_throttle_only: "sans_throttle (snd (authenticate_user env email password db)) = sans_throttle db"
proof -
  obtain l d where i: "is_locked env (normalize_email email) db = (l, d)" by fastforce
  then have d: "sans_throttle d = sans_throttle db"
    using sans_throttle_attempts(3) [of env "normalize_email email" db] by simp
  show ?thesis
  proof (cases "ends_with (normalize_email email) ''@demo.syncnesto.example.com'' \<or> l")
    case True
    then show ?thesis by (auto simp: authenticate_user_def Let_def i d del: sans_throttle_attempts(3))
  next
    case False
    then show ?thesis
      by (cases "user_by_email email d") (simp_all add: authenticate_user_def Let_def i d)
  qed
qed

lemma authenticate_user_row:
  assumes "authenticate_user env email password db = (Inr u, db')"
  shows "u \<in> set (adb_users db)" and "sans_throttle db' = sans_throttle db"
proof -
  show *: "sans_throttle db' = sans_throttle db"
    using authenticate_throttle_only [of env email password db] assms by simp
  have "sans_throttle d = sans_throttle db" if "is_locked env (normalize_email email) db = (l, d)" for l d
    using sans_throttle_attempts(3) [of env "normalize_email email" db] that by simp
  then show "u \<in> set (adb_users db)"
    using assms
    by (auto simp: authenticate_user_def Let_def user_by_email_def find_Some_iff
        dest!: sans_throttle_tables(1) split: prod.splits option.splits if_splits)
qed

text \<open>
  C35: With the second factor required, the password alone opens nothing but the way to it. A login
  then answers a session only to a user who has to set a first password or to a reviewer, and that
  session is not verified: a request with it is refused by every operation for current users, unless it
  is the reviewer's. Everybody else gets a flow, and no session is created.
\<close>

theorem password_alone_is_not_enough:
  assumes "ae_mfa_required env" and "login_user env sid token email password db = (Inr r, db')"
  shows "(\<exists>s u. r = Inr s \<and> u \<in> set (adb_users db) \<and> us_user_id s = au_id u \<and> us_mfa_verified_at s = None \<and>
            \<not> require_verified env u s \<and>
            (au_password_change_required u \<or> tget rg_user_id (au_id u) (adb_review_grants db) \<noteq> None)) \<or>
         (\<exists>f. r = Inl f \<and> adb_sessions db' = adb_sessions db)"
proof -
  obtain user db1 where auth: "authenticate_user env email password db = (Inr user, db1)"
    using assms(2) by (cases "authenticate_user env email password db") (auto simp: login_user_def split: sum.splits)
  note row = authenticate_user_row [OF auth]
  note kept = sans_throttle_tables [OF row(2)]
  obtain review where review: "review_validate env False user db1 = Inr review"
    using assms(2) auth by (cases "review_validate env False user db1") (auto simp: login_user_def)
  show ?thesis
  proof (cases "\<not> au_password_change_required user \<and> review = None")
    case True
    with assms auth review obtain f where "r = Inl f" "db' = snd (mfa_login env token (au_id user) db1)"
      by (auto simp: login_user_def split: prod.splits sum.splits)
    moreover have "adb_sessions (snd (mfa_login env token (au_id user) db1)) = adb_sessions db"
      by (auto simp: mfa_login_def start_flow_def Let_def prune_flows_def kept split: option.split prod.split sum.split)
    ultimately show ?thesis by blast
  next
    case False
    with assms auth review obtain s where "r = Inr s"
      and s: "s = fst (fst (create_session_token env sid user None (put_user (user\<lparr>au_last_login_at := Some (ae_now env)\<rparr>) db1)))"
      by (auto simp: login_user_def Let_def case_prod_unfold)
    moreover have "us_user_id s = au_id user" "us_mfa_verified_at s = None" unfolding s
      by (simp_all add: create_session_token_def session_create_def Let_def new_user_session_def)
    moreover have "tget rg_user_id (au_id user) (adb_review_grants db) \<noteq> None" if "review \<noteq> None"
      using review that by (auto simp: review_validate_def kept split: option.splits if_splits)
    ultimately show ?thesis using row(1) False assms(1) by (auto simp: require_verified_def)
  qed
qed


subsection \<open>How links evolve\<close>

text \<open>
  Links are only removed with everything else of their tenant. As the table's primary key is unique,
  a link that is not removed evolves.
\<close>

definition links_safe :: "account_action list \<Rightarrow> account_action list \<Rightarrow> bool" where
  "links_safe t t' \<longleftrightarrow> rows_from link_evolves t t' \<and>
     (distinct (map aa_id t) \<longrightarrow> distinct (map aa_id t') \<and>
        (\<forall>a \<in> set t. (\<exists>a' \<in> set t'. link_evolves a a') \<or> (\<forall>a' \<in> set t'. aa_tenant_id a' \<noteq> aa_tenant_id a)))"

lemma links_safe_refl [simp]: "links_safe t t"
  using lnk.refl by (auto simp: links_safe_def lnk.same)

lemma links_safe_trans:
  assumes "links_safe a b" and "links_safe b c"
  shows "links_safe a c"
proof -
  have "(\<exists>z \<in> set c. link_evolves x z) \<or> (\<forall>z \<in> set c. aa_tenant_id z \<noteq> aa_tenant_id x)"
    if "distinct (map aa_id a)" "x \<in> set a" for x
  proof (cases "\<exists>y \<in> set b. link_evolves x y")
    case True
    then obtain y where y: "y \<in> set b" "link_evolves x y" by blast
    then have "aa_tenant_id y = aa_tenant_id x" by (simp add: link_evolves_def)
    with y assms that show ?thesis unfolding links_safe_def by (metis lnk.trans)
  next
    case False
    with assms(1) that have "\<forall>y \<in> set b. aa_tenant_id y \<noteq> aa_tenant_id x" unfolding links_safe_def by blast
    with assms(2) show ?thesis unfolding links_safe_def rows_from_def link_evolves_def by metis
  qed
  with assms show ?thesis unfolding links_safe_def using lnk.chain by blast
qed

lemma links_safe_put:
  assumes "a \<in> set t" and "link_evolves a a'"
  shows "links_safe t (tput aa_id a' t)"
proof -
  have id: "aa_id a' = aa_id a" using assms(2) by (simp add: link_evolves_def)
  have "\<exists>y \<in> set (tput aa_id a' t). link_evolves x y" if "distinct (map aa_id t)" "x \<in> set t" for x
  proof (cases "aa_id x = aa_id a")
    case True
    with that assms(1) have "x = a" by (auto simp: distinct_map dest: inj_onD)
    with assms id show ?thesis by (auto simp: tput_def)
  next
    case False
    with that id lnk.refl show ?thesis by (auto simp: tput_def)
  qed
  then show ?thesis using lnk.put [of a t a' aa_id] assms by (auto simp: links_safe_def)
qed

lemma links_safe_ended: "links_safe t (ended_links k now t)"
proof -
  have "\<exists>y \<in> set (ended_links k now t). link_evolves x y" if "x \<in> set t" for x
    unfolding ended_links_def using that by (intro lnk.where_kept) (simp_all add: link_evolves_def)
  moreover have "map aa_id (ended_links k now t) = map aa_id t"
    unfolding ended_links_def by (rule keys_twhere) simp
  ultimately show ?thesis by (simp add: links_safe_def links_evolve_ended)
qed

lemma links_safe_deletion: "links_safe (adb_actions db) (adb_actions (delete_business_data d db))"
proof (cases "ds_tenant_id d")
  case (Some k)
  have "links_safe t (filter (\<lambda>a. aa_tenant_id a \<noteq> Some k) t)" for t
    using lnk.refl by (auto simp: links_safe_def lnk.filtered distinct_map intro: inj_on_subset)
  with Some show ?thesis by (simp add: delete_business_data_def Let_def)
qed (simp add: delete_business_data_def)

text \<open>What the session and demo operations do to the three tables.\<close>

definition tables_safe :: "auth_db \<Rightarrow> auth_db \<Rightarrow> bool" where
  "tables_safe db db' \<longleftrightarrow> rows_from row_evolves (adb_sessions db) (adb_sessions db') \<and>
     links_safe (adb_actions db) (adb_actions db') \<and> rows_from flow_evolves (adb_flows db) (adb_flows db')"

interpretation tbl: session_effect tables_safe
proof (unfold_locales, goal_cases)
  case (1 db' db)
  then show ?case by (simp add: tables_safe_def ses.same flw.same)
next
  case (2 a b c)
  then show ?case unfolding tables_safe_def using ses.chain links_safe_trans flw.chain by blast
next
  case (3 db t)
  then show ?case by (simp add: tables_safe_def flw.same)
next
  case (4 db d)
  show ?case
    by (simp add: tables_safe_def links_safe_deletion ses.subset [OF delete_tables(1)] flw.subset [OF delete_tables(2)])
qed


subsection \<open>Every operation\<close>

text \<open>
  \<open>auth_op S L F db db'\<close>: one operation leads from \<open>db\<close> to \<open>db'\<close>, drawing the session ids \<open>S\<close>, the link
  hashes \<open>L\<close> and the flow hashes \<open>F\<close>. The id of a new link is not in the table (its primary key).
\<close>

inductive auth_op :: "string set \<Rightarrow> string set \<Rightarrow> string set \<Rightarrow> auth_db \<Rightarrow> auth_db \<Rightarrow> bool" where
  login: "auth_op {sid} {} {ae_digest env token} db (snd (login_user env sid token email password db))"
| logout: "auth_op {} {} {} db (logout_user env decode ok demo access_token mfa_token db)"
| request: "auth_op {} {} {} db (snd (get_authenticated_user env decode allow ok rq db))"
| revoke: "auth_op {} {} {} db (snd (revoke_user_sessions env k reason actor commit db))"
| demo_started: "auth_op {di_session ids} {} {} db (snd (demo_start env ip del ids db))"
| demo_ended: "auth_op {} {} {} db (snd (demo_cleanup env ok d (demo_revoke env d reason db)))"
| demo_swept: "auth_op {} {} {} db (snd (demo_sweep env del db))"
| upload_reserved: "auth_op {} {} {} db (snd (reserve_upload env d reservation up key n expires db))"
| reset_requested: "ai_id ids \<notin> aa_id ` set (adb_actions db) \<Longrightarrow>
    auth_op {} {ae_digest env (ai_token ids)} {} db (snd (request_password_reset env in_demo ml ids k actor tenant db))"
| reset_public: "ai_id ids \<notin> aa_id ` set (adb_actions db) \<Longrightarrow>
    auth_op {} {ae_digest env (ai_token ids)} {} db (public_password_reset env ml ids email db)"
| change_requested: "ai_id ids \<notin> aa_id ` set (adb_actions db) \<Longrightarrow>
    auth_op {} {ae_digest env (ai_token ids)} {} db
      (snd (request_email_change env in_demo ml ids k actor_id new_email tenant db))"
| password_reset: "auth_op {} {} {} db (snd (reset_password env token password db))"
| change_approved: "ai_id ids \<notin> aa_id ` set (adb_actions db) \<Longrightarrow>
    auth_op {} {ae_digest env (ai_token ids)} {} db (snd (approve_email_change env ml ids token db))"
| change_confirmed: "auth_op {} {} {} db (snd (confirm_email_change env token db))"
| password_set: "auth_op {} {} {} db (snd (complete_initial_password env k current password db))"
| totp_begun: "flow_context env token db = Inr (f, u) \<Longrightarrow>
    auth_op {} {} {} db (snd (begin_totp env me secret f u name db))"
| code_verified: "flow_context env token db = Inr (f, u) \<Longrightarrow>
    auth_op {mr_session fr} {} {} db (snd (verify_code env me fr f u code recovery db))"
| passkey_begun: "flow_context env token db = Inr (f, u) \<Longrightarrow>
    auth_op {} {} {} db (snd (passkey_options me challenge f u pname db))"
| passkey_verified: "flow_context env token db = Inr (f, u) \<Longrightarrow>
    auth_op {mr_session fr} {} {} db (snd (verify_passkey env me fr f u pc db))"
| enrolment_finished: "flow_context env token db = Inr (f, u) \<Longrightarrow>
    auth_op {sid} {} {} db (snd (flow_finish env sid f u db))"
| factor_removed: "auth_op {} {} {} db (snd (remove_factor env k fid sid db))"
| factor_renamed: "auth_op {} {} {} db (snd (rename_factor env k sid fid name db))"
| codes_regenerated: "auth_op {} {} {} db (snd (regenerate_codes env codes k sid db))"
| management_begun: "auth_op {} {} {ae_digest env ft} db (snd (begin_management env ft k sid reauth pw db))"
| recovery_approved: "auth_op {} {} {} db (snd (approve_recovery env ml ids actor_id k how reason db))"
| recovered: "auth_op {} {} {ae_digest env ft} db (snd (recover_account env ft token password db))"

definition auth_effect :: "string set \<Rightarrow> string set \<Rightarrow> string set \<Rightarrow> auth_db \<Rightarrow> auth_db \<Rightarrow> bool" where
  "auth_effect S L F db db' \<longleftrightarrow>
     rows_grow row_evolves (\<lambda>s. us_id s \<in> S \<and> us_expires_at s \<le> us_absolute_expires_at s) (adb_sessions db) (adb_sessions db') \<and>
     rows_grow link_evolves (\<lambda>a. aa_token_hash a \<in> L) (adb_actions db) (adb_actions db') \<and>
     rows_grow flow_evolves (\<lambda>f. fl_token_hash f \<in> F) (adb_flows db) (adb_flows db')"

lemma effect_tables_safe: "tables_safe db db' \<Longrightarrow> auth_effect S L F db db'"
  by (simp add: auth_effect_def tables_safe_def links_safe_def rows_from_grow)

lemma effect_cong:
  "auth_effect S L F db1 db' \<Longrightarrow> adb_sessions db1 = adb_sessions db \<Longrightarrow> adb_actions db1 = adb_actions db \<Longrightarrow>
   adb_flows db1 = adb_flows db \<Longrightarrow> auth_effect S L F db db'"
  by (simp add: auth_effect_def)

lemma effect_mono:
  "auth_effect S L F db db' \<Longrightarrow> S \<subseteq> S' \<Longrightarrow> L \<subseteq> L' \<Longrightarrow> F \<subseteq> F' \<Longrightarrow> auth_effect S' L' F' db db'"
  unfolding auth_effect_def rows_grow_def by blast

lemma effect_mfa: "mfa_safe sid h db db' \<Longrightarrow> auth_effect {sid} {} {h} db db'"
  by (simp add: auth_effect_def mfa_safe_def new_session_def [abs_def] new_flow_def [abs_def] rows_from_grow lnk.same)

text \<open>An operation that is safe for every name draws none.\<close>

lemma rows_grow_none:
  assumes "\<And>k. rows_grow ev (new k) t t'" and "\<And>k r. new k r \<Longrightarrow> key r = (k :: string)"
  shows "rows_from ev t t'"
  unfolding rows_from_def
proof
  fix r assume "r \<in> set t'"
  moreover have "\<not> new (key r @ ''x'') r" using assms(2) by fastforce
  ultimately show "\<exists>x \<in> set t. ev x r" using assms(1) [of "key r @ ''x''"] by (auto simp: rows_grow_def)
qed

lemma mfa_no_session: "(\<And>sid. mfa_safe sid h db db') \<Longrightarrow> rows_from row_evolves (adb_sessions db) (adb_sessions db')"
  by (rule rows_grow_none [where new = new_session and key = us_id]) (auto simp: mfa_safe_def new_session_def)

lemma mfa_no_flow: "(\<And>h. mfa_safe sid h db db') \<Longrightarrow> rows_from flow_evolves (adb_flows db) (adb_flows db')"
  by (rule rows_grow_none [where new = new_flow and key = fl_token_hash]) (auto simp: mfa_safe_def new_flow_def)

lemma effect_mfa_flow: "(\<And>sid. mfa_safe sid h db db') \<Longrightarrow> auth_effect {} {} {h} db db'"
  using mfa_no_session [of h db db'] effect_mfa [of _ h db db'] by (simp add: auth_effect_def rows_from_grow)

lemma effect_mfa_session: "(\<And>h. mfa_safe sid h db db') \<Longrightarrow> auth_effect {sid} {} {} db db'"
  using mfa_no_flow [of sid db db'] effect_mfa [of sid _ db db'] by (simp add: auth_effect_def rows_from_grow)

lemma effect_mfa_none: "(\<And>sid h. mfa_safe sid h db db') \<Longrightarrow> auth_effect {} {} {} db db'"
  using mfa_no_flow [of _ db db'] effect_mfa_flow [of _ db db'] by (simp add: auth_effect_def rows_from_grow)

text \<open>The operations that are neither of one kind nor of the other.\<close>

lemma effect_login:
  "auth_effect {sid} {} {ae_digest env token} db (snd (login_user env sid token email password db))"
proof -
  obtain r db1 where a: "authenticate_user env email password db = (r, db1)" by fastforce
  then have "sans_throttle db1 = sans_throttle db"
    using authenticate_throttle_only [of env email password db] by simp
  note t = sans_throttle_tables [OF this]
  have same: "auth_effect {sid} {} {ae_digest env token} db db1"
    by (rule effect_tables_safe, rule tbl.same) (simp_all add: t)
  have flow: "auth_effect {sid} {} {ae_digest env token} db (snd (mfa_login env token k db1))" for k
    by (rule effect_cong [OF effect_mfa [OF safe_login]]) (simp_all add: t)
  have session: "auth_effect {sid} {} {ae_digest env token} db (snd (create_session_token env sid u m (put_user v db1)))" for u v m
    using create_token_grow [of sid "put_user v db1" env u m]
    by (simp add: auth_effect_def t new_session_def [abs_def] rows_from_grow lnk.same flw.same)
  show ?thesis
  proof (cases r)
    case (Inl e)
    then show ?thesis by (simp add: login_user_def a same)
  next
    case (Inr u)
    have "auth_effect {sid} {} {ae_digest env token} db
        (auth_audit_event e x y z (snd (create_session_token env sid u m (put_user v db1))))" for e x y z m v
      using session [of u m v] by (simp add: auth_effect_def)
    then show ?thesis
      using Inr same flow by (simp add: login_user_def a case_prod_unfold Let_def split: sum.split)
  qed
qed

lemma effect_demo_start: "auth_effect {di_session ids} {} {} db (snd (demo_start env ip ok ids db))"
proof -
  obtain allowed db1 where c: "consume_start (ae_hmac env ip) (ae_now env) db = (allowed, db1)" by fastforce
  have t: "adb_sessions db1 = adb_sessions db" "adb_actions db1 = adb_actions db" "adb_flows db1 = adb_flows db"
    using c by (auto simp: consume_start_def Let_def split: option.splits if_splits)
  have each: "tables_safe db (snd (cleanup_each env ok ks db1))" for ks
    using tbl.chain [OF tbl.same tbl.cleaned_each] t by metis
  have same: "tables_safe db db1" using t by (intro tbl.same) simp_all
  show ?thesis
  proof (cases "ae_demo_mode env \<and> allowed \<and> \<not> 10 \<le> unfinished_count (snd (cleanup_each env ok (due_ids (ae_now env) 2 db1) db1))")
    case True
    let ?d = "snd (cleanup_each env ok (due_ids (ae_now env) 2 db1) db1)"
    let ?s = "new_user_session env (di_session ids) (au_id (new_demo_user env ids))
      (ae_now env + idle_minutes * 60) (ae_now env + absolute_minutes * 60)"
    let ?new = "\<lambda>s. us_id s \<in> {di_session ids} \<and> us_expires_at s \<le> us_absolute_expires_at s"
    have "rows_grow row_evolves ?new (adb_sessions db) (adb_sessions ?d @ [?s])"
      using each by (intro rows_grow_append)
        (simp_all add: tables_safe_def new_user_session_def idle_minutes_def absolute_minutes_def)
    with True each show ?thesis
      by (simp add: demo_start_def c Let_def auth_effect_def tables_safe_def links_safe_def rows_from_grow)
  next
    case False
    with same each show ?thesis
      by (auto simp: demo_start_def c Let_def intro!: effect_tables_safe tbl.kept)
  qed
qed

lemma effect_logout: "tables_safe db (logout_user env decode ok demo access_token mfa_token db)"
proof -
  have cancel: "tables_safe db (cancel_flow env h db)" for h
    using safe_cancel [of _ _ db env h] mfa_no_session [of _ db "cancel_flow env h db"] mfa_no_flow [of _ db "cancel_flow env h db"]
    by (simp add: tables_safe_def mfa_safe_def)
  define db1 where "db1 = (case mfa_token of
      Some t \<Rightarrow> if t \<noteq> '''' \<and> \<not> demo then cancel_flow env (ae_digest env t) db else db | None \<Rightarrow> db)"
  with cancel have 1: "tables_safe db db1"
    by (simp add: tbl.kept split: option.split)
  show ?thesis
  proof (cases access_token)
    case None
    with 1 show ?thesis by (simp add: logout_user_def Let_def db1_def)
  next
    case (Some t)
    obtain s db2 where r: "revoke_token_session env decode t ''logout'' db1 = (s, db2)" by fastforce
    have 2: "tables_safe db (auth_audit_event e x y z db2)" for e x y z
      using tbl.then_same [OF tbl.chain [OF 1 tbl.revoked_token [of db1 env decode t "''logout''"]]] r by simp
    show ?thesis
      using 2 tbl.chain [OF 2 tbl.cleaned]
      by (simp add: logout_user_def Some db1_def [symmetric] r Let_def split: option.split)
  qed
qed

text \<open>The links: what the operations of \<open>Account_Action\<close> do to them.\<close>

definition links_step :: "account_action list \<Rightarrow> account_action list \<Rightarrow> bool" where
  "links_step t t' \<longleftrightarrow> links_safe t t' \<or>
     (\<exists>a. aa_purpose a \<noteq> EmailChangeVerify \<and> aa_id a \<notin> aa_id ` set t \<and> t' = t @ [a]) \<or>
     (\<exists>a v now. a \<in> set t \<and> aa_purpose a = EmailChangeApprove \<and> aa_id v \<notin> aa_id ` set t \<and>
        aa_user_id v = aa_user_id a \<and> aa_new_email v = aa_new_email a \<and> aa_tenant_id v = aa_tenant_id a \<and>
        t' = tput aa_id (a\<lparr>aa_consumed_at := Some now\<rparr>) (t @ [v]))"

lemma issued_links:
  assumes "issued env ids p db db'" and "p \<noteq> EmailChangeVerify" and "ai_id ids \<notin> aa_id ` set (adb_actions db)"
  shows "links_step (adb_actions db) (adb_actions db')"
    and "rows_grow link_evolves (\<lambda>a. aa_token_hash a = ae_digest env (ai_token ids)) (adb_actions db) (adb_actions db')"
proof -
  from assms obtain a where a: "adb_actions db' = adb_actions db @ [a]" "aa_purpose a = p"
    "aa_token_hash a = ae_digest env (ai_token ids)" "aa_id a = ai_id ids"
    by (auto simp: issued_def)
  show "links_step (adb_actions db) (adb_actions db')"
    using a assms(2,3) by (auto simp: links_step_def)
  show "rows_grow link_evolves (\<lambda>a. aa_token_hash a = ae_digest env (ai_token ids)) (adb_actions db) (adb_actions db')"
    unfolding a(1) by (rule rows_grow_append) (rule lnk.same, rule a(3))
qed

lemma finish_links_safe:
  "a \<in> set (adb_actions db) \<Longrightarrow> links_safe (adb_actions db) (adb_actions (finish_action env a u db))"
  unfolding finish_tables
  by (rule links_safe_trans [OF links_safe_put links_safe_ended]) (assumption, rule link_consumed)


text \<open>What an operation on links leaves alone, and what it does.\<close>

definition links_op :: "string set \<Rightarrow> auth_db \<Rightarrow> auth_db \<Rightarrow> bool" where
  "links_op L db db' \<longleftrightarrow> auth_effect {} L {} db db' \<and> links_step (adb_actions db) (adb_actions db')"

lemma links_op_same: "links_op L db db"
  by (simp add: links_op_def links_step_def effect_tables_safe tbl.kept)

lemma links_op_tables: "tables_safe db db' \<Longrightarrow> links_op L db db'"
  by (simp add: links_op_def links_step_def effect_tables_safe tables_safe_def)

lemma issue_flows: "issue_action env ml ids u p actor tenant e db = Inr (a, db') \<Longrightarrow> adb_flows db' = adb_flows db"
  by (auto simp: issue_action_def Let_def split: option.splits)

lemma request_reset_flows: "adb_flows (snd (request_password_reset env in_demo ml ids k actor tenant db)) = adb_flows db"
  by (auto simp: request_password_reset_def lift_result_def action_audit_def dest!: issue_flows
      split: sum.splits prod.splits)

lemma request_change_flows: "adb_flows (snd (request_email_change env in_demo ml ids k actor e tenant db)) = adb_flows db"
  by (auto simp: request_email_change_def lift_result_def action_audit_def dest!: issue_flows
      split: sum.splits prod.splits)

lemma links_op_issued:
  assumes "db' = db \<or> issued env ids p db db'" and "p \<noteq> EmailChangeVerify"
    and "ai_id ids \<notin> aa_id ` set (adb_actions db)" and "adb_flows db' = adb_flows db"
  shows "links_op {ae_digest env (ai_token ids)} db db'"
  using assms(1)
proof
  assume i: "issued env ids p db db'"
  then have "adb_sessions db' = adb_sessions db" by (simp add: issued_def)
  with issued_links [OF i assms(2,3)] assms(4) show ?thesis
    by (simp add: links_op_def auth_effect_def rows_from_grow ses.same flw.same)
qed (simp add: links_op_same)

lemma links_op_reset_request:
  "ai_id ids \<notin> aa_id ` set (adb_actions db) \<Longrightarrow>
   links_op {ae_digest env (ai_token ids)} db (snd (request_password_reset env in_demo ml ids k actor tenant db))"
  by (rule links_op_issued [OF request_reset_effect [OF prod.collapse [symmetric]] _ _ request_reset_flows]) simp_all

lemma links_op_change_request:
  "ai_id ids \<notin> aa_id ` set (adb_actions db) \<Longrightarrow>
   links_op {ae_digest env (ai_token ids)} db (snd (request_email_change env in_demo ml ids k actor e tenant db))"
  by (rule links_op_issued [OF request_change_effect [OF prod.collapse [symmetric]] _ _ request_change_flows]) simp_all

lemma links_op_public:
  assumes "ai_id ids \<notin> aa_id ` set (adb_actions db)"
  shows "links_op {ae_digest env (ai_token ids)} db (public_password_reset env ml ids email db)"
proof (cases "user_id_by_email email db")
  case (Some k)
  obtain r db1 where q: "request_password_reset env False ml ids k None None db = (r, db1)" by fastforce
  with links_op_reset_request [OF assms, of env False ml k None None]
  have "links_op {ae_digest env (ai_token ids)} db db1" by simp
  moreover have "links_op {ae_digest env (ai_token ids)} db (auth_audit_event e x y z db)" for e x y z
    by (rule links_op_tables, rule tbl.same) simp_all
  ultimately show ?thesis by (simp add: public_password_reset_def Some q split: sum.split)
qed (simp add: public_password_reset_def links_op_same)

lemma lift_snd_cases:
  obtains "snd (lift_result db m) = db" | x d where "lift_result db m = (Inr x, d)"
  by (cases m) (auto simp: lift_result_def)

lemma tables_safe_finished:
  assumes "a \<in> set (adb_actions db)"
  shows "tables_safe db (action_audit ev a b (finish_action env a v (put_user u db)))"
proof -
  let ?d = "put_user u db"
  have "links_safe (adb_actions db) (adb_actions (finish_action env a v ?d))"
    using finish_links_safe [of a ?d env v] assms by simp
  moreover have "adb_flows (finish_action env a v ?d) = adb_flows db"
    by (simp add: finish_action_def Let_def revoke_sessions_def revoke_actions_def clear_login_lock_def)
  ultimately show ?thesis
    by (simp add: tables_safe_def action_audit_def evolve_ended flw.same)
qed

lemma valid_action_row: "valid_action env token p db = Inr (a, u) \<Longrightarrow> a \<in> set (adb_actions db)"
  using valid_action_Inr(1) action_by_hash_mem by blast

lemma tables_safe_reset: "tables_safe db (snd (reset_password env token password db))"
proof (cases "reset_password env token password db")
  case (Pair r db')
  show ?thesis
  proof (cases r)
    case (Inl e)
    with Pair show ?thesis by (auto simp: reset_password_def lift_result_def tbl.kept split: sum.splits)
  next
    case (Inr e)
    with Pair show ?thesis by (auto elim!: reset_password_Inr intro: tables_safe_finished valid_action_row)
  qed
qed

lemma tables_safe_confirm: "tables_safe db (snd (confirm_email_change env token db))"
proof (cases "confirm_email_change env token db")
  case (Pair r db')
  show ?thesis
  proof (cases r)
    case (Inl e)
    with Pair show ?thesis by (auto simp: confirm_email_change_def lift_result_def tbl.kept split: sum.splits)
  next
    case (Inr e)
    with Pair show ?thesis by (auto elim!: confirm_email_change_Inr intro: tables_safe_finished valid_action_row)
  qed
qed

lemma tables_safe_initial: "tables_safe db (snd (complete_initial_password env k current password db))"
proof (cases "complete_initial_password env k current password db")
  case (Pair r db')
  show ?thesis
  proof (cases r)
    case (Inl e)
    with Pair show ?thesis by (auto simp: complete_initial_password_def lift_result_def tbl.kept split: sum.splits)
  next
    case (Inr x)
    from Pair [unfolded this] obtain u where "db' = auth_audit_event ''account.initial_password.completed'' (Some k) (Some k) ''''
                (clear_login_lock (au_email u) (revoke_actions k (ae_now env)
                   (revoke_sessions k (ae_now env) (put_user (with_password env password u) db))))"
      by (rule complete_initial_password_Inr)
    then have "adb_sessions db' = ended_sessions k (ae_now env) (adb_sessions db)"
      "adb_actions db' = ended_links k (ae_now env) (adb_actions db)" "adb_flows db' = adb_flows db"
      by (simp_all add: clear_login_lock_def revoke_actions_def revoke_sessions_def ended_sessions_def ended_links_def)
    with Pair show ?thesis by (simp add: tables_safe_def evolve_ended links_safe_ended flw.same)
  qed
qed

lemma links_op_approve:
  assumes "ai_id ids \<notin> aa_id ` set (adb_actions db)"
  shows "links_op {ae_digest env (ai_token ids)} db (snd (approve_email_change env ml ids token db))"
proof (cases "approve_email_change env ml ids token db")
  case (Pair r db')
  show ?thesis
  proof (cases r)
    case (Inl e)
    with Pair show ?thesis by (auto simp: approve_email_change_def lift_result_def links_op_same split: sum.splits)
  next
    case (Inr x)
    from Pair [unfolded this] show ?thesis
    proof (rule approve_email_change_Inr)
      fix a u new_email v db1
      assume valid: "valid_action env token (Some EmailChangeApprove) db = Inr (a, u)" and new: "aa_new_email a = Some new_email"
        and i: "issue_action env ml ids u EmailChangeVerify (aa_requested_by_id a) (aa_tenant_id a) (Some new_email) db = Inr (v, db1)"
        and db': "db' = action_audit ''email_change.approved'' a False (put_action (a\<lparr>aa_consumed_at := Some (ae_now env)\<rparr>) db1)"
      have a: "a \<in> set (adb_actions db)" using valid by (rule valid_action_row)
      have links: "adb_actions db' = tput aa_id (a\<lparr>aa_consumed_at := Some (ae_now env)\<rparr>) (adb_actions db @ [v])"
        using issue_Inr(1) [OF i] by (simp add: db' action_audit_def)
      have same: "adb_sessions db' = adb_sessions db" "adb_flows db' = adb_flows db"
        using issue_Inr(2) [OF i] issue_flows [OF i] by (simp_all add: db' action_audit_def)
      have other: "aa_id v \<noteq> aa_id a" using assms a issue_Inr(10) [OF i] by force
      then have grown: "adb_actions db' = tput aa_id (a\<lparr>aa_consumed_at := Some (ae_now env)\<rparr>) (adb_actions db) @ [v]"
        by (simp add: links tput_def)
      have "rows_grow link_evolves (\<lambda>l. aa_token_hash l \<in> {ae_digest env (ai_token ids)}) (adb_actions db) (adb_actions db')"
        unfolding grown by (rule rows_grow_append) (rule lnk.put [OF a link_consumed], simp add: issue_Inr(9) [OF i])
      then have "auth_effect {} {ae_digest env (ai_token ids)} {} db db'"
        by (simp add: auth_effect_def same rows_from_grow ses.same flw.same)
      moreover have "links_step (adb_actions db) (adb_actions db')"
        unfolding links_step_def links
        using a assms issue_Inr [OF i] valid_action_Inr [OF valid] new by (intro disjI2) force
      ultimately show ?thesis by (simp add: links_op_def Pair)
    qed
  qed
qed


lemma context_flow: "flow_context env token db = Inr (f, u) \<Longrightarrow> f \<in> set (adb_flows db)"
  by (elim context_Inr) (auto dest: flow_by_hash_mem)

lemma reserve_tables: "tables_safe db (snd (reserve_upload env d r up key n e db))"
  by (auto simp: reserve_upload_def put_upload_def Let_def intro!: tbl.same split: option.split)

lemmas flow_operations = safe_begin_totp safe_verify_code safe_passkey_options safe_verify_passkey safe_flow_finish

lemma auth_op_effect: "auth_op S L F db db' \<Longrightarrow> auth_effect S L F db db'"
proof (induction rule: auth_op.induct)
  case (demo_ended env ok d db reason)
  show ?case by (intro effect_tables_safe tbl.chain [OF tbl.demo_revoked tbl.cleaned])
next
  case (reset_requested ids db env in_demo ml k actor tenant)
  then show ?case using links_op_reset_request by (simp add: links_op_def)
next
  case (reset_public ids db env ml email)
  then show ?case using links_op_public by (simp add: links_op_def)
next
  case (change_requested ids db env in_demo ml k actor_id new_email tenant)
  then show ?case using links_op_change_request by (simp add: links_op_def)
next
  case (change_approved ids db env ml token)
  then show ?case using links_op_approve by (simp add: links_op_def)
qed (simp_all add: effect_login effect_demo_start effect_tables_safe effect_logout tbl.authenticated tbl.revoked_user
    tbl.swept reserve_tables tables_safe_reset tables_safe_confirm tables_safe_initial
    effect_mfa_none effect_mfa_session effect_mfa_flow flow_operations context_flow safe_remove safe_rename
    safe_regenerate safe_begin_management safe_approve_recovery safe_recover)

lemma mfa_links: "mfa_safe sid h db db' \<Longrightarrow> links_step (adb_actions db) (adb_actions db')"
  by (simp add: mfa_safe_def links_step_def)

lemma links_step_tables: "tables_safe db db' \<Longrightarrow> links_step (adb_actions db) (adb_actions db')"
  by (simp add: tables_safe_def links_step_def)

lemma links_step_login: "links_step (adb_actions db) (adb_actions (snd (login_user env sid token email password db)))"
proof -
  obtain r db1 where a: "authenticate_user env email password db = (r, db1)" by fastforce
  then have "sans_throttle db1 = sans_throttle db"
    using authenticate_throttle_only [of env email password db] by simp
  note t = sans_throttle_tables(3) [OF this]
  have f: "adb_actions (snd (mfa_login env token k db1)) = adb_actions db" for k
    using safe_login [of "''''" env token db1 k] by (simp add: mfa_safe_def t)
  then have "adb_actions d = adb_actions db" if "mfa_login env token k db1 = (x, d)" for k x d
    using that by (metis snd_conv)
  then have "adb_actions (snd (login_user env sid token email password db)) = adb_actions db"
    by (auto simp: login_user_def a t case_prod_unfold Let_def split: sum.split)
       (simp_all add: f)
  then show ?thesis by (simp add: links_step_def)
qed

lemma links_step_demo_start: "links_step (adb_actions db) (adb_actions (snd (demo_start env ip ok ids db)))"
proof -
  obtain allowed db1 where c: "consume_start (ae_hmac env ip) (ae_now env) db = (allowed, db1)" by fastforce
  have t: "adb_actions db1 = adb_actions db"
    using c by (auto simp: consume_start_def Let_def split: option.splits if_splits)
  have "links_step (adb_actions db) (adb_actions (snd (cleanup_each env ok ks db1)))" for ks
    using links_step_tables [OF tbl.cleaned_each, of db1 env ok ks] t by simp
  then show ?thesis
    by (simp add: demo_start_def c Let_def t) (simp add: links_step_def)
qed

lemma auth_op_links: "auth_op S L F db db' \<Longrightarrow> links_step (adb_actions db) (adb_actions db')"
proof (induction rule: auth_op.induct)
  case (demo_ended env ok d db reason)
  show ?case by (intro links_step_tables tbl.chain [OF tbl.demo_revoked tbl.cleaned])
next
  case (reset_requested ids db env in_demo ml k actor tenant)
  then show ?case using links_op_reset_request by (simp add: links_op_def)
next
  case (reset_public ids db env ml email)
  then show ?case using links_op_public by (simp add: links_op_def)
next
  case (change_requested ids db env in_demo ml k actor_id new_email tenant)
  then show ?case using links_op_change_request by (simp add: links_op_def)
next
  case (change_approved ids db env ml token)
  then show ?case using links_op_approve by (simp add: links_op_def)
qed (auto simp: links_step_login links_step_demo_start
    intro: links_step_tables effect_logout tbl.authenticated tbl.revoked_user tbl.swept reserve_tables tables_safe_reset
      tables_safe_confirm tables_safe_initial
      mfa_links [OF safe_begin_totp] mfa_links [OF safe_verify_code] mfa_links [OF safe_passkey_options]
      mfa_links [OF safe_verify_passkey] mfa_links [OF safe_flow_finish] mfa_links [OF safe_remove]
      mfa_links [OF safe_rename] mfa_links [OF safe_regenerate] mfa_links [OF safe_begin_management]
      mfa_links [OF safe_approve_recovery] mfa_links [OF safe_recover] context_flow)


subsection \<open>Histories\<close>

text \<open>The database with the session ids, link hashes and flow hashes drawn so far.\<close>

record auth_state =
  as_db :: auth_db
  as_sessions :: "string set"
  as_links :: "string set"
  as_flows :: "string set"

inductive auth_step :: "auth_state \<Rightarrow> auth_state \<Rightarrow> bool" where
  "auth_op S L F (as_db st) db' \<Longrightarrow> S \<inter> as_sessions st = {} \<Longrightarrow> L \<inter> as_links st = {} \<Longrightarrow> F \<inter> as_flows st = {} \<Longrightarrow>
   auth_step st \<lparr>as_db = db', as_sessions = as_sessions st \<union> S, as_links = as_links st \<union> L, as_flows = as_flows st \<union> F\<rparr>"

inductive_cases auth_stepE: "auth_step st st'"

lemma auth_step_effect:
  assumes "auth_step st st'"
  obtains S L F where "auth_effect S L F (as_db st) (as_db st')" "links_step (adb_actions (as_db st)) (adb_actions (as_db st'))"
    "S \<inter> as_sessions st = {}" "L \<inter> as_links st = {}" "F \<inter> as_flows st = {}"
    "as_sessions st' = as_sessions st \<union> S" "as_links st' = as_links st \<union> L" "as_flows st' = as_flows st \<union> F"
  using assms by (elim auth_stepE) (auto dest: auth_op_effect auth_op_links)

interpretation sessions: one_shot auth_step "\<lambda>st. adb_sessions (as_db st)" us_id "\<lambda>s. us_revoked_at s \<noteq> None" as_sessions
proof (unfold_locales, goal_cases)
  case (1 s s' r')
  then show ?case
    by (elim auth_step_effect) (unfold auth_effect_def rows_grow_def row_evolves_def, metis disjoint_iff)
next
  case (2 s s')
  then show ?case by (elim auth_step_effect) blast
qed

interpretation links: one_shot auth_step "\<lambda>st. adb_actions (as_db st)" aa_token_hash
    "\<lambda>a. aa_consumed_at a \<noteq> None \<or> aa_revoked_at a \<noteq> None" as_links
proof (unfold_locales, goal_cases)
  case (1 s s' r')
  then show ?case
    by (elim auth_step_effect) (unfold auth_effect_def rows_grow_def link_evolves_def, metis disjoint_iff)
next
  case (2 s s')
  then show ?case by (elim auth_step_effect) blast
qed

interpretation flows: one_shot auth_step "\<lambda>st. adb_flows (as_db st)" fl_token_hash "\<lambda>f. fl_consumed_at f \<noteq> None" as_flows
proof (unfold_locales, goal_cases)
  case (1 s s' r')
  then show ?case
    by (elim auth_step_effect) (unfold auth_effect_def rows_grow_def flow_evolves_def, metis disjoint_iff)
next
  case (2 s s')
  then show ?case by (elim auth_step_effect) blast
qed

text \<open>
  C21: What ended stays ended. Whatever operations follow, in any order and at any time: a session that was revoked
  authenticates no request, a link that was used or revoked is refused, and a flow that was completed opens
  nothing. This rests on the identifiers being fresh, which the state records.
\<close>

theorem ended_credentials_stay_ended:
  assumes "auth_step\<^sup>*\<^sup>* st st'"
  shows "(sid \<in> as_sessions st \<and> (\<forall>s \<in> set (adb_sessions (as_db st)). us_id s = sid \<longrightarrow> us_revoked_at s \<noteq> None) \<longrightarrow>
            (\<forall>ctx cookie db'. get_authenticated_user env decode allow ok rq (as_db st') = (Inr (ctx, cookie), db') \<longrightarrow>
               us_id (ac_session ctx) \<noteq> sid)) \<and>
         (h \<in> as_links st \<and> (\<forall>a \<in> set (adb_actions (as_db st)). aa_token_hash a = h \<longrightarrow>
              aa_consumed_at a \<noteq> None \<or> aa_revoked_at a \<noteq> None) \<longrightarrow>
            (\<forall>token purpose. ae_digest env token = h \<longrightarrow> isl (valid_action env token purpose (as_db st')))) \<and>
         (g \<in> as_flows st \<and> (\<forall>f \<in> set (adb_flows (as_db st)). fl_token_hash f = g \<longrightarrow> fl_consumed_at f \<noteq> None) \<longrightarrow>
            (\<forall>token. ae_digest env token = g \<longrightarrow> flow_context env (Some token) (as_db st') = Inl (raise_cls MfaInvalidError)))"
proof (intro conjI impI allI)
  fix ctx cookie db'
  assume s: "sid \<in> as_sessions st \<and> (\<forall>s \<in> set (adb_sessions (as_db st)). us_id s = sid \<longrightarrow> us_revoked_at s \<noteq> None)"
    and run: "get_authenticated_user env decode allow ok rq (as_db st') = (Inr (ctx, cookie), db')"
  have "\<forall>x \<in> set (adb_sessions (as_db st')). us_id x = sid \<longrightarrow> us_revoked_at x \<noteq> None"
    using sessions.dead_for_ever [OF assms] s by blast
  with run show "us_id (ac_session ctx) \<noteq> sid" by (auto elim!: authenticated_run dest!: validate_Inr)
next
  fix token purpose
  assume l: "h \<in> as_links st \<and> (\<forall>a \<in> set (adb_actions (as_db st)). aa_token_hash a = h \<longrightarrow>
      aa_consumed_at a \<noteq> None \<or> aa_revoked_at a \<noteq> None)" and h: "ae_digest env token = h"
  have dead: "\<forall>a \<in> set (adb_actions (as_db st')). aa_token_hash a = h \<longrightarrow> aa_consumed_at a \<noteq> None \<or> aa_revoked_at a \<noteq> None"
    using links.dead_for_ever [OF assms] l by blast
  show "isl (valid_action env token purpose (as_db st'))"
  proof (cases "valid_action env token purpose (as_db st')")
    case (Inr p)
    obtain a u where p: "p = (a, u)" by fastforce
    from dead valid_action_Inr(1,4,5) [OF Inr [unfolded p]] h show ?thesis by (auto dest!: action_by_hash_mem)
  qed simp
next
  fix token
  assume f: "g \<in> as_flows st \<and> (\<forall>f \<in> set (adb_flows (as_db st)). fl_token_hash f = g \<longrightarrow> fl_consumed_at f \<noteq> None)"
    and g: "ae_digest env token = g"
  have "\<forall>f \<in> set (adb_flows (as_db st')). fl_token_hash f = g \<longrightarrow> fl_consumed_at f \<noteq> None"
    using flows.dead_for_ever [OF assms] f by blast
  with g show "flow_context env (Some token) (as_db st') = Inl (raise_cls MfaInvalidError)"
    by (intro context_dead) (auto dest!: flow_by_hash_mem)
qed

subsection \<open>Invariants\<close>

text \<open>Every confirmation link of a new address stands on a consumed approval link for the same change.\<close>

definition links_backed :: "account_action list \<Rightarrow> bool" where
  "links_backed t \<longleftrightarrow> (\<forall>v \<in> set t. aa_purpose v = EmailChangeVerify \<longrightarrow>
     (\<exists>a \<in> set t. aa_purpose a = EmailChangeApprove \<and> aa_consumed_at a \<noteq> None \<and> aa_user_id a = aa_user_id v \<and>
        aa_new_email a = aa_new_email v \<and> aa_tenant_id a = aa_tenant_id v))"

lemma links_backed_safe:
  assumes "links_safe t t'" and "distinct (map aa_id t)" and "links_backed t"
  shows "links_backed t'"
  unfolding links_backed_def
proof (intro ballI impI)
  fix v' assume v': "v' \<in> set t'" "aa_purpose v' = EmailChangeVerify"
  with assms(1) obtain v where v: "v \<in> set t" "link_evolves v v'" by (auto simp: links_safe_def rows_from_def)
  then have same: "aa_purpose v = EmailChangeVerify" "aa_user_id v' = aa_user_id v" "aa_new_email v' = aa_new_email v"
    "aa_tenant_id v' = aa_tenant_id v"
    using v'(2) by (simp_all add: link_evolves_def)
  with assms(3) v(1) obtain a where a: "a \<in> set t" "aa_purpose a = EmailChangeApprove" "aa_consumed_at a \<noteq> None"
    "aa_user_id a = aa_user_id v" "aa_new_email a = aa_new_email v" "aa_tenant_id a = aa_tenant_id v"
    by (auto simp: links_backed_def)
  with assms(1,2) v'(1) same obtain a' where a': "a' \<in> set t'" "link_evolves a a'"
    unfolding links_safe_def by metis
  then show "\<exists>a \<in> set t'. aa_purpose a = EmailChangeApprove \<and> aa_consumed_at a \<noteq> None \<and> aa_user_id a = aa_user_id v' \<and>
        aa_new_email a = aa_new_email v' \<and> aa_tenant_id a = aa_tenant_id v'"
    using a same by (intro bexI [of _ a']) (auto simp: link_evolves_def)
qed

lemma links_backed_step:
  assumes "links_step t t'" and "distinct (map aa_id t)" and "links_backed t"
  shows "distinct (map aa_id t') \<and> links_backed t'"
  using assms(1) unfolding links_step_def
proof (elim disjE exE conjE)
  assume "links_safe t t'"
  with links_backed_safe assms(2,3) show ?thesis by (auto simp: links_safe_def)
next
  fix a assume "aa_purpose a \<noteq> EmailChangeVerify" "aa_id a \<notin> aa_id ` set t" "t' = t @ [a]"
  with assms(2,3) show ?thesis by (auto simp: links_backed_def)
next
  fix a v now
  assume a: "a \<in> set t" "aa_purpose a = EmailChangeApprove" and v: "aa_id v \<notin> aa_id ` set t"
    and same: "aa_user_id v = aa_user_id a" "aa_new_email v = aa_new_email a" "aa_tenant_id v = aa_tenant_id a"
    and t': "t' = tput aa_id (a\<lparr>aa_consumed_at := Some now\<rparr>) (t @ [v])"
  let ?a = "a\<lparr>aa_consumed_at := Some now\<rparr>"
  have "aa_id v \<noteq> aa_id a" using a v by force
  then have t'2: "t' = tput aa_id ?a t @ [v]" by (simp add: t' tput_def)
  have b: "links_backed (tput aa_id ?a t)"
    by (rule links_backed_safe [OF links_safe_put [OF a(1) link_consumed] assms(2,3)])
  have "?a \<in> set (tput aa_id ?a t)" using a(1) by (force simp: tput_def)
  then have "\<exists>x \<in> set t'. aa_purpose x = EmailChangeApprove \<and> aa_consumed_at x \<noteq> None \<and> aa_user_id x = aa_user_id v \<and>
        aa_new_email x = aa_new_email v \<and> aa_tenant_id x = aa_tenant_id v"
    using same a(2) by (intro bexI [of _ ?a]) (simp_all add: t'2)
  with b have "links_backed t'"
    unfolding links_backed_def t'2 by auto
  moreover have "distinct (map aa_id t')" using v assms(2) by (simp add: t'2)
  ultimately show ?thesis by simp
qed

text \<open>
  The well-formed states: a session never expires after its absolute limit, link ids are unique, every
  key in the tables is recorded as drawn, and every confirmation link is backed by an approval.
\<close>

definition auth_wf :: "auth_state \<Rightarrow> bool" where
  "auth_wf st \<longleftrightarrow>
     (\<forall>s \<in> set (adb_sessions (as_db st)). us_expires_at s \<le> us_absolute_expires_at s \<and> us_id s \<in> as_sessions st) \<and>
     distinct (map aa_id (adb_actions (as_db st))) \<and> links_backed (adb_actions (as_db st)) \<and>
     (\<forall>a \<in> set (adb_actions (as_db st)). aa_token_hash a \<in> as_links st) \<and>
     (\<forall>f \<in> set (adb_flows (as_db st)). fl_token_hash f \<in> as_flows st)"

lemma auth_wf_step:
  assumes "auth_step st st'" and "auth_wf st"
  shows "auth_wf st'"
  using assms(1)
proof (rule auth_step_effect)
  fix S L F
  assume e: "auth_effect S L F (as_db st) (as_db st')" and l: "links_step (adb_actions (as_db st)) (adb_actions (as_db st'))"
    and k: "as_sessions st' = as_sessions st \<union> S" "as_links st' = as_links st \<union> L" "as_flows st' = as_flows st \<union> F"
  have "\<forall>s \<in> set (adb_sessions (as_db st')). us_expires_at s \<le> us_absolute_expires_at s \<and> us_id s \<in> as_sessions st'"
    using e assms(2) unfolding auth_effect_def rows_grow_def auth_wf_def row_evolves_def k by (metis UnCI)
  moreover have "\<forall>a \<in> set (adb_actions (as_db st')). aa_token_hash a \<in> as_links st'"
    using e assms(2) unfolding auth_effect_def rows_grow_def auth_wf_def link_evolves_def k by (metis UnCI)
  moreover have "\<forall>f \<in> set (adb_flows (as_db st')). fl_token_hash f \<in> as_flows st'"
    using e assms(2) unfolding auth_effect_def rows_grow_def auth_wf_def flow_evolves_def k by (metis UnCI)
  ultimately show ?thesis
    using links_backed_step [OF l] assms(2) by (simp add: auth_wf_def)
qed

text \<open>
  C37: Every operation preserves the well-formedness of the authentication state, so it holds after any history
  that starts in a well-formed one.
\<close>

theorem auth_state_well_formed:
  assumes "auth_step\<^sup>*\<^sup>* st st'" and "auth_wf st"
  shows "auth_wf st'"
  using assms by (induction rule: rtranclp_induct) (auto intro: auth_wf_step)



subsection \<open>Evaluated instances\<close>

text \<open>A user with a session has just completed the flow of a second login, and logs in once more.\<close>

definition sample_state :: auth_state where
  "sample_state = \<lparr>as_db = snd (verify_code sample_env sample_mfa_env sample_fresh sample_flow sample_user ''123456'' False sample_mfa_db),
     as_sessions = {''s0'', ''s1''}, as_links = {}, as_flows = {''d:t''}\<rparr>"

definition sample_next :: auth_state where
  "sample_next = \<lparr>as_db = snd (login_user sample_env ''s2'' ''u'' ''a@b'' ''pw'' (as_db sample_state)),
     as_sessions = as_sessions sample_state \<union> {''s2''}, as_links = as_links sample_state \<union> {},
     as_flows = as_flows sample_state \<union> {ae_digest sample_env ''u''}\<rparr>"

lemma sample_auth_step: "auth_step\<^sup>*\<^sup>* sample_state sample_next"
proof -
  have "auth_step sample_state sample_next"
    unfolding sample_next_def
    by (rule auth_step.intros [OF auth_op.login]) (simp_all add: sample_state_def sample_env_def)
  then show ?thesis by blast
qed

lemma sample_flow_ended:
  "list_all (\<lambda>f. fl_token_hash f = ''d:t'' \<longrightarrow> fl_consumed_at f \<noteq> None) (adb_flows (as_db sample_state))"
  "list_all (\<lambda>s. us_expires_at s \<le> us_absolute_expires_at s \<and> us_id s \<in> {''s0'', ''s1''}) (adb_sessions (as_db sample_state))"
  "adb_actions (as_db sample_state) = []"
  "list_all (\<lambda>f. fl_token_hash f = ''d:t'') (adb_flows (as_db sample_state))"
  by code_simp+

lemma ended_credentials_stay_ended_witness:
  "flow_context sample_env (Some ''t'') (as_db sample_next) = Inl (raise_cls MfaInvalidError)"
proof -
  have ended: "''d:t'' \<in> as_flows sample_state \<and>
      (\<forall>f \<in> set (adb_flows (as_db sample_state)). fl_token_hash f = ''d:t'' \<longrightarrow> fl_consumed_at f \<noteq> None)"
    using sample_flow_ended(1) by (simp add: list_all_iff sample_state_def)
  have "ae_digest sample_env ''t'' = ''d:t''" by (simp add: sample_env_def)
  with ended ended_credentials_stay_ended [OF sample_auth_step, where env = sample_env and g = "''d:t''"]
  show ?thesis by blast
qed

lemma sample_wf: "auth_wf sample_state"
  using sample_flow_ended by (auto simp: auth_wf_def list_all_iff links_backed_def sample_state_def)

lemma auth_state_well_formed_witness: "auth_wf sample_next"
  by (rule auth_state_well_formed [OF sample_auth_step sample_wf])

text \<open>A user asks for a new address, approves it from the old one and confirms it from the new one.\<close>

definition sample_change_db :: auth_db where
  "sample_change_db = snd (approve_email_change sample_env sample_mail \<lparr>ai_id = ''l2'', ai_token = ''t2''\<rparr> ''t1''
     (snd (request_email_change sample_env False sample_mail \<lparr>ai_id = ''l1'', ai_token = ''t1''\<rparr> 7 7 ''new@b'' None sample_auth_db)))"

definition sample_start :: auth_state where
  "sample_start = \<lparr>as_db = sample_auth_db, as_sessions = {}, as_links = {}, as_flows = {}\<rparr>"

definition sample_changed :: auth_state where
  "sample_changed = \<lparr>as_db = sample_change_db, as_sessions = {}, as_links = {''d:t1'', ''d:t2''}, as_flows = {}\<rparr>"

lemma sample_change_steps: "auth_step\<^sup>*\<^sup>* sample_start sample_changed"
proof -
  let ?db1 = "snd (request_email_change sample_env False sample_mail \<lparr>ai_id = ''l1'', ai_token = ''t1''\<rparr> 7 7 ''new@b'' None sample_auth_db)"
  let ?mid = "\<lparr>as_db = ?db1, as_sessions = {} \<union> {}, as_links = {} \<union> {''d:t1''}, as_flows = {} \<union> {}\<rparr> :: auth_state"
  have ids: "map aa_id (adb_actions ?db1) = [''l1'']" by code_simp
  have 1: "auth_step sample_start ?mid"
    using auth_step.intros [OF auth_op.change_requested [of "\<lparr>ai_id = ''l1'', ai_token = ''t1''\<rparr>" "as_db sample_start"
      sample_env False sample_mail 7 7 "''new@b''" None]]
    by (simp add: sample_start_def sample_auth_db_def sample_env_def)
  have "''l2'' \<notin> aa_id ` set (adb_actions ?db1)" by (simp only: set_map [symmetric] ids) simp
  then have 2: "auth_step ?mid sample_changed"
    using auth_step.intros [OF auth_op.change_approved [of "\<lparr>ai_id = ''l2'', ai_token = ''t2''\<rparr>" "as_db ?mid"
      sample_env sample_mail "''t1''"]]
    by (simp add: sample_changed_def sample_change_db_def sample_env_def insert_commute)
  from 1 2 show ?thesis by auto
qed


lemma password_alone_is_not_enough_witness:
  "adb_sessions (snd (login_user sample_env ''s2'' ''u'' ''a@b'' ''pw'' sample_mfa_db)) = adb_sessions sample_mfa_db"
proof -
  let ?r = "login_user sample_env ''s2'' ''u'' ''a@b'' ''pw'' sample_mfa_db"
  have ok: "\<not> isl (fst ?r)" and flow: "isl (projr (fst ?r))" by code_simp+
  have "ae_mfa_required sample_env" by (simp add: sample_env_def)
  from password_alone_is_not_enough [OF this pair_run [OF ok]] flow show ?thesis by auto
qed

end
