(* ===== verification/Mail_Delivery.thy ===== *)
theory Mail_Delivery imports Errors begin

text \<open>
  The delivery ledger of approval mails (\<^verbatim>\<open>app/services/notification_email_delivery.py\<close> on the tables of
  \<^verbatim>\<open>app/models/notification_email.py\<close>): one row per notification, claimed by a worker under a
  lease, marked as started before the mail leaves, and finished with the outcome.

  The clock, fresh tokens, the qualification of the recipient (notification, preference, rendered
  content) and the answer of the transport are arguments. A transaction either commits or
  leaves the ledger as it was.
\<close>

datatype mail_state = Pending | Leased | Sending | RetryWait | Accepted | Unknown | Failed | Suppressed

datatype outcome_kind = OAccepted | OTemporary | OFailed | OUnknown | OSuppressed

record mail_outcome =
  mo_outcome :: outcome_kind
  mo_code :: string
  mo_message_id :: "string option"

record delivery =
  dl_id :: int
  dl_notification :: int
  dl_preference_version :: int
  dl_email_digest :: string
  dl_template_version :: int
  dl_content_digest :: string
  dl_state :: mail_state
  dl_version :: int
  dl_attempt_count :: int
  dl_claim_token :: "string option"
  dl_lease_until :: "time option"
  dl_next_attempt_at :: time
  dl_expires_at :: time

datatype attempt_kind = Started | Completed | Resolution

record mail_attempt =
  ma_delivery :: int
  ma_attempt :: "string option"
  ma_kind :: attempt_kind
  ma_outcome :: string
  ma_code :: string
  ma_message_id :: "string option"
  ma_reason :: string
  ma_operator :: string

record mail_db =
  md_deliveries :: "delivery list"
  md_attempts :: "mail_attempt list"

abbreviation put_delivery :: "delivery \<Rightarrow> mail_db \<Rightarrow> mail_db" where
  "put_delivery r db \<equiv> db\<lparr>md_deliveries := tput dl_id r (md_deliveries db)\<rparr>"

abbreviation delivery_by_id :: "int \<Rightarrow> mail_db \<Rightarrow> delivery option" where
  "delivery_by_id k db \<equiv> tget dl_id k (md_deliveries db)"

subsection \<open>Enqueueing\<close>

text \<open>
  What \<open>eligible_notification\<close> and \<open>render_email\<close> answer: the creation time of the notification, the
  version and address digest of the preference, and the digest of the content.
\<close>

record eligible =
  el_created_at :: time
  el_preference_version :: int
  el_email_digest :: "string option"
  el_content_digest :: string

definition enqueue_mail :: "bool \<Rightarrow> int \<Rightarrow> int \<Rightarrow> eligible option \<Rightarrow> time \<Rightarrow> mail_db \<Rightarrow> mail_db" where
  "enqueue_mail available identity notification_id value now db =
     (case value of
        None \<Rightarrow> db
      | Some v \<Rightarrow>
          (case el_email_digest v of
             None \<Rightarrow> db
           | Some digest \<Rightarrow>
               if \<not> available \<or> notification_id \<in> dl_notification ` set (md_deliveries db) then db
               else db\<lparr>md_deliveries := md_deliveries db @
                 [\<lparr>dl_id = identity, dl_notification = notification_id, dl_preference_version = el_preference_version v,
                   dl_email_digest = digest, dl_template_version = 1, dl_content_digest = el_content_digest v,
                   dl_state = Pending, dl_version = 1, dl_attempt_count = 0, dl_claim_token = None,
                   dl_lease_until = None, dl_next_attempt_at = now,
                   dl_expires_at = el_created_at v + 24 * 3600\<rparr>]\<rparr>))"

subsection \<open>The ledger of attempts\<close>

text \<open>\<open>record\<close>: appended, unless there is one of this kind for the attempt.\<close>

definition mail_record ::
  "delivery \<Rightarrow> attempt_kind \<Rightarrow> string \<Rightarrow> string \<Rightarrow> string option \<Rightarrow> string \<Rightarrow> string \<Rightarrow> mail_db \<Rightarrow> mail_db" where
  "mail_record row kind outcome code message_id reason operator db =
     (if \<exists>a \<in> set (md_attempts db). ma_attempt a = dl_claim_token row \<and> ma_kind a = kind then db
      else db\<lparr>md_attempts := md_attempts db @
        [\<lparr>ma_delivery = dl_id row, ma_attempt = dl_claim_token row, ma_kind = kind, ma_outcome = outcome,
          ma_code = code, ma_message_id = message_id, ma_reason = reason, ma_operator = operator\<rparr>]\<rparr>)"

subsection \<open>Claiming\<close>

definition lease_expired :: "time \<Rightarrow> delivery \<Rightarrow> bool" where
  "lease_expired now r \<longleftrightarrow> dl_state r \<in> {Leased, Sending} \<and>
     (case dl_lease_until r of None \<Rightarrow> False | Some t \<Rightarrow> t \<le> now)"

definition recover_row :: "delivery \<Rightarrow> mail_db \<Rightarrow> mail_db" where
  "recover_row r db =
     (if dl_state r = Sending then
        (let r' = r\<lparr>dl_state := Unknown\<rparr> in
         put_delivery (r'\<lparr>dl_version := dl_version r + 1\<rparr>)
           (mail_record r' Completed ''unknown'' ''worker_interrupted'' None '''' ''worker'' db))
      else put_delivery (r\<lparr>dl_state := Pending, dl_claim_token := None, dl_lease_until := None,
                           dl_version := dl_version r + 1\<rparr>) db)"

definition due_mail :: "time \<Rightarrow> mail_db \<Rightarrow> delivery option" where
  "due_mail now db =
     (case sort_key dl_next_attempt_at (sort_key dl_id
             (filter (\<lambda>r. dl_state r \<in> {Pending, RetryWait} \<and> dl_next_attempt_at r \<le> now) (md_deliveries db))) of
        [] \<Rightarrow> None | r # _ \<Rightarrow> Some r)"

definition recover_and_claim :: "time \<Rightarrow> string \<Rightarrow> mail_db \<Rightarrow> delivery option \<times> mail_db" where
  "recover_and_claim now token db =
     (let expired = take 20 (sort_key dl_id (filter (lease_expired now) (md_deliveries db)));
          db1 = fold recover_row expired db
      in case due_mail now db1 of
           None \<Rightarrow> (None, db1)
         | Some r \<Rightarrow>
             (let r' = r\<lparr>dl_state := Leased, dl_claim_token := Some token, dl_lease_until := Some (now + 30),
                         dl_version := dl_version r + 1\<rparr>
              in (Some r', put_delivery r' db1)))"

subsection \<open>Finishing\<close>

text \<open>\<open>[60, 300, 1800][n - 1]\<close> with Python's negative indices; \<open>None\<close> is an \<open>IndexError\<close>.\<close>

definition retry_seconds :: "int \<Rightarrow> int option" where
  "retry_seconds n =
     (let i = n - 1 in
      if 0 \<le> i \<and> i < 3 then Some ([60, 300, 1800] ! nat i)
      else if - 3 \<le> i \<and> i < 0 then Some ([60, 300, 1800] ! nat (i + 3)) else None)"

fun outcome_state :: "outcome_kind \<Rightarrow> mail_state option" where
  "outcome_state OAccepted = Some Accepted"
| "outcome_state OFailed = Some Failed"
| "outcome_state OUnknown = Some Unknown"
| "outcome_state OSuppressed = Some Suppressed"
| "outcome_state OTemporary = None"

fun outcome_text :: "outcome_kind \<Rightarrow> string" where
  "outcome_text OAccepted = ''accepted''"
| "outcome_text OFailed = ''failed''"
| "outcome_text OUnknown = ''unknown''"
| "outcome_text OSuppressed = ''suppressed''"
| "outcome_text OTemporary = ''temporary''"

definition held :: "int \<Rightarrow> string option \<Rightarrow> mail_db \<Rightarrow> delivery option" where
  "held identity token db =
     find (\<lambda>r. dl_id r = identity \<and> dl_claim_token r = token \<and> dl_state r \<in> {Leased, Sending})
       (md_deliveries db)"

text \<open>\<open>None\<close>: an exception, with nothing written.\<close>

definition finish_mail :: "time \<Rightarrow> int \<Rightarrow> string option \<Rightarrow> mail_outcome \<Rightarrow> mail_db \<Rightarrow> mail_db option" where
  "finish_mail now identity token result db =
     (case held identity token db of
        None \<Rightarrow> Some db
      | Some row \<Rightarrow>
          (let row1 = (if dl_state row = Leased then row\<lparr>dl_attempt_count := dl_attempt_count row + 1\<rparr> else row);
               row2 = (case outcome_state (mo_outcome result) of
                         Some st \<Rightarrow> Some (row1\<lparr>dl_state := st\<rparr>)
                       | None \<Rightarrow>
                           if dl_expires_at row1 \<le> now then Some (row1\<lparr>dl_state := Suppressed\<rparr>)
                           else if dl_attempt_count row1 \<le> 3 then
                             map_option (\<lambda>s. row1\<lparr>dl_state := RetryWait, dl_next_attempt_at := now + s\<rparr>)
                               (retry_seconds (dl_attempt_count row1))
                           else Some (row1\<lparr>dl_state := Failed\<rparr>))
           in map_option (\<lambda>r. let r' = r\<lparr>dl_version := dl_version r + 1\<rparr> in
                mail_record r' Completed (outcome_text (mo_outcome result)) (mo_code result) (mo_message_id result)
                  '''' ''worker'' (put_delivery r' db)) row2))"

subsection \<open>Delivering\<close>

text \<open>
  What one delivery meets: the point where an exception is raised, if any (before the start
  record commits, in the transport, or in \<open>finish\<close>); whether the notification has a project; the
  current qualification; the clocks at the qualification, the start and the end; the answer of the
  transport.
\<close>

datatype fault = NoFault | FaultBefore | FaultSend | FaultFinish

record delivery_view =
  dv_fault :: fault
  dv_source :: bool
  dv_value :: "eligible option"
  dv_now :: time
  dv_start_now :: time
  dv_end_now :: time
  dv_result :: mail_outcome

definition mail_outcome_of :: "outcome_kind \<Rightarrow> string \<Rightarrow> mail_outcome" where
  "mail_outcome_of k code = \<lparr>mo_outcome = k, mo_code = code, mo_message_id = None\<rparr>"

text \<open>The control transaction: the claim is still held and its lease runs.\<close>

definition start_mail :: "time \<Rightarrow> delivery \<Rightarrow> mail_db \<Rightarrow> mail_db option" where
  "start_mail now claimed db =
     (case find (\<lambda>r. dl_id r = dl_id claimed \<and> dl_claim_token r = dl_claim_token claimed \<and> dl_state r = Leased \<and>
                     (case dl_lease_until r of None \<Rightarrow> False | Some t \<Rightarrow> now < t)) (md_deliveries db) of
        None \<Rightarrow> None
      | Some row \<Rightarrow>
          (let row' = row\<lparr>dl_state := Sending, dl_version := dl_version row + 1,
                          dl_attempt_count := dl_attempt_count row + 1\<rparr>
           in Some (mail_record row' Started '''' '''' None '''' ''worker'' (put_delivery row' db))))"

definition mail_failed :: "delivery_view \<Rightarrow> delivery \<Rightarrow> mail_db \<Rightarrow> mail_outcome option \<times> mail_db" where
  "mail_failed v claimed db =
     (let started = (case delivery_by_id (dl_id claimed) db of None \<Rightarrow> True | Some r \<Rightarrow> dl_state r \<noteq> Leased);
          result = mail_outcome_of (if started then OUnknown else OTemporary) ''worker_or_database_unavailable''
      in case finish_mail (dv_end_now v) (dl_id claimed) (dl_claim_token claimed) result db of
           None \<Rightarrow> (None, db)
         | Some db' \<Rightarrow> (Some result, db'))"

definition mail_finished :: "delivery_view \<Rightarrow> delivery \<Rightarrow> mail_outcome \<Rightarrow> mail_db \<Rightarrow> mail_outcome option \<times> mail_db" where
  "mail_finished v claimed result db =
     (if dv_fault v = FaultFinish then mail_failed v claimed db
      else case finish_mail (dv_end_now v) (dl_id claimed) (dl_claim_token claimed) result db of
             None \<Rightarrow> mail_failed v claimed db
           | Some db' \<Rightarrow> (Some result, db'))"

definition deliver_mail :: "delivery_view \<Rightarrow> delivery \<Rightarrow> mail_db \<Rightarrow> mail_outcome option \<times> mail_db" where
  "deliver_mail v claimed db =
     (if dv_fault v = FaultBefore then mail_failed v claimed db
      else if \<not> dv_source v then
        mail_finished v claimed (mail_outcome_of OSuppressed ''notification_unavailable'') db
      else case dv_value v of
             None \<Rightarrow> mail_finished v claimed (mail_outcome_of OSuppressed ''qualification_or_expiry'') db
           | Some q \<Rightarrow>
               if dl_expires_at claimed \<le> dv_now v then
                 mail_finished v claimed (mail_outcome_of OSuppressed ''qualification_or_expiry'') db
               else if el_preference_version q \<noteq> dl_preference_version claimed \<or>
                       el_email_digest q \<noteq> Some (dl_email_digest claimed) \<or> dl_template_version claimed \<noteq> 1 \<or>
                       el_content_digest q \<noteq> dl_content_digest claimed then
                 mail_finished v claimed (mail_outcome_of OSuppressed ''identity_or_content_changed'') db
               else
                 (case start_mail (dv_start_now v) claimed db of
                    None \<Rightarrow> (Some (mail_outcome_of OSuppressed ''claim_lost''), db)
                  | Some db1 \<Rightarrow>
                      if dv_fault v = FaultSend then mail_failed v claimed db1
                      else mail_finished v claimed (dv_result v) db1))"

text \<open>\<open>acquired\<close>: the advisory lock; \<open>available\<close>: mails are enabled. The answer names the round.\<close>

definition run_once ::
  "bool \<Rightarrow> bool \<Rightarrow> time \<Rightarrow> string \<Rightarrow> (delivery \<Rightarrow> delivery_view) \<Rightarrow> mail_db \<Rightarrow> string option \<times> mail_db" where
  "run_once acquired available now token view db =
     (if \<not> acquired then (Some ''busy'', db)
      else if \<not> available then (Some ''disabled'', db)
      else case recover_and_claim now token db of
             (None, db1) \<Rightarrow> (Some ''idle'', db1)
           | (Some claimed, db1) \<Rightarrow>
               (let (result, db2) = deliver_mail (view claimed) claimed db1
                in (map_option (\<lambda>r. outcome_text (mo_outcome r)) result, db2)))"

subsection \<open>Resolving an unknown outcome\<close>

text \<open>
  The evidence is a JSON object. \<open>raw\<close> is the local capture's answer for a message id: status, length
  and Message-ID header, \<open>None\<close> when the request fails; \<open>expected_id\<close> the Message-ID of a delivery and
  \<open>evidence_digest\<close> the hash of the evidence.
\<close>

definition mail_resolved :: "string \<Rightarrow> mail_db \<Rightarrow> delivery \<Rightarrow> (string + unit) \<times> mail_db" where
  "mail_resolved reason db row =
     (Inr (), mail_record row Resolution
        (case dl_state row of Accepted \<Rightarrow> ''accepted'' | Suppressed \<Rightarrow> ''suppressed''
           | Failed \<Rightarrow> ''failed'' | _ \<Rightarrow> ''retry_wait'')
        ''operator_confirmed'' None reason ''local_operator''
        (put_delivery (row\<lparr>dl_version := dl_version row + 1\<rparr>) db))"

definition resolve_mail ::
  "bool \<Rightarrow> (pyval \<Rightarrow> (int \<times> nat \<times> string option) option) \<Rightarrow> (int \<Rightarrow> string) \<Rightarrow> (pydict \<Rightarrow> string) \<Rightarrow>
   time \<Rightarrow> int \<Rightarrow> int \<Rightarrow> bool \<Rightarrow> string \<Rightarrow> pydict \<Rightarrow> mail_db \<Rightarrow> (string + unit) \<times> mail_db" where
  "resolve_mail acquired raw expected_id evidence_digest now identity version accepted reason evidence db =
     (let n = length (py_strip reason) in
      if n < 1 \<or> 400 < n then (Inl ''reason_and_evidence_required'', db)
      else if \<not> acquired then (Inl ''worker_busy'', db)
      else case delivery_by_id identity db of
        None \<Rightarrow> (Inl ''unknown_finished_version_required'', db)
      | Some row \<Rightarrow>
          if dl_state row \<noteq> Unknown \<or> dl_version row \<noteq> version \<or>
             (case dl_lease_until row of None \<Rightarrow> True | Some t \<Rightarrow> now < t)
          then (Inl ''unknown_finished_version_required'', db)
          else if dget evidence ''attempt_id'' \<noteq> PStr (case dl_claim_token row of None \<Rightarrow> ''None'' | Some c \<Rightarrow> c) \<or>
                  dget evidence ''message_id'' \<noteq> PStr (expected_id identity)
          then (Inl ''evidence_attempt_mismatch'', db)
          else
            (let resolved = mail_resolved (reason @ evidence_digest evidence) db in
             if accepted then
               (case raw (dget evidence ''mailpit_id'') of
                  None \<Rightarrow> (Inl ''request_failed'', db)
                | Some (status, n_bytes, header) \<Rightarrow>
                    if status \<noteq> 200 \<or> 65536 < n_bytes \<or> header \<noteq> Some (expected_id identity)
                    then (Inl ''mailpit_receipt_not_verified'', db)
                    else resolved (row\<lparr>dl_state := Accepted\<rparr>))
             else
               (case dget evidence ''smtp_code'' of
                  PInt smtp_code \<Rightarrow>
                    if dget evidence ''basis'' \<noteq> PStr ''smtp_rejection'' \<or> \<not> (400 \<le> smtp_code \<and> smtp_code < 600) \<or>
                       dget evidence ''reply_received'' \<noteq> PBool True
                    then (Inl ''positive_nonacceptance_evidence_required'', db)
                    else if dl_expires_at row \<le> now then
                      resolved (row\<lparr>dl_state := Suppressed, dl_next_attempt_at := now\<rparr>)
                    else if 500 \<le> smtp_code \<or> 4 \<le> dl_attempt_count row then
                      resolved (row\<lparr>dl_state := Failed, dl_next_attempt_at := now\<rparr>)
                    else
                      (case retry_seconds (dl_attempt_count row) of
                         None \<Rightarrow> (Inl ''index_error'', db)
                       | Some s \<Rightarrow> resolved (row\<lparr>dl_state := RetryWait, dl_next_attempt_at := now + s\<rparr>))
                | _ \<Rightarrow> (Inl ''positive_nonacceptance_evidence_required'', db))))"


subsection \<open>Steps\<close>

text \<open>
  The transactions on the ledger. A worker that is interrupted stops between two of them, so that
  histories of \<open>mail_step\<close> include crashes at every point; a new delivery has a fresh id.
\<close>

inductive mail_step :: "mail_db \<Rightarrow> mail_db \<Rightarrow> bool" where
  enqueued: "identity \<notin> dl_id ` set (md_deliveries db) \<Longrightarrow> mail_step db (enqueue_mail available identity n value now db)"
| claimed: "mail_step db (snd (recover_and_claim now token db))"
| started: "start_mail now c db = Some db' \<Longrightarrow> mail_step db db'"
| finished: "finish_mail now identity token result db = Some db' \<Longrightarrow> mail_step db db'"
| resolved: "mail_step db (snd (resolve_mail acquired raw expected_id evidence_digest now identity version ok reason evidence db))"

text \<open>A round of the worker is a history of these steps.\<close>

lemma failed_steps: "mail_step\<^sup>*\<^sup>* db (snd (mail_failed v c db))"
  by (auto simp: mail_failed_def Let_def intro: mail_step.finished split: option.split)

lemma finished_steps: "mail_step\<^sup>*\<^sup>* db (snd (mail_finished v c result db))"
  by (auto simp: mail_finished_def failed_steps intro: mail_step.finished split: option.split)

lemma deliver_steps: "mail_step\<^sup>*\<^sup>* db (snd (deliver_mail v c db))"
proof -
  have "mail_step\<^sup>*\<^sup>* db (snd (mail_failed v c d))" "mail_step\<^sup>*\<^sup>* db (snd (mail_finished v c result d))"
    if "start_mail (dv_start_now v) c db = Some d" for d result
    using mail_step.started [OF that] failed_steps finished_steps by (meson converse_rtranclp_into_rtranclp)+
  then show ?thesis
    by (simp add: deliver_mail_def failed_steps finished_steps split: option.split)
qed

lemma run_once_steps: "mail_step\<^sup>*\<^sup>* db (snd (run_once acquired available now token view db))"
proof -
  obtain x d where r: "recover_and_claim now token db = (x, d)" by fastforce
  with mail_step.claimed [of db now token] have d: "mail_step db d" by simp
  then have "mail_step\<^sup>*\<^sup>* db (snd (deliver_mail v c d))" for v c
    using deliver_steps by (rule converse_rtranclp_into_rtranclp)
  with r_into_rtranclp [of mail_step, OF d] show ?thesis
    by (simp add: run_once_def r Let_def case_prod_unfold split: option.split)
qed

definition settled :: "delivery \<Rightarrow> bool" where
  "settled r \<longleftrightarrow> dl_state r \<in> {Accepted, Failed, Suppressed}"

definition row_ok :: "delivery \<Rightarrow> bool" where
  "row_ok r \<longleftrightarrow> 0 \<le> dl_attempt_count r \<and> dl_attempt_count r \<le> 4 \<and>
     (dl_state r \<in> {Pending, Leased, RetryWait} \<longrightarrow> dl_attempt_count r \<le> 3) \<and>
     (dl_state r \<in> {Sending, Unknown} \<longrightarrow> 1 \<le> dl_attempt_count r)"

definition started_count :: "int \<Rightarrow> mail_db \<Rightarrow> nat" where
  "started_count k db = length (filter (\<lambda>a. ma_delivery a = k \<and> ma_kind a = Started) (md_attempts db))"

text \<open>One row that is not settled is replaced, and at most one record of it appended.\<close>

definition row_update :: "mail_db \<Rightarrow> mail_db \<Rightarrow> bool" where
  "row_update db db' \<longleftrightarrow> (\<exists>r r' xs. r \<in> set (md_deliveries db) \<and> \<not> settled r \<and> dl_id r' = dl_id r \<and>
     (row_ok r \<longrightarrow> row_ok r') \<and> dl_attempt_count r \<le> dl_attempt_count r' \<and>
     md_deliveries db' = tput dl_id r' (md_deliveries db) \<and> md_attempts db' = md_attempts db @ xs \<and>
     (xs = [] \<or> (\<exists>a. xs = [a] \<and> ma_delivery a = dl_id r \<and>
        (ma_kind a = Started \<longrightarrow> dl_attempt_count r + 1 \<le> dl_attempt_count r'))))"

lemma row_updateI:
  assumes "r \<in> set (md_deliveries db)" and "\<not> settled r" and "dl_id r' = dl_id r" and "row_ok r \<longrightarrow> row_ok r'"
    and "dl_attempt_count r \<le> dl_attempt_count r'"
  shows "row_update db (put_delivery r' db)"
  using assms unfolding row_update_def
  by (intro exI [of _ r] exI [of _ r'] exI [of _ "[]"]) simp

lemma record_deliveries [simp]: "md_deliveries (mail_record r k outc c m re op db) = md_deliveries db"
  by (simp add: mail_record_def)

lemma row_update_recordI:
  assumes "r \<in> set (md_deliveries db)" and "\<not> settled r" and "dl_id r' = dl_id r" and "row_ok r \<longrightarrow> row_ok r'"
    and "dl_attempt_count r \<le> dl_attempt_count r'" and "dl_id q = dl_id r"
    and "k = Started \<longrightarrow> dl_attempt_count r + 1 \<le> dl_attempt_count r'"
  shows "row_update db (mail_record q k outc c m re op (put_delivery r' db))"
proof (cases "\<exists>a \<in> set (md_attempts db). ma_attempt a = dl_claim_token q \<and> ma_kind a = k")
  case True
  then show ?thesis using row_updateI [OF assms(1-5)] by (simp add: mail_record_def)
next
  case False
  with assms show ?thesis
    unfolding row_update_def
    by (intro exI [of _ r] exI [of _ r'] exI
        [of _ "[\<lparr>ma_delivery = dl_id q, ma_attempt = dl_claim_token q, ma_kind = k, ma_outcome = outc, ma_code = c,
           ma_message_id = m, ma_reason = re, ma_operator = op\<rparr>]"]) (simp add: mail_record_def)
qed

lemma record_put:
  "put_delivery r (mail_record q k outc c m re op db) = mail_record q k outc c m re op (put_delivery r db)"
  by (simp add: mail_record_def)

lemma row_update_recover:
  assumes "r \<in> set (md_deliveries db)" and "dl_state r \<in> {Leased, Sending}"
  shows "row_update db (recover_row r db)"
proof (cases "dl_state r = Sending")
  case True
  then show ?thesis
    unfolding recover_row_def Let_def record_put
    using assms by (auto intro!: row_update_recordI simp: settled_def row_ok_def)
next
  case False
  with assms show ?thesis
    unfolding recover_row_def by (auto intro!: row_updateI simp: settled_def row_ok_def)
qed

lemma recover_others: "r' \<in> set (md_deliveries db) \<Longrightarrow> dl_id r' \<noteq> dl_id r \<Longrightarrow> r' \<in> set (md_deliveries (recover_row r db))"
  by (auto simp: recover_row_def tput_def Let_def)

lemma recover_all:
  "distinct (map dl_id xs) \<Longrightarrow> set xs \<subseteq> set (md_deliveries db) \<Longrightarrow> \<forall>r \<in> set xs. dl_state r \<in> {Leased, Sending} \<Longrightarrow>
   row_update\<^sup>*\<^sup>* db (fold recover_row xs db)"
proof (induction xs arbitrary: db)
  case (Cons r xs)
  have "set xs \<subseteq> set (md_deliveries (recover_row r db))"
  proof
    fix x assume x: "x \<in> set xs"
    with Cons.prems(1) have "dl_id x \<noteq> dl_id r" by (metis imageI distinct.simps(2) list.simps(9) list.set_map)
    with x Cons.prems(2) show "x \<in> set (md_deliveries (recover_row r db))" by (auto intro: recover_others)
  qed
  with Cons have "row_update\<^sup>*\<^sup>* (recover_row r db) (fold recover_row xs (recover_row r db))" by simp
  moreover have "row_update db (recover_row r db)" using Cons.prems(2,3) by (intro row_update_recover) auto
  ultimately show ?case by simp
qed simp

lemma due_Some:
  "due_mail now db = Some r \<Longrightarrow> r \<in> set (md_deliveries db) \<and> dl_state r \<in> {Pending, RetryWait} \<and> dl_next_attempt_at r \<le> now"
proof -
  let ?xs = "sort_key dl_next_attempt_at (sort_key dl_id
             (filter (\<lambda>r. dl_state r \<in> {Pending, RetryWait} \<and> dl_next_attempt_at r \<le> now) (md_deliveries db)))"
  assume "due_mail now db = Some r"
  then obtain rs where "?xs = r # rs" unfolding due_mail_def by (auto split: list.splits)
  then have "r \<in> set ?xs" by (simp del: set_sort)
  then show ?thesis by auto
qed

lemma claim_updates:
  assumes "distinct (map dl_id (md_deliveries db))"
  shows "row_update\<^sup>*\<^sup>* db (snd (recover_and_claim now token db))"
proof -
  let ?xs = "take 20 (sort_key dl_id (filter (lease_expired now) (md_deliveries db)))"
  let ?db1 = "fold recover_row ?xs db"
  have "distinct (map dl_id (sort_key dl_id (filter (lease_expired now) (md_deliveries db))))"
    using assms by (auto simp: distinct_map intro: inj_on_subset)
  then have "distinct (map dl_id ?xs)" by (simp add: take_map [symmetric])
  moreover have "set ?xs \<subseteq> set (filter (lease_expired now) (md_deliveries db))"
    using set_take_subset [of 20 "sort_key dl_id (filter (lease_expired now) (md_deliveries db))"] by simp
  ultimately have 1: "row_update\<^sup>*\<^sup>* db ?db1"
    by (intro recover_all) (auto simp: lease_expired_def)
  show ?thesis
  proof (cases "due_mail now ?db1")
    case None
    with 1 show ?thesis by (simp add: recover_and_claim_def)
  next
    case (Some r)
    let ?r = "r\<lparr>dl_state := Leased, dl_claim_token := Some token, dl_lease_until := Some (now + 30), dl_version := dl_version r + 1\<rparr>"
    have "row_update ?db1 (put_delivery ?r ?db1)"
      using due_Some [OF Some] by (intro row_updateI [of r]) (auto simp: settled_def row_ok_def)
    with 1 have "row_update\<^sup>*\<^sup>* db (put_delivery ?r ?db1)" by simp
    with Some show ?thesis by (simp add: recover_and_claim_def Let_def)
  qed
qed

lemma find_SomeD: "find p xs = Some x \<Longrightarrow> x \<in> set xs \<and> p x"
  by (auto simp: find_Some_iff)

lemma start_Some:
  assumes "start_mail now c db = Some db'"
  obtains r where "r \<in> set (md_deliveries db)" "dl_id r = dl_id c" "dl_claim_token r = dl_claim_token c" "dl_state r = Leased"
    "db' = mail_record (r\<lparr>dl_state := Sending, dl_version := dl_version r + 1, dl_attempt_count := dl_attempt_count r + 1\<rparr>)
       Started '''' '''' None '''' ''worker''
       (put_delivery (r\<lparr>dl_state := Sending, dl_version := dl_version r + 1, dl_attempt_count := dl_attempt_count r + 1\<rparr>) db)"
  using assms by (auto simp: start_mail_def Let_def dest!: find_SomeD split: option.splits)

lemma start_update: "start_mail now c db = Some db' \<Longrightarrow> row_update db db'"
  by (erule start_Some) (auto simp: settled_def row_ok_def intro!: row_update_recordI)


lemma retry_seconds_Some: "1 \<le> n \<Longrightarrow> n \<le> 3 \<Longrightarrow> \<exists>s > 0. retry_seconds n = Some s"
proof -
  assume "1 \<le> n" "n \<le> 3"
  then have "n = 1 \<or> n = 2 \<or> n = 3" by auto
  then show ?thesis by (auto simp: retry_seconds_def)
qed

text \<open>A finished row: the counted attempt, then the state of the outcome.\<close>

lemma finish_Some:
  assumes "finish_mail now k token result db = Some db'" and "held k token db = Some r"
  obtains r' where "r \<in> set (md_deliveries db)" "dl_state r \<in> {Leased, Sending}" "dl_id r' = dl_id r"
    "dl_attempt_count r' = (if dl_state r = Leased then dl_attempt_count r + 1 else dl_attempt_count r)"
    "settled r' \<or> dl_state r' = Unknown \<and> mo_outcome result = OUnknown \<or>
       dl_state r' = RetryWait \<and> mo_outcome result = OTemporary \<and> dl_attempt_count r' \<le> 3"
    "db' = mail_record r' Completed (outcome_text (mo_outcome result)) (mo_code result) (mo_message_id result)
       '''' ''worker'' (put_delivery r' db)"
proof -
  let ?r1 = "if dl_state r = Leased then r\<lparr>dl_attempt_count := dl_attempt_count r + 1\<rparr> else r"
  have r: "r \<in> set (md_deliveries db)" "dl_state r \<in> {Leased, Sending}"
    using assms(2) by (auto simp: held_def dest!: find_SomeD)
  have put: "put_delivery (x\<lparr>dl_version := n\<rparr>) db = put_delivery (x\<lparr>dl_version := n\<rparr>) db" for x n by simp
  show thesis
  proof (cases "mo_outcome result")
    case OTemporary
    with assms r show thesis
      by (intro that [of "(if dl_expires_at r \<le> now then ?r1\<lparr>dl_state := Suppressed\<rparr>
            else if dl_attempt_count ?r1 \<le> 3 then ?r1\<lparr>dl_state := RetryWait, dl_next_attempt_at := now + the (retry_seconds (dl_attempt_count ?r1))\<rparr>
            else ?r1\<lparr>dl_state := Failed\<rparr>)\<lparr>dl_version := dl_version r + 1\<rparr>"])
         (auto simp: finish_mail_def Let_def settled_def split: if_splits)
  qed (use assms r in \<open>intro that [of "?r1\<lparr>dl_state := the (outcome_state (mo_outcome result)), dl_version := dl_version r + 1\<rparr>"];
         auto simp: finish_mail_def Let_def settled_def split: if_splits\<close>)+
qed

lemma finish_update: "finish_mail now k token result db = Some db' \<Longrightarrow> db' = db \<or> row_update db db'"
proof (cases "held k token db")
  case (Some r)
  assume "finish_mail now k token result db = Some db'"
  from this Some show ?thesis
  proof (rule finish_Some)
    fix r' assume r: "r \<in> set (md_deliveries db)" "dl_state r \<in> {Leased, Sending}" "dl_id r' = dl_id r"
      and n: "dl_attempt_count r' = (if dl_state r = Leased then dl_attempt_count r + 1 else dl_attempt_count r)"
      and st: "settled r' \<or> dl_state r' = Unknown \<and> mo_outcome result = OUnknown \<or>
         dl_state r' = RetryWait \<and> mo_outcome result = OTemporary \<and> dl_attempt_count r' \<le> 3"
      and db': "db' = mail_record r' Completed (outcome_text (mo_outcome result)) (mo_code result) (mo_message_id result)
         '''' ''worker'' (put_delivery r' db)"
    have "row_ok r \<longrightarrow> row_ok r'"
      using r n st by (auto simp: row_ok_def settled_def)
    with r n show ?thesis
      unfolding db' by (intro disjI2 row_update_recordI [of r]) (auto simp: settled_def)
  qed
qed (simp add: finish_mail_def)

lemma resolve_update:
  "snd (resolve_mail acquired raw ex dg now k version ok reason ev db) = db \<or>
   row_update db (snd (resolve_mail acquired raw ex dg now k version ok reason ev db))"
proof (cases "delivery_by_id k db")
  case (Some r)
  then have r: "r \<in> set (md_deliveries db)" using tget_SomeD by fastforce
  have step: "row_update db (snd (mail_resolved a db q))"
    if "dl_state r = Unknown" "dl_id q = dl_id r" "dl_attempt_count q = dl_attempt_count r"
      "dl_state q \<in> {Accepted, Suppressed, Failed} \<or> dl_state q = RetryWait \<and> dl_attempt_count r < 4" for q a
    using r that unfolding mail_resolved_def snd_conv
    by (intro row_update_recordI [of r]) (auto simp: settled_def row_ok_def)
  show ?thesis
  proof (cases ok)
    case True
    then show ?thesis
      by (cases "raw (dget ev ''mailpit_id'')") (simp_all add: resolve_mail_def Some Let_def step case_prod_unfold)
  next
    case False
    show ?thesis
    proof (cases "\<exists>code. dget ev ''smtp_code'' = PInt code")
      case True
      then obtain code where "dget ev ''smtp_code'' = PInt code" by blast
      with False show ?thesis
        by (cases "retry_seconds (dl_attempt_count r)") (simp_all add: resolve_mail_def Some Let_def step)
    qed (use False in \<open>cases "dget ev ''smtp_code''"; simp add: resolve_mail_def Some Let_def\<close>)
  qed
qed (simp add: resolve_mail_def)

subsection \<open>The invariant\<close>

definition mail_ok :: "mail_db \<Rightarrow> bool" where
  "mail_ok db \<longleftrightarrow> distinct (map dl_id (md_deliveries db)) \<and>
     (\<forall>r \<in> set (md_deliveries db). row_ok r \<and> int (started_count (dl_id r) db) \<le> dl_attempt_count r) \<and>
     (\<forall>a \<in> set (md_attempts db). ma_delivery a \<in> dl_id ` set (md_deliveries db))"

lemma row_update_ok:
  assumes "row_update db db'" and "mail_ok db"
  shows "mail_ok db'"
proof -
  from assms(1) obtain r r' xs where r: "r \<in> set (md_deliveries db)" "dl_id r' = dl_id r" "row_ok r \<longrightarrow> row_ok r'"
    "dl_attempt_count r \<le> dl_attempt_count r'"
    and d: "md_deliveries db' = tput dl_id r' (md_deliveries db)" and a: "md_attempts db' = md_attempts db @ xs"
    and xs: "xs = [] \<or> (\<exists>a. xs = [a] \<and> ma_delivery a = dl_id r \<and> (ma_kind a = Started \<longrightarrow> dl_attempt_count r + 1 \<le> dl_attempt_count r'))"
    unfolding row_update_def by blast
  have ids: "map dl_id (md_deliveries db') = map dl_id (md_deliveries db)" by (simp add: d)
  then have ids': "dl_id ` set (md_deliveries db') = dl_id ` set (md_deliveries db)" by (metis list.set_map)
  have rows: "row_ok x \<and> int (started_count (dl_id x) db') \<le> dl_attempt_count x" if "x \<in> set (md_deliveries db')" for x
    using tput_mem [OF that [unfolded d]]
  proof
    assume x: "x = r'"
    have "row_ok r" "int (started_count (dl_id r) db) \<le> dl_attempt_count r" using assms(2) r(1) by (auto simp: mail_ok_def)
    with r xs show ?thesis by (auto simp: x started_count_def a)
  next
    assume x: "x \<in> set (md_deliveries db) \<and> dl_id x \<noteq> dl_id r'"
    then have "row_ok x" "int (started_count (dl_id x) db) \<le> dl_attempt_count x" using assms(2) by (auto simp: mail_ok_def)
    with x r(2) xs show ?thesis by (auto simp: started_count_def a)
  qed
  have "\<forall>y \<in> set (md_attempts db'). ma_delivery y \<in> dl_id ` set (md_deliveries db)"
    using assms(2) xs r(1) by (auto simp: mail_ok_def a)
  with rows ids ids' assms(2) show ?thesis by (simp add: mail_ok_def)
qed

lemma row_updates_ok: "row_update\<^sup>*\<^sup>* db db' \<Longrightarrow> mail_ok db \<Longrightarrow> mail_ok db'"
  by (induction rule: rtranclp_induct) (auto intro: row_update_ok)

lemma started_absent: "mail_ok db \<Longrightarrow> k \<notin> dl_id ` set (md_deliveries db) \<Longrightarrow> started_count k db = 0"
  by (auto simp: started_count_def mail_ok_def filter_empty_conv)

lemma enqueue_ok:
  assumes "mail_ok db" and "identity \<notin> dl_id ` set (md_deliveries db)"
  shows "mail_ok (enqueue_mail available identity n value now db)"
proof -
  have "started_count identity (db\<lparr>md_deliveries := t\<rparr>) = 0" for t
    using started_absent [OF assms] by (simp add: started_count_def)
  with assms show ?thesis
    by (auto simp: enqueue_mail_def mail_ok_def row_ok_def started_count_def split: option.split)
qed

lemma mail_step_updates:
  assumes "mail_step db db'" and "mail_ok db"
  shows "row_update\<^sup>*\<^sup>* db db' \<or> (\<exists>identity available n value now. identity \<notin> dl_id ` set (md_deliveries db) \<and>
     db' = enqueue_mail available identity n value now db)"
  using assms
proof (induction rule: mail_step.induct)
  case (claimed db now token)
  then show ?case using claim_updates by (auto simp: mail_ok_def)
next
  case (started now c db db')
  then show ?case using start_update by blast
next
  case (finished now k token result db db')
  then show ?case using finish_update by blast
next
  case (resolved db acquired raw ex dg now k version ok reason ev)
  then show ?case using resolve_update [of acquired raw ex dg now k version ok reason ev db] by auto
qed blast

lemma mail_step_ok: "mail_step db db' \<Longrightarrow> mail_ok db \<Longrightarrow> mail_ok db'"
  using mail_step_updates row_updates_ok enqueue_ok by metis

lemma mail_steps_ok: "mail_step\<^sup>*\<^sup>* db db' \<Longrightarrow> mail_ok db \<Longrightarrow> mail_ok db'"
  by (induction rule: rtranclp_induct) (auto intro: mail_step_ok)


text \<open>
  A mail is tried a bounded number of times. In every ledger that any history of the worker and
  the operator reaches, crashes included, a delivery has been attempted and started at most four times, and one that is
  waiting at most three, so that the delay before its next attempt is always one of the table's.
\<close>

theorem mail_attempts_bounded:
  assumes "mail_step\<^sup>*\<^sup>* \<lparr>md_deliveries = [], md_attempts = []\<rparr> db" and "r \<in> set (md_deliveries db)"
  shows "dl_attempt_count r \<le> 4 \<and> started_count (dl_id r) db \<le> 4 \<and>
    (dl_state r \<in> {Pending, Leased, RetryWait} \<longrightarrow> dl_attempt_count r \<le> 3) \<and>
    (dl_state r \<in> {Sending, Unknown} \<and> dl_attempt_count r \<le> 3 \<longrightarrow> (\<exists>s > 0. retry_seconds (dl_attempt_count r) = Some s))"
proof -
  have "mail_ok db" by (rule mail_steps_ok [OF assms(1)]) (simp add: mail_ok_def)
  with assms(2) have r: "row_ok r" "int (started_count (dl_id r) db) \<le> dl_attempt_count r"
    by (auto simp: mail_ok_def)
  then have "int (started_count (dl_id r) db) \<le> 4" by (auto simp: row_ok_def)
  with r retry_seconds_Some show ?thesis by (auto simp: row_ok_def)
qed

subsection \<open>Settled deliveries\<close>

lemma row_update_settled:
  assumes "row_update db db'" and "distinct (map dl_id (md_deliveries db))" and "x \<in> set (md_deliveries db)" and "settled x"
  shows "x \<in> set (md_deliveries db') \<and> started_count (dl_id x) db' = started_count (dl_id x) db"
proof -
  from assms(1) obtain r r' xs where r: "r \<in> set (md_deliveries db)" "\<not> settled r" "dl_id r' = dl_id r"
    and d: "md_deliveries db' = tput dl_id r' (md_deliveries db)" and a: "md_attempts db' = md_attempts db @ xs"
    and xs: "xs = [] \<or> (\<exists>a. xs = [a] \<and> ma_delivery a = dl_id r)"
    unfolding row_update_def by blast
  have "dl_id x \<noteq> dl_id r"
    using assms(2-4) r(1,2) by (auto simp: distinct_map dest: inj_onD)
  with assms(3) r(3) xs show ?thesis by (auto simp: d a tput_def started_count_def)
qed

lemma row_update_ids: "row_update db db' \<Longrightarrow> map dl_id (md_deliveries db') = map dl_id (md_deliveries db)"
  by (auto simp: row_update_def)

lemma row_updates_settled:
  "row_update\<^sup>*\<^sup>* db db' \<Longrightarrow> distinct (map dl_id (md_deliveries db)) \<Longrightarrow> x \<in> set (md_deliveries db) \<Longrightarrow> settled x \<Longrightarrow>
   x \<in> set (md_deliveries db') \<and> started_count (dl_id x) db' = started_count (dl_id x) db \<and>
   distinct (map dl_id (md_deliveries db'))"
  by (induction rule: rtranclp_induct) (auto dest: row_update_settled row_update_ids)

lemma mail_step_settled:
  assumes "mail_step db db'" and "mail_ok db" and "x \<in> set (md_deliveries db)" and "settled x"
  shows "x \<in> set (md_deliveries db') \<and> started_count (dl_id x) db' = started_count (dl_id x) db"
  using mail_step_updates [OF assms(1,2)]
proof
  assume "row_update\<^sup>*\<^sup>* db db'"
  with assms show ?thesis by (auto simp: mail_ok_def dest: row_updates_settled)
next
  assume "\<exists>identity available n value now. identity \<notin> dl_id ` set (md_deliveries db) \<and> db' = enqueue_mail available identity n value now db"
  with assms(3) show ?thesis by (auto simp: enqueue_mail_def started_count_def split: option.split)
qed

text \<open>
  C32: A settled mail is never sent again. Once a delivery is accepted, failed or suppressed, its row does not
  change any more and no further sending of it is started, whatever the worker, the operator and new
  notifications do.
\<close>

theorem settled_mail_is_final:
  assumes "mail_step\<^sup>*\<^sup>* db db'" and "mail_ok db" and "x \<in> set (md_deliveries db)" and "settled x"
  shows "x \<in> set (md_deliveries db') \<and> started_count (dl_id x) db' = started_count (dl_id x) db"
  using assms(1)
proof (induction rule: rtranclp_induct)
  case (step y z)
  have "mail_ok y" by (rule mail_steps_ok [OF step.hyps(1) assms(2)])
  with mail_step_settled [OF step.hyps(2)] step.IH assms(4) show ?case by simp
qed (use assms in simp)

subsection \<open>Progress\<close>

text \<open>How many deliveries a row can still have.\<close>

definition mail_rank :: "delivery \<Rightarrow> nat" where
  "mail_rank r = (if dl_state r \<in> {Pending, Leased, RetryWait} then nat (4 - dl_attempt_count r) else 0)"

lemma held_unique:
  assumes "distinct (map dl_id (md_deliveries db))" and "r \<in> set (md_deliveries db)" and "dl_state r \<in> {Leased, Sending}"
  shows "held (dl_id r) (dl_claim_token r) db = Some r"
proof (cases "held (dl_id r) (dl_claim_token r) db")
  case None
  then show ?thesis using assms(2,3) unfolding held_def find_None_iff by blast
next
  case (Some x)
  from find_SomeD [OF this [unfolded held_def]] have x: "dl_id x = dl_id r" "x \<in> set (md_deliveries db)" by simp_all
  have "inj_on dl_id (set (md_deliveries db))" using assms(1) by (simp add: distinct_map)
  from inj_onD [OF this x assms(2)] have "x = r" .
  with Some show ?thesis by simp
qed

lemma get_put_delivery:
  "r \<in> set (md_deliveries db) \<Longrightarrow> dl_id r' = dl_id r \<Longrightarrow> delivery_by_id (dl_id r) (put_delivery r' db) = Some r'"
  by (auto simp: tget_tput tget_None_iff split: option.split)

lemma get_delivery:
  "distinct (map dl_id (md_deliveries db)) \<Longrightarrow> r \<in> set (md_deliveries db) \<Longrightarrow> delivery_by_id (dl_id r) db = Some r"
  by (simp add: tget_Some_iff)

text \<open>A finished delivery that was held is done, in doubt, or waiting with one more attempt counted.\<close>

definition moved_on :: "int \<Rightarrow> delivery \<Rightarrow> mail_db \<Rightarrow> bool" where
  "moved_on n r db \<longleftrightarrow> (\<exists>r'. delivery_by_id (dl_id r) db = Some r' \<and>
     (settled r' \<or> dl_state r' = Unknown \<or> dl_state r' = RetryWait \<and> dl_attempt_count r' = n \<and> n \<le> 3))"

lemma finish_moves:
  assumes "distinct (map dl_id (md_deliveries db))" and "r \<in> set (md_deliveries db)" and "dl_state r \<in> {Leased, Sending}"
    and "0 \<le> dl_attempt_count r" and "dl_state r = Sending \<longrightarrow> 1 \<le> dl_attempt_count r"
  shows "\<exists>db'. finish_mail now (dl_id r) (dl_claim_token r) result db = Some db' \<and>
    moved_on (if dl_state r = Leased then dl_attempt_count r + 1 else dl_attempt_count r) r db'"
proof -
  let ?n = "if dl_state r = Leased then dl_attempt_count r + 1 else dl_attempt_count r"
  have h: "held (dl_id r) (dl_claim_token r) db = Some r" by (rule held_unique [OF assms(1-3)])
  have n: "\<exists>s. retry_seconds ?n = Some s" if "?n \<le> 3"
  proof -
    have "1 \<le> ?n" using assms(3-5) by auto
    with that retry_seconds_Some [of ?n] show ?thesis by blast
  qed
  have "\<exists>db'. finish_mail now (dl_id r) (dl_claim_token r) result db = Some db'"
    using n by (cases "mo_outcome result") (auto simp: finish_mail_def h Let_def)
  then obtain db' where f: "finish_mail now (dl_id r) (dl_claim_token r) result db = Some db'" by blast
  from f h show ?thesis
  proof (rule finish_Some)
    fix r' assume "dl_id r' = dl_id r" "dl_attempt_count r' = ?n"
      "settled r' \<or> dl_state r' = Unknown \<and> mo_outcome result = OUnknown \<or>
         dl_state r' = RetryWait \<and> mo_outcome result = OTemporary \<and> dl_attempt_count r' \<le> 3"
      "db' = mail_record r' Completed (outcome_text (mo_outcome result)) (mo_code result) (mo_message_id result)
         '''' ''worker'' (put_delivery r' db)"
    then have "moved_on ?n r db'"
      using get_put_delivery [OF assms(2), of r'] unfolding moved_on_def by (intro exI [of _ r']) auto
    with f show ?thesis by blast
  qed
qed

lemma failed_moves:
  assumes "distinct (map dl_id (md_deliveries db))" and "r \<in> set (md_deliveries db)" and "dl_state r \<in> {Leased, Sending}"
    and "0 \<le> dl_attempt_count r" and "dl_state r = Sending \<longrightarrow> 1 \<le> dl_attempt_count r"
    and "dl_id c = dl_id r" and "dl_claim_token c = dl_claim_token r"
  shows "fst (mail_failed v c db) \<noteq> None \<and>
    moved_on (if dl_state r = Leased then dl_attempt_count r + 1 else dl_attempt_count r) r (snd (mail_failed v c db))"
proof -
  define res where "res = mail_outcome_of (if (case delivery_by_id (dl_id c) db of None \<Rightarrow> True | Some r \<Rightarrow> dl_state r \<noteq> Leased)
    then OUnknown else OTemporary) ''worker_or_database_unavailable''"
  obtain db' where f: "finish_mail (dv_end_now v) (dl_id r) (dl_claim_token r) res db = Some db'"
    and m: "moved_on (if dl_state r = Leased then dl_attempt_count r + 1 else dl_attempt_count r) r db'"
    using finish_moves [OF assms(1-5)] by blast
  have "mail_failed v c db = (Some res, db')"
    unfolding mail_failed_def Let_def res_def [symmetric] by (simp add: assms(6,7) f)
  with m show ?thesis by simp
qed

lemma finished_moves:
  assumes "distinct (map dl_id (md_deliveries db))" and "r \<in> set (md_deliveries db)" and "dl_state r \<in> {Leased, Sending}"
    and "0 \<le> dl_attempt_count r" and "dl_state r = Sending \<longrightarrow> 1 \<le> dl_attempt_count r"
    and "dl_id c = dl_id r" and "dl_claim_token c = dl_claim_token r"
  shows "fst (mail_finished v c result db) \<noteq> None \<and>
    moved_on (if dl_state r = Leased then dl_attempt_count r + 1 else dl_attempt_count r) r (snd (mail_finished v c result db))"
proof (cases "dv_fault v = FaultFinish")
  case True
  with failed_moves [OF assms] show ?thesis by (simp add: mail_finished_def)
next
  case False
  from finish_moves [OF assms(1-5), of "dv_end_now v" result] obtain db' where
    "finish_mail (dv_end_now v) (dl_id r) (dl_claim_token r) result db = Some db'"
    "moved_on (if dl_state r = Leased then dl_attempt_count r + 1 else dl_attempt_count r) r db'" by blast
  with False assms(6,7) show ?thesis by (simp add: mail_finished_def)
qed


lemma moved_rank:
  assumes "moved_on (dl_attempt_count c + 1) r db" and "dl_id r = dl_id c" and "dl_state c = Leased" and "dl_attempt_count c \<le> 3"
  shows "\<exists>r'. delivery_by_id (dl_id c) db = Some r' \<and> mail_rank r' < mail_rank c \<and>
    (settled r' \<or> dl_state r' = Unknown \<or> dl_state r' = RetryWait)"
proof -
  from assms(1,2) obtain r' where g: "delivery_by_id (dl_id c) db = Some r'" and
    c: "settled r' \<or> dl_state r' = Unknown \<or> dl_state r' = RetryWait \<and> dl_attempt_count r' = dl_attempt_count c + 1"
    by (auto simp: moved_on_def)
  from c assms(3,4) have "mail_rank r' < mail_rank c" by (auto simp: mail_rank_def settled_def)
  with g c show ?thesis by blast
qed

lemma start_held:
  assumes "distinct (map dl_id (md_deliveries db))" and "c \<in> set (md_deliveries db)" and "dl_state c = Leased"
    and "dl_lease_until c = Some t" and "now < t"
  obtains r db1 where "start_mail now c db = Some db1" "r \<in> set (md_deliveries db1)" "dl_id r = dl_id c" "dl_state r = Sending"
    "dl_claim_token r = dl_claim_token c" "dl_attempt_count r = dl_attempt_count c + 1" "distinct (map dl_id (md_deliveries db1))"
proof -
  let ?r = "c\<lparr>dl_state := Sending, dl_version := dl_version c + 1, dl_attempt_count := dl_attempt_count c + 1\<rparr>"
  let ?db1 = "mail_record ?r Started '''' '''' None '''' ''worker'' (put_delivery ?r db)"
  let ?p = "\<lambda>r. dl_id r = dl_id c \<and> dl_claim_token r = dl_claim_token c \<and> dl_state r = Leased \<and>
    (case dl_lease_until r of None \<Rightarrow> False | Some t \<Rightarrow> now < t)"
  have "find ?p (md_deliveries db) = Some c"
  proof (cases "find ?p (md_deliveries db)")
    case None
    then show ?thesis using assms(2-5) unfolding find_None_iff by force
  next
    case (Some x)
    from find_SomeD [OF this] have x: "dl_id x = dl_id c" "x \<in> set (md_deliveries db)" by simp_all
    have "inj_on dl_id (set (md_deliveries db))" using assms(1) by (simp add: distinct_map)
    from inj_onD [OF this x assms(2)] Some show ?thesis by simp
  qed
  then have "start_mail now c db = Some ?db1"
    by (simp add: start_mail_def Let_def)
  moreover have "?r \<in> set (tput dl_id ?r (md_deliveries db))"
    using assms(2) by (force simp: tput_def)
  ultimately show thesis using assms(1) by (intro that [of ?db1 ?r]) simp_all
qed


subsection \<open>Evaluated instances\<close>

definition sample_eligible :: eligible where
  "sample_eligible = \<lparr>el_created_at = 1000, el_preference_version = 1, el_email_digest = Some ''e'', el_content_digest = ''c''\<rparr>"

definition sample_view :: "outcome_kind \<Rightarrow> time \<Rightarrow> delivery_view" where
  "sample_view k now = \<lparr>dv_fault = NoFault, dv_source = True, dv_value = Some sample_eligible, dv_now = now,
     dv_start_now = now, dv_end_now = now, dv_result = mail_outcome_of k ''smtp''\<rparr>"

definition sample_queue :: mail_db where
  "sample_queue = enqueue_mail True 5 9 (Some sample_eligible) 1000 \<lparr>md_deliveries = [], md_attempts = []\<rparr>"

definition sample_claim :: "delivery option \<times> mail_db" where
  "sample_claim = recover_and_claim 1000 ''w1'' sample_queue"

definition sample_sent :: mail_db where
  "sample_sent = snd (run_once True True 1000 ''w1'' (\<lambda>_. sample_view OAccepted 1001) sample_queue)"

lemma sample_queue_steps: "mail_step\<^sup>*\<^sup>* \<lparr>md_deliveries = [], md_attempts = []\<rparr> sample_queue"
proof -
  have "mail_step \<lparr>md_deliveries = [], md_attempts = []\<rparr> sample_queue"
    unfolding sample_queue_def by (rule mail_step.enqueued) simp
  then show ?thesis by blast
qed

lemma mail_attempts_bounded_witness:
  "list_all (\<lambda>r. dl_attempt_count r \<le> 4 \<and> started_count (dl_id r) sample_queue \<le> 4) (md_deliveries sample_queue) \<and>
   md_deliveries sample_queue \<noteq> []"
proof -
  have "md_deliveries sample_queue \<noteq> []" by code_simp
  with mail_attempts_bounded [OF sample_queue_steps] show ?thesis by (simp add: list_all_iff)
qed

lemma sample_queue_ok: "mail_ok sample_queue"
  by (rule mail_steps_ok [OF sample_queue_steps]) (simp add: mail_ok_def)

lemma sample_claim_ok: "mail_ok (snd sample_claim)"
  unfolding sample_claim_def by (rule mail_step_ok [OF mail_step.claimed sample_queue_ok])

lemma sample_sent_row:
  "map dl_state (md_deliveries sample_sent) = [Accepted]" "started_count 5 sample_sent = 1"
  "map dl_id (md_deliveries sample_sent) = [5]" "map dl_attempt_count (md_deliveries sample_sent) = [1]"
  "list_all (\<lambda>a. ma_delivery a = 5) (md_attempts sample_sent)"
  by code_simp+

text \<open>The next round of the worker leaves an accepted mail alone.\<close>

lemma settled_mail_is_final_witness:
  "\<exists>x. dl_state x = Accepted \<and> x \<in> set (md_deliveries (snd (recover_and_claim 5000 ''w2'' sample_sent))) \<and>
     started_count 5 (snd (recover_and_claim 5000 ''w2'' sample_sent)) = 1"
proof -
  obtain x where x: "md_deliveries sample_sent = [x]" "dl_state x = Accepted" "dl_id x = 5" "dl_attempt_count x = 1"
    using sample_sent_row by auto
  have ok: "mail_ok sample_sent"
    using x sample_sent_row(2,5) by (auto simp: mail_ok_def row_ok_def list_all_iff)
  have "mail_step\<^sup>*\<^sup>* sample_sent (snd (recover_and_claim 5000 ''w2'' sample_sent))"
    using mail_step.claimed by blast
  from settled_mail_is_final [OF this ok, of x] x sample_sent_row(2) show ?thesis
    by (auto simp: settled_def)
qed


end
