(* ===== verification/Rate_Limit.thy ===== *)
theory Rate_Limit imports Errors begin

text \<open>
  The shared request budgets: \<open>RequestLimitRepository\<close> of \<^verbatim>\<open>app/repositories/request_limit.py\<close> and the
  callers of \<^verbatim>\<open>app/services/request_limit.py\<close>.

  The table \<open>request_limits\<close> has one row per key. \<open>now\<close> is the database's clock in whole seconds.
  \<open>increment_budget\<close> is the upsert \<open>INSERT ... ON CONFLICT DO UPDATE ... WHERE count < limit RETURNING count\<close>,
  whose answer is whether a row was returned. The keyed hash (\<open>hmac\<close> with SHA-256, in
  hexadecimal) is the argument \<open>hm\<close>.
\<close>

record limit_row =
  rl_key :: string
  rl_window_start :: int
  rl_count :: int

definition increment_budget :: "string \<Rightarrow> int \<Rightarrow> int \<Rightarrow> limit_row list \<Rightarrow> bool \<times> limit_row list" where
  "increment_budget key window limit t =
     (case tget rl_key key t of
        None \<Rightarrow> (True, t @ [\<lparr>rl_key = key, rl_window_start = window, rl_count = 1\<rparr>])
      | Some r \<Rightarrow> if rl_count r < limit then (True, tput rl_key (r\<lparr>rl_count := rl_count r + 1\<rparr>) t)
                  else (False, t))"

definition budget_window :: "time \<Rightarrow> int" where
  "budget_window now = now div 60 * 60"

definition consume_budget :: "time \<Rightarrow> string \<Rightarrow> int \<Rightarrow> int \<Rightarrow> limit_row list \<Rightarrow> int \<times> limit_row list" where
  "consume_budget now key limit global_limit t =
     (let window = budget_window now;
          t0 = filter (\<lambda>r. \<not> rl_window_start r < window) t;
          (global_allowed, t1) = increment_budget ''global'' window global_limit t0;
          (allowed, t2) = (if global_allowed then increment_budget key window limit t1 else (False, t1))
      in (if allowed then 0 else 60 - (now - window), t2))"

subsection \<open>The callers\<close>

definition global_budget :: int where
  "global_budget = 6000"

definition request_budget_limit :: "bool \<Rightarrow> int" where
  "request_budget_limit login = (if login then 10 else 240)"

definition consume_request_budget ::
  "(string \<Rightarrow> string) \<Rightarrow> time \<Rightarrow> string \<Rightarrow> bool \<Rightarrow> limit_row list \<Rightarrow> int \<times> limit_row list" where
  "consume_request_budget hm now client_ip login t =
     consume_budget now ((if login then ''login'' else ''api'') @ '':'' @ hm client_ip)
       (request_budget_limit login) global_budget t"

text \<open>
  The two services that check several budgets take one per iteration, each in a transaction of its
  own and with its own reading of the clock (\<open>clocks\<close>): a budget consumed before the refused one
  stays consumed.
\<close>

fun consume_each :: "time list \<Rightarrow> (string \<times> int) list \<Rightarrow> limit_row list \<Rightarrow> (app_error + unit) \<times> limit_row list" where
  "consume_each clocks [] t = (Inr (), t)"
| "consume_each clocks ((key, limit) # bs) t =
     (let (retry_after, t1) = consume_budget (hd clocks) key limit global_budget t
      in if retry_after \<noteq> 0 then (Inl (raise_cls AccountActionRateLimitedError), t1)
         else consume_each (tl clocks) bs t1)"

definition consume_email_request_budget ::
  "(string \<Rightarrow> string) \<Rightarrow> (string \<Rightarrow> string) \<Rightarrow> time list \<Rightarrow> string \<Rightarrow> string \<Rightarrow> limit_row list \<Rightarrow>
   (app_error + unit) \<times> limit_row list" where
  "consume_email_request_budget hm lower clocks identifier client_ip t =
     consume_each clocks [(''email-recipient:'' @ hm (lower identifier), 2), (''email-ip:'' @ hm client_ip, 5)] t"

definition consume_mfa_budget ::
  "(string \<Rightarrow> string) \<Rightarrow> time list \<Rightarrow> string \<Rightarrow> string \<Rightarrow> limit_row list \<Rightarrow> (app_error + unit) \<times> limit_row list" where
  "consume_mfa_budget hm clocks identifier client_ip t =
     consume_each clocks [(''mfa-user:'' @ hm identifier, 10), (''mfa-ip:'' @ hm client_ip, 30)] t"

subsection \<open>A log of requests, and what it says of the counters\<close>

text \<open>One request is its time, its key and the limit of that key; a log adds the answer.\<close>

type_synonym budget_request = "time \<times> string \<times> int"

fun budget_run :: "int \<Rightarrow> budget_request list \<Rightarrow> limit_row list \<Rightarrow> int list \<times> limit_row list" where
  "budget_run g [] t = ([], t)"
| "budget_run g ((now, key, limit) # reqs) t =
     (let (r, t1) = consume_budget now key limit g t; (rs, t2) = budget_run g reqs t1 in (r # rs, t2))"

definition attempts_in :: "(budget_request \<times> int) list \<Rightarrow> int \<Rightarrow> int" where
  "attempts_in log w = int (length (filter (\<lambda>((now, _, _), _). budget_window now = w) log))"

definition accepted_in :: "(budget_request \<times> int) list \<Rightarrow> string \<Rightarrow> int \<Rightarrow> int" where
  "accepted_in log k w =
     int (length (filter (\<lambda>((now, key, _), r). budget_window now = w \<and> key = k \<and> r = 0) log))"

text \<open>The count a row shows, as the log has it.\<close>

definition count_of :: "int \<Rightarrow> (budget_request \<times> int) list \<Rightarrow> string \<Rightarrow> int \<Rightarrow> int" where
  "count_of g log k w = (if k = ''global'' then min g (attempts_in log w) else accepted_in log k w)"

definition row_for :: "int \<Rightarrow> string \<Rightarrow> int \<Rightarrow> limit_row option" where
  "row_for c k w = (if c = 0 then None else Some \<lparr>rl_key = k, rl_window_start = w, rl_count = c\<rparr>)"

definition budget_inv :: "int \<Rightarrow> (budget_request \<times> int) list \<Rightarrow> int \<Rightarrow> limit_row list \<Rightarrow> bool" where
  "budget_inv g log w t \<longleftrightarrow>
     (\<forall>r \<in> set t. rl_window_start r = w) \<and> (\<forall>k. tget rl_key k t = row_for (count_of g log k w) k w) \<and>
     (\<forall>((now, key, _), _) \<in> set log. budget_window now \<le> w \<and> key \<noteq> ''global'')"

lemma budget_window_mono: "a \<le> b \<Longrightarrow> budget_window a \<le> budget_window b"
  by (simp add: budget_window_def zdiv_mono1)

lemma budget_window_bounds: "budget_window now \<le> now" "now - budget_window now < 60"
  unfolding budget_window_def by presburger+

lemma attempts_nonneg [simp]: "0 \<le> attempts_in log w"
  by (simp add: attempts_in_def)

lemma accepted_nonneg [simp]: "0 \<le> accepted_in log k w"
  by (simp add: accepted_in_def)

lemma attempts_append [simp]:
  "attempts_in (log @ [((now, key, limit), r)]) w = attempts_in log w + (if budget_window now = w then 1 else 0)"
  by (simp add: attempts_in_def)

lemma accepted_append [simp]:
  "accepted_in (log @ [((now, key, limit), r)]) k w =
     accepted_in log k w + (if budget_window now = w \<and> key = k \<and> r = 0 then 1 else 0)"
  by (simp add: accepted_in_def)

lemma no_counts_later:
  assumes "\<forall>((now, key, _), _) \<in> set log. budget_window now \<le> w \<and> key \<noteq> ''global''" and "w < w'"
  shows "attempts_in log w' = 0" and "accepted_in log k w' = 0"
  using assms by (fastforce simp: attempts_in_def accepted_in_def filter_empty_conv)+

lemma budget_inv_advance:
  assumes "budget_inv g log w t" and "w \<le> w'" and "0 < g"
  shows "budget_inv g log w' (filter (\<lambda>r. \<not> rl_window_start r < w') t)"
proof (cases "w = w'")
  case True
  then have "filter (\<lambda>r. \<not> rl_window_start r < w') t = t"
    using assms by (auto simp: budget_inv_def intro: filter_True)
  with True assms show ?thesis by simp
next
  case False
  then have gt: "w < w'" using assms by simp
  have "filter (\<lambda>r. \<not> rl_window_start r < w') t = []"
    using assms gt by (auto simp: budget_inv_def filter_empty_conv)
  then show ?thesis
    using assms gt no_counts_later [of log w w'] by (fastforce simp: budget_inv_def count_of_def row_for_def)
qed

text \<open>One increment, on a table whose rows are those the counts \<open>c\<close> describe.\<close>

definition counts_table :: "(string \<Rightarrow> int) \<Rightarrow> int \<Rightarrow> limit_row list \<Rightarrow> bool" where
  "counts_table c w t \<longleftrightarrow>
     (\<forall>r \<in> set t. rl_window_start r = w) \<and> (\<forall>k. tget rl_key k t = row_for (c k) k w) \<and> (\<forall>k. 0 \<le> c k)"

lemma increment_counts:
  assumes "counts_table c w t" and "0 < limit"
  shows "fst (increment_budget key w limit t) \<longleftrightarrow> c key < limit"
    and "counts_table (c(key := c key + (if c key < limit then 1 else 0))) w (snd (increment_budget key w limit t))"
proof -
  have row: "tget rl_key k t = row_for (c k) k w" for k
    using assms by (simp add: counts_table_def)
  have win: "\<forall>r \<in> set t. rl_window_start r = w" and pos: "\<forall>k. 0 \<le> c k"
    using assms by (simp_all add: counts_table_def)
  show "fst (increment_budget key w limit t) \<longleftrightarrow> c key < limit"
    using row [of key] assms(2) by (auto simp: increment_budget_def row_for_def)
  let ?t = "snd (increment_budget key w limit t)"
  have "\<forall>r \<in> set ?t. rl_window_start r = w"
    using row [of key] win set_tput_subset [of rl_key _ t]
    by (fastforce simp: increment_budget_def row_for_def split: if_splits)
  moreover have "tget rl_key k ?t = row_for ((c(key := c key + (if c key < limit then 1 else 0))) k) k w" for k
  proof (cases "c key = 0")
    case True
    then show ?thesis
      using row [of key] row [of k] assms(2)
      by (auto simp: increment_budget_def row_for_def tget_append)
  next
    case False
    have "c key + 1 \<noteq> 0" using pos by (metis add.commute add_eq_0_iff neg_le_0_iff_le not_one_le_zero)
    with False show ?thesis
      using row [of key] row [of k]
      by (auto simp: increment_budget_def row_for_def tget_tput)
  qed
  ultimately show "counts_table (c(key := c key + (if c key < limit then 1 else 0))) w ?t"
    using pos by (auto simp: counts_table_def)
qed

lemma inv_counts: "budget_inv g log w t \<Longrightarrow> 0 < g \<Longrightarrow> counts_table (\<lambda>k. count_of g log k w) w t"
  by (auto simp: budget_inv_def counts_table_def count_of_def)

text \<open>The exact decision of one request, and the log one longer.\<close>

lemma consume_step:
  assumes inv: "budget_inv g log w t" and le: "w \<le> budget_window now"
    and key: "key \<noteq> ''global''" and g: "0 < g" and limit: "0 < limit"
  defines "w' \<equiv> budget_window now"
  shows "fst (consume_budget now key limit g t) = 0 \<longleftrightarrow>
           attempts_in log w' < g \<and> accepted_in log key w' < limit"
    and "budget_inv g (log @ [((now, key, limit), fst (consume_budget now key limit g t))]) w'
           (snd (consume_budget now key limit g t))"
proof -
  let ?t0 = "filter (\<lambda>r. \<not> rl_window_start r < w') t"
  let ?c = "\<lambda>k. count_of g log k w'"
  have inv0: "budget_inv g log w' ?t0"
    using budget_inv_advance [OF inv le g] by (simp add: w'_def)
  have c0: "counts_table ?c w' ?t0" by (rule inv_counts [OF inv0 g])
  obtain a1 t1 where i1: "increment_budget ''global'' w' g ?t0 = (a1, t1)" by fastforce
  obtain a2 t2 where i2: "increment_budget key w' limit t1 = (a2, t2)" by fastforce
  define c1 where "c1 = ?c(''global'' := ?c ''global'' + (if ?c ''global'' < g then 1 else 0))"
  define c2 where "c2 = c1(key := c1 key + (if c1 key < limit then 1 else 0))"
  have ok1: "a1 \<longleftrightarrow> attempts_in log w' < g"
    using increment_counts(1) [OF c0 g, of "''global''"] by (auto simp: count_of_def i1)
  have tab1: "counts_table c1 w' t1"
    using increment_counts(2) [OF c0 g, of "''global''"] by (simp add: c1_def i1)
  have ok2: "a2 \<longleftrightarrow> accepted_in log key w' < limit"
    using increment_counts(1) [OF tab1 limit, of key] key by (simp add: count_of_def i2 c1_def)
  have tab2: "counts_table c2 w' t2"
    using increment_counts(2) [OF tab1 limit, of key] by (simp add: c2_def i2)
  have run: "consume_budget now key limit g t =
      (if a1 \<and> a2 then 0 else 60 - (now - w'), if a1 then t2 else t1)"
    unfolding consume_budget_def w'_def [symmetric] Let_def i1 by (simp add: i2)
  have nz: "60 - (now - w') \<noteq> 0" using budget_window_bounds [of now] by (simp add: w'_def)
  show dec: "fst (consume_budget now key limit g t) = 0 \<longleftrightarrow>
      attempts_in log w' < g \<and> accepted_in log key w' < limit"
    using nz by (simp add: run ok1 ok2)
  let ?log = "log @ [((now, key, limit), fst (consume_budget now key limit g t))]"
  let ?t = "snd (consume_budget now key limit g t)"
  have tab: "counts_table (if a1 then c2 else c1) w' ?t"
    unfolding run using tab1 tab2 by (cases a1) simp_all
  have c1_eq: "c1 k = (if k = ''global'' then min g (attempts_in log w' + 1) else accepted_in log k w')" for k
    using g by (simp add: c1_def count_of_def)
  have c2_eq: "c2 k = (if k = ''global'' then min g (attempts_in log w' + 1)
      else accepted_in log k w' + (if k = key \<and> a2 then 1 else 0))" for k
    using key by (simp add: c2_def c1_eq ok2)
  have cnt: "count_of g ?log k w' = (if a1 then c2 else c1) k" for k
    using dec ok1 ok2 by (cases a1; cases "k = ''global''"; cases "k = key")
      (simp_all add: count_of_def c1_eq c2_eq w'_def [symmetric])
  have rows: "\<forall>r \<in> set ?t. rl_window_start r = w'"
    and get: "\<forall>k. tget rl_key k ?t = row_for (count_of g ?log k w') k w'"
    using tab unfolding counts_table_def cnt by blast+
  have "\<forall>((n, k, _), _) \<in> set ?log. budget_window n \<le> w' \<and> k \<noteq> ''global''"
    using inv0 key by (auto simp: budget_inv_def w'_def)
  with rows get show "budget_inv g ?log w' ?t" by (simp add: budget_inv_def)
qed

subsection \<open>The decision over a whole history\<close>

definition proper_requests :: "budget_request list \<Rightarrow> bool" where
  "proper_requests reqs \<longleftrightarrow>
     sorted (map fst reqs) \<and> (\<forall>(now, key, limit) \<in> set reqs. key \<noteq> ''global'' \<and> 0 < limit)"

lemma length_budget_run [simp]: "length (fst (budget_run g reqs t)) = length reqs"
  by (induction g reqs t rule: budget_run.induct) (auto split: prod.splits simp: Let_def)

lemma budget_run_inv:
  assumes "budget_inv g log w t" and "0 < g" and "proper_requests (reqs @ [(now, key, limit)])"
    and "\<forall>(n, k, l) \<in> set (reqs @ [(now, key, limit)]). w \<le> budget_window n"
  shows "\<exists>w' \<le> budget_window now.
    budget_inv g (log @ zip reqs (fst (budget_run g reqs t))) w' (snd (budget_run g reqs t))"
  using assms
proof (induction reqs arbitrary: log w t)
  case Nil
  then show ?case by auto
next
  case (Cons req reqs)
  obtain n k l where req: "req = (n, k, l)" by (cases req)
  obtain r t1 where c: "consume_budget n k l g t = (r, t1)" by fastforce
  have kl: "k \<noteq> ''global''" "0 < l" and srt: "sorted (map fst (req # reqs @ [(now, key, limit)]))"
    and w: "w \<le> budget_window n"
    using Cons.prems by (auto simp: proper_requests_def req)
  have inv1: "budget_inv g (log @ [((n, k, l), r)]) (budget_window n) t1"
    using consume_step(2) [OF Cons.prems(1) w kl(1) Cons.prems(2) kl(2)] by (simp add: c)
  have later: "\<forall>(n', k', l') \<in> set (reqs @ [(now, key, limit)]). budget_window n \<le> budget_window n'"
    using srt by (fastforce simp: req intro: budget_window_mono)
  have "proper_requests (reqs @ [(now, key, limit)])"
    using Cons.prems(3) by (auto simp: proper_requests_def)
  from Cons.IH [OF inv1 Cons.prems(2) this later] show ?case
    by (auto simp: req c Let_def split: prod.splits)
qed

text \<open>
  C31: the counters decide exactly. After any history of requests in the order of the database's
  clock, a request is let through if and only if fewer than the global limit of requests came
  in this minute and fewer than its own limit of requests with its key were let through in it:
  no limit is ever exceeded, and nothing below the limits is refused.
\<close>

theorem rate_limit_exact:
  assumes "proper_requests (reqs @ [(now, key, limit)])" and "0 < g"
  defines "log \<equiv> zip reqs (fst (budget_run g reqs []))"
  shows "fst (consume_budget now key limit g (snd (budget_run g reqs []))) = 0 \<longleftrightarrow>
     attempts_in log (budget_window now) < g \<and> accepted_in log key (budget_window now) < limit"
proof -
  define w where "w = Min (budget_window ` fst ` set (reqs @ [(now, key, limit)]))"
  have "\<forall>(n, k, l) \<in> set (reqs @ [(now, key, limit)]). w \<le> budget_window n"
    unfolding w_def by (force intro: Min_le)
  moreover have "budget_inv g [] w []"
    using assms(2) by (auto simp: budget_inv_def count_of_def row_for_def attempts_in_def accepted_in_def)
  ultimately obtain w' where "w' \<le> budget_window now"
    and "budget_inv g log w' (snd (budget_run g reqs []))"
    using budget_run_inv [of g "[]" w "[]" reqs now key limit] assms by auto
  moreover have "key \<noteq> ''global''" "0 < limit"
    using assms(1) by (auto simp: proper_requests_def)
  ultimately show ?thesis
    using consume_step(1) [of g log w' "snd (budget_run g reqs [])" now key limit] assms(2) by blast
qed

definition login_burst :: "budget_request list" where
  "login_burst = [(120, ''a'', 2), (121, ''a'', 2), (150, ''b'', 2), (179, ''a'', 2)]"

lemma rate_limit_exact_witness:
  "fst (consume_budget 179 ''a'' 2 5 (snd (budget_run 5 login_burst []))) \<noteq> 0 \<and>
   fst (consume_budget 180 ''a'' 2 5 (snd (budget_run 5 login_burst []))) = 0"
proof -
  have p: "proper_requests (login_burst @ [(179, ''a'', 2)])" "proper_requests (login_burst @ [(180, ''a'', 2)])"
    by (simp_all add: proper_requests_def login_burst_def)
  have "\<not> accepted_in (zip login_burst (fst (budget_run 5 login_burst []))) ''a'' (budget_window 179) < 2"
    "attempts_in (zip login_burst (fst (budget_run 5 login_burst []))) (budget_window 180) < 5"
    "accepted_in (zip login_burst (fst (budget_run 5 login_burst []))) ''a'' (budget_window 180) < 2"
    by code_simp+
  then show ?thesis
    using rate_limit_exact [OF p(1), of 5] rate_limit_exact [OF p(2), of 5] by simp
qed

subsection \<open>The Retry-After of a refusal\<close>

lemma increment_windows:
  assumes "\<forall>row \<in> set u. rl_window_start row \<le> w"
  shows "\<forall>row \<in> set (snd (increment_budget k w l u)). rl_window_start row \<le> w"
proof (cases "tget rl_key k u")
  case None
  then show ?thesis using assms by (simp add: increment_budget_def)
next
  case (Some r)
  then have "rl_window_start r \<le> w" using assms tget_SomeD [OF Some] by simp
  then show ?thesis
    using Some assms by (auto simp: increment_budget_def tput_def)
qed

text \<open>
  a refused request is told to wait between 1 and 60 seconds, exactly until the next minute
  begins; the counters of this minute are gone then, so the request is let through if none
  other came in between.
\<close>

theorem retry_after_next_window:
  assumes "consume_budget now key limit g t = (r, t')" and "r \<noteq> 0"
    and "\<forall>row \<in> set t. rl_window_start row \<le> budget_window now" and "key \<noteq> ''global''"
  shows "1 \<le> r \<and> r \<le> 60 \<and> now + r = budget_window now + 60 \<and>
     fst (consume_budget (now + r) key limit g t') = 0"
proof -
  obtain t1 t2 a1 a2 where i1: "increment_budget ''global'' (budget_window now) g
        (filter (\<lambda>r. \<not> rl_window_start r < budget_window now) t) = (a1, t1)"
    and i2: "increment_budget key (budget_window now) limit t1 = (a2, t2)"
    by (metis surj_pair)
  have r: "r = 60 - (now - budget_window now)" and t': "t' = (if a1 then t2 else t1)"
    using assms(1,2) by (auto simp: consume_budget_def Let_def i1 i2 split: if_splits)
  have w1: "\<forall>row \<in> set t1. rl_window_start row \<le> budget_window now"
    using increment_windows [of "filter (\<lambda>r. \<not> rl_window_start r < budget_window now) t" "budget_window now" "''global''" g]
      assms(3) by (simp add: i1)
  have "\<forall>row \<in> set t'. rl_window_start row \<le> budget_window now"
    using w1 increment_windows [OF w1, of key limit] by (simp add: t' i2)
  moreover have next_window: "now + r = budget_window now + 60" by (simp add: r)
  moreover have "budget_window (now + r) = budget_window now + 60"
    unfolding next_window by (simp add: budget_window_def)
  ultimately have "filter (\<lambda>row. \<not> rl_window_start row < budget_window (now + r)) t' = []"
    by (auto simp: filter_empty_conv)
  then have "fst (consume_budget (now + r) key limit g t') = 0"
    using assms(4) by (simp add: consume_budget_def Let_def increment_budget_def tget_Cons)
  with next_window budget_window_bounds [of now] show ?thesis by simp
qed

lemma retry_after_next_window_witness:
  "fst (consume_budget (150 + 30) ''a'' 2 5
     (snd (consume_budget 150 ''a'' 2 5 [\<lparr>rl_key = ''a'', rl_window_start = 120, rl_count = 2\<rparr>]))) = 0"
proof -
  let ?t = "[\<lparr>rl_key = ''a'', rl_window_start = 120, rl_count = 2\<rparr>]"
  have w: "budget_window 150 = 120" by (simp add: budget_window_def)
  have "fst (consume_budget 150 ''a'' 2 5 ?t) = 30" by code_simp
  then have run: "consume_budget 150 ''a'' 2 5 ?t = (30, snd (consume_budget 150 ''a'' 2 5 ?t))"
    by (metis prod.collapse)
  show ?thesis
    using retry_after_next_window [OF run] by (simp add: w)
qed

end
