(* ===== verification/Ingress.thy ===== *)
theory Ingress imports Rate_Limit Complex_Main begin

text \<open>
  The gate in front of the application: \<open>IngressMiddleware\<close> (\<^verbatim>\<open>app/core/ingress.py\<close>) and the CSRF check
  (\<^verbatim>\<open>app/core/csrf.py\<close>, \<open>CsrfMiddleware\<close> of \<^verbatim>\<open>app/core/middleware.py\<close>).

  The process keeps one bucket per client address and kind of request, with the start of its window on
  the monotonic clock (a rational number of seconds), before it asks the shared limits of \<open>Rate_Limit\<close>.
  The realm of a request, the parsing of an address (\<open>ie_parse_ip\<close>, \<open>None\<close> for a \<open>ValueError\<close>) and the two keyed digests
  are part of the environment.
\<close>

record ingress_request =
  ir_path :: string
  ir_method :: string
  ir_bff_key :: "string option"
  ir_client_ip :: "string option"
  ir_client_host :: "string option"
  ir_demo_realm :: bool
  ir_auth_cookie :: bool
  ir_mfa_cookie :: bool
  ir_csrf_cookie :: "string option"
  ir_csrf_header :: "string option"

record ingress_env =
  ie_secret :: string
  ie_public :: bool
  ie_mcp_enabled :: bool
  ie_demo_mode :: bool
  ie_parse_ip :: "string \<Rightarrow> string option"
  ie_hmac :: "string \<Rightarrow> string"
  ie_demo_hmac :: "string \<Rightarrow> string"

record bucket =
  bk_key :: "string \<times> bool"
  bk_start :: rat
  bk_count :: int

record ingress_state =
  is_buckets :: "bucket list"
  is_limits :: "limit_row list"
  is_demo_limits :: "limit_row list"

datatype ingress_answer = Passed | Forbidden | Unavailable | Limited int

subsection \<open>IngressMiddleware\<close>

definition header_or_empty :: "string option \<Rightarrow> string" where
  "header_or_empty h = (case h of None \<Rightarrow> '''' | Some s \<Rightarrow> s)"

definition trusted_client_ip :: "ingress_env \<Rightarrow> ingress_request \<Rightarrow> string" where
  "trusted_client_ip env r =
     (let direct = (case ir_client_host r of None \<Rightarrow> ''unknown'' | Some h \<Rightarrow> h) in
      if ie_secret env \<noteq> '''' \<and> header_or_empty (ir_bff_key r) = ie_secret env then
        (case ie_parse_ip env (header_or_empty (ir_client_ip r)) of Some ip \<Rightarrow> ip | None \<Rightarrow> direct)
      else direct)"

definition mcp_routes :: "(string \<times> string) list" where
  "mcp_routes =
     [(''GET'', ''/.well-known/openai-apps-challenge''), (''GET'', ''/.well-known/oauth-protected-resource/mcp''),
      (''POST'', ''/mcp''), (''GET'', ''/mcp''), (''DELETE'', ''/mcp''), (''GET'', ''/.well-known/oauth-authorization-server''),
      (''GET'', ''/oauth/authorize''), (''POST'', ''/oauth/token''), (''POST'', ''/oauth/exchange''),
      (''POST'', ''/oauth/revoke''), (''GET'', ''/integrations/mcp/catalog''), (''POST'', ''/integrations/mcp/operations'')]"

definition is_direct_mcp_request :: "ingress_env \<Rightarrow> string \<Rightarrow> string \<Rightarrow> bool" where
  "is_direct_mcp_request env path method \<longleftrightarrow> ie_mcp_enabled env \<and> (method, path) \<in> set mcp_routes"

definition rstrip_slash :: "string \<Rightarrow> string" where
  "rstrip_slash s = rev (dropWhile (\<lambda>c. c = CHR ''/'') (rev s))"

definition exempt_request :: "ingress_request \<Rightarrow> bool" where
  "exempt_request r \<longleftrightarrow> (ir_path r = ''/'' \<and> ir_method r \<in> {''GET'', ''HEAD''}) \<or>
     (ir_path r \<in> {''/internal/demo/cleanup'', ''/internal/trash/cleanup'', ''/internal/approval-mail/deliver''} \<and>
      ir_method r = ''GET'')"

definition login_request_path :: "string \<Rightarrow> bool" where
  "login_request_path path \<longleftrightarrow> rstrip_slash path \<in> {''/auth/login'', ''/oauth/authorize'', ''/oauth/token''}"

definition window_seconds :: rat where "window_seconds = 60"

definition max_buckets :: nat where "max_buckets = 10000"

definition limited_response :: "int \<Rightarrow> ingress_answer" where
  "limited_response retry_after = Limited (max 1 retry_after)"

text \<open>The bucket of the process: the answer, if it refuses, and the new buckets.\<close>

definition put_bucket :: "bucket \<Rightarrow> bucket list \<Rightarrow> bucket list" where
  "put_bucket b bs = (if bk_key b \<in> bk_key ` set bs then tput bk_key b bs else bs @ [b])"

definition process_bucket :: "rat \<Rightarrow> string \<times> bool \<Rightarrow> bucket list \<Rightarrow> ingress_answer option \<times> bucket list" where
  "process_bucket now key buckets =
     (let (start0, count0) = (case tget bk_key key buckets of None \<Rightarrow> (now, 0) | Some b \<Rightarrow> (bk_start b, bk_count b));
          (start, count) = (if window_seconds \<le> now - start0 then (now, 0) else (start0, count0));
          full = (key \<notin> bk_key ` set buckets \<and> max_buckets \<le> length buckets);
          kept = (if full then filter (\<lambda>b. now - bk_start b < window_seconds) buckets else buckets)
      in if full \<and> max_buckets \<le> length kept then (Some (limited_response 60), kept)
         else if request_budget_limit (snd key) \<le> count
              then (Some (limited_response \<lceil>window_seconds - (now - start)\<rceil>), kept)
              else (None, put_bucket \<lparr>bk_key = key, bk_start = start, bk_count = count + 1\<rparr> kept))"

text \<open>\<open>now\<close>: the monotonic clock; \<open>db_now\<close>: the database's; \<open>db_up\<close>: no \<open>SQLAlchemyError\<close>.\<close>

definition ingress_dispatch ::
  "ingress_env \<Rightarrow> rat \<Rightarrow> time \<Rightarrow> bool \<Rightarrow> ingress_request \<Rightarrow> ingress_state \<Rightarrow> ingress_answer \<times> ingress_state" where
  "ingress_dispatch env now db_now db_up r st =
     (if exempt_request r then (Passed, st)
      else if ie_secret env = '''' then (Passed, st)
      else
        (let direct = is_direct_mcp_request env (ir_path r) (ir_method r) in
         if \<not> direct \<and> header_or_empty (ir_bff_key r) \<noteq> ie_secret env then (Forbidden, st)
         else if \<not> ie_public env then (Passed, st)
         else
           (let ip = trusted_client_ip env r;
                login = login_request_path (ir_path r);
                (refused, buckets) = process_bucket now (ip, login) (is_buckets st);
                st1 = st\<lparr>is_buckets := buckets\<rparr>
            in case refused of
                 Some a \<Rightarrow> (a, st1)
               | None \<Rightarrow>
                   (let demo = (\<not> login \<and> \<not> direct \<and>
                          (ir_demo_realm r \<or> (ie_demo_mode env \<and> ir_path r \<in> {''/demo/start'', ''/demo/csrf''})))
                    in if \<not> db_up then (Unavailable, st1)
                       else if demo then
                         (let (retry, t) = consume_request_budget (ie_demo_hmac env) db_now ip login (is_demo_limits st1)
                          in (if retry \<noteq> 0 then limited_response retry else Passed, st1\<lparr>is_demo_limits := t\<rparr>))
                       else
                         (let (retry, t) = consume_request_budget (ie_hmac env) db_now ip login (is_limits st1)
                          in (if retry \<noteq> 0 then limited_response retry else Passed, st1\<lparr>is_limits := t\<rparr>))))))"

subsection \<open>The CSRF check\<close>

definition should_check_csrf :: "ingress_request \<Rightarrow> bool" where
  "should_check_csrf r \<longleftrightarrow> map upper_char (ir_method r) \<notin> {''GET'', ''HEAD'', ''OPTIONS'', ''TRACE''} \<and>
     ir_path r \<noteq> ''/auth/login'' \<and> (ir_auth_cookie r \<or> ir_mfa_cookie r \<or> ir_path r = ''/demo/start'')"


text \<open>\<open>hmac.compare_digest\<close> of two strings raises a \<open>TypeError\<close> (\<open>None\<close>) unless both are ASCII.\<close>

definition compare_digest :: "string \<Rightarrow> string \<Rightarrow> bool option" where
  "compare_digest a b = (if is_ascii a \<and> is_ascii b then Some (a = b) else None)"

definition is_valid_csrf_request :: "ingress_request \<Rightarrow> bool option" where
  "is_valid_csrf_request r =
     (case (ir_csrf_cookie r, ir_csrf_header r) of
        (Some cookie, Some header) \<Rightarrow> compare_digest cookie header
      | _ \<Rightarrow> Some False)"

text \<open>\<open>CsrfMiddleware\<close>: the error answered, \<open>Inr\<close> if the request goes on; the outer sum's \<open>Inl\<close> is the \<open>TypeError\<close>.\<close>

definition csrf_dispatch :: "ingress_request \<Rightarrow> unit + app_error + unit" where
  "csrf_dispatch r =
     (if \<not> should_check_csrf r then Inr (Inr ())
      else case is_valid_csrf_request r of
             None \<Rightarrow> Inl ()
           | Some valid \<Rightarrow> Inr (if valid then Inr () else Inl (raise_cls CsrfTokenInvalidError)))"

lemma csrf_passes_iff:
  "csrf_dispatch r = Inr (Inr ()) \<longleftrightarrow>
     \<not> should_check_csrf r \<or> (\<exists>t. ir_csrf_cookie r = Some t \<and> ir_csrf_header r = Some t \<and> is_ascii t)"
  by (auto simp: csrf_dispatch_def is_valid_csrf_request_def compare_digest_def split: option.splits)

text \<open>A token that is not ASCII is answered by an internal error instead of the refusal.\<close>

lemma csrf_not_ascii:
  assumes "should_check_csrf r" and "ir_csrf_cookie r = Some a" and "ir_csrf_header r = Some b" and "\<not> is_ascii b"
  shows "csrf_dispatch r = Inl ()"
  using assms by (simp add: csrf_dispatch_def is_valid_csrf_request_def compare_digest_def)

subsection \<open>Histories of requests\<close>

record ingress_event =
  ev_now :: rat
  ev_db_now :: time
  ev_db_up :: bool
  ev_request :: ingress_request

definition event_key :: "ingress_env \<Rightarrow> ingress_event \<Rightarrow> string \<times> bool" where
  "event_key env e = (trusted_client_ip env (ev_request e), login_request_path (ir_path (ev_request e)))"

text \<open>The log has the time and key of each request that passed and is not exempt.\<close>

fun ingress_run ::
  "ingress_env \<Rightarrow> ingress_event list \<Rightarrow> ingress_state \<Rightarrow> (rat \<times> string \<times> bool) list \<times> ingress_state" where
  "ingress_run env [] st = ([], st)"
| "ingress_run env (e # es) st =
     (let (a, st1) = ingress_dispatch env (ev_now e) (ev_db_now e) (ev_db_up e) (ev_request e) st;
          (lg, st2) = ingress_run env es st1
      in ((if a = Passed \<and> \<not> exempt_request (ev_request e) then [(ev_now e, event_key env e)] else []) @ lg, st2))"

definition passes_since :: "(rat \<times> string \<times> bool) list \<Rightarrow> string \<times> bool \<Rightarrow> rat \<Rightarrow> int" where
  "passes_since lg k s = int (length (filter (\<lambda>p. snd p = k \<and> s \<le> fst p) lg))"

text \<open>
  The invariant of the buckets at the time \<open>last\<close>: they are within their bounds, each counts every request of
  its key that passed in its window, and a key without a bucket let nothing through just now.
\<close>

definition buckets_ok :: "(rat \<times> string \<times> bool) list \<Rightarrow> rat \<Rightarrow> bucket list \<Rightarrow> bool" where
  "buckets_ok lg tm bs \<longleftrightarrow> distinct (map bk_key bs) \<and> length bs \<le> max_buckets \<and>
     (\<forall>b \<in> set bs. bk_count b \<le> request_budget_limit (snd (bk_key b)) \<and> bk_start b \<le> tm \<and>
        passes_since lg (bk_key b) (bk_start b) \<le> bk_count b) \<and>
     (\<forall>p \<in> set lg. (\<exists>b \<in> set bs. bk_key b = snd p \<and> fst p < bk_start b + window_seconds) \<or>
        (snd p \<notin> bk_key ` set bs \<and> fst p < tm))"

lemma passes_none: "(\<And>p. p \<in> set lg \<Longrightarrow> snd p = k \<Longrightarrow> fst p < s) \<Longrightarrow> passes_since lg k s = 0"
  by (fastforce simp: passes_since_def filter_empty_conv)

lemma passes_snoc: "passes_since (lg @ [(t, k')]) k s = passes_since lg k s + (if k' = k \<and> s \<le> t then 1 else 0)"
  by (simp add: passes_since_def)

lemma limit_pos: "1 \<le> request_budget_limit l"
  by (simp add: request_budget_limit_def)

lemma buckets_log:
  "buckets_ok lg tm bs \<Longrightarrow> p \<in> set lg \<Longrightarrow>
   (\<exists>b \<in> set bs. bk_key b = snd p \<and> fst p < bk_start b + window_seconds) \<or> (snd p \<notin> bk_key ` set bs \<and> fst p < tm)"
  unfolding buckets_ok_def by blast

text \<open>The buckets that are kept.\<close>

lemma buckets_evicted:
  assumes "buckets_ok lg tm bs" and "tm \<le> now"
  shows "buckets_ok lg now (filter (\<lambda>b. now - bk_start b < window_seconds) bs)"
proof -
  let ?bs = "filter (\<lambda>b. now - bk_start b < window_seconds) bs"
  have "(\<exists>b \<in> set ?bs. bk_key b = snd p \<and> fst p < bk_start b + window_seconds) \<or> (snd p \<notin> bk_key ` set ?bs \<and> fst p < now)"
    if "p \<in> set lg" for p
  proof (cases "\<exists>b \<in> set bs. bk_key b = snd p \<and> fst p < bk_start b + window_seconds")
    case True
    then obtain b where b: "b \<in> set bs" "bk_key b = snd p" "fst p < bk_start b + window_seconds" by blast
    show ?thesis
    proof (cases "now - bk_start b < window_seconds")
      case False
      have "inj_on bk_key (set bs)" using assms(1) by (simp add: buckets_ok_def distinct_map)
      then have "snd p \<notin> bk_key ` set ?bs" using b False by (auto dest: inj_onD)
      with b False show ?thesis by simp
    qed (use b in auto)
  next
    case False
    with buckets_log [OF assms(1) that] have "snd p \<notin> bk_key ` set bs" "fst p < tm" by blast+
    with assms(2) show ?thesis by auto
  qed
  moreover have "length ?bs \<le> max_buckets"
    using assms(1) le_trans [OF length_filter_le] unfolding buckets_ok_def by blast
  moreover have "distinct (map bk_key ?bs)"
    using assms(1) by (simp add: buckets_ok_def distinct_map_filter)
  ultimately show ?thesis using assms unfolding buckets_ok_def by (auto intro: order_trans)
qed

lemma buckets_later: "buckets_ok lg tm bs \<Longrightarrow> tm \<le> now \<Longrightarrow> buckets_ok lg now bs"
  unfolding buckets_ok_def by fastforce


lemma buckets_put:
  assumes "buckets_ok lg now bs" and "bk_start b \<le> now" and "bk_count b \<le> request_budget_limit (snd (bk_key b))"
    and "passes_since lg (bk_key b) (bk_start b) \<le> bk_count b"
    and "bk_key b \<in> bk_key ` set bs \<or> length bs < max_buckets"
    and "\<And>p. p \<in> set lg \<Longrightarrow> snd p = bk_key b \<Longrightarrow> fst p < bk_start b + window_seconds"
  shows "buckets_ok lg now (put_bucket b bs)"
proof -
  have b: "b \<in> set (put_bucket b bs)"
    by (auto simp: put_bucket_def tput_def)
  have rows: "x \<in> set (put_bucket b bs) \<Longrightarrow> x = b \<or> x \<in> set bs \<and> bk_key x \<noteq> bk_key b" for x
    using imageI [of x "set bs" bk_key] by (cases "bk_key x = bk_key b") (auto simp: put_bucket_def dest: tput_mem split: if_splits)
  have others: "x \<in> set bs \<Longrightarrow> bk_key x \<noteq> bk_key b \<Longrightarrow> x \<in> set (put_bucket b bs)" for x
    by (auto simp: put_bucket_def tput_def)
  have "(\<exists>x \<in> set (put_bucket b bs). bk_key x = snd p \<and> fst p < bk_start x + window_seconds) \<or>
      (snd p \<notin> bk_key ` set (put_bucket b bs) \<and> fst p < now)" if p: "p \<in> set lg" for p
  proof (cases "snd p = bk_key b")
    case True
    with assms(6) [OF p] b show ?thesis by auto
  next
    case False
    from buckets_log [OF assms(1) p] show ?thesis
    proof
      assume "\<exists>x \<in> set bs. bk_key x = snd p \<and> fst p < bk_start x + window_seconds"
      then obtain x where "x \<in> set bs" "bk_key x = snd p" "fst p < bk_start x + window_seconds" by blast
      with others [of x] False show ?thesis by auto
    next
      assume n: "snd p \<notin> bk_key ` set bs \<and> fst p < now"
      have "snd p \<notin> bk_key ` set (put_bucket b bs)"
      proof
        assume "snd p \<in> bk_key ` set (put_bucket b bs)"
        then obtain x where "x \<in> set (put_bucket b bs)" "snd p = bk_key x" by blast
        with rows [of x] False n show False by auto
      qed
      with n show ?thesis by blast
    qed
  qed
  moreover have "distinct (map bk_key (put_bucket b bs)) \<and> length (put_bucket b bs) \<le> max_buckets"
    using assms(1,5) by (auto simp: put_bucket_def buckets_ok_def)
  moreover have "bk_count x \<le> request_budget_limit (snd (bk_key x)) \<and> bk_start x \<le> now \<and>
      passes_since lg (bk_key x) (bk_start x) \<le> bk_count x" if "x \<in> set (put_bucket b bs)" for x
    using rows [OF that] assms(1-4) by (auto simp: buckets_ok_def)
  ultimately show ?thesis unfolding buckets_ok_def by blast
qed

lemma buckets_snoc:
  assumes "buckets_ok lg now bs" and "b \<in> set bs" and "passes_since lg (bk_key b) (bk_start b) + 1 \<le> bk_count b"
    and "now < bk_start b + window_seconds"
  shows "buckets_ok (lg @ [(now, bk_key b)]) now bs"
proof -
  have "inj_on bk_key (set bs)" using assms(1) by (simp add: buckets_ok_def distinct_map)
  then have same: "x \<in> set bs \<Longrightarrow> bk_key x = bk_key b \<Longrightarrow> x = b" for x
    using assms(2) by (auto dest: inj_onD)
  have "passes_since (lg @ [(now, bk_key b)]) (bk_key x) (bk_start x) \<le> bk_count x" if "x \<in> set bs" for x
  proof (cases "bk_key x = bk_key b")
    case True
    with same that have "x = b" by blast
    with assms(3) show ?thesis by (simp add: passes_snoc)
  next
    case False
    with assms(1) that show ?thesis by (auto simp: passes_snoc buckets_ok_def)
  qed
  with assms show ?thesis unfolding buckets_ok_def by auto
qed

lemma process_bucket_refuses: "process_bucket now key bs = (Some a, bs') \<Longrightarrow> a \<noteq> Passed"
  by (auto simp: process_bucket_def limited_response_def Let_def case_prod_unfold split: if_splits)

lemma bucket_step:
  assumes "buckets_ok lg tm bs" and "tm \<le> now" and "process_bucket now key bs = (a, bs')"
  shows "buckets_ok lg now bs' \<and> (a = None \<longrightarrow> buckets_ok (lg @ [(now, key)]) now bs')"
proof -
  define full where "full \<longleftrightarrow> key \<notin> bk_key ` set bs \<and> max_buckets \<le> length bs"
  define kept where "kept = (if full then filter (\<lambda>b. now - bk_start b < window_seconds) bs else bs)"
  define c0 where "c0 = (case tget bk_key key bs of None \<Rightarrow> (now, 0) | Some b \<Rightarrow> (bk_start b, bk_count b))"
  define c where "c = (if window_seconds \<le> now - fst c0 then (now, 0) else c0)"
  let ?b = "\<lparr>bk_key = key, bk_start = fst c, bk_count = snd c + 1\<rparr>"
  have kept: "buckets_ok lg now kept"
    using buckets_evicted [OF assms(1,2)] buckets_later [OF assms(1,2)] by (simp add: kept_def)
  have "process_bucket now key bs =
     (if full \<and> max_buckets \<le> length kept then (Some (limited_response 60), kept)
      else if request_budget_limit (snd key) \<le> snd c then (Some (limited_response \<lceil>window_seconds - (now - fst c)\<rceil>), kept)
      else (None, put_bucket ?b kept))"
    unfolding process_bucket_def Let_def case_prod_unfold full_def kept_def c_def c0_def by (simp split: if_split)
  with assms(3) have cases: "(\<exists>x. a = Some x) \<and> bs' = kept \<or>
      a = None \<and> bs' = put_bucket ?b kept \<and> \<not> (full \<and> max_buckets \<le> length kept) \<and> snd c < request_budget_limit (snd key)"
    by (auto split: if_splits)
  show ?thesis
  proof (cases a)
    case (Some x)
    with cases kept show ?thesis by auto
  next
    case None
    with cases have bs': "bs' = put_bucket ?b kept" and room: "\<not> (full \<and> max_buckets \<le> length kept)"
      and low: "snd c < request_budget_limit (snd key)" by auto
    have c: "fst c \<le> now \<and> passes_since lg key (fst c) \<le> snd c \<and> now < fst c + window_seconds \<and>
        (\<forall>p \<in> set lg. snd p = key \<longrightarrow> fst p < fst c + window_seconds)"
    proof (cases "tget bk_key key bs")
      case None
      then have no: "key \<notin> bk_key ` set bs" by (simp add: tget_None_iff)
      have old: "\<forall>p \<in> set lg. snd p = key \<longrightarrow> fst p < now"
        using buckets_log [OF assms(1)] assms(2) no by force
      with passes_none [of lg key now] None show ?thesis
        by (fastforce simp: c_def c0_def window_seconds_def)
    next
      case (Some b)
      then have b: "b \<in> set bs" "bk_key b = key" using tget_SomeD by fastforce+
      have "inj_on bk_key (set bs)" using assms(1) by (simp add: buckets_ok_def distinct_map)
      then have same: "x \<in> set bs \<Longrightarrow> bk_key x = key \<Longrightarrow> x = b" for x using b by (auto dest: inj_onD)
      have old: "\<forall>p \<in> set lg. snd p = key \<longrightarrow> fst p < bk_start b + window_seconds"
      proof (intro ballI impI)
        fix p assume p: "p \<in> set lg" "snd p = key"
        have "key \<in> bk_key ` set bs" using b by force
        with buckets_log [OF assms(1) p(1)] p(2) obtain x where "x \<in> set bs" "bk_key x = key" "fst p < bk_start x + window_seconds"
          by blast
        with same show "fst p < bk_start b + window_seconds" by blast
      qed
      have here: "bk_start b \<le> now" "passes_since lg key (bk_start b) \<le> bk_count b"
        using assms(1,2) b by (auto simp: buckets_ok_def)
      show ?thesis
      proof (cases "window_seconds \<le> now - bk_start b")
        case True
        with old have "\<forall>p \<in> set lg. snd p = key \<longrightarrow> fst p < now" by force
        with passes_none [of lg key now] True Some show ?thesis
          by (fastforce simp: c_def c0_def window_seconds_def)
      next
        case False
        with here old Some show ?thesis by (auto simp: c_def c0_def)
      qed
    qed
    have place: "key \<in> bk_key ` set kept \<or> length kept < max_buckets"
      using room by (auto simp: kept_def full_def not_le)
    have put: "buckets_ok lg now (put_bucket ?b kept)"
      using c low place by (intro buckets_put [OF kept]) auto
    moreover have "?b \<in> set (put_bucket ?b kept)" by (auto simp: put_bucket_def tput_def)
    ultimately have "buckets_ok (lg @ [(now, bk_key ?b)]) now (put_bucket ?b kept)"
      using c by (intro buckets_snoc) auto
    with put show ?thesis by (simp add: bs')
  qed
qed


text \<open>What lets a request pass.\<close>

lemma dispatch_cases:
  assumes "ie_secret env \<noteq> ''''" and "ie_public env"
  shows "is_buckets (snd (ingress_dispatch env now db_now up r st)) = is_buckets st \<and>
      (fst (ingress_dispatch env now db_now up r st) = Passed \<longrightarrow> exempt_request r) \<or>
    (is_direct_mcp_request env (ir_path r) (ir_method r) \<or> header_or_empty (ir_bff_key r) = ie_secret env) \<and>
    (\<exists>a. process_bucket now (trusted_client_ip env r, login_request_path (ir_path r)) (is_buckets st) =
        (a, is_buckets (snd (ingress_dispatch env now db_now up r st))) \<and>
      (fst (ingress_dispatch env now db_now up r st) = Passed \<longrightarrow> a = None))"
proof (cases "exempt_request r")
  case False
  define login where "login = login_request_path (ir_path r)"
  define direct where "direct = is_direct_mcp_request env (ir_path r) (ir_method r)"
  define ip where "ip = trusted_client_ip env r"
  note names = login_def [symmetric] direct_def [symmetric] ip_def [symmetric]
  obtain a bs where p: "process_bucket now (ip, login) (is_buckets st) = (a, bs)" by fastforce
  have r: "a \<noteq> Some Passed" using p process_bucket_refuses by blast
  have l: "limited_response x \<noteq> Passed" for x by (simp add: limited_response_def)
  have run: "ingress_dispatch env now db_now up r st =
     (if \<not> direct \<and> header_or_empty (ir_bff_key r) \<noteq> ie_secret env then (Forbidden, st)
      else case a of
        Some x \<Rightarrow> (x, st\<lparr>is_buckets := bs\<rparr>)
      | None \<Rightarrow> ingress_dispatch env now db_now up r st)"
    and kept: "a = None \<Longrightarrow> direct \<or> header_or_empty (ir_bff_key r) = ie_secret env \<Longrightarrow>
      is_buckets (snd (ingress_dispatch env now db_now up r st)) = bs"
    using False assms p
    by (cases login; auto simp: ingress_dispatch_def names Let_def case_prod_unfold split: option.split)+
  show ?thesis
  proof (cases "direct \<or> header_or_empty (ir_bff_key r) = ie_secret env")
    case True
    show ?thesis
    proof (cases a)
      case None
      with True p kept show ?thesis by (simp add: names)
    next
      case (Some x)
      with True run have "ingress_dispatch env now db_now up r st = (x, st\<lparr>is_buckets := bs\<rparr>)" by auto
      with True p r Some show ?thesis by (auto simp: names)
    qed
  next
    case False
    with run have "ingress_dispatch env now db_now up r st = (Forbidden, st)" by auto
    then show ?thesis by simp
  qed
qed (simp add: ingress_dispatch_def)

lemma run_buckets:
  assumes "ie_secret env \<noteq> ''''" and "ie_public env" and "buckets_ok lg tm (is_buckets st)"
    and "sorted (tm # map ev_now es)" and "ingress_run env es st = (lg', st')"
  shows "\<exists>tm'. buckets_ok (lg @ lg') tm' (is_buckets st')"
  using assms(3-5)
proof (induction es arbitrary: lg tm st lg')
  case Nil
  then show ?case by auto
next
  case (Cons e es)
  let ?d = "ingress_dispatch env (ev_now e) (ev_db_now e) (ev_db_up e) (ev_request e) st"
  obtain lg2 where run: "ingress_run env es (snd ?d) = (lg2, st')"
    and lg': "lg' = (if fst ?d = Passed \<and> \<not> exempt_request (ev_request e) then [(ev_now e, event_key env e)] else []) @ lg2"
    using Cons.prems(3) by (auto simp: Let_def case_prod_unfold prod_eq_iff)
  have now: "tm \<le> ev_now e" and later: "sorted (ev_now e # map ev_now es)" using Cons.prems(2) by auto
  let ?l = "if fst ?d = Passed \<and> \<not> exempt_request (ev_request e) then [(ev_now e, event_key env e)] else []"
  have "buckets_ok (lg @ ?l) (ev_now e) (is_buckets (snd ?d))"
    using dispatch_cases [OF assms(1,2), of "ev_now e" "ev_db_now e" "ev_db_up e" "ev_request e" st]
  proof
    assume "is_buckets (snd ?d) = is_buckets st \<and> (fst ?d = Passed \<longrightarrow> exempt_request (ev_request e))"
    with buckets_later [OF Cons.prems(1) now] show ?thesis by auto
  next
    assume "(is_direct_mcp_request env (ir_path (ev_request e)) (ir_method (ev_request e)) \<or> header_or_empty (ir_bff_key (ev_request e)) = ie_secret env) \<and>
      (\<exists>a. process_bucket (ev_now e) (trusted_client_ip env (ev_request e), login_request_path (ir_path (ev_request e))) (is_buckets st) =
          (a, is_buckets (snd ?d)) \<and> (fst ?d = Passed \<longrightarrow> a = None))"
    then obtain a where "process_bucket (ev_now e) (event_key env e) (is_buckets st) = (a, is_buckets (snd ?d))"
      "fst ?d = Passed \<longrightarrow> a = None"
      by (auto simp: event_key_def)
    with bucket_step [OF Cons.prems(1) now this(1)] show ?thesis by auto
  qed
  from Cons.IH [OF this later run] show ?case by (simp add: lg')
qed


subsection \<open>Evaluated instances\<close>

definition sample_ingress_env :: ingress_env where
  "sample_ingress_env = \<lparr>ie_secret = ''k'', ie_public = True, ie_mcp_enabled = True, ie_demo_mode = False,
     ie_parse_ip = (\<lambda>s. if s = '''' then None else Some s), ie_hmac = (\<lambda>s. ''m:'' @ s), ie_demo_hmac = (\<lambda>s. ''n:'' @ s)\<rparr>"

definition sample_login_event :: "rat \<Rightarrow> ingress_event" where
  "sample_login_event now = \<lparr>ev_now = now, ev_db_now = 1000, ev_db_up = True,
     ev_request = \<lparr>ir_path = ''/auth/login'', ir_method = ''POST'', ir_bff_key = Some ''k'', ir_client_ip = Some ''1.2.3.4'',
       ir_client_host = None, ir_demo_realm = False, ir_auth_cookie = False, ir_mfa_cookie = False,
       ir_csrf_cookie = None, ir_csrf_header = None\<rparr>\<rparr>"

definition sample_login_flood :: "ingress_event list" where
  "sample_login_flood = map sample_login_event [1, 2, 3, 4, 5, 6, 7, 8, 9, 10, 11, 12]"

definition sample_gate :: "(rat \<times> string \<times> bool) list \<times> ingress_state" where
  "sample_gate = ingress_run sample_ingress_env sample_login_flood \<lparr>is_buckets = [], is_limits = [], is_demo_limits = []\<rparr>"


text \<open>Ten of the twelve pass.\<close>

lemma sample_gate_passes: "length (fst sample_gate) = 10"
  by code_simp

end
