(* ===== verification/Rbac.thy ===== *)
theory Rbac imports Auth_Model begin

text \<open>
  Roles and permissions: the tables of \<^verbatim>\<open>app/models/rbac.py\<close>, \<^verbatim>\<open>tenant.py\<close> and \<^verbatim>\<open>project.py\<close> that
  decide what a user may do, the queries and changes of \<open>RbacRepository\<close>
  (\<^verbatim>\<open>app/repositories/rbac.py\<close>), \<open>AuthorizationService\<close> (\<^verbatim>\<open>app/services/authorization.py\<close>) and the
  two queries on these tables that the authentication takes from its environment
  (\<open>tenant_role\<close> of \<^verbatim>\<open>app/repositories/account_action.py\<close>, \<open>isolated\<close> of
  \<^verbatim>\<open>app/repositories/review_account.py\<close>).

  A SQL join is a list comprehension over the tables in the order of the query. The per-transaction
  cache of a permission query (\<^verbatim>\<open>app/db/read_cache.py\<close>) answers what the query answered before in the
  same transaction and is left out.
\<close>

subsection \<open>Rows\<close>

record tenant =
  tn_id :: int
  tn_status :: string

record tenant_member =
  tm_id :: int
  tm_tenant_id :: int
  tm_user_id :: int
  tm_role_id :: int
  tm_status :: string

record project =
  pj_id :: int
  pj_tenant_id :: int
  pj_deleted_at :: "time option"

record project_member =
  pm_id :: int
  pm_project_id :: int
  pm_user_id :: int
  pm_role_id :: int
  pm_deleted_at :: "time option"

record role =
  ro_id :: int
  ro_key :: string
  ro_name :: string
  ro_scope :: string
  ro_description :: "string option"

record permission =
  pe_id :: int
  pe_code :: string
  pe_description :: "string option"

record rbac_db =
  rb_tenants :: "tenant list"
  rb_tenant_members :: "tenant_member list"
  rb_projects :: "project list"
  rb_project_members :: "project_member list"
  rb_roles :: "role list"
  rb_permissions :: "permission list"
  rb_role_permissions :: "(int \<times> int) list"
  rb_user_roles :: "(int \<times> int) list"

subsection \<open>Queries\<close>

definition project_permission_codes :: "int \<Rightarrow> int \<Rightarrow> int \<Rightarrow> rbac_db \<Rightarrow> string list" where
  "project_permission_codes user_id project_id tenant_id db =
     [pe_code e. m \<leftarrow> rb_project_members db, p \<leftarrow> rb_projects db, pj_id p = pm_project_id m,
        t \<leftarrow> rb_tenants db, tn_id t = pj_tenant_id p,
        tm \<leftarrow> rb_tenant_members db, tm_tenant_id tm = tn_id t,
        r \<leftarrow> rb_roles db, ro_id r = pm_role_id m,
        (role_id, permission_id) \<leftarrow> rb_role_permissions db, role_id = ro_id r,
        e \<leftarrow> rb_permissions db, pe_id e = permission_id,
        tn_id t = tenant_id \<and> tn_status t = ''active'' \<and> tm_user_id tm = user_id \<and> tm_status tm = ''active'' \<and>
        pj_id p = project_id \<and> pj_deleted_at p = None \<and> pm_user_id m = user_id \<and> pm_deleted_at m = None \<and>
        ro_scope r = ''project'']"

definition user_has_system_permission :: "auth_db \<Rightarrow> int \<Rightarrow> string \<Rightarrow> rbac_db \<Rightarrow> bool" where
  "user_has_system_permission auth user_id code db \<longleftrightarrow>
     [u. (u, role_id) \<leftarrow> rb_user_roles db, r \<leftarrow> rb_roles db, ro_id r = role_id,
        (rp, permission_id) \<leftarrow> rb_role_permissions db, rp = ro_id r,
        e \<leftarrow> rb_permissions db, pe_id e = permission_id,
        u = user_id \<and> ro_scope r = ''system'' \<and> pe_code e = code \<and>
        tget rg_user_id user_id (adb_review_grants auth) = None] \<noteq> []"

definition project_member_has_permission :: "int \<Rightarrow> int \<Rightarrow> string \<Rightarrow> rbac_db \<Rightarrow> bool" where
  "project_member_has_permission user_id project_id code db \<longleftrightarrow>
     [pm_id m. m \<leftarrow> rb_project_members db, r \<leftarrow> rb_roles db, ro_id r = pm_role_id m,
        (rp, permission_id) \<leftarrow> rb_role_permissions db, rp = ro_id r,
        e \<leftarrow> rb_permissions db, pe_id e = permission_id,
        pm_user_id m = user_id \<and> pm_project_id m = project_id \<and> pm_deleted_at m = None \<and>
        ro_scope r = ''project'' \<and> pe_code e = code] \<noteq> []"

definition list_system_roles_by_user :: "int \<Rightarrow> rbac_db \<Rightarrow> role list" where
  "list_system_roles_by_user user_id db =
     sort_key ro_id [r. r \<leftarrow> rb_roles db, (u, role_id) \<leftarrow> rb_user_roles db, role_id = ro_id r,
        u = user_id \<and> ro_scope r = ''system'']"

definition tenant_role :: "auth_db \<Rightarrow> rbac_db \<Rightarrow> int \<Rightarrow> int \<Rightarrow> string option" where
  "tenant_role auth db tenant_id user_id =
     (case [ro_key r. r \<leftarrow> rb_roles db, tm \<leftarrow> rb_tenant_members db, tm_role_id tm = ro_id r,
              t \<leftarrow> rb_tenants db, tn_id t = tm_tenant_id tm,
              u \<leftarrow> adb_users auth, au_id u = tm_user_id tm,
              tn_id t = tenant_id \<and> tn_status t = ''active'' \<and> tm_user_id tm = user_id \<and> tm_status tm = ''active'' \<and>
              ro_scope r = ''tenant'' \<and> au_is_active u \<and> au_deleted_at u = None] of
        [] \<Rightarrow> None | k # _ \<Rightarrow> Some k)"

definition review_isolated :: "rbac_db \<Rightarrow> int \<Rightarrow> int \<Rightarrow> bool" where
  "review_isolated db user_id tenant_id \<longleftrightarrow>
     [(tm_tenant_id tm, ro_key r, tn_status t). tm \<leftarrow> rb_tenant_members db, r \<leftarrow> rb_roles db, ro_id r = tm_role_id tm,
        t \<leftarrow> rb_tenants db, tn_id t = tm_tenant_id tm,
        tm_user_id tm = user_id \<and> tm_status tm = ''active'' \<and> ro_scope r = ''tenant'']
       = [(tenant_id, ''tenant_member'', ''active'')] \<and>
     \<not> list_ex (\<lambda>(u, _). u = user_id) (rb_user_roles db) \<and>
     \<not> list_ex (\<lambda>tm. tm_tenant_id tm = tenant_id \<and> tm_status tm = ''active'' \<and> tm_user_id tm \<noteq> user_id)
         (rb_tenant_members db) \<and>
     [pm_id m. m \<leftarrow> rb_project_members db, p \<leftarrow> rb_projects db, pj_id p = pm_project_id m,
        pm_user_id m = user_id \<and> pm_deleted_at m = None \<and> pj_tenant_id p \<noteq> tenant_id] = []"

text \<open>The environment of the authentication whose queries are these.\<close>

definition rbac_env :: "auth_env \<Rightarrow> auth_db \<Rightarrow> rbac_db \<Rightarrow> auth_env" where
  "rbac_env env auth db = env\<lparr>ae_tenant_role := tenant_role auth db, ae_review_isolated := review_isolated db\<rparr>"

subsection \<open>Decisions\<close>

definition review_permissions :: "string list" where
  "review_permissions =
     [''mcp:connect'', ''project:read'', ''requirement:read'', ''requirement:create'', ''requirement:update'',
      ''requirement:comment'', ''requirement:review'', ''requirement:link'', ''test_plan:read'', ''test_plan:create'',
      ''test_plan:update'', ''test_plan:comment'', ''test_case:read'', ''test_case:create'', ''test_case:update'',
      ''test_case:execute'', ''task:read'', ''task:create'', ''task:update'', ''task:delete'', ''task:comment'',
      ''document:read'', ''document:create'', ''document:update'']"

definition review_grant_of :: "bool \<Rightarrow> int \<Rightarrow> auth_db \<Rightarrow> review_grant option" where
  "review_grant_of demo user_id auth = (if demo then None else tget rg_user_id user_id (adb_review_grants auth))"

definition has_project_permission ::
  "auth_db \<Rightarrow> rbac_db \<Rightarrow> bool \<Rightarrow> int option \<Rightarrow> int \<Rightarrow> int \<Rightarrow> string \<Rightarrow> bool" where
  "has_project_permission auth db demo tenant user_id project_id code =
     (if (case review_grant_of demo user_id auth of
            None \<Rightarrow> False
          | Some g \<Rightarrow> tenant \<noteq> Some (rg_tenant_id g) \<or> code \<notin> set review_permissions) then False
      else case tenant of
             None \<Rightarrow> False
           | Some tenant_id \<Rightarrow> code \<in> set (project_permission_codes user_id project_id tenant_id db))"

definition can_moderate_requirement_comments ::
  "auth_db \<Rightarrow> rbac_db \<Rightarrow> bool \<Rightarrow> int option \<Rightarrow> int \<Rightarrow> int \<Rightarrow> bool" where
  "can_moderate_requirement_comments auth db demo tenant user_id project_id =
     has_project_permission auth db demo tenant user_id project_id ''project:update''"

subsection \<open>Changes\<close>

definition fresh_id :: "int list \<Rightarrow> int" where
  "fresh_id ids = fold max ids 0 + 1"

definition get_role_by_key_scope :: "string \<Rightarrow> string \<Rightarrow> rbac_db \<Rightarrow> role option" where
  "get_role_by_key_scope key scope db = find (\<lambda>r. ro_key r = key \<and> ro_scope r = scope) (rb_roles db)"

definition get_permission_by_code :: "string \<Rightarrow> rbac_db \<Rightarrow> permission option" where
  "get_permission_by_code code db = tget pe_code code (rb_permissions db)"

text \<open>Both pairs (key, scope) and (name, scope) are unique.\<close>

definition create_role :: "string \<Rightarrow> string \<Rightarrow> string \<Rightarrow> string option \<Rightarrow> rbac_db \<Rightarrow> unit + role \<times> rbac_db" where
  "create_role key name scope description db =
     (if list_ex (\<lambda>r. ro_scope r = scope \<and> (ro_key r = key \<or> ro_name r = name)) (rb_roles db) then Inl ()
      else let r = \<lparr>ro_id = fresh_id (map ro_id (rb_roles db)), ro_key = key, ro_name = name, ro_scope = scope,
                     ro_description = description\<rparr>
           in Inr (r, db\<lparr>rb_roles := rb_roles db @ [r]\<rparr>))"

definition update_role_display :: "role \<Rightarrow> string \<Rightarrow> string option \<Rightarrow> rbac_db \<Rightarrow> unit + role \<times> rbac_db" where
  "update_role_display r name description db =
     (if list_ex (\<lambda>x. ro_scope x = ro_scope r \<and> ro_id x \<noteq> ro_id r \<and> ro_name x = name) (rb_roles db) then Inl ()
      else let r' = r\<lparr>ro_name := name, ro_description := description\<rparr>
           in Inr (r', db\<lparr>rb_roles := tput ro_id r' (rb_roles db)\<rparr>))"

definition create_permission :: "string \<Rightarrow> string option \<Rightarrow> rbac_db \<Rightarrow> unit + permission \<times> rbac_db" where
  "create_permission code description db =
     (if list_ex (\<lambda>e. pe_code e = code) (rb_permissions db) then Inl ()
      else let e = \<lparr>pe_id = fresh_id (map pe_id (rb_permissions db)), pe_code = code, pe_description = description\<rparr>
           in Inr (e, db\<lparr>rb_permissions := rb_permissions db @ [e]\<rparr>))"

definition remove_permissions_except :: "role \<Rightarrow> string list \<Rightarrow> rbac_db \<Rightarrow> rbac_db" where
  "remove_permissions_except r codes db =
     (let allowed = map pe_id (filter (\<lambda>e. pe_code e \<in> set codes) (rb_permissions db))
      in db\<lparr>rb_role_permissions :=
           filter (\<lambda>(role_id, permission_id). \<not> (role_id = ro_id r \<and> permission_id \<notin> set allowed))
             (rb_role_permissions db)\<rparr>)"

definition add_permission_to_role :: "role \<Rightarrow> permission \<Rightarrow> rbac_db \<Rightarrow> rbac_db" where
  "add_permission_to_role r e db =
     (if (ro_id r, pe_id e) \<in> set (rb_role_permissions db) then db
      else db\<lparr>rb_role_permissions := rb_role_permissions db @ [(ro_id r, pe_id e)]\<rparr>)"

definition assign_role_to_user :: "int \<Rightarrow> role \<Rightarrow> rbac_db \<Rightarrow> rbac_db" where
  "assign_role_to_user user_id r db =
     (if (user_id, ro_id r) \<in> set (rb_user_roles db) then db
      else db\<lparr>rb_user_roles := rb_user_roles db @ [(user_id, ro_id r)]\<rparr>)"

text \<open>A role given twice breaks the uniqueness of the pair.\<close>

definition replace_system_roles_for_user :: "int \<Rightarrow> role list \<Rightarrow> rbac_db \<Rightarrow> unit + rbac_db" where
  "replace_system_roles_for_user user_id roles db =
     (if \<not> distinct (map ro_id roles) then Inl ()
      else Inr (db\<lparr>rb_user_roles :=
             filter (\<lambda>(u, _). u \<noteq> user_id) (rb_user_roles db) @ map (\<lambda>r. (user_id, ro_id r)) roles\<rparr>))"

subsection \<open>What a permission rests on\<close>

lemma in_project_permission_codes:
  "code \<in> set (project_permission_codes user_id project_id tenant_id db) \<longleftrightarrow>
     (\<exists>m \<in> set (rb_project_members db). \<exists>p \<in> set (rb_projects db). \<exists>t \<in> set (rb_tenants db).
      \<exists>tm \<in> set (rb_tenant_members db). \<exists>r \<in> set (rb_roles db). \<exists>e \<in> set (rb_permissions db).
        tn_id t = tenant_id \<and> tn_status t = ''active'' \<and>
        tm_tenant_id tm = tenant_id \<and> tm_user_id tm = user_id \<and> tm_status tm = ''active'' \<and>
        pj_id p = project_id \<and> pj_tenant_id p = tenant_id \<and> pj_deleted_at p = None \<and>
        pm_project_id m = project_id \<and> pm_user_id m = user_id \<and> pm_deleted_at m = None \<and>
        ro_id r = pm_role_id m \<and> ro_scope r = ''project'' \<and>
        (ro_id r, pe_id e) \<in> set (rb_role_permissions db) \<and> pe_code e = code)"
  by (auto simp: project_permission_codes_def split: if_splits) (fastforce split: if_splits)+

text \<open>
  A user has a permission in a project exactly through live facts: an active tenant that is the tenant of the
  request and of the project, an active membership of the tenant, an undeleted project, an undeleted membership of
  the project and a project role of that membership that carries the code; for the shared review account also only
  in its own tenant and for the listed codes.
\<close>

theorem has_project_permission_iff:
  "has_project_permission auth db demo tenant user_id project_id code \<longleftrightarrow>
     (\<exists>m \<in> set (rb_project_members db). \<exists>p \<in> set (rb_projects db). \<exists>t \<in> set (rb_tenants db).
      \<exists>tm \<in> set (rb_tenant_members db). \<exists>r \<in> set (rb_roles db). \<exists>e \<in> set (rb_permissions db).
        tenant = Some (tn_id t) \<and> tn_status t = ''active'' \<and>
        tm_tenant_id tm = tn_id t \<and> tm_user_id tm = user_id \<and> tm_status tm = ''active'' \<and>
        pj_id p = project_id \<and> pj_tenant_id p = tn_id t \<and> pj_deleted_at p = None \<and>
        pm_project_id m = project_id \<and> pm_user_id m = user_id \<and> pm_deleted_at m = None \<and>
        ro_id r = pm_role_id m \<and> ro_scope r = ''project'' \<and>
        (ro_id r, pe_id e) \<in> set (rb_role_permissions db) \<and> pe_code e = code) \<and>
     (review_grant_of demo user_id auth = None \<or>
      (\<exists>g. review_grant_of demo user_id auth = Some g \<and> tenant = Some (rg_tenant_id g) \<and> code \<in> set review_permissions))"
proof (cases tenant)
  case None
  then show ?thesis
    by (simp add: has_project_permission_def)
next
  case (Some tenant_id)
  have codes: "code \<in> set (project_permission_codes user_id project_id tenant_id db) \<longleftrightarrow>
     (\<exists>m \<in> set (rb_project_members db). \<exists>p \<in> set (rb_projects db). \<exists>t \<in> set (rb_tenants db).
      \<exists>tm \<in> set (rb_tenant_members db). \<exists>r \<in> set (rb_roles db). \<exists>e \<in> set (rb_permissions db).
        Some tenant_id = Some (tn_id t) \<and> tn_status t = ''active'' \<and>
        tm_tenant_id tm = tn_id t \<and> tm_user_id tm = user_id \<and> tm_status tm = ''active'' \<and>
        pj_id p = project_id \<and> pj_tenant_id p = tn_id t \<and> pj_deleted_at p = None \<and>
        pm_project_id m = project_id \<and> pm_user_id m = user_id \<and> pm_deleted_at m = None \<and>
        ro_id r = pm_role_id m \<and> ro_scope r = ''project'' \<and>
        (ro_id r, pe_id e) \<in> set (rb_role_permissions db) \<and> pe_code e = code)"
    unfolding in_project_permission_codes by blast
  show ?thesis
    unfolding Some codes [symmetric] by (auto simp: has_project_permission_def split: option.splits)
qed

end
