(* ===== verification/Canonical_Json.thy ===== *)
theory Canonical_Json imports Prelude begin

text \<open>
  The canonical JSON text that every content hash is taken of: \<open>canonical_bytes\<close> and \<open>digest\<close> of
  \<^verbatim>\<open>app/services/artifact_release_snapshot.py\<close>, that is \<open>json.dumps\<close> with sorted keys, no
  spaces and no ASCII escapes, encoded as UTF-8.

  Texts are Latin-1 strings. The main result is that the text determines the value up to the order of
  the keys of its dictionaries, so that two contents with one canonical text are one content.
\<close>

subsection \<open>The encoder\<close>

definition hex_digit :: "nat \<Rightarrow> char" where
  "hex_digit n = (if n < 10 then char_of (48 + n) else char_of (87 + n))"

definition short_escapes :: "(nat \<times> char) list" where
  "short_escapes = [(92, CHR 0x5C), (34, CHR 0x22), (10, CHR ''n''), (13, CHR ''r''), (9, CHR ''t''),
     (8, CHR ''b''), (12, CHR ''f'')]"

definition json_escape :: "char \<Rightarrow> string" where
  "json_escape c =
     (let n = of_char c :: nat in
      case map_of short_escapes n of
        Some e \<Rightarrow> [CHR 0x5C, e]
      | None \<Rightarrow>
          if n < 32 then [CHR 0x5C, CHR ''u'', CHR ''0'', CHR ''0'', hex_digit (n div 16), hex_digit (n mod 16)]
          else [c])"

definition json_string :: "string \<Rightarrow> string" where
  "json_string s = CHR 0x22 # concat (map json_escape s) @ [CHR 0x22]"

fun json_items :: "string list \<Rightarrow> string" where
  "json_items [] = []"
| "json_items [x] = x"
| "json_items (x # y # xs) = x @ CHR '','' # json_items (y # xs)"

fun json_text :: "pyval \<Rightarrow> string" where
  "json_text PNone = ''null''"
| "json_text (PBool b) = (if b then ''true'' else ''false'')"
| "json_text (PInt i) = show_int i"
| "json_text (PStr s) = json_string s"
| "json_text (PList vs) = ''['' @ json_items (map json_text vs) @ '']''"
| "json_text (PDict d) = ''{'' @
     json_items (map (\<lambda>(k, t). json_string k @ CHR '':'' # t)
       (sort_key fst (map (\<lambda>(k, v). (k, json_text v)) d))) @ ''}''"

definition utf8_char :: "char \<Rightarrow> string" where
  "utf8_char c = (let n = of_char c :: nat in
     if n < 128 then [c] else [char_of (192 + n div 64), char_of (128 + n mod 64)])"

definition utf8 :: "string \<Rightarrow> string" where
  "utf8 s = concat (map utf8_char s)"

definition canonical_bytes :: "pyval \<Rightarrow> string" where
  "canonical_bytes v = utf8 (json_text v)"

definition digest :: "(string \<Rightarrow> string) \<Rightarrow> pyval \<Rightarrow> string" where
  "digest sha256 v = sha256 (canonical_bytes v)"

text \<open>What the text determines: the value with the items of every dictionary in the order of the keys.\<close>

fun canonical :: "pyval \<Rightarrow> pyval" where
  "canonical (PList vs) = PList (map canonical vs)"
| "canonical (PDict d) = PDict (sort_key fst (map (\<lambda>(k, v). (k, canonical v)) d))"
| "canonical v = v"

subsection \<open>Decoding is unique\<close>

text \<open>A text is followed by the end, a comma, or a closing bracket.\<close>

definition delim :: "string \<Rightarrow> bool" where
  "delim r \<longleftrightarrow> r = [] \<or> hd r \<in> {CHR '','', CHR '']'', CHR ''}''}"

lemma delim_simps [simp]:
  "delim []" "delim (CHR '','' # r)" "delim (CHR '']'' # r)" "delim (CHR ''}'' # r)"
  by (simp_all add: delim_def)

lemma hex_digit_inj: "m < 16 \<Longrightarrow> n < 16 \<Longrightarrow> hex_digit m = hex_digit n \<Longrightarrow> m = n"
proof -
  have "inj_on hex_digit {0..<16}"
    by code_simp
  then show "m < 16 \<Longrightarrow> n < 16 \<Longrightarrow> hex_digit m = hex_digit n \<Longrightarrow> m = n"
    by (auto simp: inj_on_def)
qed

lemma short_escape_inj:
  assumes "map_of short_escapes m = Some e" and "map_of short_escapes n = Some e"
  shows "m = n"
  using assms [THEN map_of_SomeD] by (simp add: short_escapes_def) (elim disjE; simp)

lemma short_escape_not_u: "map_of short_escapes m \<noteq> Some (CHR ''u'')"
  by (auto simp: short_escapes_def dest: map_of_SomeD)

lemma backslash_escaped: "map_of short_escapes (of_char (CHR 0x5C)) \<noteq> None"
  and quote_escaped: "map_of short_escapes (of_char (CHR 0x22)) \<noteq> None"
  by (simp_all add: short_escapes_def)

lemma json_escape_cases:
  obtains (short) e where "map_of short_escapes (of_char c) = Some e" "json_escape c = [CHR 0x5C, e]"
  | (long) "(of_char c :: nat) < 32" "json_escape c = [CHR 0x5C, CHR ''u'', CHR ''0'', CHR ''0'',
       hex_digit (of_char c div 16), hex_digit (of_char c mod 16)]"
  | (plain) "c \<noteq> CHR 0x5C" "c \<noteq> CHR 0x22" "json_escape c = [c]"
proof (cases "map_of short_escapes (of_char c)")
  case None
  then have "c \<noteq> CHR 0x5C \<and> c \<noteq> CHR 0x22"
    using backslash_escaped quote_escaped by auto
  with None show ?thesis
    using long plain by (cases "(of_char c :: nat) < 32") (simp_all add: json_escape_def Let_def)
qed (auto simp: json_escape_def intro: short)

lemma json_escape_prefix:
  assumes eq: "json_escape c @ r = json_escape d @ s"
  shows "c = d \<and> r = s"
proof -
  have long_eq: "n = m" if "n < 32" "m < 32" "hex_digit (n div 16) = hex_digit (m div 16)"
      "hex_digit (n mod 16) = hex_digit (m mod 16)" for n m :: nat
  proof -
    have "n div 16 = m div 16" "n mod 16 = m mod 16"
      using that by (auto intro!: hex_digit_inj)
    then show "n = m"
      by (metis div_mult_mod_eq)
  qed
  show ?thesis
  proof (cases c rule: json_escape_cases)
    case (short e)
    note c = this
    show ?thesis
      using eq c short_escape_inj [of "of_char c" e "of_char d"] short_escape_not_u [of "of_char c"]
      by (cases d rule: json_escape_cases) auto
  next
    case long
    note c = this
    show ?thesis
      using eq c long_eq [of "of_char c" "of_char d"] short_escape_not_u [of "of_char d"]
      by (cases d rule: json_escape_cases) auto
  next
    case plain
    then show ?thesis
      using eq by (cases d rule: json_escape_cases) auto
  qed
qed

lemma json_escape_no_quote: "json_escape c @ r \<noteq> CHR 0x22 # s"
  by (cases c rule: json_escape_cases) auto

lemma json_string_prefix:
  assumes "json_string s @ r = json_string t @ r'"
  shows "s = t \<and> r = r'"
proof -
  have "concat (map json_escape s) @ CHR 0x22 # r = concat (map json_escape t) @ CHR 0x22 # r' \<Longrightarrow>
      s = t \<and> r = r'"
  proof (induction s arbitrary: t)
    case Nil
    then show ?case
    proof (cases t)
      case (Cons d t')
      then show ?thesis
        using Nil json_escape_no_quote [of d "concat (map json_escape t') @ CHR 0x22 # r'" r] by simp
    qed simp
  next
    case (Cons c s)
    then show ?case
    proof (cases t)
      case Nil
      then show ?thesis
        using Cons.prems json_escape_no_quote [of c "concat (map json_escape s) @ CHR 0x22 # r" r'] by simp
    next
      fix d t' assume "t = d # t'"
      then show ?thesis
        using Cons.prems Cons.IH [of t']
          json_escape_prefix [of c "concat (map json_escape s) @ CHR 0x22 # r" d "concat (map json_escape t') @ CHR 0x22 # r'"]
        by simp
    qed
  qed
  with assms show ?thesis
    by (simp add: json_string_def)
qed

lemma digits_prefix:
  assumes "list_all is_digit xs" and "list_all is_digit ys" and "delim r" and "delim s" and "xs @ r = ys @ s"
  shows "xs = ys \<and> r = s"
proof -
  have stop: "takeWhile is_digit (zs @ q) = zs" if "list_all is_digit zs" "delim q" for zs q
    using that by (cases q) (auto simp: list_all_iff takeWhile_append2 delim_def is_digit_def takeWhile_tail)
  have "xs = ys"
    using stop [OF assms(1,3)] stop [OF assms(2,4)] assms(5) by simp
  with assms(5) show ?thesis by simp
qed

lemma show_nat_no_minus': "show_nat n @ r \<noteq> CHR ''-'' # s"
  using show_nat_digits [of n] show_nat_no_minus [of n] by (cases "show_nat n") auto

lemma show_nat_prefix: "show_nat m @ r = show_nat n @ s \<Longrightarrow> delim r \<Longrightarrow> delim s \<Longrightarrow> m = n \<and> r = s"
  using digits_prefix [of "show_nat m" "show_nat n" r s] show_nat_digits by (auto simp: show_nat_inj)

lemma show_int_prefix:
  assumes eq: "show_int i @ r = show_int j @ s" and "delim r" and "delim s"
  shows "i = j \<and> r = s"
proof (cases "i < 0 \<longleftrightarrow> j < 0")
  case True
  then show ?thesis
    using eq show_nat_prefix [OF _ assms(2,3), of "nat \<bar>i\<bar>" "nat \<bar>j\<bar>"]
    by (cases "i < 0") (auto simp: show_int_def eq_nat_nat_iff)
next
  case False
  then show ?thesis
    using eq show_nat_no_minus' [of "nat i" r "show_nat (nat (- j)) @ s"]
      show_nat_no_minus' [of "nat j" s "show_nat (nat (- i)) @ r"]
    by (cases "i < 0") (simp_all add: show_int_def)
qed


text \<open>A list of pieces that are each decoded uniquely is decoded uniquely.\<close>

lemma json_items_prefix:
  assumes "\<And>x y r s. x \<in> set xs \<Longrightarrow> y \<in> set ys \<Longrightarrow> f x @ r = f y @ s \<Longrightarrow> delim r \<Longrightarrow> delim s \<Longrightarrow>
      g x = g y \<and> r = s"
    and "\<And>x q q'. x \<in> set xs \<union> set ys \<Longrightarrow> f x @ q \<noteq> c # q'"
    and "c = CHR '']'' \<or> c = CHR ''}''"
    and "json_items (map f xs) @ c # r = json_items (map f ys) @ c # s"
  shows "map g xs = map g ys \<and> r = s"
  using assms
proof (induction xs arbitrary: ys)
  case Nil
  then show ?case
  proof (cases ys)
    case (Cons y ys')
    then have "json_items (map f ys) @ c # s = f y @ (if ys' = [] then [] else CHR '','' # json_items (map f ys')) @ c # s"
      by (cases ys') simp_all
    with Nil.prems(2) [of y] Nil.prems(4) Cons show ?thesis
      by (metis Un_iff append_Nil json_items.simps(1) list.set_intros(1) list.simps(8))
  qed simp
next
  case (Cons x xs)
  let ?tail = "\<lambda>zs q. if zs = [] then c # q else CHR '','' # json_items (map f zs) @ c # q"
  have unfold: "json_items (map f (z # zs)) @ c # q = f z @ ?tail zs q" for z zs q
    by (cases zs) simp_all
  have c: "delim (c # q)" for q
    using Cons.prems(3) by auto
  show ?case
  proof (cases ys)
    case Nil
    then show ?thesis
      using Cons.prems(2) [of x "?tail xs r" s] Cons.prems(4) unfold [of x xs r] by simp
  next
    case ys: (Cons y ys')
    have first: "g x = g y \<and> ?tail xs r = ?tail ys' s"
      using Cons.prems(1) [of x y "?tail xs r" "?tail ys' s"] Cons.prems(4) ys unfold c by simp
    show ?thesis
    proof (cases "xs = [] \<or> ys' = []")
      case True
      with first ys Cons.prems(3) show ?thesis
        by (auto split: if_splits)
    next
      case False
      with first have "json_items (map f xs) @ c # r = json_items (map f ys') @ c # s"
        by simp
      then have "map g xs = map g ys' \<and> r = s"
        using Cons.prems(1-3) ys by (intro Cons.IH) auto
      with ys first show ?thesis
        by simp
    qed
  qed
qed

lemma map_sort_key:
  assumes "\<And>x. h (f x) = k x"
  shows "sort_key h (map f xs) = map f (sort_key k xs)"
proof -
  have "insort_key h (f x) (map f ys) = map f (insort_key k x ys)" for x ys
    by (induction ys) (simp_all add: assms)
  then show ?thesis
    by (induction xs) simp_all
qed

definition item_text :: "string \<times> pyval \<Rightarrow> string" where
  "item_text = (\<lambda>(k, v). json_string k @ CHR '':'' # json_text v)"

lemma json_text_dict: "json_text (PDict d) = ''{'' @ json_items (map item_text (sort_key fst d)) @ ''}''"
  by (simp add: map_sort_key [where k = fst] item_text_def case_prod_beta' comp_def)

lemma canonical_dict: "canonical (PDict d) = PDict (map (\<lambda>(k, v). (k, canonical v)) (sort_key fst d))"
  by (simp add: map_sort_key [where k = fst] case_prod_beta')

lemma show_nat_first: "\<exists>c s. show_nat n = c # s \<and> is_digit c"
  using show_nat_digits [of n] by (cases "show_nat n") auto

text \<open>The first character of a text tells its kind.\<close>

fun text_start :: "pyval \<Rightarrow> char \<Rightarrow> bool" where
  "text_start PNone c \<longleftrightarrow> c = CHR ''n''"
| "text_start (PBool b) c \<longleftrightarrow> c = (if b then CHR ''t'' else CHR ''f'')"
| "text_start (PInt i) c \<longleftrightarrow> is_digit c \<or> c = CHR ''-''"
| "text_start (PStr s) c \<longleftrightarrow> c = CHR 0x22"
| "text_start (PList vs) c \<longleftrightarrow> c = CHR ''[''"
| "text_start (PDict d) c \<longleftrightarrow> c = CHR ''{''"

lemma json_text_start: "\<exists>c s. json_text v = c # s \<and> text_start v c"
proof (cases v)
  case (PInt i)
  then show ?thesis
    using show_nat_first [of "nat i"] show_nat_first [of "nat (- i)"] by (auto simp: show_int_def)
qed (auto simp: json_string_def)

lemma is_digit_chars:
  "\<not> is_digit CHR ''n''" "\<not> is_digit CHR ''t''" "\<not> is_digit CHR ''f''" "\<not> is_digit CHR 0x22" "\<not> is_digit CHR ''[''"
  "\<not> is_digit CHR ''{''" "\<not> is_digit CHR '']''" "\<not> is_digit CHR ''}''"
  by (simp_all add: is_digit_def)

lemma json_text_not_close: "c = CHR '']'' \<or> c = CHR ''}'' \<Longrightarrow> json_text v @ q \<noteq> c # q'"
  using json_text_start [of v] by (cases v) (auto simp: is_digit_chars split: if_splits)

lemma item_text_not_close: "item_text x @ q \<noteq> CHR ''}'' # q'"
  by (simp add: item_text_def json_string_def case_prod_beta')

lemma json_text_prefix:
  "json_text v @ r = json_text w @ s \<Longrightarrow> delim r \<Longrightarrow> delim s \<Longrightarrow> canonical v = canonical w \<and> r = s"
proof (induction v arbitrary: w r s)
  case PNone
  then show ?case
    using json_text_start [of w] by (cases w) (auto simp: is_digit_chars split: if_splits)
next
  case (PBool b)
  then show ?case
    using json_text_start [of w] by (cases w) (auto simp: is_digit_chars split: if_splits)
next
  case (PInt i)
  then show ?case
    using json_text_start [of "PInt i"] json_text_start [of w] show_int_prefix [of i r _ s]
    by (cases w) (auto simp: is_digit_chars split: if_splits)
next
  case (PStr t)
  then show ?case
    using json_text_start [of "PStr t"] json_text_start [of w] json_string_prefix [of t r _ s]
    by (cases w) (auto simp: is_digit_chars split: if_splits)
next
  case (PList vs)
  then show ?case
  proof (cases w)
    case w: (PList ws)
    have "json_items (map json_text vs) @ CHR '']'' # r = json_items (map json_text ws) @ CHR '']'' # s"
      using PList.prems(1) w by simp
    then have "map canonical vs = map canonical ws \<and> r = s"
      by (intro json_items_prefix [where c = "CHR '']''" and f = json_text and xs = vs and ys = ws] PList.IH)
         (simp_all add: json_text_not_close)
    with w show ?thesis by simp
  qed (use json_text_start [of w] in \<open>auto simp: is_digit_chars split: if_splits\<close>)
next
  case (PDict d)
  then show ?case
  proof (cases w)
    case w: (PDict e)
    have item: "(\<lambda>(k, v). (k, canonical v)) x = (\<lambda>(k, v). (k, canonical v)) y \<and> p = q"
      if "x \<in> set (sort_key fst d)" "y \<in> set (sort_key fst e)" "item_text x @ p = item_text y @ q" "delim p" "delim q"
      for x y p q
    proof -
      obtain k v k' v' where xy: "x = (k, v)" "y = (k', v')"
        by (meson surj_pair)
      have "k = k' \<and> CHR '':'' # json_text v @ p = CHR '':'' # json_text v' @ q"
        using that(3) json_string_prefix [of k "CHR '':'' # json_text v @ p" k' "CHR '':'' # json_text v' @ q"]
        by (simp add: item_text_def xy)
      moreover have "canonical v = canonical v' \<and> p = q" if "json_text v @ p = json_text v' @ q"
        using PDict.IH [of x v p v' q] that \<open>x \<in> _\<close> \<open>delim p\<close> \<open>delim q\<close> xy by simp
      ultimately show ?thesis by (simp add: xy)
    qed
    have "json_items (map item_text (sort_key fst d)) @ CHR ''}'' # r =
        json_items (map item_text (sort_key fst e)) @ CHR ''}'' # s"
      using PDict.prems(1) by (simp only: w json_text_dict) simp
    then have "map (\<lambda>(k, v). (k, canonical v)) (sort_key fst d) = map (\<lambda>(k, v). (k, canonical v)) (sort_key fst e) \<and> r = s"
      by (intro json_items_prefix [where c = "CHR ''}''" and f = item_text and xs = "sort_key fst d" and ys = "sort_key fst e"])
         (use item item_text_not_close in auto)
    with w show ?thesis by (simp only: canonical_dict simp_thms)
  qed (use json_text_start [of w] in \<open>auto simp: is_digit_chars split: if_splits\<close>)
qed


lemma json_text_canonical: "json_text (canonical v) = json_text v"
proof (induction v)
  case (PDict d)
  let ?c = "\<lambda>(k, v). (k, canonical v)"
  have "sorted (map fst (map ?c (sort_key fst d)))"
    by (simp add: case_prod_beta' comp_def)
  then have "sort_key fst (map ?c (sort_key fst d)) = map ?c (sort_key fst d)"
    by (simp only: sort_key_id_if_sorted)
  moreover have "item_text (?c x) = item_text x" if "x \<in> set d" for x
    using PDict.IH [of x "snd x"] that by (cases x) (simp add: item_text_def)
  then have "map (item_text \<circ> ?c) (sort_key fst d) = map item_text (sort_key fst d)"
    by simp
  ultimately show ?case
    by (simp only: canonical_dict json_text_dict map_map)
qed (simp_all add: comp_def cong: map_cong)

lemma char_code_bound: "(of_char c :: nat) < 256"
proof -
  have "of_char c = of_char c mod (256 :: nat)"
    by simp
  then show ?thesis
    by (metis mod_less_divisor zero_less_numeral)
qed

lemma utf8_char_prefix:
  assumes "utf8_char c @ r = utf8_char d @ s"
  shows "c = d \<and> r = s"
proof -
  have lead: "of_char (char_of (192 + of_char x div 64 :: nat)) = 192 + of_char x div (64 :: nat)" for x
  proof -
    have "192 + of_char x div 64 < (256 :: nat)"
      using less_mult_imp_div_less [of "of_char x" 4 "64 :: nat"] char_code_bound [of x] by simp
    then show ?thesis
      by simp
  qed
  have cont: "of_char (char_of (128 + of_char x mod 64 :: nat)) = 128 + of_char x mod (64 :: nat)" for x
    by (simp add: take_bit_nat_eq_self)
  show ?thesis
  proof (cases "(of_char c :: nat) < 128 \<or> (of_char d :: nat) < 128")
    case True
    then show ?thesis
      using assms lead [of c] lead [of d] by (auto simp: utf8_char_def Let_def split: if_splits)
  next
    case False
    then have "(of_char c :: nat) div 64 = of_char d div 64 \<and> (of_char c :: nat) mod 64 = of_char d mod 64 \<and> r = s"
      using assms lead [of c] lead [of d] cont [of c] cont [of d] by (auto simp: utf8_char_def Let_def)
    then have "(of_char c :: nat) = of_char d \<and> r = s"
      by (metis div_mult_mod_eq)
    then show ?thesis by simp
  qed
qed

lemma utf8_char_nonempty: "utf8_char c \<noteq> []"
  by (simp add: utf8_char_def Let_def)

lemma utf8_inj: "utf8 s = utf8 t \<Longrightarrow> s = t"
proof (induction s arbitrary: t)
  case Nil
  then show ?case
    by (cases t) (auto simp: utf8_def utf8_char_nonempty)
next
  case (Cons c s)
  then show ?case
    using utf8_char_prefix [of c "utf8 s"] by (cases t) (auto simp: utf8_def utf8_char_nonempty)
qed

theorem canonical_bytes_eq_iff: "canonical_bytes v = canonical_bytes w \<longleftrightarrow> canonical v = canonical w"
  using json_text_prefix [of v "[]" w "[]"] json_text_canonical utf8_inj
  by (metis append_Nil2 canonical_bytes_def delim_simps(1))

end
