(* ===== verification/Approval_Model.thy ===== *)
theory Approval_Model imports User_Session Rbac Canonical_Json begin

text \<open>
  The data of fixed approvals: releases with their sealed nodes and preserved attachments
  (\<^verbatim>\<open>app/models/artifact_release.py\<close>, \<^verbatim>\<open>artifact_preservation.py\<close>), approval requests with their
  events and requirement bases (\<^verbatim>\<open>app/models/fixed_approval.py\<close>), and the access checks every operation
  begins with (\<open>_transaction\<close>, \<open>_permission\<close>, \<open>_sources\<close> and \<open>_get\<close> of
  \<^verbatim>\<open>app/services/artifact_release.py\<close>, \<open>access\<close>, \<open>allowed\<close>, \<open>release\<close> and \<open>candidate_codes\<close> of
  \<^verbatim>\<open>app/services/fixed_approval.py\<close>).

  UUIDs are strings. The content hash is \<open>digest\<close> of \<open>Canonical_Json\<close> with the SHA-256 of the
  environment. An operation runs in one transaction: it raises, or returns its result with the new
  database, and what it raised with is rolled back. \<open>Inl (Inl f)\<close> is a database error \<open>f\<close>,
  \<open>Inl (Inr e)\<close> an application error.
\<close>

subsection \<open>Rows\<close>

record release =
  ar_id :: string
  ar_project_id :: int
  ar_source_kind :: string
  ar_source_refs :: "pydict list"
  ar_source_kinds :: "string list"
  ar_projection_version :: string
  ar_content_digest :: string
  ar_sealed :: bool

record release_node =
  nd_id :: string
  nd_release_id :: string
  nd_parent_id :: "string option"
  nd_ordinal :: int
  nd_position :: int
  nd_kind :: string
  nd_source_id :: int
  nd_source_version :: "int option"
  nd_payload :: pydict

record preservation =
  pv_id :: string
  pv_release_id :: string
  pv_status :: string
  pv_manifest_digest :: "string option"
  pv_files :: "pydict list"

record approval_request =
  fa_id :: string
  fa_project_id :: int
  fa_release_id :: string
  fa_target_node_id :: string
  fa_target_kind :: string
  fa_source_id :: int
  fa_preservation_id :: "string option"
  fa_scope_manifest :: pydict
  fa_scope_digest :: string
  fa_policy_version :: string
  fa_requester_id :: int
  fa_approver_id :: int
  fa_request_note :: "string option"
  fa_status :: string
  fa_version :: int
  fa_sealed :: bool
  fa_created_at :: time
  fa_finalized_at :: "time option"
  fa_request_id :: string
  fa_request_digest :: string
  fa_legacy_import_id :: "string option"

record approval_event =
  fe_id :: string
  fe_approval_id :: string
  fe_seq :: int
  fe_operation_id :: string
  fe_operation_digest :: string
  fe_actor_id :: int
  fe_action :: string
  fe_reason :: "string option"
  fe_scope_digest :: string
  fe_observation :: pydict

record approval_basis =
  fb_approval_id :: string
  fb_release_id :: string
  fb_target_node_id :: string
  fb_source_id :: int
  fb_subject_digest :: string
  fb_basis_kind :: string
  fb_state_at_request :: string
  fb_agreed_approval_id :: "string option"
  fb_agreed_event_id :: "string option"
  fb_reason :: "string option"

record legacy_import =
  li_id :: string
  li_project_id :: int
  li_legacy_approval_id :: int
  li_source_target_type :: string
  li_source_target_id :: int
  li_source_status :: string
  li_source_digest :: string
  li_mode :: string

text \<open>What the history of the old approvals and the current sources say, joined with their project.\<close>

record legacy_approval =
  lg_project_id :: int
  lg_target_type :: string
  lg_target_id :: int

record current_source =
  cs_kind :: string
  cs_id :: int
  cs_project_id :: int
  cs_version :: int
  cs_live :: bool

record approval_notice =
  an_recipient :: int
  an_type :: string
  an_actor :: int
  an_project_id :: int
  an_target_id :: string
  an_event_key :: string
  an_action :: string

record approval_db =
  pd_auth :: auth_db
  pd_rbac :: rbac_db
  pd_releases :: "release list"
  pd_nodes :: "release_node list"
  pd_preservations :: "preservation list"
  pd_sources :: "current_source list"
  pd_legacy :: "legacy_approval list"
  pd_imports :: "legacy_import list"
  pd_requests :: "approval_request list"
  pd_events :: "approval_event list"
  pd_bases :: "approval_basis list"
  pd_audits :: "(string \<times> int \<times> string) list"
  pd_notices :: "approval_notice list"

subsection \<open>The request and its environment\<close>

record approval_context =
  ax_user_id :: int
  ax_tenant_id :: "int option"
  ax_tenant_user_id :: "int option"
  ax_demo_id :: "string option"
  ax_demo_realm :: bool
  ax_mcp_connection_id :: "string option"
  ax_auth_session :: "string option"

text \<open>
  \<open>fn_snapshot\<close> is what the snapshot builder answers for the current sources: the hash of their
  projection, or the error it raises; \<open>fn_uuid5\<close> is \<open>uuid.uuid5\<close>.
\<close>

record approval_env =
  fn_auth :: auth_env
  fn_snapshot :: "int \<Rightarrow> pydict list \<Rightarrow> string \<Rightarrow> app_error + string"
  fn_uuid5 :: "string \<Rightarrow> string \<Rightarrow> string"

datatype db_fault = PendingExists | OperationExists | SerializationFailure | OtherDbFault

type_synonym approval_error = "db_fault + app_error"

definition app :: "app_error + 'a \<Rightarrow> approval_error + 'a" where
  "app m = (case m of Inl e \<Rightarrow> Inl (Inr e) | Inr x \<Rightarrow> Inr x)"

lemma app_simps [simp]: "app (Inl e) = Inl (Inr e)" "app (Inr x) = Inr x"
  "app m = Inr x \<longleftrightarrow> m = Inr x" "app m = Inl (Inr e) \<longleftrightarrow> m = Inl e"
  by (auto simp: app_def split: sum.splits)

abbreviation raises :: "err_class \<Rightarrow> approval_error + 'a" where
  "raises c \<equiv> Inl (Inr (raise_cls c))"

definition content_digest :: "approval_env \<Rightarrow> pyval \<Rightarrow> string" where
  "content_digest env v = digest (ae_digest (fn_auth env)) v"

subsection \<open>Access\<close>

definition transaction_actor :: "approval_env \<Rightarrow> approval_context \<Rightarrow> approval_db \<Rightarrow> app_error + auth_user" where
  "transaction_actor env ctx db =
     (if ax_tenant_id ctx = None \<or> ax_tenant_user_id ctx \<noteq> Some (ax_user_id ctx) \<or> ax_demo_id ctx \<noteq> None \<or>
         ax_demo_realm ctx \<or> ax_mcp_connection_id ctx \<noteq> None then Inl (raise_cls ForbiddenError)
      else case user_by_id (ax_user_id ctx) (pd_auth db) of
             None \<Rightarrow> Inl (raise_cls ForbiddenError)
           | Some actor \<Rightarrow>
               if \<not> au_is_active actor \<or> au_deleted_at actor \<noteq> None \<or> au_user_type actor \<noteq> ''internal'' \<or>
                  au_password_change_required actor then Inl (raise_cls ForbiddenError)
               else case ax_auth_session ctx of
                      None \<Rightarrow> Inr actor
                    | Some sid \<Rightarrow>
                        (case session_by_id sid (pd_auth db) of
                           None \<Rightarrow> Inl (raise_cls TokenExpiredError)
                         | Some s \<Rightarrow>
                             if us_user_id s \<noteq> au_id actor \<or> us_revoked_at s \<noteq> None \<or>
                                us_expires_at s \<le> ae_now (fn_auth env) \<or>
                                us_absolute_expires_at s \<le> ae_now (fn_auth env)
                             then Inl (raise_cls TokenExpiredError)
                             else if require_verified (fn_auth env) actor s then Inr actor
                             else Inl (raise_cls MfaRequiredError)))"

text \<open>The context of the transaction keeps the tenant; demo requests were refused.\<close>

definition actor_may :: "approval_context \<Rightarrow> approval_db \<Rightarrow> int \<Rightarrow> int \<Rightarrow> string \<Rightarrow> bool" where
  "actor_may ctx db actor_id project_id code =
     has_project_permission (pd_auth db) (pd_rbac db) False (ax_tenant_id ctx) actor_id project_id code"

definition require_permission ::
  "approval_context \<Rightarrow> approval_db \<Rightarrow> int \<Rightarrow> int \<Rightarrow> string \<Rightarrow> app_error + unit" where
  "require_permission ctx db actor_id project_id code =
     raise_if (\<not> actor_may ctx db actor_id project_id code) (raise_cls ForbiddenError)"

fun require_all ::
  "approval_context \<Rightarrow> approval_db \<Rightarrow> int \<Rightarrow> int \<Rightarrow> string list \<Rightarrow> app_error + unit" where
  "require_all ctx db actor_id project_id [] = Inr ()"
| "require_all ctx db actor_id project_id (code # codes) =
     ebind (require_permission ctx db actor_id project_id code) (\<lambda>_. require_all ctx db actor_id project_id codes)"

definition source_permissions :: "(string \<times> string) list" where
  "source_permissions = [(''requirement'', ''requirement''), (''requirement_document'', ''requirement''),
     (''specification'', ''document''), (''test_design'', ''test_plan'')]"

definition source_read :: "string \<Rightarrow> string" where
  "source_read kind = (case map_of source_permissions kind of None \<Rightarrow> '''' | Some p \<Rightarrow> p) @ '':read''"

definition approval_access ::
  "approval_env \<Rightarrow> approval_context \<Rightarrow> int \<Rightarrow> bool \<Rightarrow> approval_db \<Rightarrow> app_error + auth_user" where
  "approval_access env ctx project_id write db =
     ebind (transaction_actor env ctx db) (\<lambda>actor.
     ebind (require_all ctx db (au_id actor) project_id
              (''requirement:read'' # (if write then [''artifact_release:create'', ''requirement:review''] else []))) (\<lambda>_.
     Inr actor))"

definition release_get :: "approval_context \<Rightarrow> approval_db \<Rightarrow> int \<Rightarrow> int \<Rightarrow> string \<Rightarrow> app_error + release" where
  "release_get ctx db actor_id project_id release_id =
     (case find (\<lambda>r. ar_id r = release_id \<and> ar_project_id r = project_id \<and> ar_sealed r) (pd_releases db) of
        None \<Rightarrow> Inl (raise_cls NotFoundError)
      | Some r \<Rightarrow> ebind (require_all ctx db actor_id project_id (map source_read (remdups (ar_source_kinds r)))) (\<lambda>_.
                  Inr r))"

definition release_access ::
  "approval_context \<Rightarrow> approval_db \<Rightarrow> int \<Rightarrow> int \<Rightarrow> string \<Rightarrow> string option \<Rightarrow> bool \<Rightarrow>
   app_error + release \<times> preservation option" where
  "release_access ctx db actor_id project_id release_id preservation_id write =
     ebind (require_permission ctx db actor_id project_id
              (if write then ''artifact_release:create'' else ''artifact_release:read'')) (\<lambda>_.
     ebind (release_get ctx db actor_id project_id release_id) (\<lambda>row.
     case preservation_id of
       None \<Rightarrow> Inr (row, None)
     | Some pid \<Rightarrow>
         ebind (require_permission ctx db actor_id project_id ''document:read'') (\<lambda>_.
         case find (\<lambda>p. pv_id p = pid \<and> pv_release_id p = release_id) (pd_preservations db) of
           None \<Rightarrow> Inl (raise_cls NotFoundError)
         | Some p \<Rightarrow> if pv_status p \<noteq> ''ready'' then Inl (raise_cls FixedApprovalScopeConflictError)
                     else Inr (row, Some p))))"

text \<open>What a listing may show: the kinds of sources the actor can read, and whether attachments.\<close>

definition allowed :: "approval_context \<Rightarrow> approval_db \<Rightarrow> int \<Rightarrow> int \<Rightarrow> string list \<times> bool" where
  "allowed ctx db actor_id project_id =
     (if \<not> actor_may ctx db actor_id project_id ''artifact_release:read'' then ([], False)
      else (filter (\<lambda>k. actor_may ctx db actor_id project_id (source_read k)) (map fst source_permissions),
            actor_may ctx db actor_id project_id ''document:read''))"

definition candidate_codes :: "release \<Rightarrow> string option \<Rightarrow> string list" where
  "candidate_codes r preservation_id =
     remdups ([''artifact_release:read'', ''requirement:read'', ''requirement:approve''] @
              map source_read (ar_source_kinds r) @ (if preservation_id = None then [] else [''document:read'']))"

subsection \<open>Repository\<close>

definition approval_get :: "int \<Rightarrow> string \<Rightarrow> approval_db \<Rightarrow> approval_request option" where
  "approval_get project_id approval_id db =
     find (\<lambda>r. fa_project_id r = project_id \<and> fa_id r = approval_id \<and> fa_sealed r) (pd_requests db)"

definition by_operation :: "int \<Rightarrow> int \<Rightarrow> string \<Rightarrow> approval_db \<Rightarrow> approval_request option" where
  "by_operation project_id actor_id request_id db =
     find (\<lambda>r. fa_project_id r = project_id \<and> fa_requester_id r = actor_id \<and> fa_request_id r = request_id \<and> fa_sealed r)
       (pd_requests db)"

definition release_nodes :: "string \<Rightarrow> approval_db \<Rightarrow> release_node list" where
  "release_nodes release_id db = sort_key nd_ordinal (filter (\<lambda>n. nd_release_id n = release_id) (pd_nodes db))"

definition approval_events :: "string \<Rightarrow> approval_db \<Rightarrow> approval_event list" where
  "approval_events approval_id db = sort_key fe_seq (filter (\<lambda>e. fe_approval_id e = approval_id) (pd_events db))"

definition approval_bases :: "string \<Rightarrow> approval_db \<Rightarrow> approval_basis list" where
  "approval_bases approval_id db = filter (\<lambda>b. fb_approval_id b = approval_id) (pd_bases db)"

definition visible_requests :: "int \<Rightarrow> string list \<Rightarrow> bool \<Rightarrow> approval_db \<Rightarrow> approval_request list" where
  "visible_requests project_id kinds document_read db =
     [r. r \<leftarrow> pd_requests db, l \<leftarrow> pd_releases db, ar_id l = fa_release_id r,
        fa_project_id r = project_id \<and> fa_sealed r \<and> set (ar_source_kinds l) \<subseteq> set kinds \<and>
        (document_read \<or> fa_preservation_id r = None)]"

text \<open>The number of distinct required codes the user holds through live memberships with project roles.\<close>

definition held_codes :: "int \<Rightarrow> int \<Rightarrow> rbac_db \<Rightarrow> string list" where
  "held_codes project_id user_id db =
     [pe_code e. m \<leftarrow> rb_project_members db, r \<leftarrow> rb_roles db, ro_id r = pm_role_id m,
        (rp, permission_id) \<leftarrow> rb_role_permissions db, rp = ro_id r,
        e \<leftarrow> rb_permissions db, pe_id e = permission_id,
        pm_user_id m = user_id \<and> pm_project_id m = project_id \<and> pm_deleted_at m = None \<and> ro_scope r = ''project'']"

definition is_candidate :: "approval_context \<Rightarrow> approval_db \<Rightarrow> int \<Rightarrow> int \<Rightarrow> string list \<Rightarrow> int \<Rightarrow> bool" where
  "is_candidate ctx db project_id actor_id codes user_id \<longleftrightarrow>
     (case user_by_id user_id (pd_auth db) of
        None \<Rightarrow> False
      | Some u \<Rightarrow>
          user_id \<noteq> actor_id \<and> au_is_active u \<and> au_deleted_at u = None \<and> au_user_type u = ''internal'' \<and>
          \<not> au_password_change_required u \<and>
          tget rg_user_id user_id (adb_review_grants (pd_auth db)) = None \<and>
          list_ex (\<lambda>tm. tm_user_id tm = user_id \<and> Some (tm_tenant_id tm) = ax_tenant_id ctx \<and> tm_status tm = ''active'')
            (rb_tenant_members (pd_rbac db)) \<and>
          length (remdups (filter (\<lambda>c. c \<in> set codes) (held_codes project_id user_id (pd_rbac db)))) =
            length (remdups codes))"

definition imported :: "int \<Rightarrow> string \<Rightarrow> approval_db \<Rightarrow> legacy_import option" where
  "imported project_id import_id db =
     find (\<lambda>i. li_project_id i = project_id \<and> li_id i = import_id) (pd_imports db)"

end
