(* ===== verification/Fixed_Approval.thy ===== *)
theory Fixed_Approval imports Approval_Model begin

text \<open>
  Fixed approvals: \<open>FixedApprovalService\<close> (\<^verbatim>\<open>app/services/fixed_approval.py\<close>) with the content
  comparison of \<^verbatim>\<open>app/services/fixed_approval_scope.py\<close>, the inputs of
  \<^verbatim>\<open>app/schemas/fixed_approval.py\<close> and the notices of
  \<^verbatim>\<open>app/repositories/fixed_approval_notification.py\<close>.

  A requester asks a named approver to approve one node of a sealed release: a requirement, or a
  document with a basis for every requirement in it (an earlier approval of the same content, or an
  exception with its reason). The request is confirmed against a preview by its digest, the decision
  against a second preview that also observes whether the sources have changed since.

  The functions \<open>..._operation\<close> are the bodies that \<open>retry\<close> runs in a transaction of their own. Requests
  to guests are made and cancelled by another service; here a request of that policy is only refused.
\<close>

subsection \<open>Inputs\<close>

record scope_input =
  si_release_id :: string
  si_target_node_id :: string
  si_preservation_id :: "string option"
  si_attachments_none :: bool
  si_approver_id :: int
  si_legacy_import_id :: "string option"
  si_request_note :: "string option"
  si_exceptions :: "(string \<times> string) list"

record approval_create = scope_input +
  sc_request_id :: string
  sc_expected_preview_digest :: string

record decision_input =
  dc_version :: int
  dc_operation_id :: string
  dc_expected_review_digest :: string
  dc_decision :: string
  dc_comment :: "string option"
  dc_confirm_fixed_scope :: bool
  dc_confirm_changed_or_unknown :: bool
  dc_confirm_exceptions :: bool

record cancel_input =
  cc_version :: int
  cc_operation_id :: string
  cc_reason :: string

text \<open>The validator of the scope: attachments are explicit, exceptions are distinct and have a reason.\<close>

definition explicit_scope :: "'a scope_input_scheme \<Rightarrow> bool" where
  "explicit_scope data \<longleftrightarrow> (si_preservation_id data = None) = si_attachments_none data \<and>
     distinct (map fst (si_exceptions data)) \<and> list_all (\<lambda>(_, reason). py_strip reason \<noteq> []) (si_exceptions data)"

definition scope_items :: "'a scope_input_scheme \<Rightarrow> pydict" where
  "scope_items data =
     [(''release_id'', PStr (si_release_id data)), (''target_node_id'', PStr (si_target_node_id data)),
      (''preservation_id'', py_opt_str (si_preservation_id data)), (''attachments_none'', PBool (si_attachments_none data)),
      (''approver_id'', PInt (si_approver_id data)), (''legacy_import_id'', py_opt_str (si_legacy_import_id data)),
      (''request_note'', py_opt_str (si_request_note data)),
      (''exceptions'', PList (map (\<lambda>(n, reason). PDict [(''node_id'', PStr n), (''reason'', PStr reason)]) (si_exceptions data)))]"

definition create_json :: "approval_create \<Rightarrow> pyval" where
  "create_json data = PDict (scope_items data @
     [(''request_id'', PStr (sc_request_id data)), (''expected_preview_digest'', PStr (sc_expected_preview_digest data))])"

definition decision_json :: "decision_input \<Rightarrow> pyval" where
  "decision_json data = PDict
     [(''version'', PInt (dc_version data)), (''operation_id'', PStr (dc_operation_id data)),
      (''expected_review_digest'', PStr (dc_expected_review_digest data)), (''decision'', PStr (dc_decision data)),
      (''comment'', py_opt_str (dc_comment data)), (''confirm_fixed_scope'', PBool (dc_confirm_fixed_scope data)),
      (''confirm_changed_or_unknown'', PBool (dc_confirm_changed_or_unknown data)),
      (''confirm_exceptions'', PBool (dc_confirm_exceptions data))]"

definition cancel_json :: "cancel_input \<Rightarrow> pyval" where
  "cancel_json data = PDict
     [(''version'', PInt (cc_version data)), (''operation_id'', PStr (cc_operation_id data)), (''reason'', PStr (cc_reason data))]"

definition max_review_input :: int where
  "max_review_input = 1024 * 1024"

definition check_input :: "pyval \<Rightarrow> app_error + unit" where
  "check_input v = raise_if (max_review_input < int (length (canonical_bytes v))) (raise_cls FixedApprovalTooLargeError)"

subsection \<open>What an approval of a requirement is about\<close>

definition requirement_subject :: "release_node \<Rightarrow> release_node list \<Rightarrow> pyval" where
  "requirement_subject node details = PDict
     [(''policy'', PStr ''req-subject-v1''), (''source_id'', PInt (nd_source_id node)),
      (''source_version'', py_opt_int (nd_source_version node)), (''payload'', PDict (nd_payload node)),
      (''details'', PList (map (\<lambda>d. PDict [(''source_id'', PInt (nd_source_id d)),
          (''source_version'', py_opt_int (nd_source_version d)), (''payload'', PDict (nd_payload d))])
        (sort_key nd_position details)))]"

definition details_of :: "release_node \<Rightarrow> release_node list \<Rightarrow> release_node list" where
  "details_of node nodes = filter (\<lambda>n. nd_parent_id n = Some (nd_id node) \<and> nd_kind n = ''requirement_detail'') nodes"

definition requirement_digest :: "approval_env \<Rightarrow> release_node \<Rightarrow> release_node list \<Rightarrow> string" where
  "requirement_digest env node nodes = content_digest env (requirement_subject node (details_of node nodes))"

subsection \<open>The bases of a document\<close>

record basis_read =
  ab_node_id :: string
  ab_source_id :: int
  ab_source_version :: "int option"
  ab_title :: pyval
  ab_subject_digest :: string
  ab_state :: string
  ab_agreed_approval_id :: "string option"
  ab_agreed_event_id :: "string option"
  ab_reason :: "string option"

definition basis_json :: "basis_read \<Rightarrow> pyval" where
  "basis_json b = PDict
     [(''node_id'', PStr (ab_node_id b)), (''source_id'', PInt (ab_source_id b)),
      (''source_version'', py_opt_int (ab_source_version b)), (''title'', ab_title b),
      (''subject_digest'', PStr (ab_subject_digest b)), (''state'', PStr (ab_state b)),
      (''agreed_approval_id'', py_opt_str (ab_agreed_approval_id b)),
      (''agreed_event_id'', py_opt_str (ab_agreed_event_id b)), (''reason'', py_opt_str (ab_reason b))]"

text \<open>The nodes below the target: a node belongs when its parent came before it and belongs.\<close>

fun members_below :: "string set \<Rightarrow> release_node list \<Rightarrow> string set" where
  "members_below members [] = members"
| "members_below members (n # nodes) =
     members_below (case nd_parent_id n of None \<Rightarrow> members
                    | Some p \<Rightarrow> if p \<in> members then insert (nd_id n) members else members) nodes"

definition requirements_below :: "release_node \<Rightarrow> release_node list \<Rightarrow> release_node list" where
  "requirements_below target nodes =
     (let members = members_below {nd_id target} nodes
      in filter (\<lambda>n. nd_id n \<in> members \<and> nd_kind n = ''requirement'') nodes)"

text \<open>Newest first: \<open>ORDER BY created_at DESC, id DESC\<close>.\<close>

definition newest_first :: "approval_request list \<Rightarrow> approval_request list" where
  "newest_first rs = rev (sort_key fa_created_at (sort_key fa_id rs))"

definition basis_row ::
  "approval_env \<Rightarrow> approval_db \<Rightarrow> release_node list \<Rightarrow> approval_request list \<Rightarrow> int list \<Rightarrow> release_node \<Rightarrow>
   app_error + basis_read" where
  "basis_row env db nodes previous legacy_ids node =
     (let subject = requirement_digest env node nodes;
          histories = filter (\<lambda>r. fa_source_id r = nd_source_id node) previous;
          same = filter (\<lambda>r. dget (fa_scope_manifest r) ''requirement_digest'' = PStr subject) histories;
          approved = filter (\<lambda>r. fa_status r = ''approved'') same;
          rejected = list_ex (\<lambda>r. fa_status r = ''rejected'') same;
          read = (\<lambda>state agreed event. \<lparr>ab_node_id = nd_id node, ab_source_id = nd_source_id node,
             ab_source_version = nd_source_version node, ab_title = dget (nd_payload node) ''title'',
             ab_subject_digest = subject, ab_state = state, ab_agreed_approval_id = agreed,
             ab_agreed_event_id = event, ab_reason = None\<rparr>)
      in if approved \<noteq> [] \<and> rejected then Inr (read ''conflicting'' None None)
         else if approved \<noteq> [] then
           (let agreed = fa_id (hd approved); events = approval_events agreed db
            in if events = [] then Inl (raise_cls AppError)
               else Inr (read ''agreed'' (Some agreed) (Some (fe_id (last events)))))
         else if rejected then Inr (read ''rejected'' None None)
         else if list_ex (\<lambda>r. fa_status r = ''requested'') same then Inr (read ''pending'' None None)
         else if histories \<noteq> [] then Inr (read ''changed'' None None)
         else if nd_source_id node \<in> set legacy_ids then Inr (read ''legacy_unverified'' None None)
         else Inr (read ''unagreed'' None None))"

fun collect :: "('a \<Rightarrow> 'e + 'b) \<Rightarrow> 'a list \<Rightarrow> 'e + 'b list" where
  "collect f [] = Inr []"
| "collect f (x # xs) = ebind (f x) (\<lambda>y. ebind (collect f xs) (\<lambda>ys. Inr (y # ys)))"

definition basis_rows ::
  "approval_env \<Rightarrow> approval_context \<Rightarrow> approval_db \<Rightarrow> int \<Rightarrow> int \<Rightarrow> release_node list \<Rightarrow> release_node \<Rightarrow>
   app_error + basis_read list" where
  "basis_rows env ctx db actor_id project_id nodes target =
     (if nd_kind target \<noteq> ''requirement_document'' then Inr []
      else
        (let reqs = requirements_below target nodes;
             (kinds, document_read) = allowed ctx db actor_id project_id;
             previous = newest_first (filter (\<lambda>r. fa_target_kind r = ''requirement'' \<and>
                 fa_source_id r \<in> nd_source_id ` set reqs) (visible_requests project_id kinds document_read db));
             legacy_ids = map lg_target_id (filter (\<lambda>l. lg_project_id l = project_id \<and> lg_target_type l = ''requirement_item'')
                 (pd_legacy db))
         in collect (basis_row env db nodes previous legacy_ids) reqs))"

subsection \<open>The scope of a request\<close>

record approval_preview =
  ap_title :: pyval
  ap_target_kind :: string
  ap_source_id :: int
  ap_scope_manifest :: pydict
  ap_scope_digest :: string
  ap_preview_digest :: string
  ap_basis_counts :: "(string \<times> int) list"

definition count_states :: "basis_read list \<Rightarrow> (string \<times> int) list" where
  "count_states bs = map (\<lambda>s. (s, int (length (filter (\<lambda>b. ab_state b = s) bs)))) (remdups (map ab_state bs))"

definition legacy_origin :: "approval_db \<Rightarrow> int \<Rightarrow> release_node \<Rightarrow> string option \<Rightarrow> app_error + legacy_import option" where
  "legacy_origin db project_id target import_id =
     (case import_id of
        None \<Rightarrow> Inr None
      | Some i \<Rightarrow>
          (case imported project_id i db of
             None \<Rightarrow> Inl (raise_cls FixedApprovalScopeConflictError)
           | Some origin \<Rightarrow>
               if li_mode origin \<noteq> ''archive'' \<or> li_source_status origin \<notin> {''approved'', ''rejected''} \<or>
                  map_of [(''document'', ''requirement_document''), (''requirement_item'', ''requirement'')]
                    (li_source_target_type origin) \<noteq> Some (nd_kind target) \<or>
                  li_source_target_id origin \<noteq> nd_source_id target
               then Inl (raise_cls FixedApprovalScopeConflictError) else Inr (Some origin)))"

definition scope_manifest ::
  "approval_env \<Rightarrow> release \<Rightarrow> preservation option \<Rightarrow> release_node list \<Rightarrow> release_node \<Rightarrow> basis_read list \<Rightarrow> int \<Rightarrow>
   legacy_import option \<Rightarrow> pydict" where
  "scope_manifest env release preservation nodes target bases exception_count origin =
     [(''policy'', PStr ''fixed-approval-v1''), (''release_id'', PStr (ar_id release)),
      (''body_digest'', PStr (ar_content_digest release)), (''target_node_id'', PStr (nd_id target)),
      (''target_kind'', PStr (nd_kind target)), (''source_id'', PInt (nd_source_id target)),
      (''source_version'', py_opt_int (nd_source_version target)), (''title'', dget (nd_payload target) ''title''),
      (''requirement_digest'', if nd_kind target = ''requirement'' then PStr (requirement_digest env target nodes) else PNone),
      (''supporting_sources'', PList (map PDict (tl (ar_source_refs release)))),
      (''preservation_id'', py_opt_str (map_option pv_id preservation)),
      (''preservation_digest'', case preservation of None \<Rightarrow> PNone | Some p \<Rightarrow> py_opt_str (pv_manifest_digest p)),
      (''files'', PList (case preservation of None \<Rightarrow> []
         | Some p \<Rightarrow> map (\<lambda>(i, f). PDict (dset f ''file_id'' (PStr (fn_uuid5 env (pv_id p) (show_nat i)))))
                       (List.enumerate 0 (pv_files p)))),
      (''basis_count'', PInt (int (length bases))), (''basis_digest'', PStr (content_digest env (PList (map basis_json bases)))),
      (''exception_count'', PInt exception_count),
      (''legacy_origin'', case origin of None \<Rightarrow> PNone
         | Some i \<Rightarrow> PDict [(''import_id'', PStr (li_id i)), (''source_digest'', PStr (li_source_digest i)),
                            (''legacy_approval_id'', PInt (li_legacy_approval_id i))])]"

definition approval_scope ::
  "approval_env \<Rightarrow> approval_context \<Rightarrow> approval_db \<Rightarrow> int \<Rightarrow> int \<Rightarrow> pyval \<Rightarrow> 'a scope_input_scheme \<Rightarrow>
   app_error + approval_preview \<times> basis_read list" where
  "approval_scope env ctx db actor_id project_id json data =
     ebind (check_input json) (\<lambda>_.
     ebind (release_access ctx db actor_id project_id (si_release_id data) (si_preservation_id data) True) (\<lambda>(release, preservation).
     let nodes = release_nodes (ar_id release) db in
     ebind (some_or (raise_cls NotFoundError) (find (\<lambda>n. nd_id n = si_target_node_id data) nodes)) (\<lambda>target.
     ebind (raise_if (nd_kind target \<notin> {''requirement'', ''requirement_document''}) (raise_cls NotFoundError)) (\<lambda>_.
     ebind (raise_if (ar_source_kind release \<notin> {''requirement'', ''requirement_document''} \<or>
                      list_ex (\<lambda>ref. dget ref ''kind'' \<notin> {PStr ''specification'', PStr ''test_design''}) (tl (ar_source_refs release)))
              (raise_cls FixedApprovalScopeConflictError)) (\<lambda>_.
     ebind (raise_if (\<not> is_candidate ctx db project_id actor_id (candidate_codes release (si_preservation_id data)) (si_approver_id data))
              (raise_msg BadRequestError ''FIXED_APPROVAL_CANDIDATE_INVALID'')) (\<lambda>_.
     ebind (basis_rows env ctx db actor_id project_id nodes target) (\<lambda>bases0.
     let exceptions = map (\<lambda>(n, reason). (n, py_strip reason)) (si_exceptions data) in
     ebind (raise_if (fst ` set exceptions \<noteq> ab_node_id ` {b \<in> set bases0. ab_state b \<noteq> ''agreed''})
              (raise_cls FixedApprovalScopeConflictError)) (\<lambda>_.
     let bases = map (\<lambda>b. b\<lparr>ab_reason := map_of exceptions (ab_node_id b)\<rparr>) bases0 in
     ebind (legacy_origin db project_id target (si_legacy_import_id data)) (\<lambda>origin.
     let manifest = scope_manifest env release preservation nodes target bases (int (length (remdups (map fst exceptions)))) origin;
         scope_digest = content_digest env (PDict manifest)
     in Inr (\<lparr>ap_title = dget manifest ''title'', ap_target_kind = nd_kind target, ap_source_id = nd_source_id target,
              ap_scope_manifest = manifest, ap_scope_digest = scope_digest,
              ap_preview_digest = content_digest env (PDict [(''scope'', PStr scope_digest), (''input'', PDict (scope_items data)),
                 (''actor'', PInt actor_id), (''project'', PInt project_id)]),
              ap_basis_counts = count_states bases\<rparr>, bases))))))))))"

definition preview_approval ::
  "approval_env \<Rightarrow> approval_context \<Rightarrow> int \<Rightarrow> scope_input \<Rightarrow> approval_db \<Rightarrow> app_error + approval_preview" where
  "preview_approval env ctx project_id data db =
     ebind (approval_access env ctx project_id True db) (\<lambda>actor.
     ebind (approval_scope env ctx db (au_id actor) project_id (PDict (scope_items data)) data) (\<lambda>(preview, _).
     Inr preview))"

subsection \<open>Notices\<close>

definition action_type :: "string \<Rightarrow> string" where
  "action_type action = (if action = ''requested'' then ''fixed_approval_requested''
     else if action = ''cancelled'' then ''fixed_approval_cancelled'' else ''fixed_approval_decided'')"

text \<open>Who may read the request now: \<open>internal_access\<close>.\<close>

definition internal_access :: "approval_request \<Rightarrow> int \<Rightarrow> approval_db \<Rightarrow> bool" where
  "internal_access r user_id db \<longleftrightarrow>
     (let may = (\<lambda>code. project_member_has_permission user_id (fa_project_id r) code (pd_rbac db))
      in case (tget pj_id (fa_project_id r) (rb_projects (pd_rbac db)), tget ar_id (fa_release_id r) (pd_releases db),
               user_by_id user_id (pd_auth db)) of
           (Some p, Some l, Some u) \<Rightarrow>
             au_is_active u \<and> au_deleted_at u = None \<and> au_user_type u = ''internal'' \<and> \<not> au_password_change_required u \<and>
             list_ex (\<lambda>tm. tm_user_id tm = user_id \<and> tm_tenant_id tm = pj_tenant_id p \<and> tm_status tm = ''active'')
               (rb_tenant_members (pd_rbac db)) \<and>
             list_ex (\<lambda>t. tn_id t = pj_tenant_id p \<and> tn_status t = ''active'') (rb_tenants (pd_rbac db)) \<and>
             pj_deleted_at p = None \<and> tget rg_user_id user_id (adb_review_grants (pd_auth db)) = None \<and>
             may ''requirement:read'' \<and> may ''artifact_release:read'' \<and>
             set (ar_source_kinds l) \<subseteq> set (map fst source_permissions) \<and>
             (''specification'' \<in> set (ar_source_kinds l) \<longrightarrow> may ''document:read'') \<and>
             (''test_design'' \<in> set (ar_source_kinds l) \<longrightarrow> may ''test_plan:read'') \<and>
             (fa_preservation_id r \<noteq> None \<longrightarrow> may ''document:read'')
         | _ \<Rightarrow> False)"

definition notice_recipients :: "approval_request \<Rightarrow> string \<Rightarrow> int \<Rightarrow> int list" where
  "notice_recipients r action actor_id = filter (\<lambda>u. u \<noteq> actor_id)
     (if action = ''requested'' then [fa_approver_id r]
      else if action = ''cancelled'' then remdups [fa_requester_id r, fa_approver_id r] else [fa_requester_id r])"

definition emit_notice_to :: "approval_request \<Rightarrow> approval_event \<Rightarrow> int \<Rightarrow> approval_db \<Rightarrow> approval_db" where
  "emit_notice_to r e user_id db =
     (let key = ''fixed_approval:'' @ fe_id e in
      if \<not> internal_access r user_id db then db
      else if list_ex (\<lambda>n. an_event_key n = key \<and> an_recipient n = user_id) (pd_notices db) then db
      else db\<lparr>pd_notices := pd_notices db @
        [\<lparr>an_recipient = user_id, an_type = action_type (fe_action e), an_actor = fe_actor_id e,
          an_project_id = fa_project_id r, an_target_id = fa_id r, an_event_key = key, an_action = fe_action e\<rparr>]\<rparr>)"

definition emit_fixed_approval :: "approval_request \<Rightarrow> approval_event \<Rightarrow> approval_db \<Rightarrow> approval_db" where
  "emit_fixed_approval r e db =
     fold (emit_notice_to r e) (notice_recipients r (fe_action e) (fe_actor_id e)) db"

definition approval_audit :: "int \<Rightarrow> string \<Rightarrow> string \<Rightarrow> approval_db \<Rightarrow> approval_db" where
  "approval_audit actor_id identity action db =
     db\<lparr>pd_audits := pd_audits db @ [(''fixed_approval.'' @ action, actor_id, identity)]\<rparr>"

subsection \<open>Saving a request\<close>

record approval_ids =
  ci_approval :: string
  ci_event :: string

text \<open>
  The unique constraints of the tables: one pending request per target (nulls compare equal), one
  request per operation of a requester, one event per number and per operation of a request.
\<close>

definition insert_request :: "approval_request \<Rightarrow> approval_db \<Rightarrow> db_fault + approval_db" where
  "insert_request r db =
     (if list_ex (\<lambda>x. fa_status x = ''requested'' \<and> fa_project_id x = fa_project_id r \<and> fa_release_id x = fa_release_id r \<and>
           fa_target_node_id x = fa_target_node_id r \<and> fa_preservation_id x = fa_preservation_id r) (pd_requests db)
      then Inl PendingExists
      else if list_ex (\<lambda>x. fa_project_id x = fa_project_id r \<and> fa_requester_id x = fa_requester_id r \<and>
           fa_request_id x = fa_request_id r) (pd_requests db) then Inl OperationExists
      else if fa_requester_id r = fa_approver_id r \<or> fa_id r \<in> fa_id ` set (pd_requests db) then Inl OtherDbFault
      else Inr (db\<lparr>pd_requests := pd_requests db @ [r]\<rparr>))"

definition insert_event :: "approval_event \<Rightarrow> approval_db \<Rightarrow> db_fault + approval_db" where
  "insert_event e db =
     (if list_ex (\<lambda>x. fe_id x = fe_id e \<or> fe_approval_id x = fe_approval_id e \<and>
           (fe_seq x = fe_seq e \<or> fe_operation_id x = fe_operation_id e)) (pd_events db) then Inl OtherDbFault
      else Inr (db\<lparr>pd_events := pd_events db @ [e]\<rparr>))"

definition fault :: "db_fault + 'a \<Rightarrow> approval_error + 'a" where
  "fault m = (case m of Inl f \<Rightarrow> Inl (Inl f) | Inr x \<Rightarrow> Inr x)"

definition new_basis :: "approval_request \<Rightarrow> basis_read \<Rightarrow> approval_basis" where
  "new_basis r b =
     \<lparr>fb_approval_id = fa_id r, fb_release_id = fa_release_id r, fb_target_node_id = ab_node_id b,
      fb_source_id = ab_source_id b, fb_subject_digest = ab_subject_digest b,
      fb_basis_kind = (if ab_state b = ''agreed'' then ''agreed'' else ''exception''), fb_state_at_request = ab_state b,
      fb_agreed_approval_id = ab_agreed_approval_id b, fb_agreed_event_id = ab_agreed_event_id b, fb_reason = ab_reason b\<rparr>"

definition new_request ::
  "approval_env \<Rightarrow> approval_ids \<Rightarrow> int \<Rightarrow> int \<Rightarrow> 'a scope_input_scheme \<Rightarrow> approval_preview \<Rightarrow> string \<Rightarrow> string \<Rightarrow>
   string option \<Rightarrow> approval_request" where
  "new_request env ids actor_id project_id data preview request_id request_digest import_id =
     \<lparr>fa_id = ci_approval ids, fa_project_id = project_id, fa_release_id = si_release_id data,
      fa_target_node_id = si_target_node_id data, fa_target_kind = ap_target_kind preview, fa_source_id = ap_source_id preview,
      fa_preservation_id = si_preservation_id data, fa_scope_manifest = ap_scope_manifest preview,
      fa_scope_digest = ap_scope_digest preview, fa_policy_version = ''fixed-approval-v1'', fa_requester_id = actor_id,
      fa_approver_id = si_approver_id data, fa_request_note = si_request_note data, fa_status = ''requested'', fa_version = 1,
      fa_sealed = False, fa_created_at = ae_now (fn_auth env), fa_finalized_at = None, fa_request_id = request_id,
      fa_request_digest = request_digest, fa_legacy_import_id = import_id\<rparr>"

definition save_request ::
  "approval_env \<Rightarrow> approval_ids \<Rightarrow> int \<Rightarrow> int \<Rightarrow> 'a scope_input_scheme \<Rightarrow> approval_preview \<Rightarrow> basis_read list \<Rightarrow>
   string \<Rightarrow> string \<Rightarrow> string option \<Rightarrow> approval_db \<Rightarrow> db_fault + approval_request \<times> approval_db" where
  "save_request env ids actor_id project_id data preview bases request_id request_digest import_id db =
     (let row = new_request env ids actor_id project_id data preview request_id request_digest import_id;
          event = \<lparr>fe_id = ci_event ids, fe_approval_id = fa_id row, fe_seq = 1, fe_operation_id = request_id,
                   fe_operation_digest = request_digest, fe_actor_id = actor_id, fe_action = ''requested'',
                   fe_reason = si_request_note data, fe_scope_digest = fa_scope_digest row, fe_observation = []\<rparr>;
          sealed = row\<lparr>fa_sealed := True\<rparr>
      in ebind (insert_request row db) (\<lambda>db1.
         ebind (insert_event event db1) (\<lambda>db2.
         let db3 = db2\<lparr>pd_bases := pd_bases db2 @ map (new_basis row) bases,
                       pd_requests := tput fa_id sealed (pd_requests db2)\<rparr>
         in Inr (sealed, emit_fixed_approval sealed event (approval_audit actor_id (fa_id row) ''requested'' db3)))))"

subsection \<open>Reading a request\<close>

record approval_read =
  vr_request :: approval_request
  vr_events :: "approval_event list"
  vr_can_decide :: bool
  vr_can_cancel :: bool

definition read_approval :: "approval_context \<Rightarrow> int \<Rightarrow> int \<Rightarrow> approval_request \<Rightarrow> approval_db \<Rightarrow> approval_read" where
  "read_approval ctx actor_id project_id row db =
     \<lparr>vr_request = row, vr_events = approval_events (fa_id row) db,
      vr_can_decide = (fa_status row = ''requested'' \<and> actor_id = fa_approver_id row \<and>
         actor_may ctx db actor_id project_id ''requirement:approve''),
      vr_can_cancel = (fa_status row = ''requested'' \<and>
         list_all (actor_may ctx db actor_id project_id) [''artifact_release:create'', ''requirement:review''])\<rparr>"

definition approval_row ::
  "approval_context \<Rightarrow> approval_db \<Rightarrow> int \<Rightarrow> int \<Rightarrow> string \<Rightarrow> bool \<Rightarrow> app_error + approval_request" where
  "approval_row ctx db actor_id project_id approval_id write =
     ebind (some_or (raise_cls NotFoundError) (approval_get project_id approval_id db)) (\<lambda>row.
     ebind (release_access ctx db actor_id project_id (fa_release_id row) (fa_preservation_id row) write) (\<lambda>_.
     Inr row))"

definition get_approval :: "approval_env \<Rightarrow> approval_context \<Rightarrow> int \<Rightarrow> string \<Rightarrow> approval_db \<Rightarrow> app_error + approval_read" where
  "get_approval env ctx project_id approval_id db =
     ebind (approval_access env ctx project_id False db) (\<lambda>actor.
     ebind (approval_row ctx db (au_id actor) project_id approval_id False) (\<lambda>row.
     Inr (read_approval ctx (au_id actor) project_id row db)))"

subsection \<open>Creating a request\<close>

definition create_operation ::
  "approval_env \<Rightarrow> approval_context \<Rightarrow> approval_ids \<Rightarrow> int \<Rightarrow> approval_create \<Rightarrow> approval_db \<Rightarrow>
   approval_error + (approval_read \<times> bool) \<times> approval_db" where
  "create_operation env ctx ids project_id data db =
     ebind (app (approval_access env ctx project_id True db)) (\<lambda>actor.
     let actor_id = au_id actor; request_hash = content_digest env (create_json data) in
     case by_operation project_id actor_id (sc_request_id data) db of
       Some previous \<Rightarrow>
         ebind (app (release_access ctx db actor_id project_id (fa_release_id previous) (fa_preservation_id previous) True)) (\<lambda>_.
         if fa_request_digest previous \<noteq> request_hash then raises DuplicateResourceError
         else Inr ((read_approval ctx actor_id project_id previous db, False), db))
     | None \<Rightarrow>
         ebind (app (approval_scope env ctx db actor_id project_id (create_json data) data)) (\<lambda>(preview, bases).
         if ap_preview_digest preview \<noteq> sc_expected_preview_digest data then raises FixedApprovalScopeConflictError
         else ebind (fault (save_request env ids actor_id project_id data preview bases (sc_request_id data) request_hash
                       (si_legacy_import_id data) db)) (\<lambda>(row, db').
              Inr ((read_approval ctx actor_id project_id row db', True), db'))))"

subsection \<open>Deciding and cancelling\<close>

text \<open>What has become of the sources of the release since it was sealed.\<close>

definition current_of :: "approval_db \<Rightarrow> int \<Rightarrow> pyval \<Rightarrow> pyval \<Rightarrow> current_source option" where
  "current_of db project_id kind identity =
     find (\<lambda>s. PStr (cs_kind s) = kind \<and> PInt (cs_id s) = identity \<and> cs_project_id s = project_id \<and> cs_live s) (pd_sources db)"

fun observe_refs ::
  "approval_db \<Rightarrow> approval_request \<Rightarrow> pydict list \<Rightarrow> pyval \<Rightarrow> pydict list \<Rightarrow> pydict list option \<times> pyval" where
  "observe_refs db row [] version refs = (Some refs, version)"
| "observe_refs db row (ref # rest) version refs =
     (case current_of db (fa_project_id row) (dget ref ''kind'') (dget ref ''id'') of
        None \<Rightarrow> (None, version)
      | Some s \<Rightarrow>
          observe_refs db row rest
            (if dget ref ''kind'' = PStr (fa_target_kind row) \<and> dget ref ''id'' = PInt (fa_source_id row)
             then PInt (cs_version s) else version)
            (refs @ [dset ref ''version'' (PInt (cs_version s))]))"

definition observation_dict :: "string \<Rightarrow> pyval \<Rightarrow> pyval \<Rightarrow> pyval \<Rightarrow> pydict" where
  "observation_dict comparison body fixed current =
     [(''body_comparison'', PStr comparison), (''current_body_digest'', body), (''fixed_source_version'', fixed),
      (''current_source_version'', current), (''attachments_comparison'', PStr ''fixed_only'')]"

definition approval_observation ::
  "approval_env \<Rightarrow> approval_context \<Rightarrow> approval_db \<Rightarrow> int \<Rightarrow> approval_request \<Rightarrow> app_error + pydict" where
  "approval_observation env ctx db actor_id row =
     ebind (release_access ctx db actor_id (fa_project_id row) (fa_release_id row) (fa_preservation_id row) False) (\<lambda>(release, _).
     let fixed = dget (fa_scope_manifest row) ''source_version'' in
     Inr (case observe_refs db row (ar_source_refs release) PNone [] of
            (None, version) \<Rightarrow> observation_dict ''unavailable'' PNone fixed version
          | (Some refs, version) \<Rightarrow>
              (case fn_snapshot env (fa_project_id row) refs (ar_projection_version release) of
                 Inl e \<Rightarrow> observation_dict (if err_cls e = ObjectiveProjectionUpgradeError then ''changed'' else ''unavailable'')
                            PNone fixed version
               | Inr body \<Rightarrow>
                   observation_dict (if body = ar_content_digest release then ''equal'' else ''changed'') (PStr body) fixed
                     (if fa_target_kind row = ''requirement'' \<and> version = PNone
                      then py_opt_int (map_option cs_version
                             (current_of db (fa_project_id row) (PStr ''requirement'') (PInt (fa_source_id row))))
                      else version))))"

record decision_preview =
  dp_approval_id :: string
  dp_version :: int
  dp_review_digest :: string
  dp_observation :: pydict
  dp_exception_count :: pyval

definition conflict_of :: "approval_request \<Rightarrow> app_error" where
  "conflict_of row = version_conflict [(''version'', PInt (fa_version row)), (''status'', PStr (fa_status row))]"

definition approval_review ::
  "approval_env \<Rightarrow> approval_context \<Rightarrow> approval_db \<Rightarrow> int \<Rightarrow> int \<Rightarrow> approval_request \<Rightarrow> app_error + decision_preview" where
  "approval_review env ctx db actor_id project_id row =
     ebind (raise_if (fa_policy_version row = ''fixed-approval-guest-v1'') (raise_cls ForbiddenError)) (\<lambda>_.
     ebind (require_permission ctx db actor_id project_id ''requirement:approve'') (\<lambda>_.
     ebind (raise_if (actor_id \<noteq> fa_approver_id row \<or> actor_id = fa_requester_id row) (raise_cls ForbiddenError)) (\<lambda>_.
     ebind (raise_if (fa_status row \<noteq> ''requested'') (conflict_of row)) (\<lambda>_.
     ebind (approval_observation env ctx db actor_id row) (\<lambda>observed.
     Inr \<lparr>dp_approval_id = fa_id row, dp_version = fa_version row,
          dp_review_digest = content_digest env (PDict [(''id'', PStr (fa_id row)), (''version'', PInt (fa_version row)),
             (''scope'', PStr (fa_scope_digest row)), (''observation'', PDict observed)]),
          dp_observation = observed, dp_exception_count = dget (fa_scope_manifest row) ''exception_count''\<rparr>)))))"

definition preview_decision ::
  "approval_env \<Rightarrow> approval_context \<Rightarrow> int \<Rightarrow> string \<Rightarrow> approval_db \<Rightarrow> app_error + decision_preview" where
  "preview_decision env ctx project_id approval_id db =
     ebind (approval_access env ctx project_id False db) (\<lambda>actor.
     ebind (approval_row ctx db (au_id actor) project_id approval_id False) (\<lambda>row.
     approval_review env ctx db (au_id actor) project_id row))"

definition previous_event ::
  "approval_env \<Rightarrow> approval_event list \<Rightarrow> string \<Rightarrow> pyval \<Rightarrow> app_error + approval_event option" where
  "previous_event env events operation_id json =
     (case find (\<lambda>e. fe_operation_id e = operation_id) events of
        None \<Rightarrow> Inr None
      | Some e \<Rightarrow> if fe_operation_digest e \<noteq> content_digest env json then Inl (raise_cls DuplicateResourceError)
                  else Inr (Some e))"

text \<open>A count is true unless it is zero; it is an integer of the manifest.\<close>

definition counts_exceptions :: "pyval \<Rightarrow> bool" where
  "counts_exceptions v \<longleftrightarrow> v \<notin> {PNone, PInt 0}"

definition finalize ::
  "approval_env \<Rightarrow> string \<Rightarrow> int \<Rightarrow> string \<Rightarrow> string option \<Rightarrow> string \<Rightarrow> pyval \<Rightarrow> pydict \<Rightarrow> approval_request \<Rightarrow>
   approval_db \<Rightarrow> db_fault + approval_request \<times> approval_db" where
  "finalize env event_id actor_id status reason operation_id json observed row db =
     (let row' = row\<lparr>fa_status := status, fa_version := 2, fa_finalized_at := Some (ae_now (fn_auth env))\<rparr>;
          event = \<lparr>fe_id = event_id, fe_approval_id = fa_id row, fe_seq = 2, fe_operation_id = operation_id,
                   fe_operation_digest = content_digest env json, fe_actor_id = actor_id, fe_action = status,
                   fe_reason = reason, fe_scope_digest = fa_scope_digest row, fe_observation = observed\<rparr>
      in ebind (insert_event event (db\<lparr>pd_requests := tput fa_id row' (pd_requests db)\<rparr>)) (\<lambda>db1.
         Inr (row', emit_fixed_approval row' event (approval_audit actor_id (fa_id row) status db1))))"

definition decision_reason :: "decision_input \<Rightarrow> string option" where
  "decision_reason data =
     (let stripped = py_strip (case dc_comment data of None \<Rightarrow> [] | Some c \<Rightarrow> c)
      in if stripped = [] then None else Some stripped)"

definition decision_status :: "decision_input \<Rightarrow> decision_preview \<Rightarrow> string" where
  "decision_status data review =
     (if dc_decision data = ''reject'' then ''rejected''
      else if counts_exceptions (dp_exception_count review) then ''approved_with_exceptions'' else ''approved'')"

definition unconfirmed :: "decision_input \<Rightarrow> decision_preview \<Rightarrow> bool" where
  "unconfirmed data review \<longleftrightarrow>
     dp_review_digest review \<noteq> dc_expected_review_digest data \<or> \<not> dc_confirm_fixed_scope data \<or>
     dget (dp_observation review) ''body_comparison'' \<noteq> PStr ''equal'' \<and> \<not> dc_confirm_changed_or_unknown data \<or>
     counts_exceptions (dp_exception_count review) \<and> \<not> dc_confirm_exceptions data"

definition decide_operation ::
  "approval_env \<Rightarrow> approval_context \<Rightarrow> string \<Rightarrow> int \<Rightarrow> string \<Rightarrow> decision_input \<Rightarrow> approval_db \<Rightarrow>
   approval_error + approval_read \<times> approval_db" where
  "decide_operation env ctx event_id project_id approval_id data db =
     ebind (app (approval_access env ctx project_id False db)) (\<lambda>actor.
     let actor_id = au_id actor in
     ebind (app (approval_row ctx db actor_id project_id approval_id False)) (\<lambda>row.
     ebind (app (raise_if (fa_policy_version row = ''fixed-approval-guest-v1'') (raise_cls ForbiddenError))) (\<lambda>_.
     ebind (app (require_permission ctx db actor_id project_id ''requirement:approve'')) (\<lambda>_.
     ebind (app (raise_if (actor_id \<noteq> fa_approver_id row \<or> actor_id = fa_requester_id row) (raise_cls ForbiddenError))) (\<lambda>_.
     ebind (app (previous_event env (approval_events (fa_id row) db) (dc_operation_id data) (decision_json data))) (\<lambda>previous.
     if previous \<noteq> None then Inr (read_approval ctx actor_id project_id row db, db)
     else
       ebind (app (approval_review env ctx db actor_id project_id row)) (\<lambda>review.
       ebind (app (raise_if (fa_version row \<noteq> dc_version data) (conflict_of row))) (\<lambda>_.
       ebind (app (raise_if (unconfirmed data review) (raise_cls FixedApprovalScopeConflictError))) (\<lambda>_.
       ebind (app (raise_if (dc_decision data = ''reject'' \<and> decision_reason data = None)
                   (raise_msg BadRequestError ''FIXED_APPROVAL_REASON_REQUIRED''))) (\<lambda>_.
       ebind (fault (finalize env event_id actor_id (decision_status data review) (decision_reason data) (dc_operation_id data)
                (decision_json data) (dp_observation review) row db)) (\<lambda>(row', db').
       Inr (read_approval ctx actor_id project_id row' db', db'))))))))))))"

definition cancel_operation ::
  "approval_env \<Rightarrow> approval_context \<Rightarrow> string \<Rightarrow> int \<Rightarrow> string \<Rightarrow> cancel_input \<Rightarrow> approval_db \<Rightarrow>
   approval_error + approval_read \<times> approval_db" where
  "cancel_operation env ctx event_id project_id approval_id data db =
     ebind (app (approval_access env ctx project_id True db)) (\<lambda>actor.
     let actor_id = au_id actor in
     ebind (app (approval_row ctx db actor_id project_id approval_id True)) (\<lambda>row.
     ebind (app (previous_event env (approval_events (fa_id row) db) (cc_operation_id data) (cancel_json data))) (\<lambda>previous.
     if previous \<noteq> None then Inr (read_approval ctx actor_id project_id row db, db)
     else
       ebind (app (raise_if (fa_status row \<noteq> ''requested'' \<or> fa_version row \<noteq> cc_version data) (conflict_of row))) (\<lambda>_.
       ebind (app (raise_if (py_strip (cc_reason data) = []) (raise_msg BadRequestError ''FIXED_APPROVAL_REASON_REQUIRED''))) (\<lambda>_.
       ebind (fault (finalize env event_id actor_id ''cancelled'' (Some (py_strip (cc_reason data))) (cc_operation_id data)
                (cancel_json data) [] row db)) (\<lambda>(row', db').
       Inr (read_approval ctx actor_id project_id row' db', db')))))))"

subsection \<open>Retrying\<close>

text \<open>
  An attempt is the state its transaction starts from and the error the database answers to it on top, if
  any. A request pending for the target is final; a lost race is tried again, three times in all.
\<close>

fun approval_retry ::
  "(approval_db \<Rightarrow> approval_error + 'a \<times> approval_db) \<Rightarrow> (approval_db \<times> db_fault option) list \<Rightarrow> app_error + 'a \<times> approval_db" where
  "approval_retry operation [] = Inl (raise_cls FixedApprovalScopeConflictError)"
| "approval_retry operation ((db, lost) # attempts) =
     (case (case lost of None \<Rightarrow> operation db | Some f \<Rightarrow> Inl (Inl f)) of
        Inr r \<Rightarrow> Inr r
      | Inl (Inr e) \<Rightarrow> Inl e
      | Inl (Inl PendingExists) \<Rightarrow> Inl (raise_cls DuplicateResourceError)
      | Inl (Inl OtherDbFault) \<Rightarrow> Inl (raise_msg AppError ''DBAPIError'')
      | Inl (Inl _) \<Rightarrow> approval_retry operation attempts)"

definition create_approval ::
  "approval_env \<Rightarrow> approval_context \<Rightarrow> approval_ids \<Rightarrow> int \<Rightarrow> approval_create \<Rightarrow> (approval_db \<times> db_fault option) list \<Rightarrow>
   app_error + (approval_read \<times> bool) \<times> approval_db" where
  "create_approval env ctx ids project_id data attempts =
     ebind (check_input (create_json data)) (\<lambda>_.
     approval_retry (create_operation env ctx ids project_id data) (take 3 attempts))"

definition decide_approval ::
  "approval_env \<Rightarrow> approval_context \<Rightarrow> string \<Rightarrow> int \<Rightarrow> string \<Rightarrow> decision_input \<Rightarrow> (approval_db \<times> db_fault option) list \<Rightarrow>
   app_error + approval_read \<times> approval_db" where
  "decide_approval env ctx event_id project_id approval_id data attempts =
     ebind (check_input (decision_json data)) (\<lambda>_.
     approval_retry (decide_operation env ctx event_id project_id approval_id data) (take 3 attempts))"

definition cancel_approval ::
  "approval_env \<Rightarrow> approval_context \<Rightarrow> string \<Rightarrow> int \<Rightarrow> string \<Rightarrow> cancel_input \<Rightarrow> (approval_db \<times> db_fault option) list \<Rightarrow>
   app_error + approval_read \<times> approval_db" where
  "cancel_approval env ctx event_id project_id approval_id data attempts =
     approval_retry (cancel_operation env ctx event_id project_id approval_id data) (take 3 attempts)"

end
