(* ===== verification/Approval_System.thy ===== *)
theory Approval_System imports Fixed_Approval begin

text \<open>
  Every history of fixed approvals: the step relation over creating, deciding and cancelling with
  everything else of the database changing in between, its invariant, and what it means: a decision is
  made once, by the named approver and nobody else, and an approved document is agreed requirement by
  requirement.
\<close>

subsection \<open>What the operations write\<close>

lemma emit_notice_to_fields [simp]:
  "pd_requests (emit_notice_to r e u db) = pd_requests db" "pd_events (emit_notice_to r e u db) = pd_events db"
  "pd_bases (emit_notice_to r e u db) = pd_bases db" "pd_releases (emit_notice_to r e u db) = pd_releases db"
  "pd_nodes (emit_notice_to r e u db) = pd_nodes db"
  by (simp_all add: emit_notice_to_def Let_def)

lemma fold_fields:
  assumes "\<And>x s. f (g x s) = f s"
  shows "f (fold g xs s) = f s"
  by (induction xs arbitrary: s) (simp_all add: assms)

lemma emit_fields [simp]:
  "pd_requests (emit_fixed_approval r e db) = pd_requests db" "pd_events (emit_fixed_approval r e db) = pd_events db"
  "pd_bases (emit_fixed_approval r e db) = pd_bases db" "pd_releases (emit_fixed_approval r e db) = pd_releases db"
  "pd_nodes (emit_fixed_approval r e db) = pd_nodes db"
  by (simp_all add: emit_fixed_approval_def fold_fields)

lemma audit_fields [simp]:
  "pd_requests (approval_audit a i act db) = pd_requests db" "pd_events (approval_audit a i act db) = pd_events db"
  "pd_bases (approval_audit a i act db) = pd_bases db" "pd_releases (approval_audit a i act db) = pd_releases db"
  "pd_nodes (approval_audit a i act db) = pd_nodes db"
  by (simp_all add: approval_audit_def)

lemma fault_eq_Inr [simp]: "fault m = Inr x \<longleftrightarrow> m = Inr x"
  by (simp add: fault_def split: sum.splits)

definition events_of :: "string \<Rightarrow> approval_db \<Rightarrow> approval_event list" where
  "events_of k db = filter (\<lambda>e. fe_approval_id e = k) (pd_events db)"

text \<open>A saved request: one more request, its first event, its bases.\<close>

lemma save_request_effect:
  assumes "save_request env ids actor_id project_id data preview bases request_id request_digest import_id db = Inr (row, db')"
  shows "row = (new_request env ids actor_id project_id data preview request_id request_digest import_id)\<lparr>fa_sealed := True\<rparr> \<and>
    fa_id row \<notin> fa_id ` set (pd_requests db) \<and> pd_requests db' = pd_requests db @ [row] \<and>
    (\<exists>e. pd_events db' = pd_events db @ [e] \<and> fe_approval_id e = fa_id row \<and> fe_seq e = 1 \<and> fe_operation_id e = request_id \<and>
       fe_operation_digest e = request_digest \<and> fe_actor_id e = actor_id \<and> fe_action e = ''requested'') \<and>
    pd_bases db' = pd_bases db @ map (new_basis row) bases \<and>
    pd_releases db' = pd_releases db \<and> pd_nodes db' = pd_nodes db \<and>
    insert_request row db = Inr (db\<lparr>pd_requests := pd_requests db @ [row]\<rparr>)"
proof -
  let ?row = "new_request env ids actor_id project_id data preview request_id request_digest import_id"
  have fresh: "fa_id ?row \<notin> fa_id ` set (pd_requests db)"
    and ins: "insert_request ?row db = Inr (db\<lparr>pd_requests := pd_requests db @ [?row]\<rparr>)"
    using assms by (auto simp: save_request_def Let_def insert_request_def split: if_splits)
  have "tput fa_id (?row\<lparr>fa_sealed := True\<rparr>) (pd_requests db @ [?row]) = pd_requests db @ [?row\<lparr>fa_sealed := True\<rparr>]"
    using fresh tput_absent [of fa_id "?row\<lparr>fa_sealed := True\<rparr>" "pd_requests db"] by (simp add: tput_def)
  moreover have "new_basis ?row = new_basis (?row\<lparr>fa_sealed := True\<rparr>)"
    by (simp add: new_basis_def fun_eq_iff)
  ultimately show ?thesis
    using assms fresh ins
    by (auto simp: save_request_def Let_def insert_event_def insert_request_def new_request_def split: if_splits)
qed

text \<open>A finalized request: its row changes and it gets its second event.\<close>

lemma finalize_effect:
  assumes "finalize env event_id actor_id status reason operation_id json observed row db = Inr (row', db')"
  shows "row' = row\<lparr>fa_status := status, fa_version := 2, fa_finalized_at := Some (ae_now (fn_auth env))\<rparr> \<and>
    pd_requests db' = tput fa_id row' (pd_requests db) \<and>
    (\<exists>e. pd_events db' = pd_events db @ [e] \<and> fe_approval_id e = fa_id row \<and> fe_seq e = 2 \<and> fe_operation_id e = operation_id \<and>
       fe_actor_id e = actor_id \<and> fe_action e = status \<and> fe_reason e = reason \<and> fe_observation e = observed) \<and>
    pd_bases db' = pd_bases db \<and> pd_releases db' = pd_releases db \<and> pd_nodes db' = pd_nodes db"
  using assms by (auto simp: finalize_def Let_def insert_event_def split: if_splits)

subsection \<open>What a successful operation has checked\<close>

lemma approval_get_Some:
  "approval_get project_id approval_id db = Some r \<Longrightarrow>
     r \<in> set (pd_requests db) \<and> fa_project_id r = project_id \<and> fa_id r = approval_id \<and> fa_sealed r"
  by (auto simp: approval_get_def find_Some_iff)

lemma approval_row_Some:
  "approval_row ctx db actor_id project_id approval_id write = Inr r \<Longrightarrow> approval_get project_id approval_id db = Some r"
  by (auto simp: approval_row_def)

lemma approval_review_Inr:
  assumes "approval_review env ctx db actor_id project_id row = Inr review"
  shows "fa_status row = ''requested'' \<and> actor_id = fa_approver_id row \<and> actor_id \<noteq> fa_requester_id row \<and>
    actor_may ctx db actor_id project_id ''requirement:approve'' \<and>
    dp_exception_count review = dget (fa_scope_manifest row) ''exception_count'' \<and>
    approval_observation env ctx db actor_id row = Inr (dp_observation review) \<and> dp_version review = fa_version row \<and>
    dp_review_digest review = content_digest env (PDict [(''id'', PStr (fa_id row)), (''version'', PInt (fa_version row)),
       (''scope'', PStr (fa_scope_digest row)), (''observation'', PDict (dp_observation review))])"
  using assms by (auto simp: approval_review_def require_permission_def)

lemma create_operation_cases:
  assumes "create_operation env ctx ids project_id data db = Inr (r, db')"
  obtains (replay) actor previous where "approval_access env ctx project_id True db = Inr actor"
      "by_operation project_id (au_id actor) (sc_request_id data) db = Some previous"
      "fa_request_digest previous = content_digest env (create_json data)"
      "r = (read_approval ctx (au_id actor) project_id previous db, False)" "db' = db"
  | (saved) actor preview bases row where "approval_access env ctx project_id True db = Inr actor"
      "by_operation project_id (au_id actor) (sc_request_id data) db = None"
      "approval_scope env ctx db (au_id actor) project_id (create_json data) data = Inr (preview, bases)"
      "ap_preview_digest preview = sc_expected_preview_digest data"
      "save_request env ids (au_id actor) project_id data preview bases (sc_request_id data)
         (content_digest env (create_json data)) (si_legacy_import_id data) db = Inr (row, db')"
      "r = (read_approval ctx (au_id actor) project_id row db', True)"
proof -
  obtain actor where actor: "approval_access env ctx project_id True db = Inr actor"
    using assms by (auto simp: create_operation_def)
  show thesis
  proof (cases "by_operation project_id (au_id actor) (sc_request_id data) db")
    case None
    with assms actor show thesis
      by (auto simp: create_operation_def Let_def split: if_splits intro: saved)
  next
    case (Some previous)
    with assms actor show thesis
      by (auto simp: create_operation_def Let_def split: if_splits intro: replay)
  qed
qed

text \<open>Both later operations first look for the event of a repeated request.\<close>

lemma previous_event_Inr:
  assumes "previous_event env events operation_id json = Inr (Some e)"
  shows "list_ex (\<lambda>e. fe_operation_id e = operation_id) events"
  using assms by (auto simp: previous_event_def list_ex_iff find_Some_iff split: option.splits if_splits)

lemma decide_operation_cases:
  assumes "decide_operation env ctx event_id project_id approval_id data db = Inr (r, db')"
  obtains (replay) actor row where "approval_access env ctx project_id False db = Inr actor"
      "approval_get project_id approval_id db = Some row"
      "list_ex (\<lambda>e. fe_operation_id e = dc_operation_id data) (approval_events (fa_id row) db)" "db' = db"
  | (decided) actor row review row' where "approval_access env ctx project_id False db = Inr actor"
      "approval_get project_id approval_id db = Some row"
      "approval_review env ctx db (au_id actor) project_id row = Inr review" "fa_version row = dc_version data"
      "\<not> unconfirmed data review" "dc_decision data = ''reject'' \<longrightarrow> decision_reason data \<noteq> None"
      "finalize env event_id (au_id actor) (decision_status data review) (decision_reason data) (dc_operation_id data)
         (decision_json data) (dp_observation review) row db = Inr (row', db')"
      "r = read_approval ctx (au_id actor) project_id row' db'"
proof -
  obtain actor row previous where a: "approval_access env ctx project_id False db = Inr actor"
    and row: "approval_row ctx db (au_id actor) project_id approval_id False = Inr row"
    and prev: "previous_event env (approval_events (fa_id row) db) (dc_operation_id data) (decision_json data) = Inr previous"
    using assms by (auto simp: decide_operation_def Let_def)
  note got = a approval_row_Some [OF row]
  show thesis
  proof (cases previous)
    case None
    with assms a row prev show thesis
      by (auto simp: decide_operation_def Let_def intro!: decided [OF got])
  next
    case (Some e)
    with assms a row prev previous_event_Inr show thesis
      by (fastforce simp: decide_operation_def Let_def intro!: replay [OF got])
  qed
qed

lemma cancel_operation_cases:
  assumes "cancel_operation env ctx event_id project_id approval_id data db = Inr (r, db')"
  obtains (replay) actor row where "approval_access env ctx project_id True db = Inr actor"
      "approval_get project_id approval_id db = Some row"
      "list_ex (\<lambda>e. fe_operation_id e = cc_operation_id data) (approval_events (fa_id row) db)" "db' = db"
  | (cancelled) actor row row' where "approval_access env ctx project_id True db = Inr actor"
      "approval_get project_id approval_id db = Some row" "fa_status row = ''requested''" "fa_version row = cc_version data"
      "py_strip (cc_reason data) \<noteq> []"
      "finalize env event_id (au_id actor) ''cancelled'' (Some (py_strip (cc_reason data))) (cc_operation_id data)
         (cancel_json data) [] row db = Inr (row', db')"
      "r = read_approval ctx (au_id actor) project_id row' db'"
proof -
  obtain actor row previous where a: "approval_access env ctx project_id True db = Inr actor"
    and row: "approval_row ctx db (au_id actor) project_id approval_id True = Inr row"
    and prev: "previous_event env (approval_events (fa_id row) db) (cc_operation_id data) (cancel_json data) = Inr previous"
    using assms by (auto simp: cancel_operation_def Let_def)
  note got = a approval_row_Some [OF row]
  show thesis
  proof (cases previous)
    case None
    with assms a row prev show thesis
      by (auto simp: cancel_operation_def Let_def intro!: cancelled [OF got])
  next
    case (Some e)
    with assms a row prev previous_event_Inr show thesis
      by (fastforce simp: cancel_operation_def Let_def intro!: replay [OF got])
  qed
qed

subsection \<open>Histories\<close>

text \<open>
  A step is a successful operation, or the rest of the program at work: users, roles, attachments and
  sources change in any way, releases are only added, and a sealed release keeps its nodes. The hash
  function is the same at every step.
\<close>

inductive approval_step :: "(string \<Rightarrow> string) \<Rightarrow> approval_db \<Rightarrow> approval_db \<Rightarrow> bool" for sha where
  created: "ae_digest (fn_auth env) = sha \<Longrightarrow> explicit_scope data \<Longrightarrow>
     create_operation env ctx ids project_id data db = Inr (r, db') \<Longrightarrow> approval_step sha db db'"
| decided: "ae_digest (fn_auth env) = sha \<Longrightarrow>
     decide_operation env ctx event_id project_id approval_id decision db = Inr (r, db') \<Longrightarrow> approval_step sha db db'"
| cancelled: "ae_digest (fn_auth env) = sha \<Longrightarrow>
     cancel_operation env ctx event_id project_id approval_id cancel db = Inr (r, db') \<Longrightarrow> approval_step sha db db'"
| others: "pd_requests db' = pd_requests db \<Longrightarrow> pd_events db' = pd_events db \<Longrightarrow> pd_bases db' = pd_bases db \<Longrightarrow>
     pd_releases db' = pd_releases db @ rs \<Longrightarrow> pd_nodes db' = pd_nodes db @ ns \<Longrightarrow>
     \<forall>n \<in> set ns. nd_release_id n \<notin> ar_id ` set (pd_releases db) \<Longrightarrow> approval_step sha db db'"

inductive approval_reachable :: "(string \<Rightarrow> string) \<Rightarrow> approval_db \<Rightarrow> bool" for sha where
  start: "pd_requests db = [] \<Longrightarrow> pd_events db = [] \<Longrightarrow> pd_bases db = [] \<Longrightarrow> approval_reachable sha db"
| step: "approval_reachable sha db \<Longrightarrow> approval_step sha db db' \<Longrightarrow> approval_reachable sha db'"

subsection \<open>The invariant\<close>

definition final_statuses :: "string set" where
  "final_statuses = {''approved'', ''approved_with_exceptions'', ''rejected'', ''cancelled''}"

text \<open>The events of a request tell its state: requested, or requested and finalized.\<close>

definition history_ok :: "approval_request \<Rightarrow> approval_event list \<Rightarrow> bool" where
  "history_ok r es \<longleftrightarrow>
     (\<exists>e1. fe_seq e1 = 1 \<and> fe_action e1 = ''requested'' \<and> fe_actor_id e1 = fa_requester_id r \<and>
        fe_operation_id e1 = fa_request_id r \<and> fe_operation_digest e1 = fa_request_digest r \<and>
        ((es = [e1] \<and> fa_status r = ''requested'' \<and> fa_version r = 1 \<and> fa_finalized_at r = None) \<or>
         (\<exists>e2. es = [e1, e2] \<and> fe_seq e2 = 2 \<and> fe_action e2 = fa_status r \<and> fa_status r \<in> final_statuses \<and>
            fa_version r = 2 \<and> fa_finalized_at r \<noteq> None \<and>
            (fa_status r \<noteq> ''cancelled'' \<longrightarrow> fe_actor_id e2 = fa_approver_id r) \<and>
            (fa_status r \<in> {''rejected'', ''cancelled''} \<longrightarrow> (\<exists>c. fe_reason e2 = Some c \<and> c \<noteq> [])))))"

definition row_ok :: "approval_request \<Rightarrow> bool" where
  "row_ok r \<longleftrightarrow> fa_sealed r \<and> fa_requester_id r \<noteq> fa_approver_id r \<and> fa_policy_version r = ''fixed-approval-v1''"

definition subject_digest :: "(string \<Rightarrow> string) \<Rightarrow> release_node \<Rightarrow> release_node list \<Rightarrow> string" where
  "subject_digest sha node nodes = digest sha (requirement_subject node (details_of node nodes))"

lemma requirement_digest_eq: "requirement_digest env node nodes = subject_digest (ae_digest (fn_auth env)) node nodes"
  by (simp add: requirement_digest_def subject_digest_def content_digest_def)

text \<open>An agreement: an approved request for a requirement of the project with exactly this content.\<close>

definition agreement :: "(string \<Rightarrow> string) \<Rightarrow> approval_db \<Rightarrow> int \<Rightarrow> release_node \<Rightarrow> release_node list \<Rightarrow> approval_request \<Rightarrow> bool" where
  "agreement sha db project_id node nodes a \<longleftrightarrow>
     a \<in> set (pd_requests db) \<and> fa_status a = ''approved'' \<and> fa_target_kind a = ''requirement'' \<and>
     fa_project_id a = project_id \<and> fa_source_id a = nd_source_id node \<and>
     dget (fa_scope_manifest a) ''requirement_digest'' = PStr (subject_digest sha node nodes)"

definition basis_ok ::
  "(string \<Rightarrow> string) \<Rightarrow> approval_db \<Rightarrow> int \<Rightarrow> release_node list \<Rightarrow> release_node \<Rightarrow> approval_basis \<Rightarrow> bool" where
  "basis_ok sha db project_id nodes node b \<longleftrightarrow>
     fb_target_node_id b = nd_id node \<and> fb_source_id b = nd_source_id node \<and>
     fb_subject_digest b = subject_digest sha node nodes \<and>
     (if fb_basis_kind b = ''agreed''
      then \<exists>a. agreement sha db project_id node nodes a \<and> fb_agreed_approval_id b = Some (fa_id a)
      else fb_basis_kind b = ''exception'' \<and> (\<exists>reason. fb_reason b = Some reason \<and> reason \<noteq> []))"

definition covered_nodes :: "release_node \<Rightarrow> release_node list \<Rightarrow> release_node list" where
  "covered_nodes target nodes =
     (if nd_kind target = ''requirement_document'' then requirements_below target nodes else [])"

definition bases_ok :: "(string \<Rightarrow> string) \<Rightarrow> approval_db \<Rightarrow> approval_request \<Rightarrow> bool" where
  "bases_ok sha db r \<longleftrightarrow>
     fa_release_id r \<in> ar_id ` set (pd_releases db) \<and>
     (let nodes = release_nodes (fa_release_id r) db; bs = approval_bases (fa_id r) db in
      \<exists>target. find (\<lambda>n. nd_id n = fa_target_node_id r) nodes = Some target \<and> nd_kind target = fa_target_kind r \<and>
        list_all2 (basis_ok sha db (fa_project_id r) nodes) (covered_nodes target nodes) bs \<and>
        (counts_exceptions (dget (fa_scope_manifest r) ''exception_count'') \<longleftrightarrow> (\<exists>b \<in> set bs. fb_basis_kind b \<noteq> ''agreed'')) \<and>
        (fa_status r = ''approved'' \<longrightarrow> \<not> counts_exceptions (dget (fa_scope_manifest r) ''exception_count'')))"

definition same_pending :: "approval_request \<Rightarrow> approval_request \<Rightarrow> bool" where
  "same_pending x y \<longleftrightarrow> fa_status x = ''requested'' \<and> fa_status y = ''requested'' \<and> fa_project_id x = fa_project_id y \<and>
     fa_release_id x = fa_release_id y \<and> fa_target_node_id x = fa_target_node_id y \<and>
     fa_preservation_id x = fa_preservation_id y"

definition same_operation :: "approval_request \<Rightarrow> approval_request \<Rightarrow> bool" where
  "same_operation x y \<longleftrightarrow> fa_project_id x = fa_project_id y \<and> fa_requester_id x = fa_requester_id y \<and>
     fa_request_id x = fa_request_id y"

definition approval_inv :: "(string \<Rightarrow> string) \<Rightarrow> approval_db \<Rightarrow> bool" where
  "approval_inv sha db \<longleftrightarrow>
     distinct (map fa_id (pd_requests db)) \<and>
     fe_approval_id ` set (pd_events db) \<subseteq> fa_id ` set (pd_requests db) \<and>
     fb_approval_id ` set (pd_bases db) \<subseteq> fa_id ` set (pd_requests db) \<and>
     (\<forall>r \<in> set (pd_requests db). row_ok r \<and> history_ok r (events_of (fa_id r) db) \<and> bases_ok sha db r) \<and>
     (\<forall>x \<in> set (pd_requests db). \<forall>y \<in> set (pd_requests db). same_pending x y \<or> same_operation x y \<longrightarrow> x = y)"

lemma approval_invI:
  assumes "distinct (map fa_id (pd_requests db))"
    and "fe_approval_id ` set (pd_events db) \<subseteq> fa_id ` set (pd_requests db)"
    and "fb_approval_id ` set (pd_bases db) \<subseteq> fa_id ` set (pd_requests db)"
    and "\<And>r. r \<in> set (pd_requests db) \<Longrightarrow> row_ok r \<and> history_ok r (events_of (fa_id r) db) \<and> bases_ok sha db r"
    and "\<And>x y. x \<in> set (pd_requests db) \<Longrightarrow> y \<in> set (pd_requests db) \<Longrightarrow> same_pending x y \<or> same_operation x y \<Longrightarrow> x = y"
  shows "approval_inv sha db"
  using assms unfolding approval_inv_def by meson

subsection \<open>Finalizing keeps it\<close>

text \<open>What is left alone by a change of status.\<close>

definition same_scope :: "approval_request \<Rightarrow> approval_request \<Rightarrow> bool" where
  "same_scope r r' \<longleftrightarrow> (\<exists>status version finalized.
     r' = r\<lparr>fa_status := status, fa_version := version, fa_finalized_at := finalized\<rparr>)"

lemma agreement_mono:
  assumes "agreement sha db p node nodes a"
    and "\<And>a. a \<in> set (pd_requests db) \<Longrightarrow> fa_status a = ''approved'' \<Longrightarrow> a \<in> set (pd_requests db')"
  shows "agreement sha db' p node nodes a"
  using assms by (simp add: agreement_def)

lemma basis_ok_mono:
  assumes "basis_ok sha db p nodes node b"
    and "\<And>a. a \<in> set (pd_requests db) \<Longrightarrow> fa_status a = ''approved'' \<Longrightarrow> a \<in> set (pd_requests db')"
  shows "basis_ok sha db' p nodes node b"
  using assms agreement_mono [of sha db p node nodes _ db'] by (auto simp: basis_ok_def split: if_splits)

lemma bases_ok_mono:
  assumes "bases_ok sha db r" and "same_scope r r'"
    and "\<And>a. a \<in> set (pd_requests db) \<Longrightarrow> fa_status a = ''approved'' \<Longrightarrow> a \<in> set (pd_requests db')"
    and "approval_bases (fa_id r) db' = approval_bases (fa_id r) db"
    and "ar_id ` set (pd_releases db) \<subseteq> ar_id ` set (pd_releases db')"
    and "release_nodes (fa_release_id r) db' = release_nodes (fa_release_id r) db"
    and "fa_status r' = ''approved'' \<longrightarrow> \<not> counts_exceptions (dget (fa_scope_manifest r) ''exception_count'')"
  shows "bases_ok sha db' r'"
proof -
  have eq: "fa_release_id r' = fa_release_id r" "fa_id r' = fa_id r" "fa_target_node_id r' = fa_target_node_id r"
    "fa_target_kind r' = fa_target_kind r" "fa_project_id r' = fa_project_id r" "fa_scope_manifest r' = fa_scope_manifest r"
    using assms(2) by (auto simp: same_scope_def)
  have "list_all2 (basis_ok sha db' p nodes) ns bs" if "list_all2 (basis_ok sha db p nodes) ns bs" for p nodes ns bs
    using that by (rule list_all2_mono) (rule basis_ok_mono, assumption, rule assms(3))
  then show ?thesis
    using assms(1,4-7) by (force simp: bases_ok_def Let_def eq)
qed

lemma tput_members:
  assumes "distinct (map key t)" and "r \<in> set t" and "key r' = key r"
  shows "x \<in> set (tput key r' t) \<longleftrightarrow> x = r' \<or> x \<in> set t \<and> x \<noteq> r"
  using assms by (auto simp: tput_def image_iff distinct_map inj_on_def split: if_splits)

lemma finalized_unique:
  assumes inv: "approval_inv sha db" and r: "r \<in> set (pd_requests db)"
    and r': "r' = r\<lparr>fa_status := status, fa_version := v, fa_finalized_at := Some t\<rparr>"
    and reqs: "pd_requests db' = tput fa_id r' (pd_requests db)"
    and final: "fa_status r' \<noteq> ''requested''"
    and x: "x \<in> set (pd_requests db')" and y: "y \<in> set (pd_requests db')"
    and xy: "same_pending x y \<or> same_operation x y"
  shows "x = y"
proof -
  have dist: "distinct (map fa_id (pd_requests db))"
    using inv by (simp add: approval_inv_def)
  have mem: "x \<in> set (pd_requests db') \<longleftrightarrow> x = r' \<or> x \<in> set (pd_requests db) \<and> x \<noteq> r" for x
    unfolding reqs by (rule tput_members [OF dist r]) (simp add: r')
  have ids: "map fa_id (pd_requests db') = map fa_id (pd_requests db)"
    by (simp add: reqs)
  have orig: "\<exists>x0 \<in> set (pd_requests db). fa_id x0 = fa_id x \<and> (same_operation x z \<longleftrightarrow> same_operation x0 z) \<and>
      (same_operation z x \<longleftrightarrow> same_operation z x0) \<and> (fa_status x = ''requested'' \<longrightarrow> x0 = x)"
    if "x \<in> set (pd_requests db')" for x z
  proof (cases "x = r'")
    case True
    with r final show ?thesis
      by (intro bexI [of _ r]) (simp_all add: same_operation_def r')
  next
    case False
    with that mem show ?thesis by blast
  qed
  obtain x0 where x0: "x0 \<in> set (pd_requests db)" "fa_id x0 = fa_id x" "same_operation x y \<longleftrightarrow> same_operation x0 y"
      "fa_status x = ''requested'' \<longrightarrow> x0 = x"
    using orig [OF x] by blast
  obtain y0 where y0: "y0 \<in> set (pd_requests db)" "fa_id y0 = fa_id y" "same_operation x0 y \<longleftrightarrow> same_operation x0 y0"
      "fa_status y = ''requested'' \<longrightarrow> y0 = y"
    using orig [OF y] by blast
  have "same_pending x0 y0 \<or> same_operation x0 y0"
    using xy x0 y0 by (auto simp: same_pending_def)
  then have "x0 = y0"
    using inv x0(1) y0(1) by (auto simp: approval_inv_def)
  then show "x = y"
    using x0(2) y0(2) x y dist ids by (metis distinct_map inj_onD)
qed

lemma finalized_inv:
  assumes inv: "approval_inv sha db" and r: "r \<in> set (pd_requests db)" and req: "fa_status r = ''requested''"
    and r': "r' = r\<lparr>fa_status := status, fa_version := 2, fa_finalized_at := Some t\<rparr>"
    and reqs: "pd_requests db' = tput fa_id r' (pd_requests db)"
    and e: "pd_events db' = pd_events db @ [e]" "fe_approval_id e = fa_id r" "fe_seq e = 2" "fe_action e = status"
      "status \<noteq> ''cancelled'' \<longrightarrow> fe_actor_id e = fa_approver_id r"
      "status \<in> {''rejected'', ''cancelled''} \<longrightarrow> (\<exists>c. fe_reason e = Some c \<and> c \<noteq> [])"
    and status: "status \<in> final_statuses"
      "status = ''approved'' \<longrightarrow> \<not> counts_exceptions (dget (fa_scope_manifest r) ''exception_count'')"
    and same: "pd_bases db' = pd_bases db" "pd_releases db' = pd_releases db" "pd_nodes db' = pd_nodes db"
  shows "approval_inv sha db'"
proof -
  have dist: "distinct (map fa_id (pd_requests db))"
    using inv by (simp add: approval_inv_def)
  have mem: "x \<in> set (pd_requests db') \<longleftrightarrow> x = r' \<or> x \<in> set (pd_requests db) \<and> x \<noteq> r" for x
    unfolding reqs by (rule tput_members [OF dist r]) (simp add: r')
  have ids: "map fa_id (pd_requests db') = map fa_id (pd_requests db)"
    by (simp add: reqs)
  then have ids': "fa_id ` set (pd_requests db') = fa_id ` set (pd_requests db)"
    by (metis list.set_map)
  have kept: "a \<in> set (pd_requests db')" if "a \<in> set (pd_requests db)" "fa_status a = ''approved''" for a
  proof -
    have "a \<noteq> r"
      using that(2) req by force
    with that(1) mem show ?thesis by blast
  qed
  have bases: "bases_ok sha db' x'" if "x \<in> set (pd_requests db)" "same_scope x x'"
      "fa_status x' = ''approved'' \<longrightarrow> \<not> counts_exceptions (dget (fa_scope_manifest x) ''exception_count'')" for x x'
    using inv that same kept
    by (intro bases_ok_mono [of sha db x x' db']) (auto simp: approval_inv_def approval_bases_def release_nodes_def)
  have other: "row_ok x \<and> history_ok x (events_of (fa_id x) db') \<and> bases_ok sha db' x"
    if x: "x \<in> set (pd_requests db)" "x \<noteq> r" for x
  proof -
    have "fa_id x \<noteq> fa_id r"
      using x r dist by (auto simp: distinct_map inj_on_def)
    moreover have "bases_ok sha db x" "row_ok x" "history_ok x (events_of (fa_id x) db)"
      using inv x by (auto simp: approval_inv_def)
    moreover have "same_scope x x"
      unfolding same_scope_def
      by (rule exI [of _ "fa_status x"], rule exI [of _ "fa_version x"], rule exI [of _ "fa_finalized_at x"]) simp
    ultimately show ?thesis
      using bases [OF x(1)] e(1,2) by (auto simp: events_of_def bases_ok_def Let_def)
  qed
  have this_row: "row_ok r' \<and> history_ok r' (events_of (fa_id r') db') \<and> bases_ok sha db' r'"
  proof -
    obtain e1 where "events_of (fa_id r) db = [e1]" "fe_seq e1 = 1" "fe_action e1 = ''requested''"
        "fe_actor_id e1 = fa_requester_id r" "fe_operation_id e1 = fa_request_id r" "fe_operation_digest e1 = fa_request_digest r"
      using inv r req by (auto simp: approval_inv_def history_ok_def final_statuses_def)
    then have "history_ok r' (events_of (fa_id r') db')"
      using e status(1) by (auto simp: history_ok_def events_of_def r')
    moreover have "bases_ok sha db' r'"
      by (rule bases [OF r]) (use status(2) in \<open>auto simp: same_scope_def r'\<close>)
    ultimately show ?thesis
      using inv r by (auto simp: approval_inv_def row_ok_def r')
  qed
  have "fa_status r' \<noteq> ''requested''"
    using status(1) by (auto simp: r' final_statuses_def)
  then have unique: "x = y" if "x \<in> set (pd_requests db')" "y \<in> set (pd_requests db')"
      "same_pending x y \<or> same_operation x y" for x y
    using finalized_unique [OF inv r r' reqs] that by blast
  have rows: "row_ok x \<and> history_ok x (events_of (fa_id x) db') \<and> bases_ok sha db' x" if "x \<in> set (pd_requests db')" for x
    using mem [THEN iffD1, OF that] other this_row by blast
  have dist': "distinct (map fa_id (pd_requests db'))"
    by (simp only: ids dist)
  have events: "fe_approval_id ` set (pd_events db') \<subseteq> fa_id ` set (pd_requests db')"
    using inv r e(1,2) by (auto simp: approval_inv_def ids')
  have known: "fb_approval_id ` set (pd_bases db') \<subseteq> fa_id ` set (pd_requests db')"
    using inv same(1) by (simp only: approval_inv_def ids')
  show ?thesis
    by (rule approval_invI [OF dist' events known rows unique])
qed

subsection \<open>Saving keeps it\<close>

lemma collect_Inr: "collect f xs = Inr ys \<Longrightarrow> list_all2 (\<lambda>x y. f x = Inr y) xs ys"
  by (induction xs arbitrary: ys) auto

lemma basis_row_Inr:
  assumes "basis_row env db nodes previous legacy node = Inr b"
  shows "ab_node_id b = nd_id node \<and> ab_source_id b = nd_source_id node \<and>
    ab_subject_digest b = requirement_digest env node nodes \<and>
    (ab_state b = ''agreed'' \<longrightarrow> (\<exists>a \<in> set previous. fa_source_id a = nd_source_id node \<and> fa_status a = ''approved'' \<and>
       dget (fa_scope_manifest a) ''requirement_digest'' = PStr (requirement_digest env node nodes) \<and>
       ab_agreed_approval_id b = Some (fa_id a)))"
proof -
  let ?approved = "filter (\<lambda>r. fa_status r = ''approved'') (filter (\<lambda>r. dget (fa_scope_manifest r) ''requirement_digest'' =
      PStr (requirement_digest env node nodes)) (filter (\<lambda>r. fa_source_id r = nd_source_id node) previous))"
  have "hd ?approved \<in> set ?approved" if "?approved \<noteq> []"
    using that by (rule hd_in_set)
  then show ?thesis
    using assms by (simp add: basis_row_def Let_def split: if_splits) auto
qed

lemma visible_requests_mem:
  "r \<in> set (visible_requests p kinds doc db) \<Longrightarrow> r \<in> set (pd_requests db) \<and> fa_project_id r = p"
  by (auto simp: visible_requests_def split: if_splits)

text \<open>The rows of a document: one per requirement in it, and an agreement is one.\<close>

lemma basis_rows_Inr:
  assumes "basis_rows env ctx db actor_id p nodes target = Inr bs" and "sha = ae_digest (fn_auth env)"
  shows "list_all2 (\<lambda>n b. ab_node_id b = nd_id n \<and> ab_source_id b = nd_source_id n \<and>
      ab_subject_digest b = subject_digest sha n nodes \<and>
      (ab_state b = ''agreed'' \<longrightarrow> (\<exists>a. agreement sha db p n nodes a \<and> ab_agreed_approval_id b = Some (fa_id a))))
    (covered_nodes target nodes) bs"
proof (cases "nd_kind target = ''requirement_document''")
  case True
  obtain kinds doc where k: "allowed ctx db actor_id p = (kinds, doc)"
    by fastforce
  have "list_all2 (\<lambda>x y. basis_row env db nodes (newest_first (filter (\<lambda>r. fa_target_kind r = ''requirement'' \<and>
          fa_source_id r \<in> nd_source_id ` set (requirements_below target nodes)) (visible_requests p kinds doc db)))
        (map lg_target_id (filter (\<lambda>l. lg_project_id l = p \<and> lg_target_type l = ''requirement_item'') (pd_legacy db))) x = Inr y)
      (covered_nodes target nodes) bs"
    using assms(1) True k by (intro collect_Inr) (simp add: basis_rows_def covered_nodes_def Let_def)
  then show ?thesis
    by (rule list_all2_mono) (use assms(2) visible_requests_mem in
      \<open>fastforce dest!: basis_row_Inr simp: newest_first_def agreement_def requirement_digest_eq\<close>)
next
  case False
  then show ?thesis
    using assms(1) by (simp add: basis_rows_def covered_nodes_def)
qed

lemma release_access_Inr:
  "release_access ctx db actor_id p rid pid write = Inr (l, pv) \<Longrightarrow> l \<in> set (pd_releases db) \<and> ar_id l = rid"
  by (auto simp: release_access_def release_get_def find_Some_iff split: option.splits if_splits)

lemma approval_scope_Inr:
  assumes "approval_scope env ctx db actor_id p json data = Inr (preview, bases)" and "sha = ae_digest (fn_auth env)"
    and ex: "explicit_scope data"
  obtains target where "si_release_id data \<in> ar_id ` set (pd_releases db)"
    "find (\<lambda>n. nd_id n = si_target_node_id data) (release_nodes (si_release_id data) db) = Some target"
    "nd_kind target = ap_target_kind preview" "si_approver_id data \<noteq> actor_id"
    "list_all2 (\<lambda>n b. ab_node_id b = nd_id n \<and> ab_source_id b = nd_source_id n \<and>
        ab_subject_digest b = subject_digest sha n (release_nodes (si_release_id data) db) \<and>
        (if ab_state b = ''agreed''
         then \<exists>a. agreement sha db p n (release_nodes (si_release_id data) db) a \<and> ab_agreed_approval_id b = Some (fa_id a)
         else \<exists>reason. ab_reason b = Some reason \<and> reason \<noteq> []))
      (covered_nodes target (release_nodes (si_release_id data) db)) bases"
    "counts_exceptions (dget (ap_scope_manifest preview) ''exception_count'') \<longleftrightarrow> (\<exists>b \<in> set bases. ab_state b \<noteq> ''agreed'')"
    "nd_kind target = ''requirement'' \<Longrightarrow> dget (ap_scope_manifest preview) ''requirement_digest'' =
       PStr (subject_digest sha target (release_nodes (si_release_id data) db))"
proof -
  let ?nodes = "release_nodes (si_release_id data) db" and ?ex = "map (\<lambda>(n, reason). (n, py_strip reason)) (si_exceptions data)"
  obtain l pv target bases0 origin where r: "release_access ctx db actor_id p (si_release_id data) (si_preservation_id data) True = Inr (l, pv)"
      and t: "find (\<lambda>n. nd_id n = si_target_node_id data) ?nodes = Some target"
      and c: "is_candidate ctx db p actor_id (candidate_codes l (si_preservation_id data)) (si_approver_id data)"
      and b: "basis_rows env ctx db actor_id p ?nodes target = Inr bases0"
      and e: "fst ` set ?ex = ab_node_id ` {b \<in> set bases0. ab_state b \<noteq> ''agreed''}"
      and bs: "bases = map (\<lambda>b. b\<lparr>ab_reason := map_of ?ex (ab_node_id b)\<rparr>) bases0"
      and m: "ap_scope_manifest preview = scope_manifest env l pv ?nodes target bases (int (length (remdups (map fst ?ex)))) origin"
      and k: "ap_target_kind preview = nd_kind target"
    using assms(1) by (fastforce simp: approval_scope_def Let_def dest: release_access_Inr)
  have reason: "\<exists>reason. map_of ?ex (ab_node_id b) = Some reason \<and> reason \<noteq> []"
    if "b \<in> set bases0" "ab_state b \<noteq> ''agreed''" for b
  proof -
    have "ab_node_id b \<in> fst ` set ?ex"
      using e that by auto
    then obtain reason where "map_of ?ex (ab_node_id b) = Some reason"
      by (metis map_of_eq_None_iff not_Some_eq)
    moreover from map_of_SomeD [OF this] have "reason \<noteq> []"
      using ex by (auto simp: explicit_scope_def list_all_iff)
    ultimately show ?thesis by blast
  qed
  have reasons: "\<exists>c. (\<lambda>b. b\<lparr>ab_reason := map_of ?ex (ab_node_id b)\<rparr>) b = c \<and> ab_node_id c = nd_id n \<and>
      ab_source_id c = nd_source_id n \<and> ab_subject_digest c = subject_digest sha n ?nodes \<and>
      (if ab_state c = ''agreed'' then \<exists>a. agreement sha db p n ?nodes a \<and> ab_agreed_approval_id c = Some (fa_id a)
       else \<exists>reason. ab_reason c = Some reason \<and> reason \<noteq> [])"
    if "b \<in> set bases0" "ab_node_id b = nd_id n \<and> ab_source_id b = nd_source_id n \<and>
          ab_subject_digest b = subject_digest sha n ?nodes \<and>
          (ab_state b = ''agreed'' \<longrightarrow> (\<exists>a. agreement sha db p n ?nodes a \<and> ab_agreed_approval_id b = Some (fa_id a)))" for b n
    using that(2) reason [OF that(1)] by simp
  have "counts_exceptions (dget (ap_scope_manifest preview) ''exception_count'') \<longleftrightarrow> ?ex \<noteq> []"
    by (auto simp: m scope_manifest_def counts_exceptions_def)
  also have "\<dots> \<longleftrightarrow> ab_node_id ` {b \<in> set bases0. ab_state b \<noteq> ''agreed''} \<noteq> {}"
    unfolding e [symmetric] by simp
  also have "\<dots> \<longleftrightarrow> (\<exists>b \<in> set bases. ab_state b \<noteq> ''agreed'')"
    by (auto simp: bs)
  finally have counts: "counts_exceptions (dget (ap_scope_manifest preview) ''exception_count'') \<longleftrightarrow>
      (\<exists>b \<in> set bases. ab_state b \<noteq> ''agreed'')" .
  show thesis
  proof (rule that [OF _ t _ _ _ counts])
    show "si_release_id data \<in> ar_id ` set (pd_releases db)"
      using release_access_Inr [OF r] by (metis imageI)
    show "nd_kind target = ap_target_kind preview"
      by (simp add: k)
    show "si_approver_id data \<noteq> actor_id"
      using c by (auto simp: is_candidate_def split: option.splits)
    show "dget (ap_scope_manifest preview) ''requirement_digest'' = PStr (subject_digest sha target ?nodes)"
      if "nd_kind target = ''requirement''"
      using that assms(2) by (simp add: m scope_manifest_def requirement_digest_eq)
    show "list_all2 (\<lambda>n b. ab_node_id b = nd_id n \<and> ab_source_id b = nd_source_id n \<and> ab_subject_digest b = subject_digest sha n ?nodes \<and>
        (if ab_state b = ''agreed'' then \<exists>a. agreement sha db p n ?nodes a \<and> ab_agreed_approval_id b = Some (fa_id a)
         else \<exists>reason. ab_reason b = Some reason \<and> reason \<noteq> [])) (covered_nodes target ?nodes) bases"
      unfolding bs list_all2_map2
      by (rule list.rel_mono_strong [OF basis_rows_Inr [OF b assms(2)]], drule (1) reasons) (auto split: if_splits)
  qed
qed

lemma unknown_id:
  assumes "approval_inv sha db" and "k \<notin> fa_id ` set (pd_requests db)"
  shows "events_of k db = []" and "approval_bases k db = []"
proof -
  have "\<forall>e \<in> set (pd_events db). fe_approval_id e \<noteq> k" "\<forall>b \<in> set (pd_bases db). fb_approval_id b \<noteq> k"
    using assms by (auto simp: approval_inv_def)
  then show "events_of k db = []" and "approval_bases k db = []"
    by (simp_all add: events_of_def approval_bases_def filter_empty_conv)
qed

text \<open>A new request: it covers its document, is the only pending one, and has a different approver.\<close>

lemma saved_inv:
  assumes inv: "approval_inv sha db" and sha: "sha = ae_digest (fn_auth env)" and ex: "explicit_scope data"
    and scope: "approval_scope env ctx db actor_id p json data = Inr (preview, bases)"
    and save: "save_request env ids actor_id p data preview bases request_id request_digest import_id db = Inr (row, db')"
  shows "approval_inv sha db'"
proof -
  obtain e where row: "row = (new_request env ids actor_id p data preview request_id request_digest import_id)\<lparr>fa_sealed := True\<rparr>"
    and fresh: "fa_id row \<notin> fa_id ` set (pd_requests db)" and reqs: "pd_requests db' = pd_requests db @ [row]"
    and events: "pd_events db' = pd_events db @ [e]" and e: "fe_approval_id e = fa_id row" "fe_seq e = 1"
      "fe_operation_id e = request_id" "fe_operation_digest e = request_digest" "fe_actor_id e = actor_id" "fe_action e = ''requested''"
    and bs: "pd_bases db' = pd_bases db @ map (new_basis row) bases"
    and same: "pd_releases db' = pd_releases db" "pd_nodes db' = pd_nodes db"
    and ins: "insert_request row db = Inr (db\<lparr>pd_requests := pd_requests db @ [row]\<rparr>)"
    using save_request_effect [OF save] by blast
  let ?nodes = "release_nodes (si_release_id data) db"
  have nodes: "release_nodes k db' = release_nodes k db" for k
    by (simp add: release_nodes_def same)
  note no_bases = unknown_id(2) [OF inv fresh] and no_events = unknown_id(1) [OF inv fresh]
  have old: "row_ok x \<and> history_ok x (events_of (fa_id x) db') \<and> bases_ok sha db' x" if x: "x \<in> set (pd_requests db)" for x
  proof -
    have ne: "fa_id x \<noteq> fa_id row"
      using x fresh by (metis imageI)
    have "approval_bases (fa_id x) db' = approval_bases (fa_id x) db"
      using ne by (simp add: approval_bases_def bs new_basis_def filter_empty_conv)
    moreover have "same_scope x x"
      unfolding same_scope_def
      by (rule exI [of _ "fa_status x"], rule exI [of _ "fa_version x"], rule exI [of _ "fa_finalized_at x"]) simp
    ultimately have "bases_ok sha db' x"
      using inv x by (intro bases_ok_mono [of sha db x x db'])
        (auto simp: approval_inv_def reqs same nodes bases_ok_def Let_def)
    moreover have "events_of (fa_id x) db' = events_of (fa_id x) db"
      using ne e by (simp add: events_of_def events)
    ultimately show ?thesis
      using inv x by (simp add: approval_inv_def)
  qed
  have new: "row_ok row \<and> history_ok row (events_of (fa_id row) db') \<and> bases_ok sha db' row"
  proof -
    have fields: "fa_release_id row = si_release_id data" "fa_target_node_id row = si_target_node_id data" "fa_project_id row = p"
      "fa_target_kind row = ap_target_kind preview" "fa_scope_manifest row = ap_scope_manifest preview" "fa_status row = ''requested''"
      "fa_requester_id row = actor_id" "fa_approver_id row = si_approver_id data" "fa_sealed row"
      "fa_policy_version row = ''fixed-approval-v1''" "fa_version row = 1" "fa_finalized_at row = None"
      "fa_request_id row = request_id" "fa_request_digest row = request_digest"
      by (simp_all add: row new_request_def)
    have bases_new: "approval_bases (fa_id row) db' = map (new_basis row) bases"
      using no_bases by (simp add: approval_bases_def bs new_basis_def)
    have "history_ok row (events_of (fa_id row) db')"
      using no_events e by (simp add: events_of_def events history_ok_def fields)
    moreover obtain target where
      "si_release_id data \<in> ar_id ` set (pd_releases db)" "find (\<lambda>n. nd_id n = si_target_node_id data) ?nodes = Some target"
      "nd_kind target = ap_target_kind preview" and other: "si_approver_id data \<noteq> actor_id"
      and all: "list_all2 (\<lambda>n b. ab_node_id b = nd_id n \<and> ab_source_id b = nd_source_id n \<and> ab_subject_digest b = subject_digest sha n ?nodes \<and>
          (if ab_state b = ''agreed'' then \<exists>a. agreement sha db p n ?nodes a \<and> ab_agreed_approval_id b = Some (fa_id a)
           else \<exists>reason. ab_reason b = Some reason \<and> reason \<noteq> [])) (covered_nodes target ?nodes) bases"
      and count: "counts_exceptions (dget (ap_scope_manifest preview) ''exception_count'') \<longleftrightarrow> (\<exists>b \<in> set bases. ab_state b \<noteq> ''agreed'')"
      by (rule approval_scope_Inr [OF scope sha ex]) blast
    moreover have "list_all2 (basis_ok sha db' p ?nodes) (covered_nodes target ?nodes) (map (new_basis row) bases)"
      unfolding list_all2_map2
      by (rule list_all2_mono [OF all])
         (auto simp: basis_ok_def new_basis_def agreement_def reqs split: if_splits)
    moreover have "counts_exceptions (dget (ap_scope_manifest preview) ''exception_count'') \<longleftrightarrow>
        (\<exists>b \<in> set (map (new_basis row) bases). fb_basis_kind b \<noteq> ''agreed'')"
      using count by (auto simp: new_basis_def)
    ultimately show ?thesis
      by (simp add: row_ok_def bases_ok_def Let_def fields bases_new nodes same)
  qed
  have apart: "\<not> same_pending x row \<and> \<not> same_pending row x \<and> \<not> same_operation x row \<and> \<not> same_operation row x"
    if "x \<in> set (pd_requests db)" for x
    using ins that by (auto simp: insert_request_def list_ex_iff same_pending_def same_operation_def split: if_splits)
  show ?thesis
  proof (rule approval_invI)
    show "distinct (map fa_id (pd_requests db'))"
      using inv fresh by (simp add: approval_inv_def reqs)
    show "fe_approval_id ` set (pd_events db') \<subseteq> fa_id ` set (pd_requests db')"
      using inv e by (auto simp: approval_inv_def reqs events)
    show "fb_approval_id ` set (pd_bases db') \<subseteq> fa_id ` set (pd_requests db')"
      using inv by (auto simp: approval_inv_def reqs bs new_basis_def)
    show "row_ok x \<and> history_ok x (events_of (fa_id x) db') \<and> bases_ok sha db' x" if "x \<in> set (pd_requests db')" for x
      using that old new by (auto simp: reqs)
    show "x = y" if "x \<in> set (pd_requests db')" "y \<in> set (pd_requests db')" "same_pending x y \<or> same_operation x y" for x y
      using that inv apart by (auto simp: approval_inv_def reqs)
  qed
qed

subsection \<open>Every step keeps it\<close>

lemma release_nodes_grow:
  assumes "pd_nodes db' = pd_nodes db @ ns" and "\<forall>n \<in> set ns. nd_release_id n \<notin> ar_id ` set (pd_releases db)"
    and "k \<in> ar_id ` set (pd_releases db)"
  shows "release_nodes k db' = release_nodes k db"
proof -
  have "filter (\<lambda>n. nd_release_id n = k) ns = []"
    using assms by (auto simp: filter_empty_conv)
  then show ?thesis
    by (simp add: release_nodes_def assms(1))
qed

lemma others_inv:
  assumes inv: "approval_inv sha db" and same: "pd_requests db' = pd_requests db" "pd_events db' = pd_events db"
      "pd_bases db' = pd_bases db"
    and grow: "pd_releases db' = pd_releases db @ rs" "pd_nodes db' = pd_nodes db @ ns"
      "\<forall>n \<in> set ns. nd_release_id n \<notin> ar_id ` set (pd_releases db)"
  shows "approval_inv sha db'"
proof -
  have "bases_ok sha db' r" if r: "r \<in> set (pd_requests db)" for r
  proof -
    have ok: "bases_ok sha db r"
      using inv r by (simp add: approval_inv_def)
    moreover have "same_scope r r"
      unfolding same_scope_def
      by (rule exI [of _ "fa_status r"], rule exI [of _ "fa_version r"], rule exI [of _ "fa_finalized_at r"]) simp
    moreover have "release_nodes (fa_release_id r) db' = release_nodes (fa_release_id r) db"
      by (rule release_nodes_grow [OF grow(2,3)]) (use ok in \<open>simp add: bases_ok_def\<close>)
    ultimately show ?thesis
      using ok by (intro bases_ok_mono [of sha db r r db']) (auto simp: same grow approval_bases_def bases_ok_def Let_def)
  qed
  then show ?thesis
    using inv by (auto simp: approval_inv_def events_of_def same)
qed

lemma approval_step_inv:
  assumes "approval_step sha db db'" and inv: "approval_inv sha db"
  shows "approval_inv sha db'"
  using assms(1)
proof cases
  case (created env data ctx ids project_id r)
  from created(3) show ?thesis
  proof (cases rule: create_operation_cases)
    case (saved actor preview bases row)
    then show ?thesis
      using saved_inv [OF inv created(1) [symmetric] created(2)] by blast
  qed (use inv in simp)
next
  case (decided env ctx event_id project_id approval_id decision r)
  from decided(2) show ?thesis
  proof (cases rule: decide_operation_cases)
    case (decided actor row review row')
    note f = finalize_effect [OF decided(7)] and v = approval_review_Inr [OF decided(3)]
    from f obtain e where "pd_events db' = pd_events db @ [e]" "fe_approval_id e = fa_id row" "fe_seq e = 2"
        "fe_action e = decision_status decision review" "fe_actor_id e = au_id actor" "fe_reason e = decision_reason decision"
      by blast
    moreover have "decision_reason decision = Some c \<Longrightarrow> c \<noteq> []" for c
      by (auto simp: decision_reason_def Let_def split: if_splits)
    ultimately show ?thesis
      using f v decided(6) approval_get_Some [OF decided(2)]
      by (intro finalized_inv [OF inv, where r = row and r' = row' and status = "decision_status decision review" and e = e])
         (auto simp: decision_status_def final_statuses_def)
  qed (use inv in simp)
next
  case (cancelled env ctx event_id project_id approval_id cancel r)
  from cancelled(2) show ?thesis
  proof (cases rule: cancel_operation_cases)
    case (cancelled actor row row')
    note f = finalize_effect [OF cancelled(6)]
    from f obtain e where "pd_events db' = pd_events db @ [e]" "fe_approval_id e = fa_id row" "fe_seq e = 2"
        "fe_action e = ''cancelled''" "fe_reason e = Some (py_strip (cc_reason cancel))"
      by blast
    then show ?thesis
      using f cancelled(3,5) approval_get_Some [OF cancelled(2)]
      by (intro finalized_inv [OF inv, where r = row and r' = row' and status = "''cancelled''" and e = e]) (auto simp: final_statuses_def)
  qed (use inv in simp)
next
  case (others rs ns)
  then show ?thesis
    by (intro others_inv [OF inv])
qed

lemma reachable_inv: "approval_reachable sha db \<Longrightarrow> approval_inv sha db"
proof (induction rule: approval_reachable.induct)
  case (start db)
  then show ?case by (simp add: approval_inv_def)
qed (rule approval_step_inv)

end
