(* ===== verification/Approval_Sample.thy ===== *)
theory Approval_Sample imports Approval_System begin

text \<open>
  A small project on which everything is run: the requester 7, the approver 8, a release of a document with
  one requirement. The requirement is requested and approved, then the document with the requirement as its
  basis. The stand-in for the hash is constant, so that the evaluated texts stay small.
\<close>

definition approval_sample_env :: approval_env where
  "approval_sample_env = \<lparr>fn_auth = sample_env\<lparr>ae_digest := (\<lambda>s. ''h'')\<rparr>, fn_snapshot = (\<lambda>_ _ _. Inr ''b''), fn_uuid5 = (\<lambda>a b. a @ b)\<rparr>"

definition approval_sample_ctx :: "int \<Rightarrow> approval_context" where
  "approval_sample_ctx user_id = \<lparr>ax_user_id = user_id, ax_tenant_id = Some 1, ax_tenant_user_id = Some user_id, ax_demo_id = None,
     ax_demo_realm = False, ax_mcp_connection_id = None, ax_auth_session = None\<rparr>"

definition sample_codes :: "string list" where
  "sample_codes = [''requirement:read'', ''requirement:approve'', ''requirement:review'', ''artifact_release:create'', ''artifact_release:read'']"

definition sample_rbac :: rbac_db where
  "sample_rbac = \<lparr>rb_tenants = [\<lparr>tn_id = 1, tn_status = ''active''\<rparr>],
     rb_tenant_members = [\<lparr>tm_id = 1, tm_tenant_id = 1, tm_user_id = 7, tm_role_id = 2, tm_status = ''active''\<rparr>,
                          \<lparr>tm_id = 2, tm_tenant_id = 1, tm_user_id = 8, tm_role_id = 2, tm_status = ''active''\<rparr>],
     rb_projects = [\<lparr>pj_id = 1, pj_tenant_id = 1, pj_deleted_at = None\<rparr>],
     rb_project_members = [\<lparr>pm_id = 1, pm_project_id = 1, pm_user_id = 7, pm_role_id = 1, pm_deleted_at = None\<rparr>,
                           \<lparr>pm_id = 2, pm_project_id = 1, pm_user_id = 8, pm_role_id = 1, pm_deleted_at = None\<rparr>],
     rb_roles = [\<lparr>ro_id = 1, ro_key = ''m'', ro_name = ''m'', ro_scope = ''project'', ro_description = None\<rparr>],
     rb_permissions = map (\<lambda>(i, c). \<lparr>pe_id = int i, pe_code = c, pe_description = None\<rparr>) (List.enumerate 1 sample_codes),
     rb_role_permissions = [(1, 1), (1, 2), (1, 3), (1, 4), (1, 5)], rb_user_roles = []\<rparr>"

definition approval_sample_db :: approval_db where
  "approval_sample_db = \<lparr>pd_auth = sample_auth_db\<lparr>adb_users := [sample_user, sample_user\<lparr>au_id := 8\<rparr>]\<rparr>, pd_rbac = sample_rbac,
     pd_releases = [\<lparr>ar_id = ''R'', ar_project_id = 1, ar_source_kind = ''requirement_document'',
       ar_source_refs = [[(''kind'', PStr ''requirement_document''), (''id'', PInt 4)]], ar_source_kinds = [''requirement_document''],
       ar_projection_version = ''1'', ar_content_digest = ''b'', ar_sealed = True\<rparr>],
     pd_nodes = [\<lparr>nd_id = ''D'', nd_release_id = ''R'', nd_parent_id = None, nd_ordinal = 0, nd_position = 0,
         nd_kind = ''requirement_document'', nd_source_id = 4, nd_source_version = Some 1, nd_payload = [(''title'', PStr ''d'')]\<rparr>,
       \<lparr>nd_id = ''N'', nd_release_id = ''R'', nd_parent_id = Some ''D'', nd_ordinal = 1, nd_position = 0,
         nd_kind = ''requirement'', nd_source_id = 5, nd_source_version = Some 1, nd_payload = [(''title'', PStr ''r'')]\<rparr>],
     pd_preservations = [], pd_sources = [\<lparr>cs_kind = ''requirement_document'', cs_id = 4, cs_project_id = 1, cs_version = 1, cs_live = True\<rparr>],
     pd_legacy = [], pd_imports = [], pd_requests = [], pd_events = [], pd_bases = [], pd_audits = [], pd_notices = []\<rparr>"

definition approval_sample_create :: "string \<Rightarrow> string \<Rightarrow> approval_create" where
  "approval_sample_create node request_id = \<lparr>si_release_id = ''R'', si_target_node_id = node, si_preservation_id = None,
     si_attachments_none = True, si_approver_id = 8, si_legacy_import_id = None, si_request_note = None, si_exceptions = [],
     sc_request_id = request_id, sc_expected_preview_digest = ''h''\<rparr>"

definition approval_sample_decision :: "string \<Rightarrow> decision_input" where
  "approval_sample_decision operation_id = \<lparr>dc_version = 1, dc_operation_id = operation_id, dc_expected_review_digest = ''h'',
     dc_decision = ''approve'', dc_comment = None, dc_confirm_fixed_scope = True, dc_confirm_changed_or_unknown = False,
     dc_confirm_exceptions = False\<rparr>"

definition sample_request :: "string \<Rightarrow> string \<Rightarrow> string \<Rightarrow> string \<Rightarrow> int \<Rightarrow> pyval \<Rightarrow> int \<Rightarrow> approval_request" where
  "sample_request identity node kind title source content basis_count =
     \<lparr>fa_id = identity, fa_project_id = 1, fa_release_id = ''R'', fa_target_node_id = node, fa_target_kind = kind,
      fa_source_id = source, fa_preservation_id = None,
      fa_scope_manifest = [(''policy'', PStr ''fixed-approval-v1''), (''release_id'', PStr ''R''), (''body_digest'', PStr ''b''),
        (''target_node_id'', PStr node), (''target_kind'', PStr kind), (''source_id'', PInt source), (''source_version'', PInt 1),
        (''title'', PStr title), (''requirement_digest'', content), (''supporting_sources'', PList []),
        (''preservation_id'', PNone), (''preservation_digest'', PNone), (''files'', PList []), (''basis_count'', PInt basis_count),
        (''basis_digest'', PStr ''h''), (''exception_count'', PInt 0), (''legacy_origin'', PNone)],
      fa_scope_digest = ''h'', fa_policy_version = ''fixed-approval-v1'', fa_requester_id = 7, fa_approver_id = 8,
      fa_request_note = None, fa_status = ''requested'', fa_version = 1, fa_sealed = True, fa_created_at = 1000,
      fa_finalized_at = None, fa_request_id = ''Q'' @ identity, fa_request_digest = ''h'', fa_legacy_import_id = None\<rparr>"

definition sample_request_n :: approval_request where
  "sample_request_n = sample_request ''A'' ''N'' ''requirement'' ''r'' 5 (PStr ''h'') 0"

definition sample_request_d :: approval_request where
  "sample_request_d = sample_request ''B'' ''D'' ''requirement_document'' ''d'' 4 PNone 1"

definition sample_approved :: "approval_request \<Rightarrow> approval_request" where
  "sample_approved r = r\<lparr>fa_status := ''approved'', fa_version := 2, fa_finalized_at := Some 1000\<rparr>"

definition sample_requested_event :: "approval_request \<Rightarrow> approval_event" where
  "sample_requested_event r = \<lparr>fe_id = ''1'' @ fa_id r, fe_approval_id = fa_id r, fe_seq = 1, fe_operation_id = fa_request_id r,
     fe_operation_digest = ''h'', fe_actor_id = 7, fe_action = ''requested'', fe_reason = None, fe_scope_digest = ''h'',
     fe_observation = []\<rparr>"

definition sample_approved_event :: "approval_request \<Rightarrow> approval_event" where
  "sample_approved_event r = \<lparr>fe_id = ''2'' @ fa_id r, fe_approval_id = fa_id r, fe_seq = 2, fe_operation_id = ''D'' @ fa_id r,
     fe_operation_digest = ''h'', fe_actor_id = 8, fe_action = ''approved'', fe_reason = None, fe_scope_digest = ''h'',
     fe_observation = [(''body_comparison'', PStr ''equal''), (''current_body_digest'', PStr ''b''),
       (''fixed_source_version'', PInt 1), (''current_source_version'', if fa_id r = ''A'' then PNone else PInt 1), (''attachments_comparison'', PStr ''fixed_only'')]\<rparr>"

definition sample_notice :: "approval_request \<Rightarrow> approval_event \<Rightarrow> int \<Rightarrow> approval_notice" where
  "sample_notice r e recipient = \<lparr>an_recipient = recipient, an_type = action_type (fe_action e), an_actor = fe_actor_id e, an_project_id = 1,
     an_target_id = fa_id r, an_event_key = ''fixed_approval:'' @ fe_id e, an_action = fe_action e\<rparr>"

definition sample_after :: "approval_db \<Rightarrow> approval_request \<Rightarrow> approval_event \<Rightarrow> approval_basis list \<Rightarrow> approval_db" where
  "sample_after db r e bases = db\<lparr>pd_requests := filter (\<lambda>x. fa_id x \<noteq> fa_id r) (pd_requests db) @ [r],
     pd_events := pd_events db @ [e], pd_bases := pd_bases db @ bases,
     pd_audits := pd_audits db @ [(''fixed_approval.'' @ fe_action e, fe_actor_id e, fa_id r)],
     pd_notices := pd_notices db @ [sample_notice r e (if fe_actor_id e = 7 then 8 else 7)]\<rparr>"

definition approval_db_n :: approval_db where
  "approval_db_n = sample_after approval_sample_db sample_request_n (sample_requested_event sample_request_n) []"

definition approval_db_agreed :: approval_db where
  "approval_db_agreed = sample_after approval_db_n (sample_approved sample_request_n) (sample_approved_event sample_request_n) []"

definition sample_basis :: approval_basis where
  "sample_basis = \<lparr>fb_approval_id = ''B'', fb_release_id = ''R'', fb_target_node_id = ''N'', fb_source_id = 5,
     fb_subject_digest = ''h'', fb_basis_kind = ''agreed'', fb_state_at_request = ''agreed'', fb_agreed_approval_id = Some ''A'',
     fb_agreed_event_id = Some ''2A'', fb_reason = None\<rparr>"

definition approval_db_d :: approval_db where
  "approval_db_d = sample_after approval_db_agreed sample_request_d (sample_requested_event sample_request_d) [sample_basis]"

definition approval_db_final :: approval_db where
  "approval_db_final = sample_after approval_db_d (sample_approved sample_request_d) (sample_approved_event sample_request_d) []"

lemma sample_create_n: "map_sum id snd (create_operation approval_sample_env (approval_sample_ctx 7)
    \<lparr>ci_approval = ''A'', ci_event = ''1A''\<rparr> 1 (approval_sample_create ''N'' ''QA'') approval_sample_db) = Inr approval_db_n"
  by code_simp

lemma sample_decide_n: "map_sum id snd (decide_operation approval_sample_env (approval_sample_ctx 8)
    ''2A'' 1 ''A'' (approval_sample_decision ''DA'') approval_db_n) = Inr approval_db_agreed"
  by code_simp

lemma sample_create_d: "map_sum id snd (create_operation approval_sample_env (approval_sample_ctx 7)
    \<lparr>ci_approval = ''B'', ci_event = ''1B''\<rparr> 1 (approval_sample_create ''D'' ''QB'') approval_db_agreed) = Inr approval_db_d"
  by code_simp

lemma sample_decide_d: "map_sum id snd (decide_operation approval_sample_env (approval_sample_ctx 8)
    ''2B'' 1 ''B'' (approval_sample_decision ''DB'') approval_db_d) = Inr approval_db_final"
  by code_simp

text \<open>These four operations are a history.\<close>

lemma snd_result: "map_sum id snd m = Inr db \<Longrightarrow> \<exists>r. m = Inr (r, db)"
  by (cases m) (auto simp: prod_eq_iff)

abbreviation sample_sha :: "string \<Rightarrow> string" where
  "sample_sha \<equiv> ae_digest (fn_auth approval_sample_env)"

lemma approval_created:
  assumes "map_sum id snd (create_operation approval_sample_env ctx ids p data db) = Inr db'" and "explicit_scope data"
  shows "approval_step sample_sha db db'"
  using snd_result [OF assms(1)] assms(2) by (blast intro: approval_step.created)

lemma approval_decided:
  assumes "map_sum id snd (decide_operation approval_sample_env ctx i p k data db) = Inr db'"
  shows "approval_step sample_sha db db'"
  using snd_result [OF assms] by (blast intro: approval_step.decided)

lemma sample_explicit: "explicit_scope (approval_sample_create node request_id)"
  by (simp add: explicit_scope_def approval_sample_create_def)

lemmas sample_steps = approval_created [OF sample_create_n sample_explicit] approval_decided [OF sample_decide_n]
  approval_created [OF sample_create_d sample_explicit] approval_decided [OF sample_decide_d]

lemma sample_reachable: "approval_reachable sample_sha approval_db_agreed" "approval_reachable sample_sha approval_db_final"
proof -
  have "approval_reachable sample_sha approval_sample_db"
    by (rule approval_reachable.start) (simp_all add: approval_sample_db_def)
  with sample_steps show "approval_reachable sample_sha approval_db_agreed" "approval_reachable sample_sha approval_db_final"
    by (blast intro: approval_reachable.step)+
qed

lemma sample_history: "(approval_step sample_sha)\<^sup>*\<^sup>* approval_db_agreed approval_db_final"
  using sample_steps(3,4) by (meson converse_rtranclp_into_rtranclp rtranclp.rtrancl_refl)

lemma sample_requests:
  "pd_requests approval_db_agreed = [sample_approved sample_request_n]"
  "pd_requests approval_db_final = [sample_approved sample_request_n, sample_approved sample_request_d]"
  by (simp_all add: approval_db_final_def approval_db_d_def approval_db_agreed_def approval_db_n_def approval_sample_db_def
      sample_after_def sample_request_n_def sample_request_d_def sample_request_def sample_approved_def)

lemma sample_request_fields [simp]:
  "fa_status (sample_approved r) = ''approved''" "fa_target_kind (sample_approved sample_request_d) = ''requirement_document''"
  by (simp_all add: sample_approved_def sample_request_d_def sample_request_def)

lemma sample_access:
  "approval_access approval_sample_env (approval_sample_ctx 7) 1 True approval_db_agreed = Inr sample_user"
  "release_access (approval_sample_ctx 7) approval_db_agreed 7 1 ''R'' None True = Inr (hd (pd_releases approval_sample_db), None)"
  by code_simp+

text \<open>A request whose decision is evaluated with the identity as the hash.\<close>

definition reviewed_env :: approval_env where
  "reviewed_env = approval_sample_env\<lparr>fn_auth := sample_env\<lparr>ae_digest := (\<lambda>s. s)\<rparr>\<rparr>"

definition reviewed_preview :: decision_preview where
  "reviewed_preview = (case preview_decision reviewed_env (approval_sample_ctx 8) 1 ''A'' approval_db_n of
     Inr p \<Rightarrow> p | _ \<Rightarrow> \<lparr>dp_approval_id = [], dp_version = 0, dp_review_digest = [], dp_observation = [], dp_exception_count = PNone\<rparr>)"

lemma reviewed_preview: "preview_decision reviewed_env (approval_sample_ctx 8) 1 ''A'' approval_db_n = Inr reviewed_preview"
  by code_simp

lemma reviewed_decision:
  "map_sum id (\<lambda>r. ()) (decide_operation reviewed_env (approval_sample_ctx 8) ''2A'' 1 ''A''
     (approval_sample_decision ''DA''\<lparr>dc_expected_review_digest := dp_review_digest reviewed_preview\<rparr>) approval_db_n) = Inr ()"
  by code_simp

end
