(* ===== verification/Approval_Properties.thy ===== *)
theory Approval_Properties imports Approval_Sample begin

text \<open>
  What the histories of fixed approvals guarantee, evaluated on the project of \<open>Approval_Sample\<close>.
\<close>

subsection \<open>Decided once\<close>

lemma approval_get_unique:
  assumes "approval_inv sha db" and "r \<in> set (pd_requests db)" and "r' \<in> set (pd_requests db)" and "fa_id r = fa_id r'"
  shows "r = r'"
  using assms by (auto simp: approval_inv_def distinct_map inj_on_def)

text \<open>A finalized request is in the next database with all it had.\<close>

definition kept :: "approval_request \<Rightarrow> approval_db \<Rightarrow> approval_db \<Rightarrow> bool" where
  "kept r db db' \<longleftrightarrow> r \<in> set (pd_requests db') \<and> events_of (fa_id r) db' = events_of (fa_id r) db \<and>
     approval_bases (fa_id r) db' = approval_bases (fa_id r) db"

lemma finalize_keeps:
  assumes inv: "approval_inv sha db" and r: "r \<in> set (pd_requests db)" and row: "row \<in> set (pd_requests db)" "row \<noteq> r"
    and fin: "finalize env event_id actor_id status reason operation_id json observed row db = Inr (row', db')"
  shows "kept r db db'"
proof -
  have "fa_id row \<noteq> fa_id r"
    using approval_get_unique [OF inv row(1) r] row(2) by blast
  moreover have "row' = row\<lparr>fa_status := status, fa_version := 2, fa_finalized_at := Some (ae_now (fn_auth env))\<rparr>"
    using finalize_effect [OF fin] by blast
  moreover from this have "r \<in> set (tput fa_id row' (pd_requests db))"
    using inv r row tput_members [of fa_id "pd_requests db" row row' r] by (simp add: approval_inv_def)
  ultimately show ?thesis
    using finalize_effect [OF fin] by (auto simp: kept_def events_of_def approval_bases_def)
qed

lemma approval_step_keeps:
  assumes "approval_step sha db db'" and inv: "approval_inv sha db" and r: "r \<in> set (pd_requests db)"
    and final: "fa_status r \<noteq> ''requested''"
  shows "kept r db db'"
  using assms(1)
proof cases
  case (created env data ctx ids project_id res)
  from created(3) show ?thesis
  proof (cases rule: create_operation_cases)
    case (saved actor preview bases row)
    then show ?thesis
      using save_request_effect [OF saved(5)] r
      by (auto simp: kept_def events_of_def approval_bases_def new_basis_def filter_empty_conv)
  qed (use r in \<open>simp add: kept_def\<close>)
next
  case (decided env ctx event_id project_id approval_id decision res)
  from decided(2) show ?thesis
  proof (cases rule: decide_operation_cases)
    case (decided actor row review row')
    moreover have "row \<noteq> r"
      using approval_review_Inr [OF decided(3)] final by auto
    ultimately show ?thesis
      using finalize_keeps [OF inv r _ _ decided(7)] approval_get_Some [OF decided(2)] by blast
  qed (use r in \<open>simp add: kept_def\<close>)
next
  case (cancelled env ctx event_id project_id approval_id cancel res)
  from cancelled(2) show ?thesis
  proof (cases rule: cancel_operation_cases)
    case (cancelled actor row row')
    moreover have "row \<noteq> r"
      using cancelled(3) final by auto
    ultimately show ?thesis
      using finalize_keeps [OF inv r _ _ cancelled(6)] approval_get_Some [OF cancelled(2)] by blast
  qed (use r in \<open>simp add: kept_def\<close>)
next
  case others
  then show ?thesis
    using r by (simp add: kept_def events_of_def approval_bases_def)
qed

lemma reachable_steps: "(approval_step sha)\<^sup>*\<^sup>* db db' \<Longrightarrow> approval_reachable sha db \<Longrightarrow> approval_reachable sha db'"
  by (induction rule: rtranclp_induct) (auto intro: approval_reachable.step)

text \<open>
  C2: A request is decided once. When a request of a reachable database is approved, rejected or cancelled,
  no later history, of any operations of anybody and of any other changes, changes its row, its events or its bases.
\<close>

theorem approval_decided_once:
  assumes "approval_reachable sha db" and "(approval_step sha)\<^sup>*\<^sup>* db db'" and "r \<in> set (pd_requests db)"
    and "fa_status r \<noteq> ''requested''"
  shows "r \<in> set (pd_requests db') \<and> approval_events (fa_id r) db' = approval_events (fa_id r) db \<and>
    approval_bases (fa_id r) db' = approval_bases (fa_id r) db"
proof -
  have "kept r db db'"
    using assms(2)
  proof (induction rule: rtranclp_induct)
    case base
    then show ?case using assms(3) by (simp add: kept_def)
  next
    case (step y z)
    then have "kept r y z"
      using approval_step_keeps [OF step(2) reachable_inv [OF reachable_steps [OF step(1) assms(1)]] _ assms(4)]
      by (simp add: kept_def)
    with step(3) show ?case by (simp add: kept_def)
  qed
  then show ?thesis
    by (simp add: kept_def approval_events_def events_of_def)
qed

lemma approval_decided_once_witness:
  "sample_approved sample_request_n \<in> set (pd_requests approval_db_final)"
  using approval_decided_once [OF sample_reachable(1) sample_history, of "sample_approved sample_request_n"]
  by (simp add: sample_requests)

subsection \<open>Four eyes\<close>

lemma history_events:
  assumes "approval_reachable sha db" and "r \<in> set (pd_requests db)"
  shows "row_ok r \<and> history_ok r (approval_events (fa_id r) db)"
proof -
  have "row_ok r \<and> history_ok r (events_of (fa_id r) db)"
    using reachable_inv [OF assms(1)] assms(2) by (simp add: approval_inv_def)
  moreover from this have "approval_events (fa_id r) db = events_of (fa_id r) db"
    by (auto simp: history_ok_def approval_events_def events_of_def)
  ultimately show ?thesis by simp
qed

text \<open>
  C3: A decision has two people. In every reachable database an approved or rejected request has exactly two
  events, the request by its requester and the decision by its approver, who is somebody else; the decision's
  action is the status, and a rejection has a reason.
\<close>

theorem approval_four_eyes:
  assumes "approval_reachable sha db" and "r \<in> set (pd_requests db)"
    and "fa_status r \<in> {''approved'', ''approved_with_exceptions'', ''rejected''}"
  shows "fa_requester_id r \<noteq> fa_approver_id r \<and>
    (\<exists>requested decided. approval_events (fa_id r) db = [requested, decided] \<and>
       fe_action requested = ''requested'' \<and> fe_actor_id requested = fa_requester_id r \<and>
       fe_action decided = fa_status r \<and> fe_actor_id decided = fa_approver_id r \<and>
       (fa_status r = ''rejected'' \<longrightarrow> (\<exists>reason. fe_reason decided = Some reason \<and> reason \<noteq> [])))"
  using history_events [OF assms(1,2)] assms(3) by (auto simp: history_ok_def row_ok_def)

lemma approval_four_eyes_witness:
  "fa_requester_id (sample_approved sample_request_d) \<noteq> fa_approver_id (sample_approved sample_request_d)"
  using approval_four_eyes [OF sample_reachable(2), of "sample_approved sample_request_d"] by (simp add: sample_requests)

subsection \<open>What an approved document means\<close>

lemma bases_reachable:
  assumes "approval_reachable sha db" and "r \<in> set (pd_requests db)"
  shows "bases_ok sha db r"
  using reachable_inv [OF assms(1)] assms(2) by (simp add: approval_inv_def)

text \<open>
  C1: An approved document is agreed requirement by requirement. When a request for a document of a reachable
  database is approved, every requirement in the document has an approved request of the same project for
  exactly its content, by the hash of what it says; when it is approved with exceptions, the others have a
  reason.
\<close>

theorem document_approval_covers:
  assumes "approval_reachable sha db" and "r \<in> set (pd_requests db)" and "fa_target_kind r = ''requirement_document''"
    and "fa_status r \<in> {''approved'', ''approved_with_exceptions''}"
  shows "\<exists>target. nd_id target = fa_target_node_id r \<and> target \<in> set (release_nodes (fa_release_id r) db) \<and>
    (\<forall>n \<in> set (requirements_below target (release_nodes (fa_release_id r) db)).
       (\<exists>a \<in> set (pd_requests db). fa_status a = ''approved'' \<and> fa_target_kind a = ''requirement'' \<and>
          fa_project_id a = fa_project_id r \<and> fa_source_id a = nd_source_id n \<and>
          dget (fa_scope_manifest a) ''requirement_digest'' =
            PStr (subject_digest sha n (release_nodes (fa_release_id r) db))) \<or>
       fa_status r = ''approved_with_exceptions'' \<and>
       (\<exists>b \<in> set (approval_bases (fa_id r) db). fb_target_node_id b = nd_id n \<and> fb_basis_kind b = ''exception'' \<and>
          (\<exists>reason. fb_reason b = Some reason \<and> reason \<noteq> [])))"
proof -
  let ?nodes = "release_nodes (fa_release_id r) db" and ?bases = "approval_bases (fa_id r) db"
  obtain target where t: "find (\<lambda>n. nd_id n = fa_target_node_id r) ?nodes = Some target"
      and kind: "nd_kind target = fa_target_kind r"
      and all: "list_all2 (basis_ok sha db (fa_project_id r) ?nodes) (covered_nodes target ?nodes) ?bases"
      and exc: "fa_status r = ''approved'' \<Longrightarrow> \<forall>b \<in> set ?bases. fb_basis_kind b = ''agreed''"
    using bases_reachable [OF assms(1,2)] by (auto simp: bases_ok_def Let_def)
  have "\<exists>b \<in> set ?bases. basis_ok sha db (fa_project_id r) ?nodes n b" if "n \<in> set (requirements_below target ?nodes)" for n
    using all that kind assms(3) by (fastforce simp: covered_nodes_def list_all2_conv_all_nth in_set_conv_nth)
  moreover have "(\<exists>a \<in> set (pd_requests db). fa_status a = ''approved'' \<and> fa_target_kind a = ''requirement'' \<and>
          fa_project_id a = fa_project_id r \<and> fa_source_id a = nd_source_id n \<and>
          dget (fa_scope_manifest a) ''requirement_digest'' = PStr (subject_digest sha n ?nodes)) \<or>
       fa_status r = ''approved_with_exceptions'' \<and>
       (\<exists>b \<in> set ?bases. fb_target_node_id b = nd_id n \<and> fb_basis_kind b = ''exception'' \<and>
          (\<exists>reason. fb_reason b = Some reason \<and> reason \<noteq> []))"
    if "b \<in> set ?bases" "basis_ok sha db (fa_project_id r) ?nodes n b" for n b
    using that exc assms(4) by (auto simp: basis_ok_def agreement_def split: if_splits)
  moreover have "nd_id target = fa_target_node_id r \<and> target \<in> set ?nodes"
    using t by (auto simp: find_Some_iff)
  ultimately show ?thesis by blast
qed

lemma document_approval_covers_witness:
  "\<exists>target. nd_id target = ''D'' \<and> target \<in> set (release_nodes ''R'' approval_db_final)"
  using document_approval_covers [OF sample_reachable(2), of "sample_approved sample_request_d"]
  by (auto simp: sample_requests sample_approved_def sample_request_d_def sample_request_def)

subsection \<open>One request at a time\<close>

text \<open>
  In a reachable database a target has at most one request waiting for its decision, and a requester's
  request id names one request.
\<close>

theorem approval_pending_unique:
  assumes "approval_reachable sha db" and "x \<in> set (pd_requests db)" and "y \<in> set (pd_requests db)"
    and "fa_project_id x = fa_project_id y"
    and "fa_status x = ''requested'' \<and> fa_status y = ''requested'' \<and> fa_release_id x = fa_release_id y \<and>
           fa_target_node_id x = fa_target_node_id y \<and> fa_preservation_id x = fa_preservation_id y \<or>
         fa_requester_id x = fa_requester_id y \<and> fa_request_id x = fa_request_id y"
  shows "x = y"
proof -
  have "same_pending x y \<or> same_operation x y"
    using assms(4,5) by (auto simp: same_pending_def same_operation_def)
  then show ?thesis
    using reachable_inv [OF assms(1)] assms(2,3) unfolding approval_inv_def by blast
qed

lemma approval_pending_unique_witness:
  "sample_approved sample_request_n = hd (pd_requests approval_db_final)"
  using approval_pending_unique [OF sample_reachable(2), of "sample_approved sample_request_n" "hd (pd_requests approval_db_final)"]
  by (simp add: sample_requests)

subsection \<open>Repeated requests\<close>

lemma by_operation_reachable:
  assumes "approval_reachable sha db" and "r \<in> set (pd_requests db)"
  shows "by_operation (fa_project_id r) (fa_requester_id r) (fa_request_id r) db = Some r"
proof -
  have inv: "approval_inv sha db" and sealed: "fa_sealed r"
    using reachable_inv [OF assms(1)] assms(2) by (auto simp: approval_inv_def row_ok_def)
  let ?P = "\<lambda>x. fa_project_id x = fa_project_id r \<and> fa_requester_id x = fa_requester_id r \<and> fa_request_id x = fa_request_id r \<and> fa_sealed x"
  have "find ?P (pd_requests db) \<noteq> None"
    using assms(2) sealed by (auto simp: find_None_iff)
  then obtain x where x: "find ?P (pd_requests db) = Some x"
    by blast
  then have "x \<in> set (pd_requests db)" "same_operation x r"
    by (auto simp: find_Some_iff same_operation_def)
  then have "x = r"
    using inv assms(2) unfolding approval_inv_def by blast
  with x show ?thesis
    by (simp add: by_operation_def)
qed

text \<open>
  Sending a request again creates nothing. When the requester of a saved request, who still may make
  one, repeats its request id, the saved request is answered and the database stays as it is if the data has
  the same hash, and the call is refused as a duplicate if not.
\<close>

theorem create_replay:
  assumes "approval_reachable sha db" and "r \<in> set (pd_requests db)"
    and "approval_access env ctx (fa_project_id r) True db = Inr actor" and "au_id actor = fa_requester_id r"
    and "release_access ctx db (au_id actor) (fa_project_id r) (fa_release_id r) (fa_preservation_id r) True = Inr access"
    and "sc_request_id data = fa_request_id r"
  shows "create_operation env ctx ids (fa_project_id r) data db =
    (if fa_request_digest r = content_digest env (create_json data)
     then Inr ((read_approval ctx (fa_requester_id r) (fa_project_id r) r db, False), db)
     else raises DuplicateResourceError)"
  using by_operation_reachable [OF assms(1,2)] assms(3-6) by (simp add: create_operation_def)

lemma create_replay_witness:
  "map_sum id snd (create_operation approval_sample_env (approval_sample_ctx 7) \<lparr>ci_approval = ''C'', ci_event = ''1C''\<rparr> 1
     (approval_sample_create ''N'' ''QA'') approval_db_agreed) = Inr approval_db_agreed"
proof -
  have r: "fa_project_id (sample_approved sample_request_n) = 1" "fa_requester_id (sample_approved sample_request_n) = 7"
    "fa_release_id (sample_approved sample_request_n) = ''R''" "fa_preservation_id (sample_approved sample_request_n) = None"
    "fa_request_id (sample_approved sample_request_n) = ''QA''" "fa_request_digest (sample_approved sample_request_n) = ''h''"
    "au_id sample_user = 7"
    by (simp_all add: sample_approved_def sample_request_n_def sample_request_def sample_user_def)
  have h: "content_digest approval_sample_env (create_json (approval_sample_create ''N'' ''QA'')) = ''h''"
    by (simp add: content_digest_def digest_def approval_sample_env_def)
  show ?thesis
    by (subst create_replay [OF sample_reachable(1), of "sample_approved sample_request_n", unfolded r, OF _ sample_access(1) _ ])
       (use h in \<open>simp_all add: sample_requests sample_access r approval_sample_create_def\<close>)
qed

subsection \<open>Decided as reviewed\<close>

lemma preview_decision_Inr:
  assumes "preview_decision env ctx p k db = Inr seen"
  obtains actor row where "approval_get p k db = Some row" "approval_review env ctx db actor p row = Inr seen"
  using assms by (auto simp: preview_decision_def approval_row_def)

lemma content_digest_inj:
  "content_digest env v = content_digest env' w \<Longrightarrow> ae_digest (fn_auth env) = sha \<Longrightarrow> ae_digest (fn_auth env') = sha \<Longrightarrow>
     inj sha \<Longrightarrow> canonical v = canonical w"
  by (metis content_digest_def digest_def injD canonical_bytes_eq_iff)

text \<open>
  C4: What is decided is what was shown. Let the hash have no collisions. When a decision confirms the digest
  of a preview taken at any earlier state and is accepted as a new decision, the request has the same scope and
  version as in the preview, and the observation kept with the decision says what the preview showed.
\<close>

theorem decision_as_reviewed:
  assumes "inj sha" and "ae_digest (fn_auth env0) = sha" and "ae_digest (fn_auth env) = sha"
    and "preview_decision env0 ctx0 p k db0 = Inr seen" and "dc_expected_review_digest data = dp_review_digest seen"
    and "decide_operation env ctx event_id p k data db = Inr (result, db')"
    and "\<not> list_ex (\<lambda>e. fe_operation_id e = dc_operation_id data) (approval_events k db)"
  shows "\<exists>row0 row e. approval_get p k db0 = Some row0 \<and> approval_get p k db = Some row \<and>
    fa_scope_digest row = fa_scope_digest row0 \<and> fa_version row = fa_version row0 \<and> fa_status row = ''requested'' \<and>
    e \<in> set (pd_events db') \<and> fe_approval_id e = k \<and> fe_operation_id e = dc_operation_id data \<and>
    canonical (PDict (fe_observation e)) = canonical (PDict (dp_observation seen))"
proof -
  obtain actor0 row0 where row0: "approval_get p k db0 = Some row0" "approval_review env0 ctx0 db0 actor0 p row0 = Inr seen"
    using assms(4) by (rule preview_decision_Inr)
  from assms(6) show ?thesis
  proof (cases rule: decide_operation_cases)
    case (replay actor row)
    then show ?thesis
      using assms(7) approval_get_Some [OF replay(2)] by simp
  next
    case (decided actor row review row')
    have "dp_review_digest review = dp_review_digest seen"
      using decided(5) assms(5) by (simp add: unconfirmed_def)
    then have "canonical (PDict [(''id'', PStr (fa_id row)), (''version'', PInt (fa_version row)),
        (''scope'', PStr (fa_scope_digest row)), (''observation'', PDict (dp_observation review))]) =
      canonical (PDict [(''id'', PStr (fa_id row0)), (''version'', PInt (fa_version row0)),
        (''scope'', PStr (fa_scope_digest row0)), (''observation'', PDict (dp_observation seen))])"
      using approval_review_Inr [OF decided(3)] approval_review_Inr [OF row0(2)] content_digest_inj assms(1-3) by metis
    then have "fa_scope_digest row = fa_scope_digest row0 \<and> fa_version row = fa_version row0 \<and>
        canonical (PDict (dp_observation review)) = canonical (PDict (dp_observation seen))"
      by simp
    then show ?thesis
      using row0(1) decided(2) approval_review_Inr [OF decided(3)] finalize_effect [OF decided(7)] approval_get_Some [OF decided(2)]
      by auto
  qed
qed

lemma decision_as_reviewed_witness:
  "\<exists>row0 row. approval_get 1 ''A'' approval_db_n = Some row0 \<and> approval_get 1 ''A'' approval_db_n = Some row \<and>
     fa_scope_digest row = fa_scope_digest row0"
proof -
  let ?data = "approval_sample_decision ''DA''\<lparr>dc_expected_review_digest := dp_review_digest reviewed_preview\<rparr>"
  obtain r where r: "decide_operation reviewed_env (approval_sample_ctx 8) ''2A'' 1 ''A'' ?data approval_db_n = Inr r"
    using reviewed_decision by (cases "decide_operation reviewed_env (approval_sample_ctx 8) ''2A'' 1 ''A'' ?data approval_db_n") auto
  have new: "\<not> list_ex (\<lambda>e. fe_operation_id e = dc_operation_id ?data) (approval_events ''A'' approval_db_n)"
    by (simp add: approval_sample_decision_def approval_events_def approval_db_n_def sample_after_def approval_sample_db_def
        sample_requested_event_def sample_request_n_def sample_request_def)
  show ?thesis
    using decision_as_reviewed [where sha = "\<lambda>s. s", OF _ _ _ reviewed_preview _ _ new, where env = reviewed_env and
        ctx = "approval_sample_ctx 8" and event_id = "''2A''" and result = "fst r" and db' = "snd r"] r
    by (force simp: reviewed_env_def approval_sample_env_def)
qed

subsection \<open>Attempts\<close>

text \<open>What one attempt ends with, and the errors that another attempt may get over.\<close>

definition attempt_outcome ::
  "(approval_db \<Rightarrow> approval_error + 'a \<times> approval_db) \<Rightarrow> approval_db \<times> db_fault option \<Rightarrow> approval_error + 'a \<times> approval_db" where
  "attempt_outcome operation a = (case snd a of None \<Rightarrow> operation (fst a) | Some f \<Rightarrow> Inl (Inl f))"

definition lost_race :: "approval_error + 'a \<Rightarrow> bool" where
  "lost_race o1 \<longleftrightarrow> o1 = Inl (Inl OperationExists) \<or> o1 = Inl (Inl SerializationFailure)"

definition attempts_answer :: "(approval_error + 'a) list \<Rightarrow> app_error + 'a" where
  "attempts_answer outcomes =
     (case dropWhile lost_race outcomes of
        [] \<Rightarrow> Inl (raise_cls FixedApprovalScopeConflictError)
      | Inr r # _ \<Rightarrow> Inr r
      | Inl (Inr e) # _ \<Rightarrow> Inl e
      | Inl (Inl f) # _ \<Rightarrow> Inl (if f = PendingExists then raise_cls DuplicateResourceError else raise_msg AppError ''DBAPIError''))"

lemma approval_retry_outcome: "approval_retry operation attempts = attempts_answer (map (attempt_outcome operation) attempts)"
  by (induction operation attempts rule: approval_retry.induct)
     (auto simp: attempts_answer_def attempt_outcome_def lost_race_def split: option.splits sum.splits db_fault.splits)

text \<open>
  A call is answered by its first attempt, of at most three, that is not a lost race: with the result of that
  attempt alone, with its error, as a duplicate when a request is waiting for the target already, and with the
  scope conflict when all three are lost; too large an input is refused before any attempt.
\<close>

theorem approval_calls_answer:
  "create_approval env ctx ids p data attempts =
     (if 1048576 < int (length (canonical_bytes (create_json data))) then Inl (raise_cls FixedApprovalTooLargeError)
      else attempts_answer (map (attempt_outcome (create_operation env ctx ids p data)) (take 3 attempts))) \<and>
   decide_approval env ctx event_id p k decision attempts =
     (if 1048576 < int (length (canonical_bytes (decision_json decision))) then Inl (raise_cls FixedApprovalTooLargeError)
      else attempts_answer (map (attempt_outcome (decide_operation env ctx event_id p k decision)) (take 3 attempts))) \<and>
   cancel_approval env ctx event_id p k cancel attempts =
     attempts_answer (map (attempt_outcome (cancel_operation env ctx event_id p k cancel)) (take 3 attempts))"
  by (simp add: create_approval_def decide_approval_def cancel_approval_def check_input_def max_review_input_def raise_if_def
      approval_retry_outcome)

end
