(* ===== verification/Comment_Mention.thy ===== *)
theory Comment_Mention imports Prelude Errors "HOL-Library.Multiset" begin

text \<open>
  Mentions in comments: \<^verbatim>\<open>app/services/comment_mention.py\<close>, \<^verbatim>\<open>app/models/comment_mention.py\<close>. A request names the
  mentioned users with half-open ranges of UTF-16 units of the body. The body is a list of code points;
  the users who may be mentioned (\<open>eligible_users\<close>) are given with their names.
\<close>

subsection \<open>Definitions\<close>

text \<open>The occurrences of a mention, grouped by the mentioned user.\<close>

record mention_occurrence =
  mo_start :: int
  mo_end :: int
  mo_display_name :: string

type_synonym mention_targets = "(int \<times> mention_occurrence list) list"

record mention =
  mn_user_id :: int
  mn_start :: int
  mn_end :: int
  mn_display_name :: string

definition code_points :: "string \<Rightarrow> int list" where
  "code_points s = map of_char s"

text \<open>The offsets in UTF-16 units at which a character starts, with the index of the character.\<close>

definition utf16_width :: "int \<Rightarrow> int" where
  "utf16_width c = (if c > 65535 then 2 else 1)"

fun boundaries_from :: "int \<Rightarrow> nat \<Rightarrow> int list \<Rightarrow> (int \<times> nat) list" where
  "boundaries_from offset index [] = []"
| "boundaries_from offset index (c # body) =
     (offset + utf16_width c, index + 1) # boundaries_from (offset + utf16_width c) (index + 1) body"

definition boundaries :: "int list \<Rightarrow> (int \<times> nat) list" where
  "boundaries body = (0, 0) # boundaries_from 0 0 body"

definition names_range :: "int list \<Rightarrow> int \<Rightarrow> int \<Rightarrow> int list \<Rightarrow> bool" where
  "names_range body start stop name \<longleftrightarrow>
     (case (map_of (boundaries body) start, map_of (boundaries body) stop) of
        (Some i, Some j) \<Rightarrow> start < stop \<and> take (j - i) (drop i body) = 64 # name
      | _ \<Rightarrow> False)"

fun check_ranges :: "int list \<Rightarrow> int \<Rightarrow> mention list \<Rightarrow> bool" where
  "check_ranges body last_end [] = True"
| "check_ranges body last_end (m # ms) =
     (last_end \<le> mn_start m \<and> names_range body (mn_start m) (mn_end m) (code_points (mn_display_name m)) \<and>
      check_ranges body (mn_end m) ms)"

definition occurrence :: "mention \<Rightarrow> mention_occurrence" where
  "occurrence m = \<lparr>mo_start = mn_start m, mo_end = mn_end m, mo_display_name = mn_display_name m\<rparr>"

text \<open>\<open>prepared.setdefault(user_id, []).append(occurrence)\<close>.\<close>

fun add_occurrence :: "int \<Rightarrow> mention_occurrence \<Rightarrow> mention_targets \<Rightarrow> mention_targets" where
  "add_occurrence u x [] = [(u, [x])]"
| "add_occurrence u x ((v, xs) # ts) = (if v = u then (v, xs @ [x]) # ts else (v, xs) # add_occurrence u x ts)"

definition mention_invalid :: app_error where
  "mention_invalid = raise_msg BadRequestError ''COMMENT_MENTION_INVALID''"

definition mention_user_unavailable :: app_error where
  "mention_user_unavailable = raise_msg BadRequestError ''COMMENT_MENTION_USER_UNAVAILABLE''"

text \<open>A label the comment had before may stay, also when the user has another name by now.\<close>

fun prepare_targets ::
  "(int \<times> string) list \<Rightarrow> mention list \<Rightarrow> mention_targets \<Rightarrow> mention list \<Rightarrow> app_error + mention_targets" where
  "prepare_targets names previous prepared [] = Inr prepared"
| "prepare_targets names previous prepared (m # ms) =
     (if map_of names (mn_user_id m) \<noteq> Some (mn_display_name m) \<and>
         \<not> list_ex (\<lambda>p. mn_user_id p = mn_user_id m \<and> mn_display_name p = mn_display_name m) previous
      then Inl mention_invalid
      else prepare_targets names previous (add_occurrence (mn_user_id m) (occurrence m) prepared) ms)"

definition prepare_mentions ::
  "(int \<times> string) list \<Rightarrow> int list \<Rightarrow> mention list \<Rightarrow> mention list \<Rightarrow> app_error + mention_targets" where
  "prepare_mentions eligible body mentions previous =
     (if mentions = [] then Inr []
      else
        (let sorted = sort_key mn_start mentions in
         ebind (raise_if (\<not> check_ranges body 0 sorted) mention_invalid) (\<lambda>_.
         ebind (raise_if (\<not> list_all (\<lambda>m. mn_user_id m \<in> fst ` set eligible) mentions) mention_user_unavailable) (\<lambda>_.
         prepare_targets eligible previous [] sorted))))"

text \<open>The property \<open>mentions\<close> of a comment.\<close>

definition mentions_of :: "mention_targets \<Rightarrow> mention list" where
  "mentions_of targets =
     sort_key mn_start (concat (map (\<lambda>(u, xs). map (\<lambda>x. \<lparr>mn_user_id = u, mn_start = mo_start x, mn_end = mo_end x,
       mn_display_name = mo_display_name x\<rparr>) xs) targets))"

subsection \<open>Positions\<close>

text \<open>UTF-16 as the browser counts it; scalar values are the code points that are no surrogates.\<close>

definition scalar :: "int \<Rightarrow> bool" where
  "scalar c \<longleftrightarrow> (0 \<le> c \<and> c < 55296) \<or> (57344 \<le> c \<and> c < 1114112)"

definition utf16_char :: "int \<Rightarrow> int list" where
  "utf16_char c = (if c > 65535 then [55296 + (c - 65536) div 1024, 56320 + (c - 65536) mod 1024] else [c])"

definition utf16 :: "int list \<Rightarrow> int list" where
  "utf16 body = concat (map utf16_char body)"

lemma utf16_simps [simp]: "utf16 [] = []" "utf16 (c # s) = utf16_char c @ utf16 s" "utf16 (a @ b) = utf16 a @ utf16 b"
  by (simp_all add: utf16_def)

lemma utf16_char_length: "int (length (utf16_char c)) = utf16_width c"
  by (simp add: utf16_char_def utf16_width_def)

lemma utf16_width_pos [simp]: "0 < utf16_width c"
  by (simp add: utf16_width_def)

lemma boundaries_from_iff:
  "(k, i) \<in> set (boundaries_from offset index body) \<longleftrightarrow>
   (\<exists>j. 0 < j \<and> j \<le> length body \<and> i = index + j \<and> k = offset + int (length (utf16 (take j body))))"
proof (induction body arbitrary: offset index)
  case (Cons c body)
  have ex: "(\<exists>j \<le> n. P j) \<longleftrightarrow> P 0 \<or> (\<exists>j. 0 < j \<and> j \<le> n \<and> P j)" for P and n :: nat
    by (metis le0 neq0_conv)
  have "(\<exists>j. 0 < j \<and> j \<le> Suc (length body) \<and> i = index + j \<and> k = offset + int (length (utf16 (take j (c # body))))) \<longleftrightarrow>
      (\<exists>j \<le> length body. i = index + Suc j \<and> k = offset + int (length (utf16 (take (Suc j) (c # body)))))"
    by (metis Suc_le_mono Suc_pred zero_less_Suc)
  also have "\<dots> \<longleftrightarrow> (\<exists>j \<le> length body. i = index + 1 + j \<and> k = offset + utf16_width c + int (length (utf16 (take j body))))"
    by (simp add: utf16_char_length add.assoc)
  also have "\<dots> \<longleftrightarrow> (k, i) = (offset + utf16_width c, index + 1) \<or>
      (\<exists>j. 0 < j \<and> j \<le> length body \<and> i = index + 1 + j \<and> k = offset + utf16_width c + int (length (utf16 (take j body))))"
    by (subst ex) auto
  finally show ?case
    by (simp add: Cons.IH)
qed simp

lemma boundaries_iff:
  "(k, i) \<in> set (boundaries body) \<longleftrightarrow> i \<le> length body \<and> k = int (length (utf16 (take i body)))"
  by (cases "i = 0") (auto simp: boundaries_def boundaries_from_iff)


lemma boundaries_from_above: "k \<in> fst ` set (boundaries_from offset index body) \<Longrightarrow> offset < k"
proof (induction body arbitrary: offset index)
  case (Cons c body)
  then consider "k = offset + utf16_width c" | "offset + utf16_width c < k"
    using Cons.IH [of "offset + utf16_width c" "index + 1"] by auto
  then show ?case
    using utf16_width_pos [of c] by cases linarith+
qed simp

lemma distinct_boundaries_from: "distinct (map fst (boundaries_from offset index body))"
proof (induction body arbitrary: offset index)
  case (Cons c body)
  then show ?case
    using boundaries_from_above [of "offset + utf16_width c" "offset + utf16_width c" "index + 1" body] by auto
qed simp

lemma map_of_boundaries: "map_of (boundaries body) k = Some i \<longleftrightarrow> i \<le> length body \<and> k = int (length (utf16 (take i body)))"
proof -
  have "distinct (map fst (boundaries body))"
    using distinct_boundaries_from boundaries_from_above [of 0 0 0 body] by (auto simp: boundaries_def)
  then show ?thesis
    by (simp add: map_of_eq_Some_iff boundaries_iff)
qed

text \<open>The first unit of a character is never the second of a pair, so a character can be read off its units.\<close>

definition low_surrogate :: "int \<Rightarrow> bool" where
  "low_surrogate u \<longleftrightarrow> 56320 \<le> u \<and> u < 57344"

lemma utf16_char_hd: "scalar c \<Longrightarrow> \<not> low_surrogate (hd (utf16_char c))"
  by (auto simp: scalar_def utf16_char_def low_surrogate_def)

lemma utf16_char_low: "scalar c \<Longrightarrow> x # y # s = utf16_char c \<Longrightarrow> low_surrogate y"
  by (auto simp: scalar_def utf16_char_def low_surrogate_def split: if_splits)

lemma utf16_char_not_Nil [simp]: "utf16_char c \<noteq> []"
  by (simp add: utf16_char_def)

lemma utf16_char_prefix:
  assumes "scalar c" "scalar d" "utf16_char c @ s = utf16_char d @ t"
  shows "c = d \<and> s = t"
proof -
  have div_mod: "c = d" if "55296 + (c - 65536) div 1024 = 55296 + (d - 65536) div 1024"
      "(c - 65536) mod 1024 = (d - 65536) mod 1024" "c > 65535" "d > 65535"
  proof -
    have "c - 65536 = d - 65536"
      using that by (metis add_left_cancel div_mult_mod_eq)
    with that show ?thesis
      by simp
  qed
  have high: "55296 + (x - 65536) div 1024 < 57344 \<and> 55296 \<le> 55296 + (x - 65536) div 1024" if "scalar x" "x > 65535" for x
    using that by (auto simp: scalar_def)
  show ?thesis
    using assms div_mod high [of c] high [of d] by (auto simp: utf16_char_def scalar_def split: if_splits)
qed

lemma utf16_prefix:
  assumes "list_all scalar body" "list_all scalar w" "utf16 body = utf16 w @ B"
  shows "\<exists>q. body = w @ q"
  using assms
proof (induction w arbitrary: body)
  case (Cons c w)
  then obtain d body' where body: "body = d # body'"
    by (cases body) auto
  with Cons.prems have "d = c \<and> utf16 body' = utf16 w @ B"
    by (intro utf16_char_prefix) auto
  with Cons body show ?case
    by auto
qed simp

lemma utf16_occurrence:
  assumes "list_all scalar body" "list_all scalar w" "w \<noteq> []" "utf16 body = A @ utf16 w @ B"
  shows "\<exists>p q. body = p @ w @ q \<and> utf16 p = A"
  using assms
proof (induction body arbitrary: A)
  case (Cons d body)
  show ?case
  proof (cases "A = []")
    case True
    then obtain q where "d # body = w @ q"
      using utf16_prefix [OF Cons.prems(1,2)] Cons.prems(4) by auto
    with True show ?thesis
      by (intro exI [of _ "[]"] exI [of _ q]) simp
  next
    case False
    show ?thesis
    proof (cases "length (utf16_char d) \<le> length A")
      case True
      with Cons.prems(4) obtain A' where A: "A = utf16_char d @ A'" "utf16 body = A' @ utf16 w @ B"
        by (auto simp: append_eq_append_conv2 append_eq_append_conv_if)
      with Cons.IH [of A'] Cons.prems obtain p q where "body = p @ w @ q" "utf16 p = A'"
        by auto
      with A show ?thesis
        by (intro exI [of _ "d # p"] exI [of _ q]) simp
    next
      case short: False
      obtain c w' where w: "w = c # w'"
        using Cons.prems(3) by (cases w) auto
      obtain x where x: "A = [x]" and two: "length (utf16_char d) = 2"
        using False short by (cases A; cases "tl A") (auto simp: utf16_char_def split: if_splits)
      from two obtain y where d: "utf16_char d = [x, y]" and y: "y = hd (utf16_char c)"
        using Cons.prems(4) x w by (cases "utf16_char c") (auto simp: length_Suc_conv numeral_2_eq_2)
      have "low_surrogate y"
        using utf16_char_low [of d x y "[]"] d Cons.prems(1) by simp
      moreover have "\<not> low_surrogate y"
        using utf16_char_hd [of c] y w Cons.prems(2) by simp
      ultimately show ?thesis by blast
    qed
  qed
next
  case Nil
  then show ?case
    by (cases w) auto
qed

lemma length_utf16_take_mono: "i \<le> j \<Longrightarrow> length (utf16 (take i body)) \<le> length (utf16 (take j body))"
  by (metis le_Suc_ex take_add utf16_simps(3) length_append le_add1)

lemma names_range_iff:
  "names_range body start stop name \<longleftrightarrow>
   (\<exists>p q. body = p @ (64 # name) @ q \<and> start = int (length (utf16 p)) \<and> stop = int (length (utf16 (p @ (64 # name)))))"
proof
  assume "names_range body start stop name"
  then obtain i j where ij: "i \<le> length body" "start = int (length (utf16 (take i body)))" "j \<le> length body"
      "stop = int (length (utf16 (take j body)))" "start < stop" "take (j - i) (drop i body) = 64 # name"
    by (auto simp: names_range_def map_of_boundaries split: option.splits)
  have "i < j"
    using ij length_utf16_take_mono [of j i body] by (meson leI nle_le not_less of_nat_less_iff)
  then have "take j body = take i body @ (64 # name)"
    using ij(6) by (metis le_add_diff_inverse less_imp_le take_add)
  moreover from this have "body = take i body @ (64 # name) @ drop j body"
    by (metis append.assoc append_take_drop_id)
  ultimately show "\<exists>p q. body = p @ (64 # name) @ q \<and> start = int (length (utf16 p)) \<and> stop = int (length (utf16 (p @ (64 # name))))"
    using ij by metis
next
  assume "\<exists>p q. body = p @ (64 # name) @ q \<and> start = int (length (utf16 p)) \<and> stop = int (length (utf16 (p @ (64 # name))))"
  then obtain p q where pq: "body = p @ (64 # name) @ q" "start = int (length (utf16 p))"
      "stop = int (length (utf16 (p @ (64 # name))))"
    by blast
  have "map_of (boundaries body) start = Some (length p)"
    using pq by (simp add: map_of_boundaries)
  moreover have "map_of (boundaries body) stop = Some (length p + Suc (length name))"
    using pq by (simp add: map_of_boundaries)
  ultimately show "names_range body start stop name"
    using pq by (simp add: names_range_def utf16_char_def)
qed

text \<open>
  C18: What the check of a range by code points accepts is what the browser means by it: the slice of UTF-16
  units of the body is the text \<open>@name\<close>.
\<close>

theorem names_range_utf16:
  assumes "list_all scalar body" "list_all scalar name" "0 \<le> start"
  shows "names_range body start stop name \<longleftrightarrow>
    start < stop \<and> stop \<le> int (length (utf16 body)) \<and>
    take (nat (stop - start)) (drop (nat start) (utf16 body)) = utf16 (64 # name)"
proof
  assume "names_range body start stop name"
  then show "start < stop \<and> stop \<le> int (length (utf16 body)) \<and>
      take (nat (stop - start)) (drop (nat start) (utf16 body)) = utf16 (64 # name)"
    by (auto simp: names_range_iff nat_diff_distrib utf16_char_def nat_add_distrib)
next
  let ?U = "utf16 body" and ?w = "utf16 (64 # name)"
  assume r: "start < stop \<and> stop \<le> int (length ?U) \<and> take (nat (stop - start)) (drop (nat start) ?U) = ?w"
  then have "?U = take (nat start) ?U @ ?w @ drop (nat (stop - start)) (drop (nat start) ?U)"
    by (metis append_take_drop_id)
  then obtain p q where pq: "body = p @ (64 # name) @ q" "utf16 p = take (nat start) ?U"
    using utf16_occurrence [of body "64 # name" "take (nat start) ?U" "drop (nat (stop - start)) (drop (nat start) ?U)"]
      assms(1,2) by (auto simp: scalar_def simp del: utf16_simps)
  have "int (length (utf16 p)) = start"
    using r assms(3) nat_le_iff [of start "length ?U"] by (simp add: pq(2) del: utf16_simps)
  moreover have "int (length (take (nat (stop - start)) (drop (nat start) ?U))) = stop - start"
    using conjunct1 [OF r] conjunct1 [OF conjunct2 [OF r]] assms(3) by auto
  then have "int (length ?w) = stop - start"
    by (simp only: conjunct2 [OF conjunct2 [OF r]])
  ultimately have "start = int (length (utf16 p)) \<and> stop = int (length (utf16 (p @ (64 # name))))"
    by simp
  with pq(1) show "names_range body start stop name"
    unfolding names_range_iff by blast
qed

theorem names_range_utf16_witness: "names_range [128512, 64, 97] 2 4 [97]"
  by (rule iffD2 [OF names_range_utf16]) (simp_all add: scalar_def utf16_char_def)

subsection \<open>What is stored\<close>

definition mention_of :: "int \<Rightarrow> mention_occurrence \<Rightarrow> mention" where
  "mention_of u x = \<lparr>mn_user_id = u, mn_start = mo_start x, mn_end = mo_end x, mn_display_name = mo_display_name x\<rparr>"

definition stored_mentions :: "mention_targets \<Rightarrow> mention list" where
  "stored_mentions targets = concat (map (\<lambda>(u, xs). map (mention_of u) xs) targets)"

lemma mentions_of_eq: "mentions_of targets = sort_key mn_start (stored_mentions targets)"
proof -
  have "mention_of u = (\<lambda>x. \<lparr>mn_user_id = u, mn_start = mo_start x, mn_end = mo_end x, mn_display_name = mo_display_name x\<rparr>)" for u
    by (simp add: mention_of_def fun_eq_iff)
  then show ?thesis
    by (simp only: mentions_of_def stored_mentions_def)
qed

lemma mention_of_occurrence [simp]: "mention_of (mn_user_id m) (occurrence m) = m"
  by (simp add: mention_of_def occurrence_def)

lemma stored_add_occurrence:
  "mset (stored_mentions (add_occurrence u x ts)) = add_mset (mention_of u x) (mset (stored_mentions ts))"
  by (induction u x ts rule: add_occurrence.induct) (auto simp: stored_mentions_def)

lemma add_occurrence_users: "fst ` set (add_occurrence u x ts) = insert u (fst ` set ts)"
  by (induction u x ts rule: add_occurrence.induct) auto

lemma add_occurrence_distinct: "distinct (map fst ts) \<Longrightarrow> distinct (map fst (add_occurrence u x ts))"
proof (induction u x ts rule: add_occurrence.induct)
  case (2 u x v xs ts)
  then show ?case
    using add_occurrence_users [of u x ts] by auto
qed simp

lemma prepare_targets_stored:
  "prepare_targets names previous prepared ms = Inr targets \<Longrightarrow> mset (stored_mentions targets) = mset (stored_mentions prepared) + mset ms"
  by (induction ms arbitrary: prepared) (auto simp: stored_add_occurrence split: if_splits)

lemma prepare_targets_distinct:
  "prepare_targets names previous prepared ms = Inr targets \<Longrightarrow> distinct (map fst prepared) \<Longrightarrow> distinct (map fst targets)"
  by (induction ms arbitrary: prepared) (auto simp: add_occurrence_distinct split: if_splits)

lemma prepare_targets_ok:
  "(\<exists>targets. prepare_targets names previous prepared ms = Inr targets) \<longleftrightarrow>
   (\<forall>m \<in> set ms. map_of names (mn_user_id m) = Some (mn_display_name m) \<or>
      (\<exists>p \<in> set previous. mn_user_id p = mn_user_id m \<and> mn_display_name p = mn_display_name m))"
  by (induction ms arbitrary: prepared) (auto simp: list_ex_iff)

lemma names_range_less: "names_range body s e name \<Longrightarrow> s < e"
  by (auto simp: names_range_def split: option.splits)

lemma check_ranges_starts:
  "check_ranges body k ms \<Longrightarrow> (\<forall>m \<in> set ms. k \<le> mn_start m) \<and> sorted_wrt (\<lambda>a b. mn_end a \<le> mn_start b) ms \<and>
     sorted_wrt (\<lambda>a b. mn_start a < mn_start b) ms"
  by (induction ms arbitrary: k) (auto dest!: names_range_less; fastforce)+

lemma sort_key_unique:
  assumes "mset xs = mset ys" "sorted_wrt (\<lambda>a b. (f a :: 'k :: linorder) < f b) ys"
  shows "sort_key f xs = ys"
proof -
  have "sorted_wrt (<) (map f ys)"
    using assms(2) by (simp only: sorted_wrt_map)
  then have "sorted (map f ys)" and inj: "distinct (map f ys)"
    by (simp_all only: strict_sorted_iff)
  moreover have "map f (sort_key f xs) = map f ys"
    using assms(1) calculation(1) by (metis mset_map mset_sort properties_for_sort sorted_sort_key)
  moreover have "inj_on f (set xs \<union> set ys)"
    using inj assms(1) by (metis distinct_map mset_eq_setD sup.idem)
  ultimately show ?thesis
    by (metis map_inj_on set_sort sup_commute)
qed

lemma prepare_mentions_stored:
  assumes "prepare_mentions eligible body mentions previous = Inr targets"
  shows "mset (stored_mentions targets) = mset mentions \<and> distinct (map fst targets) \<and>
    check_ranges body 0 (sort_key mn_start mentions)"
  using assms prepare_targets_stored [of eligible previous "[]" "sort_key mn_start mentions" targets]
    prepare_targets_distinct [of eligible previous "[]" "sort_key mn_start mentions" targets]
  by (auto simp: prepare_mentions_def Let_def stored_mentions_def split: if_splits)

text \<open>
  C17: The mentions a comment is stored with read back as those of the request, in the order of their places in
  the body, one row per user.
\<close>

theorem mentions_roundtrip:
  assumes "prepare_mentions eligible body mentions previous = Inr targets"
  shows "mentions_of targets = sort_key mn_start mentions \<and> distinct (map fst targets)"
proof -
  note stored = prepare_mentions_stored [OF assms]
  then have "sort_key mn_start (stored_mentions targets) = sort_key mn_start mentions"
    using check_ranges_starts [of body 0 "sort_key mn_start mentions"] by (intro sort_key_unique) auto
  with stored show ?thesis
    by (simp add: mentions_of_eq)
qed

definition sample_mentions :: "mention list" where
  "sample_mentions = [\<lparr>mn_user_id = 2, mn_start = 4, mn_end = 6, mn_display_name = ''b''\<rparr>,
     \<lparr>mn_user_id = 1, mn_start = 0, mn_end = 3, mn_display_name = ''ab''\<rparr>]"

theorem mentions_roundtrip_witness:
  "mentions_of (projr (prepare_mentions [(1, ''ab''), (2, ''b'')] (code_points ''@ab @b'') sample_mentions [])) = rev sample_mentions"
proof -
  have ok: "\<not> isl (prepare_mentions [(1, ''ab''), (2, ''b'')] (code_points ''@ab @b'') sample_mentions [])"
    by code_simp
  have sorted: "sort_key mn_start sample_mentions = rev sample_mentions"
    by code_simp
  show ?thesis
    using mentions_roundtrip [OF Inr_projr [OF ok]] sorted by simp
qed


lemma sample_ranges_accepted:
  "check_ranges (code_points ''@ab @b'') 0 (sort_key mn_start sample_mentions)"
  by code_simp


end
