(* ===== verification/Requirement_Model.thy ===== *)
theory Requirement_Model imports Task_Model Numbering Canonical_Json Comment_Mention begin

text \<open>
  The rows of the requirement tables (\<^verbatim>\<open>app/models/requirement.py\<close>) and the part of the database the
  requirement services read and write, with the repository lookups they share and the change log
  (\<^verbatim>\<open>app/repositories/requirement_change_log.py\<close>).

  The conventions are those of \<open>Task_Model\<close>: times are numbers, also where a JSON snapshot stores their ISO
  text, ids come from a sequence, the fields of a partial update are patches. \<open>rq_users\<close> are the users with
  their names, \<open>rq_readers\<close> the pairs of a project and an active member who may read its requirements
  (\<open>eligible_users\<close>); tasks and their relations belong to other services.
\<close>

subsection \<open>Rows\<close>

record requirement_document =
  rdoc_id :: int
  rdoc_project_id :: int
  rdoc_title :: string
  rdoc_document_code :: string
  rdoc_version :: int
  rdoc_status :: string
  rdoc_purpose :: "string option"
  rdoc_project_goal :: "string option"
  rdoc_project_scope :: "string option"
  rdoc_project_completion_criteria :: "string option"
  rdoc_target_system_name :: "string option"
  rdoc_client_name :: "string option"
  rdoc_vendor_name :: "string option"
  rdoc_author_id :: "int option"
  rdoc_reviewer_id :: "int option"
  rdoc_approver_id :: "int option"
  rdoc_approved_at :: "time option"
  rdoc_created_by :: "int option"
  rdoc_updated_by :: "int option"
  rdoc_created_at :: time
  rdoc_updated_at :: time
  rdoc_deleted_at :: "time option"

record requirement_section =
  rsec_id :: int
  rsec_document_id :: int
  rsec_title :: string
  rsec_section_type :: string
  rsec_content :: "string option"
  rsec_sort_order :: int
  rsec_status :: string
  rsec_version :: int
  rsec_created_by :: "int option"
  rsec_updated_by :: "int option"
  rsec_created_at :: time
  rsec_updated_at :: time
  rsec_deleted_at :: "time option"

record requirement =
  ritm_id :: int
  ritm_document_id :: int
  ritm_section_id :: "int option"
  ritm_requirement_code :: string
  ritm_requirement_type :: string
  ritm_category :: "string option"
  ritm_title :: string
  ritm_description :: "string option"
  ritm_rationale :: "string option"
  ritm_acceptance_criteria :: "string option"
  ritm_priority :: string
  ritm_status :: string
  ritm_source :: "string option"
  ritm_owner_id :: "int option"
  ritm_approved_by :: "int option"
  ritm_approved_at :: "time option"
  ritm_version :: int
  ritm_created_by :: "int option"
  ritm_updated_by :: "int option"
  ritm_created_at :: time
  ritm_updated_at :: time
  ritm_deleted_at :: "time option"

record open_issue =
  riss_id :: int
  riss_document_id :: int
  riss_related_requirement_id :: "int option"
  riss_issue_code :: string
  riss_title :: string
  riss_description :: "string option"
  riss_impact_scope :: "string option"
  riss_assignee_id :: "int option"
  riss_due_date :: "int option"
  riss_status :: string
  riss_resolution :: "string option"
  riss_version :: int
  riss_created_by :: "int option"
  riss_updated_by :: "int option"
  riss_created_at :: time
  riss_updated_at :: time
  riss_deleted_at :: "time option"

record requirement_change_log =
  rlog_id :: int
  rlog_document_id :: "int option"
  rlog_target_type :: string
  rlog_target_id :: int
  rlog_action :: string
  rlog_field_name :: "string option"
  rlog_old_value :: "pydict option"
  rlog_new_value :: "pydict option"
  rlog_reason :: "string option"
  rlog_changed_by :: "int option"
  rlog_changed_at :: time

record requirement_approval =
  rapp_id :: int
  rapp_document_id :: int
  rapp_target_type :: string
  rapp_target_id :: int
  rapp_status :: string
  rapp_approver_id :: int
  rapp_requested_by :: int
  rapp_requested_at :: time
  rapp_approved_at :: "time option"
  rapp_rejected_at :: "time option"
  rapp_comment :: "string option"
  rapp_created_at :: time
  rapp_updated_at :: time

record target_comment =
  rtc_id :: int
  rtc_document_id :: int
  rtc_target_type :: string
  rtc_target_id :: int
  rtc_target_anchor :: "pydict option"
  rtc_parent_comment_id :: "int option"
  rtc_body :: string
  rtc_author_id :: int
  rtc_is_resolved :: bool
  rtc_version :: int
  rtc_created_at :: time
  rtc_updated_at :: time
  rtc_deleted_at :: "time option"
  rtc_mention_targets :: mention_targets

record requirement_relation =
  rrel_id :: int
  rrel_document_id :: int
  rrel_source_requirement_id :: int
  rrel_target_type :: string
  rrel_target_id :: string
  rrel_relation_type :: string
  rrel_description :: "string option"
  rrel_created_by :: "int option"
  rrel_created_at :: time

record requirement_revision =
  rrev_id :: int
  rrev_requirement_id :: int
  rrev_version :: int
  rrev_changed_by :: "int option"
  rrev_change_summary :: "string option"
  rrev_before_value :: pydict
  rrev_after_value :: pydict
  rrev_reason :: "string option"
  rrev_created_at :: time

record requirement_detail =
  rdet_id :: int
  rdet_requirement_id :: int
  rdet_detail_type :: string
  rdet_detail_json :: pydict
  rdet_created_at :: time
  rdet_updated_at :: time

record requirement_link =
  rlnk_id :: int
  rlnk_requirement_id :: int
  rlnk_linked_type :: string
  rlnk_linked_id :: string
  rlnk_linked_url :: "string option"
  rlnk_status :: string
  rlnk_created_at :: time

record requirement_comment =
  rcom_id :: int
  rcom_requirement_id :: int
  rcom_user_id :: int
  rcom_comment :: string
  rcom_created_at :: time
  rcom_mention_targets :: mention_targets

record requirement_review =
  rrvw_id :: int
  rrvw_requirement_id :: int
  rrvw_reviewer_id :: int
  rrvw_status :: string
  rrvw_comment :: "string option"
  rrvw_reviewed_at :: "time option"
  rrvw_created_at :: time
  rrvw_updated_at :: time

text \<open>What a repeated request to create a standard document is answered with; the hash is the canonical text.\<close>

record creation_receipt =
  crec_project_id :: int
  crec_actor_id :: int
  crec_request_key :: string
  crec_request_hash :: string
  crec_document_id :: "int option"

record requirement_db =
  rq_projects :: "int list"
  rq_users :: "(int \<times> string) list"
  rq_readers :: "(int \<times> int) list"
  rq_documents :: "requirement_document list"
  rq_sections :: "requirement_section list"
  rq_items :: "requirement list"
  rq_issues :: "open_issue list"
  rq_logs :: "requirement_change_log list"
  rq_approvals :: "requirement_approval list"
  rq_target_comments :: "target_comment list"
  rq_relations :: "requirement_relation list"
  rq_revisions :: "requirement_revision list"
  rq_details :: "requirement_detail list"
  rq_links :: "requirement_link list"
  rq_comments :: "requirement_comment list"
  rq_reviews :: "requirement_review list"
  rq_receipts :: "creation_receipt list"
  rq_task_relations :: "task_relation list"
  rq_tasks :: "task list"
  rq_audit :: "audit_event list"
  rq_notices :: "notice list"
  rq_seq :: int

text \<open>
  \<open>qe_others n\<close> is what other sessions commit before the insert of the \<open>n\<close>th attempt of a creation,
  \<open>qe_digest\<close> the SHA-256 of a text, \<open>qe_may\<close> whether a user has a permission in a project
  (\<open>has_project_permission\<close> of \<open>Rbac\<close>), \<open>qe_switched\<close> whether an old approval was switched to a fixed one
  (a row of \<^verbatim>\<open>legacy_approval_imports\<close>, which a trigger looks up).
\<close>

record requirement_env =
  qe_now :: time
  qe_digest :: "string \<Rightarrow> string"
  qe_may :: "int \<Rightarrow> int \<Rightarrow> string \<Rightarrow> bool"
  qe_switched :: "int \<Rightarrow> bool"
  qe_others :: "nat \<Rightarrow> requirement_db \<Rightarrow> requirement_db"

subsection \<open>Lookups\<close>

definition document_get_by_id :: "requirement_db \<Rightarrow> int \<Rightarrow> requirement_document option" where
  "document_get_by_id db k = find (\<lambda>d. rdoc_id d = k \<and> rdoc_deleted_at d = None) (rq_documents db)"

definition section_get_by_id :: "requirement_db \<Rightarrow> int \<Rightarrow> requirement_section option" where
  "section_get_by_id db k = find (\<lambda>s. rsec_id s = k \<and> rsec_deleted_at s = None) (rq_sections db)"

definition requirement_get_by_id :: "requirement_db \<Rightarrow> int \<Rightarrow> requirement option" where
  "requirement_get_by_id db k = find (\<lambda>r. ritm_id r = k \<and> ritm_deleted_at r = None) (rq_items db)"

definition issue_get_by_id :: "requirement_db \<Rightarrow> int \<Rightarrow> open_issue option" where
  "issue_get_by_id db k = find (\<lambda>i. riss_id i = k \<and> riss_deleted_at i = None) (rq_issues db)"

definition get_by_project_document_code :: "requirement_db \<Rightarrow> int \<Rightarrow> string \<Rightarrow> requirement_document option" where
  "get_by_project_document_code db project_id code =
     find (\<lambda>d. rdoc_project_id d = project_id \<and> rdoc_document_code d = code \<and> rdoc_deleted_at d = None) (rq_documents db)"

definition get_by_document_requirement_code :: "requirement_db \<Rightarrow> int \<Rightarrow> string \<Rightarrow> requirement option" where
  "get_by_document_requirement_code db document_id code =
     find (\<lambda>r. ritm_document_id r = document_id \<and> ritm_requirement_code r = code \<and> ritm_deleted_at r = None) (rq_items db)"

definition get_by_document_issue_code :: "requirement_db \<Rightarrow> int \<Rightarrow> string \<Rightarrow> open_issue option" where
  "get_by_document_issue_code db document_id code =
     find (\<lambda>i. riss_document_id i = document_id \<and> riss_issue_code i = code \<and> riss_deleted_at i = None) (rq_issues db)"

definition list_ids_by_project :: "requirement_db \<Rightarrow> int \<Rightarrow> int list" where
  "list_ids_by_project db project_id =
     sort (map rdoc_id (filter (\<lambda>d. rdoc_project_id d = project_id \<and> rdoc_deleted_at d = None) (rq_documents db)))"

definition list_sections_by_document :: "requirement_db \<Rightarrow> int \<Rightarrow> requirement_section list" where
  "list_sections_by_document db document_id =
     sort_key rsec_sort_order (sort_key rsec_id
       (filter (\<lambda>s. rsec_document_id s = document_id \<and> rsec_deleted_at s = None) (rq_sections db)))"

definition duplicate :: "string \<Rightarrow> app_error" where
  "duplicate message = raise_msg DuplicateResourceError message"

text \<open>A foreign key of a user that is set names a user.\<close>

definition user_exists :: "requirement_db \<Rightarrow> int option \<Rightarrow> bool" where
  "user_exists db user_id = (case user_id of None \<Rightarrow> True | Some u \<Rightarrow> u \<in> fst ` set (rq_users db))"

definition not_found :: "string \<Rightarrow> app_error" where
  "not_found message = raise_msg NotFoundError message"

definition get_document_in_project :: "requirement_db \<Rightarrow> int \<Rightarrow> int \<Rightarrow> app_error + requirement_document" where
  "get_document_in_project db project_id document_id =
     (case document_get_by_id db document_id of
        None \<Rightarrow> Inl (not_found ''REQUIREMENT_DOCUMENT_NOT_FOUND'')
      | Some d \<Rightarrow> if rdoc_project_id d \<noteq> project_id then Inl (not_found ''REQUIREMENT_DOCUMENT_NOT_FOUND'') else Inr d)"

definition get_section_in_document :: "requirement_db \<Rightarrow> int \<Rightarrow> int \<Rightarrow> app_error + requirement_section" where
  "get_section_in_document db document_id section_id =
     (case section_get_by_id db section_id of
        None \<Rightarrow> Inl (not_found ''REQUIREMENT_SECTION_NOT_FOUND'')
      | Some s \<Rightarrow> if rsec_document_id s \<noteq> document_id then Inl (not_found ''REQUIREMENT_SECTION_NOT_FOUND'') else Inr s)"

subsection \<open>History\<close>

definition log_create ::
  "time \<Rightarrow> int option \<Rightarrow> string \<Rightarrow> int \<Rightarrow> string \<Rightarrow> string option \<Rightarrow> pydict option \<Rightarrow> pydict option \<Rightarrow> string option \<Rightarrow>
   int option \<Rightarrow> requirement_db \<Rightarrow> requirement_db" where
  "log_create now document_id target_type target_id action field_name old_value new_value reason changed_by db =
     (let i = rq_seq db + 1 in
      db\<lparr>rq_seq := i, rq_logs := rq_logs db @
        [\<lparr>rlog_id = i, rlog_document_id = document_id, rlog_target_type = target_type, rlog_target_id = target_id,
          rlog_action = action, rlog_field_name = field_name, rlog_old_value = old_value, rlog_new_value = new_value,
          rlog_reason = reason, rlog_changed_by = changed_by, rlog_changed_at = now\<rparr>]\<rparr>)"

text \<open>The entry of an update: only the changed fields, and none at all when nothing changed.\<close>

definition log_update ::
  "time \<Rightarrow> int option \<Rightarrow> string \<Rightarrow> int \<Rightarrow> pydict \<Rightarrow> pydict \<Rightarrow> string list \<Rightarrow> string option \<Rightarrow> int option \<Rightarrow>
   requirement_db \<Rightarrow> requirement_db" where
  "log_update now document_id target_type target_id old_snapshot new_snapshot updated_fields reason changed_by db =
     (let (changed, old_value, new_value) = build_changed_field_snapshots old_snapshot new_snapshot updated_fields in
      case build_update_change_log_entry changed old_value new_value ''updated'' [] of
        None \<Rightarrow> db
      | Some e \<Rightarrow> log_create now document_id target_type target_id (cl_action e) None (cl_old_value e) (cl_new_value e)
                    reason changed_by db)"

subsection \<open>Notifications\<close>

definition requirement_notice_once :: "notice \<Rightarrow> requirement_db \<Rightarrow> requirement_db" where
  "requirement_notice_once n db =
     (if \<exists>m \<in> set (rq_notices db). nt_event_key m = nt_event_key n \<and> nt_recipient m = nt_recipient n
      then db else db\<lparr>rq_notices := rq_notices db @ [n]\<rparr>)"

definition requirement_event_key :: "string \<Rightarrow> int \<Rightarrow> int \<Rightarrow> string \<Rightarrow> string" where
  "requirement_event_key target_type target_id version kind =
     target_type @ '':'' @ show_int target_id @ '':v'' @ show_int version @ '':'' @ kind"

definition requirement_emit ::
  "int list \<Rightarrow> int option \<Rightarrow> int \<Rightarrow> string \<Rightarrow> string \<Rightarrow> int \<Rightarrow> int \<Rightarrow> string \<Rightarrow> pydict \<Rightarrow> string option \<Rightarrow> requirement_db \<Rightarrow>
   requirement_db" where
  "requirement_emit recipient_ids actor_id project_id kind target_type target_id version title context excerpt db =
     (let recipients = filter (\<lambda>r. Some r \<noteq> actor_id) recipient_ids;
          eligible = filter (\<lambda>r. (project_id, r) \<in> set (rq_readers db)) recipients
      in fold (\<lambda>r. requirement_notice_once
            \<lparr>nt_recipient = r, nt_type = kind, nt_actor = actor_id, nt_project_id = project_id,
             nt_target_type = target_type, nt_target_id = target_id,
             nt_event_key = requirement_event_key target_type target_id version kind, nt_title = title,
             nt_excerpt = (case excerpt of None \<Rightarrow> None | Some e \<Rightarrow> if e = [] then None else Some (take 240 e)),
             nt_context = context\<rparr>) eligible db)"

definition requirement_assignment_changed ::
  "int \<Rightarrow> int option \<Rightarrow> string \<Rightarrow> int \<Rightarrow> int \<Rightarrow> int option \<Rightarrow> int option \<Rightarrow> string \<Rightarrow> int \<Rightarrow> requirement_db \<Rightarrow> requirement_db" where
  "requirement_assignment_changed project_id actor_id target_type target_id version previous_user_id recipient_id title
     document_id db =
     (case recipient_id of
        None \<Rightarrow> db
      | Some r \<Rightarrow> if recipient_id = previous_user_id then db
                  else requirement_emit [r] actor_id project_id ''assigned'' target_type target_id version title
                         [(''document_id'', PInt document_id)] None db)"

subsection \<open>What logging and notifying leave alone\<close>

text \<open>The tables: everything but the history, the notices and the sequence.\<close>

definition same_tables :: "requirement_db \<Rightarrow> requirement_db \<Rightarrow> bool" where
  "same_tables db db' \<longleftrightarrow> (\<exists>logs notices seq. rq_seq db \<le> seq \<and> db' = db\<lparr>rq_logs := rq_logs db @ logs, rq_notices := notices, rq_seq := seq\<rparr>)"

lemma same_tables_refl [simp]: "same_tables db db"
  unfolding same_tables_def
  by (rule exI [of _ "[]"], rule exI [of _ "rq_notices db"], rule exI [of _ "rq_seq db"]) simp

lemma same_tables_trans [trans]: "same_tables a b \<Longrightarrow> same_tables b c \<Longrightarrow> same_tables a c"
  unfolding same_tables_def
proof (elim exE conjE)
  fix logs notices seq logs' notices' seq'
  assume b: "b = a\<lparr>rq_logs := rq_logs a @ logs, rq_notices := notices, rq_seq := seq\<rparr>" "rq_seq a \<le> seq"
    and c: "c = b\<lparr>rq_logs := rq_logs b @ logs', rq_notices := notices', rq_seq := seq'\<rparr>" "rq_seq b \<le> seq'"
  then show "\<exists>logs notices seq. rq_seq a \<le> seq \<and> c = a\<lparr>rq_logs := rq_logs a @ logs, rq_notices := notices, rq_seq := seq\<rparr>"
    by (intro exI [of _ "logs @ logs'"] exI [of _ notices'] exI [of _ seq']) simp
qed

lemma same_tables_log: "same_tables db (log_create now d tt ti act f ov nv r c db)"
  unfolding same_tables_def log_create_def Let_def
  by (rule exI [of _ "[\<lparr>rlog_id = rq_seq db + 1, rlog_document_id = d, rlog_target_type = tt, rlog_target_id = ti,
          rlog_action = act, rlog_field_name = f, rlog_old_value = ov, rlog_new_value = nv,
          rlog_reason = r, rlog_changed_by = c, rlog_changed_at = now\<rparr>]"], rule exI [of _ "rq_notices db"],
      rule exI [of _ "rq_seq db + 1"]) simp

lemma same_tables_log_update: "same_tables db (log_update now d tt ti o1 n1 fs r c db)"
  by (auto simp: log_update_def Let_def same_tables_log split: option.split prod.split)

lemma same_tables_notices: "same_tables db (db\<lparr>rq_notices := ns\<rparr>)"
  unfolding same_tables_def
  by (rule exI [of _ "[]"], rule exI [of _ ns], rule exI [of _ "rq_seq db"]) simp

lemma same_tables_emit: "same_tables db (requirement_emit rs a p k tt ti v t c e db)"
proof -
  have "same_tables db (fold (\<lambda>r. requirement_notice_once (f r)) xs db)" for f :: "int \<Rightarrow> notice" and xs
  proof (induction xs arbitrary: db)
    case (Cons x xs)
    have "same_tables db (requirement_notice_once (f x) db)"
      by (simp add: requirement_notice_once_def same_tables_notices)
    also have "same_tables \<dots> (fold (\<lambda>r. requirement_notice_once (f r)) xs \<dots>)"
      by (rule Cons)
    finally show ?case by simp
  qed simp
  then show ?thesis
    by (simp add: requirement_emit_def Let_def)
qed

lemma same_tables_assignment: "same_tables db (requirement_assignment_changed p a tt ti v pu r t d db)"
  by (auto simp: requirement_assignment_changed_def same_tables_emit split: option.split)

lemmas same_tables_intros = same_tables_log same_tables_log_update same_tables_emit same_tables_assignment

lemma same_tables_fields:
  assumes "same_tables db db'"
  shows "rq_projects db' = rq_projects db" "rq_users db' = rq_users db" "rq_readers db' = rq_readers db"
    "rq_documents db' = rq_documents db" "rq_sections db' = rq_sections db" "rq_items db' = rq_items db"
    "rq_issues db' = rq_issues db" "rq_approvals db' = rq_approvals db" "rq_target_comments db' = rq_target_comments db"
    "rq_relations db' = rq_relations db" "rq_revisions db' = rq_revisions db" "rq_details db' = rq_details db"
    "rq_links db' = rq_links db" "rq_comments db' = rq_comments db" "rq_reviews db' = rq_reviews db"
    "rq_receipts db' = rq_receipts db" "rq_task_relations db' = rq_task_relations db" "rq_tasks db' = rq_tasks db"
    "rq_audit db' = rq_audit db" "rq_seq db \<le> rq_seq db'"
  using assms by (auto simp: same_tables_def)

lemmas tables_of_log [simp] = same_tables_fields [OF same_tables_log] same_tables_fields [OF same_tables_log_update]
  same_tables_fields [OF same_tables_emit] same_tables_fields [OF same_tables_assignment]

end
