(* ===== verification/Requirement_Docs.thy ===== *)
theory Requirement_Docs imports Requirement_Model begin

text \<open>
  Requirement documents and their sections: \<^verbatim>\<open>app/services/requirement_document.py\<close>,
  \<^verbatim>\<open>app/services/requirement_section.py\<close> and \<^verbatim>\<open>app/services/standard_requirement_document.py\<close> over
  their repositories. The inputs are what the schemas leave after validation. An \<open>IntegrityError\<close> of a
  document write is reported as a duplicate code, that of a section write is not handled.
\<close>

subsection \<open>Inputs\<close>

record document_create =
  dcr_title :: string
  dcr_document_code :: string
  dcr_status :: string
  dcr_purpose :: "string option"
  dcr_project_goal :: "string option"
  dcr_project_scope :: "string option"
  dcr_project_completion_criteria :: "string option"
  dcr_target_system_name :: "string option"
  dcr_client_name :: "string option"
  dcr_vendor_name :: "string option"
  dcr_author_id :: "int option"
  dcr_reviewer_id :: "int option"
  dcr_approver_id :: "int option"
  dcr_approved_at :: "time option"

record standard_create = document_create +
  dcr_request_key :: string
  dcr_template_version :: string

record document_update =
  dup_version :: int
  dup_title :: "string patch"
  dup_document_code :: "string patch"
  dup_status :: "string patch"
  dup_purpose :: "string patch"
  dup_project_goal :: "string patch"
  dup_project_scope :: "string patch"
  dup_project_completion_criteria :: "string patch"
  dup_target_system_name :: "string patch"
  dup_client_name :: "string patch"
  dup_vendor_name :: "string patch"
  dup_author_id :: "int patch"
  dup_reviewer_id :: "int patch"
  dup_approver_id :: "int patch"
  dup_approved_at :: "time patch"

record section_create =
  scr_title :: string
  scr_section_type :: string
  scr_content :: "string option"
  scr_sort_order :: int
  scr_status :: string

record section_update =
  sup_version :: int
  sup_title :: "string patch"
  sup_section_type :: "string patch"
  sup_content :: "string patch"
  sup_sort_order :: "int patch"
  sup_status :: "string patch"

record section_sort_item =
  sso_section_id :: int
  sso_sort_order :: int
  sso_version :: int

text \<open>\<open>blank_as_none\<close> of the three objective fields.\<close>

definition blank_as_none :: "string option \<Rightarrow> string option" where
  "blank_as_none value = (case value of None \<Rightarrow> None | Some v \<Rightarrow> if py_strip v = [] then None else Some v)"

subsection \<open>Documents\<close>

definition new_document :: "time \<Rightarrow> int \<Rightarrow> int \<Rightarrow> 'a document_create_scheme \<Rightarrow> int option \<Rightarrow> requirement_document" where
  "new_document now identity project_id data actor_id =
     \<lparr>rdoc_id = identity, rdoc_project_id = project_id, rdoc_title = dcr_title data,
      rdoc_document_code = dcr_document_code data, rdoc_version = 1, rdoc_status = dcr_status data,
      rdoc_purpose = dcr_purpose data, rdoc_project_goal = dcr_project_goal data,
      rdoc_project_scope = dcr_project_scope data, rdoc_project_completion_criteria = dcr_project_completion_criteria data,
      rdoc_target_system_name = dcr_target_system_name data, rdoc_client_name = dcr_client_name data,
      rdoc_vendor_name = dcr_vendor_name data, rdoc_author_id = dcr_author_id data, rdoc_reviewer_id = dcr_reviewer_id data,
      rdoc_approver_id = dcr_approver_id data, rdoc_approved_at = dcr_approved_at data, rdoc_created_by = actor_id,
      rdoc_updated_by = actor_id, rdoc_created_at = now, rdoc_updated_at = now, rdoc_deleted_at = None\<rparr>"

text \<open>The constraints of the table: one document per project and code, deleted ones included, and known users.\<close>

definition document_violation :: "requirement_document \<Rightarrow> requirement_db \<Rightarrow> bool" where
  "document_violation d db \<longleftrightarrow>
     list_ex (\<lambda>x. rdoc_id x \<noteq> rdoc_id d \<and> rdoc_project_id x = rdoc_project_id d \<and>
        rdoc_document_code x = rdoc_document_code d) (rq_documents db) \<or>
     \<not> list_all (user_exists db) [rdoc_author_id d, rdoc_reviewer_id d, rdoc_approver_id d]"

definition document_snapshot :: "requirement_document \<Rightarrow> pydict" where
  "document_snapshot d =
     [(''id'', PInt (rdoc_id d)), (''project_id'', PInt (rdoc_project_id d)), (''title'', PStr (rdoc_title d)),
      (''document_code'', PStr (rdoc_document_code d)), (''status'', PStr (rdoc_status d)),
      (''purpose'', py_opt_str (rdoc_purpose d)), (''project_goal'', py_opt_str (rdoc_project_goal d)),
      (''project_scope'', py_opt_str (rdoc_project_scope d)),
      (''project_completion_criteria'', py_opt_str (rdoc_project_completion_criteria d)),
      (''author_id'', py_opt_int (rdoc_author_id d)), (''reviewer_id'', py_opt_int (rdoc_reviewer_id d)),
      (''approver_id'', py_opt_int (rdoc_approver_id d)), (''version'', PInt (rdoc_version d))]"

definition document_conflict :: "requirement_document \<Rightarrow> pydict" where
  "document_conflict d =
     (let values = [(''title'', PStr (rdoc_title d)), (''document_code'', PStr (rdoc_document_code d)),
        (''status'', PStr (rdoc_status d)), (''purpose'', py_opt_str (rdoc_purpose d)),
        (''project_goal'', py_opt_str (rdoc_project_goal d)), (''project_scope'', py_opt_str (rdoc_project_scope d)),
        (''project_completion_criteria'', py_opt_str (rdoc_project_completion_criteria d)),
        (''target_system_name'', py_opt_str (rdoc_target_system_name d)), (''client_name'', py_opt_str (rdoc_client_name d)),
        (''vendor_name'', py_opt_str (rdoc_vendor_name d)), (''author_id'', py_opt_int (rdoc_author_id d)),
        (''reviewer_id'', py_opt_int (rdoc_reviewer_id d)), (''approver_id'', py_opt_int (rdoc_approver_id d)),
        (''approved_at'', py_opt_int (rdoc_approved_at d)), (''id'', PInt (rdoc_id d)),
        (''project_id'', PInt (rdoc_project_id d)), (''version'', PInt (rdoc_version d)),
        (''created_by'', py_opt_int (rdoc_created_by d)), (''updated_by'', py_opt_int (rdoc_updated_by d)),
        (''created_at'', PInt (rdoc_created_at d)), (''updated_at'', PInt (rdoc_updated_at d))]
      in build_conflict_current (dget values) (map fst values)
           (Some [(''author'', PNone), (''reviewer'', PNone), (''approver'', PNone)]))"

definition document_duplicate :: app_error where
  "document_duplicate = duplicate ''REQUIREMENT_DOCUMENT_CODE_ALREADY_EXISTS''"

definition create_document ::
  "requirement_env \<Rightarrow> int \<Rightarrow> 'a document_create_scheme \<Rightarrow> int option \<Rightarrow> requirement_db \<Rightarrow>
   app_error + requirement_document \<times> requirement_db" where
  "create_document env project_id data actor_id db =
     ebind (raise_if (project_id \<notin> set (rq_projects db)) (not_found ''PROJECT_NOT_FOUND'')) (\<lambda>_.
     ebind (raise_if (get_by_project_document_code db project_id (dcr_document_code data) \<noteq> None) document_duplicate) (\<lambda>_.
     let d = new_document (qe_now env) (rq_seq db + 1) project_id data actor_id in
     if document_violation d db then Inl document_duplicate
     else Inr (d, log_create (qe_now env) (Some (rdoc_id d)) ''document'' (rdoc_id d) ''created'' None None
                    (Some (document_snapshot d)) None actor_id
                    (db\<lparr>rq_seq := rq_seq db + 1, rq_documents := rq_documents db @ [d]\<rparr>))))"

definition updated_document :: "time \<Rightarrow> document_update \<Rightarrow> int option \<Rightarrow> requirement_document \<Rightarrow> requirement_document" where
  "updated_document now data actor_id d =
     d\<lparr>rdoc_title := set_required (dup_title data) (rdoc_title d),
       rdoc_document_code := set_required (dup_document_code data) (rdoc_document_code d),
       rdoc_status := set_required (dup_status data) (rdoc_status d),
       rdoc_purpose := set_nullable (dup_purpose data) (rdoc_purpose d),
       rdoc_project_goal := set_nullable (dup_project_goal data) (rdoc_project_goal d),
       rdoc_project_scope := set_nullable (dup_project_scope data) (rdoc_project_scope d),
       rdoc_project_completion_criteria := set_nullable (dup_project_completion_criteria data) (rdoc_project_completion_criteria d),
       rdoc_target_system_name := set_nullable (dup_target_system_name data) (rdoc_target_system_name d),
       rdoc_client_name := set_nullable (dup_client_name data) (rdoc_client_name d),
       rdoc_vendor_name := set_nullable (dup_vendor_name data) (rdoc_vendor_name d),
       rdoc_author_id := set_nullable (dup_author_id data) (rdoc_author_id d),
       rdoc_reviewer_id := set_nullable (dup_reviewer_id data) (rdoc_reviewer_id d),
       rdoc_approver_id := set_nullable (dup_approver_id data) (rdoc_approver_id d),
       rdoc_approved_at := set_nullable (dup_approved_at data) (rdoc_approved_at d),
       rdoc_updated_by := (if actor_id \<noteq> None then actor_id else rdoc_updated_by d),
       rdoc_version := rdoc_version d + 1, rdoc_updated_at := now\<rparr>"

definition document_updated_fields :: "document_update \<Rightarrow> string list" where
  "document_updated_fields data = map fst (filter snd
     [(''title'', is_set (dup_title data)), (''document_code'', is_set (dup_document_code data)),
      (''status'', is_set (dup_status data)), (''purpose'', is_set (dup_purpose data)),
      (''project_goal'', is_set (dup_project_goal data)), (''project_scope'', is_set (dup_project_scope data)),
      (''project_completion_criteria'', is_set (dup_project_completion_criteria data)),
      (''target_system_name'', is_set (dup_target_system_name data)), (''client_name'', is_set (dup_client_name data)),
      (''vendor_name'', is_set (dup_vendor_name data)), (''author_id'', is_set (dup_author_id data)),
      (''reviewer_id'', is_set (dup_reviewer_id data)), (''approver_id'', is_set (dup_approver_id data)),
      (''approved_at'', is_set (dup_approved_at data))])"

definition update_document ::
  "requirement_env \<Rightarrow> int \<Rightarrow> int \<Rightarrow> document_update \<Rightarrow> int option \<Rightarrow> requirement_db \<Rightarrow>
   app_error + requirement_document \<times> requirement_db" where
  "update_document env project_id document_id data actor_id db =
     ebind (get_document_in_project db project_id document_id) (\<lambda>d.
     ebind (raise_if_version_conflict (rdoc_version d) (dup_version data) (document_conflict d)) (\<lambda>_.
     ebind (raise_if (case dup_document_code data of
               Set code \<Rightarrow> code \<noteq> rdoc_document_code d \<and> get_by_project_document_code db project_id code \<noteq> None
             | _ \<Rightarrow> False) document_duplicate) (\<lambda>_.
     let d' = updated_document (qe_now env) data actor_id d in
     if dup_title data = Null \<or> dup_document_code data = Null \<or> dup_status data = Null \<or> document_violation d' db
     then Inl document_duplicate
     else Inr (d', log_update (qe_now env) (Some (rdoc_id d')) ''document'' (rdoc_id d') (document_snapshot d)
                     (document_snapshot d') (document_updated_fields data) None actor_id
                     (db\<lparr>rq_documents := tput rdoc_id d' (rq_documents db)\<rparr>)))))"

definition delete_document ::
  "requirement_env \<Rightarrow> int \<Rightarrow> int \<Rightarrow> int option \<Rightarrow> requirement_db \<Rightarrow> app_error + requirement_db" where
  "delete_document env project_id document_id actor_id db =
     ebind (get_document_in_project db project_id document_id) (\<lambda>d.
     let d' = d\<lparr>rdoc_deleted_at := Some (qe_now env), rdoc_updated_by := (if actor_id \<noteq> None then actor_id else rdoc_updated_by d),
                rdoc_updated_at := qe_now env\<rparr>
     in Inr (log_create (qe_now env) (Some (rdoc_id d)) ''document'' (rdoc_id d) ''deleted'' None (Some (document_snapshot d))
               None None actor_id (db\<lparr>rq_documents := tput rdoc_id d' (rq_documents db)\<rparr>)))"

subsection \<open>Sections\<close>

definition new_section :: "time \<Rightarrow> int \<Rightarrow> int \<Rightarrow> section_create \<Rightarrow> int option \<Rightarrow> requirement_section" where
  "new_section now identity document_id data actor_id =
     \<lparr>rsec_id = identity, rsec_document_id = document_id, rsec_title = scr_title data,
      rsec_section_type = scr_section_type data, rsec_content = scr_content data, rsec_sort_order = scr_sort_order data,
      rsec_status = scr_status data, rsec_version = 1, rsec_created_by = actor_id, rsec_updated_by = actor_id,
      rsec_created_at = now, rsec_updated_at = now, rsec_deleted_at = None\<rparr>"

definition section_snapshot :: "requirement_section \<Rightarrow> pydict" where
  "section_snapshot s =
     [(''id'', PInt (rsec_id s)), (''document_id'', PInt (rsec_document_id s)), (''title'', PStr (rsec_title s)),
      (''section_type'', PStr (rsec_section_type s)), (''content'', py_opt_str (rsec_content s)),
      (''sort_order'', PInt (rsec_sort_order s)), (''status'', PStr (rsec_status s)), (''version'', PInt (rsec_version s))]"

definition section_conflict :: "requirement_section \<Rightarrow> pydict" where
  "section_conflict s =
     (let values = [(''title'', PStr (rsec_title s)), (''section_type'', PStr (rsec_section_type s)),
        (''content'', py_opt_str (rsec_content s)), (''sort_order'', PInt (rsec_sort_order s)),
        (''status'', PStr (rsec_status s)), (''id'', PInt (rsec_id s)), (''document_id'', PInt (rsec_document_id s)),
        (''version'', PInt (rsec_version s)), (''created_by'', py_opt_int (rsec_created_by s)),
        (''updated_by'', py_opt_int (rsec_updated_by s)), (''created_at'', PInt (rsec_created_at s)),
        (''updated_at'', PInt (rsec_updated_at s))]
      in build_conflict_current (dget values) (map fst values) None)"

definition create_section ::
  "requirement_env \<Rightarrow> int \<Rightarrow> int \<Rightarrow> section_create \<Rightarrow> int option \<Rightarrow> requirement_db \<Rightarrow>
   app_error + requirement_section \<times> requirement_db" where
  "create_section env project_id document_id data actor_id db =
     ebind (get_document_in_project db project_id document_id) (\<lambda>_.
     let s = new_section (qe_now env) (rq_seq db + 1) document_id data actor_id
     in Inr (s, log_create (qe_now env) (Some document_id) ''section'' (rsec_id s) ''created'' None None
                  (Some (section_snapshot s)) None actor_id
                  (db\<lparr>rq_seq := rq_seq db + 1, rq_sections := rq_sections db @ [s]\<rparr>)))"

definition list_sections :: "int \<Rightarrow> int \<Rightarrow> requirement_db \<Rightarrow> app_error + requirement_section list" where
  "list_sections project_id document_id db =
     ebind (get_document_in_project db project_id document_id) (\<lambda>_. Inr (list_sections_by_document db document_id))"

definition get_section :: "int \<Rightarrow> int \<Rightarrow> requirement_db \<Rightarrow> app_error + requirement_section" where
  "get_section project_id section_id db =
     ebind (some_or (not_found ''REQUIREMENT_SECTION_NOT_FOUND'') (section_get_by_id db section_id)) (\<lambda>s.
     ebind (get_document_in_project db project_id (rsec_document_id s)) (\<lambda>_. Inr s))"

definition updated_section :: "time \<Rightarrow> section_update \<Rightarrow> int option \<Rightarrow> requirement_section \<Rightarrow> requirement_section" where
  "updated_section now data actor_id s =
     s\<lparr>rsec_title := set_required (sup_title data) (rsec_title s),
       rsec_section_type := set_required (sup_section_type data) (rsec_section_type s),
       rsec_content := set_nullable (sup_content data) (rsec_content s),
       rsec_sort_order := set_required (sup_sort_order data) (rsec_sort_order s),
       rsec_status := set_required (sup_status data) (rsec_status s),
       rsec_updated_by := (if actor_id \<noteq> None then actor_id else rsec_updated_by s),
       rsec_version := rsec_version s + 1, rsec_updated_at := now\<rparr>"

definition section_updated_fields :: "section_update \<Rightarrow> string list" where
  "section_updated_fields data = map fst (filter snd
     [(''title'', is_set (sup_title data)), (''section_type'', is_set (sup_section_type data)),
      (''content'', is_set (sup_content data)), (''sort_order'', is_set (sup_sort_order data)),
      (''status'', is_set (sup_status data))])"

definition update_section ::
  "requirement_env \<Rightarrow> int \<Rightarrow> int \<Rightarrow> section_update \<Rightarrow> int option \<Rightarrow> requirement_db \<Rightarrow>
   app_error + requirement_section \<times> requirement_db" where
  "update_section env project_id section_id data actor_id db =
     ebind (get_section project_id section_id db) (\<lambda>s.
     ebind (raise_if_version_conflict (rsec_version s) (sup_version data) (section_conflict s)) (\<lambda>_.
     let s' = updated_section (qe_now env) data actor_id s in
     if sup_title data = Null \<or> sup_section_type data = Null \<or> sup_sort_order data = Null \<or> sup_status data = Null
     then Inl integrity_error
     else Inr (s', log_update (qe_now env) (Some (rsec_document_id s')) ''section'' (rsec_id s') (section_snapshot s)
                     (section_snapshot s') (section_updated_fields data) None actor_id
                     (db\<lparr>rq_sections := tput rsec_id s' (rq_sections db)\<rparr>))))"

text \<open>All items are checked against the rows as they were read before any of them is written.\<close>

fun check_sort_items :: "requirement_section list \<Rightarrow> section_sort_item list \<Rightarrow> app_error + unit" where
  "check_sort_items sections [] = Inr ()"
| "check_sort_items sections (i # items) =
     ebind (some_or (not_found ''REQUIREMENT_SECTION_NOT_FOUND'') (find (\<lambda>s. rsec_id s = sso_section_id i) sections)) (\<lambda>s.
     ebind (raise_if_version_conflict (rsec_version s) (sso_version i) (section_conflict s)) (\<lambda>_.
     check_sort_items sections items))"

text \<open>A section named twice is written twice, each time with the last of its orders.\<close>

definition sort_order_of :: "section_sort_item list \<Rightarrow> int \<Rightarrow> int option" where
  "sort_order_of items k = map_of (rev (map (\<lambda>i. (sso_section_id i, sso_sort_order i)) items)) k"

definition write_sort_orders ::
  "time \<Rightarrow> int option \<Rightarrow> section_sort_item list \<Rightarrow> requirement_section list \<Rightarrow> requirement_section list" where
  "write_sort_orders now actor_id items sections =
     map (\<lambda>s. case sort_order_of items (rsec_id s) of
            None \<Rightarrow> s
          | Some k \<Rightarrow> s\<lparr>rsec_sort_order := k, rsec_updated_by := (if actor_id \<noteq> None then actor_id else rsec_updated_by s),
                        rsec_version := rsec_version s + int (length (filter (\<lambda>i. sso_section_id i = rsec_id s) items)),
                        rsec_updated_at := now\<rparr>) sections"

definition update_sort_order ::
  "requirement_env \<Rightarrow> int \<Rightarrow> int \<Rightarrow> section_sort_item list \<Rightarrow> int option \<Rightarrow> requirement_db \<Rightarrow>
   app_error + requirement_section list \<times> requirement_db" where
  "update_sort_order env project_id document_id items actor_id db =
     ebind (get_document_in_project db project_id document_id) (\<lambda>_.
     let sections = list_sections_by_document db document_id in
     ebind (check_sort_items sections items) (\<lambda>_.
     if items = [] then Inr (sections, db)
     else
       (let written = write_sort_orders (qe_now env) actor_id items (rq_sections db);
            targets = List.map_filter (\<lambda>i. find (\<lambda>s. rsec_id s = sso_section_id i) written) items;
            updated = sort_key rsec_sort_order (sort_key rsec_id targets)
        in Inr (updated, log_create (qe_now env) (Some document_id) ''document'' document_id ''sorted'' None None
             (Some [(''sort_orders'', PList (map (\<lambda>s. PDict [(''section_id'', PInt (rsec_id s)),
                (''sort_order'', PInt (rsec_sort_order s))]) updated))]) None actor_id
             (db\<lparr>rq_sections := written\<rparr>)))))"

definition delete_section ::
  "requirement_env \<Rightarrow> int \<Rightarrow> int \<Rightarrow> int option \<Rightarrow> requirement_db \<Rightarrow> app_error + requirement_db" where
  "delete_section env project_id section_id actor_id db =
     ebind (get_section project_id section_id db) (\<lambda>s.
     let s' = s\<lparr>rsec_deleted_at := Some (qe_now env), rsec_updated_by := (if actor_id \<noteq> None then actor_id else rsec_updated_by s),
                rsec_updated_at := qe_now env\<rparr>
     in Inr (log_create (qe_now env) (Some (rsec_document_id s)) ''section'' (rsec_id s) ''deleted'' None
               (Some (section_snapshot s)) None None actor_id (db\<lparr>rq_sections := tput rsec_id s' (rq_sections db)\<rparr>)))"

subsection \<open>Standard documents\<close>

text \<open>The seven sections of the template; their Japanese titles are represented by their types.\<close>

definition standard_sections :: "string list" where
  "standard_sections = [''overview'', ''scope'', ''business'', ''functional'', ''non_functional'', ''acceptance'', ''open_issue'']"

fun create_sections ::
  "requirement_env \<Rightarrow> int \<Rightarrow> int \<Rightarrow> int option \<Rightarrow> nat \<Rightarrow> string list \<Rightarrow> requirement_db \<Rightarrow> app_error + requirement_db" where
  "create_sections env project_id document_id actor_id index [] db = Inr db"
| "create_sections env project_id document_id actor_id index (kind # kinds) db =
     ebind (create_section env project_id document_id
              \<lparr>scr_title = kind, scr_section_type = kind, scr_content = None, scr_sort_order = int index * 10,
               scr_status = ''draft''\<rparr> actor_id db) (\<lambda>(_, db').
     create_sections env project_id document_id actor_id (index + 1) kinds db')"

definition standard_payload :: "standard_create \<Rightarrow> pyval" where
  "standard_payload data = PDict
     [(''project_goal'', py_opt_str (dcr_project_goal data)), (''project_scope'', py_opt_str (dcr_project_scope data)),
      (''project_completion_criteria'', py_opt_str (dcr_project_completion_criteria data)),
      (''title'', PStr (dcr_title data)), (''document_code'', PStr (dcr_document_code data)),
      (''status'', PStr (dcr_status data)), (''purpose'', py_opt_str (dcr_purpose data)),
      (''target_system_name'', py_opt_str (dcr_target_system_name data)), (''client_name'', py_opt_str (dcr_client_name data)),
      (''vendor_name'', py_opt_str (dcr_vendor_name data)), (''author_id'', py_opt_int (dcr_author_id data)),
      (''reviewer_id'', py_opt_int (dcr_reviewer_id data)), (''approver_id'', py_opt_int (dcr_approver_id data)),
      (''approved_at'', py_opt_int (dcr_approved_at data)), (''template_version'', PStr (dcr_template_version data))]"

definition receipt_find :: "requirement_db \<Rightarrow> int \<Rightarrow> int \<Rightarrow> string \<Rightarrow> creation_receipt option" where
  "receipt_find db project_id actor_id request_key =
     find (\<lambda>c. crec_project_id c = project_id \<and> crec_actor_id c = actor_id \<and> crec_request_key c = request_key) (rq_receipts db)"

definition authorize_standard :: "requirement_env \<Rightarrow> bool \<Rightarrow> int \<Rightarrow> int \<Rightarrow> app_error + unit" where
  "authorize_standard env active actor_id project_id =
     raise_if (\<not> (active \<and> list_all (qe_may env actor_id project_id) [''requirement:create'', ''requirement:update'']))
       (raise_cls ForbiddenError)"

definition replay_receipt :: "requirement_db \<Rightarrow> creation_receipt \<Rightarrow> string \<Rightarrow> app_error + requirement_document" where
  "replay_receipt db receipt hash =
     (if crec_request_hash receipt \<noteq> hash then Inl (duplicate ''REQUIREMENT_DOCUMENT_CREATION_KEY_CONFLICT'')
      else some_or (duplicate ''REQUIREMENT_DOCUMENT_CREATION_TARGET_DELETED'')
             (Option.bind (crec_document_id receipt) (document_get_by_id db)))"

text \<open>One transaction: the document, its sections and the receipt, whose key is unique.\<close>

definition standard_transaction ::
  "requirement_env \<Rightarrow> int \<Rightarrow> int \<Rightarrow> standard_create \<Rightarrow> string \<Rightarrow> requirement_db \<Rightarrow>
   app_error + requirement_document \<times> requirement_db" where
  "standard_transaction env project_id actor_id data hash db =
     ebind (create_document env project_id data (Some actor_id) db) (\<lambda>(d, db1).
     ebind (create_sections env project_id (rdoc_id d) (Some actor_id) 1 standard_sections db1) (\<lambda>db2.
     if receipt_find db2 project_id actor_id (dcr_request_key data) \<noteq> None then Inl integrity_error
     else Inr (d, db2\<lparr>rq_receipts := rq_receipts db2 @ [\<lparr>crec_project_id = project_id, crec_actor_id = actor_id,
            crec_request_key = dcr_request_key data, crec_request_hash = hash, crec_document_id = Some (rdoc_id d)\<rparr>]\<rparr>)))"

text \<open>
  Between the first look at the receipt and the writes other sessions may commit, and again before the
  second look. A duplicate that is no receipt of this key is raised as it is.
\<close>

definition create_standard ::
  "requirement_env \<Rightarrow> int \<Rightarrow> int \<Rightarrow> bool \<Rightarrow> standard_create \<Rightarrow> requirement_db \<Rightarrow>
   app_error + (requirement_document \<times> bool) \<times> requirement_db" where
  "create_standard env project_id actor_id active data db =
     ebind (authorize_standard env active actor_id project_id) (\<lambda>_.
     let hash = digest (qe_digest env) (standard_payload data) in
     case receipt_find db project_id actor_id (dcr_request_key data) of
       Some receipt \<Rightarrow> ebind (replay_receipt db receipt hash) (\<lambda>d. Inr ((d, True), db))
     | None \<Rightarrow>
         (let db1 = qe_others env 0 db in
          case standard_transaction env project_id actor_id data hash db1 of
            Inr (d, db2) \<Rightarrow> Inr ((d, False), db2)
          | Inl e \<Rightarrow>
              if err_cls e \<noteq> DuplicateResourceError \<and> e \<noteq> integrity_error then Inl e
              else
                (let db2 = qe_others env 1 db1 in
                 case receipt_find db2 project_id actor_id (dcr_request_key data) of
                   Some receipt \<Rightarrow> ebind (replay_receipt db2 receipt hash) (\<lambda>d. Inr ((d, True), db2))
                 | None \<Rightarrow> Inl e)))"

end
