(* ===== verification/Requirement_Items.thy ===== *)
theory Requirement_Items imports Requirement_Model begin

text \<open>
  Requirements and open issues: \<^verbatim>\<open>app/services/requirement_item.py\<close> and
  \<^verbatim>\<open>app/services/requirement_open_issue.py\<close> over their repositories. An update of a requirement leaves a
  revision with the content before and after. An \<open>IntegrityError\<close> of either table is reported as a duplicate
  code; with an automatic code the creation is tried again.
\<close>

subsection \<open>Inputs\<close>

record requirement_create =
  rcr_document_id :: int
  rcr_section_id :: "int option"
  rcr_requirement_code :: "string option"
  rcr_requirement_type :: string
  rcr_category :: "string option"
  rcr_title :: string
  rcr_description :: "string option"
  rcr_rationale :: "string option"
  rcr_acceptance_criteria :: "string option"
  rcr_priority :: string
  rcr_status :: string
  rcr_source :: "string option"
  rcr_owner_id :: "int option"
  rcr_approved_by :: "int option"
  rcr_approved_at :: "time option"

record requirement_update =
  rup_version :: int
  rup_section_id :: "int patch"
  rup_requirement_type :: "string patch"
  rup_category :: "string patch"
  rup_title :: "string patch"
  rup_description :: "string patch"
  rup_rationale :: "string patch"
  rup_acceptance_criteria :: "string patch"
  rup_priority :: "string patch"
  rup_status :: "string patch"
  rup_source :: "string patch"
  rup_owner_id :: "int patch"
  rup_approved_by :: "int patch"
  rup_approved_at :: "time patch"
  rup_change_summary :: "string option"
  rup_reason :: "string option"

record issue_create =
  icr_document_id :: int
  icr_related_requirement_id :: "int option"
  icr_issue_code :: "string option"
  icr_title :: string
  icr_description :: "string option"
  icr_impact_scope :: "string option"
  icr_assignee_id :: "int option"
  icr_due_date :: "int option"
  icr_status :: string
  icr_resolution :: "string option"

record issue_update =
  iup_version :: int
  iup_related_requirement_id :: "int patch"
  iup_title :: "string patch"
  iup_description :: "string patch"
  iup_impact_scope :: "string patch"
  iup_assignee_id :: "int patch"
  iup_due_date :: "int patch"
  iup_status :: "string patch"
  iup_resolution :: "string patch"
  iup_reason :: "string option"

record issue_promote =
  ipr_version :: int
  ipr_requirement_type :: string
  ipr_section_id :: "int option"
  ipr_category :: "string option"
  ipr_title :: "string option"
  ipr_description :: "string option"
  ipr_rationale :: "string option"
  ipr_acceptance_criteria :: "string option"
  ipr_priority :: string
  ipr_status :: string
  ipr_source :: "string option"
  ipr_owner_id :: "int option"
  ipr_resolution :: "string option"
  ipr_reason :: "string option"

subsection \<open>Requirements\<close>

definition new_requirement :: "time \<Rightarrow> int \<Rightarrow> string \<Rightarrow> requirement_create \<Rightarrow> int option \<Rightarrow> requirement" where
  "new_requirement now identity code data actor_id =
     \<lparr>ritm_id = identity, ritm_document_id = rcr_document_id data, ritm_section_id = rcr_section_id data,
      ritm_requirement_code = code, ritm_requirement_type = rcr_requirement_type data, ritm_category = rcr_category data,
      ritm_title = rcr_title data, ritm_description = rcr_description data, ritm_rationale = rcr_rationale data,
      ritm_acceptance_criteria = rcr_acceptance_criteria data, ritm_priority = rcr_priority data,
      ritm_status = rcr_status data, ritm_source = rcr_source data, ritm_owner_id = rcr_owner_id data,
      ritm_approved_by = rcr_approved_by data, ritm_approved_at = rcr_approved_at data, ritm_version = 1,
      ritm_created_by = actor_id, ritm_updated_by = actor_id, ritm_created_at = now, ritm_updated_at = now,
      ritm_deleted_at = None\<rparr>"

text \<open>The constraints of the table: one requirement per document and code, deleted ones included, and known users.\<close>

definition requirement_violation :: "requirement \<Rightarrow> requirement_db \<Rightarrow> bool" where
  "requirement_violation r db \<longleftrightarrow>
     list_ex (\<lambda>x. ritm_id x \<noteq> ritm_id r \<and> ritm_document_id x = ritm_document_id r \<and>
        ritm_requirement_code x = ritm_requirement_code r) (rq_items db) \<or>
     \<not> list_all (user_exists db) [ritm_owner_id r, ritm_approved_by r]"

definition revision_snapshot :: "requirement \<Rightarrow> pydict" where
  "revision_snapshot r =
     [(''id'', PInt (ritm_id r)), (''document_id'', PInt (ritm_document_id r)), (''section_id'', py_opt_int (ritm_section_id r)),
      (''requirement_code'', PStr (ritm_requirement_code r)), (''requirement_type'', PStr (ritm_requirement_type r)),
      (''category'', py_opt_str (ritm_category r)), (''title'', PStr (ritm_title r)),
      (''description'', py_opt_str (ritm_description r)), (''rationale'', py_opt_str (ritm_rationale r)),
      (''acceptance_criteria'', py_opt_str (ritm_acceptance_criteria r)), (''priority'', PStr (ritm_priority r)),
      (''status'', PStr (ritm_status r)), (''source'', py_opt_str (ritm_source r)), (''owner_id'', py_opt_int (ritm_owner_id r)),
      (''approved_by'', py_opt_int (ritm_approved_by r)), (''version'', PInt (ritm_version r))]"

definition requirement_conflict :: "requirement \<Rightarrow> pydict" where
  "requirement_conflict r =
     (let values = [(''section_id'', py_opt_int (ritm_section_id r)), (''requirement_code'', PStr (ritm_requirement_code r)),
        (''requirement_type'', PStr (ritm_requirement_type r)), (''category'', py_opt_str (ritm_category r)),
        (''title'', PStr (ritm_title r)), (''description'', py_opt_str (ritm_description r)),
        (''rationale'', py_opt_str (ritm_rationale r)), (''acceptance_criteria'', py_opt_str (ritm_acceptance_criteria r)),
        (''priority'', PStr (ritm_priority r)), (''status'', PStr (ritm_status r)), (''source'', py_opt_str (ritm_source r)),
        (''owner_id'', py_opt_int (ritm_owner_id r)), (''approved_by'', py_opt_int (ritm_approved_by r)),
        (''approved_at'', py_opt_int (ritm_approved_at r)), (''id'', PInt (ritm_id r)),
        (''document_id'', PInt (ritm_document_id r)), (''version'', PInt (ritm_version r)),
        (''created_by'', py_opt_int (ritm_created_by r)), (''updated_by'', py_opt_int (ritm_updated_by r)),
        (''created_at'', PInt (ritm_created_at r)), (''updated_at'', PInt (ritm_updated_at r))]
      in build_conflict_current (dget values) (map fst values) None)"

definition code_duplicate :: app_error where
  "code_duplicate = duplicate ''REQUIREMENT_CODE_ALREADY_EXISTS''"

definition auto_requirement_code_prefix :: string where
  "auto_requirement_code_prefix = ''REQ-''"

definition auto_requirement_code_retry_limit :: nat where
  "auto_requirement_code_retry_limit = 5"

definition requirement_codes :: "requirement_db \<Rightarrow> int \<Rightarrow> string list" where
  "requirement_codes db document_id =
     map ritm_requirement_code (filter (\<lambda>r. ritm_document_id r = document_id) (rq_items db))"

definition generate_requirement_code :: "requirement_db \<Rightarrow> int \<Rightarrow> app_error + string" where
  "generate_requirement_code db document_id = next_code auto_requirement_code_prefix (requirement_codes db document_id)"

text \<open>
  The loop of \<open>attempt\<close> on: number, insert, and start again after an \<open>IntegrityError\<close> unless the code was
  requested or the attempts are used up. The result is the row with the database it is in.
\<close>

fun insert_requirement ::
  "requirement_env \<Rightarrow> string option \<Rightarrow> requirement_create \<Rightarrow> int option \<Rightarrow> nat \<Rightarrow> nat \<Rightarrow> requirement_db \<Rightarrow>
   app_error + requirement \<times> requirement_db" where
  "insert_requirement env requested data actor_id attempt 0 db = Inl code_duplicate"
| "insert_requirement env requested data actor_id attempt (Suc left) db =
     ebind (case requested of Some c \<Rightarrow> Inr c | None \<Rightarrow> generate_requirement_code db (rcr_document_id data)) (\<lambda>code.
     let db1 = qe_others env attempt db;
         r = new_requirement (qe_now env) (rq_seq db1 + 1) code data actor_id
     in if requirement_violation r db1
        then if requested \<noteq> None then Inl code_duplicate
             else insert_requirement env requested data actor_id (attempt + 1) left db1
        else Inr (r, db1\<lparr>rq_seq := rq_seq db1 + 1, rq_items := rq_items db1 @ [r]\<rparr>))"

definition assigned_requirement :: "int \<Rightarrow> int option \<Rightarrow> int option \<Rightarrow> requirement \<Rightarrow> requirement_db \<Rightarrow> requirement_db" where
  "assigned_requirement project_id actor_id previous r db =
     requirement_assignment_changed project_id actor_id ''requirement'' (ritm_id r) (ritm_version r) previous
       (ritm_owner_id r) (ritm_title r) (ritm_document_id r) db"

definition create_requirement ::
  "requirement_env \<Rightarrow> int \<Rightarrow> requirement_create \<Rightarrow> int option \<Rightarrow> requirement_db \<Rightarrow>
   app_error + requirement \<times> requirement_db" where
  "create_requirement env project_id data actor_id db =
     ebind (get_document_in_project db project_id (rcr_document_id data)) (\<lambda>_.
     ebind (case rcr_section_id data of None \<Rightarrow> Inr ()
            | Some s \<Rightarrow> ebind (get_section_in_document db (rcr_document_id data) s) (\<lambda>_. Inr ())) (\<lambda>_.
     let requested = stripped_code (rcr_requirement_code data) in
     ebind (raise_if (case requested of None \<Rightarrow> False
               | Some c \<Rightarrow> get_by_document_requirement_code db (rcr_document_id data) c \<noteq> None) code_duplicate) (\<lambda>_.
     ebind (insert_requirement env requested data actor_id 0
              (if requested \<noteq> None then 1 else auto_requirement_code_retry_limit) db) (\<lambda>(r, db').
     Inr (r, log_create (qe_now env) (Some (ritm_document_id r)) ''requirement_item'' (ritm_id r) ''created'' None None
               (Some (revision_snapshot r)) None actor_id (assigned_requirement project_id actor_id None r db'))))))"

definition get_requirement :: "int \<Rightarrow> int \<Rightarrow> requirement_db \<Rightarrow> app_error + requirement" where
  "get_requirement project_id requirement_id db =
     ebind (some_or (not_found ''REQUIREMENT_NOT_FOUND'') (requirement_get_by_id db requirement_id)) (\<lambda>r.
     ebind (get_document_in_project db project_id (ritm_document_id r)) (\<lambda>_. Inr r))"

definition updated_requirement :: "time \<Rightarrow> requirement_update \<Rightarrow> int option \<Rightarrow> requirement \<Rightarrow> requirement" where
  "updated_requirement now data actor_id r =
     r\<lparr>ritm_section_id := set_nullable (rup_section_id data) (ritm_section_id r),
       ritm_requirement_type := set_required (rup_requirement_type data) (ritm_requirement_type r),
       ritm_category := set_nullable (rup_category data) (ritm_category r),
       ritm_title := set_required (rup_title data) (ritm_title r),
       ritm_description := set_nullable (rup_description data) (ritm_description r),
       ritm_rationale := set_nullable (rup_rationale data) (ritm_rationale r),
       ritm_acceptance_criteria := set_nullable (rup_acceptance_criteria data) (ritm_acceptance_criteria r),
       ritm_priority := set_required (rup_priority data) (ritm_priority r),
       ritm_status := set_required (rup_status data) (ritm_status r),
       ritm_source := set_nullable (rup_source data) (ritm_source r),
       ritm_owner_id := set_nullable (rup_owner_id data) (ritm_owner_id r),
       ritm_approved_by := set_nullable (rup_approved_by data) (ritm_approved_by r),
       ritm_approved_at := set_nullable (rup_approved_at data) (ritm_approved_at r),
       ritm_updated_by := (if actor_id \<noteq> None then actor_id else ritm_updated_by r),
       ritm_version := ritm_version r + 1, ritm_updated_at := now\<rparr>"

definition requirement_updated_fields :: "requirement_update \<Rightarrow> string list" where
  "requirement_updated_fields data = map fst (filter snd
     [(''section_id'', is_set (rup_section_id data)), (''requirement_type'', is_set (rup_requirement_type data)),
      (''category'', is_set (rup_category data)), (''title'', is_set (rup_title data)),
      (''description'', is_set (rup_description data)), (''rationale'', is_set (rup_rationale data)),
      (''acceptance_criteria'', is_set (rup_acceptance_criteria data)), (''priority'', is_set (rup_priority data)),
      (''status'', is_set (rup_status data)), (''source'', is_set (rup_source data)), (''owner_id'', is_set (rup_owner_id data)),
      (''approved_by'', is_set (rup_approved_by data)), (''approved_at'', is_set (rup_approved_at data))])"

definition revision_create ::
  "time \<Rightarrow> requirement \<Rightarrow> requirement \<Rightarrow> int option \<Rightarrow> string option \<Rightarrow> string option \<Rightarrow> requirement_db \<Rightarrow> requirement_db" where
  "revision_create now r r' changed_by change_summary reason db =
     (let i = rq_seq db + 1 in
      db\<lparr>rq_seq := i, rq_revisions := rq_revisions db @
        [\<lparr>rrev_id = i, rrev_requirement_id = ritm_id r', rrev_version = ritm_version r', rrev_changed_by = changed_by,
          rrev_change_summary = change_summary, rrev_before_value = revision_snapshot r,
          rrev_after_value = revision_snapshot r', rrev_reason = reason, rrev_created_at = now\<rparr>]\<rparr>)"

definition update_requirement ::
  "requirement_env \<Rightarrow> int \<Rightarrow> int \<Rightarrow> requirement_update \<Rightarrow> int option \<Rightarrow> requirement_db \<Rightarrow>
   app_error + requirement \<times> requirement_db" where
  "update_requirement env project_id requirement_id data actor_id db =
     ebind (get_requirement project_id requirement_id db) (\<lambda>r.
     ebind (raise_if_version_conflict (ritm_version r) (rup_version data) (requirement_conflict r)) (\<lambda>_.
     ebind (case rup_section_id data of
              Set s \<Rightarrow> ebind (get_section_in_document db (ritm_document_id r) s) (\<lambda>_. Inr ())
            | _ \<Rightarrow> Inr ()) (\<lambda>_.
     let r' = updated_requirement (qe_now env) data actor_id r in
     if rup_requirement_type data = Null \<or> rup_title data = Null \<or> rup_priority data = Null \<or> rup_status data = Null \<or>
        requirement_violation r' db then Inl code_duplicate
     else
       (let db1 = assigned_requirement project_id actor_id (ritm_owner_id r) r' (db\<lparr>rq_items := tput ritm_id r' (rq_items db)\<rparr>);
            db2 = revision_create (qe_now env) r r' actor_id (rup_change_summary data) (rup_reason data) db1
        in Inr (r', log_update (qe_now env) (Some (ritm_document_id r')) ''requirement_item'' (ritm_id r') (revision_snapshot r)
             (revision_snapshot r') (requirement_updated_fields data) (rup_reason data) actor_id db2)))))"

definition delete_requirement ::
  "requirement_env \<Rightarrow> int \<Rightarrow> int \<Rightarrow> int option \<Rightarrow> requirement_db \<Rightarrow> app_error + requirement_db" where
  "delete_requirement env project_id requirement_id actor_id db =
     ebind (get_requirement project_id requirement_id db) (\<lambda>r.
     let r' = r\<lparr>ritm_deleted_at := Some (qe_now env), ritm_updated_by := (if actor_id \<noteq> None then actor_id else ritm_updated_by r),
                ritm_updated_at := qe_now env\<rparr>
     in Inr (log_create (qe_now env) (Some (ritm_document_id r)) ''requirement_item'' (ritm_id r) ''deleted'' None
               (Some (revision_snapshot r)) None None actor_id (db\<lparr>rq_items := tput ritm_id r' (rq_items db)\<rparr>)))"

definition revisions_of :: "requirement_db \<Rightarrow> int \<Rightarrow> requirement_revision list" where
  "revisions_of db requirement_id =
     sort_key rrev_id (filter (\<lambda>v. rrev_requirement_id v = requirement_id) (rq_revisions db))"

definition list_revisions :: "int \<Rightarrow> int \<Rightarrow> requirement_db \<Rightarrow> app_error + requirement_revision list" where
  "list_revisions project_id requirement_id db =
     ebind (get_requirement project_id requirement_id db) (\<lambda>r. Inr (revisions_of db (ritm_id r)))"

subsection \<open>Open issues\<close>

definition new_issue :: "time \<Rightarrow> int \<Rightarrow> string \<Rightarrow> issue_create \<Rightarrow> int option \<Rightarrow> open_issue" where
  "new_issue now identity code data actor_id =
     \<lparr>riss_id = identity, riss_document_id = icr_document_id data, riss_related_requirement_id = icr_related_requirement_id data,
      riss_issue_code = code, riss_title = icr_title data, riss_description = icr_description data,
      riss_impact_scope = icr_impact_scope data, riss_assignee_id = icr_assignee_id data, riss_due_date = icr_due_date data,
      riss_status = icr_status data, riss_resolution = icr_resolution data, riss_version = 1, riss_created_by = actor_id,
      riss_updated_by = actor_id, riss_created_at = now, riss_updated_at = now, riss_deleted_at = None\<rparr>"

definition issue_violation :: "open_issue \<Rightarrow> requirement_db \<Rightarrow> bool" where
  "issue_violation i db \<longleftrightarrow>
     list_ex (\<lambda>x. riss_id x \<noteq> riss_id i \<and> riss_document_id x = riss_document_id i \<and> riss_issue_code x = riss_issue_code i)
       (rq_issues db) \<or>
     \<not> user_exists db (riss_assignee_id i)"

definition issue_snapshot :: "open_issue \<Rightarrow> pydict" where
  "issue_snapshot i =
     [(''related_requirement_id'', py_opt_int (riss_related_requirement_id i)), (''issue_code'', PStr (riss_issue_code i)),
      (''title'', PStr (riss_title i)), (''description'', py_opt_str (riss_description i)),
      (''impact_scope'', py_opt_str (riss_impact_scope i)), (''assignee_id'', py_opt_int (riss_assignee_id i)),
      (''due_date'', py_opt_int (riss_due_date i)), (''status'', PStr (riss_status i)),
      (''resolution'', py_opt_str (riss_resolution i)), (''id'', PInt (riss_id i)), (''document_id'', PInt (riss_document_id i)),
      (''version'', PInt (riss_version i)), (''created_by'', py_opt_int (riss_created_by i)),
      (''updated_by'', py_opt_int (riss_updated_by i)), (''created_at'', PInt (riss_created_at i)),
      (''updated_at'', PInt (riss_updated_at i))]"

definition issue_conflict :: "open_issue \<Rightarrow> pydict" where
  "issue_conflict i = build_conflict_current (dget (issue_snapshot i)) (map fst (issue_snapshot i)) None"

definition issue_duplicate :: app_error where
  "issue_duplicate = duplicate ''REQUIREMENT_OPEN_ISSUE_CODE_ALREADY_EXISTS''"

definition issue_codes :: "requirement_db \<Rightarrow> int \<Rightarrow> string list" where
  "issue_codes db document_id = map riss_issue_code (filter (\<lambda>i. riss_document_id i = document_id) (rq_issues db))"

definition generate_issue_code :: "requirement_db \<Rightarrow> int \<Rightarrow> app_error + string" where
  "generate_issue_code db document_id = next_code ''ISSUE-'' (issue_codes db document_id)"

fun insert_issue ::
  "requirement_env \<Rightarrow> string option \<Rightarrow> issue_create \<Rightarrow> int option \<Rightarrow> nat \<Rightarrow> nat \<Rightarrow> requirement_db \<Rightarrow>
   app_error + open_issue \<times> requirement_db" where
  "insert_issue env requested data actor_id attempt 0 db = Inl issue_duplicate"
| "insert_issue env requested data actor_id attempt (Suc left) db =
     ebind (case requested of Some c \<Rightarrow> Inr c | None \<Rightarrow> generate_issue_code db (icr_document_id data)) (\<lambda>code.
     let db1 = qe_others env attempt db;
         i = new_issue (qe_now env) (rq_seq db1 + 1) code data actor_id
     in if issue_violation i db1
        then if requested \<noteq> None then Inl issue_duplicate
             else insert_issue env requested data actor_id (attempt + 1) left db1
        else Inr (i, db1\<lparr>rq_seq := rq_seq db1 + 1, rq_issues := rq_issues db1 @ [i]\<rparr>))"

definition get_requirement_in_document :: "requirement_db \<Rightarrow> int \<Rightarrow> int \<Rightarrow> app_error + requirement" where
  "get_requirement_in_document db document_id requirement_id =
     (case requirement_get_by_id db requirement_id of
        None \<Rightarrow> Inl (not_found ''REQUIREMENT_NOT_FOUND'')
      | Some r \<Rightarrow> if ritm_document_id r \<noteq> document_id then Inl (not_found ''REQUIREMENT_NOT_FOUND'') else Inr r)"

definition assigned_issue :: "int \<Rightarrow> int option \<Rightarrow> int option \<Rightarrow> open_issue \<Rightarrow> requirement_db \<Rightarrow> requirement_db" where
  "assigned_issue project_id actor_id previous i db =
     requirement_assignment_changed project_id actor_id ''open_issue'' (riss_id i) (riss_version i) previous
       (riss_assignee_id i) (riss_title i) (riss_document_id i) db"

definition create_open_issue ::
  "requirement_env \<Rightarrow> int \<Rightarrow> issue_create \<Rightarrow> int option \<Rightarrow> requirement_db \<Rightarrow> app_error + open_issue \<times> requirement_db" where
  "create_open_issue env project_id data actor_id db =
     ebind (get_document_in_project db project_id (icr_document_id data)) (\<lambda>_.
     ebind (case icr_related_requirement_id data of None \<Rightarrow> Inr ()
            | Some r \<Rightarrow> ebind (get_requirement_in_document db (icr_document_id data) r) (\<lambda>_. Inr ())) (\<lambda>_.
     let requested = stripped_code (icr_issue_code data) in
     ebind (raise_if (case requested of None \<Rightarrow> False
               | Some c \<Rightarrow> get_by_document_issue_code db (icr_document_id data) c \<noteq> None) issue_duplicate) (\<lambda>_.
     ebind (insert_issue env requested data actor_id 0 (if requested \<noteq> None then 1 else 5) db) (\<lambda>(i, db').
     Inr (i, log_create (qe_now env) (Some (riss_document_id i)) ''open_issue'' (riss_id i) ''created'' None None
               (Some (issue_snapshot i)) None actor_id (assigned_issue project_id actor_id None i db'))))))"

definition get_open_issue :: "int \<Rightarrow> int \<Rightarrow> requirement_db \<Rightarrow> app_error + open_issue" where
  "get_open_issue project_id issue_id db =
     ebind (some_or (not_found ''REQUIREMENT_OPEN_ISSUE_NOT_FOUND'') (issue_get_by_id db issue_id)) (\<lambda>i.
     ebind (get_document_in_project db project_id (riss_document_id i)) (\<lambda>_. Inr i))"

definition updated_issue :: "time \<Rightarrow> issue_update \<Rightarrow> int option \<Rightarrow> open_issue \<Rightarrow> open_issue" where
  "updated_issue now data actor_id i =
     i\<lparr>riss_related_requirement_id := set_nullable (iup_related_requirement_id data) (riss_related_requirement_id i),
       riss_title := set_required (iup_title data) (riss_title i),
       riss_description := set_nullable (iup_description data) (riss_description i),
       riss_impact_scope := set_nullable (iup_impact_scope data) (riss_impact_scope i),
       riss_assignee_id := set_nullable (iup_assignee_id data) (riss_assignee_id i),
       riss_due_date := set_nullable (iup_due_date data) (riss_due_date i),
       riss_status := set_required (iup_status data) (riss_status i),
       riss_resolution := set_nullable (iup_resolution data) (riss_resolution i),
       riss_updated_by := (if actor_id \<noteq> None then actor_id else riss_updated_by i),
       riss_version := riss_version i + 1, riss_updated_at := now\<rparr>"

definition issue_updated_fields :: "issue_update \<Rightarrow> string list" where
  "issue_updated_fields data = map fst (filter snd
     [(''related_requirement_id'', is_set (iup_related_requirement_id data)), (''title'', is_set (iup_title data)),
      (''description'', is_set (iup_description data)), (''impact_scope'', is_set (iup_impact_scope data)),
      (''assignee_id'', is_set (iup_assignee_id data)), (''due_date'', is_set (iup_due_date data)),
      (''status'', is_set (iup_status data)), (''resolution'', is_set (iup_resolution data))])"

definition update_open_issue ::
  "requirement_env \<Rightarrow> int \<Rightarrow> int \<Rightarrow> issue_update \<Rightarrow> int option \<Rightarrow> requirement_db \<Rightarrow> app_error + open_issue \<times> requirement_db" where
  "update_open_issue env project_id issue_id data actor_id db =
     ebind (get_open_issue project_id issue_id db) (\<lambda>i.
     ebind (raise_if_version_conflict (riss_version i) (iup_version data) (issue_conflict i)) (\<lambda>_.
     ebind (case iup_related_requirement_id data of
              Set r \<Rightarrow> ebind (get_requirement_in_document db (riss_document_id i) r) (\<lambda>_. Inr ())
            | _ \<Rightarrow> Inr ()) (\<lambda>_.
     let i' = updated_issue (qe_now env) data actor_id i in
     if iup_title data = Null \<or> iup_status data = Null \<or> issue_violation i' db then Inl issue_duplicate
     else
       (let db1 = assigned_issue project_id actor_id (riss_assignee_id i) i' (db\<lparr>rq_issues := tput riss_id i' (rq_issues db)\<rparr>)
        in Inr (i', log_update (qe_now env) (Some (riss_document_id i')) ''open_issue'' (riss_id i') (issue_snapshot i)
             (issue_snapshot i') (issue_updated_fields data) (iup_reason data) actor_id db1)))))"

definition delete_open_issue ::
  "requirement_env \<Rightarrow> int \<Rightarrow> int \<Rightarrow> int option \<Rightarrow> requirement_db \<Rightarrow> app_error + requirement_db" where
  "delete_open_issue env project_id issue_id actor_id db =
     ebind (get_open_issue project_id issue_id db) (\<lambda>i.
     let i' = i\<lparr>riss_deleted_at := Some (qe_now env), riss_updated_by := (if actor_id \<noteq> None then actor_id else riss_updated_by i),
                riss_updated_at := qe_now env\<rparr>
     in Inr (log_create (qe_now env) (Some (riss_document_id i)) ''open_issue'' (riss_id i) ''deleted'' None
               (Some (issue_snapshot i)) None None actor_id (db\<lparr>rq_issues := tput riss_id i' (rq_issues db)\<rparr>)))"

text \<open>\<open>a or b\<close> of an optional text and of an optional id.\<close>

definition or_text :: "string option \<Rightarrow> string option \<Rightarrow> string option" where
  "or_text a b = (if a = None \<or> a = Some [] then b else a)"

definition or_id :: "int option \<Rightarrow> int option \<Rightarrow> int option" where
  "or_id a b = (if a = None \<or> a = Some 0 then b else a)"

definition promoted_input :: "issue_promote \<Rightarrow> open_issue \<Rightarrow> requirement_create" where
  "promoted_input data i =
     \<lparr>rcr_document_id = riss_document_id i, rcr_section_id = ipr_section_id data, rcr_requirement_code = None,
      rcr_requirement_type = ipr_requirement_type data, rcr_category = ipr_category data,
      rcr_title = (case or_text (ipr_title data) None of None \<Rightarrow> riss_title i | Some t \<Rightarrow> t),
      rcr_description = or_text (ipr_description data) (riss_description i), rcr_rationale = ipr_rationale data,
      rcr_acceptance_criteria = ipr_acceptance_criteria data, rcr_priority = ipr_priority data, rcr_status = ipr_status data,
      rcr_source = or_text (ipr_source data) (Some (riss_issue_code i)),
      rcr_owner_id = or_id (ipr_owner_id data) (riss_assignee_id i), rcr_approved_by = None, rcr_approved_at = None\<rparr>"

text \<open>
  The loop over the automatic codes, with \<open>i\<close> the issue as it is in memory: a failed insert is rolled back, and
  the issue is read again before the next attempt.
\<close>

fun insert_promoted ::
  "requirement_env \<Rightarrow> issue_promote \<Rightarrow> int option \<Rightarrow> nat \<Rightarrow> nat \<Rightarrow> open_issue \<Rightarrow> requirement_db \<Rightarrow>
   app_error + requirement \<times> open_issue \<times> requirement_db" where
  "insert_promoted env data actor_id attempt 0 i db = Inl code_duplicate"
| "insert_promoted env data actor_id attempt (Suc left) i db =
     ebind (generate_requirement_code db (riss_document_id i)) (\<lambda>code.
     let db1 = qe_others env attempt db;
         r = new_requirement (qe_now env) (rq_seq db1 + 1) code (promoted_input data i) actor_id
     in if requirement_violation r db1
        then if left = 0 then Inl code_duplicate
             else ebind (some_or (raise_msg AppError ''ObjectDeletedError'') (tget riss_id (riss_id i) (rq_issues db1)))
                    (\<lambda>i'. insert_promoted env data actor_id (attempt + 1) left i' db1)
        else Inr (r, i, db1\<lparr>rq_seq := rq_seq db1 + 1, rq_items := rq_items db1 @ [r]\<rparr>))"

text \<open>
  What the update of the issue writes: the columns that differ from the issue in memory \<open>i\<close>, into the row as it
  is by now. The issue is not locked, so other columns keep what others wrote meanwhile, and the version is
  that of \<open>i\<close> and one.
\<close>

definition write_changed :: "'a \<Rightarrow> 'a \<Rightarrow> 'a \<Rightarrow> 'a" where
  "write_changed old new current = (if new = old then current else new)"

definition mark_promoted :: "time \<Rightarrow> int \<Rightarrow> string option \<Rightarrow> int option \<Rightarrow> open_issue \<Rightarrow> open_issue \<Rightarrow> open_issue" where
  "mark_promoted now requirement_id resolution actor_id i row =
     row\<lparr>riss_related_requirement_id := write_changed (riss_related_requirement_id i) (Some requirement_id)
           (riss_related_requirement_id row),
         riss_status := write_changed (riss_status i) ''resolved'' (riss_status row),
         riss_resolution := write_changed (riss_resolution i) (if resolution \<noteq> None then resolution else riss_resolution i)
           (riss_resolution row),
         riss_updated_by := write_changed (riss_updated_by i) (if actor_id \<noteq> None then actor_id else riss_updated_by i)
           (riss_updated_by row),
         riss_version := riss_version i + 1, riss_updated_at := now\<rparr>"

definition promote_to_requirement ::
  "requirement_env \<Rightarrow> int \<Rightarrow> int \<Rightarrow> issue_promote \<Rightarrow> int option \<Rightarrow> requirement_db \<Rightarrow> app_error + requirement \<times> requirement_db" where
  "promote_to_requirement env project_id issue_id data actor_id db =
     ebind (get_open_issue project_id issue_id db) (\<lambda>i.
     ebind (raise_if_version_conflict (riss_version i) (ipr_version data) (issue_conflict i)) (\<lambda>_.
     ebind (case ipr_section_id data of None \<Rightarrow> Inr ()
            | Some s \<Rightarrow> ebind (get_section_in_document db (riss_document_id i) s) (\<lambda>_. Inr ())) (\<lambda>_.
     ebind (insert_promoted env data actor_id 0 5 i db) (\<lambda>(r, i, db1).
     let db2 = assigned_requirement project_id actor_id None r db1 in
     ebind (some_or (raise_msg AppError ''StaleDataError'') (tget riss_id (riss_id i) (rq_issues db2))) (\<lambda>row.
     let i' = mark_promoted (qe_now env) (ritm_id r) (ipr_resolution data) actor_id i row;
         db3 = db2\<lparr>rq_issues := tput riss_id i' (rq_issues db2)\<rparr>
     in Inr (r, log_create (qe_now env) (Some (riss_document_id i')) ''open_issue'' (riss_id i') ''promoted_to_requirement'' None
               (Some (issue_snapshot i))
               (Some [(''issue'', PDict (issue_snapshot i')), (''requirement_id'', PInt (ritm_id r)),
                      (''requirement_code'', PStr (ritm_requirement_code r))]) (ipr_reason data) actor_id db3))))))"

end
