(* ===== verification/Requirement_Children.thy ===== *)
theory Requirement_Children imports Requirement_Docs Requirement_Items begin

text \<open>
  What hangs on a requirement: details, links, relations and reviews, which are deleted for good
  (\<^verbatim>\<open>app/services/requirement_detail.py\<close>, \<^verbatim>\<open>requirement_link.py\<close>, \<^verbatim>\<open>requirement_relation.py\<close>,
  \<^verbatim>\<open>requirement_review.py\<close> over \<^verbatim>\<open>app/repositories/requirement_child.py\<close>), and the old approvals of
  \<^verbatim>\<open>app/services/requirement_approval.py\<close>. Every change leaves a history entry of the requirement's document.
\<close>

subsection \<open>Integers in texts\<close>

text \<open>
  Python's \<open>int(text)\<close>: blanks around, a sign, digits with single underscores between them, at most 4300
  digits. \<open>None\<close> is the \<open>ValueError\<close>.
\<close>

fun underscored_digits :: "bool \<Rightarrow> string \<Rightarrow> string option" where
  "underscored_digits after [] = (if after then Some [] else None)"
| "underscored_digits after (c # s) =
     (if is_digit c then map_option ((#) c) (underscored_digits True s)
      else if c = CHR ''_'' \<and> after then underscored_digits False s else None)"

definition int_digits_limit :: nat where
  "int_digits_limit = 4300"

definition py_int_parse :: "string \<Rightarrow> int option" where
  "py_int_parse text =
     (let s = py_strip text;
          negative = s \<noteq> [] \<and> hd s = CHR ''-'';
          body = (if s \<noteq> [] \<and> hd s \<in> {CHR ''-'', CHR ''+''} then tl s else s)
      in case underscored_digits False body of
           None \<Rightarrow> None
         | Some ds \<Rightarrow> if length ds > int_digits_limit then None
                     else Some (if negative then - digits_value ds else digits_value ds))"

text \<open>\<open>str.isdigit()\<close> also holds of the superscripts two, three and one.\<close>

definition is_digit_char :: "char \<Rightarrow> bool" where
  "is_digit_char c \<longleftrightarrow> is_digit c \<or> (of_char c :: nat) \<in> {178, 179, 185}"

definition py_isdigit :: "string \<Rightarrow> bool" where
  "py_isdigit s \<longleftrightarrow> s \<noteq> [] \<and> list_all is_digit_char s"

subsection \<open>Details\<close>

definition detail_get_by_id :: "requirement_db \<Rightarrow> int \<Rightarrow> requirement_detail option" where
  "detail_get_by_id db k = tget rdet_id k (rq_details db)"

definition detail_snapshot :: "requirement_detail \<Rightarrow> pydict" where
  "detail_snapshot d =
     [(''id'', PInt (rdet_id d)), (''requirement_id'', PInt (rdet_requirement_id d)),
      (''detail_type'', PStr (rdet_detail_type d)), (''detail_json'', PDict (rdet_detail_json d))]"

definition record_child_change ::
  "requirement_env \<Rightarrow> requirement \<Rightarrow> string \<Rightarrow> int \<Rightarrow> string \<Rightarrow> pydict option \<Rightarrow> pydict option \<Rightarrow> int option \<Rightarrow>
   requirement_db \<Rightarrow> requirement_db" where
  "record_child_change env r target_type target_id action old_value new_value changed_by db =
     log_create (qe_now env) (Some (ritm_document_id r)) target_type target_id action None old_value new_value None
       changed_by db"

definition create_detail ::
  "requirement_env \<Rightarrow> int \<Rightarrow> int \<Rightarrow> string \<Rightarrow> pydict \<Rightarrow> int option \<Rightarrow> requirement_db \<Rightarrow>
   app_error + requirement_detail \<times> requirement_db" where
  "create_detail env project_id requirement_id detail_type detail_json actor_id db =
     ebind (get_requirement project_id requirement_id db) (\<lambda>r.
     let d = \<lparr>rdet_id = rq_seq db + 1, rdet_requirement_id = requirement_id, rdet_detail_type = detail_type,
              rdet_detail_json = detail_json, rdet_created_at = qe_now env, rdet_updated_at = qe_now env\<rparr>
     in Inr (d, record_child_change env r ''detail'' (rdet_id d) ''created'' None (Some (detail_snapshot d)) actor_id
                  (db\<lparr>rq_seq := rq_seq db + 1, rq_details := rq_details db @ [d]\<rparr>)))"

definition get_detail_in_requirement ::
  "int \<Rightarrow> int \<Rightarrow> int \<Rightarrow> requirement_db \<Rightarrow> app_error + requirement \<times> requirement_detail" where
  "get_detail_in_requirement project_id requirement_id detail_id db =
     ebind (get_requirement project_id requirement_id db) (\<lambda>r.
     case detail_get_by_id db detail_id of
       None \<Rightarrow> Inl (not_found ''REQUIREMENT_DETAIL_NOT_FOUND'')
     | Some d \<Rightarrow> if rdet_requirement_id d \<noteq> requirement_id then Inl (not_found ''REQUIREMENT_DETAIL_NOT_FOUND'')
                 else Inr (r, d))"

definition updated_detail :: "time \<Rightarrow> string option \<Rightarrow> pydict option \<Rightarrow> requirement_detail \<Rightarrow> requirement_detail" where
  "updated_detail now detail_type detail_json d =
     (let d' = d\<lparr>rdet_detail_type := (case detail_type of None \<Rightarrow> rdet_detail_type d | Some t \<Rightarrow> t),
                 rdet_detail_json := (case detail_json of None \<Rightarrow> rdet_detail_json d | Some j \<Rightarrow> j)\<rparr>
      in if d' = d then d else d'\<lparr>rdet_updated_at := now\<rparr>)"

definition update_detail ::
  "requirement_env \<Rightarrow> int \<Rightarrow> int \<Rightarrow> int \<Rightarrow> string option \<Rightarrow> pydict option \<Rightarrow> int option \<Rightarrow> requirement_db \<Rightarrow>
   app_error + requirement_detail \<times> requirement_db" where
  "update_detail env project_id requirement_id detail_id detail_type detail_json actor_id db =
     ebind (get_detail_in_requirement project_id requirement_id detail_id db) (\<lambda>(r, d).
     let d' = updated_detail (qe_now env) detail_type detail_json d
     in Inr (d', record_child_change env r ''detail'' (rdet_id d') ''updated'' (Some (detail_snapshot d))
                   (Some (detail_snapshot d')) actor_id (db\<lparr>rq_details := tput rdet_id d' (rq_details db)\<rparr>)))"

definition delete_detail ::
  "requirement_env \<Rightarrow> int \<Rightarrow> int \<Rightarrow> int \<Rightarrow> int option \<Rightarrow> requirement_db \<Rightarrow> app_error + requirement_db" where
  "delete_detail env project_id requirement_id detail_id actor_id db =
     ebind (get_detail_in_requirement project_id requirement_id detail_id db) (\<lambda>(r, d).
     Inr (record_child_change env r ''detail'' detail_id ''deleted'' (Some (detail_snapshot d)) None actor_id
            (db\<lparr>rq_details := tdel rdet_id detail_id (rq_details db)\<rparr>)))"

definition list_details :: "int \<Rightarrow> int \<Rightarrow> requirement_db \<Rightarrow> app_error + requirement_detail list" where
  "list_details project_id requirement_id db =
     ebind (get_requirement project_id requirement_id db) (\<lambda>_.
     Inr (sort_key rdet_id (filter (\<lambda>d. rdet_requirement_id d = requirement_id) (rq_details db))))"

subsection \<open>Links\<close>

record link_input =
  lin_linked_type :: string
  lin_linked_id :: string
  lin_linked_url :: "string option"
  lin_status :: string

record link_update =
  lup_linked_type :: "string option"
  lup_linked_id :: "string option"
  lup_linked_url :: "string patch"
  lup_status :: "string option"

definition link_get_by_id :: "requirement_db \<Rightarrow> int \<Rightarrow> requirement_link option" where
  "link_get_by_id db k = tget rlnk_id k (rq_links db)"

definition link_snapshot :: "requirement_link \<Rightarrow> pydict" where
  "link_snapshot l =
     [(''id'', PInt (rlnk_id l)), (''requirement_id'', PInt (rlnk_requirement_id l)),
      (''linked_type'', PStr (rlnk_linked_type l)), (''linked_id'', PStr (rlnk_linked_id l)),
      (''linked_url'', py_opt_str (rlnk_linked_url l)), (''status'', PStr (rlnk_status l))]"

definition create_link ::
  "requirement_env \<Rightarrow> int \<Rightarrow> int \<Rightarrow> link_input \<Rightarrow> int option \<Rightarrow> requirement_db \<Rightarrow>
   app_error + requirement_link \<times> requirement_db" where
  "create_link env project_id requirement_id data actor_id db =
     ebind (get_requirement project_id requirement_id db) (\<lambda>r.
     let l = \<lparr>rlnk_id = rq_seq db + 1, rlnk_requirement_id = requirement_id, rlnk_linked_type = lin_linked_type data,
              rlnk_linked_id = lin_linked_id data, rlnk_linked_url = lin_linked_url data, rlnk_status = lin_status data,
              rlnk_created_at = qe_now env\<rparr>
     in Inr (l, record_child_change env r ''link'' (rlnk_id l) ''created'' None (Some (link_snapshot l)) actor_id
                  (db\<lparr>rq_seq := rq_seq db + 1, rq_links := rq_links db @ [l]\<rparr>)))"

definition get_link_in_requirement ::
  "int \<Rightarrow> int \<Rightarrow> int \<Rightarrow> requirement_db \<Rightarrow> app_error + requirement \<times> requirement_link" where
  "get_link_in_requirement project_id requirement_id link_id db =
     ebind (get_requirement project_id requirement_id db) (\<lambda>r.
     case link_get_by_id db link_id of
       None \<Rightarrow> Inl (not_found ''REQUIREMENT_LINK_NOT_FOUND'')
     | Some l \<Rightarrow> if rlnk_requirement_id l \<noteq> requirement_id then Inl (not_found ''REQUIREMENT_LINK_NOT_FOUND'')
                 else Inr (r, l))"

definition updated_link :: "link_update \<Rightarrow> requirement_link \<Rightarrow> requirement_link" where
  "updated_link data l =
     l\<lparr>rlnk_linked_type := (case lup_linked_type data of None \<Rightarrow> rlnk_linked_type l | Some t \<Rightarrow> t),
       rlnk_linked_id := (case lup_linked_id data of None \<Rightarrow> rlnk_linked_id l | Some i \<Rightarrow> i),
       rlnk_linked_url := set_nullable (lup_linked_url data) (rlnk_linked_url l),
       rlnk_status := (case lup_status data of None \<Rightarrow> rlnk_status l | Some s \<Rightarrow> s)\<rparr>"

definition update_link ::
  "requirement_env \<Rightarrow> int \<Rightarrow> int \<Rightarrow> int \<Rightarrow> link_update \<Rightarrow> int option \<Rightarrow> requirement_db \<Rightarrow>
   app_error + requirement_link \<times> requirement_db" where
  "update_link env project_id requirement_id link_id data actor_id db =
     ebind (get_link_in_requirement project_id requirement_id link_id db) (\<lambda>(r, l).
     let l' = updated_link data l
     in Inr (l', record_child_change env r ''link'' (rlnk_id l') ''updated'' (Some (link_snapshot l))
                   (Some (link_snapshot l')) actor_id (db\<lparr>rq_links := tput rlnk_id l' (rq_links db)\<rparr>)))"

definition delete_link ::
  "requirement_env \<Rightarrow> int \<Rightarrow> int \<Rightarrow> int \<Rightarrow> int option \<Rightarrow> requirement_db \<Rightarrow> app_error + requirement_db" where
  "delete_link env project_id requirement_id link_id actor_id db =
     ebind (get_link_in_requirement project_id requirement_id link_id db) (\<lambda>(r, l).
     Inr (record_child_change env r ''link'' link_id ''deleted'' (Some (link_snapshot l)) None actor_id
            (db\<lparr>rq_links := tdel rlnk_id link_id (rq_links db)\<rparr>)))"

definition list_links :: "int \<Rightarrow> int \<Rightarrow> requirement_db \<Rightarrow> app_error + requirement_link list" where
  "list_links project_id requirement_id db =
     ebind (get_requirement project_id requirement_id db) (\<lambda>_.
     Inr (sort_key rlnk_id (filter (\<lambda>l. rlnk_requirement_id l = requirement_id) (rq_links db))))"

subsection \<open>Relations\<close>

record requirement_relation_create =
  rlc_target_type :: string
  rlc_target_id :: string
  rlc_relation_type :: string
  rlc_description :: "string option"

definition relation_get_by_id :: "requirement_db \<Rightarrow> int \<Rightarrow> requirement_relation option" where
  "relation_get_by_id db k = tget rrel_id k (rq_relations db)"

definition relation_snapshot :: "requirement_relation \<Rightarrow> pydict" where
  "relation_snapshot l =
     [(''id'', PInt (rrel_id l)), (''document_id'', PInt (rrel_document_id l)),
      (''source_requirement_id'', PInt (rrel_source_requirement_id l)), (''target_type'', PStr (rrel_target_type l)),
      (''target_id'', PStr (rrel_target_id l)), (''relation_type'', PStr (rrel_relation_type l)),
      (''description'', py_opt_str (rrel_description l)), (''created_by'', py_opt_int (rrel_created_by l))]"

text \<open>The document a target of one of the four kinds is in; deleted rows are targets too.\<close>

definition target_models :: "string list" where
  "target_models = [''requirement_item'', ''section'', ''open_issue'', ''document'']"

definition relation_target_document :: "requirement_db \<Rightarrow> string \<Rightarrow> int \<Rightarrow> int option" where
  "relation_target_document db target_type target_id =
     (if target_type = ''requirement_item'' then map_option ritm_document_id (tget ritm_id target_id (rq_items db))
      else if target_type = ''section'' then map_option rsec_document_id (tget rsec_id target_id (rq_sections db))
      else if target_type = ''open_issue'' then map_option riss_document_id (tget riss_id target_id (rq_issues db))
      else map_option rdoc_id (tget rdoc_id target_id (rq_documents db)))"

definition check_relation_target :: "int \<Rightarrow> requirement_relation_create \<Rightarrow> requirement_db \<Rightarrow> app_error + unit" where
  "check_relation_target project_id data db =
     (if rlc_target_type data \<notin> set target_models then Inr ()
      else ebind (some_or (not_found ''REQUIREMENT_RELATION_NOT_FOUND'') (py_int_parse (rlc_target_id data))) (\<lambda>target_id.
           raise_if (case relation_target_document db (rlc_target_type data) target_id of
                       None \<Rightarrow> True
                     | Some document_id \<Rightarrow>
                         \<not> list_ex (\<lambda>d. rdoc_id d = document_id \<and> rdoc_project_id d = project_id) (rq_documents db))
             (not_found ''REQUIREMENT_RELATION_NOT_FOUND'')))"

definition create_relation ::
  "requirement_env \<Rightarrow> int \<Rightarrow> int \<Rightarrow> requirement_relation_create \<Rightarrow> int option \<Rightarrow> requirement_db \<Rightarrow>
   app_error + requirement_relation \<times> requirement_db" where
  "create_relation env project_id requirement_id data actor_id db =
     ebind (get_requirement project_id requirement_id db) (\<lambda>r.
     ebind (check_relation_target project_id data db) (\<lambda>_.
     let l = \<lparr>rrel_id = rq_seq db + 1, rrel_document_id = ritm_document_id r, rrel_source_requirement_id = ritm_id r,
              rrel_target_type = rlc_target_type data, rrel_target_id = rlc_target_id data,
              rrel_relation_type = rlc_relation_type data, rrel_description = rlc_description data,
              rrel_created_by = actor_id, rrel_created_at = qe_now env\<rparr>
     in Inr (l, record_child_change env r ''relation'' (rrel_id l) ''created'' None (Some (relation_snapshot l)) actor_id
                  (db\<lparr>rq_seq := rq_seq db + 1, rq_relations := rq_relations db @ [l]\<rparr>))))"

definition get_relation_in_requirement ::
  "int \<Rightarrow> int \<Rightarrow> int \<Rightarrow> requirement_db \<Rightarrow> app_error + requirement \<times> requirement_relation" where
  "get_relation_in_requirement project_id requirement_id relation_id db =
     ebind (get_requirement project_id requirement_id db) (\<lambda>r.
     case relation_get_by_id db relation_id of
       None \<Rightarrow> Inl (not_found ''REQUIREMENT_RELATION_NOT_FOUND'')
     | Some l \<Rightarrow> if rrel_source_requirement_id l \<noteq> requirement_id then Inl (not_found ''REQUIREMENT_RELATION_NOT_FOUND'')
                 else Inr (r, l))"

definition delete_relation ::
  "requirement_env \<Rightarrow> int \<Rightarrow> int \<Rightarrow> int \<Rightarrow> int option \<Rightarrow> requirement_db \<Rightarrow> app_error + requirement_db" where
  "delete_relation env project_id requirement_id relation_id actor_id db =
     ebind (get_relation_in_requirement project_id requirement_id relation_id db) (\<lambda>(r, l).
     Inr (record_child_change env r ''relation'' relation_id ''deleted'' (Some (relation_snapshot l)) None actor_id
            (db\<lparr>rq_relations := tdel rrel_id relation_id (rq_relations db)\<rparr>)))"

definition list_relations :: "int \<Rightarrow> int \<Rightarrow> requirement_db \<Rightarrow> app_error + requirement_relation list" where
  "list_relations project_id requirement_id db =
     ebind (get_requirement project_id requirement_id db) (\<lambda>_.
     Inr (sort_key rrel_id (filter (\<lambda>l. rrel_source_requirement_id l = requirement_id) (rq_relations db))))"

subsection \<open>Reviews\<close>

record review_create =
  rvc_reviewer_id :: int
  rvc_status :: string
  rvc_comment :: "string option"
  rvc_reviewed_at :: "time option"

record review_update =
  rvu_reviewer_id :: "int patch"
  rvu_status :: "string patch"
  rvu_comment :: "string patch"
  rvu_reviewed_at :: "time patch"

definition review_get_by_id :: "requirement_db \<Rightarrow> int \<Rightarrow> requirement_review option" where
  "review_get_by_id db k = tget rrvw_id k (rq_reviews db)"

definition review_snapshot :: "requirement_review \<Rightarrow> pydict" where
  "review_snapshot v =
     [(''id'', PInt (rrvw_id v)), (''requirement_id'', PInt (rrvw_requirement_id v)),
      (''reviewer_id'', PInt (rrvw_reviewer_id v)), (''status'', PStr (rrvw_status v)),
      (''comment'', py_opt_str (rrvw_comment v)), (''reviewed_at'', py_opt_int (rrvw_reviewed_at v))]"

text \<open>The foreign key of the reviewer and the columns that are never null; the \<open>IntegrityError\<close> is not handled.\<close>

definition create_review ::
  "requirement_env \<Rightarrow> int \<Rightarrow> int \<Rightarrow> review_create \<Rightarrow> int option \<Rightarrow> requirement_db \<Rightarrow>
   app_error + requirement_review \<times> requirement_db" where
  "create_review env project_id requirement_id data actor_id db =
     ebind (get_requirement project_id requirement_id db) (\<lambda>r.
     ebind (raise_if (\<not> user_exists db (Some (rvc_reviewer_id data))) integrity_error) (\<lambda>_.
     let v = \<lparr>rrvw_id = rq_seq db + 1, rrvw_requirement_id = requirement_id, rrvw_reviewer_id = rvc_reviewer_id data,
              rrvw_status = rvc_status data, rrvw_comment = rvc_comment data, rrvw_reviewed_at = rvc_reviewed_at data,
              rrvw_created_at = qe_now env, rrvw_updated_at = qe_now env\<rparr>
     in Inr (v, record_child_change env r ''review'' (rrvw_id v) ''created'' None (Some (review_snapshot v)) actor_id
                  (db\<lparr>rq_seq := rq_seq db + 1, rq_reviews := rq_reviews db @ [v]\<rparr>))))"

definition get_review_in_requirement ::
  "int \<Rightarrow> int \<Rightarrow> int \<Rightarrow> requirement_db \<Rightarrow> app_error + requirement \<times> requirement_review" where
  "get_review_in_requirement project_id requirement_id review_id db =
     ebind (get_requirement project_id requirement_id db) (\<lambda>r.
     case review_get_by_id db review_id of
       None \<Rightarrow> Inl (not_found ''REQUIREMENT_REVIEW_NOT_FOUND'')
     | Some v \<Rightarrow> if rrvw_requirement_id v \<noteq> requirement_id then Inl (not_found ''REQUIREMENT_REVIEW_NOT_FOUND'')
                 else Inr (r, v))"

definition updated_review :: "time \<Rightarrow> review_update \<Rightarrow> requirement_review \<Rightarrow> requirement_review" where
  "updated_review now data v =
     (let v' = v\<lparr>rrvw_reviewer_id := set_required (rvu_reviewer_id data) (rrvw_reviewer_id v),
                 rrvw_status := set_required (rvu_status data) (rrvw_status v),
                 rrvw_comment := set_nullable (rvu_comment data) (rrvw_comment v),
                 rrvw_reviewed_at := set_nullable (rvu_reviewed_at data) (rrvw_reviewed_at v)\<rparr>
      in if v' = v then v else v'\<lparr>rrvw_updated_at := now\<rparr>)"

definition update_review ::
  "requirement_env \<Rightarrow> int \<Rightarrow> int \<Rightarrow> int \<Rightarrow> review_update \<Rightarrow> int option \<Rightarrow> requirement_db \<Rightarrow>
   app_error + requirement_review \<times> requirement_db" where
  "update_review env project_id requirement_id review_id data actor_id db =
     ebind (get_review_in_requirement project_id requirement_id review_id db) (\<lambda>(r, v).
     let v' = updated_review (qe_now env) data v in
     if rvu_reviewer_id data = Null \<or> rvu_status data = Null \<or> \<not> user_exists db (Some (rrvw_reviewer_id v'))
     then Inl integrity_error
     else Inr (v', record_child_change env r ''review'' (rrvw_id v') ''updated'' (Some (review_snapshot v))
                     (Some (review_snapshot v')) actor_id (db\<lparr>rq_reviews := tput rrvw_id v' (rq_reviews db)\<rparr>)))"

definition delete_review ::
  "requirement_env \<Rightarrow> int \<Rightarrow> int \<Rightarrow> int \<Rightarrow> int option \<Rightarrow> requirement_db \<Rightarrow> app_error + requirement_db" where
  "delete_review env project_id requirement_id review_id actor_id db =
     ebind (get_review_in_requirement project_id requirement_id review_id db) (\<lambda>(r, v).
     Inr (record_child_change env r ''review'' review_id ''deleted'' (Some (review_snapshot v)) None actor_id
            (db\<lparr>rq_reviews := tdel rrvw_id review_id (rq_reviews db)\<rparr>)))"

definition list_reviews :: "int \<Rightarrow> int \<Rightarrow> requirement_db \<Rightarrow> app_error + requirement_review list" where
  "list_reviews project_id requirement_id db =
     ebind (get_requirement project_id requirement_id db) (\<lambda>_.
     Inr (sort_key rrvw_id (filter (\<lambda>v. rrvw_requirement_id v = requirement_id) (rq_reviews db))))"

subsection \<open>Old approvals\<close>

record approval_request_create =
  arq_target_type :: string
  arq_target_id :: int
  arq_approver_id :: int
  arq_comment :: "string option"

definition target_not_found :: app_error where
  "target_not_found = not_found ''REQUIREMENT_COMMENT_TARGET_NOT_FOUND''"

definition target_document :: "requirement_db \<Rightarrow> string \<Rightarrow> int \<Rightarrow> app_error + requirement_document option" where
  "target_document db target_type target_id =
     (if target_type = ''document'' then Inr (document_get_by_id db target_id)
      else if target_type = ''section'' then
        Inr (Option.bind (section_get_by_id db target_id) (\<lambda>s. document_get_by_id db (rsec_document_id s)))
      else if target_type = ''requirement_item'' then
        Inr (Option.bind (requirement_get_by_id db target_id) (\<lambda>r. document_get_by_id db (ritm_document_id r)))
      else if target_type = ''open_issue'' then
        Inr (Option.bind (issue_get_by_id db target_id) (\<lambda>i. document_get_by_id db (riss_document_id i)))
      else Inl target_not_found)"

definition get_target_document :: "requirement_db \<Rightarrow> int \<Rightarrow> string \<Rightarrow> int \<Rightarrow> app_error + requirement_document" where
  "get_target_document db project_id target_type target_id =
     ebind (target_document db target_type target_id) (\<lambda>found. case found of
       None \<Rightarrow> Inl target_not_found
     | Some d \<Rightarrow> if rdoc_project_id d \<noteq> project_id then Inl target_not_found else Inr d)"

definition old_approval_snapshot :: "requirement_approval \<Rightarrow> pydict" where
  "old_approval_snapshot a =
     [(''id'', PInt (rapp_id a)), (''document_id'', PInt (rapp_document_id a)), (''target_type'', PStr (rapp_target_type a)),
      (''target_id'', PInt (rapp_target_id a)), (''status'', PStr (rapp_status a)),
      (''approver_id'', PInt (rapp_approver_id a)), (''requested_by'', PInt (rapp_requested_by a)),
      (''approved_at'', py_opt_int (rapp_approved_at a)), (''rejected_at'', py_opt_int (rapp_rejected_at a)),
      (''comment'', py_opt_str (rapp_comment a))]"

definition record_approval_change ::
  "requirement_env \<Rightarrow> requirement_approval \<Rightarrow> string \<Rightarrow> pydict option \<Rightarrow> int option \<Rightarrow> requirement_db \<Rightarrow> requirement_db" where
  "record_approval_change env a action old_value changed_by db =
     log_create (qe_now env) (Some (rapp_document_id a)) (rapp_target_type a) (rapp_target_id a) action None old_value
       (Some (old_approval_snapshot a)) None changed_by db"

definition request_approval ::
  "requirement_env \<Rightarrow> int \<Rightarrow> approval_request_create \<Rightarrow> int \<Rightarrow> requirement_db \<Rightarrow>
   app_error + requirement_approval \<times> requirement_db" where
  "request_approval env project_id data requested_by db =
     ebind (get_target_document db project_id (arq_target_type data) (arq_target_id data)) (\<lambda>d.
     ebind (raise_if (\<not> list_all (\<lambda>u. user_exists db (Some u)) [arq_approver_id data, requested_by]) integrity_error) (\<lambda>_.
     let a = \<lparr>rapp_id = rq_seq db + 1, rapp_document_id = rdoc_id d, rapp_target_type = arq_target_type data,
              rapp_target_id = arq_target_id data, rapp_status = ''requested'', rapp_approver_id = arq_approver_id data,
              rapp_requested_by = requested_by, rapp_requested_at = qe_now env, rapp_approved_at = None,
              rapp_rejected_at = None, rapp_comment = arq_comment data, rapp_created_at = qe_now env,
              rapp_updated_at = qe_now env\<rparr>
     in Inr (a, record_approval_change env a ''approval.requested'' None (Some requested_by)
                  (db\<lparr>rq_seq := rq_seq db + 1, rq_approvals := rq_approvals db @ [a]\<rparr>))))"

definition get_approval_in_project :: "requirement_db \<Rightarrow> int \<Rightarrow> int \<Rightarrow> app_error + requirement_approval" where
  "get_approval_in_project db project_id approval_id =
     ebind (some_or (not_found ''REQUIREMENT_APPROVAL_NOT_FOUND'') (tget rapp_id approval_id (rq_approvals db))) (\<lambda>a.
     case document_get_by_id db (rapp_document_id a) of
       None \<Rightarrow> Inl (not_found ''REQUIREMENT_APPROVAL_NOT_FOUND'')
     | Some d \<Rightarrow> if rdoc_project_id d \<noteq> project_id then Inl (not_found ''REQUIREMENT_APPROVAL_NOT_FOUND'') else Inr a)"

definition raise_if_decided :: "requirement_approval \<Rightarrow> app_error + unit" where
  "raise_if_decided a =
     raise_if (rapp_status a \<noteq> ''requested'') (raise_msg BadRequestError ''REQUIREMENT_APPROVAL_ALREADY_DECIDED'')"

definition mark_approved :: "time \<Rightarrow> string option \<Rightarrow> requirement_approval \<Rightarrow> requirement_approval" where
  "mark_approved now comment a =
     a\<lparr>rapp_status := ''approved'', rapp_approved_at := Some now, rapp_rejected_at := None,
       rapp_comment := (if comment \<noteq> None then comment else rapp_comment a), rapp_updated_at := now\<rparr>"

definition mark_rejected :: "time \<Rightarrow> string option \<Rightarrow> requirement_approval \<Rightarrow> requirement_approval" where
  "mark_rejected now comment a =
     a\<lparr>rapp_status := ''rejected'', rapp_rejected_at := Some now, rapp_approved_at := None,
       rapp_comment := (if comment \<noteq> None then comment else rapp_comment a), rapp_updated_at := now\<rparr>"

text \<open>A trigger refuses the update of an approval that was switched to a fixed one.\<close>

definition write_decision ::
  "requirement_env \<Rightarrow> requirement_approval \<Rightarrow> requirement_approval \<Rightarrow> string \<Rightarrow> int \<Rightarrow> requirement_db \<Rightarrow>
   app_error + requirement_approval \<times> requirement_db" where
  "write_decision env a a' action actor_id db =
     (if qe_switched env (rapp_id a) then Inl (raise_cls FixedApprovalMigratedError)
      else Inr (a', record_approval_change env a' action (Some (old_approval_snapshot a)) (Some actor_id)
             (db\<lparr>rq_approvals := tput rapp_id a' (rq_approvals db)\<rparr>)))"

definition approve_old ::
  "requirement_env \<Rightarrow> int \<Rightarrow> int \<Rightarrow> string option \<Rightarrow> int \<Rightarrow> requirement_db \<Rightarrow>
   app_error + requirement_approval \<times> requirement_db" where
  "approve_old env project_id approval_id comment actor_id db =
     ebind (get_approval_in_project db project_id approval_id) (\<lambda>a.
     ebind (raise_if_decided a) (\<lambda>_.
     write_decision env a (mark_approved (qe_now env) comment a) ''approval.approved'' actor_id db))"

definition reject_old ::
  "requirement_env \<Rightarrow> int \<Rightarrow> int \<Rightarrow> string option \<Rightarrow> int \<Rightarrow> requirement_db \<Rightarrow>
   app_error + requirement_approval \<times> requirement_db" where
  "reject_old env project_id approval_id comment actor_id db =
     ebind (get_approval_in_project db project_id approval_id) (\<lambda>a.
     ebind (raise_if_decided a) (\<lambda>_.
     write_decision env a (mark_rejected (qe_now env) comment a) ''approval.rejected'' actor_id db))"

definition list_approvals_paginated ::
  "int \<Rightarrow> nat \<Rightarrow> nat \<Rightarrow> string option \<Rightarrow> int option \<Rightarrow> string option \<Rightarrow> int option \<Rightarrow> requirement_db \<Rightarrow>
   app_error + requirement_approval list \<times> nat" where
  "list_approvals_paginated project_id page page_size target_type target_id status approver_id db =
     ebind (case (target_type, target_id) of
              (Some t, Some k) \<Rightarrow> ebind (get_target_document db project_id t k) (\<lambda>d. Inr [rdoc_id d])
            | _ \<Rightarrow> Inr (list_ids_by_project db project_id)) (\<lambda>document_ids.
     if document_ids = [] then Inr ([], 0)
     else
       (let found = filter (\<lambda>a. rapp_document_id a \<in> set document_ids \<and>
              (target_type = None \<or> target_type = Some (rapp_target_type a)) \<and>
              (target_id = None \<or> target_id = Some (rapp_target_id a)) \<and>
              (status = None \<or> status = Some (rapp_status a)) \<and>
              (approver_id = None \<or> approver_id = Some (rapp_approver_id a))) (rq_approvals db)
        in Inr (take page_size (drop ((page - 1) * page_size) (rev (sort_key rapp_id found))), length found)))"

end
