(* ===== verification/Requirement_Comments.thy ===== *)
theory Requirement_Comments imports Requirement_Children begin

text \<open>
  Comments: those on any target of a document, with anchors, replies and a resolved flag
  (\<^verbatim>\<open>app/services/requirement_target_comment.py\<close>, \<^verbatim>\<open>app/services/requirement_comment_anchor.py\<close>,
  \<^verbatim>\<open>app/repositories/requirement_target_comment.py\<close>), and the plain ones of a requirement
  (\<^verbatim>\<open>app/services/requirement_comment.py\<close>), with the summary of a requirement
  (\<^verbatim>\<open>app/services/requirement_summary.py\<close>). The author is a user of the database.
\<close>

subsection \<open>Targets\<close>

record comment_target =
  ctg_document_id :: int
  ctg_target_type :: string
  ctg_target_id :: int

definition comment_document_in_project :: "requirement_db \<Rightarrow> int \<Rightarrow> int \<Rightarrow> app_error + requirement_document" where
  "comment_document_in_project db project_id document_id =
     (case document_get_by_id db document_id of
        None \<Rightarrow> Inl target_not_found
      | Some d \<Rightarrow> if rdoc_project_id d \<noteq> project_id then Inl target_not_found else Inr d)"

definition resolve_target :: "requirement_db \<Rightarrow> int \<Rightarrow> string \<Rightarrow> int \<Rightarrow> app_error + comment_target" where
  "resolve_target db project_id target_type target_id =
     ebind
       (if target_type = ''document'' then Inr target_id
        else if target_type = ''section'' then
          some_or target_not_found (map_option rsec_document_id (section_get_by_id db target_id))
        else if target_type = ''requirement_item'' then
          some_or target_not_found (map_option ritm_document_id (requirement_get_by_id db target_id))
        else if target_type = ''open_issue'' then
          some_or target_not_found (map_option riss_document_id (issue_get_by_id db target_id))
        else Inl target_not_found) (\<lambda>document_id.
     ebind (comment_document_in_project db project_id document_id) (\<lambda>_.
     Inr \<lparr>ctg_document_id = document_id, ctg_target_type = target_type, ctg_target_id = target_id\<rparr>))"

subsection \<open>Anchors\<close>

text \<open>
  An optional integer of an anchor. A text of digits is converted by \<open>int\<close>, whose \<open>ValueError\<close> (superscripts,
  or more than 4300 digits) is not handled.
\<close>

definition unhandled_value_error :: app_error where
  "unhandled_value_error = raise_msg AppError ''ValueError''"

definition get_optional_int_anchor_value :: "pydict \<Rightarrow> string \<Rightarrow> app_error + int option" where
  "get_optional_int_anchor_value anchor key =
     (case dget anchor key of
        PNone \<Rightarrow> Inr None
      | PStr s \<Rightarrow> if py_isdigit s then
                   (case py_int_parse s of None \<Rightarrow> Inl unhandled_value_error | Some i \<Rightarrow> Inr (Some i))
                 else Inl target_not_found
      | v \<Rightarrow> (case py_int_of v of Some i \<Rightarrow> Inr (Some i) | None \<Rightarrow> Inl target_not_found))"

definition get_int_anchor_value :: "pydict \<Rightarrow> string \<Rightarrow> app_error + int" where
  "get_int_anchor_value anchor key =
     ebind (get_optional_int_anchor_value anchor key) (\<lambda>v. some_or target_not_found v)"

definition ensure_anchor_target_is_requirement :: "comment_target \<Rightarrow> app_error + unit" where
  "ensure_anchor_target_is_requirement target =
     raise_if (ctg_target_type target \<noteq> ''requirement_item'') target_not_found"

definition validate_detail_anchor :: "requirement_db \<Rightarrow> comment_target \<Rightarrow> pydict \<Rightarrow> app_error + unit" where
  "validate_detail_anchor db target anchor =
     ebind (ensure_anchor_target_is_requirement target) (\<lambda>_.
     ebind (get_int_anchor_value anchor ''detail_id'') (\<lambda>k.
     case detail_get_by_id db k of
       None \<Rightarrow> Inl target_not_found
     | Some d \<Rightarrow> raise_if (rdet_requirement_id d \<noteq> ctg_target_id target) target_not_found))"

definition validate_link_anchor :: "requirement_db \<Rightarrow> comment_target \<Rightarrow> pydict \<Rightarrow> app_error + unit" where
  "validate_link_anchor db target anchor =
     ebind (ensure_anchor_target_is_requirement target) (\<lambda>_.
     ebind (get_int_anchor_value anchor ''link_id'') (\<lambda>k.
     case link_get_by_id db k of
       None \<Rightarrow> Inl target_not_found
     | Some l \<Rightarrow> raise_if (rlnk_requirement_id l \<noteq> ctg_target_id target) target_not_found))"

definition validate_relation_anchor :: "requirement_db \<Rightarrow> comment_target \<Rightarrow> pydict \<Rightarrow> app_error + unit" where
  "validate_relation_anchor db target anchor =
     ebind (ensure_anchor_target_is_requirement target) (\<lambda>_.
     ebind (get_int_anchor_value anchor ''relation_id'') (\<lambda>k.
     case relation_get_by_id db k of
       None \<Rightarrow> Inl target_not_found
     | Some l \<Rightarrow> raise_if (rrel_document_id l \<noteq> ctg_document_id target \<or>
                          rrel_source_requirement_id l \<noteq> ctg_target_id target) target_not_found))"

definition validate_task_anchor :: "requirement_db \<Rightarrow> int \<Rightarrow> comment_target \<Rightarrow> pydict \<Rightarrow> app_error + unit" where
  "validate_task_anchor db project_id target anchor =
     ebind (ensure_anchor_target_is_requirement target) (\<lambda>_.
     ebind (get_optional_int_anchor_value anchor ''relation_id'') (\<lambda>relation_id.
     ebind (get_optional_int_anchor_value anchor ''task_id'') (\<lambda>task_id.
     case (case relation_id of
             Some k \<Rightarrow> find (\<lambda>l. rl_id l = k) (rq_task_relations db)
           | None \<Rightarrow> find (\<lambda>l. rl_requirement_id l = ctg_target_id target \<and> Some (rl_task_id l) = task_id)
                       (rq_task_relations db)) of
       None \<Rightarrow> Inl target_not_found
     | Some l \<Rightarrow>
         ebind (raise_if (rl_requirement_id l \<noteq> ctg_target_id target \<or> (task_id \<noteq> None \<and> Some (rl_task_id l) \<noteq> task_id))
           target_not_found) (\<lambda>_.
         case find (\<lambda>t. tk_id t = rl_task_id l \<and> tk_deleted_at t = None) (rq_tasks db) of
           None \<Rightarrow> Inl target_not_found
         | Some t \<Rightarrow> raise_if (tk_project_id t \<noteq> project_id) target_not_found))))"

definition validate_anchor :: "requirement_db \<Rightarrow> int \<Rightarrow> comment_target \<Rightarrow> pydict option \<Rightarrow> app_error + unit" where
  "validate_anchor db project_id target target_anchor =
     (case target_anchor of
        None \<Rightarrow> Inr ()
      | Some anchor \<Rightarrow>
          if anchor = [] then Inr ()
          else case dget anchor ''kind'' of
            PNone \<Rightarrow> Inr ()
          | PStr kind \<Rightarrow>
              if kind = ''requirement_field'' then ensure_anchor_target_is_requirement target
              else if kind = ''field'' \<and> ctg_target_type target \<in> {''document'', ''section'', ''open_issue''} then Inr ()
              else if kind = ''requirement_detail'' then validate_detail_anchor db target anchor
              else if kind = ''requirement_link'' then validate_link_anchor db target anchor
              else if kind = ''requirement_relation'' then validate_relation_anchor db target anchor
              else if kind = ''requirement_task'' then validate_task_anchor db project_id target anchor
              else Inl target_not_found
          | _ \<Rightarrow> Inl target_not_found)"

subsection \<open>Comments on a target\<close>

record target_comment_create =
  tcc_mentions :: "mention list"
  tcc_target_type :: string
  tcc_target_id :: int
  tcc_target_anchor :: "pydict option"
  tcc_parent_comment_id :: "int option"
  tcc_body :: string

record target_comment_update =
  tcu_mentions :: "mention list"
  tcu_version :: int
  tcu_body :: string
  tcu_reason :: "string option"

definition comment_get_by_id :: "requirement_db \<Rightarrow> int \<Rightarrow> target_comment option" where
  "comment_get_by_id db k = find (\<lambda>c. rtc_id c = k \<and> rtc_deleted_at c = None) (rq_target_comments db)"

definition eligible_users :: "requirement_db \<Rightarrow> int \<Rightarrow> (int \<times> string) list" where
  "eligible_users db project_id = filter (\<lambda>(u, name). (project_id, u) \<in> set (rq_readers db)) (rq_users db)"

definition comment_not_found :: app_error where
  "comment_not_found = not_found ''REQUIREMENT_TARGET_COMMENT_NOT_FOUND''"

definition get_parent_comment_for_target :: "requirement_db \<Rightarrow> int \<Rightarrow> comment_target \<Rightarrow> app_error + target_comment" where
  "get_parent_comment_for_target db parent_id target =
     (case comment_get_by_id db parent_id of
        None \<Rightarrow> Inl comment_not_found
      | Some p \<Rightarrow> if rtc_document_id p \<noteq> ctg_document_id target \<or> rtc_target_type p \<noteq> ctg_target_type target \<or>
                    rtc_target_id p \<noteq> ctg_target_id target then Inl comment_not_found else Inr p)"

definition mention_value :: "mention \<Rightarrow> pyval" where
  "mention_value m = PDict [(''user_id'', PInt (mn_user_id m)), (''start'', PInt (mn_start m)), (''end'', PInt (mn_end m)),
     (''display_name'', PStr (mn_display_name m))]"

definition comment_mentions_value :: "mention_targets \<Rightarrow> pyval" where
  "comment_mentions_value targets = PList (map mention_value (mentions_of targets))"

definition comment_fields :: "target_comment \<Rightarrow> pydict" where
  "comment_fields c =
     [(''id'', PInt (rtc_id c)), (''document_id'', PInt (rtc_document_id c)), (''target_type'', PStr (rtc_target_type c)),
      (''target_id'', PInt (rtc_target_id c)),
      (''target_anchor'', case rtc_target_anchor c of None \<Rightarrow> PNone | Some a \<Rightarrow> PDict a),
      (''parent_comment_id'', py_opt_int (rtc_parent_comment_id c)), (''body'', PStr (rtc_body c)),
      (''author_id'', PInt (rtc_author_id c)), (''is_resolved'', PBool (rtc_is_resolved c)),
      (''version'', PInt (rtc_version c)), (''created_at'', PInt (rtc_created_at c)), (''updated_at'', PInt (rtc_updated_at c))]"

definition comment_snapshot :: "target_comment \<Rightarrow> pydict" where
  "comment_snapshot c = (''mentions'', comment_mentions_value (rtc_mention_targets c)) # comment_fields c"

definition comment_conflict :: "target_comment \<Rightarrow> pydict" where
  "comment_conflict c =
     build_conflict_current (dget (comment_fields c)) (map fst (comment_fields c))
       (Some [(''author'', PNone), (''mentions'', comment_mentions_value (rtc_mention_targets c))])"

definition record_comment_change ::
  "requirement_env \<Rightarrow> target_comment \<Rightarrow> string \<Rightarrow> pydict option \<Rightarrow> pydict option \<Rightarrow> string option \<Rightarrow> int \<Rightarrow>
   requirement_db \<Rightarrow> requirement_db" where
  "record_comment_change env c action old_value new_value reason changed_by db =
     log_create (qe_now env) (Some (rtc_document_id c)) ''comment'' (rtc_id c) action None old_value new_value reason
       (Some changed_by) db"

text \<open>Those mentioned now and not before; the titles of a missing row cannot occur with the foreign keys.\<close>

definition new_recipients :: "int list \<Rightarrow> mention_targets \<Rightarrow> int list" where
  "new_recipients previous targets = filter (\<lambda>u. u \<notin> set previous) (map fst targets)"

definition target_comment_mentions_changed ::
  "int \<Rightarrow> int \<Rightarrow> target_comment \<Rightarrow> int list \<Rightarrow> requirement_db \<Rightarrow> requirement_db" where
  "target_comment_mentions_changed project_id actor_id c previous db =
     (let recipients = new_recipients previous (rtc_mention_targets c) in
      if list_all (\<lambda>u. u = actor_id) recipients then db
      else requirement_emit recipients (Some actor_id) project_id ''mentioned'' ''requirement_target_comment'' (rtc_id c)
             (rtc_version c)
             (case tget rdoc_id (rtc_document_id c) (rq_documents db) of None \<Rightarrow> ''document'' | Some d \<Rightarrow> rdoc_title d)
             [(''document_id'', PInt (rtc_document_id c)), (''subject_type'', PStr (rtc_target_type c)),
              (''subject_id'', PStr (show_int (rtc_target_id c))),
              (''requirement_id'', if rtc_target_type c = ''requirement_item'' then PInt (rtc_target_id c) else PNone)]
             (Some (rtc_body c)) db)"

definition create_target_comment ::
  "requirement_env \<Rightarrow> int \<Rightarrow> target_comment_create \<Rightarrow> int \<Rightarrow> requirement_db \<Rightarrow>
   app_error + target_comment \<times> requirement_db" where
  "create_target_comment env project_id data author_id db =
     ebind (resolve_target db project_id (tcc_target_type data) (tcc_target_id data)) (\<lambda>target.
     ebind (validate_anchor db project_id target (tcc_target_anchor data)) (\<lambda>_.
     ebind (case tcc_parent_comment_id data of None \<Rightarrow> Inr ()
            | Some p \<Rightarrow> ebind (get_parent_comment_for_target db p target) (\<lambda>_. Inr ())) (\<lambda>_.
     ebind (prepare_mentions (eligible_users db project_id) (code_points (tcc_body data)) (tcc_mentions data) []) (\<lambda>prepared.
     let c = \<lparr>rtc_id = rq_seq db + 1, rtc_document_id = ctg_document_id target, rtc_target_type = tcc_target_type data,
              rtc_target_id = tcc_target_id data, rtc_target_anchor = tcc_target_anchor data,
              rtc_parent_comment_id = tcc_parent_comment_id data, rtc_body = tcc_body data, rtc_author_id = author_id,
              rtc_is_resolved = False, rtc_version = 1, rtc_created_at = qe_now env, rtc_updated_at = qe_now env,
              rtc_deleted_at = None, rtc_mention_targets = prepared\<rparr>;
         db1 = db\<lparr>rq_seq := rq_seq db + 1, rq_target_comments := rq_target_comments db @ [c]\<rparr>;
         db2 = target_comment_mentions_changed project_id author_id c [] db1
     in Inr (c, record_comment_change env c ''comment.created'' None (Some (comment_snapshot c)) None author_id db2)))))"

definition get_comment :: "requirement_db \<Rightarrow> int \<Rightarrow> int \<Rightarrow> app_error + target_comment" where
  "get_comment db project_id comment_id =
     ebind (some_or comment_not_found (comment_get_by_id db comment_id)) (\<lambda>c.
     ebind (resolve_target db project_id (rtc_target_type c) (rtc_target_id c)) (\<lambda>_. Inr c))"

definition ensure_comment_owner_or_moderator :: "target_comment \<Rightarrow> int \<Rightarrow> bool \<Rightarrow> app_error + unit" where
  "ensure_comment_owner_or_moderator c actor_id can_moderate =
     raise_if (\<not> (can_moderate \<or> rtc_author_id c = actor_id)) (raise_cls ForbiddenError)"

definition updated_comment :: "time \<Rightarrow> string \<Rightarrow> mention_targets \<Rightarrow> target_comment \<Rightarrow> target_comment" where
  "updated_comment now body prepared c =
     c\<lparr>rtc_body := body, rtc_mention_targets := prepared, rtc_version := rtc_version c + 1, rtc_updated_at := now\<rparr>"

definition update_target_comment ::
  "requirement_env \<Rightarrow> int \<Rightarrow> int \<Rightarrow> target_comment_update \<Rightarrow> int \<Rightarrow> bool \<Rightarrow> requirement_db \<Rightarrow>
   app_error + target_comment \<times> requirement_db" where
  "update_target_comment env project_id comment_id data actor_id can_moderate db =
     ebind (get_comment db project_id comment_id) (\<lambda>c.
     ebind (ensure_comment_owner_or_moderator c actor_id can_moderate) (\<lambda>_.
     ebind (raise_if_version_conflict (rtc_version c) (tcu_version data) (comment_conflict c)) (\<lambda>_.
     ebind (prepare_mentions (eligible_users db project_id) (code_points (tcu_body data)) (tcu_mentions data)
              (mentions_of (rtc_mention_targets c))) (\<lambda>prepared.
     let c' = updated_comment (qe_now env) (tcu_body data) prepared c;
         db1 = db\<lparr>rq_target_comments := tput rtc_id c' (rq_target_comments db)\<rparr>;
         db2 = target_comment_mentions_changed project_id actor_id c' (map fst (rtc_mention_targets c)) db1
     in Inr (c', record_comment_change env c' ''comment.updated'' (Some (comment_snapshot c)) (Some (comment_snapshot c'))
                   (tcu_reason data) actor_id db2)))))"

definition resolved_comment :: "time \<Rightarrow> bool \<Rightarrow> target_comment \<Rightarrow> target_comment" where
  "resolved_comment now is_resolved c =
     c\<lparr>rtc_is_resolved := is_resolved, rtc_version := rtc_version c + 1, rtc_updated_at := now\<rparr>"

definition set_resolved ::
  "requirement_env \<Rightarrow> int \<Rightarrow> int \<Rightarrow> int \<Rightarrow> string option \<Rightarrow> int \<Rightarrow> bool \<Rightarrow> string \<Rightarrow> requirement_db \<Rightarrow>
   app_error + target_comment \<times> requirement_db" where
  "set_resolved env project_id comment_id version reason actor_id is_resolved action db =
     ebind (get_comment db project_id comment_id) (\<lambda>c.
     ebind (raise_if_version_conflict (rtc_version c) version (comment_conflict c)) (\<lambda>_.
     let c' = resolved_comment (qe_now env) is_resolved c
     in Inr (c', record_comment_change env c' action (Some (comment_snapshot c)) (Some (comment_snapshot c')) reason actor_id
                   (db\<lparr>rq_target_comments := tput rtc_id c' (rq_target_comments db)\<rparr>))))"

definition resolve_comment ::
  "requirement_env \<Rightarrow> int \<Rightarrow> int \<Rightarrow> int \<Rightarrow> string option \<Rightarrow> int \<Rightarrow> requirement_db \<Rightarrow>
   app_error + target_comment \<times> requirement_db" where
  "resolve_comment env project_id comment_id version reason actor_id =
     set_resolved env project_id comment_id version reason actor_id True ''comment.resolved''"

definition reopen_comment ::
  "requirement_env \<Rightarrow> int \<Rightarrow> int \<Rightarrow> int \<Rightarrow> string option \<Rightarrow> int \<Rightarrow> requirement_db \<Rightarrow>
   app_error + target_comment \<times> requirement_db" where
  "reopen_comment env project_id comment_id version reason actor_id =
     set_resolved env project_id comment_id version reason actor_id False ''comment.reopened''"

definition deleted_comment :: "time \<Rightarrow> target_comment \<Rightarrow> target_comment" where
  "deleted_comment now c = c\<lparr>rtc_mention_targets := [], rtc_deleted_at := Some now, rtc_updated_at := now\<rparr>"

definition delete_target_comment ::
  "requirement_env \<Rightarrow> int \<Rightarrow> int \<Rightarrow> int \<Rightarrow> bool \<Rightarrow> requirement_db \<Rightarrow> app_error + requirement_db" where
  "delete_target_comment env project_id comment_id actor_id can_moderate db =
     ebind (get_comment db project_id comment_id) (\<lambda>c.
     ebind (ensure_comment_owner_or_moderator c actor_id can_moderate) (\<lambda>_.
     Inr (record_comment_change env c ''comment.deleted'' (Some (comment_snapshot c)) None None actor_id
            (db\<lparr>rq_target_comments := tput rtc_id (deleted_comment (qe_now env) c) (rq_target_comments db)\<rparr>))))"

definition list_target_comments :: "int \<Rightarrow> string \<Rightarrow> int \<Rightarrow> requirement_db \<Rightarrow> app_error + target_comment list" where
  "list_target_comments project_id target_type target_id db =
     ebind (resolve_target db project_id target_type target_id) (\<lambda>target.
     Inr (sort_key rtc_id (filter (\<lambda>c. rtc_document_id c = ctg_document_id target \<and> rtc_target_type c = target_type \<and>
       rtc_target_id c = target_id \<and> rtc_deleted_at c = None) (rq_target_comments db))))"

subsection \<open>Plain comments\<close>

definition requirement_comment_mentions_changed ::
  "int \<Rightarrow> int \<Rightarrow> requirement_comment \<Rightarrow> requirement_db \<Rightarrow> requirement_db" where
  "requirement_comment_mentions_changed project_id actor_id c db =
     (let recipients = new_recipients [] (rcom_mention_targets c);
          requirement = tget ritm_id (rcom_requirement_id c) (rq_items db)
      in if list_all (\<lambda>u. u = actor_id) recipients then db
         else requirement_emit recipients (Some actor_id) project_id ''mentioned'' ''requirement_comment'' (rcom_id c) 1
                (case requirement of None \<Rightarrow> ''requirement'' | Some r \<Rightarrow> ritm_title r)
                [(''requirement_id'', PInt (rcom_requirement_id c)),
                 (''document_id'', case requirement of None \<Rightarrow> PNone | Some r \<Rightarrow> PInt (ritm_document_id r))]
                (Some (rcom_comment c)) db)"

definition create_requirement_comment ::
  "requirement_env \<Rightarrow> int \<Rightarrow> int \<Rightarrow> int \<Rightarrow> string \<Rightarrow> mention list \<Rightarrow> requirement_db \<Rightarrow>
   app_error + requirement_comment \<times> requirement_db" where
  "create_requirement_comment env project_id requirement_id user_id comment mentions db =
     ebind (get_requirement project_id requirement_id db) (\<lambda>_.
     ebind (prepare_mentions (eligible_users db project_id) (code_points comment) mentions []) (\<lambda>prepared.
     let c = \<lparr>rcom_id = rq_seq db + 1, rcom_requirement_id = requirement_id, rcom_user_id = user_id, rcom_comment = comment,
              rcom_created_at = qe_now env, rcom_mention_targets = prepared\<rparr>
     in Inr (c, requirement_comment_mentions_changed project_id user_id c
                  (db\<lparr>rq_seq := rq_seq db + 1, rq_comments := rq_comments db @ [c]\<rparr>))))"

definition delete_requirement_comment ::
  "int \<Rightarrow> int \<Rightarrow> int \<Rightarrow> int \<Rightarrow> bool \<Rightarrow> requirement_db \<Rightarrow> app_error + requirement_db" where
  "delete_requirement_comment project_id requirement_id comment_id actor_id can_moderate db =
     ebind (get_requirement project_id requirement_id db) (\<lambda>_.
     case tget rcom_id comment_id (rq_comments db) of
       None \<Rightarrow> Inl (not_found ''REQUIREMENT_COMMENT_NOT_FOUND'')
     | Some c \<Rightarrow>
         if rcom_requirement_id c \<noteq> requirement_id then Inl (not_found ''REQUIREMENT_COMMENT_NOT_FOUND'')
         else ebind (raise_if (\<not> can_moderate \<and> rcom_user_id c \<noteq> actor_id) (raise_cls ForbiddenError)) (\<lambda>_.
              Inr (db\<lparr>rq_comments := tdel rcom_id comment_id (rq_comments db)\<rparr>)))"

subsection \<open>Summary\<close>

definition latest :: "('a \<Rightarrow> int) \<Rightarrow> nat \<Rightarrow> 'a list \<Rightarrow> 'a list" where
  "latest key limit rows = rev (take limit (rev (sort_key key rows)))"

record requirement_summary =
  rsm_requirement :: requirement
  rsm_details :: "requirement_detail list"
  rsm_links :: "requirement_link list"
  rsm_comments :: "requirement_comment list"
  rsm_reviews :: "requirement_review list"
  rsm_revisions :: "requirement_revision list"

definition get_summary :: "int \<Rightarrow> int \<Rightarrow> nat \<Rightarrow> requirement_db \<Rightarrow> app_error + requirement_summary" where
  "get_summary project_id requirement_id limit db =
     ebind (get_requirement project_id requirement_id db) (\<lambda>r.
     Inr \<lparr>rsm_requirement = r,
          rsm_details = sort_key rdet_id (filter (\<lambda>d. rdet_requirement_id d = requirement_id) (rq_details db)),
          rsm_links = sort_key rlnk_id (filter (\<lambda>l. rlnk_requirement_id l = requirement_id) (rq_links db)),
          rsm_comments = latest rcom_id limit (filter (\<lambda>c. rcom_requirement_id c = requirement_id) (rq_comments db)),
          rsm_reviews = sort_key rrvw_id (filter (\<lambda>v. rrvw_requirement_id v = requirement_id) (rq_reviews db)),
          rsm_revisions = latest rrev_id limit (filter (\<lambda>v. rrev_requirement_id v = requirement_id) (rq_revisions db))\<rparr>)"

end
