(* ===== verification/Requirement_Trash.thy ===== *)
theory Requirement_Trash imports Requirement_Children begin

text \<open>
  Restoring a deleted document, section or requirement: \<open>TrashService.restore\<close> of \<^verbatim>\<open>app/services/trash.py\<close> with
  \<open>TrashRepository.get\<close> and the rows of \<open>RESOURCES\<close> of \<^verbatim>\<open>app/repositories/trash.py\<close>. A section or a requirement
  is found through its document, deleted or not, and stays deleted while its document is. \<open>permitted\<close> is the
  answer of the authorisation service, \<open>days\<close> the retention (0 keeps rows for ever).

  The restored row gets a new version; there is no revision of a requirement and no history entry, only an
  entry of the audit log.
\<close>

record 'r trash_resource =
  trs_kind :: string
  trs_id :: "'r \<Rightarrow> int"
  trs_title :: "'r \<Rightarrow> string"
  trs_version :: "'r \<Rightarrow> int"
  trs_deleted_at :: "'r \<Rightarrow> time option"
  trs_container :: "'r \<Rightarrow> int option"
  trs_restored :: "time \<Rightarrow> int \<Rightarrow> 'r \<Rightarrow> 'r"

definition restored_document :: "time \<Rightarrow> int \<Rightarrow> requirement_document \<Rightarrow> requirement_document" where
  "restored_document now user_id d = d\<lparr>rdoc_deleted_at := None, rdoc_version := rdoc_version d + 1,
     rdoc_updated_by := Some user_id, rdoc_updated_at := now\<rparr>"

definition restored_section :: "time \<Rightarrow> int \<Rightarrow> requirement_section \<Rightarrow> requirement_section" where
  "restored_section now user_id s = s\<lparr>rsec_deleted_at := None, rsec_version := rsec_version s + 1,
     rsec_updated_by := Some user_id, rsec_updated_at := now\<rparr>"

definition restored_requirement :: "time \<Rightarrow> int \<Rightarrow> requirement \<Rightarrow> requirement" where
  "restored_requirement now user_id r = r\<lparr>ritm_deleted_at := None, ritm_version := ritm_version r + 1,
     ritm_updated_by := Some user_id, ritm_updated_at := now\<rparr>"

definition document_resource :: "requirement_document trash_resource" where
  "document_resource = \<lparr>trs_kind = ''requirement_document'', trs_id = rdoc_id, trs_title = rdoc_title, trs_version = rdoc_version,
     trs_deleted_at = rdoc_deleted_at, trs_container = (\<lambda>_. None), trs_restored = restored_document\<rparr>"

definition section_resource :: "requirement_section trash_resource" where
  "section_resource = \<lparr>trs_kind = ''requirement_section'', trs_id = rsec_id, trs_title = rsec_title, trs_version = rsec_version,
     trs_deleted_at = rsec_deleted_at, trs_container = (\<lambda>s. Some (rsec_document_id s)), trs_restored = restored_section\<rparr>"

definition requirement_resource :: "requirement trash_resource" where
  "requirement_resource = \<lparr>trs_kind = ''requirement'', trs_id = ritm_id, trs_title = ritm_title, trs_version = ritm_version,
     trs_deleted_at = ritm_deleted_at, trs_container = (\<lambda>r. Some (ritm_document_id r)), trs_restored = restored_requirement\<rparr>"

text \<open>Why a deleted row cannot be restored, and what a conflict answers.\<close>

definition trash_blocked :: "int \<Rightarrow> time \<Rightarrow> time \<Rightarrow> time option \<Rightarrow> string option" where
  "trash_blocked days now deleted_at parent_deleted_at =
     (if days \<noteq> 0 \<and> deleted_at + days * 86400 \<le> now then Some ''TRASH_EXPIRED''
      else if parent_deleted_at \<noteq> None then Some ''TRASH_PARENT_DELETED'' else None)"

definition trash_current :: "'r trash_resource \<Rightarrow> int \<Rightarrow> time \<Rightarrow> 'r \<Rightarrow> time \<Rightarrow> time option \<Rightarrow> pydict" where
  "trash_current spec days now row deleted_at parent_deleted_at =
     (let reason = trash_blocked days now deleted_at parent_deleted_at in
      [(''kind'', PStr (trs_kind spec)), (''id'', PStr (show_int (trs_id spec row))), (''title'', PStr (trs_title spec row)),
       (''container_id'', py_opt_int (trs_container spec row)), (''deleted_at'', PInt deleted_at),
       (''expires_at'', if days = 0 then PNone else PInt (deleted_at + days * 86400)), (''version'', PInt (trs_version spec row)),
       (''can_restore'', PBool (reason = None)), (''blocked_reason'', py_opt_str reason)])"

text \<open>The id in the path: an integer a column can hold.\<close>

definition trash_identity :: "string \<Rightarrow> int option" where
  "trash_identity resource_id =
     (case py_int_parse resource_id of
        None \<Rightarrow> None
      | Some i \<Rightarrow> if 1 \<le> i \<and> i \<le> int4_max then Some i else None)"

definition trash_found :: "requirement_db \<Rightarrow> int \<Rightarrow> int \<Rightarrow> requirement_document option" where
  "trash_found db project_id document_id =
     find (\<lambda>d. rdoc_id d = document_id \<and> rdoc_project_id d = project_id) (rq_documents db)"

definition trash_get_document :: "requirement_db \<Rightarrow> int \<Rightarrow> string \<Rightarrow> (requirement_document \<times> time option) option" where
  "trash_get_document db project_id resource_id =
     map_option (\<lambda>d. (d, None)) (Option.bind (trash_identity resource_id) (trash_found db project_id))"

definition trash_get_section :: "requirement_db \<Rightarrow> int \<Rightarrow> string \<Rightarrow> (requirement_section \<times> time option) option" where
  "trash_get_section db project_id resource_id =
     Option.bind (trash_identity resource_id) (\<lambda>k.
     Option.bind (tget rsec_id k (rq_sections db)) (\<lambda>s.
     map_option (\<lambda>d. (s, rdoc_deleted_at d)) (trash_found db project_id (rsec_document_id s))))"

definition trash_get_requirement :: "requirement_db \<Rightarrow> int \<Rightarrow> string \<Rightarrow> (requirement \<times> time option) option" where
  "trash_get_requirement db project_id resource_id =
     Option.bind (trash_identity resource_id) (\<lambda>k.
     Option.bind (tget ritm_id k (rq_items db)) (\<lambda>r.
     map_option (\<lambda>d. (r, rdoc_deleted_at d)) (trash_found db project_id (ritm_document_id r))))"

definition trash_not_found :: app_error where
  "trash_not_found = not_found ''TRASH_NOT_FOUND''"

definition checked_restore ::
  "'r trash_resource \<Rightarrow> time \<Rightarrow> int \<Rightarrow> bool \<Rightarrow> ('r \<times> time option) option \<Rightarrow> time \<Rightarrow> int option \<Rightarrow> int \<Rightarrow> app_error + 'r" where
  "checked_restore spec now days permitted found deleted_at version user_id =
     ebind (raise_if (\<not> permitted) (raise_cls ForbiddenError)) (\<lambda>_.
     ebind (some_or trash_not_found found) (\<lambda>(row, parent_deleted_at).
     ebind (some_or trash_not_found (trs_deleted_at spec row)) (\<lambda>row_deleted_at.
     let current = trash_current spec days now row row_deleted_at parent_deleted_at in
     ebind (raise_if (row_deleted_at \<noteq> deleted_at) (version_conflict current)) (\<lambda>_.
     ebind (raise_if_version_conflict (trs_version spec row) (case version of None \<Rightarrow> 0 | Some v \<Rightarrow> v) current) (\<lambda>_.
     case trash_blocked days now row_deleted_at parent_deleted_at of
       Some reason \<Rightarrow> Inl (raise_msg ConflictError reason)
     | None \<Rightarrow> Inr (trs_restored spec now user_id row))))))"

definition record_restore :: "'r trash_resource \<Rightarrow> int \<Rightarrow> int \<Rightarrow> 'r \<Rightarrow> requirement_db \<Rightarrow> requirement_db" where
  "record_restore spec project_id user_id row db =
     db\<lparr>rq_audit := rq_audit db @ [\<lparr>au_event_type = trs_kind spec @ ''.restored'', au_actor_user_id = Some user_id,
        au_project_id = project_id, au_resource_type = trs_kind spec, au_resource_id = trs_id spec row,
        au_metadata = [(''id'', PStr (show_int (trs_id spec row))), (''version'', PInt (trs_version spec row))]\<rparr>]\<rparr>"

definition restore_document ::
  "requirement_env \<Rightarrow> int \<Rightarrow> bool \<Rightarrow> int \<Rightarrow> string \<Rightarrow> time \<Rightarrow> int option \<Rightarrow> int \<Rightarrow> requirement_db \<Rightarrow> app_error + requirement_db" where
  "restore_document env days permitted project_id resource_id deleted_at version user_id db =
     ebind (checked_restore document_resource (qe_now env) days permitted (trash_get_document db project_id resource_id)
              deleted_at version user_id) (\<lambda>d.
     Inr (record_restore document_resource project_id user_id d (db\<lparr>rq_documents := tput rdoc_id d (rq_documents db)\<rparr>)))"

definition restore_section ::
  "requirement_env \<Rightarrow> int \<Rightarrow> bool \<Rightarrow> int \<Rightarrow> string \<Rightarrow> time \<Rightarrow> int option \<Rightarrow> int \<Rightarrow> requirement_db \<Rightarrow> app_error + requirement_db" where
  "restore_section env days permitted project_id resource_id deleted_at version user_id db =
     ebind (checked_restore section_resource (qe_now env) days permitted (trash_get_section db project_id resource_id)
              deleted_at version user_id) (\<lambda>s.
     Inr (record_restore section_resource project_id user_id s (db\<lparr>rq_sections := tput rsec_id s (rq_sections db)\<rparr>)))"

definition restore_requirement ::
  "requirement_env \<Rightarrow> int \<Rightarrow> bool \<Rightarrow> int \<Rightarrow> string \<Rightarrow> time \<Rightarrow> int option \<Rightarrow> int \<Rightarrow> requirement_db \<Rightarrow> app_error + requirement_db" where
  "restore_requirement env days permitted project_id resource_id deleted_at version user_id db =
     ebind (checked_restore requirement_resource (qe_now env) days permitted (trash_get_requirement db project_id resource_id)
              deleted_at version user_id) (\<lambda>r.
     Inr (record_restore requirement_resource project_id user_id r (db\<lparr>rq_items := tput ritm_id r (rq_items db)\<rparr>)))"

end
