(* ===== verification/Requirement_Edits.thy ===== *)
theory Requirement_Edits imports Requirement_Comments Requirement_Trash begin

text \<open>
  The requirement tables as a whole. An edit is what one statement of any operation does to the rows: an
  abstract specification in which a document, a section, a requirement or an issue never leaves its document,
  a reference is to a row of the same document, and a requirement changes its content only together with a
  revision. Every operation of the services is a sequence of edits (\<open>edits\<close>), and every edit keeps the
  invariant, so it holds in all reachable states, whatever other sessions commit between the steps of a
  creation.
\<close>

subsection \<open>Where a row is\<close>

text \<open>The document of a row of the four kinds, deleted or not.\<close>

definition located :: "requirement_db \<Rightarrow> string \<Rightarrow> int \<Rightarrow> int \<Rightarrow> bool" where
  "located db target_type target_id document_id \<longleftrightarrow>
     target_type \<in> set target_models \<and> relation_target_document db target_type target_id = Some document_id"

definition requirement_exists :: "requirement_db \<Rightarrow> int \<Rightarrow> bool" where
  "requirement_exists db k \<longleftrightarrow> k \<in> ritm_id ` set (rq_items db)"

text \<open>The content of a requirement: its snapshot without the version.\<close>

definition content :: "pydict \<Rightarrow> pydict" where
  "content snapshot = filter (\<lambda>(k, _). k \<noteq> ''version'') snapshot"

definition revisions :: "requirement_db \<Rightarrow> int \<Rightarrow> requirement_revision list" where
  "revisions db k = filter (\<lambda>v. rrev_requirement_id v = k) (rq_revisions db)"

subsection \<open>Edits\<close>

inductive edit :: "requirement_db \<Rightarrow> requirement_db \<Rightarrow> bool" where
  bookkeeping: "rq_seq db \<le> s \<Longrightarrow>
    edit db (db\<lparr>rq_logs := l, rq_notices := n, rq_audit := a, rq_receipts := c, rq_seq := s\<rparr>)"
| add_document: "rdoc_id d = rq_seq db + 1 \<Longrightarrow> \<not> document_violation d db \<Longrightarrow>
    edit db (db\<lparr>rq_seq := rq_seq db + 1, rq_documents := rq_documents db @ [d]\<rparr>)"
| put_document: "d \<in> set (rq_documents db) \<Longrightarrow> rdoc_id d' = rdoc_id d \<Longrightarrow> rdoc_project_id d' = rdoc_project_id d \<Longrightarrow>
    rdoc_document_code d' = rdoc_document_code d \<or> \<not> document_violation d' db \<Longrightarrow>
    edit db (db\<lparr>rq_documents := tput rdoc_id d' (rq_documents db)\<rparr>)"
| add_section: "rsec_id s = rq_seq db + 1 \<Longrightarrow> located db ''document'' (rsec_document_id s) (rsec_document_id s) \<Longrightarrow>
    edit db (db\<lparr>rq_seq := rq_seq db + 1, rq_sections := rq_sections db @ [s]\<rparr>)"
| put_sections: "(\<And>s. s \<in> set (rq_sections db) \<Longrightarrow> rsec_id (f s) = rsec_id s \<and> rsec_document_id (f s) = rsec_document_id s) \<Longrightarrow>
    edit db (db\<lparr>rq_sections := map f (rq_sections db)\<rparr>)"
| add_item: "ritm_id r = rq_seq db + 1 \<Longrightarrow> located db ''document'' (ritm_document_id r) (ritm_document_id r) \<Longrightarrow>
    \<not> requirement_violation r db \<Longrightarrow>
    (\<And>s. ritm_section_id r = Some s \<Longrightarrow> located db ''section'' s (ritm_document_id r)) \<Longrightarrow>
    edit db (db\<lparr>rq_seq := rq_seq db + 1, rq_items := rq_items db @ [r]\<rparr>)"
| revise_item: "r \<in> set (rq_items db) \<Longrightarrow> ritm_id r' = ritm_id r \<Longrightarrow> ritm_document_id r' = ritm_document_id r \<Longrightarrow>
    ritm_requirement_code r' = ritm_requirement_code r \<Longrightarrow> ritm_version r' = ritm_version r + 1 \<Longrightarrow>
    (\<And>s. ritm_section_id r' = Some s \<Longrightarrow> ritm_section_id r = Some s \<or> located db ''section'' s (ritm_document_id r)) \<Longrightarrow>
    rrev_id v = rq_seq db + 1 \<Longrightarrow> rrev_requirement_id v = ritm_id r \<Longrightarrow> rrev_version v = ritm_version r' \<Longrightarrow>
    rrev_before_value v = revision_snapshot r \<Longrightarrow> rrev_after_value v = revision_snapshot r' \<Longrightarrow>
    edit db (db\<lparr>rq_seq := rq_seq db + 1, rq_items := tput ritm_id r' (rq_items db), rq_revisions := rq_revisions db @ [v]\<rparr>)"
| touch_item: "r \<in> set (rq_items db) \<Longrightarrow> ritm_id r' = ritm_id r \<Longrightarrow> ritm_version r \<le> ritm_version r' \<Longrightarrow>
    content (revision_snapshot r') = content (revision_snapshot r) \<Longrightarrow>
    edit db (db\<lparr>rq_items := tput ritm_id r' (rq_items db)\<rparr>)"
| add_issue: "riss_id i = rq_seq db + 1 \<Longrightarrow> located db ''document'' (riss_document_id i) (riss_document_id i) \<Longrightarrow>
    \<not> issue_violation i db \<Longrightarrow>
    (\<And>r. riss_related_requirement_id i = Some r \<Longrightarrow> located db ''requirement_item'' r (riss_document_id i)) \<Longrightarrow>
    edit db (db\<lparr>rq_seq := rq_seq db + 1, rq_issues := rq_issues db @ [i]\<rparr>)"
| put_issue: "i \<in> set (rq_issues db) \<Longrightarrow> riss_id i' = riss_id i \<Longrightarrow> riss_document_id i' = riss_document_id i \<Longrightarrow>
    riss_issue_code i' = riss_issue_code i \<Longrightarrow>
    (\<And>r. riss_related_requirement_id i' = Some r \<Longrightarrow> riss_related_requirement_id i = Some r \<or>
       located db ''requirement_item'' r (riss_document_id i)) \<Longrightarrow>
    edit db (db\<lparr>rq_issues := tput riss_id i' (rq_issues db)\<rparr>)"
| add_comment: "rtc_id c = rq_seq db + 1 \<Longrightarrow> located db (rtc_target_type c) (rtc_target_id c) (rtc_document_id c) \<Longrightarrow>
    (\<And>p. rtc_parent_comment_id c = Some p \<Longrightarrow> \<exists>q \<in> set (rq_target_comments db). rtc_id q = p \<and>
       rtc_document_id q = rtc_document_id c \<and> rtc_target_type q = rtc_target_type c \<and> rtc_target_id q = rtc_target_id c) \<Longrightarrow>
    edit db (db\<lparr>rq_seq := rq_seq db + 1, rq_target_comments := rq_target_comments db @ [c]\<rparr>)"
| put_comment: "c \<in> set (rq_target_comments db) \<Longrightarrow> rtc_id c' = rtc_id c \<Longrightarrow> rtc_document_id c' = rtc_document_id c \<Longrightarrow>
    rtc_target_type c' = rtc_target_type c \<Longrightarrow> rtc_target_id c' = rtc_target_id c \<Longrightarrow>
    rtc_parent_comment_id c' = rtc_parent_comment_id c \<Longrightarrow>
    edit db (db\<lparr>rq_target_comments := tput rtc_id c' (rq_target_comments db)\<rparr>)"
| add_approval: "rapp_id a = rq_seq db + 1 \<Longrightarrow> located db (rapp_target_type a) (rapp_target_id a) (rapp_document_id a) \<Longrightarrow>
    rapp_status a = ''requested'' \<Longrightarrow>
    edit db (db\<lparr>rq_seq := rq_seq db + 1, rq_approvals := rq_approvals db @ [a]\<rparr>)"
| decide_approval: "a \<in> set (rq_approvals db) \<Longrightarrow> rapp_status a = ''requested'' \<Longrightarrow>
    a' = mark_approved now comment a \<or> a' = mark_rejected now comment a \<Longrightarrow>
    edit db (db\<lparr>rq_approvals := tput rapp_id a' (rq_approvals db)\<rparr>)"
| add_relation: "rrel_id l = rq_seq db + 1 \<Longrightarrow>
    located db ''requirement_item'' (rrel_source_requirement_id l) (rrel_document_id l) \<Longrightarrow>
    edit db (db\<lparr>rq_seq := rq_seq db + 1, rq_relations := rq_relations db @ [l]\<rparr>)"
| children: "rq_seq db \<le> s \<Longrightarrow> list_all (\<lambda>d. requirement_exists db (rdet_requirement_id d)) ds \<Longrightarrow>
    list_all (\<lambda>l. requirement_exists db (rlnk_requirement_id l)) ls \<Longrightarrow>
    list_all (\<lambda>c. requirement_exists db (rcom_requirement_id c)) cs \<Longrightarrow>
    list_all (\<lambda>v. requirement_exists db (rrvw_requirement_id v)) vs \<Longrightarrow> set rs \<subseteq> set (rq_relations db) \<Longrightarrow>
    edit db (db\<lparr>rq_seq := s, rq_details := ds, rq_links := ls, rq_comments := cs, rq_reviews := vs, rq_relations := rs\<rparr>)"

abbreviation edits :: "requirement_db \<Rightarrow> requirement_db \<Rightarrow> bool" where
  "edits \<equiv> edit\<^sup>*\<^sup>*"

subsection \<open>The invariant\<close>

definition rows_ok :: "('r \<Rightarrow> int) \<Rightarrow> int \<Rightarrow> 'r list \<Rightarrow> bool" where
  "rows_ok key seq rows \<longleftrightarrow> distinct (map key rows) \<and> (\<forall>x \<in> set rows. key x \<le> seq)"

definition ids_ok :: "requirement_db \<Rightarrow> bool" where
  "ids_ok db \<longleftrightarrow> rows_ok rdoc_id (rq_seq db) (rq_documents db) \<and> rows_ok rsec_id (rq_seq db) (rq_sections db) \<and>
     rows_ok ritm_id (rq_seq db) (rq_items db) \<and> rows_ok riss_id (rq_seq db) (rq_issues db) \<and>
     rows_ok rtc_id (rq_seq db) (rq_target_comments db) \<and> rows_ok rapp_id (rq_seq db) (rq_approvals db) \<and>
     rows_ok rrev_id (rq_seq db) (rq_revisions db)"

definition codes_ok :: "requirement_db \<Rightarrow> bool" where
  "codes_ok db \<longleftrightarrow> inj_on (\<lambda>d. (rdoc_project_id d, rdoc_document_code d)) (set (rq_documents db)) \<and>
     inj_on (\<lambda>r. (ritm_document_id r, ritm_requirement_code r)) (set (rq_items db)) \<and>
     inj_on (\<lambda>i. (riss_document_id i, riss_issue_code i)) (set (rq_issues db))"

definition item_placed :: "requirement_db \<Rightarrow> requirement \<Rightarrow> bool" where
  "item_placed db r \<longleftrightarrow> located db ''document'' (ritm_document_id r) (ritm_document_id r) \<and>
     (\<forall>s. ritm_section_id r = Some s \<longrightarrow> located db ''section'' s (ritm_document_id r))"

definition issue_placed :: "requirement_db \<Rightarrow> open_issue \<Rightarrow> bool" where
  "issue_placed db i \<longleftrightarrow> located db ''document'' (riss_document_id i) (riss_document_id i) \<and>
     (\<forall>r. riss_related_requirement_id i = Some r \<longrightarrow> located db ''requirement_item'' r (riss_document_id i))"

definition comment_placed :: "requirement_db \<Rightarrow> target_comment \<Rightarrow> bool" where
  "comment_placed db c \<longleftrightarrow> located db (rtc_target_type c) (rtc_target_id c) (rtc_document_id c)"

text \<open>A reply is to an older comment on the same target.\<close>

definition reply_placed :: "requirement_db \<Rightarrow> target_comment \<Rightarrow> bool" where
  "reply_placed db c \<longleftrightarrow> (\<forall>p. rtc_parent_comment_id c = Some p \<longrightarrow> p < rtc_id c \<and>
     (\<exists>q \<in> set (rq_target_comments db). rtc_id q = p \<and> rtc_document_id q = rtc_document_id c \<and>
        rtc_target_type q = rtc_target_type c \<and> rtc_target_id q = rtc_target_id c))"

definition approval_placed :: "requirement_db \<Rightarrow> requirement_approval \<Rightarrow> bool" where
  "approval_placed db a \<longleftrightarrow> located db (rapp_target_type a) (rapp_target_id a) (rapp_document_id a)"

definition relation_placed :: "requirement_db \<Rightarrow> requirement_relation \<Rightarrow> bool" where
  "relation_placed db l \<longleftrightarrow> located db ''requirement_item'' (rrel_source_requirement_id l) (rrel_document_id l)"

definition places_ok :: "requirement_db \<Rightarrow> bool" where
  "places_ok db \<longleftrightarrow>
     (\<forall>s \<in> set (rq_sections db). located db ''document'' (rsec_document_id s) (rsec_document_id s)) \<and>
     (\<forall>r \<in> set (rq_items db). item_placed db r) \<and> (\<forall>i \<in> set (rq_issues db). issue_placed db i) \<and>
     (\<forall>c \<in> set (rq_target_comments db). comment_placed db c) \<and> (\<forall>c \<in> set (rq_target_comments db). reply_placed db c) \<and>
     (\<forall>a \<in> set (rq_approvals db). approval_placed db a) \<and> (\<forall>l \<in> set (rq_relations db). relation_placed db l)"

definition children_ok :: "requirement_db \<Rightarrow> bool" where
  "children_ok db \<longleftrightarrow> list_all (\<lambda>d. requirement_exists db (rdet_requirement_id d)) (rq_details db) \<and>
     list_all (\<lambda>l. requirement_exists db (rlnk_requirement_id l)) (rq_links db) \<and>
     list_all (\<lambda>c. requirement_exists db (rcom_requirement_id c)) (rq_comments db) \<and>
     list_all (\<lambda>v. requirement_exists db (rrvw_requirement_id v)) (rq_reviews db) \<and>
     list_all (\<lambda>v. requirement_exists db (rrev_requirement_id v)) (rq_revisions db)"

text \<open>Each revision starts where the one before ended, and the last one ends at the requirement.\<close>

fun chained :: "requirement_revision list \<Rightarrow> pydict \<Rightarrow> int \<Rightarrow> bool" where
  "chained [] final version = True"
| "chained [v] final version = (content (rrev_after_value v) = final \<and> rrev_version v \<le> version)"
| "chained (v # w # vs) final version =
     (content (rrev_after_value v) = content (rrev_before_value w) \<and> rrev_version v < rrev_version w \<and>
      chained (w # vs) final version)"

definition revision_ok :: "requirement_revision \<Rightarrow> bool" where
  "revision_ok v \<longleftrightarrow> dget (rrev_after_value v) ''version'' = PInt (rrev_version v) \<and>
     dget (rrev_before_value v) ''version'' = PInt (rrev_version v - 1)"

definition history_ok :: "requirement_db \<Rightarrow> bool" where
  "history_ok db \<longleftrightarrow> (\<forall>v \<in> set (rq_revisions db). revision_ok v) \<and>
     (\<forall>r \<in> set (rq_items db). chained (revisions db (ritm_id r)) (content (revision_snapshot r)) (ritm_version r))"

definition requirement_inv :: "requirement_db \<Rightarrow> bool" where
  "requirement_inv db \<longleftrightarrow> ids_ok db \<and> codes_ok db \<and> places_ok db \<and> children_ok db \<and> history_ok db"

subsection \<open>Every edit keeps the invariant\<close>

lemma rows_ok_tget: "rows_ok key seq rows \<Longrightarrow> r \<in> set rows \<Longrightarrow> tget key (key r) rows = Some r"
  by (simp add: rows_ok_def tget_Some_iff)

lemma rows_ok_unique: "rows_ok key seq rows \<Longrightarrow> x \<in> set rows \<Longrightarrow> y \<in> set rows \<Longrightarrow> key x = key y \<Longrightarrow> x = y"
  by (auto simp: rows_ok_def distinct_map inj_on_def)

lemma rows_ok_mono: "rows_ok key seq rows \<Longrightarrow> seq \<le> seq' \<Longrightarrow> rows_ok key seq' rows"
  by (force simp: rows_ok_def)

lemma rows_ok_add: "rows_ok key seq rows \<Longrightarrow> key x = seq + 1 \<Longrightarrow> rows_ok key (seq + 1) (rows @ [x])"
  by (force simp: rows_ok_def)

lemma rows_ok_tput: "rows_ok key seq rows \<Longrightarrow> r \<in> set rows \<Longrightarrow> key r' = key r \<Longrightarrow> rows_ok key seq (tput key r' rows)"
  using set_tput_subset [of key r' rows] by (auto simp: rows_ok_def)

lemma rows_ok_map: "rows_ok key seq rows \<Longrightarrow> (\<And>x. x \<in> set rows \<Longrightarrow> key (f x) = key x) \<Longrightarrow> rows_ok key seq (map f rows)"
  by (auto simp: rows_ok_def cong: map_cong)

lemma in_tput:
  assumes "x \<in> set (tput key r' rows)"
  obtains "x = r'" | "x \<in> set rows" "key x \<noteq> key r'"
  using assms by (auto simp: tput_def split: if_splits)

lemma tget_map_doc:
  "(\<And>x. x \<in> set rows \<Longrightarrow> key (f x) = key x \<and> doc (f x) = doc x) \<Longrightarrow>
   map_option doc (tget key k (map f rows)) = map_option doc (tget key k rows)"
  by (induction rows) (auto simp: tget_Cons)

text \<open>Rows stay, in the same document.\<close>

definition docs_le :: "('r \<Rightarrow> int) \<Rightarrow> ('r \<Rightarrow> int) \<Rightarrow> 'r list \<Rightarrow> 'r list \<Rightarrow> bool" where
  "docs_le key doc rows rows' \<longleftrightarrow>
     (\<forall>k d. map_option doc (tget key k rows) = Some d \<longrightarrow> map_option doc (tget key k rows') = Some d)"

lemma docs_le_refl [simp]: "docs_le key doc rows rows"
  by (simp add: docs_le_def)

lemma docs_le_append [simp]: "docs_le key doc rows (rows @ [r])"
  by (auto simp: docs_le_def tget_append)

lemma docs_le_map: "(\<And>x. x \<in> set rows \<Longrightarrow> key (f x) = key x \<and> doc (f x) = doc x) \<Longrightarrow> docs_le key doc rows (map f rows)"
  by (simp add: docs_le_def tget_map_doc del: map_option_eq_Some)

lemma docs_le_tput:
  assumes "rows_ok key seq rows" "r \<in> set rows" "key r' = key r" "doc r' = doc r"
  shows "docs_le key doc rows (tput key r' rows)"
  unfolding tput_def using assms by (intro docs_le_map) (auto dest: rows_ok_unique)

lemma located_mono:
  assumes "docs_le rdoc_id rdoc_id (rq_documents db) (rq_documents db')"
    "docs_le rsec_id rsec_document_id (rq_sections db) (rq_sections db')"
    "docs_le ritm_id ritm_document_id (rq_items db) (rq_items db')"
    "docs_le riss_id riss_document_id (rq_issues db) (rq_issues db')"
    "located db t k d"
  shows "located db' t k d"
  using assms unfolding located_def relation_target_document_def docs_le_def
  by (auto split: if_splits simp del: map_option_eq_Some)

lemma content_snapshot: "content (revision_snapshot r) = butlast (revision_snapshot r)"
  by (simp add: content_def revision_snapshot_def)

lemma py_opt_int_inject [simp]: "py_opt_int a = py_opt_int b \<longleftrightarrow> a = b"
  by (simp add: py_opt_int_def split: option.splits)

lemma content_fields:
  assumes "content (revision_snapshot r') = content (revision_snapshot r)"
  shows "ritm_document_id r' = ritm_document_id r" "ritm_section_id r' = ritm_section_id r"
    "ritm_requirement_code r' = ritm_requirement_code r"
  using assms unfolding content_snapshot by (simp_all add: revision_snapshot_def)

lemma edit_located:
  assumes "edit db db'" "ids_ok db" "located db t k d"
  shows "located db' t k d"
  using assms(1)
proof (cases rule: edit.cases)
  case (put_document x x')
  then have "docs_le rdoc_id rdoc_id (rq_documents db) (tput rdoc_id x' (rq_documents db))"
    using assms(2) by (intro docs_le_tput) (auto simp: ids_ok_def)
  then show ?thesis
    using assms(3) put_document(1) by (intro located_mono [of db db']) simp_all
next
  case (put_sections f)
  then have "docs_le rsec_id rsec_document_id (rq_sections db) (map f (rq_sections db))"
    by (intro docs_le_map) auto
  then show ?thesis
    using assms(3) put_sections(1) by (intro located_mono [of db db']) simp_all
next
  case (revise_item r r' v)
  then have "docs_le ritm_id ritm_document_id (rq_items db) (tput ritm_id r' (rq_items db))"
    using assms(2) by (intro docs_le_tput) (auto simp: ids_ok_def)
  then show ?thesis
    using assms(3) revise_item(1) by (intro located_mono [of db db']) simp_all
next
  case (touch_item r r')
  then have "docs_le ritm_id ritm_document_id (rq_items db) (tput ritm_id r' (rq_items db))"
    using assms(2) content_fields(1) [of r' r] by (intro docs_le_tput) (auto simp: ids_ok_def)
  then show ?thesis
    using assms(3) touch_item(1) by (intro located_mono [of db db']) simp_all
next
  case (put_issue i i')
  then have "docs_le riss_id riss_document_id (rq_issues db) (tput riss_id i' (rq_issues db))"
    using assms(2) by (intro docs_le_tput) (auto simp: ids_ok_def)
  then show ?thesis
    using assms(3) put_issue(1) by (intro located_mono [of db db']) simp_all
qed (rule located_mono [OF _ _ _ _ assms(3)]; simp)+

lemma edit_ids:
  assumes "edit db db'" "ids_ok db"
  shows "ids_ok db'"
  using assms unfolding ids_ok_def
  by (cases rule: edit.cases)
    (auto intro: rows_ok_mono rows_ok_add rows_ok_tput rows_ok_map simp: mark_approved_def mark_rejected_def)

lemma inj_add: "inj_on f (set rows) \<Longrightarrow> (\<And>x. x \<in> set rows \<Longrightarrow> f x \<noteq> f r) \<Longrightarrow> inj_on f (set (rows @ [r]))"
  by (auto simp: inj_on_def; metis)

lemma inj_tput:
  assumes "inj_on f (set rows)" "\<And>x. x \<in> set rows \<Longrightarrow> key x \<noteq> key r' \<Longrightarrow> f x \<noteq> f r'"
  shows "inj_on f (set (tput key r' rows))"
  using assms by (auto simp: inj_on_def elim!: in_tput; metis)

lemma inj_tput_same:
  assumes "inj_on f (set rows)" "rows_ok key seq rows" "r \<in> set rows" "key r' = key r" "f r' = f r"
  shows "inj_on f (set (tput key r' rows))"
  using assms by (intro inj_tput) (auto simp: inj_on_def)

lemma edit_codes:
  assumes "edit db db'" "ids_ok db" "codes_ok db"
  shows "codes_ok db'"
  using assms(1)
proof (cases rule: edit.cases)
  case (add_document d)
  then have "rdoc_id x \<noteq> rdoc_id d" if "x \<in> set (rq_documents db)" for x
    using assms(2) that by (force simp: ids_ok_def rows_ok_def)
  then have "inj_on (\<lambda>d. (rdoc_project_id d, rdoc_document_code d)) (set (rq_documents db @ [d]))"
    using assms(3) add_document by (intro inj_add) (auto simp: codes_ok_def document_violation_def list_ex_iff)
  then show ?thesis
    using assms(3) add_document(1) by (simp add: codes_ok_def)
next
  case (put_document x x')
  show ?thesis
  proof (cases "rdoc_document_code x' = rdoc_document_code x")
    case True
    then have "inj_on (\<lambda>d. (rdoc_project_id d, rdoc_document_code d)) (set (tput rdoc_id x' (rq_documents db)))"
      using assms(2,3) put_document
      by (intro inj_tput_same [of _ "rq_documents db" rdoc_id "rq_seq db" x x']) (auto simp: codes_ok_def ids_ok_def)
    then show ?thesis
      using assms(3) put_document(1) by (simp add: codes_ok_def)
  next
    case False
    then have "inj_on (\<lambda>d. (rdoc_project_id d, rdoc_document_code d)) (set (tput rdoc_id x' (rq_documents db)))"
      using assms(3) put_document
      by (intro inj_tput) (auto simp: codes_ok_def document_violation_def list_ex_iff)
    then show ?thesis
      using assms(3) put_document(1) by (simp add: codes_ok_def)
  qed
next
  case (add_item r)
  then have "ritm_id x \<noteq> ritm_id r" if "x \<in> set (rq_items db)" for x
    using assms(2) that by (force simp: ids_ok_def rows_ok_def)
  then have "inj_on (\<lambda>r. (ritm_document_id r, ritm_requirement_code r)) (set (rq_items db @ [r]))"
    using assms(3) add_item by (intro inj_add) (auto simp: codes_ok_def requirement_violation_def list_ex_iff)
  then show ?thesis
    using assms(3) add_item(1) by (simp add: codes_ok_def)
next
  case (revise_item r r' v)
  then have "inj_on (\<lambda>r. (ritm_document_id r, ritm_requirement_code r)) (set (tput ritm_id r' (rq_items db)))"
    using assms(2,3) by (intro inj_tput_same [of _ "rq_items db" ritm_id "rq_seq db" r r']) (auto simp: codes_ok_def ids_ok_def)
  then show ?thesis
    using assms(3) revise_item(1) by (simp add: codes_ok_def)
next
  case (touch_item r r')
  then have "inj_on (\<lambda>r. (ritm_document_id r, ritm_requirement_code r)) (set (tput ritm_id r' (rq_items db)))"
    using assms(2,3) content_fields [of r' r]
    by (intro inj_tput_same [of _ "rq_items db" ritm_id "rq_seq db" r r']) (auto simp: codes_ok_def ids_ok_def)
  then show ?thesis
    using assms(3) touch_item(1) by (simp add: codes_ok_def)
next
  case (add_issue i)
  then have "riss_id x \<noteq> riss_id i" if "x \<in> set (rq_issues db)" for x
    using assms(2) that by (force simp: ids_ok_def rows_ok_def)
  then have "inj_on (\<lambda>i. (riss_document_id i, riss_issue_code i)) (set (rq_issues db @ [i]))"
    using assms(3) add_issue by (intro inj_add) (auto simp: codes_ok_def issue_violation_def list_ex_iff)
  then show ?thesis
    using assms(3) add_issue(1) by (simp add: codes_ok_def)
next
  case (put_issue i i')
  then have "inj_on (\<lambda>i. (riss_document_id i, riss_issue_code i)) (set (tput riss_id i' (rq_issues db)))"
    using assms(2,3) by (intro inj_tput_same [of _ "rq_issues db" riss_id "rq_seq db" i i']) (auto simp: codes_ok_def ids_ok_def)
  then show ?thesis
    using assms(3) put_issue(1) by (simp add: codes_ok_def)
qed (use assms(3) in \<open>simp_all add: codes_ok_def\<close>)

lemma keys_of_tput [simp]: "key ` set (tput key r rows) = key ` set rows"
  by (metis keys_tput list.set_map)

lemma edit_requirement_exists: "edit db db' \<Longrightarrow> requirement_exists db k \<Longrightarrow> requirement_exists db' k"
  by (induction rule: edit.induct) (simp_all add: requirement_exists_def)

lemma edit_children:
  assumes "edit db db'" "children_ok db"
  shows "children_ok db'"
proof -
  note keep = edit_requirement_exists [OF assms(1)]
  show ?thesis
    using assms(1)
  proof (cases rule: edit.cases)
    case (revise_item r r' v)
    then have "requirement_exists db (ritm_id r)"
      by (simp add: requirement_exists_def)
    then have "requirement_exists db' (rrev_requirement_id v)"
      using keep revise_item by simp
    then show ?thesis
      using assms(2) keep revise_item(1) by (auto simp: children_ok_def list_all_iff)
  qed (use assms(2) keep in \<open>auto simp: children_ok_def list_all_iff\<close>)
qed

lemma edit_sections_placed:
  assumes "edit db db'" "ids_ok db" "\<forall>s \<in> set (rq_sections db). located db ''document'' (rsec_document_id s) (rsec_document_id s)"
  shows "\<forall>s \<in> set (rq_sections db'). located db' ''document'' (rsec_document_id s) (rsec_document_id s)"
proof -
  note keep = edit_located [OF assms(1,2)]
  show ?thesis
    using assms(1)
  proof (cases rule: edit.cases)
    case (put_sections f)
    then show ?thesis
      using assms(3) keep by simp
  qed (use assms(3) keep in simp_all)
qed

lemma edit_items_placed:
  assumes "edit db db'" "ids_ok db" "\<forall>r \<in> set (rq_items db). item_placed db r"
  shows "\<forall>r \<in> set (rq_items db'). item_placed db' r"
proof -
  have keep: "item_placed db r \<Longrightarrow> item_placed db' r" for r
    using edit_located [OF assms(1,2)] by (auto simp: item_placed_def)
  show ?thesis
    using assms(1)
  proof (cases rule: edit.cases)
    case (add_item r)
    then have "item_placed db r"
      by (simp add: item_placed_def)
    then show ?thesis
      using assms(3) keep add_item(1) by auto
  next
    case (revise_item r r' v)
    then have "item_placed db r'"
      using assms(3) by (auto simp: item_placed_def)
    then show ?thesis
      using assms(3) keep revise_item(1) by (auto elim!: in_tput)
  next
    case (touch_item r r')
    then have "item_placed db r'"
      using assms(3) content_fields [of r' r] by (auto simp: item_placed_def)
    then show ?thesis
      using assms(3) keep touch_item(1) by (auto elim!: in_tput)
  qed (use assms(3) keep in simp_all)
qed

lemma edit_issues_placed:
  assumes "edit db db'" "ids_ok db" "\<forall>i \<in> set (rq_issues db). issue_placed db i"
  shows "\<forall>i \<in> set (rq_issues db'). issue_placed db' i"
proof -
  have keep: "issue_placed db i \<Longrightarrow> issue_placed db' i" for i
    using edit_located [OF assms(1,2)] by (auto simp: issue_placed_def)
  show ?thesis
    using assms(1)
  proof (cases rule: edit.cases)
    case (add_issue i)
    then have "issue_placed db i"
      by (simp add: issue_placed_def)
    then show ?thesis
      using assms(3) keep add_issue(1) by auto
  next
    case (put_issue i i')
    then have "issue_placed db i'"
      using assms(3) by (auto simp: issue_placed_def)
    then show ?thesis
      using assms(3) keep put_issue(1) by (auto elim!: in_tput)
  qed (use assms(3) keep in simp_all)
qed

lemma edit_comments_placed:
  assumes "edit db db'" "ids_ok db" "\<forall>c \<in> set (rq_target_comments db). comment_placed db c"
  shows "\<forall>c \<in> set (rq_target_comments db'). comment_placed db' c"
proof -
  have keep: "comment_placed db c \<Longrightarrow> comment_placed db' c" for c
    using edit_located [OF assms(1,2)] by (simp add: comment_placed_def)
  show ?thesis
    using assms(1)
  proof (cases rule: edit.cases)
    case (add_comment c)
    then have "comment_placed db c"
      by (simp add: comment_placed_def)
    then show ?thesis
      using assms(3) keep add_comment(1) by auto
  next
    case (put_comment c c')
    then have "comment_placed db c'"
      using assms(3) by (simp add: comment_placed_def)
    then show ?thesis
      using assms(3) keep put_comment(1) by (auto elim!: in_tput)
  qed (use assms(3) keep in simp_all)
qed

lemma edit_replies_placed:
  assumes "edit db db'" "ids_ok db" "\<forall>c \<in> set (rq_target_comments db). reply_placed db c"
  shows "\<forall>c \<in> set (rq_target_comments db'). reply_placed db' c"
  using assms(1)
proof (cases rule: edit.cases)
  case (add_comment c)
  then have "reply_placed db' c"
    using assms(2) by (fastforce simp: reply_placed_def ids_ok_def rows_ok_def)
  then show ?thesis
    using assms(3) add_comment(1) by (auto simp: reply_placed_def)
next
  case (put_comment c c')
  have still: "\<exists>q' \<in> set (rq_target_comments db'). rtc_id q' = rtc_id q \<and> rtc_document_id q' = rtc_document_id q \<and>
      rtc_target_type q' = rtc_target_type q \<and> rtc_target_id q' = rtc_target_id q" if "q \<in> set (rq_target_comments db)" for q
  proof (cases "rtc_id q = rtc_id c")
    case True
    then have "q = c"
      using that put_comment(2) assms(2) by (auto simp: ids_ok_def dest: rows_ok_unique)
    moreover have "c' \<in> set (rq_target_comments db')"
      using put_comment(1-3) by (force simp: tput_def)
    ultimately show ?thesis
      using put_comment by auto
  next
    case False
    then have "q \<in> set (rq_target_comments db')"
      using that put_comment(1,3) by (force simp: tput_def)
    then show ?thesis by blast
  qed
  have keep: "reply_placed db x \<Longrightarrow> reply_placed db' x" for x
    unfolding reply_placed_def using still by metis
  have "reply_placed db c'"
    using assms(3) put_comment by (auto simp: reply_placed_def)
  then show ?thesis
    using assms(3) keep put_comment(1) by (auto elim!: in_tput)
qed (use assms(3) in \<open>simp_all add: reply_placed_def\<close>)

lemma edit_approvals_placed:
  assumes "edit db db'" "ids_ok db" "\<forall>a \<in> set (rq_approvals db). approval_placed db a"
  shows "\<forall>a \<in> set (rq_approvals db'). approval_placed db' a"
proof -
  have keep: "approval_placed db a \<Longrightarrow> approval_placed db' a" for a
    using edit_located [OF assms(1,2)] by (simp add: approval_placed_def)
  show ?thesis
    using assms(1)
  proof (cases rule: edit.cases)
    case (add_approval a)
    then have "approval_placed db a"
      by (simp add: approval_placed_def)
    then show ?thesis
      using assms(3) keep add_approval(1) by auto
  next
    case (decide_approval a a' now comment)
    then have "approval_placed db a'"
      using assms(3) by (auto simp: approval_placed_def mark_approved_def mark_rejected_def)
    then show ?thesis
      using assms(3) keep decide_approval(1) by (auto elim!: in_tput)
  qed (use assms(3) keep in simp_all)
qed

lemma edit_relations_placed:
  assumes "edit db db'" "ids_ok db" "\<forall>l \<in> set (rq_relations db). relation_placed db l"
  shows "\<forall>l \<in> set (rq_relations db'). relation_placed db' l"
proof -
  have keep: "relation_placed db l \<Longrightarrow> relation_placed db' l" for l
    using edit_located [OF assms(1,2)] by (simp add: relation_placed_def)
  show ?thesis
    using assms(1)
  proof (cases rule: edit.cases)
    case (add_relation l)
    then have "relation_placed db l"
      by (simp add: relation_placed_def)
    then show ?thesis
      using assms(3) keep add_relation(1) by auto
  next
    case (children s ds ls cs vs rs)
    then show ?thesis
      using assms(3) keep by auto
  qed (use assms(3) keep in simp_all)
qed

lemma edit_places:
  assumes "edit db db'" "ids_ok db" "places_ok db"
  shows "places_ok db'"
  using assms(3) unfolding places_ok_def
  by (elim conjE, intro conjI edit_sections_placed [OF assms(1,2)] edit_items_placed [OF assms(1,2)]
      edit_issues_placed [OF assms(1,2)] edit_comments_placed [OF assms(1,2)] edit_replies_placed [OF assms(1,2)]
      edit_approvals_placed [OF assms(1,2)] edit_relations_placed [OF assms(1,2)])

lemma chained_snoc:
  "chained vs c n \<Longrightarrow> content (rrev_before_value v) = c \<Longrightarrow> n < rrev_version v \<Longrightarrow> content (rrev_after_value v) = c' \<Longrightarrow>
   rrev_version v \<le> n' \<Longrightarrow> chained (vs @ [v]) c' n'"
  by (induction vs c n rule: chained.induct) auto

lemma chained_mono: "chained vs c n \<Longrightarrow> n \<le> n' \<Longrightarrow> chained vs c n'"
  by (induction vs c n rule: chained.induct) auto

lemma snapshot_version: "dget (revision_snapshot r) ''version'' = PInt (ritm_version r)"
  by (simp add: revision_snapshot_def)

lemma edit_history:
  assumes "edit db db'" "ids_ok db" "children_ok db" "history_ok db"
  shows "history_ok db'"
  using assms(1)
proof (cases rule: edit.cases)
  case (add_item r)
  have "rrev_requirement_id v \<noteq> ritm_id r" if "v \<in> set (rq_revisions db)" for v
    using assms(2,3) that add_item(2)
    by (fastforce simp: children_ok_def requirement_exists_def list_all_iff ids_ok_def rows_ok_def)
  then have "revisions db (ritm_id r) = []"
    by (auto simp: revisions_def filter_empty_conv)
  then show ?thesis
    using assms(4) add_item(1) by (simp add: history_ok_def revisions_def)
next
  case (revise_item r r' v)
  have "revision_ok v"
    using revise_item by (simp add: revision_ok_def snapshot_version)
  moreover have "chained (revisions db' (ritm_id x)) (content (revision_snapshot x)) (ritm_version x)" if "x \<in> set (rq_items db')" for x
  proof -
    from that have "x = r' \<or> x \<in> set (rq_items db) \<and> ritm_id x \<noteq> ritm_id r"
      using revise_item(1,3) by (auto elim!: in_tput)
    then show ?thesis
    proof
      assume x: "x = r'"
      have "chained (revisions db (ritm_id r)) (content (revision_snapshot r)) (ritm_version r)"
        using assms(4) revise_item(2) by (simp add: history_ok_def)
      then have "chained (revisions db (ritm_id r) @ [v]) (content (revision_snapshot r')) (ritm_version r')"
        using revise_item by (intro chained_snoc) auto
      then show ?thesis
        using x revise_item by (simp add: revisions_def)
    next
      assume "x \<in> set (rq_items db) \<and> ritm_id x \<noteq> ritm_id r"
      then show ?thesis
        using assms(4) revise_item by (auto simp: history_ok_def revisions_def)
    qed
  qed
  ultimately show ?thesis
    using assms(4) revise_item(1) by (simp add: history_ok_def)
next
  case (touch_item r r')
  have "chained (revisions db (ritm_id x)) (content (revision_snapshot x)) (ritm_version x)" if "x \<in> set (rq_items db')" for x
  proof -
    from that have "x = r' \<or> x \<in> set (rq_items db)"
      using touch_item(1) by (auto elim!: in_tput)
    then show ?thesis
      using assms(4) touch_item chained_mono by (fastforce simp: history_ok_def)
  qed
  then show ?thesis
    using assms(4) touch_item(1) by (simp add: history_ok_def revisions_def)
qed (use assms(4) in \<open>simp_all add: history_ok_def revisions_def\<close>)

theorem edit_inv: "edit db db' \<Longrightarrow> requirement_inv db \<Longrightarrow> requirement_inv db'"
  unfolding requirement_inv_def by (elim conjE, intro conjI) (rule edit_ids edit_codes edit_places edit_children edit_history; assumption)+

lemma edits_inv: "edits db db' \<Longrightarrow> requirement_inv db \<Longrightarrow> requirement_inv db'"
  by (induction rule: rtranclp_induct) (auto intro: edit_inv)

lemma edits_located: "edits db db' \<Longrightarrow> requirement_inv db \<Longrightarrow> located db t k d \<Longrightarrow> located db' t k d"
proof (induction rule: rtranclp_induct)
  case (step y z)
  then show ?case
    using edits_inv [OF step.hyps(1)] edit_located [OF step.hyps(2)] by (simp add: requirement_inv_def)
qed

end
