(* ===== verification/Requirement_System.thy ===== *)
theory Requirement_System imports Requirement_Edits begin

text \<open>
  Every operation of the requirement services is a sequence of edits; the step relation, the states it reaches,
  and the invariant of all of them. Other sessions do edits too (\<open>sessions_edit\<close>).
\<close>

subsection \<open>Composing edits\<close>

definition sessions_edit :: "requirement_env \<Rightarrow> bool" where
  "sessions_edit env \<longleftrightarrow> (\<forall>n db. requirement_inv db \<longrightarrow> edits db (qe_others env n db))"

lemma same_tables_edit: "same_tables db db' \<Longrightarrow> edit db db'"
proof -
  assume "same_tables db db'"
  then obtain l n s where "rq_seq db \<le> s" "db' = db\<lparr>rq_logs := rq_logs db @ l, rq_notices := n, rq_seq := s\<rparr>"
    by (auto simp: same_tables_def)
  then show ?thesis
    using bookkeeping [where db = db and s = s and l = "rq_logs db @ l" and n = n and a = "rq_audit db" and c = "rq_receipts db"] by simp
qed

lemma edits_tables: "edits a b \<Longrightarrow> same_tables b c \<Longrightarrow> edits a c"
  by (meson rtranclp.rtrancl_into_rtrancl same_tables_edit)

lemma edits_audit: "edits a b \<Longrightarrow> edits a (b\<lparr>rq_audit := x\<rparr>)"
  using bookkeeping [where db = b and s = "rq_seq b" and l = "rq_logs b" and n = "rq_notices b" and a = x and c = "rq_receipts b"]
  by (simp add: rtranclp.rtrancl_into_rtrancl)

lemma edits_receipts: "edits a b \<Longrightarrow> edits a (b\<lparr>rq_receipts := x\<rparr>)"
  using bookkeeping [where db = b and s = "rq_seq b" and l = "rq_logs b" and n = "rq_notices b" and a = "rq_audit b" and c = x]
  by (simp add: rtranclp.rtrancl_into_rtrancl)

lemmas edits_log = edits_tables [OF _ same_tables_log] edits_tables [OF _ same_tables_log_update]
  edits_tables [OF _ same_tables_emit] edits_tables [OF _ same_tables_assignment]

lemmas edit_intros = add_document [THEN r_into_rtranclp [of edit]] put_document [THEN r_into_rtranclp [of edit]]
  add_section [THEN r_into_rtranclp [of edit]] put_sections [THEN r_into_rtranclp [of edit]]
  touch_item [THEN r_into_rtranclp [of edit]] put_issue [THEN r_into_rtranclp [of edit]]
  add_comment [THEN r_into_rtranclp [of edit]] put_comment [THEN r_into_rtranclp [of edit]]
  add_approval [THEN r_into_rtranclp [of edit]] decide_approval [THEN r_into_rtranclp [of edit]]
  add_relation [THEN r_into_rtranclp [of edit]]

lemma edits_after: "edits a b \<Longrightarrow> edit b c \<Longrightarrow> edits a c"
  by (rule rtranclp.rtrancl_into_rtrancl)

lemma sessions_editD: "sessions_edit env \<Longrightarrow> requirement_inv db \<Longrightarrow> edits db (qe_others env n db)"
  by (simp add: sessions_edit_def)

lemma sessions_inv: "sessions_edit env \<Longrightarrow> requirement_inv db \<Longrightarrow> requirement_inv (qe_others env n db)"
  using edits_inv sessions_editD by blast

lemma inv_ids: "requirement_inv db \<Longrightarrow> ids_ok db"
  by (simp add: requirement_inv_def)

subsection \<open>Lookups\<close>

lemma find_some: "find p xs = Some x \<Longrightarrow> x \<in> set xs \<and> p x"
  by (auto simp: find_Some_iff)

lemma document_in_projectD:
  "get_document_in_project db p k = Inr d \<Longrightarrow>
   d \<in> set (rq_documents db) \<and> rdoc_id d = k \<and> rdoc_deleted_at d = None \<and> rdoc_project_id d = p"
  by (auto simp: get_document_in_project_def document_get_by_id_def dest!: find_some split: option.splits if_splits)

lemma located_document:
  assumes "d \<in> set (rq_documents db)"
  shows "located db ''document'' (rdoc_id d) (rdoc_id d)"
proof -
  obtain x where "tget rdoc_id (rdoc_id d) (rq_documents db) = Some x"
    using assms by (metis image_eqI not_None_eq tget_None_iff)
  then show ?thesis
    using tget_SomeD by (fastforce simp: located_def target_models_def relation_target_document_def)
qed

lemma located_section:
  assumes "ids_ok db" "s \<in> set (rq_sections db)"
  shows "located db ''section'' (rsec_id s) (rsec_document_id s)"
proof -
  have "tget rsec_id (rsec_id s) (rq_sections db) = Some s"
    using assms by (auto simp: ids_ok_def intro: rows_ok_tget)
  then show ?thesis
    by (simp add: located_def target_models_def relation_target_document_def)
qed

lemma located_item:
  assumes "ids_ok db" "r \<in> set (rq_items db)"
  shows "located db ''requirement_item'' (ritm_id r) (ritm_document_id r)"
proof -
  have "tget ritm_id (ritm_id r) (rq_items db) = Some r"
    using assms by (auto simp: ids_ok_def intro: rows_ok_tget)
  then show ?thesis
    by (simp add: located_def target_models_def relation_target_document_def)
qed

lemma located_issue:
  assumes "ids_ok db" "i \<in> set (rq_issues db)"
  shows "located db ''open_issue'' (riss_id i) (riss_document_id i)"
proof -
  have "tget riss_id (riss_id i) (rq_issues db) = Some i"
    using assms by (auto simp: ids_ok_def intro: rows_ok_tget)
  then show ?thesis
    by (simp add: located_def target_models_def relation_target_document_def)
qed

lemma document_in_project_located: "get_document_in_project db p k = Inr d \<Longrightarrow> located db ''document'' k k"
  using located_document document_in_projectD by blast

lemma section_in_documentD:
  "get_section_in_document db k s = Inr x \<Longrightarrow> x \<in> set (rq_sections db) \<and> rsec_id x = s \<and> rsec_document_id x = k"
  by (auto simp: get_section_in_document_def section_get_by_id_def dest!: find_some split: option.splits if_splits)

lemma section_in_document_located: "ids_ok db \<Longrightarrow> get_section_in_document db k s = Inr x \<Longrightarrow> located db ''section'' s k"
  using located_section section_in_documentD by blast

lemma requirement_in_document_located:
  "ids_ok db \<Longrightarrow> get_requirement_in_document db k r = Inr x \<Longrightarrow> located db ''requirement_item'' r k"
  using located_item
  by (auto simp: get_requirement_in_document_def requirement_get_by_id_def dest!: find_some split: option.splits if_splits)

lemma get_sectionD: "get_section p k db = Inr s \<Longrightarrow> s \<in> set (rq_sections db) \<and> rsec_id s = k \<and> rsec_deleted_at s = None"
  by (auto simp: get_section_def section_get_by_id_def dest!: find_some)

lemma get_requirementD:
  "get_requirement p k db = Inr r \<Longrightarrow> r \<in> set (rq_items db) \<and> ritm_id r = k \<and> ritm_deleted_at r = None"
  by (auto simp: get_requirement_def requirement_get_by_id_def dest!: find_some)

lemma get_open_issueD:
  "get_open_issue p k db = Inr i \<Longrightarrow> i \<in> set (rq_issues db) \<and> riss_id i = k \<and> riss_deleted_at i = None"
  by (auto simp: get_open_issue_def issue_get_by_id_def dest!: find_some)

subsection \<open>Documents and sections\<close>

lemma create_document_edits:
  assumes "create_document env p data a db = Inr (d, db')"
  shows "edits db db'"
proof -
  from assms have d: "\<not> document_violation d db" "rdoc_id d = rq_seq db + 1"
    and db': "\<exists>v. db' = log_create (qe_now env) (Some (rdoc_id d)) ''document'' (rdoc_id d) ''created'' None None v None a
      (db\<lparr>rq_seq := rq_seq db + 1, rq_documents := rq_documents db @ [d]\<rparr>)"
    by (auto simp: create_document_def Let_def new_document_def split: if_splits)
  then show ?thesis
    by (auto intro!: edits_log edit_intros)
qed

lemma update_document_edits:
  assumes "update_document env p k data a db = Inr (d, db')"
  shows "edits db db'"
  using assms unfolding update_document_def
  by (auto simp: Let_def updated_document_def dest!: document_in_projectD split: if_splits
      intro!: edits_log edit_intros)

lemma delete_document_edits:
  assumes "delete_document env p k a db = Inr db'"
  shows "edits db db'"
  using assms unfolding delete_document_def
  by (auto simp: Let_def dest!: document_in_projectD intro!: edits_log edit_intros)

lemma create_section_edits:
  assumes "create_section env p k data a db = Inr (s, db')"
  shows "edits db db'"
  using assms document_in_project_located unfolding create_section_def
  by (auto simp: Let_def new_section_def intro!: edits_log edit_intros)

lemma tput_section_edit:
  assumes "requirement_inv db" "s \<in> set (rq_sections db)" "rsec_id s' = rsec_id s" "rsec_document_id s' = rsec_document_id s"
  shows "edit db (db\<lparr>rq_sections := tput rsec_id s' (rq_sections db)\<rparr>)"
  unfolding tput_def using assms
  by (intro put_sections) (auto simp: requirement_inv_def ids_ok_def dest: rows_ok_unique)

lemma update_section_edits:
  assumes "update_section env p k data a db = Inr (s, db')" "requirement_inv db"
  shows "edits db db'"
  using assms unfolding update_section_def
  by (auto simp: Let_def updated_section_def dest!: get_sectionD split: if_splits
      intro!: edits_log tput_section_edit [THEN r_into_rtranclp [of edit]])

lemma delete_section_edits:
  assumes "delete_section env p k a db = Inr db'" "requirement_inv db"
  shows "edits db db'"
  using assms unfolding delete_section_def
  by (auto simp: Let_def dest!: get_sectionD intro!: edits_log tput_section_edit [THEN r_into_rtranclp [of edit]])

lemma update_sort_order_edits:
  assumes "update_sort_order env p k items a db = Inr (ss, db')"
  shows "edits db db'"
proof (cases "items = []")
  case False
  with assms show ?thesis
    unfolding update_sort_order_def write_sort_orders_def
    by (auto simp: Let_def intro!: edits_log edit_intros split: option.split)
qed (use assms in \<open>auto simp: update_sort_order_def\<close>)

lemma create_sections_edits:
  "create_sections env p k a n kinds db = Inr db' \<Longrightarrow> edits db db'"
proof (induction kinds arbitrary: n db)
  case (Cons kind kinds)
  then show ?case
    by (auto dest!: create_section_edits intro: rtranclp_trans)
qed simp

lemma standard_transaction_edits:
  assumes "standard_transaction env p a data h db = Inr (d, db')"
  shows "edits db db'"
  using assms unfolding standard_transaction_def
  by (auto simp: split: if_splits intro!: edits_receipts dest!: create_document_edits create_sections_edits intro: rtranclp_trans)

lemma create_standard_edits:
  assumes "create_standard env p a active data db = Inr (x, db')" "requirement_inv db" "sessions_edit env"
  shows "edits db db'"
proof -
  have others: "edits db (qe_others env 0 db)" "requirement_inv (qe_others env 0 db)"
    using assms(2,3) sessions_editD sessions_inv by auto
  have more: "edits db (qe_others env 1 (qe_others env 0 db))"
    using others assms(3) sessions_editD rtranclp_trans by metis
  show ?thesis
    using assms(1) others more unfolding create_standard_def Let_def
    by (auto split: option.splits sum.splits if_splits prod.splits dest!: standard_transaction_edits intro: rtranclp_trans)
qed

subsection \<open>Requirements\<close>

lemma insert_requirement_edits:
  assumes "insert_requirement env req data a n m db = Inr (r, db')" "requirement_inv db" "sessions_edit env"
    "located db ''document'' (rcr_document_id data) (rcr_document_id data)"
    "\<And>s. rcr_section_id data = Some s \<Longrightarrow> located db ''section'' s (rcr_document_id data)"
  shows "edits db db' \<and> r \<in> set (rq_items db') \<and> ritm_document_id r = rcr_document_id data"
  using assms
proof (induction env req data a n m db rule: insert_requirement.induct)
  case (2 env req data a n m db)
  let ?db1 = "qe_others env n db"
  have db1: "edits db ?db1" "requirement_inv ?db1"
    using sessions_editD [OF 2(4,3)] sessions_inv [OF 2(4,3)] by auto
  have at: "located ?db1 ''document'' (rcr_document_id data) (rcr_document_id data)"
    and sec: "\<And>s. rcr_section_id data = Some s \<Longrightarrow> located ?db1 ''section'' s (rcr_document_id data)"
    using edits_located [OF db1(1) 2(3)] 2(5,6) by auto
  from 2(2) obtain code where code: "(case req of Some c \<Rightarrow> Inr c | None \<Rightarrow> generate_requirement_code db (rcr_document_id data)) = Inr code"
    by auto
  let ?r = "new_requirement (qe_now env) (rq_seq ?db1 + 1) code data a"
  show ?case
  proof (cases "requirement_violation ?r ?db1")
    case True
    with 2(2) code have "req = None" "insert_requirement env req data a (n + 1) m ?db1 = Inr (r, db')"
      by (auto simp: Let_def split: if_splits)
    then have "edits ?db1 db' \<and> r \<in> set (rq_items db') \<and> ritm_document_id r = rcr_document_id data"
      using 2(1) [OF refl refl] True db1(2) 2(4) at sec by simp
    with db1(1) show ?thesis
      by auto
  next
    case False
    with 2(2) code have r: "r = ?r" "db' = ?db1\<lparr>rq_seq := rq_seq ?db1 + 1, rq_items := rq_items ?db1 @ [?r]\<rparr>"
      by (auto simp: Let_def)
    have "edit ?db1 db'"
      unfolding r(2) using False at sec by (intro add_item) (simp_all add: new_requirement_def)
    with db1(1) r show ?thesis
      by (simp add: new_requirement_def rtranclp.rtrancl_into_rtrancl)
  qed
qed simp

lemma create_requirement_edits:
  assumes "create_requirement env p data a db = Inr (r, db')" "requirement_inv db" "sessions_edit env"
  shows "edits db db'"
proof -
  have sec: "\<exists>x. get_section_in_document db (rcr_document_id data) s = Inr x" if "rcr_section_id data = Some s" for s
    using assms(1) that by (auto simp: create_requirement_def)
  obtain d where d: "get_document_in_project db p (rcr_document_id data) = Inr d"
    using assms(1) by (auto simp: create_requirement_def)
  have "\<exists>n db1. insert_requirement env (stripped_code (rcr_requirement_code data)) data a 0 n db = Inr (r, db1) \<and>
      (\<exists>v. db' = log_create (qe_now env) (Some (ritm_document_id r)) ''requirement_item'' (ritm_id r) ''created'' None None v None a
       (assigned_requirement p a None r db1))"
    using assms(1) by (auto simp: create_requirement_def Let_def simp del: insert_requirement.simps)
  then obtain db1 n where ins: "insert_requirement env (stripped_code (rcr_requirement_code data)) data a 0 n db = Inr (r, db1)"
    and db': "\<exists>v. db' = log_create (qe_now env) (Some (ritm_document_id r)) ''requirement_item'' (ritm_id r) ''created'' None None v None a
       (assigned_requirement p a None r db1)"
    by blast
  have "edits db db1"
    using insert_requirement_edits [OF ins assms(2,3)] document_in_project_located [OF d] sec
      section_in_document_located [OF inv_ids [OF assms(2)]] by blast
  then show ?thesis
    using db' by (auto simp: assigned_requirement_def intro!: edits_log)
qed

lemma located_bookkeeping [simp]:
  "located (db\<lparr>rq_logs := l, rq_notices := n, rq_seq := s\<rparr>) = located db"
  by (simp add: located_def relation_target_document_def fun_eq_iff)

text \<open>The new row, its notices and its revision.\<close>

lemma revise_edits:
  assumes "same_tables (db\<lparr>rq_items := tput ritm_id r' (rq_items db)\<rparr>) db1" "r \<in> set (rq_items db)" "ritm_id r' = ritm_id r"
    "ritm_document_id r' = ritm_document_id r" "ritm_requirement_code r' = ritm_requirement_code r"
    "ritm_version r' = ritm_version r + 1"
    "\<And>s. ritm_section_id r' = Some s \<Longrightarrow> ritm_section_id r = Some s \<or> located db ''section'' s (ritm_document_id r)"
  shows "edits db (revision_create now r r' a summary reason db1)"
proof -
  from assms(1) obtain l n s where s: "rq_seq db \<le> s"
    and db1: "db1 = db\<lparr>rq_items := tput ritm_id r' (rq_items db), rq_logs := rq_logs db @ l, rq_notices := n, rq_seq := s\<rparr>"
    by (auto simp: same_tables_def)
  let ?b = "db\<lparr>rq_logs := rq_logs db @ l, rq_notices := n, rq_seq := s\<rparr>"
  let ?v = "\<lparr>rrev_id = s + 1, rrev_requirement_id = ritm_id r', rrev_version = ritm_version r', rrev_changed_by = a,
          rrev_change_summary = summary, rrev_before_value = revision_snapshot r,
          rrev_after_value = revision_snapshot r', rrev_reason = reason, rrev_created_at = now\<rparr>"
  have "edits db ?b"
    using s bookkeeping [where db = db and s = s and l = "rq_logs db @ l" and n = n and a = "rq_audit db" and c = "rq_receipts db"]
    by (simp add: r_into_rtranclp)
  moreover have "edit ?b (?b\<lparr>rq_seq := rq_seq ?b + 1, rq_items := tput ritm_id r' (rq_items ?b), rq_revisions := rq_revisions ?b @ [?v]\<rparr>)"
    using assms(2-7) by (intro revise_item [of r]) simp_all
  moreover have "revision_create now r r' a summary reason db1 =
      ?b\<lparr>rq_seq := rq_seq ?b + 1, rq_items := tput ritm_id r' (rq_items ?b), rq_revisions := rq_revisions ?b @ [?v]\<rparr>"
    unfolding db1 revision_create_def Let_def by simp
  ultimately show ?thesis
    by (metis rtranclp.rtrancl_into_rtrancl)
qed

lemma update_requirement_edits:
  assumes "update_requirement env p k data a db = Inr (r, db')" "requirement_inv db"
  shows "edits db db'"
proof -
  obtain q where q: "get_requirement p k db = Inr q" and r: "r = updated_requirement (qe_now env) data a q"
    and sec: "\<forall>s. rup_section_id data = Set s \<longrightarrow> (\<exists>x. get_section_in_document db (ritm_document_id q) s = Inr x)"
    and db': "same_tables (revision_create (qe_now env) q r a (rup_change_summary data) (rup_reason data)
        (assigned_requirement p a (ritm_owner_id q) r (db\<lparr>rq_items := tput ritm_id r (rq_items db)\<rparr>))) db'"
    using assms(1) by (auto simp: update_requirement_def Let_def same_tables_log_update split: if_splits patch.splits)
  have "edits db (revision_create (qe_now env) q r a (rup_change_summary data) (rup_reason data)
        (assigned_requirement p a (ritm_owner_id q) r (db\<lparr>rq_items := tput ritm_id r (rq_items db)\<rparr>)))"
  proof (rule revise_edits)
    show "same_tables (db\<lparr>rq_items := tput ritm_id r (rq_items db)\<rparr>)
       (assigned_requirement p a (ritm_owner_id q) r (db\<lparr>rq_items := tput ritm_id r (rq_items db)\<rparr>))"
      by (simp add: assigned_requirement_def same_tables_assignment)
    show "q \<in> set (rq_items db)"
      using get_requirementD [OF q] by simp
    show "ritm_section_id q = Some s \<or> located db ''section'' s (ritm_document_id q)" if "ritm_section_id r = Some s" for s
      using that sec section_in_document_located [OF inv_ids [OF assms(2)]]
      by (cases "rup_section_id data") (auto simp: r updated_requirement_def set_nullable_def)
  qed (simp_all add: r updated_requirement_def)
  then show ?thesis
    using db' by (rule edits_tables)
qed

lemma touch_requirement_edits:
  assumes "r \<in> set (rq_items db)" "revision_snapshot (r'\<lparr>ritm_version := v\<rparr>) = revision_snapshot (r\<lparr>ritm_version := v\<rparr>)"
    "ritm_version r \<le> ritm_version r'"
  shows "edits db (db\<lparr>rq_items := tput ritm_id r' (rq_items db)\<rparr>)"
proof (rule r_into_rtranclp, rule touch_item [of r])
  have "content (revision_snapshot (x\<lparr>ritm_version := v\<rparr>)) = content (revision_snapshot x)" for x
    by (simp add: content_def revision_snapshot_def)
  then show "content (revision_snapshot r') = content (revision_snapshot r)"
    using assms(2) by metis
  show "ritm_id r' = ritm_id r"
    using assms(2) by (simp add: revision_snapshot_def)
qed (use assms in simp_all)

lemma delete_requirement_edits:
  assumes "delete_requirement env p k a db = Inr db'"
  shows "edits db db'"
  using assms unfolding delete_requirement_def
  by (auto simp: Let_def revision_snapshot_def dest!: get_requirementD intro!: edits_log touch_requirement_edits)

subsection \<open>Open issues\<close>

lemma insert_issue_edits:
  assumes "insert_issue env req data a n m db = Inr (i, db')" "requirement_inv db" "sessions_edit env"
    "located db ''document'' (icr_document_id data) (icr_document_id data)"
    "\<And>r. icr_related_requirement_id data = Some r \<Longrightarrow> located db ''requirement_item'' r (icr_document_id data)"
  shows "edits db db'"
  using assms
proof (induction env req data a n m db rule: insert_issue.induct)
  case (2 env req data a n m db)
  let ?db1 = "qe_others env n db"
  have db1: "edits db ?db1" "requirement_inv ?db1"
    using sessions_editD [OF 2(4,3)] sessions_inv [OF 2(4,3)] by auto
  have at: "located ?db1 ''document'' (icr_document_id data) (icr_document_id data)"
    and rel: "\<And>r. icr_related_requirement_id data = Some r \<Longrightarrow> located ?db1 ''requirement_item'' r (icr_document_id data)"
    using edits_located [OF db1(1) 2(3)] 2(5,6) by auto
  from 2(2) obtain code where code: "(case req of Some c \<Rightarrow> Inr c | None \<Rightarrow> generate_issue_code db (icr_document_id data)) = Inr code"
    by auto
  let ?i = "new_issue (qe_now env) (rq_seq ?db1 + 1) code data a"
  show ?case
  proof (cases "issue_violation ?i ?db1")
    case True
    with 2(2) code have "req = None" "insert_issue env req data a (n + 1) m ?db1 = Inr (i, db')"
      by (auto simp: Let_def split: if_splits)
    then have "edits ?db1 db'"
      using 2(1) [OF refl refl] True db1(2) 2(4) at rel by simp
    with db1(1) show ?thesis
      by auto
  next
    case False
    with 2(2) code have r: "db' = ?db1\<lparr>rq_seq := rq_seq ?db1 + 1, rq_issues := rq_issues ?db1 @ [?i]\<rparr>"
      by (auto simp: Let_def)
    have "edit ?db1 db'"
      unfolding r using False at rel by (intro add_issue) (simp_all add: new_issue_def)
    with db1(1) show ?thesis
      by (rule rtranclp.rtrancl_into_rtrancl)
  qed
qed simp

lemma create_open_issue_edits:
  assumes "create_open_issue env p data a db = Inr (i, db')" "requirement_inv db" "sessions_edit env"
  shows "edits db db'"
proof -
  have rel: "\<exists>x. get_requirement_in_document db (icr_document_id data) r = Inr x" if "icr_related_requirement_id data = Some r" for r
    using assms(1) that by (auto simp: create_open_issue_def)
  obtain d where d: "get_document_in_project db p (icr_document_id data) = Inr d"
    using assms(1) by (auto simp: create_open_issue_def)
  have "\<exists>n db1. insert_issue env (stripped_code (icr_issue_code data)) data a 0 n db = Inr (i, db1) \<and>
      (\<exists>v. db' = log_create (qe_now env) (Some (riss_document_id i)) ''open_issue'' (riss_id i) ''created'' None None v None a
       (assigned_issue p a None i db1))"
    using assms(1) by (auto simp: create_open_issue_def Let_def simp del: insert_issue.simps)
  then obtain db1 n where ins: "insert_issue env (stripped_code (icr_issue_code data)) data a 0 n db = Inr (i, db1)"
    and db': "same_tables (assigned_issue p a None i db1) db'"
    using same_tables_log by blast
  have "edits db db1"
    using insert_issue_edits [OF ins assms(2,3)] document_in_project_located [OF d] rel
      requirement_in_document_located [OF inv_ids [OF assms(2)]] by blast
  then have "edits db (assigned_issue p a None i db1)"
    by (simp add: assigned_issue_def edits_log)
  then show ?thesis
    using db' by (rule edits_tables)
qed

lemma update_open_issue_edits:
  assumes "update_open_issue env p k data a db = Inr (i, db')" "requirement_inv db"
  shows "edits db db'"
proof -
  obtain q where q: "get_open_issue p k db = Inr q" and i: "i = updated_issue (qe_now env) data a q"
    and rel: "\<forall>r. iup_related_requirement_id data = Set r \<longrightarrow> (\<exists>x. get_requirement_in_document db (riss_document_id q) r = Inr x)"
    and db': "same_tables (assigned_issue p a (riss_assignee_id q) i (db\<lparr>rq_issues := tput riss_id i (rq_issues db)\<rparr>)) db'"
    using assms(1) by (auto simp: update_open_issue_def Let_def same_tables_log_update split: if_splits patch.splits)
  have "edits db (db\<lparr>rq_issues := tput riss_id i (rq_issues db)\<rparr>)"
  proof (rule edit_intros, rule conjunct1 [OF get_open_issueD [OF q]])
    show "riss_related_requirement_id q = Some r \<or> located db ''requirement_item'' r (riss_document_id q)"
      if "riss_related_requirement_id i = Some r" for r
      using that rel requirement_in_document_located [OF inv_ids [OF assms(2)]]
      by (cases "iup_related_requirement_id data") (auto simp: i updated_issue_def set_nullable_def)
  qed (simp_all add: i updated_issue_def)
  then have "edits db (assigned_issue p a (riss_assignee_id q) i (db\<lparr>rq_issues := tput riss_id i (rq_issues db)\<rparr>))"
    by (simp add: assigned_issue_def edits_log)
  then show ?thesis
    using db' by (rule edits_tables)
qed

lemma delete_open_issue_edits:
  assumes "delete_open_issue env p k a db = Inr db'"
  shows "edits db db'"
  using assms unfolding delete_open_issue_def
  by (auto simp: Let_def dest!: get_open_issueD intro!: edits_log edit_intros)

text \<open>The issue in memory is, at every attempt, a row of the table under its id and in its document.\<close>

lemma edit_issue_rows:
  "edit db db' \<Longrightarrow> i \<in> set (rq_issues db) \<Longrightarrow> ids_ok db \<Longrightarrow>
   \<exists>j \<in> set (rq_issues db'). riss_id j = riss_id i \<and> riss_document_id j = riss_document_id i"
proof (induction rule: edit.induct)
  case (put_issue q db q')
  show ?case
  proof (cases "riss_id i = riss_id q")
    case True
    then have "i = q"
      using put_issue by (auto simp: ids_ok_def dest: rows_ok_unique)
    with put_issue show ?thesis
      by (force simp: tput_def)
  qed (use put_issue in \<open>force simp: tput_def\<close>)
qed auto

lemma edits_issue_rows:
  "edits db db' \<Longrightarrow> requirement_inv db \<Longrightarrow> i \<in> set (rq_issues db) \<Longrightarrow>
   \<exists>j \<in> set (rq_issues db'). riss_id j = riss_id i \<and> riss_document_id j = riss_document_id i"
proof (induction rule: rtranclp_induct)
  case (step y z)
  then show ?case
    using edits_inv [OF step.hyps(1)] edit_issue_rows [OF step.hyps(2)] inv_ids by metis
qed auto

lemma insert_promoted_edits:
  assumes "insert_promoted env data a n m i db = Inr (r, i', db')" "requirement_inv db" "sessions_edit env"
    "i \<in> set (rq_issues db)" "\<And>s. ipr_section_id data = Some s \<Longrightarrow> located db ''section'' s (riss_document_id i)"
  shows "edits db db' \<and> r \<in> set (rq_items db') \<and> ritm_document_id r = riss_document_id i' \<and>
    riss_id i' = riss_id i \<and> riss_document_id i' = riss_document_id i"
  using assms
proof (induction env data a n m i db rule: insert_promoted.induct)
  case (2 env data a n m i db)
  let ?db1 = "qe_others env n db"
  have db1: "edits db ?db1" "requirement_inv ?db1"
    using sessions_editD [OF 2(4,3)] sessions_inv [OF 2(4,3)] by auto
  obtain j where j: "j \<in> set (rq_issues ?db1)" "riss_id j = riss_id i" "riss_document_id j = riss_document_id i"
    using edits_issue_rows [OF db1(1) 2(3,5)] by auto
  have at: "located ?db1 ''document'' (riss_document_id i) (riss_document_id i)"
    using 2(3,5) edits_located [OF db1(1) 2(3)] by (auto simp: requirement_inv_def places_ok_def issue_placed_def)
  have sec: "\<And>s. ipr_section_id data = Some s \<Longrightarrow> located ?db1 ''section'' s (riss_document_id i)"
    using edits_located [OF db1(1) 2(3)] 2(6) by auto
  from 2(2) obtain code where code: "generate_requirement_code db (riss_document_id i) = Inr code"
    by auto
  let ?r = "new_requirement (qe_now env) (rq_seq ?db1 + 1) code (promoted_input data i) a"
  show ?case
  proof (cases "requirement_violation ?r ?db1")
    case True
    have "tget riss_id (riss_id i) (rq_issues ?db1) = Some j"
      using j db1(2) rows_ok_tget [of riss_id "rq_seq ?db1" "rq_issues ?db1" j] by (simp add: requirement_inv_def ids_ok_def)
    with 2(2) code True have "m \<noteq> 0" "insert_promoted env data a (n + 1) m j ?db1 = Inr (r, i', db')"
      by (auto simp: Let_def split: if_splits)
    then have "edits ?db1 db' \<and> r \<in> set (rq_items db') \<and> ritm_document_id r = riss_document_id i' \<and>
        riss_id i' = riss_id j \<and> riss_document_id i' = riss_document_id j"
      using 2(1) [OF refl refl] True db1(2) 2(4) j sec by simp
    with db1(1) j show ?thesis
      by auto
  next
    case False
    with 2(2) code have r: "r = ?r" "i' = i" "db' = ?db1\<lparr>rq_seq := rq_seq ?db1 + 1, rq_items := rq_items ?db1 @ [?r]\<rparr>"
      by (auto simp: Let_def)
    have "edit ?db1 db'"
      unfolding r(3) using False at sec by (intro add_item) (simp_all add: new_requirement_def promoted_input_def)
    with db1(1) r show ?thesis
      by (simp add: new_requirement_def promoted_input_def rtranclp.rtrancl_into_rtrancl)
  qed
qed simp

lemma promote_edits:
  assumes "promote_to_requirement env p k data a db = Inr (r, db')" "requirement_inv db" "sessions_edit env"
  shows "edits db db'"
proof -
  obtain q where q: "get_open_issue p k db = Inr q"
    using assms(1) by (auto simp: promote_to_requirement_def)
  have sec: "located db ''section'' s (riss_document_id q)" if "ipr_section_id data = Some s" for s
    using assms(1) that q section_in_document_located [OF inv_ids [OF assms(2)]] by (auto simp: promote_to_requirement_def)
  obtain i db1 row where ins: "insert_promoted env data a 0 5 q db = Inr (r, i, db1)"
    and row: "tget riss_id (riss_id i) (rq_issues (assigned_requirement p a None r db1)) = Some row"
    and db': "same_tables ((assigned_requirement p a None r db1)\<lparr>rq_issues :=
       tput riss_id (mark_promoted (qe_now env) (ritm_id r) (ipr_resolution data) a i row)
         (rq_issues (assigned_requirement p a None r db1))\<rparr>) db'"
    using assms(1) q by (auto simp: promote_to_requirement_def Let_def same_tables_log simp del: insert_promoted.simps)
  note ie = insert_promoted_edits [OF ins assms(2,3) conjunct1 [OF get_open_issueD [OF q]] sec]
  have "edits db (assigned_requirement p a None r db1)" (is "edits db ?db2")
    using ie by (simp add: assigned_requirement_def edits_log)
  moreover have "edit ?db2 (?db2\<lparr>rq_issues := tput riss_id (mark_promoted (qe_now env) (ritm_id r) (ipr_resolution data) a i row)
         (rq_issues ?db2)\<rparr>)"
  proof (rule put_issue [of row])
    have inv: "requirement_inv ?db2"
      using calculation assms(2) edits_inv by blast
    have "r \<in> set (rq_items ?db2)"
      using ie by (simp add: assigned_requirement_def)
    then have "located ?db2 ''requirement_item'' (ritm_id r) (riss_document_id i)"
      using located_item [OF inv_ids [OF inv]] ie by metis
    moreover have "riss_document_id row = riss_document_id i"
    proof -
      obtain j where "j \<in> set (rq_issues ?db2)" "riss_id j = riss_id q" "riss_document_id j = riss_document_id q"
        using edits_issue_rows [OF \<open>edits db ?db2\<close> assms(2) conjunct1 [OF get_open_issueD [OF q]]] by auto
      then show ?thesis
        using ie tget_SomeD [OF row] rows_ok_unique [of riss_id "rq_seq ?db2" "rq_issues ?db2" j row] inv
        by (auto simp: requirement_inv_def ids_ok_def)
    qed
    ultimately show "riss_related_requirement_id row = Some x \<or> located ?db2 ''requirement_item'' x (riss_document_id row)"
      if "riss_related_requirement_id (mark_promoted (qe_now env) (ritm_id r) (ipr_resolution data) a i row) = Some x" for x
      using that by (auto simp: mark_promoted_def write_changed_def split: if_splits)
  qed (use tget_SomeD [OF row] in \<open>simp_all add: mark_promoted_def\<close>)
  ultimately show ?thesis
    using db' by (meson edits_tables rtranclp.rtrancl_into_rtrancl)
qed

subsection \<open>Children of a requirement\<close>

lemma get_requirement_exists: "get_requirement p k db = Inr r \<Longrightarrow> requirement_exists db k"
  using get_requirementD by (fastforce simp: requirement_exists_def)

lemma details_edits:
  assumes "requirement_inv db" "\<And>x. x \<in> set ds \<Longrightarrow> x \<in> set (rq_details db) \<or> requirement_exists db (rdet_requirement_id x)"
  shows "edits db (db\<lparr>rq_details := ds\<rparr>)" "rq_seq db \<le> s \<Longrightarrow> edits db (db\<lparr>rq_seq := s, rq_details := ds\<rparr>)"
proof -
  have "\<forall>x \<in> set (rq_details db). requirement_exists db (rdet_requirement_id x)"
    using assms(1) by (simp add: requirement_inv_def children_ok_def list_all_iff)
  then have "\<forall>x \<in> set ds. requirement_exists db (rdet_requirement_id x)"
    using assms(2) by blast
  then have "edit db (db\<lparr>rq_seq := s, rq_details := ds\<rparr>)" if "rq_seq db \<le> s" for s
    using children [where db = db and s = s and ds = ds and ls = "rq_links db" and cs = "rq_comments db" and vs = "rq_reviews db" and rs = "rq_relations db"] that assms(1)
    by (auto simp: requirement_inv_def children_ok_def list_all_iff)
  from this [of "rq_seq db"] this [of s]
  show "edits db (db\<lparr>rq_details := ds\<rparr>)" "rq_seq db \<le> s \<Longrightarrow> edits db (db\<lparr>rq_seq := s, rq_details := ds\<rparr>)"
    by (auto simp: r_into_rtranclp)
qed

lemma links_edits:
  assumes "requirement_inv db" "\<And>x. x \<in> set ls \<Longrightarrow> x \<in> set (rq_links db) \<or> requirement_exists db (rlnk_requirement_id x)"
  shows "edits db (db\<lparr>rq_links := ls\<rparr>)" "rq_seq db \<le> s \<Longrightarrow> edits db (db\<lparr>rq_seq := s, rq_links := ls\<rparr>)"
proof -
  have "\<forall>x \<in> set (rq_links db). requirement_exists db (rlnk_requirement_id x)"
    using assms(1) by (simp add: requirement_inv_def children_ok_def list_all_iff)
  then have "\<forall>x \<in> set ls. requirement_exists db (rlnk_requirement_id x)"
    using assms(2) by blast
  then have "edit db (db\<lparr>rq_seq := s, rq_links := ls\<rparr>)" if "rq_seq db \<le> s" for s
    using children [where db = db and s = s and ds = "rq_details db" and ls = ls and cs = "rq_comments db" and vs = "rq_reviews db" and rs = "rq_relations db"] that assms(1)
    by (auto simp: requirement_inv_def children_ok_def list_all_iff)
  from this [of "rq_seq db"] this [of s]
  show "edits db (db\<lparr>rq_links := ls\<rparr>)" "rq_seq db \<le> s \<Longrightarrow> edits db (db\<lparr>rq_seq := s, rq_links := ls\<rparr>)"
    by (auto simp: r_into_rtranclp)
qed

lemma comments_edits:
  assumes "requirement_inv db" "\<And>x. x \<in> set cs \<Longrightarrow> x \<in> set (rq_comments db) \<or> requirement_exists db (rcom_requirement_id x)"
  shows "edits db (db\<lparr>rq_comments := cs\<rparr>)" "rq_seq db \<le> s \<Longrightarrow> edits db (db\<lparr>rq_seq := s, rq_comments := cs\<rparr>)"
proof -
  have "\<forall>x \<in> set (rq_comments db). requirement_exists db (rcom_requirement_id x)"
    using assms(1) by (simp add: requirement_inv_def children_ok_def list_all_iff)
  then have "\<forall>x \<in> set cs. requirement_exists db (rcom_requirement_id x)"
    using assms(2) by blast
  then have "edit db (db\<lparr>rq_seq := s, rq_comments := cs\<rparr>)" if "rq_seq db \<le> s" for s
    using children [where db = db and s = s and ds = "rq_details db" and ls = "rq_links db" and cs = cs and vs = "rq_reviews db" and rs = "rq_relations db"] that assms(1)
    by (auto simp: requirement_inv_def children_ok_def list_all_iff)
  from this [of "rq_seq db"] this [of s]
  show "edits db (db\<lparr>rq_comments := cs\<rparr>)" "rq_seq db \<le> s \<Longrightarrow> edits db (db\<lparr>rq_seq := s, rq_comments := cs\<rparr>)"
    by (auto simp: r_into_rtranclp)
qed

lemma reviews_edits:
  assumes "requirement_inv db" "\<And>x. x \<in> set vs \<Longrightarrow> x \<in> set (rq_reviews db) \<or> requirement_exists db (rrvw_requirement_id x)"
  shows "edits db (db\<lparr>rq_reviews := vs\<rparr>)" "rq_seq db \<le> s \<Longrightarrow> edits db (db\<lparr>rq_seq := s, rq_reviews := vs\<rparr>)"
proof -
  have "\<forall>x \<in> set (rq_reviews db). requirement_exists db (rrvw_requirement_id x)"
    using assms(1) by (simp add: requirement_inv_def children_ok_def list_all_iff)
  then have "\<forall>x \<in> set vs. requirement_exists db (rrvw_requirement_id x)"
    using assms(2) by blast
  then have "edit db (db\<lparr>rq_seq := s, rq_reviews := vs\<rparr>)" if "rq_seq db \<le> s" for s
    using children [where db = db and s = s and ds = "rq_details db" and ls = "rq_links db" and cs = "rq_comments db" and vs = vs and rs = "rq_relations db"] that assms(1)
    by (auto simp: requirement_inv_def children_ok_def list_all_iff)
  from this [of "rq_seq db"] this [of s]
  show "edits db (db\<lparr>rq_reviews := vs\<rparr>)" "rq_seq db \<le> s \<Longrightarrow> edits db (db\<lparr>rq_seq := s, rq_reviews := vs\<rparr>)"
    by (auto simp: r_into_rtranclp)
qed

lemma relations_edits: "requirement_inv db \<Longrightarrow> set rs \<subseteq> set (rq_relations db) \<Longrightarrow> edits db (db\<lparr>rq_relations := rs\<rparr>)"
  using children [where db = db and s = "rq_seq db" and ds = "rq_details db" and ls = "rq_links db" and cs = "rq_comments db"
      and vs = "rq_reviews db" and rs = rs]
  by (simp add: requirement_inv_def children_ok_def r_into_rtranclp)

lemmas children_edits = details_edits links_edits comments_edits reviews_edits relations_edits

lemma create_detail_edits:
  assumes "create_detail env p k t j a db = Inr (d, db')" "requirement_inv db"
  shows "edits db db'"
  using assms get_requirement_exists unfolding create_detail_def record_child_change_def
  by (auto simp: Let_def intro!: edits_log children_edits)

lemma updated_child [simp]:
  "rdet_requirement_id (updated_detail now t j d) = rdet_requirement_id d"
  "rlnk_requirement_id (updated_link u l) = rlnk_requirement_id l"
  "rrvw_requirement_id (updated_review now w v) = rrvw_requirement_id v"
  by (simp_all add: updated_detail_def updated_link_def updated_review_def Let_def)

lemma detail_in_requirementD:
  "get_detail_in_requirement p k n db = Inr (r, x) \<Longrightarrow> requirement_exists db k \<and> rdet_requirement_id x = k"
  using get_requirement_exists by (auto simp: get_detail_in_requirement_def split: option.splits if_splits)

lemma update_detail_edits:
  assumes "update_detail env p k n t j a db = Inr (d, db')" "requirement_inv db"
  shows "edits db db'"
  using assms unfolding update_detail_def record_child_change_def
  by (auto simp: Let_def elim!: in_tput split: if_splits dest!: detail_in_requirementD intro!: edits_log children_edits)

lemma delete_detail_edits:
  assumes "delete_detail env p k n a db = Inr db'" "requirement_inv db"
  shows "edits db db'"
  using assms unfolding delete_detail_def record_child_change_def
  by (auto simp: set_tdel intro!: edits_log children_edits)

lemma create_link_edits:
  assumes "create_link env p k data a db = Inr (l, db')" "requirement_inv db"
  shows "edits db db'"
  using assms get_requirement_exists unfolding create_link_def record_child_change_def
  by (auto simp: Let_def intro!: edits_log children_edits)

lemma link_in_requirementD:
  "get_link_in_requirement p k n db = Inr (r, x) \<Longrightarrow> requirement_exists db k \<and> rlnk_requirement_id x = k"
  using get_requirement_exists by (auto simp: get_link_in_requirement_def split: option.splits if_splits)

lemma update_link_edits:
  assumes "update_link env p k n data a db = Inr (l, db')" "requirement_inv db"
  shows "edits db db'"
  using assms unfolding update_link_def record_child_change_def
  by (auto simp: Let_def elim!: in_tput split: if_splits dest!: link_in_requirementD intro!: edits_log children_edits)

lemma delete_link_edits:
  assumes "delete_link env p k n a db = Inr db'" "requirement_inv db"
  shows "edits db db'"
  using assms unfolding delete_link_def record_child_change_def
  by (auto simp: set_tdel intro!: edits_log children_edits)

lemma create_relation_edits:
  assumes "create_relation env p k data a db = Inr (l, db')" "requirement_inv db"
  shows "edits db db'"
proof -
  from assms(1) obtain r where r: "get_requirement p k db = Inr r" and l: "rrel_id l = rq_seq db + 1"
      "rrel_source_requirement_id l = ritm_id r" "rrel_document_id l = ritm_document_id r"
    and db': "same_tables (db\<lparr>rq_seq := rq_seq db + 1, rq_relations := rq_relations db @ [l]\<rparr>) db'"
    by (auto simp: create_relation_def record_child_change_def Let_def same_tables_log)
  have "edits db (db\<lparr>rq_seq := rq_seq db + 1, rq_relations := rq_relations db @ [l]\<rparr>)"
    using l located_item [OF inv_ids [OF assms(2)] conjunct1 [OF get_requirementD [OF r]]]
    by (intro r_into_rtranclp add_relation) simp_all
  then show ?thesis
    using db' by (rule edits_tables)
qed

lemma delete_relation_edits:
  assumes "delete_relation env p k n a db = Inr db'" "requirement_inv db"
  shows "edits db db'"
  using assms unfolding delete_relation_def record_child_change_def
  by (auto simp: set_tdel intro!: edits_log children_edits)

lemma create_review_edits:
  assumes "create_review env p k data a db = Inr (v, db')" "requirement_inv db"
  shows "edits db db'"
  using assms get_requirement_exists unfolding create_review_def record_child_change_def
  by (auto simp: Let_def intro!: edits_log children_edits)

lemma review_in_requirementD:
  "get_review_in_requirement p k n db = Inr (r, x) \<Longrightarrow> requirement_exists db k \<and> rrvw_requirement_id x = k"
  using get_requirement_exists by (auto simp: get_review_in_requirement_def split: option.splits if_splits)

lemma update_review_edits:
  assumes "update_review env p k n data a db = Inr (v, db')" "requirement_inv db"
  shows "edits db db'"
  using assms unfolding update_review_def record_child_change_def
  by (auto simp: Let_def elim!: in_tput split: if_splits dest!: review_in_requirementD intro!: edits_log children_edits)

lemma delete_review_edits:
  assumes "delete_review env p k n a db = Inr db'" "requirement_inv db"
  shows "edits db db'"
  using assms unfolding delete_review_def record_child_change_def
  by (auto simp: set_tdel intro!: edits_log children_edits)

subsection \<open>Old approvals and comments\<close>

lemma target_document_located:
  assumes "get_target_document db p t k = Inr d" "ids_ok db"
  shows "located db t k (rdoc_id d)"
proof -
  note rows = document_get_by_id_def section_get_by_id_def requirement_get_by_id_def issue_get_by_id_def
  consider "t = ''document''" "document_get_by_id db k = Some d"
    | s where "t = ''section''" "section_get_by_id db k = Some s" "document_get_by_id db (rsec_document_id s) = Some d"
    | r where "t = ''requirement_item''" "requirement_get_by_id db k = Some r" "document_get_by_id db (ritm_document_id r) = Some d"
    | i where "t = ''open_issue''" "issue_get_by_id db k = Some i" "document_get_by_id db (riss_document_id i) = Some d"
    using assms(1) by (auto simp: get_target_document_def target_document_def bind_eq_Some_conv split: if_splits option.splits)
  then show ?thesis
    by cases (use assms(2) located_document located_section located_item located_issue in
        \<open>force simp: rows dest!: find_some\<close>)+
qed

lemma request_approval_edits:
  assumes "request_approval env p data u db = Inr (a, db')" "requirement_inv db"
  shows "edits db db'"
  using assms target_document_located [OF _ inv_ids [OF assms(2)]] unfolding request_approval_def record_approval_change_def
  by (auto simp: Let_def intro!: edits_log edit_intros)

lemma approval_in_projectD: "get_approval_in_project db p k = Inr a \<Longrightarrow> a \<in> set (rq_approvals db) \<and> rapp_id a = k"
  by (auto simp: get_approval_in_project_def dest!: tget_SomeD split: option.splits if_splits)

lemma decide_old_edits:
  assumes "approve_old env p k c u db = Inr (a, db') \<or> reject_old env p k c u db = Inr (a, db')"
  shows "edits db db'"
proof -
  obtain q where q: "get_approval_in_project db p k = Inr q" "rapp_status q = ''requested''"
    and a: "a = mark_approved (qe_now env) c q \<or> a = mark_rejected (qe_now env) c q"
    and db': "same_tables (db\<lparr>rq_approvals := tput rapp_id a (rq_approvals db)\<rparr>) db'"
    using assms by (auto simp: approve_old_def reject_old_def raise_if_decided_def write_decision_def
        record_approval_change_def same_tables_log split: if_splits)
  have "edits db (db\<lparr>rq_approvals := tput rapp_id a (rq_approvals db)\<rparr>)"
    using approval_in_projectD [OF q(1)] q(2) a by (intro r_into_rtranclp decide_approval) auto
  then show ?thesis
    using db' by (rule edits_tables)
qed

lemma resolve_target_located:
  assumes "resolve_target db p t k = Inr g" "ids_ok db"
  shows "located db t k (ctg_document_id g) \<and> ctg_target_type g = t \<and> ctg_target_id g = k"
proof -
  note rows = document_get_by_id_def section_get_by_id_def requirement_get_by_id_def issue_get_by_id_def
  obtain d where d: "comment_document_in_project db p (ctg_document_id g) = Inr d" and g: "ctg_target_type g = t" "ctg_target_id g = k"
    and cases: "t = ''document'' \<and> ctg_document_id g = k \<or>
      t = ''section'' \<and> (\<exists>s. section_get_by_id db k = Some s \<and> ctg_document_id g = rsec_document_id s) \<or>
      t = ''requirement_item'' \<and> (\<exists>r. requirement_get_by_id db k = Some r \<and> ctg_document_id g = ritm_document_id r) \<or>
      t = ''open_issue'' \<and> (\<exists>i. issue_get_by_id db k = Some i \<and> ctg_document_id g = riss_document_id i)"
    using assms(1) by (auto simp: resolve_target_def split: if_splits)
  have doc: "d \<in> set (rq_documents db)" "rdoc_id d = ctg_document_id g"
    using d by (auto simp: comment_document_in_project_def rows dest!: find_some split: option.splits if_splits)
  from cases have "located db t k (ctg_document_id g)"
    by (elim disjE conjE exE) (use doc assms(2) located_document located_section located_item located_issue in
        \<open>force simp: rows dest!: find_some\<close>)+
  with g show ?thesis by simp
qed

lemma same_tables_comment_notices: "same_tables db (target_comment_mentions_changed p a c previous db)"
  by (simp add: target_comment_mentions_changed_def Let_def same_tables_emit)

lemma same_tables_plain_notices: "same_tables db (requirement_comment_mentions_changed p a c db)"
  by (simp add: requirement_comment_mentions_changed_def Let_def same_tables_emit)

lemmas edits_notices = edits_tables [OF _ same_tables_comment_notices] edits_tables [OF _ same_tables_plain_notices]

lemma parent_in_target:
  "get_parent_comment_for_target db k g = Inr q \<Longrightarrow> q \<in> set (rq_target_comments db) \<and> rtc_id q = k \<and>
     rtc_document_id q = ctg_document_id g \<and> rtc_target_type q = ctg_target_type g \<and> rtc_target_id q = ctg_target_id g"
  by (auto simp: get_parent_comment_for_target_def comment_get_by_id_def dest!: find_some split: option.splits if_splits)

lemma create_target_comment_edits:
  assumes "create_target_comment env p data u db = Inr (c, db')" "requirement_inv db"
  shows "edits db db'"
proof -
  obtain g where g: "resolve_target db p (tcc_target_type data) (tcc_target_id data) = Inr g"
    using assms(1) by (auto simp: create_target_comment_def)
  have parent: "\<exists>q. get_parent_comment_for_target db k g = Inr q" if "tcc_parent_comment_id data = Some k" for k
    using assms(1) that g by (auto simp: create_target_comment_def)
  have c: "rtc_id c = rq_seq db + 1" "rtc_document_id c = ctg_document_id g" "rtc_target_type c = tcc_target_type data"
    "rtc_target_id c = tcc_target_id data" "rtc_parent_comment_id c = tcc_parent_comment_id data"
    and db': "same_tables (target_comment_mentions_changed p u c []
      (db\<lparr>rq_seq := rq_seq db + 1, rq_target_comments := rq_target_comments db @ [c]\<rparr>)) db'"
    using assms(1) g by (auto simp: create_target_comment_def record_comment_change_def Let_def same_tables_log)
  note at = resolve_target_located [OF g inv_ids [OF assms(2)]]
  have "edit db (db\<lparr>rq_seq := rq_seq db + 1, rq_target_comments := rq_target_comments db @ [c]\<rparr>)"
  proof (rule add_comment)
    show "\<exists>q \<in> set (rq_target_comments db). rtc_id q = k \<and> rtc_document_id q = rtc_document_id c \<and>
        rtc_target_type q = rtc_target_type c \<and> rtc_target_id q = rtc_target_id c" if "rtc_parent_comment_id c = Some k" for k
      using parent [of k] that c at parent_in_target [of db k g] by auto
  qed (use c at in simp_all)
  then have "edits db (target_comment_mentions_changed p u c []
      (db\<lparr>rq_seq := rq_seq db + 1, rq_target_comments := rq_target_comments db @ [c]\<rparr>))"
    by (intro edits_notices r_into_rtranclp)
  then show ?thesis
    using db' by (rule edits_tables)
qed

lemma get_commentD: "get_comment db p k = Inr c \<Longrightarrow> c \<in> set (rq_target_comments db) \<and> rtc_id c = k \<and> rtc_deleted_at c = None"
  by (auto simp: get_comment_def comment_get_by_id_def dest!: find_some)

lemma update_target_comment_edits:
  assumes "update_target_comment env p k data u m db = Inr (c, db')"
  shows "edits db db'"
  using assms unfolding update_target_comment_def record_comment_change_def
  by (auto simp: Let_def updated_comment_def dest!: get_commentD intro!: edits_log edits_notices edit_intros)

lemma set_resolved_edits:
  assumes "set_resolved env p k v re u b act db = Inr (c, db')"
  shows "edits db db'"
  using assms unfolding set_resolved_def record_comment_change_def
  by (auto simp: Let_def resolved_comment_def dest!: get_commentD intro!: edits_log edit_intros)

lemma delete_target_comment_edits:
  assumes "delete_target_comment env p k u m db = Inr db'"
  shows "edits db db'"
  using assms unfolding delete_target_comment_def record_comment_change_def
  by (auto simp: deleted_comment_def dest!: get_commentD intro!: edits_log edit_intros)

lemma create_requirement_comment_edits:
  assumes "create_requirement_comment env p k u body ms db = Inr (c, db')" "requirement_inv db"
  shows "edits db db'"
  using assms get_requirement_exists unfolding create_requirement_comment_def
  by (auto simp: Let_def intro!: edits_notices children_edits)

lemma delete_requirement_comment_edits:
  assumes "delete_requirement_comment p k c u m db = Inr db'" "requirement_inv db"
  shows "edits db db'"
  using assms unfolding delete_requirement_comment_def
  by (auto simp: set_tdel intro!: children_edits split: option.splits if_splits)

subsection \<open>Restored rows\<close>

lemma checked_restoreD:
  "checked_restore spec now days permitted found at v u = Inr r \<Longrightarrow>
   \<exists>row parent. found = Some (row, parent) \<and> r = trs_restored spec now u row"
  by (auto simp: checked_restore_def Let_def split: option.splits)

lemma restore_document_edits:
  assumes "restore_document env days permitted p k at v u db = Inr db'"
  shows "edits db db'"
proof -
  obtain d where "d \<in> set (rq_documents db)"
    and "db' = record_restore document_resource p u (restored_document (qe_now env) u d)
      (db\<lparr>rq_documents := tput rdoc_id (restored_document (qe_now env) u d) (rq_documents db)\<rparr>)"
    using assms by (auto simp: restore_document_def document_resource_def trash_get_document_def trash_found_def
        bind_eq_Some_conv dest!: checked_restoreD find_some)
  then show ?thesis
    by (auto simp: record_restore_def restored_document_def intro!: edits_audit edit_intros)
qed

lemma restore_section_edits:
  assumes "restore_section env days permitted p k at v u db = Inr db'" "requirement_inv db"
  shows "edits db db'"
proof -
  obtain s where "s \<in> set (rq_sections db)"
    and "db' = record_restore section_resource p u (restored_section (qe_now env) u s)
      (db\<lparr>rq_sections := tput rsec_id (restored_section (qe_now env) u s) (rq_sections db)\<rparr>)"
    using assms(1) by (auto simp: restore_section_def section_resource_def trash_get_section_def
        bind_eq_Some_conv dest!: checked_restoreD tget_SomeD)
  then show ?thesis
    using assms(2) by (auto simp: record_restore_def restored_section_def intro!: edits_audit tput_section_edit [THEN r_into_rtranclp [of edit]])
qed

lemma restore_requirement_edits:
  assumes "restore_requirement env days permitted p k at v u db = Inr db'"
  shows "edits db db'"
proof -
  obtain r where "r \<in> set (rq_items db)"
    and "db' = record_restore requirement_resource p u (restored_requirement (qe_now env) u r)
      (db\<lparr>rq_items := tput ritm_id (restored_requirement (qe_now env) u r) (rq_items db)\<rparr>)"
    using assms by (auto simp: restore_requirement_def requirement_resource_def trash_get_requirement_def
        bind_eq_Some_conv dest!: checked_restoreD tget_SomeD)
  then show ?thesis
    by (auto simp: record_restore_def restored_requirement_def revision_snapshot_def intro!: edits_audit touch_requirement_edits)
qed

subsection \<open>Steps\<close>

text \<open>The requests of the services; users, projects and tasks are changed elsewhere.\<close>

inductive requirement_step :: "requirement_db \<Rightarrow> requirement_db \<Rightarrow> bool" where
  elsewhere: "requirement_step db (db\<lparr>rq_projects := ps, rq_users := us, rq_readers := rs, rq_tasks := ts, rq_task_relations := ls\<rparr>)"
| document_created: "create_document env p (data_c :: document_create) a db = Inr (d, db') \<Longrightarrow> requirement_step db db'"
| standard_created: "sessions_edit env \<Longrightarrow> create_standard env p u active data_t db = Inr (x, db') \<Longrightarrow> requirement_step db db'"
| document_updated: "update_document env p k data_u a db = Inr (d, db') \<Longrightarrow> requirement_step db db'"
| document_deleted: "delete_document env p k a db = Inr db' \<Longrightarrow> requirement_step db db'"
| document_restored: "restore_document env days permitted p i at v u db = Inr db' \<Longrightarrow> requirement_step db db'"
| section_created: "create_section env p k sc a db = Inr (s, db') \<Longrightarrow> requirement_step db db'"
| section_updated: "update_section env p k su a db = Inr (s, db') \<Longrightarrow> requirement_step db db'"
| sections_sorted: "update_sort_order env p k items a db = Inr (ss, db') \<Longrightarrow> requirement_step db db'"
| section_deleted: "delete_section env p k a db = Inr db' \<Longrightarrow> requirement_step db db'"
| section_restored: "restore_section env days permitted p i at v u db = Inr db' \<Longrightarrow> requirement_step db db'"
| requirement_created: "sessions_edit env \<Longrightarrow> create_requirement env p rc a db = Inr (r, db') \<Longrightarrow> requirement_step db db'"
| requirement_updated: "update_requirement env p k ru a db = Inr (r, db') \<Longrightarrow> requirement_step db db'"
| requirement_deleted: "delete_requirement env p k a db = Inr db' \<Longrightarrow> requirement_step db db'"
| requirement_restored: "restore_requirement env days permitted p i at v u db = Inr db' \<Longrightarrow> requirement_step db db'"
| issue_created: "sessions_edit env \<Longrightarrow> create_open_issue env p ic a db = Inr (q, db') \<Longrightarrow> requirement_step db db'"
| issue_updated: "update_open_issue env p k iu a db = Inr (q, db') \<Longrightarrow> requirement_step db db'"
| issue_deleted: "delete_open_issue env p k a db = Inr db' \<Longrightarrow> requirement_step db db'"
| issue_promoted: "sessions_edit env \<Longrightarrow> promote_to_requirement env p k ip a db = Inr (r, db') \<Longrightarrow> requirement_step db db'"
| detail_created: "create_detail env p k t j a db = Inr (e, db') \<Longrightarrow> requirement_step db db'"
| detail_updated: "update_detail env p k n t' j' a db = Inr (e, db') \<Longrightarrow> requirement_step db db'"
| detail_deleted: "delete_detail env p k n a db = Inr db' \<Longrightarrow> requirement_step db db'"
| link_created: "create_link env p k li a db = Inr (l, db') \<Longrightarrow> requirement_step db db'"
| link_updated: "update_link env p k n lu a db = Inr (l, db') \<Longrightarrow> requirement_step db db'"
| link_deleted: "delete_link env p k n a db = Inr db' \<Longrightarrow> requirement_step db db'"
| relation_created: "create_relation env p k rl a db = Inr (m, db') \<Longrightarrow> requirement_step db db'"
| relation_deleted: "delete_relation env p k n a db = Inr db' \<Longrightarrow> requirement_step db db'"
| review_created: "create_review env p k vc a db = Inr (w, db') \<Longrightarrow> requirement_step db db'"
| review_updated: "update_review env p k n vu a db = Inr (w, db') \<Longrightarrow> requirement_step db db'"
| review_deleted: "delete_review env p k n a db = Inr db' \<Longrightarrow> requirement_step db db'"
| approval_requested: "request_approval env p ar u db = Inr (b, db') \<Longrightarrow> requirement_step db db'"
| approval_approved: "approve_old env p k c u db = Inr (b, db') \<Longrightarrow> requirement_step db db'"
| approval_rejected: "reject_old env p k c u db = Inr (b, db') \<Longrightarrow> requirement_step db db'"
| comment_created: "create_target_comment env p cc u db = Inr (m, db') \<Longrightarrow> requirement_step db db'"
| comment_updated: "update_target_comment env p k cu u can db = Inr (m, db') \<Longrightarrow> requirement_step db db'"
| comment_resolved: "resolve_comment env p k v re u db = Inr (m, db') \<Longrightarrow> requirement_step db db'"
| comment_reopened: "reopen_comment env p k v re u db = Inr (m, db') \<Longrightarrow> requirement_step db db'"
| comment_deleted: "delete_target_comment env p k u can db = Inr db' \<Longrightarrow> requirement_step db db'"
| plain_comment_created: "create_requirement_comment env p k u body ms db = Inr (pc, db') \<Longrightarrow> requirement_step db db'"
| plain_comment_deleted: "delete_requirement_comment p k n u can db = Inr db' \<Longrightarrow> requirement_step db db'"

lemma elsewhere_inv:
  assumes "requirement_inv db"
  shows "requirement_inv (db\<lparr>rq_projects := ps, rq_users := us, rq_readers := rs, rq_tasks := ts, rq_task_relations := ls\<rparr>)"
    (is "requirement_inv ?db")
proof -
  have same: "located ?db = located db" "requirement_exists ?db = requirement_exists db" "revisions ?db = revisions db"
    by (simp_all add: fun_eq_iff located_def relation_target_document_def requirement_exists_def revisions_def)
  show ?thesis
    using assms by (simp add: requirement_inv_def ids_ok_def codes_ok_def places_ok_def children_ok_def history_ok_def same
        item_placed_def issue_placed_def comment_placed_def reply_placed_def approval_placed_def relation_placed_def)
qed

lemmas operation_edits = create_document_edits create_standard_edits update_document_edits delete_document_edits
  restore_document_edits create_section_edits update_section_edits update_sort_order_edits delete_section_edits
  restore_section_edits create_requirement_edits update_requirement_edits delete_requirement_edits restore_requirement_edits
  create_open_issue_edits update_open_issue_edits delete_open_issue_edits promote_edits create_detail_edits
  update_detail_edits delete_detail_edits create_link_edits update_link_edits delete_link_edits create_relation_edits
  delete_relation_edits create_review_edits update_review_edits delete_review_edits request_approval_edits
  create_target_comment_edits update_target_comment_edits delete_target_comment_edits create_requirement_comment_edits
  delete_requirement_comment_edits

lemma requirement_step_edits:
  assumes "requirement_step db db'" "requirement_inv db"
  shows "edits db db' \<or> (\<exists>ps us rs ts ls.
    db' = db\<lparr>rq_projects := ps, rq_users := us, rq_readers := rs, rq_tasks := ts, rq_task_relations := ls\<rparr>)"
  using assms
proof (cases rule: requirement_step.cases)
  case elsewhere
  then show ?thesis by blast
next
  case approval_approved
  then show ?thesis using decide_old_edits by blast
next
  case approval_rejected
  then show ?thesis using decide_old_edits by blast
next
  case comment_resolved
  then show ?thesis using set_resolved_edits unfolding resolve_comment_def by blast
next
  case comment_reopened
  then show ?thesis using set_resolved_edits unfolding reopen_comment_def by blast
qed (use assms(2) in \<open>blast intro: operation_edits\<close>)+

theorem requirement_step_inv: "requirement_step db db' \<Longrightarrow> requirement_inv db \<Longrightarrow> requirement_inv db'"
  using requirement_step_edits edits_inv elsewhere_inv by blast

definition requirement_start :: "requirement_db \<Rightarrow> bool" where
  "requirement_start db \<longleftrightarrow> rq_documents db = [] \<and> rq_sections db = [] \<and> rq_items db = [] \<and> rq_issues db = [] \<and>
     rq_approvals db = [] \<and> rq_target_comments db = [] \<and> rq_relations db = [] \<and> rq_revisions db = [] \<and> rq_details db = [] \<and>
     rq_links db = [] \<and> rq_comments db = [] \<and> rq_reviews db = []"

inductive requirement_reachable :: "requirement_db \<Rightarrow> bool" where
  start: "requirement_start db \<Longrightarrow> requirement_reachable db"
| step: "requirement_reachable db \<Longrightarrow> requirement_step db db' \<Longrightarrow> requirement_reachable db'"

lemma requirement_start_inv: "requirement_start db \<Longrightarrow> requirement_inv db"
  by (simp add: requirement_start_def requirement_inv_def ids_ok_def rows_ok_def codes_ok_def places_ok_def children_ok_def history_ok_def)

theorem requirement_reachable_inv: "requirement_reachable db \<Longrightarrow> requirement_inv db"
  by (induction rule: requirement_reachable.induct) (auto intro: requirement_start_inv requirement_step_inv)

end
