(* ===== verification/Requirement_Sample.thy ===== *)
theory Requirement_Sample imports Requirement_System begin

text \<open>
  A sample history of the requirement services, evaluated, on which the hypotheses of the properties are met.
\<close>

subsection \<open>A sample history\<close>

definition sample_requirement_env :: requirement_env where
  "sample_requirement_env = \<lparr>qe_now = 100, qe_digest = (\<lambda>s. s), qe_may = (\<lambda>_ _ _. True), qe_switched = (\<lambda>_. False),
     qe_others = (\<lambda>_ db. db)\<rparr>"

lemma sample_env_sessions: "sessions_edit sample_requirement_env"
  by (simp add: sessions_edit_def sample_requirement_env_def)

definition empty_requirements :: requirement_db where
  "empty_requirements = \<lparr>rq_projects = [1], rq_users = [(7, ''ann''), (8, ''bob'')], rq_readers = [(1, 7), (1, 8)],
     rq_documents = [], rq_sections = [], rq_items = [], rq_issues = [], rq_logs = [], rq_approvals = [],
     rq_target_comments = [], rq_relations = [], rq_revisions = [], rq_details = [], rq_links = [], rq_comments = [],
     rq_reviews = [], rq_receipts = [], rq_task_relations = [], rq_tasks = [], rq_audit = [], rq_notices = [], rq_seq = 0\<rparr>"

definition sample_document_input :: document_create where
  "sample_document_input = \<lparr>dcr_title = ''D'', dcr_document_code = ''A'', dcr_status = ''draft'', dcr_purpose = None,
     dcr_project_goal = None, dcr_project_scope = None, dcr_project_completion_criteria = None, dcr_target_system_name = None,
     dcr_client_name = None, dcr_vendor_name = None, dcr_author_id = None, dcr_reviewer_id = None, dcr_approver_id = None,
     dcr_approved_at = None\<rparr>"

definition sample_section_input :: section_create where
  "sample_section_input = \<lparr>scr_title = ''S'', scr_section_type = ''scope'', scr_content = None, scr_sort_order = 10,
     scr_status = ''draft''\<rparr>"

definition sample_requirement_input :: requirement_create where
  "sample_requirement_input = \<lparr>rcr_document_id = 1, rcr_section_id = Some 3, rcr_requirement_code = None,
     rcr_requirement_type = ''system'', rcr_category = None, rcr_title = ''R'', rcr_description = None, rcr_rationale = None,
     rcr_acceptance_criteria = None, rcr_priority = ''high'', rcr_status = ''draft'', rcr_source = None, rcr_owner_id = Some 8,
     rcr_approved_by = None, rcr_approved_at = None\<rparr>"

definition sample_retitle :: "int \<Rightarrow> string \<Rightarrow> requirement_update" where
  "sample_retitle version title = \<lparr>rup_version = version, rup_section_id = Unset, rup_requirement_type = Unset,
     rup_category = Unset, rup_title = Set title, rup_description = Unset, rup_rationale = Unset,
     rup_acceptance_criteria = Unset, rup_priority = Unset, rup_status = Unset, rup_source = Unset, rup_owner_id = Unset,
     rup_approved_by = Unset, rup_approved_at = Unset, rup_change_summary = None, rup_reason = None\<rparr>"

definition sample_issue_input :: issue_create where
  "sample_issue_input = \<lparr>icr_document_id = 1, icr_related_requirement_id = Some 5, icr_issue_code = None, icr_title = ''Q'',
     icr_description = None, icr_impact_scope = None, icr_assignee_id = None, icr_due_date = None, icr_status = ''open'',
     icr_resolution = None\<rparr>"

definition sample_comment_input :: "int option \<Rightarrow> target_comment_create" where
  "sample_comment_input parent = \<lparr>tcc_mentions = [], tcc_target_type = ''requirement_item'', tcc_target_id = 5,
     tcc_target_anchor = None, tcc_parent_comment_id = parent, tcc_body = ''hm''\<rparr>"

definition sample_request_input :: approval_request_create where
  "sample_request_input = \<lparr>arq_target_type = ''document'', arq_target_id = 1, arq_approver_id = 8, arq_comment = None\<rparr>"

abbreviation "sre \<equiv> sample_requirement_env"

text \<open>Document 1, section 3, requirement 5 with two changes, issue 11, comment 13 with reply 15, approval 17.\<close>

definition sq1 :: requirement_db where "sq1 = snd (projr (create_document sre 1 sample_document_input (Some 7) empty_requirements))"
definition sq2 :: requirement_db where "sq2 = snd (projr (create_section sre 1 1 sample_section_input (Some 7) sq1))"
definition sq3 :: requirement_db where "sq3 = snd (projr (create_requirement sre 1 sample_requirement_input (Some 7) sq2))"
definition sq4 :: requirement_db where "sq4 = snd (projr (update_requirement sre 1 5 (sample_retitle 1 ''R2'') (Some 7) sq3))"
definition sq5 :: requirement_db where "sq5 = snd (projr (update_requirement sre 1 5 (sample_retitle 2 ''R3'') (Some 8) sq4))"
definition sq6 :: requirement_db where "sq6 = snd (projr (create_open_issue sre 1 sample_issue_input (Some 7) sq5))"
definition sq7 :: requirement_db where "sq7 = snd (projr (create_target_comment sre 1 (sample_comment_input None) 7 sq6))"
definition sq8 :: requirement_db where "sq8 = snd (projr (create_target_comment sre 1 (sample_comment_input (Some 13)) 8 sq7))"
definition sq9 :: requirement_db where "sq9 = snd (projr (request_approval sre 1 sample_request_input 7 sq8))"
definition sq10 :: requirement_db where "sq10 = snd (projr (approve_old sre 1 17 None 8 sq9))"

lemma sq1_run: "create_document sre 1 sample_document_input (Some 7) empty_requirements = Inr (fst (projr (create_document sre 1 sample_document_input (Some 7) empty_requirements)), sq1)"
  unfolding sq1_def by (rule Inr_projr_pair) code_simp

lemma sq2_run: "create_section sre 1 1 sample_section_input (Some 7) sq1 = Inr (fst (projr (create_section sre 1 1 sample_section_input (Some 7) sq1)), sq2)"
  unfolding sq2_def by (rule Inr_projr_pair) code_simp

lemma sq3_run: "create_requirement sre 1 sample_requirement_input (Some 7) sq2 = Inr (fst (projr (create_requirement sre 1 sample_requirement_input (Some 7) sq2)), sq3)"
  unfolding sq3_def by (rule Inr_projr_pair) code_simp

lemma sq4_run: "update_requirement sre 1 5 (sample_retitle 1 ''R2'') (Some 7) sq3 = Inr (fst (projr (update_requirement sre 1 5 (sample_retitle 1 ''R2'') (Some 7) sq3)), sq4)"
  unfolding sq4_def by (rule Inr_projr_pair) code_simp

lemma sq5_run: "update_requirement sre 1 5 (sample_retitle 2 ''R3'') (Some 8) sq4 = Inr (fst (projr (update_requirement sre 1 5 (sample_retitle 2 ''R3'') (Some 8) sq4)), sq5)"
  unfolding sq5_def by (rule Inr_projr_pair) code_simp

lemma sq6_run: "create_open_issue sre 1 sample_issue_input (Some 7) sq5 = Inr (fst (projr (create_open_issue sre 1 sample_issue_input (Some 7) sq5)), sq6)"
  unfolding sq6_def by (rule Inr_projr_pair) code_simp

lemma sq7_run: "create_target_comment sre 1 (sample_comment_input None) 7 sq6 = Inr (fst (projr (create_target_comment sre 1 (sample_comment_input None) 7 sq6)), sq7)"
  unfolding sq7_def by (rule Inr_projr_pair) code_simp

lemma sq8_run: "create_target_comment sre 1 (sample_comment_input (Some 13)) 8 sq7 = Inr (fst (projr (create_target_comment sre 1 (sample_comment_input (Some 13)) 8 sq7)), sq8)"
  unfolding sq8_def by (rule Inr_projr_pair) code_simp

lemma sq9_run: "request_approval sre 1 sample_request_input 7 sq8 = Inr (fst (projr (request_approval sre 1 sample_request_input 7 sq8)), sq9)"
  unfolding sq9_def by (rule Inr_projr_pair) code_simp

lemma sq10_run: "approve_old sre 1 17 None 8 sq9 = Inr (fst (projr (approve_old sre 1 17 None 8 sq9)), sq10)"
  unfolding sq10_def by (rule Inr_projr_pair) code_simp

lemma sq1_reachable: "requirement_reachable sq1"
  by (rule requirement_reachable.step [OF requirement_reachable.start document_created [OF sq1_run]])
    (simp add: requirement_start_def empty_requirements_def)

lemma sq2_reachable: "requirement_reachable sq2"
  by (rule requirement_reachable.step [OF sq1_reachable section_created [OF sq2_run]])

lemma sq3_reachable: "requirement_reachable sq3"
  by (rule requirement_reachable.step [OF sq2_reachable requirement_created [OF sample_env_sessions sq3_run]])

lemma sq4_reachable: "requirement_reachable sq4"
  by (rule requirement_reachable.step [OF sq3_reachable requirement_updated [OF sq4_run]])

lemma sq5_reachable: "requirement_reachable sq5"
  by (rule requirement_reachable.step [OF sq4_reachable requirement_updated [OF sq5_run]])

lemma sq6_reachable: "requirement_reachable sq6"
  by (rule requirement_reachable.step [OF sq5_reachable issue_created [OF sample_env_sessions sq6_run]])

lemma sq7_reachable: "requirement_reachable sq7"
  by (rule requirement_reachable.step [OF sq6_reachable comment_created [OF sq7_run]])

lemma sq8_reachable: "requirement_reachable sq8"
  by (rule requirement_reachable.step [OF sq7_reachable comment_created [OF sq8_run]])

lemma sq9_reachable: "requirement_reachable sq9"
  by (rule requirement_reachable.step [OF sq8_reachable approval_requested [OF sq9_run]])

lemma sq10_reachable: "requirement_reachable sq10"
  by (rule requirement_reachable.step [OF sq9_reachable approval_approved [OF sq10_run]])

end
