(* ===== verification/Requirement_Properties.thy ===== *)
theory Requirement_Properties imports Requirement_Sample begin

text \<open>
  What holds of the requirement tables in every reachable state: the revisions of a requirement are complete,
  rows stay in their document, replies form threads, codes are unique, a decided approval is final.
\<close>

subsection \<open>Histories\<close>

lemma chained_nth:
  "chained vs final version \<Longrightarrow> Suc i < length vs \<Longrightarrow>
   content (rrev_after_value (vs ! i)) = content (rrev_before_value (vs ! Suc i)) \<and> rrev_version (vs ! i) < rrev_version (vs ! Suc i)"
proof (induction vs final version arbitrary: i rule: chained.induct)
  case (3 v w vs final version)
  then show ?case
    by (cases i) auto
qed auto

lemma chained_last:
  "chained vs final version \<Longrightarrow> vs \<noteq> [] \<Longrightarrow> content (rrev_after_value (last vs)) = final \<and> rrev_version (last vs) \<le> version"
  by (induction vs final version rule: chained.induct) auto


text \<open>The sample history, evaluated once for the instances of the properties.\<close>

definition sample_shape :: "requirement_db \<Rightarrow> bool" where
  "sample_shape db \<longleftrightarrow>
     (case rq_items db of
        [r] \<Rightarrow> ritm_id r = 5 \<and> ritm_document_id r = 1 \<and> ritm_section_id r = Some 3 \<and> ritm_requirement_code r = ''REQ-001''
      | _ \<Rightarrow> False) \<and>
     (case rq_approvals db of [a] \<Rightarrow> rapp_status a \<noteq> ''requested'' | _ \<Rightarrow> False) \<and>
     length (revisions db 5) = 2 \<and> length (rq_target_comments db) = 2 \<and> \<not> isl (delete_document sre 1 1 (Some 7) db)"

lemma sq10_shape: "sample_shape sq10"
  by code_simp

lemma sq10_item:
  obtains r where "rq_items sq10 = [r]" "ritm_id r = 5" "ritm_document_id r = 1" "ritm_section_id r = Some 3"
    "ritm_requirement_code r = ''REQ-001''"
  using sq10_shape by (auto simp: sample_shape_def split: list.splits)

lemma sq10_hd:
  "hd (rq_items sq10) \<in> set (rq_items sq10)" "ritm_id (hd (rq_items sq10)) = 5" "ritm_section_id (hd (rq_items sq10)) = Some 3"
  by (rule sq10_item, simp)+

lemma sq10_facts:
  "length (revisions sq10 5) = 2" "length (rq_target_comments sq10) = 2" "\<not> isl (delete_document sre 1 1 (Some 7) sq10)"
  "hd (rq_approvals sq10) \<in> set (rq_approvals sq10)" "rapp_status (hd (rq_approvals sq10)) \<noteq> ''requested''"
  using sq10_shape by (auto simp: sample_shape_def split: list.splits)


subsection \<open>Places\<close>

lemma located_section_row:
  "located db ''section'' k d \<Longrightarrow> \<exists>s \<in> set (rq_sections db). rsec_id s = k \<and> rsec_document_id s = d"
  by (auto simp: located_def relation_target_document_def dest!: tget_SomeD)

lemma located_item_row:
  "located db ''requirement_item'' k d \<Longrightarrow> \<exists>r \<in> set (rq_items db). ritm_id r = k \<and> ritm_document_id r = d"
  by (auto simp: located_def relation_target_document_def dest!: tget_SomeD)



definition replies :: "requirement_db \<Rightarrow> (int \<times> int) set" where
  "replies db = {(rtc_id c, p) |c p. c \<in> set (rq_target_comments db) \<and> rtc_parent_comment_id c = Some p}"



text \<open>
  A code names one document of a project, one requirement and one issue of a document, deleted ones
  included, and an id one row, also when several sessions number automatically at the same time.
\<close>

theorem requirement_codes_unique_rows:
  assumes "requirement_reachable db"
  shows "(\<forall>a \<in> set (rq_documents db). \<forall>b \<in> set (rq_documents db).
           rdoc_id a = rdoc_id b \<or> rdoc_project_id a = rdoc_project_id b \<and> rdoc_document_code a = rdoc_document_code b \<longrightarrow> a = b) \<and>
    (\<forall>a \<in> set (rq_items db). \<forall>b \<in> set (rq_items db).
       ritm_id a = ritm_id b \<or> ritm_document_id a = ritm_document_id b \<and> ritm_requirement_code a = ritm_requirement_code b \<longrightarrow> a = b) \<and>
    (\<forall>a \<in> set (rq_issues db). \<forall>b \<in> set (rq_issues db).
       riss_id a = riss_id b \<or> riss_document_id a = riss_document_id b \<and> riss_issue_code a = riss_issue_code b \<longrightarrow> a = b)"
proof -
  have "ids_ok db" "codes_ok db"
    using requirement_reachable_inv [OF assms] by (simp_all add: requirement_inv_def)
  then show ?thesis
    unfolding ids_ok_def codes_ok_def by (auto simp: inj_on_def dest: rows_ok_unique)
qed

theorem requirement_codes_unique_rows_witness:
  "{b. b \<in> set (rq_items sq10) \<and> ritm_requirement_code b = ''REQ-001'' \<and> ritm_document_id b = 1} = {hd (rq_items sq10)}"
proof -
  obtain a where a: "rq_items sq10 = [a]" "ritm_document_id a = 1" "ritm_requirement_code a = ''REQ-001''"
    by (rule sq10_item)
  have "b = a" if "b \<in> set (rq_items sq10)" "ritm_requirement_code b = ''REQ-001''" "ritm_document_id b = 1" for b
    using requirement_codes_unique_rows [OF sq10_reachable, THEN conjunct2, THEN conjunct1, rule_format, of b a] that a by simp
  then show ?thesis
    using a by auto
qed

subsection \<open>Old approvals\<close>

lemma edit_decided:
  assumes "edit db db'" "a \<in> set (rq_approvals db)" "rapp_status a \<noteq> ''requested''" "ids_ok db"
  shows "a \<in> set (rq_approvals db')"
  using assms(1)
proof (cases rule: edit.cases)
  case (decide_approval q q' now comment)
  then have "rapp_id q' = rapp_id q"
    by (auto simp: mark_approved_def mark_rejected_def)
  moreover have "rapp_id a \<noteq> rapp_id q"
    using assms(2-4) decide_approval by (auto simp: ids_ok_def dest: rows_ok_unique)
  ultimately show ?thesis
    using assms(2) decide_approval(1) by (auto simp: tput_def image_iff intro!: bexI [of _ a])
qed (use assms(2) in simp_all)

lemma edits_decided:
  "edits db db' \<Longrightarrow> requirement_inv db \<Longrightarrow> a \<in> set (rq_approvals db) \<Longrightarrow> rapp_status a \<noteq> ''requested'' \<Longrightarrow>
   a \<in> set (rq_approvals db')"
proof (induction rule: rtranclp_induct)
  case (step y z)
  then show ?case
    using edits_inv [OF step.hyps(1)] edit_decided [OF step.hyps(2)] inv_ids by blast
qed

text \<open>
  An approval of the old kind that was decided never changes again, whatever is requested afterwards.
\<close>

theorem old_approval_decided_once:
  assumes "requirement_reachable db" "requirement_step\<^sup>*\<^sup>* db db'" "a \<in> set (rq_approvals db)" "rapp_status a \<noteq> ''requested''"
  shows "a \<in> set (rq_approvals db')"
proof -
  have "requirement_inv db' \<and> a \<in> set (rq_approvals db')"
    using assms(2)
  proof (induction rule: rtranclp_induct)
    case base
    then show ?case
      using requirement_reachable_inv assms by blast
  next
    case (step y z)
    then have inv: "requirement_inv z" and y: "requirement_inv y" "a \<in> set (rq_approvals y)"
      using requirement_step_inv by blast+
    from requirement_step_edits [OF step.hyps(2) y(1)] have "a \<in> set (rq_approvals z)"
      using edits_decided [OF _ y assms(4)] y(2) by auto
    with inv show ?case by simp
  qed
  then show ?thesis by simp
qed

definition sq11 :: requirement_db where "sq11 = projr (delete_document sre 1 1 (Some 7) sq10)"

lemma sq11_step: "requirement_step sq10 sq11"
proof -
  have "delete_document sre 1 1 (Some 7) sq10 = Inr sq11"
    unfolding sq11_def using sq10_facts(3) by (rule Inr_projr)
  then show ?thesis
    by (rule document_deleted)
qed

theorem old_approval_decided_once_witness: "hd (rq_approvals sq10) \<in> set (rq_approvals sq11)"
proof (rule old_approval_decided_once [OF sq10_reachable r_into_rtranclp [of requirement_step, OF sq11_step]])
  show "hd (rq_approvals sq10) \<in> set (rq_approvals sq10)" "rapp_status (hd (rq_approvals sq10)) \<noteq> ''requested''"
    by (rule sq10_facts)+
qed

end
