(* ===== verification/Requirement_Creation.thy ===== *)
theory Requirement_Creation imports Requirement_Sample begin

text \<open>
  Standard documents are created once per request key, with their seven sections, and the order of the
  sections of a document is changed as a whole or not at all.
\<close>

subsection \<open>Standard documents\<close>

lemma create_sections_tables:
  "create_sections env p k a n kinds db = Inr db' \<Longrightarrow>
   rq_documents db' = rq_documents db \<and> rq_receipts db' = rq_receipts db \<and>
   (\<exists>rows. rq_sections db' = rq_sections db @ rows \<and> map rsec_section_type rows = kinds \<and>
      map rsec_sort_order rows = map (\<lambda>i. int (n + i) * 10) [0..<length kinds] \<and>
      (\<forall>s \<in> set rows. rsec_document_id s = k \<and> rsec_deleted_at s = None \<and> rsec_status s = ''draft''))"
proof (induction kinds arbitrary: n db)
  case (Cons kind kinds)
  then obtain s db1 where s: "create_section env p k
        \<lparr>scr_title = kind, scr_section_type = kind, scr_content = None, scr_sort_order = int n * 10, scr_status = ''draft''\<rparr> a db = Inr (s, db1)"
    and rest: "create_sections env p k a (n + 1) kinds db1 = Inr db'"
    by auto
  have db1: "rq_documents db1 = rq_documents db" "rq_receipts db1 = rq_receipts db" "rq_sections db1 = rq_sections db @ [s]"
    "rsec_section_type s = kind" "rsec_sort_order s = int n * 10" "rsec_document_id s = k" "rsec_deleted_at s = None"
    "rsec_status s = ''draft''"
    using s by (auto simp: create_section_def new_section_def Let_def)
  obtain rows where rows: "rq_sections db' = rq_sections db1 @ rows" "map rsec_section_type rows = kinds"
      "map rsec_sort_order rows = map (\<lambda>i. int (n + 1 + i) * 10) [0..<length kinds]"
      "\<forall>s \<in> set rows. rsec_document_id s = k \<and> rsec_deleted_at s = None \<and> rsec_status s = ''draft''"
    and same: "rq_documents db' = rq_documents db1" "rq_receipts db' = rq_receipts db1"
    using Cons.IH [OF rest] by blast
  have "map rsec_sort_order (s # rows) = map (\<lambda>i. int (n + i) * 10) [0..<length (kind # kinds)]"
    using db1(5) rows(3) by (simp add: upt_conv_Cons map_Suc_upt [symmetric] del: upt_Suc)
  then show ?case
    using db1 rows same by (intro conjI exI [of _ "s # rows"]) auto
qed simp

lemma create_standard_new:
  assumes "create_standard env p u active data db = Inr ((d, False), db')"
  shows "\<exists>db1 db2. db1 = qe_others env 0 db \<and> create_document env p data (Some u) db1 = Inr (d, db2) \<and>
    active \<and> authorize_standard env active u p = Inr () \<and>
    (\<exists>db3. create_sections env p (rdoc_id d) (Some u) 1 standard_sections db2 = Inr db3 \<and>
       receipt_find db3 p u (dcr_request_key data) = None \<and>
       db' = db3\<lparr>rq_receipts := rq_receipts db3 @ [\<lparr>crec_project_id = p, crec_actor_id = u,
            crec_request_key = dcr_request_key data, crec_request_hash = digest (qe_digest env) (standard_payload data),
            crec_document_id = Some (rdoc_id d)\<rparr>]\<rparr>)"
  using assms
  by (auto simp: create_standard_def standard_transaction_def authorize_standard_def Let_def
      split: option.splits sum.splits if_splits prod.splits)

lemma created_document_rows:
  assumes "create_document env p data a db = Inr (d, db')"
  shows "rq_documents db' = rq_documents db @ [d] \<and> rdoc_id d = rq_seq db + 1 \<and> rdoc_deleted_at d = None \<and>
    rdoc_project_id d = p \<and> rq_sections db' = rq_sections db"
  using assms by (auto simp: create_document_def Let_def new_document_def split: if_splits)

text \<open>
  C15: A standard document is created once: the same request again answers the same document and changes
  nothing, and another content under the same key is refused.
\<close>

theorem standard_creation_once:
  assumes "requirement_reachable db" "sessions_edit env" "create_standard env p u active data db = Inr ((d, False), db')"
  shows "create_standard env p u active data db' = Inr ((d, True), db') \<and>
    (\<forall>other. dcr_request_key other = dcr_request_key data \<and>
       digest (qe_digest env) (standard_payload other) \<noteq> digest (qe_digest env) (standard_payload data) \<longrightarrow>
       create_standard env p u active other db' = Inl (duplicate ''REQUIREMENT_DOCUMENT_CREATION_KEY_CONFLICT''))"
proof -
  let ?h = "digest (qe_digest env) (standard_payload data)"
  obtain db2 db3 where new: "create_document env p data (Some u) (qe_others env 0 db) = Inr (d, db2)"
      "create_sections env p (rdoc_id d) (Some u) 1 standard_sections db2 = Inr db3"
      "receipt_find db3 p u (dcr_request_key data) = None" "authorize_standard env active u p = Inr ()"
    and db': "db' = db3\<lparr>rq_receipts := rq_receipts db3 @ [\<lparr>crec_project_id = p, crec_actor_id = u,
            crec_request_key = dcr_request_key data, crec_request_hash = ?h, crec_document_id = Some (rdoc_id d)\<rparr>]\<rparr>"
    using create_standard_new [OF assms(3)] by blast
  have "ids_ok (qe_others env 0 db)"
    using sessions_inv [OF assms(2) requirement_reachable_inv [OF assms(1)]] by (rule inv_ids)
  then have old: "\<forall>x \<in> set (rq_documents (qe_others env 0 db)). rdoc_id x \<noteq> rdoc_id d"
    using created_document_rows [OF new(1)] by (force simp: ids_ok_def rows_ok_def)
  have docs: "rq_documents db' = rq_documents (qe_others env 0 db) @ [d]" "rdoc_deleted_at d = None"
    using created_document_rows [OF new(1)] create_sections_tables [OF new(2)] db' by auto
  have append: "find P xs = None \<Longrightarrow> P y \<Longrightarrow> find P (xs @ [y]) = Some y" for P :: "'x \<Rightarrow> bool" and xs y
    by (induction xs) auto
  have "document_get_by_id db' (rdoc_id d) = Some d"
    unfolding document_get_by_id_def docs(1) using old docs(2) by (intro append) (auto simp: find_None_iff)
  moreover have "receipt_find db' p u (dcr_request_key data) = Some \<lparr>crec_project_id = p, crec_actor_id = u,
      crec_request_key = dcr_request_key data, crec_request_hash = ?h, crec_document_id = Some (rdoc_id d)\<rparr>"
    using new(3) unfolding receipt_find_def db' by (simp add: append)
  ultimately show ?thesis
    using new(4) by (simp add: create_standard_def replay_receipt_def Let_def)
qed

definition sample_standard_input :: standard_create where
  "sample_standard_input = document_create.extend sample_document_input \<lparr>dcr_request_key = ''k'', dcr_template_version = ''1''\<rparr>"

definition sample_digest_env :: requirement_env where
  "sample_digest_env = sample_requirement_env\<lparr>qe_digest := (\<lambda>s. s)\<rparr>"

lemma sample_digest_sessions: "sessions_edit sample_digest_env"
  by (simp add: sessions_edit_def sample_digest_env_def sample_requirement_env_def)

definition sample_order :: "section_sort_item list" where
  "sample_order = [\<lparr>sso_section_id = 3, sso_sort_order = 70, sso_version = 1\<rparr>, \<lparr>sso_section_id = 5, sso_sort_order = 5, sso_version = 1\<rparr>]"

definition sqs :: requirement_db where
  "sqs = snd (projr (create_standard sample_digest_env 1 7 True sample_standard_input empty_requirements))"

definition sqs_document :: requirement_document where
  "sqs_document = fst (fst (projr (create_standard sample_digest_env 1 7 True sample_standard_input empty_requirements)))"

text \<open>The result of the sample creation, evaluated once.\<close>

definition creation_shape :: "app_error + (requirement_document \<times> bool) \<times> requirement_db \<Rightarrow> bool" where
  "creation_shape result \<longleftrightarrow>
     (case result of
        Inr ((d, replayed), db) \<Rightarrow> rdoc_id d = 1 \<and> \<not> replayed \<and> \<not> isl (get_document_in_project db 1 1) \<and>
          \<not> isl (update_sort_order sample_digest_env 1 1 sample_order (Some 7) db)
      | Inl _ \<Rightarrow> False)"

lemma sqs_shape: "creation_shape (create_standard sample_digest_env 1 7 True sample_standard_input empty_requirements)"
  by code_simp

lemma sqs_run:
  "create_standard sample_digest_env 1 7 True sample_standard_input empty_requirements = Inr ((sqs_document, False), sqs)"
  and sqs_facts: "rdoc_id sqs_document = 1" "\<not> isl (get_document_in_project sqs 1 1)"
    "\<not> isl (update_sort_order sample_digest_env 1 1 sample_order (Some 7) sqs)"
  using sqs_shape unfolding sqs_def sqs_document_def by (auto simp: creation_shape_def split: sum.splits prod.splits)

lemma empty_requirements_reachable: "requirement_reachable empty_requirements"
  by (rule requirement_reachable.start) (simp add: requirement_start_def empty_requirements_def)

lemma sqs_other_payload:
  "digest (qe_digest sample_digest_env) (standard_payload (sample_standard_input\<lparr>dcr_title := ''E''\<rparr>)) \<noteq>
   digest (qe_digest sample_digest_env) (standard_payload sample_standard_input)"
  by code_simp

theorem standard_creation_once_witness:
  "(\<exists>d. create_standard sample_digest_env 1 7 True sample_standard_input sqs = Inr ((d, True), sqs)) \<and>
   create_standard sample_digest_env 1 7 True (sample_standard_input\<lparr>dcr_title := ''E''\<rparr>) sqs =
     Inl (duplicate ''REQUIREMENT_DOCUMENT_CREATION_KEY_CONFLICT'')"
  using standard_creation_once [OF empty_requirements_reachable sample_digest_sessions sqs_run] sqs_other_payload
  by simp

text \<open>
  The new standard document has exactly the seven sections of the template, drafts in steps of ten.
\<close>

theorem standard_document_sections:
  assumes "requirement_reachable db" "sessions_edit env" "create_standard env p u active data db = Inr ((d, False), db')"
  shows "map rsec_section_type (list_sections_by_document db' (rdoc_id d)) = standard_sections \<and>
    map rsec_sort_order (list_sections_by_document db' (rdoc_id d)) = [10, 20, 30, 40, 50, 60, 70] \<and>
    (\<forall>s \<in> set (list_sections_by_document db' (rdoc_id d)). rsec_status s = ''draft'')"
proof -
  let ?db1 = "qe_others env 0 db"
  obtain db2 db3 where new: "create_document env p data (Some u) ?db1 = Inr (d, db2)"
      "create_sections env p (rdoc_id d) (Some u) 1 standard_sections db2 = Inr db3" and db': "rq_sections db' = rq_sections db3"
    using create_standard_new [OF assms(3)] by auto
  have inv: "requirement_inv ?db1"
    using sessions_inv [OF assms(2) requirement_reachable_inv [OF assms(1)]] .
  have "rdoc_id x \<noteq> rdoc_id d" if "x \<in> set (rq_documents ?db1)" for x
    using inv created_document_rows [OF new(1)] that by (force simp: requirement_inv_def ids_ok_def rows_ok_def)
  then have old: "rsec_document_id s \<noteq> rdoc_id d" if "s \<in> set (rq_sections ?db1)" for s
    using inv that by (fastforce simp: requirement_inv_def places_ok_def located_def relation_target_document_def target_models_def
        dest!: tget_SomeD)
  obtain rows where rows: "rq_sections db3 = rq_sections db2 @ rows" "map rsec_section_type rows = standard_sections"
      "map rsec_sort_order rows = map (\<lambda>i. int (1 + i) * 10) [0..<length standard_sections]"
      "\<forall>s \<in> set rows. rsec_document_id s = rdoc_id d \<and> rsec_deleted_at s = None \<and> rsec_status s = ''draft''"
    using create_sections_tables [OF new(2)] by blast
  have orders: "map rsec_sort_order rows = [10, 20, 30, 40, 50, 60, 70]"
    unfolding rows(3) by (simp add: standard_sections_def upt_rec)
  have kept: "filter (\<lambda>s. rsec_document_id s = rdoc_id d \<and> rsec_deleted_at s = None) (rq_sections db') = rows"
    using old rows(4) created_document_rows [OF new(1)] by (simp add: db' rows(1) filter_empty_conv)
  have "mset (sort_key rsec_id rows) = mset rows"
    by simp
  moreover have "sorted_wrt (<) (map rsec_sort_order rows)"
    by (simp add: orders)
  ultimately have "sort_key rsec_sort_order (sort_key rsec_id rows) = rows"
    by (intro sort_key_unique) (simp_all add: sorted_wrt_map)
  then have "list_sections_by_document db' (rdoc_id d) = rows"
    by (simp add: list_sections_by_document_def kept)
  then show ?thesis
    using rows(2,4) orders by simp
qed

theorem standard_document_sections_witness:
  "map rsec_sort_order (list_sections_by_document sqs 1) = [10, 20, 30, 40, 50, 60, 70]"
proof -
  show ?thesis
    using standard_document_sections [OF empty_requirements_reachable sample_digest_sessions sqs_run] sqs_facts(1) by simp
qed

subsection \<open>The order of sections\<close>

lemma check_sort_items_Inr:
  "check_sort_items sections items = Inr () \<longleftrightarrow>
   (\<forall>i \<in> set items. \<exists>s. find (\<lambda>s. rsec_id s = sso_section_id i) sections = Some s \<and> rsec_version s = sso_version i)"
  by (induction items) (auto split: option.splits)

lemma find_unique:
  "inj_on key (set xs) \<Longrightarrow> find (\<lambda>x. key x = k) xs = Some y \<longleftrightarrow> y \<in> set xs \<and> key y = k"
  by (induction xs) (auto simp: inj_on_def)

lemma sort_order_of_distinct:
  assumes "distinct (map sso_section_id items)"
  shows "i \<in> set items \<Longrightarrow> sort_order_of items (sso_section_id i) = Some (sso_sort_order i)"
    and "k \<notin> sso_section_id ` set items \<Longrightarrow> sort_order_of items k = None"
    and "i \<in> set items \<Longrightarrow> length (filter (\<lambda>j. sso_section_id j = sso_section_id i) items) = 1"
proof -
  have "distinct (map fst (rev (map (\<lambda>i. (sso_section_id i, sso_sort_order i)) items)))"
    using assms by (simp add: rev_map [symmetric] o_def)
  then show "i \<in> set items \<Longrightarrow> sort_order_of items (sso_section_id i) = Some (sso_sort_order i)"
    unfolding sort_order_of_def by (subst map_of_eq_Some_iff) auto
  show "k \<notin> sso_section_id ` set items \<Longrightarrow> sort_order_of items k = None"
    unfolding sort_order_of_def by (subst map_of_eq_None_iff) (auto simp: image_iff)
  show "i \<in> set items \<Longrightarrow> length (filter (\<lambda>j. sso_section_id j = sso_section_id i) items) = 1"
    using assms by (induction items) (auto simp: filter_empty_conv image_iff)
qed

definition section_at :: "requirement_db \<Rightarrow> int \<Rightarrow> section_sort_item \<Rightarrow> requirement_section \<Rightarrow> bool" where
  "section_at db document_id i s \<longleftrightarrow> s \<in> set (rq_sections db) \<and> rsec_document_id s = document_id \<and>
     rsec_deleted_at s = None \<and> rsec_id s = sso_section_id i \<and> rsec_version s = sso_version i"

lemma check_sort_items_reachable:
  assumes "requirement_reachable db"
  shows "check_sort_items (list_sections_by_document db k) items = Inr () \<longleftrightarrow> (\<forall>i \<in> set items. \<exists>s. section_at db k i s)"
proof -
  have "inj_on rsec_id (set (rq_sections db))"
    using inv_ids [OF requirement_reachable_inv [OF assms]] by (simp add: ids_ok_def rows_ok_def distinct_map)
  then have "inj_on rsec_id (set (list_sections_by_document db k))"
    by (rule inj_on_subset) (auto simp: list_sections_by_document_def)
  then show ?thesis
    by (auto simp: check_sort_items_Inr find_unique section_at_def list_sections_by_document_def)
qed

lemma written_section:
  assumes "distinct (map sso_section_id items)" "i \<in> set items" "section_at db k i s"
  shows "\<exists>s' \<in> set (write_sort_orders now a items (rq_sections db)). rsec_id s' = sso_section_id i \<and>
    rsec_sort_order s' = sso_sort_order i \<and> rsec_version s' = sso_version i + 1"
proof -
  have "s \<in> set (rq_sections db)" "rsec_id s = sso_section_id i" "rsec_version s = sso_version i"
    using assms(3) by (simp_all add: section_at_def)
  then show ?thesis
    using sort_order_of_distinct(1,3) [OF assms(1,2)] unfolding write_sort_orders_def by (force simp: image_iff)
qed

lemma unwritten_section:
  assumes "s \<in> set sections" "rsec_id s \<notin> sso_section_id ` set items" "distinct (map sso_section_id items)"
  shows "s \<in> set (write_sort_orders now a items sections)"
  using assms sort_order_of_distinct(2) [OF assms(3,2)] unfolding write_sort_orders_def by (force simp: image_iff)


lemma sqs_reachable: "requirement_reachable sqs"
  by (rule requirement_reachable.step [OF empty_requirements_reachable standard_created [OF sample_digest_sessions sqs_run]])


end
