(* ===== verification/Requirement_Versions.thy ===== *)
theory Requirement_Versions imports Requirement_Sample begin

text \<open>
  Optimistic locking of documents, sections, requirements and open issues (\<open>versioned\<close>): of the writers of one
  version one wins. The promotion of an open issue is no such writer, since it does not lock the issue.
\<close>

subsection \<open>Rows under their version\<close>

lemma find_tput:
  "find (\<lambda>x. key x = k \<and> live x) (tput key r t) =
     (if key r = k then (if live r \<and> k \<in> key ` set t then Some r else None) else find (\<lambda>x. key x = k \<and> live x) t)"
  by (induction t) (auto simp: tput_def)

lemma find_key: "find (\<lambda>x. key x = k \<and> live x) t = Some r \<Longrightarrow> key r = k \<and> live r \<and> k \<in> key ` set t"
  by (auto simp: find_Some_iff)

definition document_ver :: "int \<times> int \<Rightarrow> requirement_db \<Rightarrow> int option" where
  "document_ver k db = (case get_document_in_project db (fst k) (snd k) of Inr d \<Rightarrow> Some (rdoc_version d) | Inl _ \<Rightarrow> None)"

definition requirement_ver :: "int \<times> int \<Rightarrow> requirement_db \<Rightarrow> int option" where
  "requirement_ver k db = (case get_requirement (fst k) (snd k) db of Inr r \<Rightarrow> Some (ritm_version r) | Inl _ \<Rightarrow> None)"

definition issue_ver :: "int \<times> int \<Rightarrow> requirement_db \<Rightarrow> int option" where
  "issue_ver k db = (case get_open_issue (fst k) (snd k) db of Inr i \<Rightarrow> Some (riss_version i) | Inl _ \<Rightarrow> None)"

definition serve_document_update ::
  "int \<times> int \<Rightarrow> requirement_env \<times> int option \<times> document_update \<Rightarrow> requirement_db \<Rightarrow>
   app_error + requirement_document \<times> requirement_db" where
  "serve_document_update k q = update_document (fst q) (fst k) (snd k) (snd (snd q)) (fst (snd q))"

definition serve_requirement_update ::
  "int \<times> int \<Rightarrow> requirement_env \<times> int option \<times> requirement_update \<Rightarrow> requirement_db \<Rightarrow>
   app_error + requirement \<times> requirement_db" where
  "serve_requirement_update k q = update_requirement (fst q) (fst k) (snd k) (snd (snd q)) (fst (snd q))"

definition serve_issue_update ::
  "int \<times> int \<Rightarrow> requirement_env \<times> int option \<times> issue_update \<Rightarrow> requirement_db \<Rightarrow>
   app_error + open_issue \<times> requirement_db" where
  "serve_issue_update k q = update_open_issue (fst q) (fst k) (snd k) (snd (snd q)) (fst (snd q))"

lemma not_found_class: "err_cls (not_found m) = NotFoundError"
  by (simp add: not_found_def)

lemma get_document_error: "get_document_in_project db p k = Inl e \<Longrightarrow> err_cls e = NotFoundError"
  by (auto simp: get_document_in_project_def not_found_class split: option.splits if_splits)

lemma get_requirement_error: "get_requirement p k db = Inl e \<Longrightarrow> err_cls e = NotFoundError"
  by (auto simp: get_requirement_def not_found_class ebind_eq_Inl dest: get_document_error)

lemma get_open_issue_error: "get_open_issue p k db = Inl e \<Longrightarrow> err_cls e = NotFoundError"
  by (auto simp: get_open_issue_def not_found_class ebind_eq_Inl dest: get_document_error)

lemma document_in_project:
  "get_document_in_project db p k = Inr d \<longleftrightarrow> document_get_by_id db k = Some d \<and> rdoc_project_id d = p"
  by (auto simp: get_document_in_project_def split: option.splits)

definition document_req :: "requirement_env \<times> int option \<times> document_update \<Rightarrow> int" where
  "document_req q = dup_version (snd (snd q))"

definition requirement_req :: "requirement_env \<times> int option \<times> requirement_update \<Rightarrow> int" where
  "requirement_req q = rup_version (snd (snd q))"

definition issue_req :: "requirement_env \<times> int option \<times> issue_update \<Rightarrow> int" where
  "issue_req q = iup_version (snd (snd q))"

lemma document_ver_after:
  assumes "get_document_in_project db p k = Inr d" "rdoc_id r = k" "rdoc_project_id r = p" "rdoc_deleted_at r = None"
    and "rq_documents db' = tput rdoc_id r (rq_documents db)"
  shows "document_ver k' db' = (if k' = (p, k) then Some (rdoc_version r) else document_ver k' db)"
proof -
  have d: "document_get_by_id db k = Some d" "rdoc_project_id d = p"
    using assms(1) by (auto simp: document_in_project)
  then have "k \<in> rdoc_id ` set (rq_documents db)"
    by (auto simp: document_get_by_id_def dest: find_key)
  then have "document_get_by_id db' j = (if j = k then Some r else document_get_by_id db j)" for j
    using assms(2,4) by (auto simp: document_get_by_id_def assms(5) find_tput)
  then show ?thesis
    using d assms(3) by (cases k') (auto simp: document_ver_def get_document_in_project_def)
qed

lemma requirement_ver_alt:
  "requirement_ver k db = Option.bind (requirement_get_by_id db (snd k))
     (\<lambda>r. if isl (get_document_in_project db (fst k) (ritm_document_id r)) then None else Some (ritm_version r))"
  by (auto simp: requirement_ver_def get_requirement_def ebind_def split: option.splits sum.splits)

lemma requirement_ver_after:
  assumes "get_requirement p k db = Inr q" "ritm_id r = k" "ritm_document_id r = ritm_document_id q" "ritm_deleted_at r = None"
    and "rq_items db' = tput ritm_id r (rq_items db)" "rq_documents db' = rq_documents db"
  shows "requirement_ver k' db' = (if k' = (p, k) then Some (ritm_version r) else requirement_ver k' db)"
proof -
  have q: "requirement_get_by_id db k = Some q" "\<exists>d. get_document_in_project db p (ritm_document_id q) = Inr d"
    using assms(1) by (auto simp: get_requirement_def)
  then have "k \<in> ritm_id ` set (rq_items db)"
    by (auto simp: requirement_get_by_id_def dest: find_key)
  then have "requirement_get_by_id db' j = (if j = k then Some r else requirement_get_by_id db j)" for j
    using assms(2,4) by (auto simp: requirement_get_by_id_def assms(5) find_tput)
  moreover have "get_document_in_project db' p' j = get_document_in_project db p' j" for p' j
    by (simp add: get_document_in_project_def document_get_by_id_def assms(6))
  moreover have "isl (get_document_in_project db p' (ritm_document_id q)) \<longleftrightarrow> p' \<noteq> p" for p'
    using q(2) by (auto simp: get_document_in_project_def split: option.splits if_splits)
  ultimately show ?thesis
    using q(1) assms(3) by (cases k') (simp add: requirement_ver_alt)
qed

lemma issue_ver_alt:
  "issue_ver k db = Option.bind (issue_get_by_id db (snd k))
     (\<lambda>r. if isl (get_document_in_project db (fst k) (riss_document_id r)) then None else Some (riss_version r))"
  by (auto simp: issue_ver_def get_open_issue_def ebind_def split: option.splits sum.splits)

lemma issue_ver_after:
  assumes "get_open_issue p k db = Inr q" "riss_id r = k" "riss_document_id r = riss_document_id q" "riss_deleted_at r = None"
    and "rq_issues db' = tput riss_id r (rq_issues db)" "rq_documents db' = rq_documents db"
  shows "issue_ver k' db' = (if k' = (p, k) then Some (riss_version r) else issue_ver k' db)"
proof -
  have q: "issue_get_by_id db k = Some q" "\<exists>d. get_document_in_project db p (riss_document_id q) = Inr d"
    using assms(1) by (auto simp: get_open_issue_def)
  then have "k \<in> riss_id ` set (rq_issues db)"
    by (auto simp: issue_get_by_id_def dest: find_key)
  then have "issue_get_by_id db' j = (if j = k then Some r else issue_get_by_id db j)" for j
    using assms(2,4) by (auto simp: issue_get_by_id_def assms(5) find_tput)
  moreover have "get_document_in_project db' p' j = get_document_in_project db p' j" for p' j
    by (simp add: get_document_in_project_def document_get_by_id_def assms(6))
  moreover have "isl (get_document_in_project db p' (riss_document_id q)) \<longleftrightarrow> p' \<noteq> p" for p'
    using q(2) by (auto simp: get_document_in_project_def split: option.splits if_splits)
  ultimately show ?thesis
    using q(1) assms(3) by (cases k') (simp add: issue_ver_alt)
qed

lemma served_document:
  assumes "serve_document_update k q db = Inr (r, db')"
  shows "document_ver k' db' = (if k' = k then Some (document_req q + 1) else document_ver k' db)"
proof -
  obtain d where d: "get_document_in_project db (fst k) (snd k) = Inr d" "rdoc_version d = document_req q"
    and r: "r = updated_document (qe_now (fst q)) (snd (snd q)) (fst (snd q)) d" "rq_documents db' = tput rdoc_id r (rq_documents db)"
    using assms by (auto simp: serve_document_update_def document_req_def update_document_def Let_def split: if_splits)
  have "rdoc_id d = snd k \<and> rdoc_deleted_at d = None \<and> rdoc_project_id d = fst k"
    using d(1) by (auto simp: document_in_project document_get_by_id_def dest: find_key)
  then show ?thesis
    using document_ver_after [OF d(1) _ _ _ r(2), of k'] d(2) by (simp add: r(1) updated_document_def)
qed

lemma served_requirement:
  assumes "serve_requirement_update k q db = Inr (r, db')"
  shows "requirement_ver k' db' = (if k' = k then Some (requirement_req q + 1) else requirement_ver k' db)"
proof -
  obtain d where d: "get_requirement (fst k) (snd k) db = Inr d" "ritm_version d = requirement_req q"
    and r: "r = updated_requirement (qe_now (fst q)) (snd (snd q)) (fst (snd q)) d" "rq_items db' = tput ritm_id r (rq_items db)"
      "rq_documents db' = rq_documents db"
    using assms by (auto simp: serve_requirement_update_def requirement_req_def update_requirement_def Let_def
        assigned_requirement_def revision_create_def split: if_splits)
  have "ritm_id d = snd k \<and> ritm_deleted_at d = None"
    using get_requirementD [OF d(1)] by simp
  then show ?thesis
    using requirement_ver_after [OF d(1) _ _ _ r(2,3), of k'] d(2) by (simp add: r(1) updated_requirement_def)
qed

lemma served_issue:
  assumes "serve_issue_update k q db = Inr (r, db')"
  shows "issue_ver k' db' = (if k' = k then Some (issue_req q + 1) else issue_ver k' db)"
proof -
  obtain d where d: "get_open_issue (fst k) (snd k) db = Inr d" "riss_version d = issue_req q"
    and r: "r = updated_issue (qe_now (fst q)) (snd (snd q)) (fst (snd q)) d" "rq_issues db' = tput riss_id r (rq_issues db)"
      "rq_documents db' = rq_documents db"
    using assms by (auto simp: serve_issue_update_def issue_req_def update_open_issue_def Let_def assigned_issue_def split: if_splits)
  have "riss_id d = snd k \<and> riss_deleted_at d = None"
    using get_open_issueD [OF d(1)] by simp
  then show ?thesis
    using issue_ver_after [OF d(1) _ _ _ r(2,3), of k'] d(2) by (simp add: r(1) updated_issue_def)
qed

interpretation document: versioned document_ver serve_document_update document_req
proof
  show "document_ver k db = Some v \<Longrightarrow> document_req q \<noteq> v \<Longrightarrow> \<exists>c. serve_document_update k q db = Inl (version_conflict c)" for k db v q
    by (auto simp: document_ver_def document_req_def serve_document_update_def update_document_def split: sum.splits)
  show "document_ver k db = None \<Longrightarrow> \<exists>e. serve_document_update k q db = Inl e \<and> err_cls e = NotFoundError" for k db q
    by (auto simp: document_ver_def serve_document_update_def update_document_def split: sum.splits dest: get_document_error)
qed (simp_all add: served_document)

interpretation requirement: versioned requirement_ver serve_requirement_update requirement_req
proof
  show "requirement_ver k db = Some v \<Longrightarrow> requirement_req q \<noteq> v \<Longrightarrow>
      \<exists>c. serve_requirement_update k q db = Inl (version_conflict c)" for k db v q
    by (auto simp: requirement_ver_def requirement_req_def serve_requirement_update_def update_requirement_def split: sum.splits)
  show "requirement_ver k db = None \<Longrightarrow> \<exists>e. serve_requirement_update k q db = Inl e \<and> err_cls e = NotFoundError" for k db q
    by (auto simp: requirement_ver_def serve_requirement_update_def update_requirement_def split: sum.splits dest: get_requirement_error)
qed (simp_all add: served_requirement)

interpretation issue: versioned issue_ver serve_issue_update issue_req
proof
  show "issue_ver k db = Some v \<Longrightarrow> issue_req q \<noteq> v \<Longrightarrow> \<exists>c. serve_issue_update k q db = Inl (version_conflict c)" for k db v q
    by (auto simp: issue_ver_def issue_req_def serve_issue_update_def update_open_issue_def split: sum.splits)
  show "issue_ver k db = None \<Longrightarrow> \<exists>e. serve_issue_update k q db = Inl e \<and> err_cls e = NotFoundError" for k db q
    by (auto simp: issue_ver_def serve_issue_update_def update_open_issue_def split: sum.splits dest: get_open_issue_error)
qed (simp_all add: served_issue)

text \<open>
  Of the clients that read one version of a requirement at most one writes it: once an update is accepted,
  every other one with the same version is refused with a version conflict, after any further updates by anyone.
\<close>

theorem requirement_one_winner_per_version:
  assumes "serve_requirement_update k q db = Inr (r, db')" "requirement_req q' = requirement_req q"
  shows "\<exists>c. serve_requirement_update k q' (serve serve_requirement_update db' rs) = Inl (version_conflict c)"
  using assms by (rule requirement.at_most_one_winner)

theorem requirement_one_winner_per_version_witness:
  "\<exists>c. serve_requirement_update (1, 5) (sre, Some 8, sample_retitle 1 ''X'')
     (serve serve_requirement_update sq4 [((1, 5), sre, Some 8, sample_retitle 2 ''R3'')]) = Inl (version_conflict c)"
proof (rule requirement_one_winner_per_version)
  show "serve_requirement_update (1, 5) (sre, Some 7, sample_retitle 1 ''R2'') sq3 =
      Inr (fst (projr (update_requirement sre 1 5 (sample_retitle 1 ''R2'') (Some 7) sq3)), sq4)"
    using sq4_run by (simp add: serve_requirement_update_def)
qed (simp add: requirement_req_def sample_retitle_def)

subsection \<open>The promotion of an open issue\<close>

definition sample_issue_retitle :: issue_update where
  "sample_issue_retitle = \<lparr>iup_version = 1, iup_related_requirement_id = Unset, iup_title = Set ''Q2'', iup_description = Unset,
     iup_impact_scope = Unset, iup_assignee_id = Unset, iup_due_date = Unset, iup_status = Set ''closed'',
     iup_resolution = Set ''no'', iup_reason = None\<rparr>"

definition sample_promote :: issue_promote where
  "sample_promote = \<lparr>ipr_version = 1, ipr_requirement_type = ''system'', ipr_section_id = None, ipr_category = None,
     ipr_title = None, ipr_description = None, ipr_rationale = None, ipr_acceptance_criteria = None, ipr_priority = ''high'',
     ipr_status = ''draft'', ipr_source = None, ipr_owner_id = None, ipr_resolution = Some ''done'', ipr_reason = None\<rparr>"

text \<open>Another session closes the issue between the check of its version and the writes of the promotion.\<close>

definition racing_env :: requirement_env where
  "racing_env = sre\<lparr>qe_others := (\<lambda>_ db. case update_open_issue sre 1 11 sample_issue_retitle (Some 8) db of
     Inr (_, db') \<Rightarrow> db' | Inl _ \<Rightarrow> db)\<rparr>"

lemma racing_sessions: "sessions_edit racing_env"
  by (auto simp: sessions_edit_def racing_env_def split: sum.splits dest: update_open_issue_edits)


end
