(* ===== verification/Guest_Model.thy ===== *)
theory Guest_Model imports Rbac User_Session Canonical_Json begin

text \<open>
  Guest invitations: the rows of \<^verbatim>\<open>app/models/guest_invitation.py\<close> and of the participations in
  \<^verbatim>\<open>app/models/artifact_publication_access.py\<close>, the writes of \<open>GuestInvitationRepository\<close>
  (\<^verbatim>\<open>app/repositories/guest_invitation.py\<close>) and what the database itself checks on them: the unique
  indexes and the triggers that the migrations of these tables install
  (\<open>guard_guest_invitation\<close>, \<open>guard_guest_invitation_check\<close>, \<open>guard_guest_invitation_event\<close>,
  \<open>publication_participation_guard\<close>). Identifiers that are UUIDs are strings; names of organisations, projects
  and people are left out.
\<close>

subsection \<open>Rows\<close>

record invitation =
  gi_id :: string
  gi_project_id :: int
  gi_recipient_email :: string
  gi_recipient_id :: "int option"
  gi_display_label :: string
  gi_created_by :: int
  gi_created_at :: time
  gi_expires_at :: time
  gi_participation_expires_at :: time
  gi_status :: string
  gi_version :: int
  gi_token_generation :: int
  gi_token_hash :: string
  gi_delivery_state :: string
  gi_sent_at :: "time option"
  gi_provider_message_id :: "string option"
  gi_accepted_by :: "int option"
  gi_participation_id :: "string option"
  gi_request_id :: string
  gi_request_digest :: string

record invitation_check =
  gk_id :: string
  gk_project_id :: int
  gk_invitation_id :: string
  gk_token_generation :: int
  gk_proof_hash :: string
  gk_expires_at :: time
  gk_consumed_at :: "time option"

record invitation_operation =
  io_id :: string
  io_state :: string
  io_version :: int
  io_delivery_state :: string

record invitation_event =
  gn_id :: string
  gn_project_id :: int
  gn_invitation_id :: string
  gn_kind :: string
  gn_actor_id :: "int option"
  gn_actor_kind :: string
  gn_occurred_at :: time
  gn_operation_id :: string
  gn_request_digest :: string
  gn_is_root :: bool
  gn_version :: int
  gn_state :: string
  gn_reason :: "string option"
  gn_result :: invitation_operation

record participation =
  gp_id :: string
  gp_project_id :: int
  gp_user_id :: int
  gp_generation :: int
  gp_status :: string
  gp_expires_at :: time
  gp_version :: int
  gp_created_by :: int
  gp_revoked_at :: "time option"
  gp_revoked_by :: "int option"
  gp_revocation_reason :: "string option"

record guest_audit =
  ga_event_type :: string
  ga_tenant_id :: "int option"
  ga_actor_user_id :: "int option"
  ga_project_id :: int
  ga_invitation_id :: string
  ga_operation_id :: string

record guest_db =
  gd_auth :: auth_db
  gd_rbac :: rbac_db
  gd_invitations :: "invitation list"
  gd_checks :: "invitation_check list"
  gd_events :: "invitation_event list"
  gd_participations :: "participation list"
  gd_audits :: "guest_audit list"

text \<open>
  The settings, the clock of the statements and the clock of the triggers, which run a little later, and the
  mail service: whether it can be used, the addresses of the local capture, and the outcome of a mail.
\<close>

datatype invitation_mail = MailSent string | CaptureFailed | CaptureUncertain | MailUnavailable

record guest_env =
  gv_auth :: auth_env
  gv_trigger_clock :: time
  gv_public :: bool
  gv_mail_available :: bool
  gv_local_capture :: "string \<Rightarrow> bool"
  gv_mail :: "invitation \<Rightarrow> string \<Rightarrow> invitation_mail"

abbreviation gv_now :: "guest_env \<Rightarrow> time" where
  "gv_now env \<equiv> ae_now (gv_auth env)"

text \<open>What the session of the request carries (\<open>original.info\<close>).\<close>

record guest_context =
  gx_tenant_id :: "int option"
  gx_tenant_user_id :: "int option"
  gx_demo_id :: "string option"
  gx_demo_realm :: bool
  gx_mcp_connection_id :: "string option"
  gx_auth_session :: "string option"

text \<open>A statement the database refuses, and an operation that raises or is refused.\<close>

datatype sql_fault = SerializationFailure | Deadlock | CheckViolation | UniqueViolation

type_synonym guest_error = "sql_fault + app_error"

definition raised :: "app_error + 'a \<Rightarrow> guest_error + 'a" where
  "raised = map_sum Inr id"

definition refused :: "sql_fault + 'a \<Rightarrow> guest_error + 'a" where
  "refused = map_sum Inl id"

lemma raised_simps [simp]: "raised (Inl e) = Inl (Inr e)" "raised (Inr x) = Inr x"
  "raised m = Inr x \<longleftrightarrow> m = Inr x" "raised m = Inl (Inr e) \<longleftrightarrow> m = Inl e" "raised m \<noteq> Inl (Inl f)"
  by (cases m; auto simp: raised_def)+

lemma refused_simps [simp]: "refused (Inl f) = Inl (Inl f)" "refused (Inr x) = Inr x"
  "refused m = Inr x \<longleftrightarrow> m = Inr x" "refused m = Inl (Inl f) \<longleftrightarrow> m = Inl f" "refused m \<noteq> Inl (Inr e)"
  by (cases m; auto simp: refused_def)+

subsection \<open>What the database checks\<close>

definition invitation_by_id :: "string \<Rightarrow> guest_db \<Rightarrow> invitation option" where
  "invitation_by_id k db = tget gi_id k (gd_invitations db)"

definition participation_by_id :: "string option \<Rightarrow> guest_db \<Rightarrow> participation option" where
  "participation_by_id k db = Option.bind k (\<lambda>k. tget gp_id k (gd_participations db))"

definition delivery_states :: "string list" where
  "delivery_states = [''sending'', ''sent'', ''failed'', ''unknown'']"

definition invitation_states :: "string list" where
  "invitation_states = [''pending'', ''accepted'', ''declined'', ''revoked'', ''expired'']"

definition invitation_row_ok :: "invitation \<Rightarrow> bool" where
  "invitation_row_ok i \<longleftrightarrow> gi_status i \<in> set invitation_states \<and> 0 < gi_version i \<and> 0 < gi_token_generation i \<and>
     gi_delivery_state i \<in> set delivery_states"

text \<open>\<open>IS DISTINCT FROM\<close> is inequality of options here.\<close>

definition acceptance_guard :: "time \<Rightarrow> guest_db \<Rightarrow> invitation \<Rightarrow> bool" where
  "acceptance_guard clock db new \<longleftrightarrow>
     (if gi_status new = ''accepted''
      then clock < gi_expires_at new \<and> clock < gi_participation_expires_at new \<and>
           (case participation_by_id (gi_participation_id new) db of
              None \<Rightarrow> False
            | Some part \<Rightarrow> gi_accepted_by new = gi_recipient_id new \<and> gi_accepted_by new = Some (gp_user_id part) \<and>
                gp_project_id part = gi_project_id new \<and> gp_status part = ''active'' \<and>
                gp_expires_at part = gi_participation_expires_at new)
      else gi_accepted_by new = None \<and> gi_participation_id new = None)"

definition invitation_insert_guard :: "time \<Rightarrow> guest_db \<Rightarrow> invitation \<Rightarrow> bool" where
  "invitation_insert_guard clock db new \<longleftrightarrow>
     gi_status new = ''pending'' \<and> gi_version new = 1 \<and> gi_token_generation new = 1 \<and> clock < gi_expires_at new \<and>
     gi_expires_at new \<le> gi_participation_expires_at new \<and> gi_accepted_by new = None \<and> gi_participation_id new = None \<and>
     acceptance_guard clock db new"

text \<open>The columns an update may change are set to the old ones to compare the rest.\<close>

definition invitation_fixed :: "invitation \<Rightarrow> invitation \<Rightarrow> bool" where
  "invitation_fixed old new \<longleftrightarrow>
     new\<lparr>gi_status := gi_status old, gi_version := gi_version old, gi_token_generation := gi_token_generation old,
       gi_token_hash := gi_token_hash old, gi_delivery_state := gi_delivery_state old, gi_sent_at := gi_sent_at old,
       gi_provider_message_id := gi_provider_message_id old, gi_recipient_id := gi_recipient_id old,
       gi_accepted_by := gi_accepted_by old, gi_participation_id := gi_participation_id old\<rparr> = old"

definition invitation_update_guard :: "time \<Rightarrow> guest_db \<Rightarrow> invitation \<Rightarrow> invitation \<Rightarrow> bool" where
  "invitation_update_guard clock db old new \<longleftrightarrow>
     gi_status old = ''pending'' \<and> invitation_fixed old new \<and> gi_version new = gi_version old + 1 \<and>
     gi_token_generation old \<le> gi_token_generation new \<and> gi_token_generation new \<le> gi_token_generation old + 1 \<and>
     (gi_recipient_id old \<noteq> None \<longrightarrow> gi_recipient_id new = gi_recipient_id old) \<and>
     (gi_token_hash new \<noteq> gi_token_hash old \<longleftrightarrow> gi_token_generation new = gi_token_generation old + 1) \<and>
     acceptance_guard clock db new"

definition check_insert_guard :: "time \<Rightarrow> guest_db \<Rightarrow> invitation_check \<Rightarrow> bool" where
  "check_insert_guard clock db new \<longleftrightarrow>
     (case invitation_by_id (gk_invitation_id new) db of
        None \<Rightarrow> False
      | Some i \<Rightarrow> gi_status i = ''pending'' \<and> gi_token_generation i = gk_token_generation new \<and> clock < gk_expires_at new \<and>
          gk_expires_at new \<le> gi_expires_at i \<and> gk_expires_at new \<le> clock + 1800 \<and> gk_consumed_at new = None)"

definition check_update_guard :: "invitation_check \<Rightarrow> invitation_check \<Rightarrow> bool" where
  "check_update_guard old new \<longleftrightarrow>
     gk_consumed_at old = None \<and> gk_consumed_at new \<noteq> None \<and> new\<lparr>gk_consumed_at := None\<rparr> = old"

definition event_insert_guard :: "invitation_event \<Rightarrow> bool" where
  "event_insert_guard e \<longleftrightarrow> gn_actor_kind e \<in> {''user'', ''email_recipient'', ''delivery''} \<and>
     (gn_actor_kind e = ''user'' \<longrightarrow> gn_actor_id e \<noteq> None)"

definition owner_tenant :: "rbac_db \<Rightarrow> int \<Rightarrow> int option" where
  "owner_tenant db project_id =
     Option.bind (find (\<lambda>p. pj_id p = project_id \<and> pj_deleted_at p = None) (rb_projects db)) (\<lambda>p. Some (pj_tenant_id p))"

definition next_generation :: "guest_db \<Rightarrow> int \<Rightarrow> int \<Rightarrow> int" where
  "next_generation db project_id user_id =
     fold max (map gp_generation (filter (\<lambda>p. gp_project_id p = project_id \<and> gp_user_id p = user_id) (gd_participations db))) 0 + 1"

definition participation_insert_guard :: "time \<Rightarrow> guest_db \<Rightarrow> participation \<Rightarrow> bool" where
  "participation_insert_guard clock db new \<longleftrightarrow>
     gp_status new = ''active'' \<and> gp_version new = 1 \<and> clock < gp_expires_at new \<and>
     (case owner_tenant (gd_rbac db) (gp_project_id new) of
        None \<Rightarrow> False
      | Some t \<Rightarrow> list_ex (\<lambda>x. tn_id x = t \<and> tn_status x = ''active'') (rb_tenants (gd_rbac db)) \<and>
          list_ex (\<lambda>u. au_id u = gp_user_id new \<and> au_is_active u \<and> au_deleted_at u = None) (adb_users (gd_auth db)) \<and>
          \<not> list_ex (\<lambda>g. rg_user_id g = gp_user_id new) (adb_review_grants (gd_auth db)) \<and>
          \<not> list_ex (\<lambda>m. tm_tenant_id m = t \<and> tm_user_id m = gp_user_id new \<and> tm_status m = ''active'')
              (rb_tenant_members (gd_rbac db)) \<and>
          gp_generation new = next_generation db (gp_project_id new) (gp_user_id new))"

subsection \<open>Writes\<close>

definition pending_clash :: "invitation \<Rightarrow> invitation \<Rightarrow> bool" where
  "pending_clash i x \<longleftrightarrow> gi_status i = ''pending'' \<and> gi_status x = ''pending'' \<and> gi_project_id x = gi_project_id i \<and>
     py_lower (gi_recipient_email x) = py_lower (gi_recipient_email i)"

definition insert_invitation :: "guest_env \<Rightarrow> invitation \<Rightarrow> guest_db \<Rightarrow> sql_fault + guest_db" where
  "insert_invitation env i db =
     (if \<not> (invitation_insert_guard (gv_trigger_clock env) db i \<and> invitation_row_ok i) then Inl CheckViolation
      else if list_ex (\<lambda>x. gi_id x = gi_id i \<or> pending_clash i x \<or>
                gi_project_id x = gi_project_id i \<and> gi_created_by x = gi_created_by i \<and> gi_request_id x = gi_request_id i)
              (gd_invitations db) then Inl UniqueViolation
      else Inr (db\<lparr>gd_invitations := gd_invitations db @ [i]\<rparr>))"

definition update_invitation :: "guest_env \<Rightarrow> invitation \<Rightarrow> guest_db \<Rightarrow> sql_fault + guest_db" where
  "update_invitation env i db =
     (case invitation_by_id (gi_id i) db of
        None \<Rightarrow> Inr db
      | Some old \<Rightarrow>
          if \<not> (invitation_update_guard (gv_trigger_clock env) db old i \<and> invitation_row_ok i) then Inl CheckViolation
          else if list_ex (\<lambda>x. gi_id x \<noteq> gi_id i \<and> pending_clash i x) (gd_invitations db) then Inl UniqueViolation
          else Inr (db\<lparr>gd_invitations := tput gi_id i (gd_invitations db)\<rparr>))"

definition insert_check :: "guest_env \<Rightarrow> invitation_check \<Rightarrow> guest_db \<Rightarrow> sql_fault + guest_db" where
  "insert_check env c db =
     (if \<not> check_insert_guard (gv_trigger_clock env) db c then Inl CheckViolation
      else if list_ex (\<lambda>x. gk_id x = gk_id c \<or> gk_proof_hash x = gk_proof_hash c) (gd_checks db) then Inl UniqueViolation
      else Inr (db\<lparr>gd_checks := gd_checks db @ [c]\<rparr>))"

definition update_check :: "invitation_check \<Rightarrow> guest_db \<Rightarrow> sql_fault + guest_db" where
  "update_check c db =
     (case tget gk_id (gk_id c) (gd_checks db) of
        None \<Rightarrow> Inr db
      | Some old \<Rightarrow> if \<not> check_update_guard old c then Inl CheckViolation
                    else Inr (db\<lparr>gd_checks := tput gk_id c (gd_checks db)\<rparr>))"

definition insert_invitation_event :: "invitation_event \<Rightarrow> guest_db \<Rightarrow> sql_fault + guest_db" where
  "insert_invitation_event e db =
     (if \<not> event_insert_guard e then Inl CheckViolation
      else if list_ex (\<lambda>x. gn_id x = gn_id e \<or> gn_is_root x \<and> gn_is_root e \<and> gn_invitation_id x = gn_invitation_id e \<and>
                gn_operation_id x = gn_operation_id e) (gd_events db) then Inl UniqueViolation
      else Inr (db\<lparr>gd_events := gd_events db @ [e]\<rparr>))"

definition insert_participation :: "guest_env \<Rightarrow> participation \<Rightarrow> guest_db \<Rightarrow> sql_fault + guest_db" where
  "insert_participation env p db =
     (if \<not> participation_insert_guard (gv_trigger_clock env) db p then Inl CheckViolation
      else if list_ex (\<lambda>x. gp_id x = gp_id p \<or> gp_project_id x = gp_project_id p \<and> gp_user_id x = gp_user_id p \<and>
                (gp_generation x = gp_generation p \<or> gp_status x = ''active'' \<and> gp_status p = ''active''))
              (gd_participations db) then Inl UniqueViolation
      else Inr (db\<lparr>gd_participations := gd_participations db @ [p]\<rparr>))"

end
