(* ===== verification/Guest_Invitation.thy ===== *)
theory Guest_Invitation imports Guest_Model begin

text \<open>
  The life of a guest invitation: \<open>GuestInvitationService\<close> of \<^verbatim>\<open>app/services/guest_invitation.py\<close> over the
  access checks of \<open>PublicationAccessContext\<close> (\<^verbatim>\<open>app/services/publication_access_context.py\<close>). Random
  identifiers and secrets are arguments (\<open>guest_fresh\<close>); a time in the JSON of a request is its number. A
  transaction is one step; sending is two, with the mail between them, and what others do meanwhile is an
  argument. Locks are left out.
\<close>

subsection \<open>Inputs and answers\<close>

record invitation_create =
  ic_request_id :: string
  ic_email :: string
  ic_display_label :: string
  ic_participation_expires_at :: time

record invitation_version =
  iv_request_id :: string
  iv_version :: int

record invitation_revoke = invitation_version +
  iv_reason :: string

record invitation_register = invitation_version +
  iv_name :: string
  iv_password :: string

record invitation_read =
  ir_id :: string
  ir_email :: string
  ir_display_label :: string
  ir_state :: string
  ir_version :: int
  ir_delivery_state :: string
  ir_expires_at :: time
  ir_participation_expires_at :: time
  ir_created_at :: time

record recipient_read =
  iq_id :: string
  iq_display_label :: string
  iq_state :: string
  iq_version :: int
  iq_expires_at :: time
  iq_participation_expires_at :: time
  iq_next_step :: string

record guest_fresh =
  gf_id :: string
  gf_secret :: string
  gf_event :: string
  gf_other_event :: string

definition create_input :: "invitation_create \<Rightarrow> pydict" where
  "create_input data =
     [(''request_id'', PStr (ic_request_id data)), (''email'', PStr (ic_email data)),
      (''display_label'', PStr (ic_display_label data)),
      (''participation_expires_at'', PInt (ic_participation_expires_at data))]"

definition version_input :: "'a invitation_version_scheme \<Rightarrow> pydict" where
  "version_input data = [(''request_id'', PStr (iv_request_id data)), (''version'', PInt (iv_version data))]"

definition revoke_input :: "invitation_revoke \<Rightarrow> pydict" where
  "revoke_input data = version_input data @ [(''reason'', PStr (iv_reason data))]"

definition register_input :: "invitation_register \<Rightarrow> pydict" where
  "register_input data = version_input data @ [(''name'', PStr (iv_name data)), (''password'', PStr (iv_password data))]"

definition secret_digest :: "guest_env \<Rightarrow> string \<Rightarrow> string" where
  "secret_digest env value = ae_digest (gv_auth env) value"

text \<open>\<open>json.dumps(..., sort_keys=True)\<close>: ASCII, with a space after every comma and colon.\<close>

definition ascii_escape :: "char \<Rightarrow> string" where
  "ascii_escape c =
     (let n = of_char c :: nat in
      case map_of short_escapes n of
        Some e \<Rightarrow> [CHR 0x5C, e]
      | None \<Rightarrow>
          if n < 32 \<or> 126 < n then [CHR 0x5C, CHR ''u'', CHR ''0'', CHR ''0'', hex_digit (n div 16), hex_digit (n mod 16)]
          else [c])"

definition dumps_string :: "string \<Rightarrow> string" where
  "dumps_string s = CHR 0x22 # concat (map ascii_escape s) @ [CHR 0x22]"

fun dumps_items :: "string list \<Rightarrow> string" where
  "dumps_items [] = []"
| "dumps_items [x] = x"
| "dumps_items (x # y # xs) = x @ '', '' @ dumps_items (y # xs)"

fun json_dumps :: "pyval \<Rightarrow> string" where
  "json_dumps PNone = ''null''"
| "json_dumps (PBool b) = (if b then ''true'' else ''false'')"
| "json_dumps (PInt i) = show_int i"
| "json_dumps (PStr s) = dumps_string s"
| "json_dumps (PList vs) = ''['' @ dumps_items (map json_dumps vs) @ '']''"
| "json_dumps (PDict d) = ''{'' @
     dumps_items (map (\<lambda>(k, t). dumps_string k @ '': '' @ t)
       (sort_key fst (map (\<lambda>(k, v). (k, json_dumps v)) d))) @ ''}''"

definition input_digest :: "guest_env \<Rightarrow> string \<Rightarrow> pydict \<Rightarrow> string" where
  "input_digest env kind data =
     ae_hmac (gv_auth env) (json_dumps (PDict [(''kind'', PStr kind), (''data'', PDict data)]))"

subsection \<open>Access\<close>

definition verify_actor ::
  "guest_env \<Rightarrow> guest_context \<Rightarrow> int \<Rightarrow> bool \<Rightarrow> guest_db \<Rightarrow> app_error + auth_user \<times> user_session" where
  "verify_actor env ctx user_id internal db =
     (case user_by_id user_id (gd_auth db) of
        None \<Rightarrow> Inl (raise_cls ForbiddenError)
      | Some actor \<Rightarrow>
          if \<not> au_is_active actor \<or> au_deleted_at actor \<noteq> None \<or> au_password_change_required actor \<or>
             internal \<and> au_user_type actor \<noteq> ''internal'' then Inl (raise_cls ForbiddenError)
          else
            (case Option.bind (gx_auth_session ctx) (\<lambda>k. session_by_id k (gd_auth db)) of
               None \<Rightarrow> Inl (raise_cls TokenExpiredError)
             | Some s \<Rightarrow>
                 if us_user_id s \<noteq> au_id actor \<or> us_revoked_at s \<noteq> None \<or> us_expires_at s \<le> gv_now env \<or>
                    us_absolute_expires_at s \<le> gv_now env then Inl (raise_cls TokenExpiredError)
                 else if \<not> require_verified (gv_auth env) actor s then Inl (raise_cls MfaRequiredError)
                 else if tget rg_user_id (au_id actor) (adb_review_grants (gd_auth db)) \<noteq> None
                      then Inl (raise_cls ForbiddenError)
                 else Inr (actor, s)))"

definition project_managed :: "rbac_db \<Rightarrow> int \<Rightarrow> int \<Rightarrow> bool" where
  "project_managed db project_id tenant_id \<longleftrightarrow>
     [pj_id p. p \<leftarrow> rb_projects db, t \<leftarrow> rb_tenants db, tn_id t = pj_tenant_id p,
        pj_id p = project_id \<and> pj_tenant_id p = tenant_id \<and> pj_deleted_at p = None \<and> tn_status t = ''active''] \<noteq> []"

definition tenant_administrator :: "rbac_db \<Rightarrow> int \<Rightarrow> int \<Rightarrow> bool" where
  "tenant_administrator db tenant_id user_id \<longleftrightarrow>
     [tm_id m. m \<leftarrow> rb_tenant_members db, r \<leftarrow> rb_roles db, ro_id r = tm_role_id m,
        tm_tenant_id m = tenant_id \<and> tm_user_id m = user_id \<and> tm_status m = ''active'' \<and> ro_scope r = ''tenant'' \<and>
        ro_key r \<in> {''tenant_owner'', ''tenant_admin''}] \<noteq> []"

definition management_check :: "guest_db \<Rightarrow> int \<Rightarrow> int \<Rightarrow> int \<Rightarrow> string \<Rightarrow> app_error + unit" where
  "management_check db tenant_id actor_id project_id permission =
     ebind (raise_if (\<not> project_managed (gd_rbac db) project_id tenant_id) (raise_cls ForbiddenError)) (\<lambda>_.
     raise_if (\<not> tenant_administrator (gd_rbac db) tenant_id actor_id \<and>
               \<not> has_project_permission (gd_auth db) (gd_rbac db) False (Some tenant_id) actor_id project_id permission)
       (raise_cls ForbiddenError))"

definition special_session :: "guest_context \<Rightarrow> bool" where
  "special_session ctx \<longleftrightarrow> gx_demo_id ctx \<noteq> None \<or> gx_demo_realm ctx \<or> gx_mcp_connection_id ctx \<noteq> None"

definition guest_management ::
  "guest_env \<Rightarrow> guest_context \<Rightarrow> int \<Rightarrow> int \<Rightarrow> string \<Rightarrow> guest_db \<Rightarrow> app_error + auth_user" where
  "guest_management env ctx user_id project_id permission db =
     ebind (raise_if (special_session ctx) (raise_cls ForbiddenError)) (\<lambda>_.
     ebind (raise_if (gx_tenant_user_id ctx \<noteq> Some user_id) (raise_cls ForbiddenError)) (\<lambda>_.
     ebind (some_or (raise_cls ForbiddenError) (gx_tenant_id ctx)) (\<lambda>tenant_id.
     ebind (verify_actor env ctx user_id True db) (\<lambda>(actor, _).
     ebind (management_check db tenant_id (au_id actor) project_id permission) (\<lambda>_. Inr actor)))))"

definition require_delivery :: "guest_env \<Rightarrow> string \<Rightarrow> app_error + unit" where
  "require_delivery env email =
     (if gv_public env then raise_if (\<not> gv_mail_available env) (raise_cls EmailUnavailableError)
      else raise_if (\<not> gv_local_capture env email) (raise_cls ForbiddenError))"

text \<open>The project of an invitation with its organisation, both in use.\<close>

definition guest_project :: "guest_db \<Rightarrow> int \<Rightarrow> app_error + int" where
  "guest_project db project_id =
     (case [pj_tenant_id p. p \<leftarrow> rb_projects (gd_rbac db), t \<leftarrow> rb_tenants (gd_rbac db), pj_tenant_id p = tn_id t,
              pj_id p = project_id \<and> pj_deleted_at p = None \<and> tn_status t = ''active''] of
        [] \<Rightarrow> Inl (raise_cls NotFoundError) | t # _ \<Rightarrow> Inr t)"

definition inviter :: "guest_db \<Rightarrow> invitation \<Rightarrow> app_error + unit" where
  "inviter db row =
     ebind (guest_project db (gi_project_id row)) (\<lambda>_.
     case user_by_id (gi_created_by row) (gd_auth db) of
       None \<Rightarrow> Inl (raise_cls NotFoundError)
     | Some actor \<Rightarrow>
         if \<not> au_is_active actor \<or> au_deleted_at actor \<noteq> None \<or> au_user_type actor \<noteq> ''internal'' \<or>
            au_password_change_required actor \<or> tget rg_user_id (au_id actor) (adb_review_grants (gd_auth db)) \<noteq> None
         then Inl (raise_cls NotFoundError)
         else
           (case find (\<lambda>p. pj_id p = gi_project_id row) (rb_projects (gd_rbac db)) of
              None \<Rightarrow> Inl (raise_cls NotFoundError)
            | Some p \<Rightarrow>
                (case management_check db (pj_tenant_id p) (au_id actor) (gi_project_id row) ''project:invite_member'' of
                   Inl _ \<Rightarrow> Inl (raise_cls NotFoundError) | Inr _ \<Rightarrow> Inr ())))"

definition require_row :: "guest_db \<Rightarrow> string \<Rightarrow> int option \<Rightarrow> app_error + invitation" where
  "require_row db identity project_id =
     (case invitation_by_id identity db of
        None \<Rightarrow> Inl (raise_cls NotFoundError)
      | Some row \<Rightarrow> if project_id \<noteq> None \<and> project_id \<noteq> Some (gi_project_id row) then Inl (raise_cls NotFoundError)
                    else Inr row)"

definition recipient_access :: "guest_context \<Rightarrow> string \<Rightarrow> guest_db \<Rightarrow> app_error + invitation" where
  "recipient_access ctx identity db =
     ebind (raise_if (special_session ctx) (raise_cls ForbiddenError)) (\<lambda>_.
     ebind (require_row db identity None) (\<lambda>row.
     ebind (inviter db row) (\<lambda>_. Inr row)))"

subsection \<open>Reading\<close>

definition invitation_state :: "invitation \<Rightarrow> time \<Rightarrow> string" where
  "invitation_state row now = (if gi_status row = ''pending'' \<and> gi_expires_at row \<le> now then ''expired'' else gi_status row)"

definition read_invitation :: "invitation \<Rightarrow> time \<Rightarrow> invitation_read" where
  "read_invitation row now =
     \<lparr>ir_id = gi_id row, ir_email = gi_recipient_email row, ir_display_label = gi_display_label row,
      ir_state = invitation_state row now, ir_version = gi_version row, ir_delivery_state = gi_delivery_state row,
      ir_expires_at = gi_expires_at row, ir_participation_expires_at = gi_participation_expires_at row,
      ir_created_at = gi_created_at row\<rparr>"

definition check_version :: "invitation \<Rightarrow> 'a invitation_version_scheme \<Rightarrow> app_error + unit" where
  "check_version row data =
     raise_if (gi_version row \<noteq> iv_version data)
       (version_conflict [(''version'', PInt (gi_version row)), (''state'', PStr (gi_status row))])"

definition previous_operation :: "guest_db \<Rightarrow> string \<Rightarrow> string \<Rightarrow> invitation_event option" where
  "previous_operation db identity operation_id =
     find (\<lambda>e. gn_invitation_id e = identity \<and> gn_operation_id e = operation_id \<and> gn_is_root e) (gd_events db)"

definition replay_operation ::
  "guest_env \<Rightarrow> guest_db \<Rightarrow> invitation \<Rightarrow> string \<Rightarrow> string \<Rightarrow> pydict \<Rightarrow> int option \<Rightarrow> app_error + invitation_operation option" where
  "replay_operation env db row kind request_id input actor_id =
     (case previous_operation db (gi_id row) request_id of
        None \<Rightarrow> Inr None
      | Some previous \<Rightarrow>
          if gn_request_digest previous \<noteq> input_digest env kind input \<or> gn_actor_id previous \<noteq> actor_id
          then Inl (raise_cls DuplicateResourceError)
          else Inr (Some (gn_result previous)))"

definition guest_identities :: "guest_db \<Rightarrow> string \<Rightarrow> auth_user list" where
  "guest_identities db email =
     sort_key au_id (filter (\<lambda>u. py_lower (au_email u) = py_lower email) (adb_users (gd_auth db)))"

definition internal_member :: "guest_db \<Rightarrow> invitation \<Rightarrow> auth_user \<Rightarrow> bool" where
  "internal_member db row person \<longleftrightarrow>
     [tm_id m. m \<leftarrow> rb_tenant_members (gd_rbac db), p \<leftarrow> rb_projects (gd_rbac db), pj_tenant_id p = tm_tenant_id m,
        pj_id p = gi_project_id row \<and> tm_user_id m = au_id person \<and> tm_status m = ''active''] \<noteq> []"

text \<open>The person an invitation is for: none yet, or exactly one with this very address.\<close>

definition invitation_target :: "guest_db \<Rightarrow> invitation \<Rightarrow> app_error + auth_user option" where
  "invitation_target db row =
     (case guest_identities db (gi_recipient_email row) of
        [] \<Rightarrow> if gi_recipient_id row \<noteq> None then Inl (raise_cls NotFoundError) else Inr None
      | [person] \<Rightarrow>
          if au_email person \<noteq> gi_recipient_email row \<or> \<not> au_is_active person \<or> au_deleted_at person \<noteq> None \<or>
             tget rg_user_id (au_id person) (adb_review_grants (gd_auth db)) \<noteq> None \<or>
             internal_member db row person \<or>
             gi_recipient_id row \<notin> {None, Some (au_id person)}
          then Inl (raise_cls NotFoundError) else Inr (Some person)
      | _ \<Rightarrow> Inl (raise_cls NotFoundError))"

definition mfa_verified :: "guest_env \<Rightarrow> user_session \<Rightarrow> auth_user \<Rightarrow> bool" where
  "mfa_verified env s user \<longleftrightarrow>
     \<not> au_mfa_recovery_pending user \<and> us_mfa_method s \<in> {Some ''totp'', Some ''passkey'', Some ''recovery_code''} \<and>
     (us_mfa_verified_at s \<noteq> None \<and> us_mfa_security_version s = Some (au_mfa_security_version user) \<or>
      us_mfa_security_version s = None \<and>
      (case us_mfa_reauthenticated_at s of None \<Rightarrow> False | Some t \<Rightarrow> gv_now env - 300 \<le> t \<and> t \<le> gv_now env))"

definition recipient_step ::
  "guest_env \<Rightarrow> string \<Rightarrow> auth_user option \<Rightarrow> (auth_user \<times> user_session) option \<Rightarrow> string" where
  "recipient_step env state target viewer =
     (if state \<notin> {''pending'', ''accepted''} then ''unavailable''
      else case viewer of
             None \<Rightarrow> if state = ''accepted'' then ''accepted'' else if target \<noteq> None then ''login'' else ''register''
           | Some (user, s) \<Rightarrow>
               if map_option au_id target \<noteq> Some (au_id user) then ''wrong_account''
               else if state = ''accepted'' then ''accepted''
               else if \<not> mfa_verified env s user then ''mfa'' else ''accept'')"

definition read_recipient ::
  "guest_env \<Rightarrow> guest_db \<Rightarrow> invitation \<Rightarrow> (auth_user \<times> user_session) option \<Rightarrow> app_error + recipient_read" where
  "read_recipient env db row viewer =
     ebind (guest_project db (gi_project_id row)) (\<lambda>_.
     ebind (invitation_target db row) (\<lambda>target.
     let state = invitation_state row (gv_now env)
     in Inr \<lparr>iq_id = gi_id row, iq_display_label = gi_display_label row, iq_state = state, iq_version = gi_version row,
             iq_expires_at = gi_expires_at row, iq_participation_expires_at = gi_participation_expires_at row,
             iq_next_step = recipient_step env state target viewer\<rparr>))"

text \<open>The confirmation behind a proof: of this invitation, of its current token, and in time.\<close>

definition checked_proof ::
  "guest_env \<Rightarrow> guest_db \<Rightarrow> invitation \<Rightarrow> string \<Rightarrow> bool \<Rightarrow> app_error + invitation_check" where
  "checked_proof env db row proof terminal =
     (if proof = [] \<or> 200 < length proof then Inl (raise_cls NotFoundError)
      else case find (\<lambda>c. gk_invitation_id c = gi_id row \<and> gk_proof_hash c = secret_digest env proof) (gd_checks db) of
             None \<Rightarrow> Inl (raise_cls NotFoundError)
           | Some c \<Rightarrow>
               if gk_token_generation c \<noteq> gi_token_generation row \<or> gk_expires_at c \<le> gv_now env \<or>
                  gi_expires_at row \<le> gv_now env \<or> gi_status row \<noteq> ''pending'' \<and> \<not> terminal
               then Inl (raise_cls NotFoundError) else Inr c)"

subsection \<open>Recording\<close>

definition record_invitation ::
  "guest_env \<Rightarrow> string \<Rightarrow> invitation \<Rightarrow> string \<Rightarrow> int option \<Rightarrow> string \<Rightarrow> pydict \<Rightarrow> bool \<Rightarrow> bool \<Rightarrow> string option \<Rightarrow> guest_db \<Rightarrow>
   sql_fault + invitation_operation \<times> guest_db" where
  "record_invitation env event_id row kind actor request_id input email_actor root reason db =
     (let result = \<lparr>io_id = gi_id row, io_state = gi_status row, io_version = gi_version row,
                    io_delivery_state = gi_delivery_state row\<rparr>
      in ebind (insert_invitation_event
           \<lparr>gn_id = event_id, gn_project_id = gi_project_id row, gn_invitation_id = gi_id row, gn_kind = kind,
            gn_actor_id = actor,
            gn_actor_kind = (if email_actor then ''email_recipient'' else if actor \<noteq> None then ''user'' else ''delivery''),
            gn_occurred_at = gv_now env, gn_operation_id = request_id, gn_request_digest = input_digest env kind input,
            gn_is_root = root, gn_version = gi_version row, gn_state = gi_status row, gn_reason = reason,
            gn_result = result\<rparr> db) (\<lambda>db'.
         Inr (result, db'\<lparr>gd_audits := gd_audits db' @ [\<lparr>ga_event_type = ''guest_invitation.'' @ kind,
           ga_tenant_id = map_option pj_tenant_id (find (\<lambda>p. pj_id p = gi_project_id row) (rb_projects (gd_rbac db'))),
           ga_actor_user_id = actor, ga_project_id = gi_project_id row, ga_invitation_id = gi_id row,
           ga_operation_id = request_id\<rparr>]\<rparr>)))"

subsection \<open>Listing\<close>

text \<open>The newest first; of two with the same time the one with the greater identifier.\<close>

definition page_of :: "int \<Rightarrow> int \<Rightarrow> ('a \<Rightarrow> time) \<Rightarrow> ('a \<Rightarrow> string) \<Rightarrow> 'a list \<Rightarrow> 'a list \<times> int" where
  "page_of page page_size time identity rows =
     (take (nat page_size) (drop (nat ((page - 1) * page_size)) (rev (sort_key time (sort_key identity rows)))), int (length rows))"

definition list_invitations ::
  "guest_env \<Rightarrow> guest_context \<Rightarrow> int \<Rightarrow> int \<Rightarrow> int \<Rightarrow> int \<Rightarrow> guest_db \<Rightarrow> app_error + invitation_read list \<times> int" where
  "list_invitations env ctx user_id project_id page page_size db =
     ebind (guest_management env ctx user_id project_id ''project:invite_member'' db) (\<lambda>_.
     let (rows, total) = page_of page page_size gi_created_at gi_id (filter (\<lambda>i. gi_project_id i = project_id) (gd_invitations db))
     in Inr (map (\<lambda>row. read_invitation row (gv_now env)) rows, total))"

definition list_invitation_events ::
  "guest_env \<Rightarrow> guest_context \<Rightarrow> int \<Rightarrow> int \<Rightarrow> string \<Rightarrow> int \<Rightarrow> int \<Rightarrow> guest_db \<Rightarrow> app_error + invitation_event list \<times> int" where
  "list_invitation_events env ctx user_id project_id identity page page_size db =
     ebind (guest_management env ctx user_id project_id ''project:invite_member'' db) (\<lambda>_.
     ebind (require_row db identity (Some project_id)) (\<lambda>_.
     Inr (page_of page page_size gn_occurred_at gn_id
       (filter (\<lambda>e. gn_project_id e = project_id \<and> gn_invitation_id e = identity) (gd_events db)))))"

subsection \<open>Inviting\<close>

definition expire_pending ::
  "guest_env \<Rightarrow> guest_fresh \<Rightarrow> int \<Rightarrow> int \<Rightarrow> invitation_create \<Rightarrow> guest_db \<Rightarrow> guest_error + guest_db" where
  "expire_pending env fresh project_id actor_id data db =
     (case find (\<lambda>x. gi_project_id x = project_id \<and> py_lower (gi_recipient_email x) = py_lower (ic_email data) \<and>
              gi_status x = ''pending'') (gd_invitations db) of
        None \<Rightarrow> Inr db
      | Some pending \<Rightarrow>
          if invitation_state pending (gv_now env) \<noteq> ''expired''
          then Inl (Inr (raise_msg ConflictError ''GUEST_INVITATION_PENDING''))
          else
            (let row = pending\<lparr>gi_status := ''expired'', gi_version := gi_version pending + 1\<rparr> in
             ebind (refused (update_invitation env row db)) (\<lambda>db1.
             ebind (refused (record_invitation env (gf_other_event fresh) row ''expired'' (Some actor_id)
                               (ic_request_id data) (create_input data) False True None db1)) (\<lambda>(_, db2).
             Inr db2))))"

definition new_invitation :: "guest_env \<Rightarrow> guest_fresh \<Rightarrow> int \<Rightarrow> int \<Rightarrow> invitation_create \<Rightarrow> guest_db \<Rightarrow> invitation" where
  "new_invitation env fresh project_id actor_id data db =
     \<lparr>gi_id = gf_id fresh, gi_project_id = project_id, gi_recipient_email = ic_email data,
      gi_recipient_id = (case guest_identities db (ic_email data) of
                           [u] \<Rightarrow> if au_email u = ic_email data then Some (au_id u) else None | _ \<Rightarrow> None),
      gi_display_label = ic_display_label data, gi_created_by = actor_id, gi_created_at = gv_now env,
      gi_expires_at = min (gv_now env + 7 * 86400) (ic_participation_expires_at data),
      gi_participation_expires_at = ic_participation_expires_at data, gi_status = ''pending'', gi_version = 1,
      gi_token_generation = 1, gi_token_hash = secret_digest env (gf_secret fresh), gi_delivery_state = ''sending'',
      gi_sent_at = None, gi_provider_message_id = None, gi_accepted_by = None, gi_participation_id = None,
      gi_request_id = ic_request_id data, gi_request_digest = input_digest env ''created'' (create_input data)\<rparr>"

definition prepare_create ::
  "guest_env \<Rightarrow> guest_context \<Rightarrow> guest_fresh \<Rightarrow> int \<Rightarrow> int \<Rightarrow> invitation_create \<Rightarrow> guest_db \<Rightarrow>
   guest_error + (invitation_read \<times> string option) \<times> guest_db" where
  "prepare_create env ctx fresh user_id project_id data db =
     ebind (raised (guest_management env ctx user_id project_id ''project:invite_member'' db)) (\<lambda>actor.
     let now = gv_now env; actor_id = au_id actor in
     case find (\<lambda>x. gi_project_id x = project_id \<and> gi_created_by x = actor_id \<and> gi_request_id x = ic_request_id data)
            (gd_invitations db) of
       Some previous \<Rightarrow>
         if gi_request_digest previous \<noteq> input_digest env ''created'' (create_input data)
         then Inl (Inr (raise_cls DuplicateResourceError))
         else Inr ((read_invitation previous now, None), db)
     | None \<Rightarrow>
         ebind (raised (require_delivery env (ic_email data))) (\<lambda>_.
         ebind (raised (raise_if (ic_participation_expires_at data \<le> now)
                          (raise_msg BadRequestError ''GUEST_INVITATION_FUTURE_EXPIRY''))) (\<lambda>_.
         ebind (expire_pending env fresh project_id actor_id data db) (\<lambda>db1.
         let row = new_invitation env fresh project_id actor_id data db1 in
         ebind (refused (insert_invitation env row db1)) (\<lambda>db2.
         ebind (refused (record_invitation env (gf_event fresh) row ''created'' (Some actor_id) (ic_request_id data)
                           (create_input data) False True None db2)) (\<lambda>(_, db3).
         Inr ((read_invitation row now, Some (gf_secret fresh)), db3)))))))"

definition prepare_resend ::
  "guest_env \<Rightarrow> guest_context \<Rightarrow> guest_fresh \<Rightarrow> int \<Rightarrow> int \<Rightarrow> string \<Rightarrow> invitation_version \<Rightarrow> guest_db \<Rightarrow>
   guest_error + (invitation_read \<times> string option) \<times> guest_db" where
  "prepare_resend env ctx fresh user_id project_id identity data db =
     ebind (raised (guest_management env ctx user_id project_id ''project:invite_member'' db)) (\<lambda>actor.
     let now = gv_now env; actor_id = au_id actor in
     ebind (raised (require_row db identity (Some project_id))) (\<lambda>row.
     ebind (raised (replay_operation env db row ''resent'' (iv_request_id data) (version_input data) (Some actor_id))) (\<lambda>previous.
     if previous \<noteq> None then Inr ((read_invitation row now, None), db)
     else
       ebind (raised (check_version row data)) (\<lambda>_.
       ebind (raised (inviter db row)) (\<lambda>_.
       ebind (raised (raise_if (gi_created_by row \<noteq> actor_id \<or> invitation_state row now \<noteq> ''pending'')
                        (raise_msg ConflictError ''GUEST_INVITATION_RECREATE''))) (\<lambda>_.
       ebind (raised (require_delivery env (gi_recipient_email row))) (\<lambda>_.
       let row' = row\<lparr>gi_token_hash := secret_digest env (gf_secret fresh), gi_token_generation := gi_token_generation row + 1,
                      gi_version := gi_version row + 1, gi_delivery_state := ''sending'', gi_sent_at := None,
                      gi_provider_message_id := None\<rparr> in
       ebind (refused (update_invitation env row' db)) (\<lambda>db1.
       ebind (refused (record_invitation env (gf_event fresh) row' ''resent'' (Some actor_id) (iv_request_id data)
                         (version_input data) False True None db1)) (\<lambda>(_, db2).
       Inr ((read_invitation row' now, Some (gf_secret fresh)), db2))))))))))"

text \<open>What is mailed, and how the outcome is recorded, unless the invitation moved on meanwhile.\<close>

definition send_read ::
  "guest_env \<Rightarrow> guest_context \<Rightarrow> int \<Rightarrow> int \<Rightarrow> string \<Rightarrow> guest_db \<Rightarrow> guest_error + invitation" where
  "send_read env ctx user_id project_id identity db =
     ebind (raised (guest_management env ctx user_id project_id ''project:invite_member'' db)) (\<lambda>_.
     ebind (raised (require_row db identity (Some project_id))) (\<lambda>row.
     ebind (raised (guest_project db project_id)) (\<lambda>_. Inr row)))"

definition outcome_delivery :: "invitation_mail \<Rightarrow> string" where
  "outcome_delivery outcome =
     (case outcome of MailSent _ \<Rightarrow> ''sent'' | CaptureFailed \<Rightarrow> ''failed'' | CaptureUncertain \<Rightarrow> ''unknown''
      | MailUnavailable \<Rightarrow> ''unknown'')"

definition outcome_message :: "invitation_mail \<Rightarrow> string option" where
  "outcome_message outcome = (case outcome of MailSent m \<Rightarrow> Some m | _ \<Rightarrow> None)"

definition send_record ::
  "guest_env \<Rightarrow> guest_context \<Rightarrow> guest_fresh \<Rightarrow> int \<Rightarrow> int \<Rightarrow> string \<Rightarrow> string \<Rightarrow> pydict \<Rightarrow> int \<Rightarrow> invitation_mail \<Rightarrow> guest_db \<Rightarrow>
   guest_error + invitation_read \<times> guest_db" where
  "send_record env ctx fresh user_id project_id identity request_id input generation outcome db =
     ebind (raised (guest_management env ctx user_id project_id ''project:invite_member'' db)) (\<lambda>actor.
     ebind (raised (require_row db identity (Some project_id))) (\<lambda>current.
     if gi_status current = ''pending'' \<and> gi_token_generation current = generation then
       (let row = current\<lparr>gi_version := gi_version current + 1, gi_delivery_state := outcome_delivery outcome,
                   gi_sent_at := (if outcome_message outcome \<in> {None, Some []} then None else Some (gv_now env)),
                   gi_provider_message_id := outcome_message outcome\<rparr> in
        ebind (refused (update_invitation env row db)) (\<lambda>db1.
        ebind (refused (record_invitation env (gf_event fresh) row (''delivery_'' @ outcome_delivery outcome)
                          (Some (au_id actor)) request_id input False False None db1)) (\<lambda>(_, db2).
        Inr (read_invitation row (gv_now env), db2))))
     else Inr (read_invitation current (gv_now env), db)))"

definition send_invitation ::
  "guest_env \<Rightarrow> guest_env \<Rightarrow> (guest_db \<Rightarrow> guest_db) \<Rightarrow> guest_context \<Rightarrow> guest_fresh \<Rightarrow> int \<Rightarrow> int \<Rightarrow> string \<Rightarrow> string \<Rightarrow> string \<Rightarrow>
   pydict \<Rightarrow> guest_db \<Rightarrow> guest_error + invitation_read \<times> guest_db" where
  "send_invitation env later others ctx fresh user_id project_id identity secret request_id input db =
     ebind (send_read env ctx user_id project_id identity db) (\<lambda>row.
     send_record later ctx fresh user_id project_id identity request_id input (gi_token_generation row)
       (gv_mail env row secret) (others db))"

definition revoke_invitation ::
  "guest_env \<Rightarrow> guest_context \<Rightarrow> guest_fresh \<Rightarrow> int \<Rightarrow> int \<Rightarrow> string \<Rightarrow> invitation_revoke \<Rightarrow> guest_db \<Rightarrow>
   guest_error + invitation_operation \<times> guest_db" where
  "revoke_invitation env ctx fresh user_id project_id identity data db =
     ebind (raised (guest_management env ctx user_id project_id ''project:remove_member'' db)) (\<lambda>actor.
     ebind (raised (require_row db identity (Some project_id))) (\<lambda>row.
     ebind (raised (replay_operation env db row ''revoked'' (iv_request_id data) (revoke_input data) (Some (au_id actor)))) (\<lambda>previous.
     case previous of
       Some result \<Rightarrow> Inr (result, db)
     | None \<Rightarrow>
         ebind (raised (check_version row data)) (\<lambda>_.
         ebind (raised (raise_if (gi_status row \<noteq> ''pending'' \<or> py_strip (iv_reason data) = []) (raise_cls ConflictError))) (\<lambda>_.
         let row' = row\<lparr>gi_status := ''revoked'', gi_version := gi_version row + 1\<rparr> in
         ebind (refused (update_invitation env row' db)) (\<lambda>db1.
         refused (record_invitation env (gf_event fresh) row' ''revoked'' (Some (au_id actor)) (iv_request_id data)
                    (revoke_input data) False True (Some (py_strip (iv_reason data))) db1)))))))"

subsection \<open>The person invited\<close>

definition inspect_invitation ::
  "guest_env \<Rightarrow> guest_context \<Rightarrow> guest_fresh \<Rightarrow> string \<Rightarrow> string \<Rightarrow> guest_db \<Rightarrow>
   guest_error + (recipient_read \<times> string \<times> int) \<times> guest_db" where
  "inspect_invitation env ctx fresh identity token db =
     ebind (raised (recipient_access ctx identity db)) (\<lambda>row.
     let now = gv_now env in
     ebind (raised (raise_if (invitation_state row now \<noteq> ''pending'' \<or> gi_delivery_state row \<notin> {''sent'', ''unknown''} \<or>
                      gi_token_hash row \<noteq> secret_digest env token) (raise_cls NotFoundError))) (\<lambda>_.
     ebind (raised (invitation_target db row)) (\<lambda>_.
     let expiry = min (gi_expires_at row) (now + 1799) in
     ebind (refused (insert_check env \<lparr>gk_id = gf_id fresh, gk_project_id = gi_project_id row, gk_invitation_id = identity,
              gk_token_generation = gi_token_generation row, gk_proof_hash = secret_digest env (gf_secret fresh),
              gk_expires_at = expiry, gk_consumed_at = None\<rparr> db)) (\<lambda>db'.
     ebind (raised (read_recipient env db' row None)) (\<lambda>r.
     Inr ((r, gf_secret fresh, expiry - now), db'))))))"

definition recipient_invitation ::
  "guest_env \<Rightarrow> guest_context \<Rightarrow> string \<Rightarrow> string \<Rightarrow> int option \<Rightarrow> guest_db \<Rightarrow> guest_error + recipient_read" where
  "recipient_invitation env ctx identity proof user db =
     ebind (raised (recipient_access ctx identity db)) (\<lambda>row.
     ebind (raised (checked_proof env db row proof True)) (\<lambda>_.
     ebind (raised (case user of None \<Rightarrow> Inr None
                    | Some u \<Rightarrow> ebind (verify_actor env ctx u False db) (\<lambda>a. Inr (Some a)))) (\<lambda>viewer.
     raised (read_recipient env db row viewer))))"

definition registered_person :: "guest_env \<Rightarrow> invitation \<Rightarrow> invitation_register \<Rightarrow> guest_db \<Rightarrow> auth_user" where
  "registered_person env row data db =
     \<lparr>au_id = fresh_id (map au_id (adb_users (gd_auth db))), au_email = gi_recipient_email row,
      au_hashed_password = ae_hash_password (gv_auth env) (iv_password data), au_user_type = ''guest'', au_is_active = True,
      au_deleted_at = None, au_password_change_required = False, au_initial_password_expires_at = None,
      au_mfa_security_version = 0, au_mfa_recovery_pending = False, au_last_login_at = None, au_version = 1,
      au_updated_by = None\<rparr>"

definition register_invited ::
  "guest_env \<Rightarrow> guest_context \<Rightarrow> guest_fresh \<Rightarrow> string \<Rightarrow> string \<Rightarrow> invitation_register \<Rightarrow> int option \<Rightarrow> guest_db \<Rightarrow>
   guest_error + recipient_read \<times> guest_db" where
  "register_invited env ctx fresh identity proof data user db =
     ebind (raised (recipient_access ctx identity db)) (\<lambda>row.
     ebind (raised (checked_proof env db row proof False)) (\<lambda>c.
     ebind (raised (raise_if (gk_consumed_at c \<noteq> None \<or> user \<noteq> None \<or> py_strip (iv_name data) = [])
                      (raise_cls ConflictError))) (\<lambda>_.
     case previous_operation db identity (iv_request_id data) of
       Some previous \<Rightarrow>
         if gn_request_digest previous \<noteq> input_digest env ''registered'' (register_input data)
         then Inl (Inr (raise_cls DuplicateResourceError))
         else ebind (raised (read_recipient env db row None)) (\<lambda>r. Inr (r, db))
     | None \<Rightarrow>
         ebind (raised (check_version row data)) (\<lambda>_.
         ebind (raised (invitation_target db row)) (\<lambda>target.
         let person = registered_person env row data db in
         ebind (raised (raise_if (target \<noteq> None \<or> list_ex (\<lambda>u. au_email u = au_email person) (adb_users (gd_auth db)))
                          (raise_msg ConflictError ''GUEST_INVITATION_LOGIN''))) (\<lambda>_.
         let db1 = db\<lparr>gd_auth := (gd_auth db)\<lparr>adb_users := adb_users (gd_auth db) @ [person]\<rparr>\<rparr>;
             row' = row\<lparr>gi_recipient_id := Some (au_id person), gi_version := gi_version row + 1\<rparr> in
         ebind (refused (update_invitation env row' db1)) (\<lambda>db2.
         ebind (refused (record_invitation env (gf_event fresh) row' ''registered'' (Some (au_id person)) (iv_request_id data)
                           (register_input data) True True None db2)) (\<lambda>(_, db3).
         ebind (raised (read_recipient env db3 row' None)) (\<lambda>r. Inr (r, db3))))))))))"

definition accepted_participation ::
  "guest_env \<Rightarrow> guest_fresh \<Rightarrow> invitation \<Rightarrow> auth_user \<Rightarrow> guest_db \<Rightarrow> participation" where
  "accepted_participation env fresh row actor db =
     \<lparr>gp_id = gf_id fresh, gp_project_id = gi_project_id row, gp_user_id = au_id actor,
      gp_generation = next_generation db (gi_project_id row) (au_id actor), gp_status = ''active'',
      gp_expires_at = gi_participation_expires_at row, gp_version = 1, gp_created_by = au_id actor,
      gp_revoked_at = None, gp_revoked_by = None, gp_revocation_reason = None\<rparr>"

text \<open>What both ends of an invitation check before anything is written.\<close>

definition finish_checks ::
  "guest_env \<Rightarrow> guest_context \<Rightarrow> string \<Rightarrow> string \<Rightarrow> int option \<Rightarrow> bool \<Rightarrow> guest_db \<Rightarrow>
   app_error + invitation \<times> invitation_check \<times> auth_user option" where
  "finish_checks env ctx identity proof user decline db =
     ebind (recipient_access ctx identity db) (\<lambda>row.
     ebind (checked_proof env db row proof True) (\<lambda>c.
     ebind (case user of None \<Rightarrow> Inr None
            | Some u \<Rightarrow> ebind (verify_actor env ctx u False db) (\<lambda>a. Inr (Some a))) (\<lambda>actor.
     ebind (invitation_target db row) (\<lambda>person.
     let same = (actor \<noteq> None \<and> person \<noteq> None \<and> map_option (\<lambda>a. au_id (fst a)) actor = map_option au_id person) in
     ebind (raise_if (\<not> decline \<and> \<not> same) (raise_cls ForbiddenError)) (\<lambda>_.
     ebind (raise_if (\<not> decline \<and> (case actor of None \<Rightarrow> True | Some (u, s) \<Rightarrow> \<not> mfa_verified env s u))
              (raise_cls MfaRequiredError)) (\<lambda>_.
     ebind (raise_if (decline \<and> actor \<noteq> None \<and> \<not> same) (raise_cls ForbiddenError)) (\<lambda>_.
     Inr (row, c, map_option fst actor))))))))"

definition finish_replay ::
  "guest_env \<Rightarrow> guest_db \<Rightarrow> invitation \<Rightarrow> invitation_check \<Rightarrow> string \<Rightarrow> int option \<Rightarrow> invitation_version \<Rightarrow>
   app_error + invitation_operation option" where
  "finish_replay env db row c kind actor_id data =
     ebind (replay_operation env db row kind (iv_request_id data) (version_input data) actor_id) (\<lambda>previous.
     if previous \<noteq> None then Inr previous
     else
       ebind (check_version row data) (\<lambda>_.
       ebind (raise_if (gi_status row \<noteq> ''pending'' \<or> gk_consumed_at c \<noteq> None) (raise_cls ConflictError)) (\<lambda>_. Inr None)))"

text \<open>The new row, and the participation when it is an acceptance.\<close>

definition finish_row ::
  "guest_env \<Rightarrow> guest_fresh \<Rightarrow> invitation \<Rightarrow> auth_user option \<Rightarrow> bool \<Rightarrow> guest_db \<Rightarrow> guest_error + invitation \<times> guest_db" where
  "finish_row env fresh row actor decline db =
     (if decline then Inr (row\<lparr>gi_status := ''declined'', gi_version := gi_version row + 1\<rparr>, db)
      else case actor of
             None \<Rightarrow> Inl (Inr (raise_cls ForbiddenError))
           | Some user \<Rightarrow>
               if list_ex (\<lambda>p. gp_project_id p = gi_project_id row \<and> gp_user_id p = au_id user \<and> gp_status p = ''active'')
                    (gd_participations db)
               then Inl (Inr (raise_msg ConflictError ''GUEST_INVITATION_REVOKE_PARTICIPATION''))
               else ebind (refused (insert_participation env (accepted_participation env fresh row user db) db)) (\<lambda>db'.
                    Inr (row\<lparr>gi_status := ''accepted'', gi_version := gi_version row + 1, gi_participation_id := Some (gf_id fresh),
                           gi_accepted_by := Some (au_id user), gi_recipient_id := Some (au_id user)\<rparr>, db')))"

definition finish_store ::
  "guest_env \<Rightarrow> guest_fresh \<Rightarrow> invitation \<Rightarrow> invitation_check \<Rightarrow> string \<Rightarrow> int option \<Rightarrow> bool \<Rightarrow> invitation_version \<Rightarrow> guest_db \<Rightarrow>
   sql_fault + invitation_operation \<times> guest_db" where
  "finish_store env fresh row' c kind actor_id decline data db =
     ebind (update_invitation env row' db) (\<lambda>db1.
     ebind (update_check (c\<lparr>gk_consumed_at := Some (gv_now env)\<rparr>) db1) (\<lambda>db2.
     record_invitation env (gf_event fresh) row' kind actor_id (iv_request_id data) (version_input data)
       (decline \<and> actor_id = None) True None db2))"

definition finish_invitation ::
  "guest_env \<Rightarrow> guest_context \<Rightarrow> guest_fresh \<Rightarrow> string \<Rightarrow> string \<Rightarrow> invitation_version \<Rightarrow> int option \<Rightarrow> bool \<Rightarrow> guest_db \<Rightarrow>
   guest_error + invitation_operation \<times> guest_db" where
  "finish_invitation env ctx fresh identity proof data user decline db =
     (let kind = (if decline then ''declined'' else ''accepted'') in
      ebind (raised (finish_checks env ctx identity proof user decline db)) (\<lambda>(row, c, actor).
      ebind (raised (finish_replay env db row c kind (map_option au_id actor) data)) (\<lambda>previous.
      case previous of
        Some result \<Rightarrow> Inr (result, db)
      | None \<Rightarrow>
          ebind (finish_row env fresh row actor decline db) (\<lambda>(row', db1).
          refused (finish_store env fresh row' c kind (map_option au_id actor) decline data db1)))))"

subsection \<open>Retrying\<close>

text \<open>
  An attempt is the state its transaction starts from and the refusal of the database on top, if any; lost
  serialisations are tried again, three times in all, and what the guards refuse is a conflict.
\<close>

fun retry_publication ::
  "(guest_db \<Rightarrow> guest_error + 'a \<times> guest_db) \<Rightarrow> (guest_db \<times> sql_fault option) list \<Rightarrow> app_error + 'a \<times> guest_db" where
  "retry_publication operation [] = Inl (raise_cls ConflictError)"
| "retry_publication operation ((db, lost) # attempts) =
     (case (case lost of None \<Rightarrow> operation db | Some f \<Rightarrow> Inl (Inl f)) of
        Inr r \<Rightarrow> Inr r
      | Inl (Inr e) \<Rightarrow> Inl e
      | Inl (Inl f) \<Rightarrow> if f \<in> {SerializationFailure, Deadlock} then retry_publication operation attempts
                       else Inl (raise_cls ConflictError))"

end
