(* ===== verification/Guest_System.thy ===== *)
theory Guest_System imports Guest_Invitation begin

text \<open>
  What holds of the invitations, confirmations and events after any sequence of operations: an invariant with
  the row that still waits for its event as an argument, and the order in which rows may change. Both are
  proved once for each write and composed along the operations (\<open>guest_moves\<close>).
\<close>

named_theorems guest_moves_intros "writes and operations that keep the invariant"

subsection \<open>Invariant\<close>

definition invitation_history :: "guest_db \<Rightarrow> string \<Rightarrow> invitation_event list" where
  "invitation_history db k = filter (\<lambda>e. gn_invitation_id e = k) (gd_events db)"

definition invitation_history_ok :: "string option \<Rightarrow> guest_db \<Rightarrow> invitation \<Rightarrow> bool" where
  "invitation_history_ok open db i \<longleftrightarrow>
     (let h = invitation_history db (gi_id i) in
      if open = Some (gi_id i) then map gn_version h = [1..gi_version i - 1]
      else map gn_version h = [1..gi_version i] \<and> gn_state (last h) = gi_status i)"

definition outcome_ok :: "guest_db \<Rightarrow> invitation \<Rightarrow> bool" where
  "outcome_ok db i \<longleftrightarrow>
     (if gi_status i = ''accepted''
      then \<exists>p \<in> set (gd_participations db). gi_participation_id i = Some (gp_id p) \<and> gi_recipient_id i = Some (gp_user_id p) \<and>
             gi_accepted_by i = Some (gp_user_id p) \<and> gp_project_id p = gi_project_id i \<and>
             gp_expires_at p = gi_participation_expires_at i
      else gi_accepted_by i = None \<and> gi_participation_id i = None)"

definition check_ok :: "guest_db \<Rightarrow> invitation_check \<Rightarrow> bool" where
  "check_ok db c \<longleftrightarrow>
     (\<exists>i \<in> set (gd_invitations db). gi_id i = gk_invitation_id c \<and> gk_token_generation c \<le> gi_token_generation i \<and>
        gk_expires_at c \<le> gi_expires_at i)"

definition guest_rows :: "string option \<Rightarrow> guest_db \<Rightarrow> bool" where
  "guest_rows open db \<longleftrightarrow>
     distinct (map gi_id (gd_invitations db)) \<and> distinct (map gk_id (gd_checks db)) \<and>
     distinct (map gk_proof_hash (gd_checks db)) \<and> distinct (map gp_id (gd_participations db)) \<and>
     (\<forall>i \<in> set (gd_invitations db). invitation_row_ok i \<and> gi_expires_at i \<le> gi_participation_expires_at i \<and>
        outcome_ok db i \<and> invitation_history_ok open db i) \<and>
     (\<forall>c \<in> set (gd_checks db). check_ok db c) \<and>
     (\<forall>e \<in> set (gd_events db). gn_invitation_id e \<in> gi_id ` set (gd_invitations db))"

abbreviation guest_inv :: "guest_db \<Rightarrow> bool" where
  "guest_inv \<equiv> guest_rows None"

subsection \<open>Order of states\<close>

definition invitation_later :: "invitation \<Rightarrow> invitation \<Rightarrow> bool" where
  "invitation_later i i' \<longleftrightarrow>
     gi_id i' = gi_id i \<and> gi_project_id i' = gi_project_id i \<and> gi_recipient_email i' = gi_recipient_email i \<and>
     gi_created_by i' = gi_created_by i \<and> gi_expires_at i' = gi_expires_at i \<and>
     gi_participation_expires_at i' = gi_participation_expires_at i \<and>
     gi_version i \<le> gi_version i' \<and> gi_token_generation i \<le> gi_token_generation i' \<and>
     (gi_status i \<noteq> ''pending'' \<or> gi_version i' = gi_version i \<longrightarrow> i' = i) \<and>
     (gi_recipient_id i \<noteq> None \<longrightarrow> gi_recipient_id i' = gi_recipient_id i)"

definition check_later :: "invitation_check \<Rightarrow> invitation_check \<Rightarrow> bool" where
  "check_later c c' \<longleftrightarrow> c' = c \<or> gk_consumed_at c = None \<and> (\<exists>t. c' = c\<lparr>gk_consumed_at := Some t\<rparr>)"

definition guest_after :: "guest_db \<Rightarrow> guest_db \<Rightarrow> bool" where
  "guest_after db db' \<longleftrightarrow>
     (\<forall>i \<in> set (gd_invitations db). \<exists>i' \<in> set (gd_invitations db'). invitation_later i i') \<and>
     (\<forall>c \<in> set (gd_checks db). \<exists>c' \<in> set (gd_checks db'). check_later c c') \<and>
     (\<exists>es. gd_events db' = gd_events db @ es)"

lemma invitation_later_refl [simp]: "invitation_later i i"
  by (simp add: invitation_later_def)

lemma invitation_later_trans: "invitation_later i j \<Longrightarrow> invitation_later j k \<Longrightarrow> invitation_later i k"
  unfolding invitation_later_def by (intro conjI; force)

lemma check_later_refl [simp]: "check_later c c"
  by (simp add: check_later_def)

lemma check_later_trans: "check_later a b \<Longrightarrow> check_later b c \<Longrightarrow> check_later a c"
  by (auto simp: check_later_def)

text \<open>A row that stays is its own later row.\<close>

lemma later_self [intro]:
  "i \<in> set is \<Longrightarrow> \<exists>i' \<in> set is. invitation_later i i'" "c \<in> set cs \<Longrightarrow> \<exists>c' \<in> set cs. check_later c c'"
  using invitation_later_refl check_later_refl by blast+

lemma guest_after_refl [simp]: "guest_after db db"
  by (auto simp: guest_after_def)

lemma guest_after_trans: "guest_after a b \<Longrightarrow> guest_after b c \<Longrightarrow> guest_after a c"
  unfolding guest_after_def
  by (intro conjI ballI; (elim conjE)?) (meson invitation_later_trans, meson check_later_trans, auto)

definition guest_moves :: "string option \<Rightarrow> guest_db \<Rightarrow> string option \<Rightarrow> guest_db \<Rightarrow> bool" where
  "guest_moves k db k' db' \<longleftrightarrow> (guest_rows k db \<longrightarrow> guest_rows k' db' \<and> guest_after db db')"

lemma guest_moves_refl [simp]: "guest_moves k db k db"
  by (simp add: guest_moves_def)

lemma guest_moves_trans [trans]: "guest_moves k a k' b \<Longrightarrow> guest_moves k' b k'' c \<Longrightarrow> guest_moves k a k'' c"
  by (auto simp: guest_moves_def intro: guest_after_trans)

lemma rows_of_invitations [simp]:
  "invitation_history (db\<lparr>gd_invitations := is\<rparr>) = invitation_history db"
  "invitation_history_ok k (db\<lparr>gd_invitations := is\<rparr>) = invitation_history_ok k db" "outcome_ok (db\<lparr>gd_invitations := is\<rparr>) = outcome_ok db"
  by (simp_all add: fun_eq_iff invitation_history_def invitation_history_ok_def outcome_ok_def)

lemma history_of_others: "invitation_history_ok None db i \<Longrightarrow> gi_id i \<noteq> k \<Longrightarrow> invitation_history_ok (Some k) db i"
  "invitation_history_ok (Some k) db i \<Longrightarrow> gi_id i \<noteq> k \<Longrightarrow> invitation_history_ok None db i"
  by (auto simp: invitation_history_ok_def Let_def)

lemma guest_rows_others:
  assumes "guest_rows None db" and "i \<in> set (gd_invitations db)" and "gi_id i \<noteq> k"
  shows "invitation_history_ok (Some k) db i \<and> outcome_ok db i"
  using assms(1,2) history_of_others(1) [OF _ assms(3)] by (auto simp: guest_rows_def)

lemma guest_rows_row:
  assumes "guest_rows k db" and "invitation_by_id (gi_id i) db = Some i"
  shows "i \<in> set (gd_invitations db)" "invitation_row_ok i" "gi_expires_at i \<le> gi_participation_expires_at i"
    "outcome_ok db i" "invitation_history_ok k db i"
  using assms by (auto simp: guest_rows_def invitation_by_id_def dest: tget_SomeD)

subsection \<open>Writes\<close>

lemma insert_invitation_moves [guest_moves_intros]:
  assumes "insert_invitation env i db = Inr db'"
  shows "guest_moves None db (Some (gi_id i)) db'"
proof -
  from assms have db': "db' = db\<lparr>gd_invitations := gd_invitations db @ [i]\<rparr>"
    and ok: "invitation_insert_guard (gv_trigger_clock env) db i" "invitation_row_ok i"
    and new: "gi_id i \<notin> gi_id ` set (gd_invitations db)"
    by (auto simp: insert_invitation_def list_ex_iff split: if_splits)
  show ?thesis
    unfolding guest_moves_def
  proof (intro impI conjI)
    assume inv: "guest_rows None db"
    have none: "invitation_history db (gi_id i) = []"
      using inv new unfolding guest_rows_def invitation_history_def filter_empty_conv by metis
    then have "invitation_history_ok (Some (gi_id i)) db' i"
      using ok by (simp add: invitation_history_ok_def db' invitation_history_def invitation_insert_guard_def)
    moreover have "outcome_ok db' i" using ok by (simp add: outcome_ok_def invitation_insert_guard_def)
    moreover have "invitation_history_ok (Some (gi_id i)) db' x \<and> outcome_ok db' x" if "x \<in> set (gd_invitations db)" for x
    proof -
      have "gi_id x \<noteq> gi_id i" using that new by (metis imageI)
      from guest_rows_others [OF inv that this] show ?thesis by (simp add: db')
    qed
    moreover have "check_ok db' c" if "check_ok db c" for c using that by (auto simp: check_ok_def db')
    ultimately show "guest_rows (Some (gi_id i)) db'"
      using inv ok new unfolding guest_rows_def by (auto simp: db' invitation_insert_guard_def)
    show "guest_after db db'" by (force simp: guest_after_def db')
  qed
qed

lemma invitation_fixed_fields:
  assumes "invitation_fixed old new"
  shows "gi_id new = gi_id old" "gi_project_id new = gi_project_id old"
    "gi_recipient_email new = gi_recipient_email old" "gi_created_by new = gi_created_by old"
    "gi_expires_at new = gi_expires_at old" "gi_participation_expires_at new = gi_participation_expires_at old"
  using assms by (cases old; cases new; simp add: invitation_fixed_def)+

lemma update_guard_later: "invitation_update_guard clock db old new \<Longrightarrow> invitation_later old new"
  by (auto simp: invitation_update_guard_def invitation_later_def dest: invitation_fixed_fields)

lemma acceptance_outcome: "acceptance_guard clock db i \<Longrightarrow> outcome_ok db i"
  by (auto simp: acceptance_guard_def outcome_ok_def participation_by_id_def split: if_splits option.splits
        bind_splits dest: tget_SomeD)

lemma update_invitation_known:
  assumes "update_invitation env i db = Inr db'" and "invitation_by_id (gi_id i) db = Some old"
  shows "db' = db\<lparr>gd_invitations := tput gi_id i (gd_invitations db)\<rparr>"
    and "invitation_update_guard (gv_trigger_clock env) db old i" and "invitation_row_ok i"
    and "invitation_by_id (gi_id i) db' = Some i"
  using assms by (auto simp: update_invitation_def invitation_by_id_def row_simps split: if_splits)

lemma update_invitation_moves [guest_moves_intros]:
  assumes upd: "update_invitation env i db = Inr db'" and old: "invitation_by_id (gi_id i) db = Some old"
  shows "guest_moves None db (Some (gi_id i)) db'"
proof -
  note db' = update_invitation_known(1) [OF upd old] and g = update_invitation_known(2) [OF upd old]
    and row = update_invitation_known(3) [OF upd old]
  have later: "invitation_later old i" using g by (rule update_guard_later)
  have in_old: "old \<in> set (gd_invitations db)" "gi_id old = gi_id i"
    using old by (auto simp: invitation_by_id_def dest: tget_SomeD)
  have mem: "i \<in> set (gd_invitations db')" using in_old by (force simp: db' tput_def)
  have kept: "x \<in> set (gd_invitations db')" if "x \<in> set (gd_invitations db)" "gi_id x \<noteq> gi_id i" for x
    using that by (force simp: db' tput_def)
  have split: "x = i \<or> x \<in> set (gd_invitations db) \<and> gi_id x \<noteq> gi_id i" if "x \<in> set (gd_invitations db')" for x
    using that by (auto simp: db' dest: tput_mem)
  show ?thesis
    unfolding guest_moves_def
  proof (intro impI conjI)
    assume inv: "guest_rows None db"
    have only: "x = old" if "x \<in> set (gd_invitations db)" "gi_id x = gi_id i" for x
      using inv that in_old by (auto simp: guest_rows_def distinct_map inj_on_def)
    have fields: "gi_expires_at i = gi_expires_at old" "gi_participation_expires_at i = gi_participation_expires_at old"
      using later by (auto simp: invitation_later_def)
    have "invitation_history_ok (Some (gi_id i)) db' i"
      using inv in_old g by (auto simp: guest_rows_def invitation_history_ok_def db' invitation_history_def invitation_update_guard_def Let_def)
    moreover have "outcome_ok db' i"
      using acceptance_outcome [of _ db i] g by (auto simp: invitation_update_guard_def outcome_ok_def db')
    moreover have "gi_expires_at i \<le> gi_participation_expires_at i"
      using inv in_old(1) fields by (auto simp: guest_rows_def)
    moreover have "invitation_history_ok (Some (gi_id i)) db' x \<and> outcome_ok db' x"
      if "x \<in> set (gd_invitations db)" "gi_id x \<noteq> gi_id i" for x
      using guest_rows_others [OF inv that] by (simp add: db')
    moreover have "check_ok db' c" if "c \<in> set (gd_checks db)" for c
    proof -
      from inv that obtain j where j: "j \<in> set (gd_invitations db)" "gi_id j = gk_invitation_id c"
        "gk_token_generation c \<le> gi_token_generation j" "gk_expires_at c \<le> gi_expires_at j"
        by (auto simp: guest_rows_def check_ok_def)
      then show ?thesis
        using only [of j] kept [of j] mem later fields unfolding check_ok_def
        by (cases "gi_id j = gi_id i") (force simp: invitation_later_def)+
    qed
    moreover have "gi_id ` set (gd_invitations db') = gi_id ` set (gd_invitations db)"
      by (metis db' guest_db.select_convs(3) guest_db.surjective guest_db.update_convs(3) keys_tput set_map)
    moreover have "invitation_row_ok x \<and> gi_expires_at x \<le> gi_participation_expires_at x" if "x \<in> set (gd_invitations db)" for x
      using that inv by (auto simp: guest_rows_def)
    ultimately have rows: "\<forall>x \<in> set (gd_invitations db'). invitation_row_ok x \<and>
        gi_expires_at x \<le> gi_participation_expires_at x \<and> outcome_ok db' x \<and> invitation_history_ok (Some (gi_id i)) db' x"
      and checks: "\<forall>c \<in> set (gd_checks db). check_ok db' c"
      and ids: "gi_id ` set (gd_invitations db') = gi_id ` set (gd_invitations db)"
      using row split by metis+
    show "guest_rows (Some (gi_id i)) db'"
      using inv rows checks ids unfolding guest_rows_def by (simp add: db')
    show "guest_after db db'"
      unfolding guest_after_def
    proof (intro conjI ballI)
      fix x assume x: "x \<in> set (gd_invitations db)"
      show "\<exists>i' \<in> set (gd_invitations db'). invitation_later x i'"
        using only [OF x] kept [OF x] mem later by (cases "gi_id x = gi_id i") (auto intro: bexI [of _ i])
    qed (auto simp: db')
  qed
qed


lemma record_invitation_result:
  assumes "record_invitation env ev row kind actor rid input email root reason db = Inr (res, db')"
  shows "res = \<lparr>io_id = gi_id row, io_state = gi_status row, io_version = gi_version row, io_delivery_state = gi_delivery_state row\<rparr>"
    and "\<exists>e. gd_events db' = gd_events db @ [e] \<and> gn_id e = ev \<and> gn_invitation_id e = gi_id row \<and> gn_kind e = kind \<and>
           gn_actor_id e = actor \<and> gn_operation_id e = rid \<and> gn_request_digest e = input_digest env kind input \<and>
           gn_is_root e = root \<and> gn_version e = gi_version row \<and> gn_state e = gi_status row \<and> gn_result e = res"
    and "gd_invitations db' = gd_invitations db" "gd_checks db' = gd_checks db" "gd_participations db' = gd_participations db"
    and "gd_auth db' = gd_auth db" "gd_rbac db' = gd_rbac db"
  using assms by (auto simp: record_invitation_def insert_invitation_event_def Let_def split: if_splits)

lemma up_to_snoc: "1 \<le> n \<Longrightarrow> [1..n - 1] @ [n] = [1..n::int]"
  by (metis upto_rec2)

lemma record_invitation_moves [guest_moves_intros]:
  assumes rec: "record_invitation env ev row kind actor rid input email root reason db = Inr (res, db')"
    and row: "invitation_by_id (gi_id row) db = Some row"
  shows "guest_moves (Some (gi_id row)) db None db'"
  unfolding guest_moves_def
proof (intro impI conjI)
  assume inv: "guest_rows (Some (gi_id row)) db"
  note r = record_invitation_result(3-5) [OF rec]
  obtain e where e: "gd_events db' = gd_events db @ [e]" "gn_invitation_id e = gi_id row"
    "gn_version e = gi_version row" "gn_state e = gi_status row"
    using record_invitation_result(2) [OF rec] by auto
  have h: "invitation_history db' k = (if k = gi_id row then invitation_history db k @ [e] else invitation_history db k)" for k
    by (simp add: invitation_history_def e)
  note mine = guest_rows_row [OF inv row]
  have "invitation_history_ok None db' row"
    using mine(2,5) by (simp add: invitation_history_ok_def h e up_to_snoc invitation_row_ok_def)
  moreover have "x = row" if "x \<in> set (gd_invitations db)" "gi_id x = gi_id row" for x
    using that inv mine(1) by (auto simp: guest_rows_def distinct_map inj_on_def)
  moreover have "invitation_history_ok None db' x" if "x \<in> set (gd_invitations db)" "gi_id x \<noteq> gi_id row" for x
  proof -
    have "invitation_history_ok (Some (gi_id row)) db x" using inv that by (simp add: guest_rows_def)
    then show ?thesis using that by (simp add: invitation_history_ok_def h)
  qed
  ultimately have hist: "\<forall>x \<in> set (gd_invitations db). invitation_history_ok None db' x" by metis
  have "outcome_ok db' = outcome_ok db" "check_ok db' = check_ok db"
    by (simp_all add: fun_eq_iff outcome_ok_def check_ok_def r)
  then show "guest_rows None db'"
    using inv hist mine(1) unfolding guest_rows_def by (auto simp: r e)
  show "guest_after db db'" by (auto simp: guest_after_def r e)
qed

lemma guest_moves_other_tables:
  assumes "gd_invitations db' = gd_invitations db" "gd_checks db' = gd_checks db" "gd_events db' = gd_events db"
    and "distinct (map gp_id (gd_participations db)) \<Longrightarrow> distinct (map gp_id (gd_participations db'))"
    and "\<And>p. p \<in> set (gd_participations db) \<Longrightarrow> \<exists>p' \<in> set (gd_participations db'). gp_id p' = gp_id p \<and>
           gp_user_id p' = gp_user_id p \<and> gp_project_id p' = gp_project_id p \<and> gp_expires_at p' = gp_expires_at p"
  shows "guest_moves k db k db'"
  unfolding guest_moves_def
proof (intro impI conjI)
  assume inv: "guest_rows k db"
  have "outcome_ok db' i" if "outcome_ok db i" for i
    using that assms(5) unfolding outcome_ok_def by (smt (verit))
  moreover have "invitation_history_ok k db' = invitation_history_ok k db" "check_ok db' = check_ok db"
    using assms(1-3) by (simp_all add: fun_eq_iff invitation_history_ok_def invitation_history_def check_ok_def)
  ultimately show "guest_rows k db'" using inv assms(1-4) unfolding guest_rows_def by auto
  show "guest_after db db'" using assms(1-3) by (auto simp: guest_after_def)
qed

lemma insert_participation_moves [guest_moves_intros]:
  assumes "insert_participation env p db = Inr db'"
  shows "guest_moves k db k db'"
proof -
  from assms have "db' = db\<lparr>gd_participations := gd_participations db @ [p]\<rparr>"
    and "gp_id p \<notin> gp_id ` set (gd_participations db)"
    by (auto simp: insert_participation_def list_ex_iff image_iff split: if_splits)
  then show ?thesis by (intro guest_moves_other_tables) auto
qed

lemma insert_check_moves [guest_moves_intros]:
  assumes "insert_check env c db = Inr db'"
  shows "guest_moves k db k db'"
proof -
  from assms have db': "db' = db\<lparr>gd_checks := gd_checks db @ [c]\<rparr>"
    and ok: "check_insert_guard (gv_trigger_clock env) db c"
    and new: "gk_id c \<notin> gk_id ` set (gd_checks db)" "gk_proof_hash c \<notin> gk_proof_hash ` set (gd_checks db)"
    by (auto simp: insert_check_def list_ex_iff split: if_splits)
  have "check_ok db' c"
    using ok by (force simp: check_insert_guard_def check_ok_def db' invitation_by_id_def split: option.splits dest: tget_SomeD)
  moreover have "invitation_history_ok k db' = invitation_history_ok k db" "outcome_ok db' = outcome_ok db" "check_ok db' = check_ok db"
    by (simp_all add: fun_eq_iff db' invitation_history_ok_def outcome_ok_def check_ok_def invitation_history_def)
  moreover have "guest_after db db'" by (force simp: guest_after_def db')
  ultimately show ?thesis using new by (auto simp: guest_moves_def guest_rows_def db')
qed

lemma check_keys: "check_later c c' \<Longrightarrow> gk_id c' = gk_id c \<and> gk_proof_hash c' = gk_proof_hash c \<and>
    gk_invitation_id c' = gk_invitation_id c \<and> gk_token_generation c' = gk_token_generation c \<and>
    gk_expires_at c' = gk_expires_at c"
  by (auto simp: check_later_def)

lemma check_update_later: "check_update_guard old new \<Longrightarrow> check_later old new"
  by (cases old; cases new) (auto simp: check_update_guard_def check_later_def)

lemma update_check_moves [guest_moves_intros]:
  assumes "update_check c db = Inr db'"
  shows "guest_moves k db k db'"
proof (cases "tget gk_id (gk_id c) (gd_checks db)")
  case None
  then show ?thesis using assms by (simp add: update_check_def)
next
  case (Some old)
  with assms have db': "db' = db\<lparr>gd_checks := tput gk_id c (gd_checks db)\<rparr>" and later: "check_later old c"
    by (auto simp: update_check_def split: if_splits intro: check_update_later)
  note old = tget_SomeD [OF Some]
  have eqs: "invitation_history_ok k db' = invitation_history_ok k db" "outcome_ok db' = outcome_ok db" "check_ok db' = check_ok db"
    by (simp_all add: fun_eq_iff db' invitation_history_ok_def outcome_ok_def check_ok_def invitation_history_def)
  show ?thesis
    unfolding guest_moves_def
  proof (intro impI conjI)
    assume inv: "guest_rows k db"
    have only: "x = old" if "x \<in> set (gd_checks db)" "gk_id x = gk_id c" for x
      using inv that old by (auto simp: guest_rows_def distinct_map inj_on_def)
    have "map gk_proof_hash (tput gk_id c (gd_checks db)) = map gk_proof_hash (gd_checks db)"
      using only check_keys [OF later] by (auto simp: tput_def)
    moreover have "check_ok db c" using inv old check_keys [OF later] by (auto simp: guest_rows_def check_ok_def)
    ultimately show "guest_rows k db'"
      using inv eqs unfolding guest_rows_def by (auto simp: db' dest!: tput_mem)
    have "\<exists>c' \<in> set (tput gk_id c (gd_checks db)). check_later x c'" if "x \<in> set (gd_checks db)" for x
      using that only [OF that] later old by (cases "gk_id x = gk_id c") (force simp: tput_def)+
    then show "guest_after db db'" by (auto simp: guest_after_def db')
  qed
qed


subsection \<open>Operations\<close>

lemma require_row_known: "require_row db k p = Inr row \<Longrightarrow> invitation_by_id k db = Some row \<and> gi_id row = k"
  by (auto simp: require_row_def invitation_by_id_def split: option.splits if_splits dest: tget_SomeD)

lemma recipient_access_known: "recipient_access ctx k db = Inr row \<Longrightarrow> invitation_by_id k db = Some row \<and> gi_id row = k"
  by (auto simp: recipient_access_def dest: require_row_known)

lemma insert_invitation_known: "insert_invitation env i db = Inr db' \<Longrightarrow> invitation_by_id (gi_id i) db' = Some i"
  by (auto simp: insert_invitation_def invitation_by_id_def list_ex_iff row_simps split: if_splits option.splits
        dest!: tget_SomeD)

text \<open>A changed row and the event that tells of it: the step of every operation of the service.\<close>

lemma change_moves:
  assumes "update_invitation env row db = Inr db1" and "invitation_by_id (gi_id row) db = Some old"
    and "record_invitation env2 ev row kind actor rid input email root reason db1 = Inr (res, db')"
  shows "guest_moves None db None db'"
  using update_invitation_moves [OF assms(1,2)]
    record_invitation_moves [OF assms(3) update_invitation_known(4) [OF assms(1,2)]]
  by (rule guest_moves_trans)

lemma find_invitation_known:
  assumes "find P (gd_invitations db) = Some i" and "distinct (map gi_id (gd_invitations db))"
  shows "invitation_by_id (gi_id i) db = Some i"
  using assms by (auto simp: invitation_by_id_def tget_Some_iff find_Some_iff)

lemma expire_pending_moves [guest_moves_intros]:
  assumes "expire_pending env fresh project_id actor data db = Inr db'"
  shows "guest_moves None db None db'"
proof (cases "distinct (map gi_id (gd_invitations db))")
  case False
  then show ?thesis by (simp add: guest_moves_def guest_rows_def)
next
  case True
  show ?thesis
  proof (cases "find (\<lambda>x. gi_project_id x = project_id \<and> py_lower (gi_recipient_email x) = py_lower (ic_email data) \<and>
              gi_status x = ''pending'') (gd_invitations db)")
    case None
    then show ?thesis using assms by (simp add: expire_pending_def)
  next
    case (Some i)
    then show ?thesis
      using assms find_invitation_known [OF Some True]
      by (auto simp: expire_pending_def Let_def split: if_splits intro: change_moves)
  qed
qed

lemma prepare_create_moves [guest_moves_intros]:
  assumes "prepare_create env ctx fresh user project_id data db = Inr (r, db')"
  shows "guest_moves None db None db'"
proof -
  from assms consider "db' = db"
    | db1 db2 row ev kind act rid input res where "expire_pending env fresh project_id (fst act) data db = Inr db1"
      "insert_invitation env row db1 = Inr db2"
      "record_invitation env ev row kind (Some (snd act)) rid input False True None db2 = Inr (res, db')"
    by (auto simp: prepare_create_def Let_def split: option.splits if_splits)
  then show ?thesis
  proof cases
    case 2
    show ?thesis
      using expire_pending_moves [OF 2(1)] insert_invitation_moves [OF 2(2)]
        record_invitation_moves [OF 2(3) insert_invitation_known [OF 2(2)]] by (blast intro: guest_moves_trans)
  qed simp
qed

lemma prepare_resend_moves [guest_moves_intros]:
  assumes "prepare_resend env ctx fresh user project_id k data db = Inr (r, db')"
  shows "guest_moves None db None db'"
  using assms by (auto simp: prepare_resend_def Let_def split: if_splits intro: change_moves dest!: require_row_known)

lemma send_record_moves [guest_moves_intros]:
  assumes "send_record env ctx fresh user project_id k rid input generation outcome db = Inr (r, db')"
  shows "guest_moves None db None db'"
  using assms by (auto simp: send_record_def Let_def split: if_splits intro: change_moves dest!: require_row_known)

lemma revoke_invitation_moves [guest_moves_intros]:
  assumes "revoke_invitation env ctx fresh user project_id k data db = Inr (r, db')"
  shows "guest_moves None db None db'"
  using assms by (auto simp: revoke_invitation_def Let_def split: option.splits intro: change_moves dest!: require_row_known)

lemma inspect_invitation_moves [guest_moves_intros]:
  assumes "inspect_invitation env ctx fresh k token db = Inr (r, db')"
  shows "guest_moves None db None db'"
  using assms by (auto simp: inspect_invitation_def Let_def intro: insert_check_moves)

lemma guest_moves_users [simp]: "guest_moves k db k (db\<lparr>gd_auth := a\<rparr>)"
  by (rule guest_moves_other_tables) auto


text \<open>Registering and finishing write the row before other tables; each is taken apart once.\<close>

lemma register_invited_cases:
  assumes "register_invited env ctx fresh k proof data user db = Inr (r, db')"
  obtains (replayed) "db' = db"
  | (registered) row person db1 db2 res where "invitation_by_id k db = Some row" "gi_id row = k"
      "db1 = db\<lparr>gd_auth := (gd_auth db)\<lparr>adb_users := adb_users (gd_auth db) @ [person]\<rparr>\<rparr>"
      "update_invitation env (row\<lparr>gi_recipient_id := Some (au_id person), gi_version := gi_version row + 1\<rparr>) db1 = Inr db2"
      "record_invitation env (gf_event fresh) (row\<lparr>gi_recipient_id := Some (au_id person), gi_version := gi_version row + 1\<rparr>)
         ''registered'' (Some (au_id person)) (iv_request_id data) (register_input data) True True None db2 = Inr (res, db')"
  using assms
  by (auto simp: register_invited_def Let_def split: option.splits if_splits dest!: recipient_access_known)

lemma register_invited_moves [guest_moves_intros]:
  assumes "register_invited env ctx fresh k proof data user db = Inr (r, db')"
  shows "guest_moves None db None db'"
  using assms
proof (cases rule: register_invited_cases)
  case (registered row person db1 db2 res)
  have "guest_moves None db1 None db'"
    by (rule change_moves [OF registered(4) _ registered(5)]) (use registered(1-3) in \<open>simp add: invitation_by_id_def\<close>)
  then show ?thesis using guest_moves_users [of None db] by (metis guest_moves_trans registered(3))
qed simp

lemma update_check_frame:
  assumes "update_check c db = Inr db'"
  shows "gd_invitations db' = gd_invitations db" "gd_events db' = gd_events db" "gd_participations db' = gd_participations db"
    "gd_auth db' = gd_auth db" "gd_rbac db' = gd_rbac db"
  using assms by (auto simp: update_check_def split: option.splits if_splits)

lemma insert_participation_frame:
  assumes "insert_participation env p db = Inr db'"
  shows "gd_invitations db' = gd_invitations db" "gd_events db' = gd_events db" "gd_checks db' = gd_checks db"
    "gd_participations db' = gd_participations db @ [p]" "gd_auth db' = gd_auth db" "gd_rbac db' = gd_rbac db"
  using assms by (auto simp: insert_participation_def split: if_splits)

lemma finish_row_moves:
  assumes "finish_row env fresh row actor decline db = Inr (row', db')"
  shows "guest_moves None db None db'" "gd_invitations db' = gd_invitations db" "gi_id row' = gi_id row"
  using assms by (auto simp: finish_row_def split: if_splits option.splits dest: insert_participation_moves insert_participation_frame)

lemma finish_checks_known:
  "finish_checks env ctx k proof user decline db = Inr (row, c, actor) \<Longrightarrow> invitation_by_id k db = Some row \<and> gi_id row = k"
  by (auto simp: finish_checks_def Let_def split: option.splits dest: recipient_access_known)

lemma finish_store_parts:
  assumes "finish_store env fresh row c kind actor_id decline data db = Inr (res, db')"
  obtains db1 db2 where "update_invitation env row db = Inr db1"
    "update_check (c\<lparr>gk_consumed_at := Some (gv_now env)\<rparr>) db1 = Inr db2"
    "record_invitation env (gf_event fresh) row kind actor_id (iv_request_id data) (version_input data)
       (decline \<and> actor_id = None) True None db2 = Inr (res, db')"
  using assms by (auto simp: finish_store_def)

text \<open>Where a call of it ends: refused on the way, repeated, or with the answer stored.\<close>

lemma finish_invitation_run:
  obtains (raised) e where "finish_invitation env ctx fresh k proof data user decline db = Inl (Inr e)"
  | (replayed) row c actor res where "finish_checks env ctx k proof user decline db = Inr (row, c, actor)"
      "finish_replay env db row c (if decline then ''declined'' else ''accepted'') (map_option au_id actor) data = Inr (Some res)"
      "finish_invitation env ctx fresh k proof data user decline db = Inr (res, db)"
  | (finished) row c actor where "finish_checks env ctx k proof user decline db = Inr (row, c, actor)"
      "finish_replay env db row c (if decline then ''declined'' else ''accepted'') (map_option au_id actor) data = Inr None"
      "finish_invitation env ctx fresh k proof data user decline db =
         ebind (finish_row env fresh row actor decline db) (\<lambda>(row', db1).
         refused (finish_store env fresh row' c (if decline then ''declined'' else ''accepted'') (map_option au_id actor) decline data db1))"
proof (cases "finish_checks env ctx k proof user decline db")
  case (Inl e)
  then show thesis by (intro raised [of e]) (simp add: finish_invitation_def)
next
  case (Inr x)
  obtain row c actor where x: "x = (row, c, actor)" by (rule prod_cases3)
  let ?replay = "finish_replay env db row c (if decline then ''declined'' else ''accepted'') (map_option au_id actor) data"
  note run = finish_invitation_def [of env ctx fresh k "proof" data user decline db, unfolded Inr x Let_def]
  show thesis
  proof (cases ?replay)
    case (Inl e)
    then show thesis by (intro raised [of e]) (simp add: run del: if_split)
  next
    case replay: (Inr previous)
    show thesis
    proof (cases previous)
      case None
      with replay have "?replay = Inr None" by simp
      with Inr x show thesis by (intro finished [of row c actor]) (simp_all add: run del: if_split ebind_eq_Inr)
    next
      case (Some res)
      with replay have "?replay = Inr (Some res)" by simp
      with Inr x show thesis by (intro replayed [of row c actor res]) (simp_all add: run del: if_split)
    qed
  qed
qed

lemma finish_invitation_cases:
  assumes "finish_invitation env ctx fresh k proof data user decline db = Inr (res, db')"
  obtains (replayed) row c actor where "finish_checks env ctx k proof user decline db = Inr (row, c, actor)"
      "finish_replay env db row c (if decline then ''declined'' else ''accepted'') (map_option au_id actor) data = Inr (Some res)"
      "db' = db"
  | (finished) row c actor row' db1 where "finish_checks env ctx k proof user decline db = Inr (row, c, actor)"
      "finish_replay env db row c (if decline then ''declined'' else ''accepted'') (map_option au_id actor) data = Inr None"
      "finish_row env fresh row actor decline db = Inr (row', db1)"
      "finish_store env fresh row' c (if decline then ''declined'' else ''accepted'') (map_option au_id actor) decline data db1 = Inr (res, db')"
proof (cases env ctx fresh k "proof" data user decline db rule: finish_invitation_run)
  case (raised e)
  with assms show thesis by simp
next
  case (replayed row c actor r)
  with assms have "r = res" "db' = db" by simp_all
  with replayed(1,2) show thesis by (intro that(1) [OF replayed(1)]) simp_all
next
  case (finished row c actor)
  obtain x where x: "finish_row env fresh row actor decline db = Inr x"
    and y: "(case x of (row', db1) \<Rightarrow> refused (finish_store env fresh row' c (if decline then ''declined'' else ''accepted'')
      (map_option au_id actor) decline data db1)) = Inr (res, db')"
    using assms unfolding finished(3) by (rule ebind_InrE)
  obtain row' db1 where "x = (row', db1)" by fastforce
  with x y show thesis by (intro that(2) [OF finished(1,2)]) (simp_all del: if_split)
qed

lemma finish_invitation_moves [guest_moves_intros]:
  assumes "finish_invitation env ctx fresh k proof data user decline db = Inr (r, db')"
  shows "guest_moves None db None db'"
  using assms
proof (cases rule: finish_invitation_cases)
  case (finished row c actor row' db1)
  note fr = finish_row_moves [OF finished(3)]
  from finish_store_parts [OF finished(4)] obtain db2 db3 where store: "update_invitation env row' db1 = Inr db2"
    "update_check (c\<lparr>gk_consumed_at := Some (gv_now env)\<rparr>) db2 = Inr db3"
    "record_invitation env (gf_event fresh) row' (if decline then ''declined'' else ''accepted'') (map_option au_id actor)
       (iv_request_id data) (version_input data) (decline \<and> map_option au_id actor = None) True None db3 = Inr (r, db')" .
  have row: "invitation_by_id (gi_id row') db1 = Some row"
    using finish_checks_known [OF finished(1)] fr(2,3) by (simp add: invitation_by_id_def)
  have "invitation_by_id (gi_id row') db3 = Some row'"
    using update_invitation_known(4) [OF store(1) row] update_check_frame(1) [OF store(2)] by (simp add: invitation_by_id_def)
  then show ?thesis
    using fr(1) update_invitation_moves [OF store(1) row] update_check_moves [OF store(2)]
      record_invitation_moves [OF store(3)] by (blast intro: guest_moves_trans)
qed simp

subsection \<open>Steps\<close>

text \<open>
  What other services may do: users, sessions, roles and organisations change at will; participations are
  added, revoked or extended by none but keep who and what they are for.
\<close>

definition participation_kept :: "participation \<Rightarrow> participation \<Rightarrow> bool" where
  "participation_kept p p' \<longleftrightarrow>
     gp_id p' = gp_id p \<and> gp_user_id p' = gp_user_id p \<and> gp_project_id p' = gp_project_id p \<and> gp_expires_at p' = gp_expires_at p"

definition guest_others :: "guest_db \<Rightarrow> guest_db \<Rightarrow> bool" where
  "guest_others db db' \<longleftrightarrow>
     gd_invitations db' = gd_invitations db \<and> gd_checks db' = gd_checks db \<and> gd_events db' = gd_events db \<and>
     distinct (map gp_id (gd_participations db')) \<and>
     (\<forall>p \<in> set (gd_participations db). \<exists>p' \<in> set (gd_participations db'). participation_kept p p')"

inductive guest_step :: "guest_db \<Rightarrow> guest_db \<Rightarrow> bool" where
  create: "prepare_create env ctx fresh user project_id data db = Inr (r, db') \<Longrightarrow> guest_step db db'"
| resend: "prepare_resend env ctx fresh user project_id k data db = Inr (r, db') \<Longrightarrow> guest_step db db'"
| sent: "send_record env ctx fresh user project_id k rid input generation outcome db = Inr (r, db') \<Longrightarrow> guest_step db db'"
| revoke: "revoke_invitation env ctx fresh user project_id k rdata db = Inr (r, db') \<Longrightarrow> guest_step db db'"
| inspect: "inspect_invitation env ctx fresh k token db = Inr (r, db') \<Longrightarrow> guest_step db db'"
| register: "register_invited env ctx fresh k proof pdata viewer db = Inr (r, db') \<Longrightarrow> guest_step db db'"
| finish: "finish_invitation env ctx fresh k proof vdata viewer decline db = Inr (r, db') \<Longrightarrow> guest_step db db'"
| others: "guest_others db db' \<Longrightarrow> guest_step db db'"

lemma guest_others_moves [guest_moves_intros]: "guest_others db db' \<Longrightarrow> guest_moves k db k db'"
  by (rule guest_moves_other_tables) (auto simp: guest_others_def participation_kept_def)

lemma guest_step_moves: "guest_step db db' \<Longrightarrow> guest_moves None db None db'"
  by (cases rule: guest_step.cases) (auto intro: guest_moves_intros)

lemma guest_steps_moves: "guest_step\<^sup>*\<^sup>* db db' \<Longrightarrow> guest_moves None db None db'"
  by (induction rule: rtranclp_induct) (auto intro: guest_step_moves guest_moves_trans)

definition guest_empty :: "guest_db \<Rightarrow> bool" where
  "guest_empty db \<longleftrightarrow> gd_invitations db = [] \<and> gd_checks db = [] \<and> gd_events db = [] \<and> gd_participations db = []"

definition guest_reachable :: "guest_db \<Rightarrow> bool" where
  "guest_reachable db \<longleftrightarrow> (\<exists>start. guest_empty start \<and> guest_step\<^sup>*\<^sup>* start db)"

lemma guest_empty_inv: "guest_empty db \<Longrightarrow> guest_inv db"
  by (simp add: guest_empty_def guest_rows_def)

lemma guest_reachable_inv: "guest_reachable db \<Longrightarrow> guest_inv db"
  using guest_steps_moves guest_empty_inv unfolding guest_reachable_def guest_moves_def by blast

lemma guest_reachable_steps: "guest_reachable db \<Longrightarrow> guest_step\<^sup>*\<^sup>* db db' \<Longrightarrow> guest_reachable db'"
  by (meson guest_reachable_def rtranclp_trans)

lemma guest_steps_later:
  assumes "guest_reachable db" and "guest_step\<^sup>*\<^sup>* db db'" and "invitation_by_id k db = Some i"
  obtains i' where "invitation_by_id k db' = Some i'" and "invitation_later i i'"
proof -
  from assms(3) have i: "i \<in> set (gd_invitations db)" "gi_id i = k" by (auto simp: invitation_by_id_def dest: tget_SomeD)
  have after: "guest_after db db'" and inv: "guest_inv db'"
    using guest_steps_moves [OF assms(2)] guest_reachable_inv [OF assms(1)] by (auto simp: guest_moves_def)
  from after i obtain i' where "i' \<in> set (gd_invitations db')" "invitation_later i i'" by (auto simp: guest_after_def)
  with inv i show ?thesis
    using that by (auto simp: invitation_by_id_def tget_Some_iff guest_rows_def invitation_later_def)
qed

end
