(* ===== verification/Guest_Sample.thy ===== *)
theory Guest_Sample imports Guest_System begin

text \<open>
  One invitation from its creation to the acceptance, and to a second link instead: the administrator 7 of the
  organisation invites the guest 9, who has an account and a second factor. The stand-in for the digest of an
  input is constant, so that the evaluated texts stay small.
\<close>

definition guest_sample_env :: guest_env where
  "guest_sample_env = \<lparr>gv_auth = sample_env\<lparr>ae_now := 5, ae_hmac := (\<lambda>_. ''h'')\<rparr>, gv_trigger_clock = 5, gv_public = True,
     gv_mail_available = True, gv_local_capture = (\<lambda>_. False), gv_mail = (\<lambda>_ _. MailSent ''m'')\<rparr>"

definition guest_sample_ctx :: "int \<Rightarrow> string \<Rightarrow> guest_context" where
  "guest_sample_ctx user session = \<lparr>gx_tenant_id = Some 1, gx_tenant_user_id = Some user, gx_demo_id = None, gx_demo_realm = False,
     gx_mcp_connection_id = None, gx_auth_session = Some session\<rparr>"

definition guest_sample_fresh :: "string \<Rightarrow> guest_fresh" where
  "guest_sample_fresh k = \<lparr>gf_id = ''I'' @ k, gf_secret = ''s'' @ k, gf_event = ''e'' @ k, gf_other_event = ''o'' @ k\<rparr>"

definition guest_sample_session :: "string \<Rightarrow> int \<Rightarrow> user_session" where
  "guest_sample_session k user = \<lparr>us_id = k, us_user_id = user, us_started_at = 0, us_last_seen_at = 0, us_expires_at = 9,
     us_absolute_expires_at = 9, us_revoked_at = None, us_revoked_reason = None, us_mfa_method = Some ''totp'',
     us_mfa_verified_at = Some 0, us_mfa_security_version = Some 0, us_mfa_reauthenticated_at = None\<rparr>"

definition guest_sample_users :: auth_db where
  "guest_sample_users = sample_auth_db\<lparr>
     adb_users := [sample_user\<lparr>au_user_type := ''internal'', au_mfa_security_version := 0\<rparr>,
                   sample_user\<lparr>au_id := 9, au_email := ''g'', au_user_type := ''guest'', au_mfa_security_version := 0\<rparr>],
     adb_sessions := [guest_sample_session ''S'' 7, guest_sample_session ''G'' 9]\<rparr>"

definition guest_sample_roles :: rbac_db where
  "guest_sample_roles = \<lparr>rb_tenants = [\<lparr>tn_id = 1, tn_status = ''active''\<rparr>],
     rb_tenant_members = [\<lparr>tm_id = 1, tm_tenant_id = 1, tm_user_id = 7, tm_role_id = 2, tm_status = ''active''\<rparr>],
     rb_projects = [\<lparr>pj_id = 1, pj_tenant_id = 1, pj_deleted_at = None\<rparr>], rb_project_members = [],
     rb_roles = [\<lparr>ro_id = 2, ro_key = ''tenant_owner'', ro_name = ''o'', ro_scope = ''tenant'', ro_description = None\<rparr>],
     rb_permissions = [], rb_role_permissions = [], rb_user_roles = []\<rparr>"

definition guest_sample_0 :: guest_db where
  "guest_sample_0 = \<lparr>gd_auth = guest_sample_users, gd_rbac = guest_sample_roles, gd_invitations = [], gd_checks = [],
     gd_events = [], gd_participations = [], gd_audits = []\<rparr>"

definition guest_sample_create :: invitation_create where
  "guest_sample_create = \<lparr>ic_request_id = ''q1'', ic_email = ''g'', ic_display_label = ''l'', ic_participation_expires_at = 9\<rparr>"

definition guest_sample_version :: "string \<Rightarrow> int \<Rightarrow> invitation_version" where
  "guest_sample_version q v = \<lparr>iv_request_id = q, iv_version = v\<rparr>"

subsection \<open>The states it goes through\<close>

definition guest_sample_row :: invitation where
  "guest_sample_row = \<lparr>gi_id = ''I1'', gi_project_id = 1, gi_recipient_email = ''g'', gi_recipient_id = Some 9, gi_display_label = ''l'',
     gi_created_by = 7, gi_created_at = 5, gi_expires_at = 9, gi_participation_expires_at = 9,
     gi_status = ''pending'', gi_version = 1, gi_token_generation = 1, gi_token_hash = ''d:s1'', gi_delivery_state = ''sending'',
     gi_sent_at = None, gi_provider_message_id = None, gi_accepted_by = None, gi_participation_id = None,
     gi_request_id = ''q1'', gi_request_digest = ''h''\<rparr>"

definition guest_sample_sent :: invitation where
  "guest_sample_sent = guest_sample_row\<lparr>gi_version := 2, gi_delivery_state := ''sent'', gi_sent_at := Some 5,
     gi_provider_message_id := Some ''m''\<rparr>"

definition guest_sample_accepted :: invitation where
  "guest_sample_accepted = guest_sample_sent\<lparr>gi_status := ''accepted'', gi_version := 3, gi_participation_id := Some ''I4'',
     gi_accepted_by := Some 9\<rparr>"

definition guest_sample_resent :: invitation where
  "guest_sample_resent = guest_sample_sent\<lparr>gi_version := 3, gi_token_generation := 2, gi_token_hash := ''d:s5'',
     gi_delivery_state := ''sending'', gi_sent_at := None, gi_provider_message_id := None\<rparr>"

definition guest_sample_result :: "invitation \<Rightarrow> invitation_operation" where
  "guest_sample_result i = \<lparr>io_id = gi_id i, io_state = gi_status i, io_version = gi_version i, io_delivery_state = gi_delivery_state i\<rparr>"

definition guest_sample_told :: "string \<Rightarrow> string \<Rightarrow> int \<Rightarrow> string \<Rightarrow> bool \<Rightarrow> invitation \<Rightarrow> guest_db \<Rightarrow> guest_db" where
  "guest_sample_told ev kind actor q root i db = db\<lparr>gd_invitations := [i],
     gd_events := gd_events db @ [\<lparr>gn_id = ev, gn_project_id = 1, gn_invitation_id = ''I1'', gn_kind = kind, gn_actor_id = Some actor,
       gn_actor_kind = ''user'', gn_occurred_at = 5, gn_operation_id = q, gn_request_digest = ''h'', gn_is_root = root,
       gn_version = gi_version i, gn_state = gi_status i, gn_reason = None, gn_result = guest_sample_result i\<rparr>],
     gd_audits := gd_audits db @ [\<lparr>ga_event_type = ''guest_invitation.'' @ kind, ga_tenant_id = Some 1, ga_actor_user_id = Some actor,
       ga_project_id = 1, ga_invitation_id = ''I1'', ga_operation_id = q\<rparr>]\<rparr>"

definition guest_sample_check :: invitation_check where
  "guest_sample_check = \<lparr>gk_id = ''I3'', gk_project_id = 1, gk_invitation_id = ''I1'', gk_token_generation = 1,
     gk_proof_hash = ''d:s3'', gk_expires_at = 9, gk_consumed_at = None\<rparr>"

definition guest_sample_participation :: participation where
  "guest_sample_participation = \<lparr>gp_id = ''I4'', gp_project_id = 1, gp_user_id = 9, gp_generation = 1, gp_status = ''active'',
     gp_expires_at = 9, gp_version = 1, gp_created_by = 9, gp_revoked_at = None, gp_revoked_by = None,
     gp_revocation_reason = None\<rparr>"

definition guest_sample_1 :: guest_db where
  "guest_sample_1 = guest_sample_told ''e1'' ''created'' 7 ''q1'' True guest_sample_row guest_sample_0"

definition guest_sample_2 :: guest_db where
  "guest_sample_2 = guest_sample_told ''e2'' ''delivery_sent'' 7 ''q1'' False guest_sample_sent guest_sample_1"

definition guest_sample_3 :: guest_db where
  "guest_sample_3 = guest_sample_2\<lparr>gd_checks := [guest_sample_check]\<rparr>"

definition guest_sample_4 :: guest_db where
  "guest_sample_4 = guest_sample_told ''e4'' ''accepted'' 9 ''q4'' True guest_sample_accepted
     (guest_sample_3\<lparr>gd_checks := [guest_sample_check\<lparr>gk_consumed_at := Some 5\<rparr>], gd_participations := [guest_sample_participation]\<rparr>)"

definition guest_sample_5 :: guest_db where
  "guest_sample_5 = guest_sample_told ''e5'' ''resent'' 7 ''q5'' True guest_sample_resent guest_sample_3"

definition guest_sample_6 :: guest_db where
  "guest_sample_6 = guest_sample_4\<lparr>gd_participations := [guest_sample_participation\<lparr>gp_status := ''revoked'', gp_version := 2,
     gp_revoked_at := Some 6, gp_revoked_by := Some 7, gp_revocation_reason := Some ''r''\<rparr>]\<rparr>"

text \<open>The calls that lead from one to the next.\<close>

abbreviation guest_sample_inviter :: guest_context where
  "guest_sample_inviter \<equiv> guest_sample_ctx 7 ''S''"

abbreviation guest_sample_guest :: guest_context where
  "guest_sample_guest \<equiv> guest_sample_ctx 9 ''G''"

abbreviation guest_sample_accept :: "string \<Rightarrow> guest_db \<Rightarrow> guest_error + invitation_operation \<times> guest_db" where
  "guest_sample_accept k \<equiv> finish_invitation guest_sample_env guest_sample_guest (guest_sample_fresh k) ''I1'' ''s3''
     (guest_sample_version ''q4'' 2) (Some 9) False"

lemma guest_sample_created:
  "prepare_create guest_sample_env guest_sample_inviter (guest_sample_fresh ''1'') 7 1 guest_sample_create guest_sample_0 =
     Inr ((read_invitation guest_sample_row 5, Some ''s1''), guest_sample_1)"
  by code_simp

lemma guest_sample_mailed:
  "send_record guest_sample_env guest_sample_inviter (guest_sample_fresh ''2'') 7 1 ''I1'' ''q1''
     (create_input guest_sample_create) 1 (MailSent ''m'') guest_sample_1 =
     Inr (read_invitation guest_sample_sent 5, guest_sample_2)"
  by code_simp

lemma guest_sample_inspected:
  "map_sum id snd (inspect_invitation guest_sample_env guest_sample_guest (guest_sample_fresh ''3'') ''I1'' ''s1'' guest_sample_2) =
     Inr guest_sample_3"
  by code_simp

lemma guest_sample_finished:
  "guest_sample_accept ''4'' guest_sample_3 = Inr (guest_sample_result guest_sample_accepted, guest_sample_4)"
  by code_simp

lemma guest_sample_again:
  "guest_sample_accept ''6'' guest_sample_6 = Inr (guest_sample_result guest_sample_accepted, guest_sample_6)"
  by code_simp

lemma guest_sample_second_link:
  "map_sum id snd (prepare_resend guest_sample_env guest_sample_inviter (guest_sample_fresh ''5'') 7 1 ''I1''
     (guest_sample_version ''q5'' 2) guest_sample_3) = Inr guest_sample_5"
  by code_simp

lemma map_sum_snd: "map_sum id snd m = Inr d \<Longrightarrow> \<exists>r. m = Inr (r, d)"
  by (cases m) auto

lemma guest_sample_reachable_3: "guest_reachable guest_sample_3"
proof -
  have "guest_empty guest_sample_0" by (simp add: guest_empty_def guest_sample_0_def)
  moreover have "guest_step guest_sample_0 guest_sample_1" by (rule guest_step.create [OF guest_sample_created])
  moreover have "guest_step guest_sample_1 guest_sample_2" by (rule guest_step.sent [OF guest_sample_mailed])
  moreover have "guest_step guest_sample_2 guest_sample_3"
    using map_sum_snd [OF guest_sample_inspected] by (auto intro: guest_step.inspect)
  ultimately show ?thesis unfolding guest_reachable_def by (meson rtranclp.rtrancl_refl rtranclp.rtrancl_into_rtrancl)
qed

lemma guest_sample_steps: "guest_step guest_sample_3 guest_sample_4" "guest_step guest_sample_3 guest_sample_5"
  using guest_step.finish [OF guest_sample_finished] map_sum_snd [OF guest_sample_second_link] by (auto intro: guest_step.resend)

lemma guest_sample_revoked: "guest_step\<^sup>*\<^sup>* guest_sample_4 guest_sample_6"
  by (intro r_into_rtranclp guest_step.others)
    (simp add: guest_others_def participation_kept_def guest_sample_6_def guest_sample_4_def guest_sample_told_def)

lemma guest_sample_reachable: "guest_reachable guest_sample_4" "guest_reachable guest_sample_5"
  using guest_sample_reachable_3 guest_sample_steps by (auto intro: guest_reachable_steps)

end
