(* ===== verification/Guest_Properties.thy ===== *)
theory Guest_Properties imports Guest_Sample Numbering begin

text \<open>
  What the invitations promise: the conditions of an acceptance, that an answer is final, that an old link is
  worth nothing, that the database never refuses what the service decided, and that a repeated answer is the
  first one.
\<close>

subsection \<open>Finishing an invitation\<close>

lemma user_by_id_SomeD: "user_by_id k db = Some u \<Longrightarrow> u \<in> set (adb_users db) \<and> au_id u = k"
  by (auto dest: tget_SomeD)

lemma verify_actor_facts:
  assumes "verify_actor env ctx u internal db = Inr (a, s)"
  shows "a \<in> set (adb_users (gd_auth db))" "au_id a = u" "au_is_active a" "au_deleted_at a = None"
    "\<not> au_password_change_required a" "s \<in> set (adb_sessions (gd_auth db))" "us_user_id s = u" "us_revoked_at s = None"
    "gv_now env < us_expires_at s" "gv_now env < us_absolute_expires_at s"
    "tget rg_user_id u (adb_review_grants (gd_auth db)) = None"
  using assms
  by (auto simp: verify_actor_def session_by_id_def split: option.splits if_splits bind_splits
        dest!: user_by_id_SomeD tget_SomeD)

lemma internal_member_iff:
  "internal_member db row person \<longleftrightarrow>
     (\<exists>m \<in> set (rb_tenant_members (gd_rbac db)). \<exists>q \<in> set (rb_projects (gd_rbac db)). pj_tenant_id q = tm_tenant_id m \<and>
        pj_id q = gi_project_id row \<and> tm_user_id m = au_id person \<and> tm_status m = ''active'')"
  by (simp add: internal_member_def concat_eq_Nil_conv if_distrib [of "\<lambda>xs. xs = []"]) blast

lemma invitation_target_facts:
  assumes "invitation_target db row = Inr (Some p)"
  shows "p \<in> set (adb_users (gd_auth db))" "au_email p = gi_recipient_email row" "gi_recipient_id row \<in> {None, Some (au_id p)}"
    "\<And>q m. q \<in> set (rb_projects (gd_rbac db)) \<Longrightarrow> pj_id q = gi_project_id row \<Longrightarrow> m \<in> set (rb_tenant_members (gd_rbac db)) \<Longrightarrow>
       tm_tenant_id m = pj_tenant_id q \<Longrightarrow> tm_user_id m = au_id p \<Longrightarrow> tm_status m \<noteq> ''active''"
proof -
  let ?ids = "guest_identities db (gi_recipient_email row)"
  have one: "?ids = [p]"
    using assms by (cases ?ids rule: remdups_adj.cases) (simp_all add: invitation_target_def split: if_split_asm)
  from assms have email: "au_email p = gi_recipient_email row"
    and r: "gi_recipient_id row \<in> {None, Some (au_id p)}"
    and m: "\<not> internal_member db row p"
    by (simp_all add: invitation_target_def one split: if_split_asm)
  from one have "p \<in> set (guest_identities db (gi_recipient_email row))" by simp
  then show "p \<in> set (adb_users (gd_auth db))" by (auto simp: guest_identities_def)
  show "au_email p = gi_recipient_email row" "gi_recipient_id row \<in> {None, Some (au_id p)}" using email r by auto
  show "tm_status m' \<noteq> ''active''" if "q \<in> set (rb_projects (gd_rbac db))" "pj_id q = gi_project_id row"
    "m' \<in> set (rb_tenant_members (gd_rbac db))" "tm_tenant_id m' = pj_tenant_id q" "tm_user_id m' = au_id p" for q m'
    using m that unfolding internal_member_iff by metis
qed

lemma checked_proof_facts:
  assumes "checked_proof env db row proof terminal = Inr c"
  shows "c \<in> set (gd_checks db)" "gk_invitation_id c = gi_id row" "gk_proof_hash c = secret_digest env proof"
    "gk_token_generation c = gi_token_generation row" "gv_now env < gk_expires_at c" "gv_now env < gi_expires_at row"
  using assms by (auto simp: checked_proof_def find_Some_iff split: if_splits option.splits)

lemma finish_checks_facts:
  assumes "finish_checks env ctx k proof user decline db = Inr (row, c, actor)"
  shows "inviter db row = Inr ()" "checked_proof env db row proof True = Inr c"
    "map_option au_id actor = user"
    "\<not> decline \<Longrightarrow> \<exists>a s p. actor = Some a \<and> verify_actor env ctx (au_id a) False db = Inr (a, s) \<and> mfa_verified env s a \<and>
       invitation_target db row = Inr (Some p) \<and> au_id p = au_id a"
proof -
  note parts = assms [unfolded finish_checks_def recipient_access_def Let_def]
  from parts show "inviter db row = Inr ()" "checked_proof env db row proof True = Inr c" by auto
  show who: "map_option au_id actor = user"
  proof (cases user)
    case None
    with parts show ?thesis by auto
  next
    case (Some u)
    with parts obtain a s where "verify_actor env ctx u False db = Inr (a, s)" "actor = Some a" by auto
    with Some show ?thesis by (simp add: verify_actor_facts(2))
  qed
  assume "\<not> decline"
  with parts obtain u a s p where a: "user = Some u" "verify_actor env ctx u False db = Inr (a, s)" "actor = Some a"
    "mfa_verified env s a" "invitation_target db row = Inr (Some p)" "au_id p = au_id a"
    by (auto split: option.splits)
  with who show "\<exists>a s p. actor = Some a \<and> verify_actor env ctx (au_id a) False db = Inr (a, s) \<and> mfa_verified env s a \<and>
       invitation_target db row = Inr (Some p) \<and> au_id p = au_id a" by auto
qed

lemma finish_replay_None:
  assumes "finish_replay env db row c kind actor data = Inr None"
  shows "previous_operation db (gi_id row) (iv_request_id data) = None" "iv_version data = gi_version row"
    "gi_status row = ''pending''" "gk_consumed_at c = None"
  using assms by (auto simp: finish_replay_def replay_operation_def check_version_def split: option.splits if_splits)

text \<open>
  C5: An invitation is accepted (as opposed to repeated) only while it is pending and in time, at the
  version the person saw, behind an unused confirmation of its current link, by a person whose session is
  live, whose further authentication holds and whose address is exactly the invited one, while the inviter
  may still invite; the participation that results is theirs, for that project, and ends when the invitation
  says.\<close>

theorem acceptance_conditions:
  assumes "finish_invitation env ctx fresh k proof data user False db = Inr (res, db')"
    and "previous_operation db k (iv_request_id data) = None"
  shows "\<exists>row c person s.
     invitation_by_id k db = Some row \<and> gi_status row = ''pending'' \<and> gv_now env < gi_expires_at row \<and>
     gi_version row = iv_version data \<and> inviter db row = Inr () \<and>
     c \<in> set (gd_checks db) \<and> gk_invitation_id c = k \<and> gk_proof_hash c = secret_digest env proof \<and>
     gk_token_generation c = gi_token_generation row \<and> gv_now env < gk_expires_at c \<and> gk_consumed_at c = None \<and>
     user = Some (au_id person) \<and> verify_actor env ctx (au_id person) False db = Inr (person, s) \<and> mfa_verified env s person \<and>
     (\<exists>p \<in> set (adb_users (gd_auth db)). au_id p = au_id person \<and> au_email p = gi_recipient_email row) \<and>
     gd_participations db' = gd_participations db @ [accepted_participation env fresh row person db] \<and>
     invitation_by_id k db' = Some (row\<lparr>gi_status := ''accepted'', gi_version := gi_version row + 1,
       gi_participation_id := Some (gf_id fresh), gi_accepted_by := user, gi_recipient_id := user\<rparr>)"
  using assms(1)
proof (cases rule: finish_invitation_cases)
  case (replayed row c actor)
  then have "previous_operation db (gi_id row) (iv_request_id data) \<noteq> None"
    by (auto simp: finish_replay_def replay_operation_def split: option.splits)
  with assms(2) finish_checks_known [OF replayed(1)] show ?thesis by simp
next
  case (finished row c actor row' db1)
  from finish_store_parts [OF finished(4)] obtain db2 db3 where store: "update_invitation env row' db1 = Inr db2"
    "update_check (c\<lparr>gk_consumed_at := Some (gv_now env)\<rparr>) db2 = Inr db3"
    "record_invitation env (gf_event fresh) row' (if False then ''declined'' else ''accepted'') (map_option au_id actor)
       (iv_request_id data) (version_input data) (False \<and> map_option au_id actor = None) True None db3 = Inr (res, db')" .
  note known = finish_checks_known [OF finished(1)]
  note checks = finish_checks_facts [OF finished(1)]
  note cp = checked_proof_facts [OF checks(2)]
  note fresh = finish_replay_None [OF finished(2)]
  from checks(4) obtain a s p where a: "actor = Some a" "verify_actor env ctx (au_id a) False db = Inr (a, s)" "mfa_verified env s a"
    "invitation_target db row = Inr (Some p)" "au_id p = au_id a" by auto
  note t = invitation_target_facts [OF a(4)]
  from finished(3) a(1) have row': "row' = row\<lparr>gi_status := ''accepted'', gi_version := gi_version row + 1,
      gi_participation_id := Some (gf_id fresh), gi_accepted_by := Some (au_id a), gi_recipient_id := Some (au_id a)\<rparr>"
    and part: "insert_participation env (accepted_participation env fresh row a db) db = Inr db1"
    by (auto simp: finish_row_def split: if_splits)
  have old: "invitation_by_id (gi_id row') db1 = Some row"
    using known insert_participation_frame(1) [OF part] by (simp add: row' invitation_by_id_def)
  have "gd_participations db' = gd_participations db @ [accepted_participation env fresh row a db]"
    using insert_participation_frame(4) [OF part] update_invitation_known(1) [OF store(1) old] update_check_frame(3) [OF store(2)]
      record_invitation_result(5) [OF store(3)] by simp
  moreover have "invitation_by_id k db' = Some row'"
    using update_invitation_known(4) [OF store(1) old] update_check_frame(1) [OF store(2)]
      record_invitation_result(3) [OF store(3)] known by (simp add: invitation_by_id_def row')
  ultimately show ?thesis
    using known checks(1) checks(3) cp fresh a t(1,2) by (intro exI [of _ row] exI [of _ c] exI [of _ a] exI [of _ s]) (auto simp: row')
qed

lemma acceptance_conditions_witness:
  "\<exists>row person. invitation_by_id ''I1'' guest_sample_3 = Some row \<and> gi_status row = ''pending'' \<and> au_id person = 9 \<and>
     gd_participations guest_sample_4 = gd_participations guest_sample_3 @
       [accepted_participation guest_sample_env (guest_sample_fresh ''4'') row person guest_sample_3]"
proof -
  have "previous_operation guest_sample_3 ''I1'' (iv_request_id (guest_sample_version ''q4'' 2)) = None" by code_simp
  from acceptance_conditions [OF guest_sample_finished this] show ?thesis by fastforce
qed

subsection \<open>History and finality\<close>

text \<open>
  C7: The events of an invitation carry the versions 1 to the present one, each once and in order, and the
  last one its state; an accepted invitation names a participation of the accepting person, who is the person
  invited, in its project and until its date, and any other names none.\<close>

theorem invitation_accounted:
  assumes "guest_reachable db" and "invitation_by_id k db = Some i"
  shows "map gn_version (invitation_history db k) = [1..gi_version i] \<and>
     gn_state (last (invitation_history db k)) = gi_status i \<and>
     (if gi_status i = ''accepted''
      then \<exists>p \<in> set (gd_participations db). gi_participation_id i = Some (gp_id p) \<and> gi_recipient_id i = Some (gp_user_id p) \<and>
             gi_accepted_by i = Some (gp_user_id p) \<and> gp_project_id p = gi_project_id i \<and>
             gp_expires_at p = gi_participation_expires_at i
      else gi_accepted_by i = None \<and> gi_participation_id i = None)"
proof -
  have k: "gi_id i = k" using assms(2) by (auto simp: invitation_by_id_def dest: tget_SomeD)
  have "invitation_by_id (gi_id i) db = Some i" using assms(2) k by simp
  note row = guest_rows_row [OF guest_reachable_inv [OF assms(1)] this]
  show ?thesis using row(4,5) by (simp add: outcome_ok_def invitation_history_ok_def k Let_def)
qed

lemma invitation_accounted_witness:
  "map gn_version (invitation_history guest_sample_4 ''I1'') = [1..3] \<and> gi_accepted_by guest_sample_accepted = Some 9 \<and>
   gn_state (last (invitation_history guest_sample_4 ''I1'')) = ''accepted''"
proof -
  have "invitation_by_id ''I1'' guest_sample_4 = Some guest_sample_accepted" by code_simp
  from invitation_accounted [OF guest_sample_reachable(1) this] show ?thesis
    by (auto simp: guest_sample_accepted_def guest_sample_sent_def guest_sample_row_def)
qed

lemma history_prefix:
  assumes "guest_after db db'" and "guest_inv db" and "guest_inv db'"
    and "invitation_by_id k db = Some i" and "invitation_by_id k db' = Some i"
  shows "invitation_history db' k = invitation_history db k"
proof -
  have k: "gi_id i = k" using assms(4) by (auto simp: invitation_by_id_def dest: tget_SomeD)
  from assms(1) obtain es where "gd_events db' = gd_events db @ es" by (auto simp: guest_after_def)
  then have "invitation_history db' k = invitation_history db k @ filter (\<lambda>e. gn_invitation_id e = k) es"
    by (simp add: invitation_history_def)
  moreover have "map gn_version (invitation_history db k) = [1..gi_version i]" "map gn_version (invitation_history db' k) = [1..gi_version i]"
    using guest_rows_row(5) [OF assms(2), of i] guest_rows_row(5) [OF assms(3), of i] assms(4,5) k
    by (auto simp: invitation_history_ok_def Let_def)
  ultimately show ?thesis by simp
qed

text \<open>
  C8: What became of an invitation is final: once accepted, declined, revoked or expired, neither its row
  nor its history changes in anything the service, or another one, does later.\<close>

theorem settled_invitation_final:
  assumes "guest_reachable db" and "guest_step\<^sup>*\<^sup>* db db'" and "invitation_by_id k db = Some i" and "gi_status i \<noteq> ''pending''"
  shows "invitation_by_id k db' = Some i \<and> invitation_history db' k = invitation_history db k"
proof -
  obtain i' where i': "invitation_by_id k db' = Some i'" "invitation_later i i'"
    using guest_steps_later [OF assms(1-3)] by blast
  with assms(4) have "i' = i" by (simp add: invitation_later_def)
  with i' history_prefix [of db db' k i] guest_steps_moves [OF assms(2)] guest_reachable_inv [OF assms(1)] assms(3)
  show ?thesis by (simp add: guest_moves_def)
qed

lemma settled_invitation_final_witness:
  "gd_participations guest_sample_6 \<noteq> gd_participations guest_sample_4 \<and>
   invitation_by_id ''I1'' guest_sample_6 = Some guest_sample_accepted \<and>
   invitation_history guest_sample_6 ''I1'' = invitation_history guest_sample_4 ''I1''"
proof -
  have "invitation_by_id ''I1'' guest_sample_4 = Some guest_sample_accepted" "gi_status guest_sample_accepted \<noteq> ''pending''"
    by code_simp+
  from settled_invitation_final [OF guest_sample_reachable(1) guest_sample_revoked this] show ?thesis
    by (simp add: guest_sample_6_def guest_sample_4_def guest_sample_told_def guest_sample_participation_def)
qed

text \<open>A confirmation keeps its keys as long as there are steps, and is the only one with its secret.\<close>

lemma check_stays:
  assumes "guest_reachable db" and "guest_step\<^sup>*\<^sup>* db db'" and "c \<in> set (gd_checks db)"
  obtains c' where "c' \<in> set (gd_checks db')" and "check_later c c'"
  using guest_steps_moves [OF assms(2)] guest_reachable_inv [OF assms(1)] assms(3) by (auto simp: guest_moves_def guest_after_def)

lemma stale_proof:
  assumes "guest_reachable db" and "guest_step\<^sup>*\<^sup>* db db'" and "invitation_by_id k db = Some i"
    and "c \<in> set (gd_checks db)" and "gk_token_generation c < gi_token_generation i"
    and "secret_digest env proof = gk_proof_hash c" and "invitation_by_id k db' = Some row"
  shows "checked_proof env db' row proof terminal = Inl (raise_cls NotFoundError)"
proof -
  obtain i' where i': "invitation_by_id k db' = Some i'" "invitation_later i i'"
    using guest_steps_later [OF assms(1-3)] by blast
  obtain c' where c': "c' \<in> set (gd_checks db')" "check_later c c'" using check_stays [OF assms(1,2,4)] .
  have gen: "gk_token_generation c' < gi_token_generation row"
    using i' assms(5,7) check_keys [OF c'(2)] by (auto simp: invitation_later_def)
  have "guest_inv db'" by (rule guest_reachable_inv [OF guest_reachable_steps [OF assms(1,2)]])
  then have only: "x = c'" if "x \<in> set (gd_checks db')" "gk_proof_hash x = secret_digest env proof" for x
    using that c'(1) check_keys [OF c'(2)] assms(6) by (auto simp: guest_rows_def distinct_map inj_on_def)
  show ?thesis
    using gen only by (auto simp: checked_proof_def find_Some_iff split: option.splits dest!: only [OF nth_mem])
qed

text \<open>
  C6: Once a newer link was mailed, a confirmation of an older one opens nothing any more: the person behind
  it can neither read, nor register, nor accept, nor decline, however much later and as whomever.\<close>

theorem old_link_useless:
  assumes "guest_reachable db" and "guest_step\<^sup>*\<^sup>* db db'" and "invitation_by_id k db = Some i"
    and "c \<in> set (gd_checks db)" and "gk_token_generation c < gi_token_generation i"
    and "secret_digest env proof = gk_proof_hash c"
  shows "isl (recipient_invitation env ctx k proof user db') \<and>
     isl (register_invited env ctx fresh k proof rdata user db') \<and>
     isl (finish_invitation env ctx fresh k proof data user decline db')"
proof -
  have "\<exists>e. recipient_access ctx k db' = Inl e \<or> (\<exists>row. recipient_access ctx k db' = Inr row \<and>
      (\<forall>terminal. checked_proof env db' row proof terminal = Inl (raise_cls NotFoundError)))"
    using stale_proof [OF assms] by (cases "recipient_access ctx k db'") (auto dest: recipient_access_known)
  then show ?thesis
    by (auto simp: recipient_invitation_def register_invited_def finish_invitation_def finish_checks_def Let_def)
qed

lemma old_link_useless_witness:
  "\<not> isl (guest_sample_accept ''4'' guest_sample_3) \<and> isl (guest_sample_accept ''4'' guest_sample_5)"
proof -
  have "invitation_by_id ''I1'' guest_sample_5 = Some guest_sample_resent" "guest_sample_check \<in> set (gd_checks guest_sample_5)"
    "gk_token_generation guest_sample_check < gi_token_generation guest_sample_resent"
    "secret_digest guest_sample_env ''s3'' = gk_proof_hash guest_sample_check"
    by code_simp+
  then have "isl (guest_sample_accept ''4'' guest_sample_5)"
    using old_link_useless [OF guest_sample_reachable(2) rtranclp.rtrancl_refl] by blast
  then show ?thesis by (simp add: guest_sample_finished)
qed


subsection \<open>The database agrees\<close>

lemma first_or_raise: "(case xs of [] \<Rightarrow> Inl e | t # _ \<Rightarrow> Inr t) = Inr t' \<Longrightarrow> t' \<in> set xs"
  by (cases xs) auto

lemma guest_project_facts:
  assumes "guest_project db project_id = Inr t"
  obtains p x where "p \<in> set (rb_projects (gd_rbac db))" "x \<in> set (rb_tenants (gd_rbac db))" "pj_tenant_id p = t" "tn_id x = t"
    "pj_id p = project_id" "pj_deleted_at p = None" "tn_status x = ''active''"
proof -
  from first_or_raise [OF assms [unfolded guest_project_def]]
  have "\<exists>p \<in> set (rb_projects (gd_rbac db)). \<exists>x \<in> set (rb_tenants (gd_rbac db)). pj_tenant_id p = t \<and> tn_id x = t \<and>
      pj_id p = project_id \<and> pj_deleted_at p = None \<and> tn_status x = ''active''"
    by (simp only: set_concat set_map UN_iff) (auto split: if_split_asm)
  then show thesis using that by blast
qed

lemma owner_tenant_of:
  assumes "distinct (map pj_id (rb_projects db))" and "p \<in> set (rb_projects db)" and "pj_deleted_at p = None"
  shows "owner_tenant db (pj_id p) = Some (pj_tenant_id p)"
proof -
  have "find (\<lambda>q. pj_id q = pj_id p \<and> pj_deleted_at q = None) (rb_projects db) \<noteq> None"
    using assms(2,3) by (auto simp: find_None_iff)
  then obtain q where q: "find (\<lambda>q. pj_id q = pj_id p \<and> pj_deleted_at q = None) (rb_projects db) = Some q" by auto
  then have "q \<in> set (rb_projects db) \<and> pj_id q = pj_id p" by (auto simp: find_Some_iff)
  with assms(1,2) have "q = p" by (auto simp: distinct_map inj_on_def)
  with q show ?thesis by (simp add: owner_tenant_def)
qed

lemma next_generation_above:
  assumes "q \<in> set (gd_participations db)" "gp_project_id q = project_id" "gp_user_id q = user_id"
  shows "gp_generation q < next_generation db project_id user_id"
proof -
  have "gp_generation q \<in> set (map gp_generation (filter (\<lambda>p. gp_project_id p = project_id \<and> gp_user_id p = user_id)
      (gd_participations db)))" using assms by auto
  from fold_max_upper [OF this] show ?thesis by (simp add: next_generation_def)
qed


lemma accepted_participation_inserted:
  assumes inv: "guest_inv db" and ids: "distinct (map pj_id (rb_projects (gd_rbac db)))"
    and fresh: "gf_id fresh \<notin> gp_id ` set (gd_participations db)" and clock: "gv_trigger_clock env = gv_now env"
    and row: "invitation_by_id (gi_id row) db = Some row" and now: "gv_now env < gi_expires_at row"
    and inviter: "inviter db row = Inr ()" and actor: "verify_actor env ctx (au_id a) False db = Inr (a, s)"
    and target: "invitation_target db row = Inr (Some p)" "au_id p = au_id a"
    and free: "\<not> list_ex (\<lambda>p. gp_project_id p = gi_project_id row \<and> gp_user_id p = au_id a \<and> gp_status p = ''active'') (gd_participations db)"
  shows "insert_participation env (accepted_participation env fresh row a db) db =
    Inr (db\<lparr>gd_participations := gd_participations db @ [accepted_participation env fresh row a db]\<rparr>)"
proof -
  let ?p = "accepted_participation env fresh row a db"
  note a = verify_actor_facts [OF actor]
  from inviter obtain t where "guest_project db (gi_project_id row) = Inr t" by (auto simp: inviter_def)
  then obtain q x where q: "q \<in> set (rb_projects (gd_rbac db))" "x \<in> set (rb_tenants (gd_rbac db))" "pj_tenant_id q = t" "tn_id x = t"
    "pj_id q = gi_project_id row" "pj_deleted_at q = None" "tn_status x = ''active''" by (rule guest_project_facts)
  have owner: "owner_tenant (gd_rbac db) (gi_project_id row) = Some t"
    using owner_tenant_of [OF ids q(1,6)] q(3,5) by simp
  have "\<not> list_ex (\<lambda>g. rg_user_id g = au_id a) (adb_review_grants (gd_auth db))"
    using a(11) by (auto simp: tget_None_iff list_ex_iff image_iff)
  moreover have "\<not> list_ex (\<lambda>m. tm_tenant_id m = t \<and> tm_user_id m = au_id a \<and> tm_status m = ''active'') (rb_tenant_members (gd_rbac db))"
    using invitation_target_facts(4) [OF target(1) q(1,5)] q(3) target(2) by (auto simp: list_ex_iff)
  moreover have "list_ex (\<lambda>x. tn_id x = t \<and> tn_status x = ''active'') (rb_tenants (gd_rbac db))"
    using q by (auto simp: list_ex_iff)
  moreover have "list_ex (\<lambda>u. au_id u = au_id a \<and> au_is_active u \<and> au_deleted_at u = None) (adb_users (gd_auth db))"
    using a by (auto simp: list_ex_iff)
  moreover have "gv_now env < gi_participation_expires_at row" using guest_rows_row(3) [OF inv row] now by simp
  ultimately have guard: "participation_insert_guard (gv_trigger_clock env) db ?p"
    by (simp add: participation_insert_guard_def accepted_participation_def clock owner)
  have "\<not> (gp_id x = gp_id ?p \<or> gp_project_id x = gp_project_id ?p \<and> gp_user_id x = gp_user_id ?p \<and>
        (gp_generation x = gp_generation ?p \<or> gp_status x = ''active'' \<and> gp_status ?p = ''active''))"
    if x: "x \<in> set (gd_participations db)" for x
    using fresh free x next_generation_above [OF x, of "gi_project_id row" "au_id a"]
    by (auto simp: list_ex_iff image_iff accepted_participation_def)
  then have "\<not> list_ex (\<lambda>x. gp_id x = gp_id ?p \<or> gp_project_id x = gp_project_id ?p \<and> gp_user_id x = gp_user_id ?p \<and>
        (gp_generation x = gp_generation ?p \<or> gp_status x = ''active'' \<and> gp_status ?p = ''active'')) (gd_participations db)"
    unfolding list_ex_iff by blast
  with guard show ?thesis by (simp add: insert_participation_def)
qed

lemma recorded:
  assumes "gf_event fresh \<notin> gn_id ` set (gd_events db)" and "previous_operation db (gi_id row) rid = None"
    and "actor \<noteq> None \<or> email" and "gd_events db' = gd_events db"
  shows "\<not> isl (record_invitation env (gf_event fresh) row kind actor rid input email True None db')"
  using assms
  by (auto simp: record_invitation_def insert_invitation_event_def event_insert_guard_def previous_operation_def find_None_iff
        list_ex_iff image_iff Let_def)

lemma finish_store_ok:
  assumes old: "invitation_by_id (gi_id row') db = Some row" and guard: "invitation_update_guard (gv_trigger_clock env) db row row'"
    and ok: "invitation_row_ok row'" "gi_status row' \<noteq> ''pending''"
    and c: "c \<in> set (gd_checks db)" "distinct (map gk_id (gd_checks db))" "gk_consumed_at c = None"
    and event: "gf_event fresh \<notin> gn_id ` set (gd_events db)" "previous_operation db (gi_id row') (iv_request_id data) = None"
    and who: "actor_id \<noteq> None \<or> decline"
  shows "\<not> isl (finish_store env fresh row' c kind actor_id decline data db)"
proof -
  let ?db1 = "db\<lparr>gd_invitations := tput gi_id row' (gd_invitations db)\<rparr>"
  have upd: "update_invitation env row' db = Inr ?db1"
    using old guard ok by (simp add: update_invitation_def pending_clash_def list_ex_iff)
  have "\<exists>db2. update_check (c\<lparr>gk_consumed_at := Some (gv_now env)\<rparr>) ?db1 = Inr db2"
  proof -
    have "tget gk_id (gk_id c) (gd_checks db) = Some c" using c by (simp add: tget_Some_iff)
    then show ?thesis using c(3) by (cases c) (simp add: update_check_def check_update_guard_def)
  qed
  then obtain db2 where db2: "update_check (c\<lparr>gk_consumed_at := Some (gv_now env)\<rparr>) ?db1 = Inr db2" by blast
  have "gd_events db2 = gd_events db" using update_check_frame(2) [OF db2] by simp
  moreover have "actor_id \<noteq> None \<or> (decline \<and> actor_id = None)" using who by auto
  ultimately have "\<not> isl (record_invitation env (gf_event fresh) row' kind actor_id (iv_request_id data) (version_input data)
      (decline \<and> actor_id = None) True None db2)"
    by (intro recorded [OF event])
  with upd db2 show ?thesis by (simp add: finish_store_def)
qed

text \<open>Both ways of finishing write a row the trigger accepts.\<close>

lemma finish_row_ok:
  assumes inv: "guest_inv db" and ids: "distinct (map pj_id (rb_projects (gd_rbac db)))"
    and fresh: "gf_id fresh \<notin> gp_id ` set (gd_participations db)" and clock: "gv_trigger_clock env = gv_now env"
    and checks: "finish_checks env ctx k proof user decline db = Inr (row, c, actor)" and pending: "gi_status row = ''pending''"
  shows "(\<exists>e. finish_row env fresh row actor decline db = Inl (Inr e)) \<or>
    (\<exists>row' db1. finish_row env fresh row actor decline db = Inr (row', db1) \<and> gi_id row' = gi_id row \<and>
       gi_status row' \<noteq> ''pending'' \<and> invitation_row_ok row' \<and> invitation_update_guard (gv_trigger_clock env) db1 row row' \<and>
       gd_invitations db1 = gd_invitations db \<and> gd_checks db1 = gd_checks db \<and> gd_events db1 = gd_events db)"
proof (cases decline)
  have known: "invitation_by_id (gi_id row) db = Some row" using finish_checks_known [OF checks] by simp
  note row = guest_rows_row [OF inv known]
  note facts = finish_checks_facts [OF checks]
  have ok: "0 < gi_version row" "0 < gi_token_generation row" "gi_delivery_state row \<in> set delivery_states"
    using row(2) by (auto simp: invitation_row_ok_def)
  {
    case True
    have "gi_accepted_by row = None" "gi_participation_id row = None" using row(4) pending by (auto simp: outcome_ok_def)
    with True ok pending show ?thesis
      by (simp add: finish_row_def invitation_row_ok_def invitation_states_def invitation_update_guard_def
            invitation_fixed_def acceptance_guard_def)
  next
    case False
    from facts(4) [OF False] obtain a s p where a: "actor = Some a" "verify_actor env ctx (au_id a) False db = Inr (a, s)"
      "invitation_target db row = Inr (Some p)" "au_id p = au_id a" by auto
    have now: "gv_now env < gi_expires_at row" by (rule checked_proof_facts(6) [OF facts(2)])
    show ?thesis
    proof (cases "list_ex (\<lambda>p. gp_project_id p = gi_project_id row \<and> gp_user_id p = au_id a \<and> gp_status p = ''active'')
        (gd_participations db)")
      case True
      then show ?thesis using False a(1) by (simp add: finish_row_def)
    next
      case free: False
      note ins = accepted_participation_inserted [OF inv ids fresh clock known now facts(1) a(2,3,4) free]
      have "tget gp_id (gf_id fresh) (gd_participations db @ [accepted_participation env fresh row a db]) =
          Some (accepted_participation env fresh row a db)"
        using fresh by (simp add: tget_append accepted_participation_def tget_None_iff [THEN iffD2])
      moreover have "gi_recipient_id row \<in> {None, Some (au_id a)}" using invitation_target_facts(3) [OF a(3)] a(4) by simp
      moreover have "gv_now env < gi_participation_expires_at row" using row(3) now by simp
      ultimately show ?thesis
        using False a(1) ins free ok pending now
        by (auto simp: finish_row_def invitation_row_ok_def invitation_states_def invitation_update_guard_def
            invitation_fixed_def acceptance_guard_def participation_by_id_def accepted_participation_def clock)
    qed
  }
qed




subsection \<open>Repeating an answer\<close>

lemma find_append: "find P (xs @ ys) = (case find P xs of None \<Rightarrow> find P ys | Some x \<Rightarrow> Some x)"
  by (induction xs) auto

lemma finish_leaves_event:
  assumes "finish_invitation env ctx fresh k proof data user decline db = Inr (res, db')"
  shows "\<exists>e. previous_operation db' k (iv_request_id data) = Some e \<and> gn_result e = res \<and> gn_actor_id e = user \<and>
    gn_request_digest e = input_digest env (if decline then ''declined'' else ''accepted'') (version_input data)"
  using assms
proof (cases rule: finish_invitation_cases)
  case (replayed row c actor)
  note known = finish_checks_known [OF replayed(1)] and who = finish_checks_facts(3) [OF replayed(1)]
  from replayed(2) have "replay_operation env db row (if decline then ''declined'' else ''accepted'') (iv_request_id data)
      (version_input data) (map_option au_id actor) = Inr (Some res)"
    by (auto simp: finish_replay_def split: if_split_asm)
  with known who replayed(3) show ?thesis by (auto simp: replay_operation_def split: option.splits if_split_asm)
next
  case (finished row c actor row' db1)
  note known = finish_checks_known [OF finished(1)] and who = finish_checks_facts(3) [OF finished(1)]
  note none = finish_replay_None(1) [OF finished(2)]
  from finish_store_parts [OF finished(4)] obtain db2 db3 where store: "update_invitation env row' db1 = Inr db2"
    "update_check (c\<lparr>gk_consumed_at := Some (gv_now env)\<rparr>) db2 = Inr db3"
    "record_invitation env (gf_event fresh) row' (if decline then ''declined'' else ''accepted'') (map_option au_id actor)
       (iv_request_id data) (version_input data) (decline \<and> map_option au_id actor = None) True None db3 = Inr (res, db')" .
  have "gd_events db1 = gd_events db"
    using finished(3) by (auto simp: finish_row_def split: if_splits option.splits dest: insert_participation_frame)
  moreover have "gd_events db2 = gd_events db1"
    using store(1) by (auto simp: update_invitation_def split: option.splits if_splits)
  ultimately have events: "gd_events db3 = gd_events db" using update_check_frame(2) [OF store(2)] by simp
  obtain e where e: "gd_events db' = gd_events db @ [e]" "gn_invitation_id e = k" "gn_operation_id e = iv_request_id data"
    "gn_is_root e" "gn_actor_id e = user" "gn_result e = res"
    "gn_request_digest e = input_digest env (if decline then ''declined'' else ''accepted'') (version_input data)"
    using record_invitation_result(2) [OF store(3)] events who known finish_row_moves(3) [OF finished(3)]
    by (auto simp del: if_split)
  have "previous_operation db' k (iv_request_id data) = Some e"
    using none known e by (simp add: previous_operation_def find_append)
  with e show ?thesis by blast
qed

text \<open>
  C10: An answer that is sent again, at any later time and whatever happened since, is never carried out a
  second time: if it is answered at all, it is with the result of the first time, and nothing changes.\<close>

theorem finish_repeated:
  assumes "guest_reachable db" and "finish_invitation env ctx fresh k proof data user decline db = Inr (res, db1)"
    and "guest_step\<^sup>*\<^sup>* db1 db2" and "ae_hmac (gv_auth env2) = ae_hmac (gv_auth env)"
    and "finish_invitation env2 ctx2 fresh2 k proof2 data user decline db2 = Inr (res2, db3)"
  shows "res2 = res \<and> db3 = db2"
proof -
  have "guest_reachable db1" by (rule guest_reachable_steps [OF assms(1)]) (use finish [OF assms(2)] in blast)
  then have "guest_after db1 db2" using guest_steps_moves [OF assms(3)] guest_reachable_inv by (auto simp: guest_moves_def)
  then obtain es where es: "gd_events db2 = gd_events db1 @ es" by (auto simp: guest_after_def)
  obtain e where "previous_operation db1 k (iv_request_id data) = Some e" "gn_result e = res" "gn_actor_id e = user"
    "gn_request_digest e = input_digest env (if decline then ''declined'' else ''accepted'') (version_input data)"
    using finish_leaves_event [OF assms(2)] by blast
  then have e: "previous_operation db2 k (iv_request_id data) = Some e" "gn_result e = res" "gn_actor_id e = user"
    "gn_request_digest e = input_digest env2 (if decline then ''declined'' else ''accepted'') (version_input data)"
    using assms(4) by (simp_all add: previous_operation_def es find_append input_digest_def)
  from assms(5) show ?thesis
  proof (cases rule: finish_invitation_cases)
    case (replayed row c actor)
    then show ?thesis
      using e finish_checks_known [OF replayed(1)] finish_checks_facts(3) [OF replayed(1)]
      by (auto simp: finish_replay_def replay_operation_def simp del: if_split split: if_split_asm)
  next
    case (finished row c actor row' db')
    then show ?thesis
      using e(1) finish_checks_known [OF finished(1)] finish_replay_None(1) [OF finished(2)] by simp
  qed
qed

lemma finish_repeated_witness:
  "\<not> isl (guest_sample_accept ''6'' guest_sample_6) \<and>
   projr (guest_sample_accept ''6'' guest_sample_6) = (guest_sample_result guest_sample_accepted, guest_sample_6)"
proof -
  obtain res2 db3 where again: "guest_sample_accept ''6'' guest_sample_6 = Inr (res2, db3)" using guest_sample_again by blast
  from finish_repeated [OF guest_sample_reachable_3 guest_sample_finished guest_sample_revoked refl again] again
  show ?thesis by simp
qed

end
