(* ===== verification/Spec2Isabelle.thy ===== *)
theory Spec2Isabelle imports Errors Change_Log Task_Queries Trash Auth_System Mail_Delivery Ingress Approval_Properties Requirement_Properties Requirement_Creation Requirement_Versions Guest_Properties begin

text \<open>
  A verification library for the SyncNesto backend, a project management service in Python
  (FastAPI routers, services, SQLAlchemy repositories over PostgreSQL).

  How the program is put together. A request passes the ingress gate and the CSRF check
  (\<^verbatim>\<open>app/core/ingress.py\<close>, \<^verbatim>\<open>app/core/csrf.py\<close>), is authenticated
  (\<^verbatim>\<open>app/core/auth.py\<close>) and reaches a router, which calls one operation of a service
  (\<^verbatim>\<open>app/services\<close>). The service checks the request, reads and writes rows through the
  repositories (\<^verbatim>\<open>app/repositories\<close>), commits, and raises an \<open>AppError\<close> when it refuses;
  the exception handlers turn that into a response.

  How it is modelled. A table is the list of its rows in insertion order, a row is a record with
  the fields of the SQLAlchemy model, the database a record of tables. An operation takes the
  database and answers \<open>app_error + 'a\<close> together with the database, since a refused operation may
  have written (a failed login is counted). What the database adds on its own, the ids of new
  rows, unique constraints and not-null constraints, is part of the repository operations. Python
  integers are \<open>int\<close>, strings are \<open>string\<close>, times are seconds (\<open>int\<close>; the monotonic clock of the
  gate is \<open>rat\<close>). What is not in the repository is an argument: password hashing, digests,
  encryption, the one-time password function, WebAuthn, token decoding, random identifiers, the
  mail service, the object storage, the clock. Laws about them are hypotheses of the theorems that
  need them.

  The theories.

  Shared parts. \<open>Prelude\<close>: Python values and dictionaries, decimal printing, the error monad, keyed
  tables with their laws. \<open>Errors\<close>: the exception classes of \<^verbatim>\<open>app/core/exceptions.py\<close> with
  their inheritance, and the handler of \<^verbatim>\<open>app/core/exception_handlers.py\<close>. \<open>Conflict\<close>:
  \<^verbatim>\<open>app/services/conflict.py\<close> and the locale \<open>versioned\<close>, the contract of optimistic locking
  (one writer per version), interpreted for tasks, dependencies, boards, columns, requirement
  documents, requirements and open issues. \<open>Change_Log\<close>:
  \<^verbatim>\<open>app/services/change_log_formatter.py\<close> with the task and requirement configurations.
  \<open>Evolution\<close>: the locales \<open>evolution\<close> (rows only move forward under a relation and new rows satisfy
  a condition) and \<open>one_shot\<close> (a key that ended stays ended), used by the authentication tables.

  Tasks. \<open>Task_Model\<close> holds the rows of \<^verbatim>\<open>app/models/task.py\<close> and the database; \<open>Task_Code\<close> their
  automatic codes; \<open>Task_Dependency\<close> \<^verbatim>\<open>app/services/task_dependency.py\<close>, where the depth-first
  search for cycles terminates by a measure on the unvisited tasks; \<open>Task_Items\<close> and \<open>Task_Service\<close>
  \<^verbatim>\<open>app/services/task.py\<close> (the code retry is a recursion on the five attempts of the source);
  \<open>Task_Board\<close> \<^verbatim>\<open>app/services/task_board.py\<close>; \<open>Task_Invariants\<close> what each operation keeps;
  \<open>Task_System\<close> the step relation over all requests with the reachable states; \<open>Task_Queries\<close> filters,
  orders and pages; \<open>Trash\<close> restoring a task. Main results: the dependency graph stays acyclic, the
  hierarchy of tasks stays acyclic without restores (and a restore can close a cycle), dates and
  progress agree with the status, codes are unique, of several writers of one version one wins.

  Accounts. \<open>Auth_Model\<close> holds the tables; \<open>Login_Attempt\<close> the throttle and the password check;
  \<open>Demo\<close> the temporary environments; \<open>User_Session\<close> sessions and \<open>get_authenticated_user\<close>;
  \<open>Account_Action\<close> the links sent by mail and the first password; \<open>Mfa\<close> the operations of the second
  factor and \<open>Second_Factor\<close> what it promises; \<open>Auth_System\<close> login and logout and the step relation
  over every operation of these services, with the locales interpreted on it. Main results: what
  ended stays ended, the password alone opens nothing, guessing is bounded at both factors, a change
  of credentials ends every access, an address changes only with both links, an ended demo is
  collected. Identifiers and tokens are fresh in the step relation: its state records those used.

  Limits and delivery. \<open>Rate_Limit\<close> is the shared request budget, \<open>Ingress\<close> the gate with its buckets
  in the process, the shared key and the CSRF check, \<open>Mail_Delivery\<close> the ledger of approval mails with
  claims, leases, retries, crashes at every stage and the operator's resolution. Main results: the
  budget decides exactly, the gate bounds what passes, a settled mail is final, and a delivery
  returns with a smaller rank, whatever fails (the rank is at most four, so no fuel is needed).

  Permissions and approvals. \<open>Rbac\<close> holds the tables of \<^verbatim>\<open>app/models/rbac.py\<close>, the queries and
  decisions of \<^verbatim>\<open>app/services/authorization.py\<close> and the changes of roles; \<open>Canonical_Json\<close> the JSON
  text every content hash is taken of, which determines the value up to the order of keys;
  \<open>Approval_Model\<close> the tables of fixed approvals, releases and preservations with the access checks;
  \<open>Fixed_Approval\<close> the operations of \<^verbatim>\<open>app/services/fixed_approval.py\<close> and
  \<^verbatim>\<open>fixed_approval_scope.py\<close> with their database constraints, notices and retries; \<open>Approval_System\<close>
  the step relation over them and the changes of other services, with the invariant;
  \<open>Approval_Sample\<close> an evaluated history and \<open>Approval_Properties\<close> the results: an approved document
  is agreed requirement by requirement or names its exceptions, a decision is made once, by
  somebody else than the requester, on what was reviewed, and a repeated request is a replay.
  The snapshot of the current sources is an argument; the hash is one too, injective where a
  theorem says so (the samples use a constant or the identity).

  Requirements. \<open>Numbering\<close> is the automatic numbering that tasks, requirements and issues share;
  \<open>Comment_Mention\<close> \<^verbatim>\<open>app/services/comment_mention.py\<close>, whose check by code points is proved to be
  the slice of UTF-16 units the client means. \<open>Requirement_Model\<close> holds the rows of
  \<^verbatim>\<open>app/models/requirement.py\<close>, history entries and notices; \<open>Requirement_Docs\<close> documents, sections and
  standard documents with their receipts; \<open>Requirement_Items\<close> requirements with their revisions and
  open issues with their promotion; \<open>Requirement_Children\<close> details, links, relations, reviews and
  the approvals of the old kind; \<open>Requirement_Comments\<close> the comments on the targets of a document
  with their anchors and threads; \<open>Requirement_Trash\<close> restoring documents, sections and
  requirements. \<open>Requirement_Edits\<close> is the abstract specification: a relation \<open>edit\<close> of what may
  change in one row, with the invariant (ids, codes, places, children, history) every edit keeps;
  \<open>Requirement_System\<close> shows that every operation is a sequence of edits and defines the
  reachable states; \<open>Requirement_Sample\<close> evaluates a history; \<open>Requirement_Properties\<close>,
  \<open>Requirement_Creation\<close> and \<open>Requirement_Versions\<close> hold the results: the revisions of a requirement
  are its complete history, rows stay in their document, comments form threads, codes are
  unique, a standard document is created once, sections are ordered as a whole, of the writers of
  one version one wins, but a promotion can lose an update. Other sessions appear between two
  statements of an operation where it reads again after a rollback or uses a row it has not
  locked (\<open>qe_others\<close>); the hypothesis \<open>sessions_edit\<close> says that they too only do edits.

  Guest invitations. \<open>Guest_Model\<close> holds the rows of \<^verbatim>\<open>app/models/guest_invitation.py\<close> and the
  participations, with what the triggers and indexes of their migrations refuse; \<open>Guest_Invitation\<close>
  the operations of \<^verbatim>\<open>app/services/guest_invitation.py\<close> from the creation over mailing, opening
  and registering to the answer, with the access checks of
  \<^verbatim>\<open>app/services/publication_access_context.py\<close>; \<open>Guest_System\<close> the invariant and the order of
  rows, proved per write and composed to every operation, and the step relation with the changes of
  other services; \<open>Guest_Sample\<close> an evaluated history; \<open>Guest_Properties\<close> the results: the conditions
  of an acceptance, a complete history of versions, finality, replaced links, repeated answers, and
  that what the service decides the database accepts (statements and triggers reading one clock).

  Bounds and termination. Every definition is total: the recursions are structural or have a measure,
  and no fuel is used. The numeric limits (5 code attempts, 3 attempts of an approval, 5
  second-factor failures, 10 files and 20 MiB of a demo, 4 attempts of a mail, 10000 buckets, 240
  and 10 requests a minute) are those of the source.

  What is simplified. Times are seconds and appear as integers where the source writes ISO text;
  strings are sequences of Latin-1 characters (mentions work on code points); the lengths of
  columns and the request validation of Pydantic are left to the types of the inputs; Japanese
  titles of the standard sections are represented by their kinds, and the names in notices are
  left out. The authorization of a router is not part of its operation here. Concurrent sessions
  are modelled where the code reacts to them (versions, code retry, leases, lost races) and in a
  promotion; a transaction is otherwise one step, also in the updates of sections, which check a
  version without a lock.

  Not modelled: requirement agreements, traces, schedules, verification plans and exports, the
  listing and migration of approvals and their guest side, verification
  evidence and verdicts, the creation of artifact releases and their publication, test designs,
  documents and drafts, specifications, projects, tenants and users, task comments and milestones,
  the MCP server, search and the views for display: they are large subsystems of the same
  architecture that are not reached, many of them queries or rendering. Mail transport, object
  storage, database connections, logging and configuration are effects of other systems.
\<close>

end
